(* ===== verification/Prelude.thy ===== *)
theory Prelude
  imports Main "HOL-Library.Word" "HOL-Library.AList"
begin

unbundle bit_operations_syntax

text \<open>
  The base of the development: the machine types of the Rust sources, the error values, the
  parts of the standard library that the components use (byte order, decimal and radix
  parsing, hash maps, saturating arithmetic) with their laws, and the collections of facts
  that carry the component proofs.

  Conventions. An \<open>n\<close>-bit integer is an \<open>n word\<close>; signed integers are words read with
  \<open>sint\<close>. An IEEE-754 value that the code only stores and forwards is kept as its bit pattern
  (\<open>f32\<close>, \<open>f64\<close>). A \<^verbatim>\<open>String\<close> is the list of its UTF-8 bytes. A \<^verbatim>\<open>Vec\<close> is a list. A
  \<^verbatim>\<open>HashMap\<close> is an association list with distinct keys; the list order stands for the
  iteration order, which Rust leaves unspecified, so properties of an iteration are stated
  up to order. Integer \<open>+\<close> wraps, as in the release profile.
\<close>

section \<open>Machine types and errors\<close>

type_synonym u8 = "8 word"
type_synonym u16 = "16 word"
type_synonym u32 = "32 word"
type_synonym u64 = "64 word"
type_synonym i32 = "32 word"
type_synonym f32 = "32 word"
type_synonym f64 = "64 word"
type_synonym bytes = "u8 list"

datatype io_error_kind = ConnectionRefused | ConnectionReset | WouldBlock | OtherKind string

datatype Error =
  Io io_error_kind
| Tls string
| Decode string
| Encode string
| UnknownMessageType u16
| Rejected string
| ConnectionClosed
| QueueClosed
| InvalidState string
| NotEnoughSamples
| OpusCodec string
| Other string

type_synonym 'a result = "Error + 'a"

text \<open>The \<^verbatim>\<open>?\<close> operator: leave with the error, or continue with the value.\<close>

definition and_then :: "'e + 'a \<Rightarrow> ('a \<Rightarrow> 'e + 'b) \<Rightarrow> 'e + 'b" where
  "and_then r f = (case r of Inl e \<Rightarrow> Inl e | Inr a \<Rightarrow> f a)"

named_theorems result_simps \<open>the laws of results\<close>
named_theorems byte_simps \<open>bytes of a word and words of bytes\<close>
named_theorems hm_simps \<open>the laws of hash maps\<close>

lemma and_then_simps [simp, result_simps]:
  "and_then (Inl e) f = Inl e"
  "and_then (Inr a) f = f a"
  by (simp_all add: and_then_def)

lemma and_then_eq_Inr [result_simps]:
  "and_then r f = Inr b \<longleftrightarrow> (\<exists>a. r = Inr a \<and> f a = Inr b)"
  by (cases r) auto

section \<open>Bytes of a word\<close>

text \<open>\<^verbatim>\<open>(x >> k) as u8\<close> and \<^verbatim>\<open>(b as uN) << k\<close>.\<close>

abbreviation byte_of :: "nat \<Rightarrow> 'a::len word \<Rightarrow> u8" where
  "byte_of k x \<equiv> ucast (drop_bit k x)"

abbreviation at_bit :: "nat \<Rightarrow> u8 \<Rightarrow> 'a::len word" where
  "at_bit k b \<equiv> push_bit k (ucast b)"

lemma bit_at_bit_byte_of [byte_simps]:
  "bit (at_bit k (byte_of k x) :: 'a::len word) n \<longleftrightarrow> bit x n \<and> k \<le> n \<and> n < k + 8"
  for x :: "'a::len word"
proof (cases "k \<le> n")
  case True
  then show ?thesis
    using bit_imp_le_length [of x n] by (auto simp: bit_simps)
qed (auto simp: bit_simps)

lemma bit_low_byte [byte_simps]:
  "bit (ucast (ucast x :: u8) :: 'a::len word) n \<longleftrightarrow> bit x n \<and> n < 8"
  for x :: "'a::len word"
  using bit_imp_le_length [of x n] by (auto simp: bit_simps)

text \<open>A word below \<open>2 ^ k\<close> has no bit at or above \<open>k\<close>.\<close>

lemma bit_lt_exp:
  assumes "unat x < 2 ^ k" and "bit x n"
  shows "n < k"
proof (rule ccontr)
  assume "\<not> n < k"
  then have "(2::nat) ^ k \<le> 2 ^ n" by simp
  with assms(1) have "unat x < 2 ^ n" by (rule order.strict_trans2)
  then have "unat x div 2 ^ n = 0" by (rule div_less)
  moreover have "odd (unat x div 2 ^ n)"
  proof -
    have "bit (unat x) n" using assms(2) by (simp add: bit_unsigned_iff)
    then show ?thesis unfolding bit_iff_odd .
  qed
  ultimately show False by simp
qed

definition be16 :: "u16 \<Rightarrow> bytes" where
  "be16 x = [byte_of 8 x, ucast x]"

definition be32 :: "u32 \<Rightarrow> bytes" where
  "be32 x = [byte_of 24 x, byte_of 16 x, byte_of 8 x, ucast x]"

definition be64 :: "u64 \<Rightarrow> bytes" where
  "be64 x = [byte_of 56 x, byte_of 48 x, byte_of 40 x, byte_of 32 x,
             byte_of 24 x, byte_of 16 x, byte_of 8 x, ucast x]"

definition from_be16 :: "u8 \<Rightarrow> u8 \<Rightarrow> u16" where
  "from_be16 a b = at_bit 8 a OR ucast b"

definition from_be32 :: "u8 \<Rightarrow> u8 \<Rightarrow> u8 \<Rightarrow> u8 \<Rightarrow> u32" where
  "from_be32 a b c d = at_bit 24 a OR at_bit 16 b OR at_bit 8 c OR ucast d"

lemma from_be16_be16 [simp]: "from_be16 (byte_of 8 x) (ucast x) = x"
  unfolding from_be16_def
  by (rule bit_word_eqI, unfold bit_or_iff bit_at_bit_byte_of bit_low_byte) auto

lemma from_be32_be32 [simp]:
  "from_be32 (byte_of 24 x) (byte_of 16 x) (byte_of 8 x) (ucast x) = x"
  unfolding from_be32_def
  by (rule bit_word_eqI, unfold bit_or_iff bit_at_bit_byte_of bit_low_byte) auto

lemma length_be [simp]:
  "length (be16 w) = 2" "length (be32 x) = 4" "length (be64 y) = 8"
  by (simp_all add: be16_def be32_def be64_def)

text \<open>The eight shifted bytes of a 64-bit word put together again.\<close>

lemma bytes64_join [byte_simps]:
  "at_bit 56 (byte_of 56 x) OR at_bit 48 (byte_of 48 x) OR at_bit 40 (byte_of 40 x) OR
   at_bit 32 (byte_of 32 x) OR at_bit 24 (byte_of 24 x) OR at_bit 16 (byte_of 16 x) OR
   at_bit 8 (byte_of 8 x) OR ucast (ucast x :: u8) = (x :: u64)"
  by (rule bit_word_eqI, unfold bit_or_iff bit_at_bit_byte_of bit_low_byte) auto

section \<open>Decimal and radix conversion\<close>

text \<open>\<^verbatim>\<open>format!("{n}")\<close> of an unsigned integer.\<close>

definition digit_char :: "nat \<Rightarrow> char" where
  "digit_char d = char_of (48 + d)"

fun show_nat :: "nat \<Rightarrow> string" where
  "show_nat n = (if n < 10 then [digit_char n] else show_nat (n div 10) @ [digit_char (n mod 10)])"

declare show_nat.simps [simp del]

text \<open>\<^verbatim>\<open>char::to_digit\<close> and \<^verbatim>\<open>from_str_radix\<close> of an unsigned type whose values are below
  \<open>bound\<close>: an optional leading \<^verbatim>\<open>+\<close>, then at least one digit; an error on anything else and
  on overflow.\<close>

definition to_digit :: "nat \<Rightarrow> char \<Rightarrow> nat option" where
  "to_digit radix ch =
     (let c = of_char ch;
          d = (if 48 \<le> c \<and> c \<le> 57 then Some (c - 48)
               else if 97 \<le> c \<and> c \<le> 122 then Some (c - 97 + 10)
               else if 65 \<le> c \<and> c \<le> 90 then Some (c - 65 + 10)
               else None)
      in case d of None \<Rightarrow> None | Some v \<Rightarrow> if v < radix then Some v else None)"

fun parse_digits :: "nat \<Rightarrow> nat \<Rightarrow> nat \<Rightarrow> string \<Rightarrow> nat option" where
  "parse_digits radix bound acc [] = Some acc"
| "parse_digits radix bound acc (c # cs) =
     (case to_digit radix c of
        None \<Rightarrow> None
      | Some d \<Rightarrow> if acc * radix + d < bound then parse_digits radix bound (acc * radix + d) cs
                  else None)"

definition from_str_radix :: "nat \<Rightarrow> nat \<Rightarrow> string \<Rightarrow> nat option" where
  "from_str_radix radix bound s =
     (let ds = (case s of c # cs \<Rightarrow> if c = CHR ''+'' then cs else s | [] \<Rightarrow> [])
      in if ds = [] then None else parse_digits radix bound 0 ds)"

lemma of_char_digit_char: "d < 10 \<Longrightarrow> of_char (digit_char d) = 48 + d"
  by (simp add: digit_char_def)

lemma to_digit_digit_char [simp]: "d < 10 \<Longrightarrow> to_digit 10 (digit_char d) = Some d"
  by (simp add: to_digit_def of_char_digit_char)

lemma digit_char_not_plus:
  assumes "d < 10"
  shows "digit_char d \<noteq> CHR ''+''"
proof
  assume "digit_char d = CHR ''+''"
  then have "of_char (digit_char d) = (of_char (CHR ''+'') :: nat)" by simp
  with assms show False by (simp add: of_char_digit_char)
qed

lemma parse_digits_append:
  "parse_digits r b acc (xs @ ys) =
     (case parse_digits r b acc xs of None \<Rightarrow> None | Some a \<Rightarrow> parse_digits r b a ys)"
  by (induction xs arbitrary: acc) (auto split: option.splits)

lemma show_nat_nonempty [simp]: "show_nat n \<noteq> []"
  by (subst show_nat.simps) simp

lemma hd_show_nat_not_plus: "hd (show_nat n) \<noteq> CHR ''+''"
proof (induction n rule: show_nat.induct)
  case (1 n)
  then show ?case
    by (subst show_nat.simps) (simp add: digit_char_not_plus)
qed

lemma parse_digits_show_nat: "n < b \<Longrightarrow> parse_digits 10 b 0 (show_nat n) = Some n"
proof (induction n rule: show_nat.induct)
  case (1 n)
  show ?case
  proof (cases "n < 10")
    case True
    with 1 show ?thesis by (simp add: show_nat.simps [of n])
  next
    case False
    with 1 have "parse_digits 10 b 0 (show_nat (n div 10)) = Some (n div 10)" by simp
    moreover have "n div 10 * 10 + n mod 10 = n" by simp
    ultimately show ?thesis
      using False 1(2) by (simp add: show_nat.simps [of n] parse_digits_append)
  qed
qed

text \<open>Printing a number and parsing it back with \<^verbatim>\<open>str::parse\<close> is the identity within the
  type's range.\<close>

lemma from_str_radix_show_nat: "n < b \<Longrightarrow> from_str_radix 10 b (show_nat n) = Some n"
  using hd_show_nat_not_plus [of n]
  by (cases "show_nat n") (auto simp: from_str_radix_def parse_digits_show_nat [symmetric])

section \<open>Hash maps\<close>

text \<open>
  What the clients of a \<^verbatim>\<open>HashMap\<close> rely on, as an interface: \<open>get\<close>, \<open>insert\<close>, \<open>remove\<close>,
  the entries in iteration order and the well-formedness of the representation.
\<close>

locale hash_map_laws =
  fixes empty :: "'m"
    and get :: "'m \<Rightarrow> 'k \<Rightarrow> 'v option"
    and insert :: "'k \<Rightarrow> 'v \<Rightarrow> 'm \<Rightarrow> 'm"
    and remove :: "'k \<Rightarrow> 'm \<Rightarrow> 'm"
    and entries :: "'m \<Rightarrow> ('k \<times> 'v) list"
    and wf :: "'m \<Rightarrow> bool"
  assumes get_empty: "get empty k = None"
    and get_insert: "get (insert k v m) j = (if j = k then Some v else get m j)"
    and get_remove: "get (remove k m) j = (if j = k then None else get m j)"
    and entries_get: "wf m \<Longrightarrow> (k, v) \<in> set (entries m) \<longleftrightarrow> get m k = Some v"
    and wf_empty: "wf empty"
    and wf_insert: "wf m \<Longrightarrow> wf (insert k v m)"
    and wf_remove: "wf m \<Longrightarrow> wf (remove k m)"
begin

text \<open>A property of all stored entries is kept by inserting an entry that has it, and by removing.\<close>

lemma all_insert:
  assumes "\<forall>j w. get m j = Some w \<longrightarrow> P j w" and "P k v"
  shows "\<forall>j w. get (insert k v m) j = Some w \<longrightarrow> P j w"
  using assms by (auto simp: get_insert)

lemma all_remove:
  assumes "\<forall>j w. get m j = Some w \<longrightarrow> P j w"
  shows "\<forall>j w. get (remove k m) j = Some w \<longrightarrow> P j w"
  using assms by (auto simp: get_remove)

lemma insert_other: "j \<noteq> k \<Longrightarrow> get (insert k v m) j = get m j"
  by (simp add: get_insert)

lemma insert_twice: "get (insert k w (insert k v m)) = get (insert k w m)"
  by (rule ext) (simp add: get_insert)

lemma remove_insert: "get (remove k (insert k v m)) = get (remove k m)"
  by (rule ext) (simp add: get_insert get_remove)

lemma values_all:
  assumes "wf m" and "\<forall>j w. get m j = Some w \<longrightarrow> P j w"
  shows "\<forall>(j, w) \<in> set (entries m). P j w"
  using assms by (auto simp: entries_get)

end

type_synonym ('k, 'v) hash_map = "('k \<times> 'v) list"

abbreviation hm_get :: "('k, 'v) hash_map \<Rightarrow> 'k \<Rightarrow> 'v option" where
  "hm_get m k \<equiv> map_of m k"

abbreviation hm_insert :: "'k \<Rightarrow> 'v \<Rightarrow> ('k, 'v) hash_map \<Rightarrow> ('k, 'v) hash_map" where
  "hm_insert k v m \<equiv> AList.update k v m"

abbreviation hm_remove :: "'k \<Rightarrow> ('k, 'v) hash_map \<Rightarrow> ('k, 'v) hash_map" where
  "hm_remove k m \<equiv> AList.delete k m"

abbreviation hm_values :: "('k, 'v) hash_map \<Rightarrow> 'v list" where
  "hm_values m \<equiv> map snd m"

definition hm_wf :: "('k, 'v) hash_map \<Rightarrow> bool" where
  "hm_wf m \<longleftrightarrow> distinct (map fst m)"

text \<open>\<^verbatim>\<open>entry(k).or_insert_with(|| d)\<close> followed by a mutation of the value; \<^verbatim>\<open>get_mut(k)\<close>
  followed by a mutation; \<^verbatim>\<open>for v in values_mut()\<close>.\<close>

definition hm_entry_modify ::
    "'k \<Rightarrow> 'v \<Rightarrow> ('v \<Rightarrow> 'v) \<Rightarrow> ('k, 'v) hash_map \<Rightarrow> ('k, 'v) hash_map" where
  "hm_entry_modify k d f m =
     hm_insert k (f (case hm_get m k of None \<Rightarrow> d | Some v \<Rightarrow> v)) m"

definition hm_get_mut :: "'k \<Rightarrow> ('v \<Rightarrow> 'v) \<Rightarrow> ('k, 'v) hash_map \<Rightarrow> ('k, 'v) hash_map" where
  "hm_get_mut k f m = (case hm_get m k of None \<Rightarrow> m | Some v \<Rightarrow> hm_insert k (f v) m)"

definition hm_values_mut :: "('v \<Rightarrow> 'v) \<Rightarrow> ('k, 'v) hash_map \<Rightarrow> ('k, 'v) hash_map" where
  "hm_values_mut f m = map (\<lambda>(k, v). (k, f v)) m"

interpretation hm: hash_map_laws "[]" map_of AList.update AList.delete "\<lambda>m. m" hm_wf
proof unfold_locales
  show "map_of (AList.update k v m) j = (if j = k then Some v else map_of m j)"
    for k j :: 'a and v :: 'b and m
    by (simp add: update_conv')
  show "map_of (AList.delete k m) j = (if j = k then None else map_of m j)"
    for k j :: 'a and m :: "('a \<times> 'b) list"
    by (simp add: delete_conv')
  show "((k, v) \<in> set m) = (map_of m k = Some v)" if "hm_wf m" for k :: 'a and v :: 'b and m
    using that by (simp add: hm_wf_def)
  show "hm_wf (AList.update k v m)" if "hm_wf m" for k :: 'a and v :: 'b and m
    using that by (simp add: hm_wf_def distinct_update)
  show "hm_wf (AList.delete k m)" if "hm_wf m" for k :: 'a and m :: "('a \<times> 'b) list"
    using that by (simp add: hm_wf_def distinct_delete)
qed (simp_all add: hm_wf_def)

lemmas hm_get_insert [simp, hm_simps] = hm.get_insert
lemmas hm_get_remove [simp, hm_simps] = hm.get_remove
lemmas hm_wf_intros [intro] = hm.wf_insert hm.wf_remove

lemma hm_wf_Nil [simp]: "hm_wf []"
  by (rule hm.wf_empty)

lemma hm_get_entry_modify [simp, hm_simps]:
  "hm_get (hm_entry_modify k d f m) j =
     (if j = k then Some (f (case hm_get m k of None \<Rightarrow> d | Some v \<Rightarrow> v)) else hm_get m j)"
  by (simp add: hm_entry_modify_def)

lemma hm_get_get_mut [simp, hm_simps]:
  "hm_get (hm_get_mut k f m) j = (if j = k then map_option f (hm_get m k) else hm_get m j)"
  by (simp add: hm_get_mut_def split: option.splits)

lemma hm_get_values_mut [simp, hm_simps]:
  "hm_get (hm_values_mut f m) j = map_option f (hm_get m j)"
  by (induction m) (auto simp: hm_values_mut_def)

lemma hm_wf_modify [intro]:
  "hm_wf m \<Longrightarrow> hm_wf (hm_entry_modify k d f m)"
  "hm_wf m \<Longrightarrow> hm_wf (hm_get_mut k f m)"
  "hm_wf m \<Longrightarrow> hm_wf (hm_values_mut f m)"
proof -
  assume wf: "hm_wf m"
  show "hm_wf (hm_entry_modify k d f m)"
    using wf by (auto simp: hm_entry_modify_def)
  show "hm_wf (hm_get_mut k f m)"
    using wf by (auto simp: hm_get_mut_def split: option.splits)
  have "map fst (hm_values_mut f m) = map fst m"
    by (induction m) (auto simp: hm_values_mut_def)
  then show "hm_wf (hm_values_mut f m)"
    using wf by (simp add: hm_wf_def)
qed

lemma set_hm_values: "hm_wf m \<Longrightarrow> v \<in> set (hm_values m) \<longleftrightarrow> (\<exists>k. hm_get m k = Some v)"
  using hm.entries_get [of m] by force

text \<open>Every stored value carries its own key: the shape of the invariant of the registries of
  the program (users by session, channels by id, configurations by channel).\<close>

definition hm_keyed :: "('v \<Rightarrow> 'k) \<Rightarrow> ('k, 'v) hash_map \<Rightarrow> bool" where
  "hm_keyed key m \<longleftrightarrow> hm_wf m \<and> (\<forall>k v. hm_get m k = Some v \<longrightarrow> key v = k)"

lemma hm_keyed_Nil [simp]: "hm_keyed key []"
  by (simp add: hm_keyed_def)

lemma hm_keyed_insert: "hm_keyed key m \<Longrightarrow> key v = k \<Longrightarrow> hm_keyed key (hm_insert k v m)"
  by (auto simp: hm_keyed_def)

lemma hm_keyed_remove: "hm_keyed key m \<Longrightarrow> hm_keyed key (hm_remove k m)"
  by (auto simp: hm_keyed_def split: if_splits)

lemma hm_keyed_entry_modify:
  assumes "hm_keyed key m" and "key d = k" and "\<And>v. key (f v) = key v"
  shows "hm_keyed key (hm_entry_modify k d f m)"
  using assms by (auto simp: hm_keyed_def split: if_splits option.splits)

lemma hm_keyed_get_mut:
  assumes "hm_keyed key m" and "\<And>v. key (f v) = key v"
  shows "hm_keyed key (hm_get_mut k f m)"
  using assms by (auto simp: hm_keyed_def split: if_splits)

lemma hm_keyed_values_mut:
  assumes "hm_keyed key m" and "\<And>v. key (f v) = key v"
  shows "hm_keyed key (hm_values_mut f m)"
  using assms by (auto simp: hm_keyed_def)

lemmas hm_keyed_intros =
  hm_keyed_insert hm_keyed_remove hm_keyed_entry_modify hm_keyed_get_mut hm_keyed_values_mut

section \<open>Slices\<close>

text \<open>\<^verbatim>\<open>iter().position(p)\<close>.\<close>

fun position :: "('a \<Rightarrow> bool) \<Rightarrow> 'a list \<Rightarrow> nat option" where
  "position p [] = None"
| "position p (x # xs) = (if p x then Some 0 else map_option Suc (position p xs))"

lemma position_Some:
  "position p xs = Some i \<Longrightarrow> i < length xs \<and> p (xs ! i) \<and> (\<forall>j < i. \<not> p (xs ! j))"
proof (induction xs arbitrary: i)
  case (Cons x xs)
  show ?case
  proof (cases "p x")
    case True
    with Cons.prems show ?thesis by simp
  next
    case False
    with Cons.prems obtain k where k: "i = Suc k" "position p xs = Some k" by auto
    from Cons.IH [OF k(2)] k(1) False show ?thesis
      by (auto simp: nth_Cons split: nat.splits)
  qed
qed simp

lemma position_None: "position p xs = None \<longleftrightarrow> (\<forall>x \<in> set xs. \<not> p x)"
  by (induction xs) auto

end
