(* ===== verification/Proto_Control.thy ===== *)
theory Proto_Control
  imports Prelude
begin

text \<open>
  The protobuf messages of the standard Mumble control channel (wire types 0 to 26).
  One record per struct of src/crates/mumble-protocol/src/proto/mumble\_proto.rs, field for field:
  a \<^verbatim>\<open>proto2\<close> optional field is an \<open>option\<close>, a repeated field a list, a required field a
  plain value; a oneof is a datatype. Each record \<open>M\<close> has its \<open>Default::default()\<close> value
  \<open>default_M\<close>, so that \<^verbatim>\<open>M { field: v, ..Default::default() }\<close> of the source is written
  as a record update of \<open>default_M\<close>. Fields carry the message's name as a prefix, because
  record fields share one name space.
\<close>

record Version =
  Version_version_v1 :: "u32 option"
  Version_version_v2 :: "u64 option"
  Version_release :: "string option"
  Version_os :: "string option"
  Version_os_version :: "string option"
  Version_fancy_version :: "u64 option"

definition default_Version :: Version where
  "default_Version = \<lparr>Version_version_v1 = None, Version_version_v2 = None, Version_release = None, Version_os
     = None, Version_os_version = None, Version_fancy_version = None\<rparr>"

record Authenticate =
  Authenticate_username :: "string option"
  Authenticate_password :: "string option"
  Authenticate_tokens :: "string list"
  Authenticate_celt_versions :: "i32 list"
  Authenticate_opus :: "bool option"
  Authenticate_client_type :: "i32 option"

definition default_Authenticate :: Authenticate where
  "default_Authenticate = \<lparr>Authenticate_username = None, Authenticate_password = None, Authenticate_tokens = [],
     Authenticate_celt_versions = [], Authenticate_opus = None, Authenticate_client_type =
     None\<rparr>"

record Ping =
  Ping_timestamp :: "u64 option"
  Ping_good :: "u32 option"
  Ping_late :: "u32 option"
  Ping_lost :: "u32 option"
  Ping_resync :: "u32 option"
  Ping_udp_packets :: "u32 option"
  Ping_tcp_packets :: "u32 option"
  Ping_udp_ping_avg :: "f32 option"
  Ping_udp_ping_var :: "f32 option"
  Ping_tcp_ping_avg :: "f32 option"
  Ping_tcp_ping_var :: "f32 option"

definition default_Ping :: Ping where
  "default_Ping = \<lparr>Ping_timestamp = None, Ping_good = None, Ping_late = None, Ping_lost = None, Ping_resync
     = None, Ping_udp_packets = None, Ping_tcp_packets = None, Ping_udp_ping_avg = None,
     Ping_udp_ping_var = None, Ping_tcp_ping_avg = None, Ping_tcp_ping_var = None\<rparr>"

record Reject =
  Reject_type :: "i32 option"
  Reject_reason :: "string option"

definition default_Reject :: Reject where
  "default_Reject = \<lparr>Reject_type = None, Reject_reason = None\<rparr>"

record ServerSync =
  ServerSync_session :: "u32 option"
  ServerSync_max_bandwidth :: "u32 option"
  ServerSync_welcome_text :: "string option"
  ServerSync_permissions :: "u64 option"

definition default_ServerSync :: ServerSync where
  "default_ServerSync = \<lparr>ServerSync_session = None, ServerSync_max_bandwidth = None, ServerSync_welcome_text =
     None, ServerSync_permissions = None\<rparr>"

record ChannelRemove =
  ChannelRemove_channel_id :: u32

definition default_ChannelRemove :: ChannelRemove where
  "default_ChannelRemove = \<lparr>ChannelRemove_channel_id = 0\<rparr>"

record ChannelState =
  ChannelState_channel_id :: "u32 option"
  ChannelState_parent :: "u32 option"
  ChannelState_name :: "string option"
  ChannelState_links :: "u32 list"
  ChannelState_description :: "string option"
  ChannelState_links_add :: "u32 list"
  ChannelState_links_remove :: "u32 list"
  ChannelState_temporary :: "bool option"
  ChannelState_position :: "i32 option"
  ChannelState_description_hash :: "u8 list option"
  ChannelState_max_users :: "u32 option"
  ChannelState_is_enter_restricted :: "bool option"
  ChannelState_can_enter :: "bool option"
  ChannelState_pchat_protocol :: "i32 option"
  ChannelState_pchat_max_history :: "u32 option"
  ChannelState_pchat_retention_days :: "u32 option"
  ChannelState_pchat_key_custodians :: "string list"

definition default_ChannelState :: ChannelState where
  "default_ChannelState = \<lparr>ChannelState_channel_id = None, ChannelState_parent = None, ChannelState_name = None,
     ChannelState_links = [], ChannelState_description = None, ChannelState_links_add = [],
     ChannelState_links_remove = [], ChannelState_temporary = None, ChannelState_position =
     None, ChannelState_description_hash = None, ChannelState_max_users = None,
     ChannelState_is_enter_restricted = None, ChannelState_can_enter = None,
     ChannelState_pchat_protocol = None, ChannelState_pchat_max_history = None,
     ChannelState_pchat_retention_days = None, ChannelState_pchat_key_custodians = []\<rparr>"

record UserRemove =
  UserRemove_session :: u32
  UserRemove_actor :: "u32 option"
  UserRemove_reason :: "string option"
  UserRemove_ban :: "bool option"
  UserRemove_ban_certificate :: "bool option"
  UserRemove_ban_ip :: "bool option"

definition default_UserRemove :: UserRemove where
  "default_UserRemove = \<lparr>UserRemove_session = 0, UserRemove_actor = None, UserRemove_reason = None,
     UserRemove_ban = None, UserRemove_ban_certificate = None, UserRemove_ban_ip = None\<rparr>"

record UserState_VolumeAdjustment =
  UserState_VolumeAdjustment_listening_channel :: "u32 option"
  UserState_VolumeAdjustment_volume_adjustment :: "f32 option"

definition default_UserState_VolumeAdjustment :: UserState_VolumeAdjustment where
  "default_UserState_VolumeAdjustment = \<lparr>UserState_VolumeAdjustment_listening_channel = None,
     UserState_VolumeAdjustment_volume_adjustment = None\<rparr>"

record UserState =
  UserState_session :: "u32 option"
  UserState_actor :: "u32 option"
  UserState_name :: "string option"
  UserState_user_id :: "u32 option"
  UserState_channel_id :: "u32 option"
  UserState_mute :: "bool option"
  UserState_deaf :: "bool option"
  UserState_suppress :: "bool option"
  UserState_self_mute :: "bool option"
  UserState_self_deaf :: "bool option"
  UserState_texture :: "u8 list option"
  UserState_plugin_context :: "u8 list option"
  UserState_plugin_identity :: "string option"
  UserState_comment :: "string option"
  UserState_hash :: "string option"
  UserState_comment_hash :: "u8 list option"
  UserState_texture_hash :: "u8 list option"
  UserState_priority_speaker :: "bool option"
  UserState_recording :: "bool option"
  UserState_temporary_access_tokens :: "string list"
  UserState_listening_channel_add :: "u32 list"
  UserState_listening_channel_remove :: "u32 list"
  UserState_listening_volume_adjustment :: "UserState_VolumeAdjustment list"
  UserState_client_features :: "i32 list"

definition default_UserState :: UserState where
  "default_UserState = \<lparr>UserState_session = None, UserState_actor = None, UserState_name = None,
     UserState_user_id = None, UserState_channel_id = None, UserState_mute = None,
     UserState_deaf = None, UserState_suppress = None, UserState_self_mute = None,
     UserState_self_deaf = None, UserState_texture = None, UserState_plugin_context = None,
     UserState_plugin_identity = None, UserState_comment = None, UserState_hash = None,
     UserState_comment_hash = None, UserState_texture_hash = None, UserState_priority_speaker
     = None, UserState_recording = None, UserState_temporary_access_tokens = [],
     UserState_listening_channel_add = [], UserState_listening_channel_remove = [],
     UserState_listening_volume_adjustment = [], UserState_client_features = []\<rparr>"

record BanList_BanEntry =
  BanList_BanEntry_address :: "u8 list"
  BanList_BanEntry_mask :: u32
  BanList_BanEntry_name :: "string option"
  BanList_BanEntry_hash :: "string option"
  BanList_BanEntry_reason :: "string option"
  BanList_BanEntry_start :: "string option"
  BanList_BanEntry_duration :: "u32 option"

definition default_BanList_BanEntry :: BanList_BanEntry where
  "default_BanList_BanEntry = \<lparr>BanList_BanEntry_address = [], BanList_BanEntry_mask = 0, BanList_BanEntry_name = None,
     BanList_BanEntry_hash = None, BanList_BanEntry_reason = None, BanList_BanEntry_start =
     None, BanList_BanEntry_duration = None\<rparr>"

record BanList =
  BanList_bans :: "BanList_BanEntry list"
  BanList_query :: "bool option"

definition default_BanList :: BanList where
  "default_BanList = \<lparr>BanList_bans = [], BanList_query = None\<rparr>"

record TextMessage =
  TextMessage_actor :: "u32 option"
  TextMessage_session :: "u32 list"
  TextMessage_channel_id :: "u32 list"
  TextMessage_tree_id :: "u32 list"
  TextMessage_message :: string
  TextMessage_message_id :: "string option"
  TextMessage_timestamp :: "u64 option"
  TextMessage_edit_id :: "string option"
  TextMessage_pin_target :: "string option"
  TextMessage_unpin :: "bool option"

definition default_TextMessage :: TextMessage where
  "default_TextMessage = \<lparr>TextMessage_actor = None, TextMessage_session = [], TextMessage_channel_id = [],
     TextMessage_tree_id = [], TextMessage_message = [], TextMessage_message_id = None,
     TextMessage_timestamp = None, TextMessage_edit_id = None, TextMessage_pin_target = None,
     TextMessage_unpin = None\<rparr>"

record PermissionDenied =
  PermissionDenied_permission :: "u32 option"
  PermissionDenied_channel_id :: "u32 option"
  PermissionDenied_session :: "u32 option"
  PermissionDenied_reason :: "string option"
  PermissionDenied_type :: "i32 option"
  PermissionDenied_name :: "string option"

definition default_PermissionDenied :: PermissionDenied where
  "default_PermissionDenied = \<lparr>PermissionDenied_permission = None, PermissionDenied_channel_id = None,
     PermissionDenied_session = None, PermissionDenied_reason = None, PermissionDenied_type =
     None, PermissionDenied_name = None\<rparr>"

record Acl_ChanGroup_KeyValue =
  Acl_ChanGroup_KeyValue_key :: string
  Acl_ChanGroup_KeyValue_value :: "string option"

definition default_Acl_ChanGroup_KeyValue :: Acl_ChanGroup_KeyValue where
  "default_Acl_ChanGroup_KeyValue = \<lparr>Acl_ChanGroup_KeyValue_key = [], Acl_ChanGroup_KeyValue_value = None\<rparr>"

record Acl_ChanGroup =
  Acl_ChanGroup_name :: string
  Acl_ChanGroup_inherited :: "bool option"
  Acl_ChanGroup_inherit :: "bool option"
  Acl_ChanGroup_inheritable :: "bool option"
  Acl_ChanGroup_add :: "u32 list"
  Acl_ChanGroup_remove :: "u32 list"
  Acl_ChanGroup_inherited_members :: "u32 list"
  Acl_ChanGroup_color :: "string option"
  Acl_ChanGroup_icon :: "u8 list option"
  Acl_ChanGroup_style_preset :: "string option"
  Acl_ChanGroup_metadata :: "Acl_ChanGroup_KeyValue list"

definition default_Acl_ChanGroup :: Acl_ChanGroup where
  "default_Acl_ChanGroup = \<lparr>Acl_ChanGroup_name = [], Acl_ChanGroup_inherited = None, Acl_ChanGroup_inherit = None,
     Acl_ChanGroup_inheritable = None, Acl_ChanGroup_add = [], Acl_ChanGroup_remove = [],
     Acl_ChanGroup_inherited_members = [], Acl_ChanGroup_color = None, Acl_ChanGroup_icon =
     None, Acl_ChanGroup_style_preset = None, Acl_ChanGroup_metadata = []\<rparr>"

record Acl_ChanAcl =
  Acl_ChanAcl_apply_here :: "bool option"
  Acl_ChanAcl_apply_subs :: "bool option"
  Acl_ChanAcl_inherited :: "bool option"
  Acl_ChanAcl_user_id :: "u32 option"
  Acl_ChanAcl_group :: "string option"
  Acl_ChanAcl_grant :: "u32 option"
  Acl_ChanAcl_deny :: "u32 option"

definition default_Acl_ChanAcl :: Acl_ChanAcl where
  "default_Acl_ChanAcl = \<lparr>Acl_ChanAcl_apply_here = None, Acl_ChanAcl_apply_subs = None, Acl_ChanAcl_inherited =
     None, Acl_ChanAcl_user_id = None, Acl_ChanAcl_group = None, Acl_ChanAcl_grant = None,
     Acl_ChanAcl_deny = None\<rparr>"

record Acl =
  Acl_channel_id :: u32
  Acl_inherit_acls :: "bool option"
  Acl_groups :: "Acl_ChanGroup list"
  Acl_acls :: "Acl_ChanAcl list"
  Acl_query :: "bool option"

definition default_Acl :: Acl where
  "default_Acl = \<lparr>Acl_channel_id = 0, Acl_inherit_acls = None, Acl_groups = [], Acl_acls = [], Acl_query =
     None\<rparr>"

record QueryUsers =
  QueryUsers_ids :: "u32 list"
  QueryUsers_names :: "string list"

definition default_QueryUsers :: QueryUsers where
  "default_QueryUsers = \<lparr>QueryUsers_ids = [], QueryUsers_names = []\<rparr>"

record CryptSetup =
  CryptSetup_key :: "u8 list option"
  CryptSetup_client_nonce :: "u8 list option"
  CryptSetup_server_nonce :: "u8 list option"

definition default_CryptSetup :: CryptSetup where
  "default_CryptSetup = \<lparr>CryptSetup_key = None, CryptSetup_client_nonce = None, CryptSetup_server_nonce = None\<rparr>"

record ContextActionModify =
  ContextActionModify_action :: string
  ContextActionModify_text :: "string option"
  ContextActionModify_context :: "u32 option"
  ContextActionModify_operation :: "i32 option"

definition default_ContextActionModify :: ContextActionModify where
  "default_ContextActionModify = \<lparr>ContextActionModify_action = [], ContextActionModify_text = None,
     ContextActionModify_context = None, ContextActionModify_operation = None\<rparr>"

record ContextAction =
  ContextAction_session :: "u32 option"
  ContextAction_channel_id :: "u32 option"
  ContextAction_action :: string

definition default_ContextAction :: ContextAction where
  "default_ContextAction = \<lparr>ContextAction_session = None, ContextAction_channel_id = None, ContextAction_action = []\<rparr>"

record UserList_User =
  UserList_User_user_id :: u32
  UserList_User_name :: "string option"
  UserList_User_last_seen :: "string option"
  UserList_User_last_channel :: "u32 option"
  UserList_User_texture :: "u8 list option"
  UserList_User_comment_hash :: "u8 list option"
  UserList_User_comment :: "string option"

definition default_UserList_User :: UserList_User where
  "default_UserList_User = \<lparr>UserList_User_user_id = 0, UserList_User_name = None, UserList_User_last_seen = None,
     UserList_User_last_channel = None, UserList_User_texture = None,
     UserList_User_comment_hash = None, UserList_User_comment = None\<rparr>"

record UserList =
  UserList_users :: "UserList_User list"

definition default_UserList :: UserList where
  "default_UserList = \<lparr>UserList_users = []\<rparr>"

record VoiceTarget_Target =
  VoiceTarget_Target_session :: "u32 list"
  VoiceTarget_Target_channel_id :: "u32 option"
  VoiceTarget_Target_group :: "string option"
  VoiceTarget_Target_links :: "bool option"
  VoiceTarget_Target_children :: "bool option"

definition default_VoiceTarget_Target :: VoiceTarget_Target where
  "default_VoiceTarget_Target = \<lparr>VoiceTarget_Target_session = [], VoiceTarget_Target_channel_id = None,
     VoiceTarget_Target_group = None, VoiceTarget_Target_links = None,
     VoiceTarget_Target_children = None\<rparr>"

record VoiceTarget =
  VoiceTarget_id :: "u32 option"
  VoiceTarget_targets :: "VoiceTarget_Target list"

definition default_VoiceTarget :: VoiceTarget where
  "default_VoiceTarget = \<lparr>VoiceTarget_id = None, VoiceTarget_targets = []\<rparr>"

record PermissionQuery =
  PermissionQuery_channel_id :: "u32 option"
  PermissionQuery_permissions :: "u32 option"
  PermissionQuery_flush :: "bool option"

definition default_PermissionQuery :: PermissionQuery where
  "default_PermissionQuery = \<lparr>PermissionQuery_channel_id = None, PermissionQuery_permissions = None,
     PermissionQuery_flush = None\<rparr>"

record CodecVersion =
  CodecVersion_alpha :: i32
  CodecVersion_beta :: i32
  CodecVersion_prefer_alpha :: bool
  CodecVersion_opus :: "bool option"

definition default_CodecVersion :: CodecVersion where
  "default_CodecVersion = \<lparr>CodecVersion_alpha = 0, CodecVersion_beta = 0, CodecVersion_prefer_alpha = False,
     CodecVersion_opus = None\<rparr>"

record UserStats_Stats =
  UserStats_Stats_good :: "u32 option"
  UserStats_Stats_late :: "u32 option"
  UserStats_Stats_lost :: "u32 option"
  UserStats_Stats_resync :: "u32 option"

definition default_UserStats_Stats :: UserStats_Stats where
  "default_UserStats_Stats = \<lparr>UserStats_Stats_good = None, UserStats_Stats_late = None, UserStats_Stats_lost = None,
     UserStats_Stats_resync = None\<rparr>"

record UserStats_RollingStats =
  UserStats_RollingStats_time_window :: "u32 option"
  UserStats_RollingStats_from_client :: "UserStats_Stats option"
  UserStats_RollingStats_from_server :: "UserStats_Stats option"

definition default_UserStats_RollingStats :: UserStats_RollingStats where
  "default_UserStats_RollingStats = \<lparr>UserStats_RollingStats_time_window = None, UserStats_RollingStats_from_client = None,
     UserStats_RollingStats_from_server = None\<rparr>"

record UserStats =
  UserStats_session :: "u32 option"
  UserStats_stats_only :: "bool option"
  UserStats_certificates :: "u8 list list"
  UserStats_from_client :: "UserStats_Stats option"
  UserStats_from_server :: "UserStats_Stats option"
  UserStats_udp_packets :: "u32 option"
  UserStats_tcp_packets :: "u32 option"
  UserStats_udp_ping_avg :: "f32 option"
  UserStats_udp_ping_var :: "f32 option"
  UserStats_tcp_ping_avg :: "f32 option"
  UserStats_tcp_ping_var :: "f32 option"
  UserStats_version :: "Version option"
  UserStats_celt_versions :: "i32 list"
  UserStats_address :: "u8 list option"
  UserStats_bandwidth :: "u32 option"
  UserStats_onlinesecs :: "u32 option"
  UserStats_idlesecs :: "u32 option"
  UserStats_strong_certificate :: "bool option"
  UserStats_opus :: "bool option"
  UserStats_rolling_stats :: "UserStats_RollingStats option"

definition default_UserStats :: UserStats where
  "default_UserStats = \<lparr>UserStats_session = None, UserStats_stats_only = None, UserStats_certificates = [],
     UserStats_from_client = None, UserStats_from_server = None, UserStats_udp_packets =
     None, UserStats_tcp_packets = None, UserStats_udp_ping_avg = None,
     UserStats_udp_ping_var = None, UserStats_tcp_ping_avg = None, UserStats_tcp_ping_var =
     None, UserStats_version = None, UserStats_celt_versions = [], UserStats_address = None,
     UserStats_bandwidth = None, UserStats_onlinesecs = None, UserStats_idlesecs = None,
     UserStats_strong_certificate = None, UserStats_opus = None, UserStats_rolling_stats =
     None\<rparr>"

record RequestBlob =
  RequestBlob_session_texture :: "u32 list"
  RequestBlob_session_comment :: "u32 list"
  RequestBlob_channel_description :: "u32 list"
  RequestBlob_user_id_comment :: "u32 list"

definition default_RequestBlob :: RequestBlob where
  "default_RequestBlob = \<lparr>RequestBlob_session_texture = [], RequestBlob_session_comment = [],
     RequestBlob_channel_description = [], RequestBlob_user_id_comment = []\<rparr>"

record ServerConfig =
  ServerConfig_max_bandwidth :: "u32 option"
  ServerConfig_welcome_text :: "string option"
  ServerConfig_allow_html :: "bool option"
  ServerConfig_message_length :: "u32 option"
  ServerConfig_image_message_length :: "u32 option"
  ServerConfig_max_users :: "u32 option"
  ServerConfig_recording_allowed :: "bool option"
  ServerConfig_webrtc_sfu_available :: "bool option"
  ServerConfig_fancy_rest_api_url :: "string option"

definition default_ServerConfig :: ServerConfig where
  "default_ServerConfig = \<lparr>ServerConfig_max_bandwidth = None, ServerConfig_welcome_text = None,
     ServerConfig_allow_html = None, ServerConfig_message_length = None,
     ServerConfig_image_message_length = None, ServerConfig_max_users = None,
     ServerConfig_recording_allowed = None, ServerConfig_webrtc_sfu_available = None,
     ServerConfig_fancy_rest_api_url = None\<rparr>"

record SuggestConfig =
  SuggestConfig_version_v1 :: "u32 option"
  SuggestConfig_version_v2 :: "u64 option"
  SuggestConfig_positional :: "bool option"
  SuggestConfig_push_to_talk :: "bool option"

definition default_SuggestConfig :: SuggestConfig where
  "default_SuggestConfig = \<lparr>SuggestConfig_version_v1 = None, SuggestConfig_version_v2 = None,
     SuggestConfig_positional = None, SuggestConfig_push_to_talk = None\<rparr>"

record PluginDataTransmission =
  PluginDataTransmission_sender_session :: "u32 option"
  PluginDataTransmission_receiver_sessions :: "u32 list"
  PluginDataTransmission_data :: "u8 list option"
  PluginDataTransmission_data_id :: "string option"

definition default_PluginDataTransmission :: PluginDataTransmission where
  "default_PluginDataTransmission = \<lparr>PluginDataTransmission_sender_session = None, PluginDataTransmission_receiver_sessions =
     [], PluginDataTransmission_data = None, PluginDataTransmission_data_id = None\<rparr>"

lemmas proto_control_defaults =
  default_Version_def
  default_Authenticate_def
  default_Ping_def
  default_Reject_def
  default_ServerSync_def
  default_ChannelRemove_def
  default_ChannelState_def
  default_UserRemove_def
  default_UserState_VolumeAdjustment_def
  default_UserState_def
  default_BanList_BanEntry_def
  default_BanList_def
  default_TextMessage_def
  default_PermissionDenied_def
  default_Acl_ChanGroup_KeyValue_def
  default_Acl_ChanGroup_def
  default_Acl_ChanAcl_def
  default_Acl_def
  default_QueryUsers_def
  default_CryptSetup_def
  default_ContextActionModify_def
  default_ContextAction_def
  default_UserList_User_def
  default_UserList_def
  default_VoiceTarget_Target_def
  default_VoiceTarget_def
  default_PermissionQuery_def
  default_CodecVersion_def
  default_UserStats_Stats_def
  default_UserStats_RollingStats_def
  default_UserStats_def
  default_RequestBlob_def
  default_ServerConfig_def
  default_SuggestConfig_def
  default_PluginDataTransmission_def

end
