(* ===== verification/Proto_Pchat.thy ===== *)
theory Proto_Pchat
  imports Prelude
begin

text \<open>
  The protobuf messages of the persistent-chat extension (wire types 100 to 130).
  One record per struct of src/crates/mumble-protocol/src/proto/mumble\_proto.rs, field for field:
  a \<^verbatim>\<open>proto2\<close> optional field is an \<open>option\<close>, a repeated field a list, a required field a
  plain value; a oneof is a datatype. Each record \<open>M\<close> has its \<open>Default::default()\<close> value
  \<open>default_M\<close>, so that \<^verbatim>\<open>M { field: v, ..Default::default() }\<close> of the source is written
  as a record update of \<open>default_M\<close>. Fields carry the message's name as a prefix, because
  record fields share one name space.
\<close>

record PchatMessage =
  PchatMessage_message_id :: "string option"
  PchatMessage_channel_id :: "u32 option"
  PchatMessage_timestamp :: "u64 option"
  PchatMessage_sender_hash :: "string option"
  PchatMessage_protocol :: "i32 option"
  PchatMessage_envelope :: "u8 list option"
  PchatMessage_epoch :: "u32 option"
  PchatMessage_chain_index :: "u32 option"
  PchatMessage_epoch_fingerprint :: "u8 list option"
  PchatMessage_replaces_id :: "string option"

definition default_PchatMessage :: PchatMessage where
  "default_PchatMessage = \<lparr>PchatMessage_message_id = None, PchatMessage_channel_id = None, PchatMessage_timestamp =
     None, PchatMessage_sender_hash = None, PchatMessage_protocol = None,
     PchatMessage_envelope = None, PchatMessage_epoch = None, PchatMessage_chain_index =
     None, PchatMessage_epoch_fingerprint = None, PchatMessage_replaces_id = None\<rparr>"

record PchatFetch =
  PchatFetch_channel_id :: "u32 option"
  PchatFetch_before_id :: "string option"
  PchatFetch_limit :: "u32 option"
  PchatFetch_after_id :: "string option"

definition default_PchatFetch :: PchatFetch where
  "default_PchatFetch = \<lparr>PchatFetch_channel_id = None, PchatFetch_before_id = None, PchatFetch_limit = None,
     PchatFetch_after_id = None\<rparr>"

record PchatFetchResponse =
  PchatFetchResponse_channel_id :: "u32 option"
  PchatFetchResponse_messages :: "PchatMessage list"
  PchatFetchResponse_has_more :: "bool option"
  PchatFetchResponse_total_stored :: "u32 option"

definition default_PchatFetchResponse :: PchatFetchResponse where
  "default_PchatFetchResponse = \<lparr>PchatFetchResponse_channel_id = None, PchatFetchResponse_messages = [],
     PchatFetchResponse_has_more = None, PchatFetchResponse_total_stored = None\<rparr>"

record PchatMessageDeliver =
  PchatMessageDeliver_message_id :: "string option"
  PchatMessageDeliver_channel_id :: "u32 option"
  PchatMessageDeliver_timestamp :: "u64 option"
  PchatMessageDeliver_sender_hash :: "string option"
  PchatMessageDeliver_protocol :: "i32 option"
  PchatMessageDeliver_envelope :: "u8 list option"
  PchatMessageDeliver_replaces_id :: "string option"

definition default_PchatMessageDeliver :: PchatMessageDeliver where
  "default_PchatMessageDeliver = \<lparr>PchatMessageDeliver_message_id = None, PchatMessageDeliver_channel_id = None,
     PchatMessageDeliver_timestamp = None, PchatMessageDeliver_sender_hash = None,
     PchatMessageDeliver_protocol = None, PchatMessageDeliver_envelope = None,
     PchatMessageDeliver_replaces_id = None\<rparr>"

record PchatKeyAnnounce =
  PchatKeyAnnounce_algorithm_version :: "u32 option"
  PchatKeyAnnounce_identity_public :: "u8 list option"
  PchatKeyAnnounce_signing_public :: "u8 list option"
  PchatKeyAnnounce_cert_hash :: "string option"
  PchatKeyAnnounce_timestamp :: "u64 option"
  PchatKeyAnnounce_signature :: "u8 list option"
  PchatKeyAnnounce_tls_signature :: "u8 list option"

definition default_PchatKeyAnnounce :: PchatKeyAnnounce where
  "default_PchatKeyAnnounce = \<lparr>PchatKeyAnnounce_algorithm_version = None, PchatKeyAnnounce_identity_public = None,
     PchatKeyAnnounce_signing_public = None, PchatKeyAnnounce_cert_hash = None,
     PchatKeyAnnounce_timestamp = None, PchatKeyAnnounce_signature = None,
     PchatKeyAnnounce_tls_signature = None\<rparr>"

record PchatKeyExchange =
  PchatKeyExchange_channel_id :: "u32 option"
  PchatKeyExchange_protocol :: "i32 option"
  PchatKeyExchange_epoch :: "u32 option"
  PchatKeyExchange_encrypted_key :: "u8 list option"
  PchatKeyExchange_sender_hash :: "string option"
  PchatKeyExchange_recipient_hash :: "string option"
  PchatKeyExchange_request_id :: "string option"
  PchatKeyExchange_timestamp :: "u64 option"
  PchatKeyExchange_algorithm_version :: "u32 option"
  PchatKeyExchange_signature :: "u8 list option"
  PchatKeyExchange_parent_fingerprint :: "u8 list option"
  PchatKeyExchange_epoch_fingerprint :: "u8 list option"
  PchatKeyExchange_countersignature :: "u8 list option"
  PchatKeyExchange_countersigner_hash :: "string option"

definition default_PchatKeyExchange :: PchatKeyExchange where
  "default_PchatKeyExchange = \<lparr>PchatKeyExchange_channel_id = None, PchatKeyExchange_protocol = None,
     PchatKeyExchange_epoch = None, PchatKeyExchange_encrypted_key = None,
     PchatKeyExchange_sender_hash = None, PchatKeyExchange_recipient_hash = None,
     PchatKeyExchange_request_id = None, PchatKeyExchange_timestamp = None,
     PchatKeyExchange_algorithm_version = None, PchatKeyExchange_signature = None,
     PchatKeyExchange_parent_fingerprint = None, PchatKeyExchange_epoch_fingerprint = None,
     PchatKeyExchange_countersignature = None, PchatKeyExchange_countersigner_hash = None\<rparr>"

record PchatKeyRequest =
  PchatKeyRequest_channel_id :: "u32 option"
  PchatKeyRequest_protocol :: "i32 option"
  PchatKeyRequest_requester_hash :: "string option"
  PchatKeyRequest_requester_public :: "u8 list option"
  PchatKeyRequest_request_id :: "string option"
  PchatKeyRequest_timestamp :: "u64 option"
  PchatKeyRequest_relay_cap :: "u32 option"

definition default_PchatKeyRequest :: PchatKeyRequest where
  "default_PchatKeyRequest = \<lparr>PchatKeyRequest_channel_id = None, PchatKeyRequest_protocol = None,
     PchatKeyRequest_requester_hash = None, PchatKeyRequest_requester_public = None,
     PchatKeyRequest_request_id = None, PchatKeyRequest_timestamp = None,
     PchatKeyRequest_relay_cap = None\<rparr>"

record PchatAck =
  PchatAck_message_ids :: "string list"
  PchatAck_status :: "i32 option"
  PchatAck_reason :: "string option"
  PchatAck_channel_id :: "u32 option"

definition default_PchatAck :: PchatAck where
  "default_PchatAck = \<lparr>PchatAck_message_ids = [], PchatAck_status = None, PchatAck_reason = None,
     PchatAck_channel_id = None\<rparr>"

record PchatEpochCountersig =
  PchatEpochCountersig_channel_id :: "u32 option"
  PchatEpochCountersig_epoch :: "u32 option"
  PchatEpochCountersig_epoch_fingerprint :: "u8 list option"
  PchatEpochCountersig_parent_fingerprint :: "u8 list option"
  PchatEpochCountersig_signer_hash :: "string option"
  PchatEpochCountersig_distributor_hash :: "string option"
  PchatEpochCountersig_timestamp :: "u64 option"
  PchatEpochCountersig_countersignature :: "u8 list option"

definition default_PchatEpochCountersig :: PchatEpochCountersig where
  "default_PchatEpochCountersig = \<lparr>PchatEpochCountersig_channel_id = None, PchatEpochCountersig_epoch = None,
     PchatEpochCountersig_epoch_fingerprint = None, PchatEpochCountersig_parent_fingerprint =
     None, PchatEpochCountersig_signer_hash = None, PchatEpochCountersig_distributor_hash =
     None, PchatEpochCountersig_timestamp = None, PchatEpochCountersig_countersignature =
     None\<rparr>"

record PchatKeyHolderReport =
  PchatKeyHolderReport_channel_id :: "u32 option"
  PchatKeyHolderReport_cert_hash :: "string option"
  PchatKeyHolderReport_takeover_mode :: "i32 option"

definition default_PchatKeyHolderReport :: PchatKeyHolderReport where
  "default_PchatKeyHolderReport = \<lparr>PchatKeyHolderReport_channel_id = None, PchatKeyHolderReport_cert_hash = None,
     PchatKeyHolderReport_takeover_mode = None\<rparr>"

record PchatKeyHoldersQuery =
  PchatKeyHoldersQuery_channel_id :: "u32 option"

definition default_PchatKeyHoldersQuery :: PchatKeyHoldersQuery where
  "default_PchatKeyHoldersQuery = \<lparr>PchatKeyHoldersQuery_channel_id = None\<rparr>"

record PchatKeyHoldersList_Entry =
  PchatKeyHoldersList_Entry_cert_hash :: "string option"
  PchatKeyHoldersList_Entry_name :: "string option"

definition default_PchatKeyHoldersList_Entry :: PchatKeyHoldersList_Entry where
  "default_PchatKeyHoldersList_Entry = \<lparr>PchatKeyHoldersList_Entry_cert_hash = None, PchatKeyHoldersList_Entry_name = None\<rparr>"

record PchatKeyHoldersList =
  PchatKeyHoldersList_channel_id :: "u32 option"
  PchatKeyHoldersList_holders :: "PchatKeyHoldersList_Entry list"

definition default_PchatKeyHoldersList :: PchatKeyHoldersList where
  "default_PchatKeyHoldersList = \<lparr>PchatKeyHoldersList_channel_id = None, PchatKeyHoldersList_holders = []\<rparr>"

record PchatKeyChallenge =
  PchatKeyChallenge_channel_id :: "u32 option"
  PchatKeyChallenge_challenge :: "u8 list option"

definition default_PchatKeyChallenge :: PchatKeyChallenge where
  "default_PchatKeyChallenge = \<lparr>PchatKeyChallenge_channel_id = None, PchatKeyChallenge_challenge = None\<rparr>"

record PchatKeyChallengeResponse =
  PchatKeyChallengeResponse_channel_id :: "u32 option"
  PchatKeyChallengeResponse_proof :: "u8 list option"

definition default_PchatKeyChallengeResponse :: PchatKeyChallengeResponse where
  "default_PchatKeyChallengeResponse = \<lparr>PchatKeyChallengeResponse_channel_id = None, PchatKeyChallengeResponse_proof = None\<rparr>"

record PchatKeyChallengeResult =
  PchatKeyChallengeResult_channel_id :: "u32 option"
  PchatKeyChallengeResult_passed :: "bool option"

definition default_PchatKeyChallengeResult :: PchatKeyChallengeResult where
  "default_PchatKeyChallengeResult = \<lparr>PchatKeyChallengeResult_channel_id = None, PchatKeyChallengeResult_passed = None\<rparr>"

record PchatDeleteMessages_TimeRange =
  PchatDeleteMessages_TimeRange_from :: "u64 option"
  PchatDeleteMessages_TimeRange_to :: "u64 option"

definition default_PchatDeleteMessages_TimeRange :: PchatDeleteMessages_TimeRange where
  "default_PchatDeleteMessages_TimeRange = \<lparr>PchatDeleteMessages_TimeRange_from = None, PchatDeleteMessages_TimeRange_to = None\<rparr>"

record PchatDeleteMessages =
  PchatDeleteMessages_channel_id :: "u32 option"
  PchatDeleteMessages_message_ids :: "string list"
  PchatDeleteMessages_time_range :: "PchatDeleteMessages_TimeRange option"
  PchatDeleteMessages_sender_hash :: "string option"

definition default_PchatDeleteMessages :: PchatDeleteMessages where
  "default_PchatDeleteMessages = \<lparr>PchatDeleteMessages_channel_id = None, PchatDeleteMessages_message_ids = [],
     PchatDeleteMessages_time_range = None, PchatDeleteMessages_sender_hash = None\<rparr>"

record PchatSenderKeyDistribution =
  PchatSenderKeyDistribution_channel_id :: "u32 option"
  PchatSenderKeyDistribution_sender_hash :: "string option"
  PchatSenderKeyDistribution_distribution :: "u8 list option"

definition default_PchatSenderKeyDistribution :: PchatSenderKeyDistribution where
  "default_PchatSenderKeyDistribution = \<lparr>PchatSenderKeyDistribution_channel_id = None, PchatSenderKeyDistribution_sender_hash =
     None, PchatSenderKeyDistribution_distribution = None\<rparr>"

record PchatOfflineQueueDrain =
  PchatOfflineQueueDrain_channel_id :: "u32 option"
  PchatOfflineQueueDrain_messages :: "PchatMessageDeliver list"
  PchatOfflineQueueDrain_distributions :: "PchatSenderKeyDistribution list"

definition default_PchatOfflineQueueDrain :: PchatOfflineQueueDrain where
  "default_PchatOfflineQueueDrain = \<lparr>PchatOfflineQueueDrain_channel_id = None, PchatOfflineQueueDrain_messages = [],
     PchatOfflineQueueDrain_distributions = []\<rparr>"

record UnicodeEmoji =
  UnicodeEmoji_grapheme :: "string option"

definition default_UnicodeEmoji :: UnicodeEmoji where
  "default_UnicodeEmoji = \<lparr>UnicodeEmoji_grapheme = None\<rparr>"

record ServerEmoji =
  ServerEmoji_shortcode :: "u8 list option"

definition default_ServerEmoji :: ServerEmoji where
  "default_ServerEmoji = \<lparr>ServerEmoji_shortcode = None\<rparr>"

datatype PchatReaction_Emoji =
  PchatReaction_Emoji_UnicodeEmoji UnicodeEmoji
| PchatReaction_Emoji_ServerEmoji ServerEmoji

record PchatReaction =
  PchatReaction_channel_id :: "u32 option"
  PchatReaction_message_id :: "string option"
  PchatReaction_action :: "i32 option"
  PchatReaction_sender_hash :: "string option"
  PchatReaction_timestamp :: "u64 option"
  PchatReaction_emoji :: "PchatReaction_Emoji option"

definition default_PchatReaction :: PchatReaction where
  "default_PchatReaction = \<lparr>PchatReaction_channel_id = None, PchatReaction_message_id = None, PchatReaction_action =
     None, PchatReaction_sender_hash = None, PchatReaction_timestamp = None,
     PchatReaction_emoji = None\<rparr>"

datatype PchatReactionDeliver_Emoji =
  PchatReactionDeliver_Emoji_UnicodeEmoji UnicodeEmoji
| PchatReactionDeliver_Emoji_ServerEmoji ServerEmoji

record PchatReactionDeliver =
  PchatReactionDeliver_channel_id :: "u32 option"
  PchatReactionDeliver_message_id :: "string option"
  PchatReactionDeliver_action :: "i32 option"
  PchatReactionDeliver_sender_hash :: "string option"
  PchatReactionDeliver_sender_name :: "string option"
  PchatReactionDeliver_timestamp :: "u64 option"
  PchatReactionDeliver_emoji :: "PchatReactionDeliver_Emoji option"

definition default_PchatReactionDeliver :: PchatReactionDeliver where
  "default_PchatReactionDeliver = \<lparr>PchatReactionDeliver_channel_id = None, PchatReactionDeliver_message_id = None,
     PchatReactionDeliver_action = None, PchatReactionDeliver_sender_hash = None,
     PchatReactionDeliver_sender_name = None, PchatReactionDeliver_timestamp = None,
     PchatReactionDeliver_emoji = None\<rparr>"

datatype PchatReactionFetchResponse_StoredReaction_Emoji =
  PchatReactionFetchResponse_StoredReaction_Emoji_UnicodeEmoji UnicodeEmoji
| PchatReactionFetchResponse_StoredReaction_Emoji_ServerEmoji ServerEmoji

record PchatReactionFetchResponse_StoredReaction =
  PchatReactionFetchResponse_StoredReaction_message_id :: "string option"
  PchatReactionFetchResponse_StoredReaction_sender_hash :: "string option"
  PchatReactionFetchResponse_StoredReaction_sender_name :: "string option"
  PchatReactionFetchResponse_StoredReaction_timestamp :: "u64 option"
  PchatReactionFetchResponse_StoredReaction_emoji :: "PchatReactionFetchResponse_StoredReaction_Emoji option"

definition default_PchatReactionFetchResponse_StoredReaction :: PchatReactionFetchResponse_StoredReaction where
  "default_PchatReactionFetchResponse_StoredReaction = \<lparr>PchatReactionFetchResponse_StoredReaction_message_id = None,
     PchatReactionFetchResponse_StoredReaction_sender_hash = None,
     PchatReactionFetchResponse_StoredReaction_sender_name = None,
     PchatReactionFetchResponse_StoredReaction_timestamp = None,
     PchatReactionFetchResponse_StoredReaction_emoji = None\<rparr>"

record PchatReactionFetchResponse =
  PchatReactionFetchResponse_channel_id :: "u32 option"
  PchatReactionFetchResponse_reactions :: "PchatReactionFetchResponse_StoredReaction list"

definition default_PchatReactionFetchResponse :: PchatReactionFetchResponse where
  "default_PchatReactionFetchResponse = \<lparr>PchatReactionFetchResponse_channel_id = None, PchatReactionFetchResponse_reactions = []\<rparr>"

record PchatPin =
  PchatPin_channel_id :: "u32 option"
  PchatPin_message_id :: "string option"
  PchatPin_sender_hash :: "string option"
  PchatPin_unpin :: "bool option"
  PchatPin_timestamp :: "u64 option"

definition default_PchatPin :: PchatPin where
  "default_PchatPin = \<lparr>PchatPin_channel_id = None, PchatPin_message_id = None, PchatPin_sender_hash = None,
     PchatPin_unpin = None, PchatPin_timestamp = None\<rparr>"

record PchatPinDeliver =
  PchatPinDeliver_channel_id :: "u32 option"
  PchatPinDeliver_message_id :: "string option"
  PchatPinDeliver_pinner_hash :: "string option"
  PchatPinDeliver_pinner_name :: "string option"
  PchatPinDeliver_unpin :: "bool option"
  PchatPinDeliver_timestamp :: "u64 option"

definition default_PchatPinDeliver :: PchatPinDeliver where
  "default_PchatPinDeliver = \<lparr>PchatPinDeliver_channel_id = None, PchatPinDeliver_message_id = None,
     PchatPinDeliver_pinner_hash = None, PchatPinDeliver_pinner_name = None,
     PchatPinDeliver_unpin = None, PchatPinDeliver_timestamp = None\<rparr>"

record PchatPinFetchResponse_PinnedMessage =
  PchatPinFetchResponse_PinnedMessage_message_id :: "string option"
  PchatPinFetchResponse_PinnedMessage_pinner_hash :: "string option"
  PchatPinFetchResponse_PinnedMessage_pinner_name :: "string option"
  PchatPinFetchResponse_PinnedMessage_timestamp :: "u64 option"

definition default_PchatPinFetchResponse_PinnedMessage :: PchatPinFetchResponse_PinnedMessage where
  "default_PchatPinFetchResponse_PinnedMessage = \<lparr>PchatPinFetchResponse_PinnedMessage_message_id = None,
     PchatPinFetchResponse_PinnedMessage_pinner_hash = None,
     PchatPinFetchResponse_PinnedMessage_pinner_name = None,
     PchatPinFetchResponse_PinnedMessage_timestamp = None\<rparr>"

record PchatPinFetchResponse =
  PchatPinFetchResponse_channel_id :: "u32 option"
  PchatPinFetchResponse_pins :: "PchatPinFetchResponse_PinnedMessage list"

definition default_PchatPinFetchResponse :: PchatPinFetchResponse where
  "default_PchatPinFetchResponse = \<lparr>PchatPinFetchResponse_channel_id = None, PchatPinFetchResponse_pins = []\<rparr>"

lemmas proto_pchat_defaults =
  default_PchatMessage_def
  default_PchatFetch_def
  default_PchatFetchResponse_def
  default_PchatMessageDeliver_def
  default_PchatKeyAnnounce_def
  default_PchatKeyExchange_def
  default_PchatKeyRequest_def
  default_PchatAck_def
  default_PchatEpochCountersig_def
  default_PchatKeyHolderReport_def
  default_PchatKeyHoldersQuery_def
  default_PchatKeyHoldersList_Entry_def
  default_PchatKeyHoldersList_def
  default_PchatKeyChallenge_def
  default_PchatKeyChallengeResponse_def
  default_PchatKeyChallengeResult_def
  default_PchatDeleteMessages_TimeRange_def
  default_PchatDeleteMessages_def
  default_PchatSenderKeyDistribution_def
  default_PchatOfflineQueueDrain_def
  default_UnicodeEmoji_def
  default_ServerEmoji_def
  default_PchatReaction_def
  default_PchatReactionDeliver_def
  default_PchatReactionFetchResponse_StoredReaction_def
  default_PchatReactionFetchResponse_def
  default_PchatPin_def
  default_PchatPinDeliver_def
  default_PchatPinFetchResponse_PinnedMessage_def
  default_PchatPinFetchResponse_def

end
