(* ===== verification/Proto_Fancy.thy ===== *)
theory Proto_Fancy
  imports Prelude
begin

text \<open>
  The protobuf messages of the other Fancy Mumble extensions (wire types 120 to 135).
  One record per struct of src/crates/mumble-protocol/src/proto/mumble\_proto.rs, field for field:
  a \<^verbatim>\<open>proto2\<close> optional field is an \<open>option\<close>, a repeated field a list, a required field a
  plain value; a oneof is a datatype. Each record \<open>M\<close> has its \<open>Default::default()\<close> value
  \<open>default_M\<close>, so that \<^verbatim>\<open>M { field: v, ..Default::default() }\<close> of the source is written
  as a record update of \<open>default_M\<close>. Fields carry the message's name as a prefix, because
  record fields share one name space.
\<close>

record WebRtcSignal =
  WebRtcSignal_target_session :: "u32 option"
  WebRtcSignal_sender_session :: "u32 option"
  WebRtcSignal_signal_type :: "i32 option"
  WebRtcSignal_payload :: "string option"

definition default_WebRtcSignal :: WebRtcSignal where
  "default_WebRtcSignal = \<lparr>WebRtcSignal_target_session = None, WebRtcSignal_sender_session = None,
     WebRtcSignal_signal_type = None, WebRtcSignal_payload = None\<rparr>"

record FancyPushRegister =
  FancyPushRegister_token :: "string option"
  FancyPushRegister_muted_channels :: "u32 list"

definition default_FancyPushRegister :: FancyPushRegister where
  "default_FancyPushRegister = \<lparr>FancyPushRegister_token = None, FancyPushRegister_muted_channels = []\<rparr>"

record FancyPushUpdate =
  FancyPushUpdate_muted_channels :: "u32 list"

definition default_FancyPushUpdate :: FancyPushUpdate where
  "default_FancyPushUpdate = \<lparr>FancyPushUpdate_muted_channels = []\<rparr>"

record FancySubscribePush =
  FancySubscribePush_muted_channels :: "u32 list"

definition default_FancySubscribePush :: FancySubscribePush where
  "default_FancySubscribePush = \<lparr>FancySubscribePush_muted_channels = []\<rparr>"

record FancyCustomReactionsConfig_CustomReaction =
  FancyCustomReactionsConfig_CustomReaction_shortcode :: "string option"
  FancyCustomReactionsConfig_CustomReaction_display :: "string option"
  FancyCustomReactionsConfig_CustomReaction_label :: "string option"

definition default_FancyCustomReactionsConfig_CustomReaction :: FancyCustomReactionsConfig_CustomReaction where
  "default_FancyCustomReactionsConfig_CustomReaction = \<lparr>FancyCustomReactionsConfig_CustomReaction_shortcode = None,
     FancyCustomReactionsConfig_CustomReaction_display = None,
     FancyCustomReactionsConfig_CustomReaction_label = None\<rparr>"

record FancyCustomReactionsConfig =
  FancyCustomReactionsConfig_reactions :: "FancyCustomReactionsConfig_CustomReaction list"

definition default_FancyCustomReactionsConfig :: FancyCustomReactionsConfig where
  "default_FancyCustomReactionsConfig = \<lparr>FancyCustomReactionsConfig_reactions = []\<rparr>"

record FancyReadReceipt =
  FancyReadReceipt_channel_id :: "u32 option"
  FancyReadReceipt_last_read_message_id :: "string option"
  FancyReadReceipt_timestamp :: "u64 option"
  FancyReadReceipt_query :: "bool option"
  FancyReadReceipt_query_message_id :: "string option"

definition default_FancyReadReceipt :: FancyReadReceipt where
  "default_FancyReadReceipt = \<lparr>FancyReadReceipt_channel_id = None, FancyReadReceipt_last_read_message_id = None,
     FancyReadReceipt_timestamp = None, FancyReadReceipt_query = None,
     FancyReadReceipt_query_message_id = None\<rparr>"

record FancyReadReceiptDeliver_ReadState =
  FancyReadReceiptDeliver_ReadState_cert_hash :: "string option"
  FancyReadReceiptDeliver_ReadState_name :: "string option"
  FancyReadReceiptDeliver_ReadState_last_read_message_id :: "string option"
  FancyReadReceiptDeliver_ReadState_timestamp :: "u64 option"

definition default_FancyReadReceiptDeliver_ReadState :: FancyReadReceiptDeliver_ReadState where
  "default_FancyReadReceiptDeliver_ReadState = \<lparr>FancyReadReceiptDeliver_ReadState_cert_hash = None,
     FancyReadReceiptDeliver_ReadState_name = None,
     FancyReadReceiptDeliver_ReadState_last_read_message_id = None,
     FancyReadReceiptDeliver_ReadState_timestamp = None\<rparr>"

record FancyReadReceiptDeliver =
  FancyReadReceiptDeliver_channel_id :: "u32 option"
  FancyReadReceiptDeliver_read_states :: "FancyReadReceiptDeliver_ReadState list"
  FancyReadReceiptDeliver_query_message_id :: "string option"

definition default_FancyReadReceiptDeliver :: FancyReadReceiptDeliver where
  "default_FancyReadReceiptDeliver = \<lparr>FancyReadReceiptDeliver_channel_id = None, FancyReadReceiptDeliver_read_states = [],
     FancyReadReceiptDeliver_query_message_id = None\<rparr>"

record FancyTypingIndicator =
  FancyTypingIndicator_actor :: "u32 option"
  FancyTypingIndicator_channel_id :: "u32 option"

definition default_FancyTypingIndicator :: FancyTypingIndicator where
  "default_FancyTypingIndicator = \<lparr>FancyTypingIndicator_actor = None, FancyTypingIndicator_channel_id = None\<rparr>"

record FancyLinkPreviewRequest =
  FancyLinkPreviewRequest_urls :: "string list"
  FancyLinkPreviewRequest_request_id :: "string option"

definition default_FancyLinkPreviewRequest :: FancyLinkPreviewRequest where
  "default_FancyLinkPreviewRequest = \<lparr>FancyLinkPreviewRequest_urls = [], FancyLinkPreviewRequest_request_id = None\<rparr>"

record FancyLinkPreviewResponse_Embed_Media =
  FancyLinkPreviewResponse_Embed_Media_url :: "string option"
  FancyLinkPreviewResponse_Embed_Media_width :: "i32 option"
  FancyLinkPreviewResponse_Embed_Media_height :: "i32 option"
  FancyLinkPreviewResponse_Embed_Media_preview_data :: "u8 list option"
  FancyLinkPreviewResponse_Embed_Media_preview_mime :: "string option"
  FancyLinkPreviewResponse_Embed_Media_preview_width :: "i32 option"
  FancyLinkPreviewResponse_Embed_Media_preview_height :: "i32 option"
  FancyLinkPreviewResponse_Embed_Media_original_size :: "u32 option"

definition default_FancyLinkPreviewResponse_Embed_Media :: FancyLinkPreviewResponse_Embed_Media where
  "default_FancyLinkPreviewResponse_Embed_Media = \<lparr>FancyLinkPreviewResponse_Embed_Media_url = None,
     FancyLinkPreviewResponse_Embed_Media_width = None,
     FancyLinkPreviewResponse_Embed_Media_height = None,
     FancyLinkPreviewResponse_Embed_Media_preview_data = None,
     FancyLinkPreviewResponse_Embed_Media_preview_mime = None,
     FancyLinkPreviewResponse_Embed_Media_preview_width = None,
     FancyLinkPreviewResponse_Embed_Media_preview_height = None,
     FancyLinkPreviewResponse_Embed_Media_original_size = None\<rparr>"

record FancyLinkPreviewResponse_Embed_Provider =
  FancyLinkPreviewResponse_Embed_Provider_name :: "string option"
  FancyLinkPreviewResponse_Embed_Provider_url :: "string option"

definition default_FancyLinkPreviewResponse_Embed_Provider :: FancyLinkPreviewResponse_Embed_Provider where
  "default_FancyLinkPreviewResponse_Embed_Provider = \<lparr>FancyLinkPreviewResponse_Embed_Provider_name = None,
     FancyLinkPreviewResponse_Embed_Provider_url = None\<rparr>"

record FancyLinkPreviewResponse_Embed_Author =
  FancyLinkPreviewResponse_Embed_Author_name :: "string option"
  FancyLinkPreviewResponse_Embed_Author_url :: "string option"

definition default_FancyLinkPreviewResponse_Embed_Author :: FancyLinkPreviewResponse_Embed_Author where
  "default_FancyLinkPreviewResponse_Embed_Author = \<lparr>FancyLinkPreviewResponse_Embed_Author_name = None,
     FancyLinkPreviewResponse_Embed_Author_url = None\<rparr>"

record FancyLinkPreviewResponse_Embed_Field =
  FancyLinkPreviewResponse_Embed_Field_name :: "string option"
  FancyLinkPreviewResponse_Embed_Field_value :: "string option"
  FancyLinkPreviewResponse_Embed_Field_inline :: "bool option"

definition default_FancyLinkPreviewResponse_Embed_Field :: FancyLinkPreviewResponse_Embed_Field where
  "default_FancyLinkPreviewResponse_Embed_Field = \<lparr>FancyLinkPreviewResponse_Embed_Field_name = None,
     FancyLinkPreviewResponse_Embed_Field_value = None,
     FancyLinkPreviewResponse_Embed_Field_inline = None\<rparr>"

record FancyLinkPreviewResponse_Embed =
  FancyLinkPreviewResponse_Embed_url :: "string option"
  FancyLinkPreviewResponse_Embed_type :: "string option"
  FancyLinkPreviewResponse_Embed_title :: "string option"
  FancyLinkPreviewResponse_Embed_description :: "string option"
  FancyLinkPreviewResponse_Embed_color :: "i32 option"
  FancyLinkPreviewResponse_Embed_site_name :: "string option"
  FancyLinkPreviewResponse_Embed_thumbnail :: "FancyLinkPreviewResponse_Embed_Media option"
  FancyLinkPreviewResponse_Embed_image :: "FancyLinkPreviewResponse_Embed_Media option"
  FancyLinkPreviewResponse_Embed_video :: "FancyLinkPreviewResponse_Embed_Media option"
  FancyLinkPreviewResponse_Embed_provider :: "FancyLinkPreviewResponse_Embed_Provider option"
  FancyLinkPreviewResponse_Embed_author :: "FancyLinkPreviewResponse_Embed_Author option"
  FancyLinkPreviewResponse_Embed_favicon :: "FancyLinkPreviewResponse_Embed_Media option"
  FancyLinkPreviewResponse_Embed_canonical_url :: "string option"
  FancyLinkPreviewResponse_Embed_lang :: "string option"
  FancyLinkPreviewResponse_Embed_published_time :: "string option"
  FancyLinkPreviewResponse_Embed_modified_time :: "string option"
  FancyLinkPreviewResponse_Embed_keywords :: "string list"
  FancyLinkPreviewResponse_Embed_summary :: "string option"
  FancyLinkPreviewResponse_Embed_content_type :: "string option"
  FancyLinkPreviewResponse_Embed_content_length :: "u64 option"
  FancyLinkPreviewResponse_Embed_media_duration :: "string option"
  FancyLinkPreviewResponse_Embed_nsfw :: "bool option"
  FancyLinkPreviewResponse_Embed_reading_time :: "string option"
  FancyLinkPreviewResponse_Embed_fields :: "FancyLinkPreviewResponse_Embed_Field list"
  FancyLinkPreviewResponse_Embed_fetched_at :: "string option"

definition default_FancyLinkPreviewResponse_Embed :: FancyLinkPreviewResponse_Embed where
  "default_FancyLinkPreviewResponse_Embed = \<lparr>FancyLinkPreviewResponse_Embed_url = None, FancyLinkPreviewResponse_Embed_type = None,
     FancyLinkPreviewResponse_Embed_title = None, FancyLinkPreviewResponse_Embed_description
     = None, FancyLinkPreviewResponse_Embed_color = None,
     FancyLinkPreviewResponse_Embed_site_name = None,
     FancyLinkPreviewResponse_Embed_thumbnail = None, FancyLinkPreviewResponse_Embed_image =
     None, FancyLinkPreviewResponse_Embed_video = None,
     FancyLinkPreviewResponse_Embed_provider = None, FancyLinkPreviewResponse_Embed_author =
     None, FancyLinkPreviewResponse_Embed_favicon = None,
     FancyLinkPreviewResponse_Embed_canonical_url = None, FancyLinkPreviewResponse_Embed_lang
     = None, FancyLinkPreviewResponse_Embed_published_time = None,
     FancyLinkPreviewResponse_Embed_modified_time = None,
     FancyLinkPreviewResponse_Embed_keywords = [], FancyLinkPreviewResponse_Embed_summary =
     None, FancyLinkPreviewResponse_Embed_content_type = None,
     FancyLinkPreviewResponse_Embed_content_length = None,
     FancyLinkPreviewResponse_Embed_media_duration = None,
     FancyLinkPreviewResponse_Embed_nsfw = None, FancyLinkPreviewResponse_Embed_reading_time
     = None, FancyLinkPreviewResponse_Embed_fields = [],
     FancyLinkPreviewResponse_Embed_fetched_at = None\<rparr>"

record FancyLinkPreviewResponse =
  FancyLinkPreviewResponse_request_id :: "string option"
  FancyLinkPreviewResponse_embeds :: "FancyLinkPreviewResponse_Embed list"

definition default_FancyLinkPreviewResponse :: FancyLinkPreviewResponse where
  "default_FancyLinkPreviewResponse = \<lparr>FancyLinkPreviewResponse_request_id = None, FancyLinkPreviewResponse_embeds = []\<rparr>"

record FancyWatchSync_Start =
  FancyWatchSync_Start_channel_id :: "u32 option"
  FancyWatchSync_Start_source_url :: "string option"
  FancyWatchSync_Start_source_kind :: "i32 option"
  FancyWatchSync_Start_title :: "string option"
  FancyWatchSync_Start_host_session :: "u32 option"

definition default_FancyWatchSync_Start :: FancyWatchSync_Start where
  "default_FancyWatchSync_Start = \<lparr>FancyWatchSync_Start_channel_id = None, FancyWatchSync_Start_source_url = None,
     FancyWatchSync_Start_source_kind = None, FancyWatchSync_Start_title = None,
     FancyWatchSync_Start_host_session = None\<rparr>"

record FancyWatchSync_State =
  FancyWatchSync_State_state :: "i32 option"
  FancyWatchSync_State_current_time :: "f64 option"
  FancyWatchSync_State_updated_at_ms :: "u64 option"
  FancyWatchSync_State_host_session :: "u32 option"

definition default_FancyWatchSync_State :: FancyWatchSync_State where
  "default_FancyWatchSync_State = \<lparr>FancyWatchSync_State_state = None, FancyWatchSync_State_current_time = None,
     FancyWatchSync_State_updated_at_ms = None, FancyWatchSync_State_host_session = None\<rparr>"

record FancyWatchSync_Member =
  FancyWatchSync_Member_session :: "u32 option"

definition default_FancyWatchSync_Member :: FancyWatchSync_Member where
  "default_FancyWatchSync_Member = \<lparr>FancyWatchSync_Member_session = None\<rparr>"

datatype FancyWatchSync_StateRequest = FancyWatchSync_StateRequest

datatype FancyWatchSync_End = FancyWatchSync_End

record FancyWatchSync_HostTransfer =
  FancyWatchSync_HostTransfer_new_host_session :: "u32 option"

definition default_FancyWatchSync_HostTransfer :: FancyWatchSync_HostTransfer where
  "default_FancyWatchSync_HostTransfer = \<lparr>FancyWatchSync_HostTransfer_new_host_session = None\<rparr>"

datatype FancyWatchSync_Event =
  FancyWatchSync_Event_Start FancyWatchSync_Start
| FancyWatchSync_Event_State FancyWatchSync_State
| FancyWatchSync_Event_Join FancyWatchSync_Member
| FancyWatchSync_Event_Leave FancyWatchSync_Member
| FancyWatchSync_Event_StateRequest FancyWatchSync_StateRequest
| FancyWatchSync_Event_End FancyWatchSync_End
| FancyWatchSync_Event_HostTransfer FancyWatchSync_HostTransfer

record FancyWatchSync =
  FancyWatchSync_session_id :: "string option"
  FancyWatchSync_actor :: "u32 option"
  FancyWatchSync_event :: "FancyWatchSync_Event option"

definition default_FancyWatchSync :: FancyWatchSync where
  "default_FancyWatchSync = \<lparr>FancyWatchSync_session_id = None, FancyWatchSync_actor = None, FancyWatchSync_event =
     None\<rparr>"

record FancyDrawStroke =
  FancyDrawStroke_sender_session :: "u32 option"
  FancyDrawStroke_channel_id :: "u32 option"
  FancyDrawStroke_stroke_id :: "string option"
  FancyDrawStroke_color :: "u32 option"
  FancyDrawStroke_width :: "f32 option"
  FancyDrawStroke_points :: "f32 list"
  FancyDrawStroke_is_end :: "bool option"
  FancyDrawStroke_is_clear :: "bool option"
  FancyDrawStroke_width_frac :: "f32 option"
  FancyDrawStroke_clear_all :: "bool option"

definition default_FancyDrawStroke :: FancyDrawStroke where
  "default_FancyDrawStroke = \<lparr>FancyDrawStroke_sender_session = None, FancyDrawStroke_channel_id = None,
     FancyDrawStroke_stroke_id = None, FancyDrawStroke_color = None, FancyDrawStroke_width =
     None, FancyDrawStroke_points = [], FancyDrawStroke_is_end = None,
     FancyDrawStroke_is_clear = None, FancyDrawStroke_width_frac = None,
     FancyDrawStroke_clear_all = None\<rparr>"

lemmas proto_fancy_defaults =
  default_WebRtcSignal_def
  default_FancyPushRegister_def
  default_FancyPushUpdate_def
  default_FancySubscribePush_def
  default_FancyCustomReactionsConfig_CustomReaction_def
  default_FancyCustomReactionsConfig_def
  default_FancyReadReceipt_def
  default_FancyReadReceiptDeliver_ReadState_def
  default_FancyReadReceiptDeliver_def
  default_FancyTypingIndicator_def
  default_FancyLinkPreviewRequest_def
  default_FancyLinkPreviewResponse_Embed_Media_def
  default_FancyLinkPreviewResponse_Embed_Provider_def
  default_FancyLinkPreviewResponse_Embed_Author_def
  default_FancyLinkPreviewResponse_Embed_Field_def
  default_FancyLinkPreviewResponse_Embed_def
  default_FancyLinkPreviewResponse_def
  default_FancyWatchSync_Start_def
  default_FancyWatchSync_State_def
  default_FancyWatchSync_Member_def
  default_FancyWatchSync_HostTransfer_def
  default_FancyWatchSync_def
  default_FancyDrawStroke_def

end
