(* ===== verification/Message.thy ===== *)
theory Message
  imports Proto_Control Proto_Pchat Proto_Fancy
begin

text \<open>
  The message types of src/crates/mumble-protocol/src/message.rs: the wire identifiers
  (\<open>TcpMessageType\<close>), the decoded control messages (\<open>ControlMessage\<close>, one constructor per variant,
  each carrying its protobuf record), the UDP messages of proto/mumble\_udp.rs and the unified
  inbound \<open>ServerMessage\<close>; the \<^verbatim>\<open>TryFrom<u16>\<close>, \<^verbatim>\<open>type_id\<close> and \<^verbatim>\<open>is_fancy_extension\<close> code that the
  macro \<^verbatim>\<open>message_type_mapping!\<close> generates; and the lemmas that the identifiers and the variants
  determine each other.
\<close>

section \<open>Wire identifiers\<close>

datatype (plugins only: code) TcpMessageType =
  MT_Version
| MT_UdpTunnel
| MT_Authenticate
| MT_Ping
| MT_Reject
| MT_ServerSync
| MT_ChannelRemove
| MT_ChannelState
| MT_UserRemove
| MT_UserState
| MT_BanList
| MT_TextMessage
| MT_PermissionDenied
| MT_Acl
| MT_QueryUsers
| MT_CryptSetup
| MT_ContextActionModify
| MT_ContextAction
| MT_UserList
| MT_VoiceTarget
| MT_PermissionQuery
| MT_CodecVersion
| MT_UserStats
| MT_RequestBlob
| MT_ServerConfig
| MT_SuggestConfig
| MT_PluginDataTransmission
| MT_PchatMessage
| MT_PchatFetch
| MT_PchatFetchResponse
| MT_PchatMessageDeliver
| MT_PchatKeyAnnounce
| MT_PchatKeyExchange
| MT_PchatKeyRequest
| MT_PchatAck
| MT_PchatEpochCountersig
| MT_PchatKeyHolderReport
| MT_PchatKeyHoldersQuery
| MT_PchatKeyHoldersList
| MT_PchatKeyChallenge
| MT_PchatKeyChallengeResponse
| MT_PchatKeyChallengeResult
| MT_PchatDeleteMessages
| MT_PchatOfflineQueueDrain
| MT_PchatReaction
| MT_PchatReactionDeliver
| MT_PchatReactionFetchResponse
| MT_WebRtcSignal
| MT_PchatSenderKeyDistribution
| MT_FancyPushRegister
| MT_FancyPushUpdate
| MT_FancyCustomReactionsConfig
| MT_FancySubscribePush
| MT_FancyReadReceipt
| MT_FancyReadReceiptDeliver
| MT_PchatPin
| MT_PchatPinDeliver
| MT_PchatPinFetchResponse
| MT_FancyTypingIndicator
| MT_FancyLinkPreviewRequest
| MT_FancyLinkPreviewResponse
| MT_FancyWatchSync
| MT_FancyDrawStroke

text \<open>The \<^verbatim>\<open>#[repr(u16)]\<close> discriminants.\<close>

fun wire_id :: "TcpMessageType \<Rightarrow> u16" where
  "wire_id MT_Version = 0"
| "wire_id MT_UdpTunnel = 1"
| "wire_id MT_Authenticate = 2"
| "wire_id MT_Ping = 3"
| "wire_id MT_Reject = 4"
| "wire_id MT_ServerSync = 5"
| "wire_id MT_ChannelRemove = 6"
| "wire_id MT_ChannelState = 7"
| "wire_id MT_UserRemove = 8"
| "wire_id MT_UserState = 9"
| "wire_id MT_BanList = 10"
| "wire_id MT_TextMessage = 11"
| "wire_id MT_PermissionDenied = 12"
| "wire_id MT_Acl = 13"
| "wire_id MT_QueryUsers = 14"
| "wire_id MT_CryptSetup = 15"
| "wire_id MT_ContextActionModify = 16"
| "wire_id MT_ContextAction = 17"
| "wire_id MT_UserList = 18"
| "wire_id MT_VoiceTarget = 19"
| "wire_id MT_PermissionQuery = 20"
| "wire_id MT_CodecVersion = 21"
| "wire_id MT_UserStats = 22"
| "wire_id MT_RequestBlob = 23"
| "wire_id MT_ServerConfig = 24"
| "wire_id MT_SuggestConfig = 25"
| "wire_id MT_PluginDataTransmission = 26"
| "wire_id MT_PchatMessage = 100"
| "wire_id MT_PchatFetch = 101"
| "wire_id MT_PchatFetchResponse = 102"
| "wire_id MT_PchatMessageDeliver = 103"
| "wire_id MT_PchatKeyAnnounce = 104"
| "wire_id MT_PchatKeyExchange = 105"
| "wire_id MT_PchatKeyRequest = 106"
| "wire_id MT_PchatAck = 107"
| "wire_id MT_PchatEpochCountersig = 108"
| "wire_id MT_PchatKeyHolderReport = 109"
| "wire_id MT_PchatKeyHoldersQuery = 110"
| "wire_id MT_PchatKeyHoldersList = 111"
| "wire_id MT_PchatKeyChallenge = 112"
| "wire_id MT_PchatKeyChallengeResponse = 113"
| "wire_id MT_PchatKeyChallengeResult = 114"
| "wire_id MT_PchatDeleteMessages = 115"
| "wire_id MT_PchatOfflineQueueDrain = 116"
| "wire_id MT_PchatReaction = 117"
| "wire_id MT_PchatReactionDeliver = 118"
| "wire_id MT_PchatReactionFetchResponse = 119"
| "wire_id MT_WebRtcSignal = 120"
| "wire_id MT_PchatSenderKeyDistribution = 121"
| "wire_id MT_FancyPushRegister = 122"
| "wire_id MT_FancyPushUpdate = 123"
| "wire_id MT_FancyCustomReactionsConfig = 124"
| "wire_id MT_FancySubscribePush = 125"
| "wire_id MT_FancyReadReceipt = 126"
| "wire_id MT_FancyReadReceiptDeliver = 127"
| "wire_id MT_PchatPin = 128"
| "wire_id MT_PchatPinDeliver = 129"
| "wire_id MT_PchatPinFetchResponse = 130"
| "wire_id MT_FancyTypingIndicator = 131"
| "wire_id MT_FancyLinkPreviewRequest = 132"
| "wire_id MT_FancyLinkPreviewResponse = 133"
| "wire_id MT_FancyWatchSync = 134"
| "wire_id MT_FancyDrawStroke = 135"

text \<open>The variants in the order of the macro's argument list, which is the order of the match arms
  it generates.\<close>

definition message_types :: "TcpMessageType list" where
  "message_types =
    [MT_Version,
     MT_UdpTunnel,
     MT_Authenticate,
     MT_Ping,
     MT_Reject,
     MT_ServerSync,
     MT_ChannelRemove,
     MT_ChannelState,
     MT_UserRemove,
     MT_UserState,
     MT_BanList,
     MT_TextMessage,
     MT_PermissionDenied,
     MT_Acl,
     MT_QueryUsers,
     MT_CryptSetup,
     MT_ContextActionModify,
     MT_ContextAction,
     MT_UserList,
     MT_VoiceTarget,
     MT_PermissionQuery,
     MT_CodecVersion,
     MT_UserStats,
     MT_RequestBlob,
     MT_ServerConfig,
     MT_SuggestConfig,
     MT_PluginDataTransmission,
     MT_PchatMessage,
     MT_PchatFetch,
     MT_PchatFetchResponse,
     MT_PchatMessageDeliver,
     MT_PchatKeyAnnounce,
     MT_PchatKeyExchange,
     MT_PchatKeyRequest,
     MT_PchatAck,
     MT_PchatEpochCountersig,
     MT_PchatKeyHolderReport,
     MT_PchatKeyHoldersQuery,
     MT_PchatKeyHoldersList,
     MT_PchatKeyChallenge,
     MT_PchatKeyChallengeResponse,
     MT_PchatKeyChallengeResult,
     MT_PchatDeleteMessages,
     MT_PchatOfflineQueueDrain,
     MT_PchatReaction,
     MT_PchatReactionDeliver,
     MT_PchatReactionFetchResponse,
     MT_WebRtcSignal,
     MT_PchatSenderKeyDistribution,
     MT_FancyPushRegister,
     MT_FancyPushUpdate,
     MT_FancyCustomReactionsConfig,
     MT_FancySubscribePush,
     MT_FancyReadReceipt,
     MT_FancyReadReceiptDeliver,
     MT_PchatPin,
     MT_PchatPinDeliver,
     MT_PchatPinFetchResponse,
     MT_FancyTypingIndicator,
     MT_FancyLinkPreviewRequest,
     MT_FancyLinkPreviewResponse,
     MT_FancyWatchSync,
     MT_FancyDrawStroke]"

definition TcpMessageType_try_from :: "u16 \<Rightarrow> TcpMessageType result" where
  "TcpMessageType_try_from value =
     (case find (\<lambda>t. value = wire_id t) message_types of
        Some t \<Rightarrow> Inr t
      | None \<Rightarrow> Inl (UnknownMessageType value))"

section \<open>Control messages\<close>

datatype (plugins only: code) ControlMessage =
  CM_Version Version
| CM_Authenticate Authenticate
| CM_Ping Ping
| CM_Reject Reject
| CM_ServerSync ServerSync
| CM_ChannelRemove ChannelRemove
| CM_ChannelState ChannelState
| CM_UserRemove UserRemove
| CM_UserState UserState
| CM_BanList BanList
| CM_TextMessage TextMessage
| CM_PermissionDenied PermissionDenied
| CM_Acl Acl
| CM_QueryUsers QueryUsers
| CM_CryptSetup CryptSetup
| CM_ContextActionModify ContextActionModify
| CM_ContextAction ContextAction
| CM_UserList UserList
| CM_VoiceTarget VoiceTarget
| CM_PermissionQuery PermissionQuery
| CM_CodecVersion CodecVersion
| CM_UserStats UserStats
| CM_RequestBlob RequestBlob
| CM_ServerConfig ServerConfig
| CM_SuggestConfig SuggestConfig
| CM_PluginDataTransmission PluginDataTransmission
| CM_PchatMessage PchatMessage
| CM_PchatFetch PchatFetch
| CM_PchatFetchResponse PchatFetchResponse
| CM_PchatMessageDeliver PchatMessageDeliver
| CM_PchatKeyAnnounce PchatKeyAnnounce
| CM_PchatKeyExchange PchatKeyExchange
| CM_PchatKeyRequest PchatKeyRequest
| CM_PchatAck PchatAck
| CM_PchatEpochCountersig PchatEpochCountersig
| CM_PchatKeyHolderReport PchatKeyHolderReport
| CM_PchatKeyHoldersQuery PchatKeyHoldersQuery
| CM_PchatKeyHoldersList PchatKeyHoldersList
| CM_PchatKeyChallenge PchatKeyChallenge
| CM_PchatKeyChallengeResponse PchatKeyChallengeResponse
| CM_PchatKeyChallengeResult PchatKeyChallengeResult
| CM_PchatDeleteMessages PchatDeleteMessages
| CM_PchatOfflineQueueDrain PchatOfflineQueueDrain
| CM_PchatReaction PchatReaction
| CM_PchatReactionDeliver PchatReactionDeliver
| CM_PchatReactionFetchResponse PchatReactionFetchResponse
| CM_WebRtcSignal WebRtcSignal
| CM_PchatSenderKeyDistribution PchatSenderKeyDistribution
| CM_FancyPushRegister FancyPushRegister
| CM_FancyPushUpdate FancyPushUpdate
| CM_FancyCustomReactionsConfig FancyCustomReactionsConfig
| CM_FancySubscribePush FancySubscribePush
| CM_FancyReadReceipt FancyReadReceipt
| CM_FancyReadReceiptDeliver FancyReadReceiptDeliver
| CM_PchatPin PchatPin
| CM_PchatPinDeliver PchatPinDeliver
| CM_PchatPinFetchResponse PchatPinFetchResponse
| CM_FancyTypingIndicator FancyTypingIndicator
| CM_FancyLinkPreviewRequest FancyLinkPreviewRequest
| CM_FancyLinkPreviewResponse FancyLinkPreviewResponse
| CM_FancyWatchSync FancyWatchSync
| CM_FancyDrawStroke FancyDrawStroke
| CM_UdpTunnel bytes

fun message_type :: "ControlMessage \<Rightarrow> TcpMessageType" where
  "message_type (CM_Version m) = MT_Version"
| "message_type (CM_Authenticate m) = MT_Authenticate"
| "message_type (CM_Ping m) = MT_Ping"
| "message_type (CM_Reject m) = MT_Reject"
| "message_type (CM_ServerSync m) = MT_ServerSync"
| "message_type (CM_ChannelRemove m) = MT_ChannelRemove"
| "message_type (CM_ChannelState m) = MT_ChannelState"
| "message_type (CM_UserRemove m) = MT_UserRemove"
| "message_type (CM_UserState m) = MT_UserState"
| "message_type (CM_BanList m) = MT_BanList"
| "message_type (CM_TextMessage m) = MT_TextMessage"
| "message_type (CM_PermissionDenied m) = MT_PermissionDenied"
| "message_type (CM_Acl m) = MT_Acl"
| "message_type (CM_QueryUsers m) = MT_QueryUsers"
| "message_type (CM_CryptSetup m) = MT_CryptSetup"
| "message_type (CM_ContextActionModify m) = MT_ContextActionModify"
| "message_type (CM_ContextAction m) = MT_ContextAction"
| "message_type (CM_UserList m) = MT_UserList"
| "message_type (CM_VoiceTarget m) = MT_VoiceTarget"
| "message_type (CM_PermissionQuery m) = MT_PermissionQuery"
| "message_type (CM_CodecVersion m) = MT_CodecVersion"
| "message_type (CM_UserStats m) = MT_UserStats"
| "message_type (CM_RequestBlob m) = MT_RequestBlob"
| "message_type (CM_ServerConfig m) = MT_ServerConfig"
| "message_type (CM_SuggestConfig m) = MT_SuggestConfig"
| "message_type (CM_PluginDataTransmission m) = MT_PluginDataTransmission"
| "message_type (CM_PchatMessage m) = MT_PchatMessage"
| "message_type (CM_PchatFetch m) = MT_PchatFetch"
| "message_type (CM_PchatFetchResponse m) = MT_PchatFetchResponse"
| "message_type (CM_PchatMessageDeliver m) = MT_PchatMessageDeliver"
| "message_type (CM_PchatKeyAnnounce m) = MT_PchatKeyAnnounce"
| "message_type (CM_PchatKeyExchange m) = MT_PchatKeyExchange"
| "message_type (CM_PchatKeyRequest m) = MT_PchatKeyRequest"
| "message_type (CM_PchatAck m) = MT_PchatAck"
| "message_type (CM_PchatEpochCountersig m) = MT_PchatEpochCountersig"
| "message_type (CM_PchatKeyHolderReport m) = MT_PchatKeyHolderReport"
| "message_type (CM_PchatKeyHoldersQuery m) = MT_PchatKeyHoldersQuery"
| "message_type (CM_PchatKeyHoldersList m) = MT_PchatKeyHoldersList"
| "message_type (CM_PchatKeyChallenge m) = MT_PchatKeyChallenge"
| "message_type (CM_PchatKeyChallengeResponse m) = MT_PchatKeyChallengeResponse"
| "message_type (CM_PchatKeyChallengeResult m) = MT_PchatKeyChallengeResult"
| "message_type (CM_PchatDeleteMessages m) = MT_PchatDeleteMessages"
| "message_type (CM_PchatOfflineQueueDrain m) = MT_PchatOfflineQueueDrain"
| "message_type (CM_PchatReaction m) = MT_PchatReaction"
| "message_type (CM_PchatReactionDeliver m) = MT_PchatReactionDeliver"
| "message_type (CM_PchatReactionFetchResponse m) = MT_PchatReactionFetchResponse"
| "message_type (CM_WebRtcSignal m) = MT_WebRtcSignal"
| "message_type (CM_PchatSenderKeyDistribution m) = MT_PchatSenderKeyDistribution"
| "message_type (CM_FancyPushRegister m) = MT_FancyPushRegister"
| "message_type (CM_FancyPushUpdate m) = MT_FancyPushUpdate"
| "message_type (CM_FancyCustomReactionsConfig m) = MT_FancyCustomReactionsConfig"
| "message_type (CM_FancySubscribePush m) = MT_FancySubscribePush"
| "message_type (CM_FancyReadReceipt m) = MT_FancyReadReceipt"
| "message_type (CM_FancyReadReceiptDeliver m) = MT_FancyReadReceiptDeliver"
| "message_type (CM_PchatPin m) = MT_PchatPin"
| "message_type (CM_PchatPinDeliver m) = MT_PchatPinDeliver"
| "message_type (CM_PchatPinFetchResponse m) = MT_PchatPinFetchResponse"
| "message_type (CM_FancyTypingIndicator m) = MT_FancyTypingIndicator"
| "message_type (CM_FancyLinkPreviewRequest m) = MT_FancyLinkPreviewRequest"
| "message_type (CM_FancyLinkPreviewResponse m) = MT_FancyLinkPreviewResponse"
| "message_type (CM_FancyWatchSync m) = MT_FancyWatchSync"
| "message_type (CM_FancyDrawStroke m) = MT_FancyDrawStroke"
| "message_type (CM_UdpTunnel m) = MT_UdpTunnel"

definition type_id :: "ControlMessage \<Rightarrow> u16" where
  "type_id m = wire_id (message_type m)"

definition FANCY_EXTENSION_TYPE_THRESHOLD :: u16 where
  "FANCY_EXTENSION_TYPE_THRESHOLD = wire_id MT_PchatMessage"

definition is_fancy_extension :: "ControlMessage \<Rightarrow> bool" where
  "is_fancy_extension m \<longleftrightarrow> type_id m \<ge> FANCY_EXTENSION_TYPE_THRESHOLD"

section \<open>UDP messages\<close>

datatype Audio_Header = Target u32 | Context u32

record Audio =
  Audio_sender_session :: u32
  Audio_frame_number :: u64
  Audio_opus_data :: bytes
  Audio_positional_data :: "f32 list"
  Audio_volume_adjustment :: f32
  Audio_is_terminator :: bool
  Audio_header :: "Audio_Header option"

record UdpPing =
  UdpPing_timestamp :: u64
  UdpPing_request_extended_information :: bool
  UdpPing_server_version_v2 :: u64
  UdpPing_user_count :: u32
  UdpPing_max_user_count :: u32
  UdpPing_max_bandwidth_per_user :: u32

definition default_UdpPing :: UdpPing where
  "default_UdpPing = \<lparr>UdpPing_timestamp = 0, UdpPing_request_extended_information = False,
     UdpPing_server_version_v2 = 0, UdpPing_user_count = 0, UdpPing_max_user_count = 0,
     UdpPing_max_bandwidth_per_user = 0\<rparr>"

datatype UdpMessage = UM_Audio Audio | UM_Ping UdpPing

datatype ServerMessage = SM_Control ControlMessage | SM_Udp UdpMessage

section \<open>Identifiers and variants determine each other\<close>

lemma message_types_complete: "t \<in> set message_types"
  by (cases t) (simp_all add: message_types_def)

lemma distinct_wire_ids: "distinct (map wire_id message_types)"
  by (simp add: message_types_def)

lemma wire_id_inj: "wire_id s = wire_id t \<Longrightarrow> s = t"
  using distinct_wire_ids message_types_complete [of s] message_types_complete [of t]
  by (auto simp: distinct_map dest: inj_onD)

lemma try_from_eq_Inr:
  "TcpMessageType_try_from v = Inr t \<longleftrightarrow> v = wire_id t"
proof
  assume "TcpMessageType_try_from v = Inr t"
  then have "find (\<lambda>t. v = wire_id t) message_types = Some t"
    by (auto simp: TcpMessageType_try_from_def split: option.splits)
  then show "v = wire_id t" by (auto simp: find_Some_iff)
next
  assume v: "v = wire_id t"
  then obtain s where s: "find (\<lambda>t. v = wire_id t) message_types = Some s"
    using message_types_complete [of t]
    by (metis (mono_tags, lifting) find_None_iff option.exhaust)
  then have "v = wire_id s" by (auto simp: find_Some_iff)
  with v have "s = t" by (auto dest: wire_id_inj)
  with s show "TcpMessageType_try_from v = Inr t" by (simp add: TcpMessageType_try_from_def)
qed

lemma try_from_wire_id [simp]: "TcpMessageType_try_from (wire_id t) = Inr t"
  by (simp add: try_from_eq_Inr)

lemma try_from_type_id [simp]: "TcpMessageType_try_from (type_id m) = Inr (message_type m)"
  by (simp add: type_id_def)

lemma try_from_eq_Inl:
  "TcpMessageType_try_from v = Inl e \<longleftrightarrow> v \<notin> range wire_id \<and> e = UnknownMessageType v"
proof (cases "TcpMessageType_try_from v")
  case (Inl e')
  then have "e' = UnknownMessageType v"
    by (auto simp: TcpMessageType_try_from_def split: option.splits)
  moreover have "v \<notin> range wire_id"
    using Inl by auto
  ultimately show ?thesis using Inl by auto
next
  case (Inr t)
  then show ?thesis by (auto simp: try_from_eq_Inr)
qed

text \<open>The identifiers 27 to 99 and those above 135 are unassigned.\<close>

lemma wire_id_ranges: "wire_id t \<le> 26 \<or> 100 \<le> wire_id t \<and> wire_id t \<le> 135"
  by (cases t) simp_all

lemma is_fancy_extension_iff: "is_fancy_extension m \<longleftrightarrow> \<not> type_id m \<le> 26"
  using wire_id_ranges [of "message_type m"]
  by (auto simp: is_fancy_extension_def FANCY_EXTENSION_TYPE_THRESHOLD_def type_id_def
      dest: order.trans [of 100 "wire_id (message_type m)" 26])

text \<open>Wire identifiers. The identifier of every message converts back to its type, an identifier
  is refused as unknown exactly when no type has it, and the extension messages are exactly those
  whose identifier is at least 100.\<close>

theorem wire_ids_roundtrip:
  "TcpMessageType_try_from (type_id m) = Inr (message_type m) \<and>
   (TcpMessageType_try_from v = Inl (UnknownMessageType v)) = (v \<notin> range wire_id) \<and>
   is_fancy_extension m = (100 \<le> type_id m)"
  by (simp add: try_from_eq_Inl is_fancy_extension_def FANCY_EXTENSION_TYPE_THRESHOLD_def)

end
