(* ===== verification/Crypt_State.thy ===== *)
theory Crypt_State
  imports Prelude
begin

text \<open>
  The interface of UDP encryption: the trait \<^verbatim>\<open>CryptState\<close> of
  src/crates/mumble-protocol/src/transport/udp.rs and its pass-through implementation
  \<^verbatim>\<open>PlaintextCryptState\<close>. An implementation is an \<open>encrypt\<close> and a \<open>decrypt\<close> that return a
  result and the new state; \<open>transmit\<close> runs a sequence of packets from one end to the other.
  The locale \<open>crypt_channel\<close> is the contract of two synchronised ends; Ocb2 interprets it for
  the real cipher.
\<close>

type_synonym 's crypt_op = "bytes \<Rightarrow> 's \<Rightarrow> bytes result \<times> 's"

fun transmit :: "'s crypt_op \<Rightarrow> 's crypt_op \<Rightarrow> bytes list \<Rightarrow> 's \<Rightarrow> 's \<Rightarrow> bytes result list \<times> 's \<times> 's" where
  "transmit enc dec [] s r = ([], s, r)"
| "transmit enc dec (p # ps) s r =
     (case enc p s of
        (Inl e, s') \<Rightarrow> (let (rs, ends) = transmit enc dec ps s' r in (Inl e # rs, ends))
      | (Inr packet, s') \<Rightarrow>
          (let (res, r') = dec packet r;
               (rs, ends) = transmit enc dec ps s' r'
           in (res # rs, ends)))"

locale crypt_channel =
  fixes encrypt :: "'s crypt_op"
    and decrypt :: "'s crypt_op"
    and synced :: "'s \<Rightarrow> 's \<Rightarrow> bool"
  assumes synced_step:
    "synced s r \<Longrightarrow>
       \<exists>packet s' r'. encrypt p s = (Inr packet, s') \<and> decrypt packet r = (Inr p, r') \<and> synced s' r'"
begin

text \<open>Every packet of a sequence reaches the other end unchanged, and the ends stay synchronised.\<close>

lemma transmit_delivers:
  assumes "synced s r"
  shows "\<exists>s' r'. transmit encrypt decrypt ps s r = (map Inr ps, s', r') \<and> synced s' r'"
  using assms
proof (induction ps arbitrary: s r)
  case (Cons p ps)
  then obtain packet s1 r1 where "encrypt p s = (Inr packet, s1)" "decrypt packet r = (Inr p, r1)"
      "synced s1 r1"
    using synced_step by blast
  with Cons.IH [of s1 r1] show ?case by auto
qed simp

end

section \<open>The pass-through\<close>

type_synonym PlaintextCryptState = unit

definition Plaintext_encrypt :: "PlaintextCryptState crypt_op" where
  "Plaintext_encrypt plaintext st = (Inr plaintext, st)"

definition Plaintext_decrypt :: "PlaintextCryptState crypt_op" where
  "Plaintext_decrypt ciphertext st = (Inr ciphertext, st)"

definition Plaintext_is_initialized :: "PlaintextCryptState \<Rightarrow> bool" where
  "Plaintext_is_initialized st = True"

interpretation plaintext: crypt_channel Plaintext_encrypt Plaintext_decrypt
    "\<lambda>s r. Plaintext_is_initialized s"
  by unfold_locales
     (simp add: Plaintext_encrypt_def Plaintext_decrypt_def Plaintext_is_initialized_def)

end
