(* ===== verification/Ocb2.thy ===== *)
theory Ocb2
  imports Crypt_State
begin

text \<open>
  OCB2-AES128 for the UDP voice channel: src/crates/mumble-protocol/src/transport/ocb2.rs.
  The block operations (\<open>s2\<close>, \<open>s3\<close>, the xor helpers), the mode itself (\<open>ocb_encrypt\<close>,
  \<open>ocb_decrypt\<close>), and the crypt state with its nonce window, replay history and link counters
  (\<open>Ocb2_encrypt\<close>, \<open>Ocb2_decrypt\<close>). AES is the third-party crate \<^verbatim>\<open>aes\<close>: the model takes its two
  block functions \<open>E\<close> and \<open>D\<close> (key first) as arguments, and \<open>aes_laws\<close> says what the code relies
  on. The cipher object \<^verbatim>\<open>Aes128::new(key)\<close> is represented by its key.
\<close>

section \<open>Block operations\<close>

definition AES_BLOCK_SIZE :: nat where
  "AES_BLOCK_SIZE = 16"

lemma AES_BLOCK_SIZE_16 [simp]: "AES_BLOCK_SIZE = 16"
  by (simp add: AES_BLOCK_SIZE_def)

type_synonym aes_fun = "bytes \<Rightarrow> bytes \<Rightarrow> bytes"

definition aes_laws :: "aes_fun \<Rightarrow> aes_fun \<Rightarrow> bool" where
  "aes_laws E D \<longleftrightarrow>
     (\<forall>k b. length k = 16 \<longrightarrow> length b = 16 \<longrightarrow>
        length (E k b) = 16 \<and> length (D k b) = 16 \<and> D k (E k b) = b)"

definition xor_blocks :: "bytes \<Rightarrow> bytes \<Rightarrow> bytes" where
  "xor_blocks a b = map2 (XOR) a b"

definition s2 :: "bytes \<Rightarrow> bytes" where
  "s2 block =
     (let carry = drop_bit 7 (block ! 0)
      in map (\<lambda>i. push_bit 1 (block ! i) OR drop_bit 7 (block ! (i + 1))) [0..<AES_BLOCK_SIZE - 1]
         @ [push_bit 1 (block ! (AES_BLOCK_SIZE - 1)) XOR (carry * 0x87)])"

definition s3 :: "bytes \<Rightarrow> bytes" where
  "s3 block =
     (let carry = drop_bit 7 (block ! 0)
      in map (\<lambda>i. block ! i XOR (push_bit 1 (block ! i) OR drop_bit 7 (block ! (i + 1))))
           [0..<AES_BLOCK_SIZE - 1]
         @ [block ! (AES_BLOCK_SIZE - 1) XOR
              (push_bit 1 (block ! (AES_BLOCK_SIZE - 1)) XOR (carry * 0x87))])"

section \<open>The OCB2 mode\<close>

text \<open>The loop over the full blocks: what it wrote, the offset \<open>delta\<close>, the checksum, and the
  unprocessed tail of at most one block.\<close>

function ocb_encrypt_blocks ::
    "aes_fun \<Rightarrow> bytes \<Rightarrow> bytes \<Rightarrow> bytes \<Rightarrow> bytes \<Rightarrow> bytes \<times> bytes \<times> bytes \<times> bytes" where
  "ocb_encrypt_blocks E key delta checksum plain =
     (if length plain > AES_BLOCK_SIZE then
        let delta' = s2 delta;
            plain_block = take AES_BLOCK_SIZE plain;
            tmp = E key (xor_blocks delta' plain_block);
            cipher_block = xor_blocks delta' tmp;
            (encrypted, rest) =
              ocb_encrypt_blocks E key delta' (xor_blocks checksum plain_block)
                (drop AES_BLOCK_SIZE plain)
        in (cipher_block @ encrypted, rest)
      else ([], delta, checksum, plain))"
  by pat_completeness auto
termination
  by (relation "measure (\<lambda>(E, key, delta, checksum, plain). length plain)") auto

function ocb_decrypt_blocks ::
    "aes_fun \<Rightarrow> bytes \<Rightarrow> bytes \<Rightarrow> bytes \<Rightarrow> bytes \<Rightarrow> bytes \<times> bytes \<times> bytes \<times> bytes" where
  "ocb_decrypt_blocks D key delta checksum encrypted =
     (if length encrypted > AES_BLOCK_SIZE then
        let delta' = s2 delta;
            cipher_block = take AES_BLOCK_SIZE encrypted;
            tmp = D key (xor_blocks delta' cipher_block);
            plain_block = xor_blocks delta' tmp;
            (plain, rest) =
              ocb_decrypt_blocks D key delta' (xor_blocks checksum plain_block)
                (drop AES_BLOCK_SIZE encrypted)
        in (plain_block @ plain, rest)
      else ([], delta, checksum, encrypted))"
  by pat_completeness auto
termination
  by (relation "measure (\<lambda>(D, key, delta, checksum, encrypted). length encrypted)") auto

declare ocb_encrypt_blocks.simps [simp del] ocb_decrypt_blocks.simps [simp del]

text \<open>The length-dependent pad of the last block: the bit count as a big-endian \<^verbatim>\<open>u32\<close> in the last
  four bytes, xored with the offset and encrypted.\<close>

definition ocb_pad :: "aes_fun \<Rightarrow> bytes \<Rightarrow> bytes \<Rightarrow> nat \<Rightarrow> bytes" where
  "ocb_pad E key delta remaining =
     E key (xor_blocks (replicate (AES_BLOCK_SIZE - 4) 0 @ be32 (of_nat (remaining * 8))) delta)"

definition ocb_encrypt :: "aes_fun \<Rightarrow> bytes \<Rightarrow> bytes \<Rightarrow> bytes \<Rightarrow> bytes \<times> bytes" where
  "ocb_encrypt E key plain nonce =
     (let (encrypted, delta, checksum, tail) =
            ocb_encrypt_blocks E key (E key nonce) (replicate AES_BLOCK_SIZE 0) plain;
          remaining = length tail;
          delta = s2 delta;
          pad = ocb_pad E key delta remaining;
          final_plain = tail @ drop remaining pad;
          checksum = xor_blocks checksum final_plain;
          cipher_final = xor_blocks pad final_plain;
          tag = E key (xor_blocks checksum (s3 delta))
      in (encrypted @ take remaining cipher_final, tag))"

definition ocb_decrypt :: "aes_fun \<Rightarrow> aes_fun \<Rightarrow> bytes \<Rightarrow> bytes \<Rightarrow> bytes \<Rightarrow> bytes \<times> bytes" where
  "ocb_decrypt E D key encrypted nonce =
     (let (plain, delta, checksum, tail) =
            ocb_decrypt_blocks D key (E key nonce) (replicate AES_BLOCK_SIZE 0) encrypted;
          remaining = length tail;
          delta = s2 delta;
          pad = ocb_pad E key delta remaining;
          final_cipher = tail @ replicate (AES_BLOCK_SIZE - remaining) 0;
          final_plain = xor_blocks final_cipher pad;
          checksum = xor_blocks checksum final_plain;
          tag = E key (xor_blocks checksum (s3 delta))
      in (plain @ take remaining final_plain, tag))"

section \<open>The crypt state\<close>

record PacketStats =
  good :: u32
  late :: u32
  lost :: u32
  resync :: u32

definition default_PacketStats :: PacketStats where
  "default_PacketStats = \<lparr>good = 0, late = 0, lost = 0, resync = 0\<rparr>"

record Ocb2CryptState =
  cipher :: bytes
  raw_key :: bytes
  encrypt_iv :: bytes
  decrypt_iv :: bytes
  decrypt_history :: bytes
  stats :: PacketStats
  initialized :: bool

definition Ocb2_new :: Ocb2CryptState where
  "Ocb2_new =
     \<lparr>cipher = replicate AES_BLOCK_SIZE 0, raw_key = replicate AES_BLOCK_SIZE 0,
      encrypt_iv = replicate AES_BLOCK_SIZE 0, decrypt_iv = replicate AES_BLOCK_SIZE 0,
      decrypt_history = replicate 256 0, stats = default_PacketStats, initialized = False\<rparr>"

definition Ocb2_set_key ::
    "bytes \<Rightarrow> bytes \<Rightarrow> bytes \<Rightarrow> Ocb2CryptState \<Rightarrow> unit result \<times> Ocb2CryptState" where
  "Ocb2_set_key key client_nonce server_nonce st =
     (if length key \<noteq> AES_BLOCK_SIZE then
        (Inl (InvalidState (''OCB2 key must be '' @ show_nat AES_BLOCK_SIZE @ '' bytes, got '' @
           show_nat (length key))), st)
      else if length client_nonce \<noteq> AES_BLOCK_SIZE \<or> length server_nonce \<noteq> AES_BLOCK_SIZE then
        (Inl (InvalidState ''OCB2 nonces must be 16 bytes''), st)
      else
        (Inr (), st\<lparr>raw_key := key, encrypt_iv := client_nonce, decrypt_iv := server_nonce,
           cipher := key, decrypt_history := replicate 256 (NOT (server_nonce ! 1)),
           initialized := True\<rparr>))"

definition Ocb2_set_decrypt_iv :: "bytes \<Rightarrow> Ocb2CryptState \<Rightarrow> Ocb2CryptState" where
  "Ocb2_set_decrypt_iv server_nonce st =
     (if length server_nonce = AES_BLOCK_SIZE then st\<lparr>decrypt_iv := server_nonce\<rparr> else st)"

text \<open>The little-endian increment with carry propagation: the loop of \<^verbatim>\<open>encrypt\<close>, and the one of
  \<^verbatim>\<open>carry_iv_bytes\<close>, which skips the first byte.\<close>

fun increment_iv :: "bytes \<Rightarrow> bytes" where
  "increment_iv [] = []"
| "increment_iv (b # bs) = (let b' = b + 1 in if b' \<noteq> 0 then b' # bs else b' # increment_iv bs)"

fun carry_iv_bytes :: "bytes \<Rightarrow> bytes" where
  "carry_iv_bytes [] = []"
| "carry_iv_bytes (b # bs) = b # increment_iv bs"

definition Ocb2_encrypt ::
    "aes_fun \<Rightarrow> bytes \<Rightarrow> Ocb2CryptState \<Rightarrow> bytes result \<times> Ocb2CryptState" where
  "Ocb2_encrypt E plaintext st =
     (if \<not> initialized st then (Inl (InvalidState ''OCB2 not initialized''), st)
      else
        let st' = st\<lparr>encrypt_iv := increment_iv (encrypt_iv st)\<rparr>;
            (ciphertext, tag) = ocb_encrypt E (cipher st') plaintext (encrypt_iv st')
        in (Inr ([encrypt_iv st' ! 0, tag ! 0, tag ! 1, tag ! 2] @ ciphertext), st'))"

text \<open>The nonce reconstruction of \<^verbatim>\<open>decrypt\<close>: the candidate nonce, the late and lost deltas and
  whether the nonce is restored afterwards; \<open>None\<close> when the packet is out of range.\<close>

definition locate_nonce :: "bytes \<Rightarrow> u8 \<Rightarrow> (bytes \<times> int \<times> int \<times> bool) option" where
  "locate_nonce iv iv_byte =
     (if iv ! 0 + 1 = iv_byte then
        if iv_byte > iv ! 0 then Some (iv[0 := iv_byte], 0, 0, False)
        else if iv_byte < iv ! 0 then Some (carry_iv_bytes (iv[0 := iv_byte]), 0, 0, False)
        else Some (iv[0 := iv_byte], 0, 0, False)
      else
        let d = uint iv_byte - uint (iv ! 0);
            diff = (if d > 128 then d - 256 else if d < - 128 then d + 256 else d)
        in if iv_byte < iv ! 0 \<and> diff > - 30 \<and> diff < 0 then
             Some (iv[0 := iv_byte], 1, - 1, True)
           else if iv_byte > iv ! 0 \<and> diff > 0 \<and> diff < 30 then
             Some (iv[0 := iv_byte], 0, uint iv_byte - uint (iv ! 0) - 1, False)
           else None)"

definition update_stats :: "int \<Rightarrow> int \<Rightarrow> PacketStats \<Rightarrow> PacketStats" where
  "update_stats late_d lost_d s =
     (let s1 = s\<lparr>good := good s + 1\<rparr>;
          s2 = (if late_d > 0 then s1\<lparr>late := late s1 + of_int late_d\<rparr> else s1)
      in if lost_d > 0 then s2\<lparr>lost := lost s2 + of_int lost_d\<rparr>
         else if sint (late s2) > \<bar>lost_d\<bar> then s2\<lparr>late := late s2 - of_int \<bar>lost_d\<bar>\<rparr>
         else s2)"

definition Ocb2_decrypt ::
    "aes_fun \<Rightarrow> aes_fun \<Rightarrow> bytes \<Rightarrow> Ocb2CryptState \<Rightarrow> bytes result \<times> Ocb2CryptState" where
  "Ocb2_decrypt E D data st =
     (if \<not> initialized st then (Inl (InvalidState ''OCB2 not initialized''), st)
      else if length data < 4 then
        (Inl (InvalidState ''UDP packet too short for OCB2 header''), st)
      else
        let iv_byte = data ! 0; tag_bytes = take 3 (drop 1 data); ciphertext = drop 4 data
        in case locate_nonce (decrypt_iv st) iv_byte of
             None \<Rightarrow> (Inl (InvalidState ''OCB2 nonce out of range''), st)
           | Some (iv, late_d, lost_d, restore) \<Rightarrow>
               if decrypt_history st ! unat (iv ! 0) = iv ! 1 then
                 (Inl (InvalidState ''OCB2 replay detected''), st)
               else
                 let (plaintext, tag) = ocb_decrypt E D (cipher st) ciphertext iv
                 in if tag ! 0 \<noteq> tag_bytes ! 0 \<or> tag ! 1 \<noteq> tag_bytes ! 1 \<or> tag ! 2 \<noteq> tag_bytes ! 2 then
                      (Inl (InvalidState ''OCB2 authentication failed''), st)
                    else
                      (Inr plaintext,
                       st\<lparr>decrypt_history := (decrypt_history st)[unat (iv ! 0) := iv ! 1],
                          decrypt_iv := (if restore then decrypt_iv st else iv),
                          stats := update_stats late_d lost_d (stats st)\<rparr>))"


section \<open>Blocks\<close>

named_theorems ocb_simps \<open>lengths and cancellation of blocks\<close>

lemma length_xor_blocks [simp, ocb_simps]: "length (xor_blocks a b) = min (length a) (length b)"
  by (simp add: xor_blocks_def)

lemma nth_xor_blocks [simp]:
  "i < length a \<Longrightarrow> i < length b \<Longrightarrow> xor_blocks a b ! i = a ! i XOR b ! i"
  by (simp add: xor_blocks_def)

lemma length_s2 [simp, ocb_simps]: "length (s2 b) = 16"
  by (simp add: s2_def)

lemma length_s3 [simp, ocb_simps]: "length (s3 b) = 16"
  by (simp add: s3_def)

text \<open>Xoring the same block twice gives the block back.\<close>

lemma xor_blocks_cancel [simp, ocb_simps]:
  "length a = length b \<Longrightarrow> xor_blocks a (xor_blocks a b) = b"
  by (rule nth_equalityI) (simp_all flip: xor.assoc)

lemma aes_laws_E:
  assumes "aes_laws E D" and "length k = 16" and "length b = 16"
  shows "length (E k b) = 16" "length (D k b) = 16" "D k (E k b) = b"
  using assms by (auto simp: aes_laws_def)

lemma length_ocb_pad [simp]:
  assumes "aes_laws E D" and "length key = 16" and "length delta = 16"
  shows "length (ocb_pad E key delta r) = 16"
  using assms by (simp add: ocb_pad_def aes_laws_E)

subsection \<open>The offsets are powers of two in the field\<close>

text \<open>The value of a byte block as a big-endian number, and doubling in \<open>GF(2 ^ 128)\<close> with the
  reduction polynomial \<open>0x87\<close>, as the comment above \<^verbatim>\<open>s2\<close> describes it.\<close>

definition be_block :: "bytes \<Rightarrow> 128 word" where
  "be_block b = foldl (\<lambda>acc x. push_bit 8 acc OR ucast x) 0 b"

definition gf_double :: "128 word \<Rightarrow> 128 word" where
  "gf_double x = push_bit 1 x XOR (if bit x 127 then 0x87 else 0)"

lemma bit_foldl_be:
  "bit (foldl (\<lambda>acc x. push_bit 8 acc OR ucast x) a b :: 128 word) n \<longleftrightarrow>
     n < 128 \<and>
     (if n < 8 * length b then bit (b ! (length b - 1 - n div 8)) (n mod 8)
      else bit a (n - 8 * length b))" if "8 * length b \<le> 128" for b :: bytes
  using that
proof (induction b arbitrary: a)
  case Nil
  then show ?case using bit_imp_le_length [of a n] by auto
next
  case (Cons x b)
  have len: "8 * length b \<le> 128" using Cons.prems by simp
  have *: "bit (push_bit 8 a OR ucast x :: 128 word) (n - 8 * length b) \<longleftrightarrow>
      (n - 8 * length b < 128) \<and> (if n - 8 * length b < 8 then bit x (n - 8 * length b)
       else bit a (n - 8 * length b - 8))" (is "?L \<longleftrightarrow> ?R")
    using bit_imp_le_length [of x "n - 8 * length b"] bit_imp_le_length [of a "n - 8 * length b - 8"]
    by (auto simp: bit_simps)
  have ih: "bit (foldl (\<lambda>acc x. push_bit 8 acc OR ucast x) a (x # b)) n \<longleftrightarrow>
      n < 128 \<and> (if n < 8 * length b then bit (b ! (length b - 1 - n div 8)) (n mod 8)
                 else if n - 8 * length b < 8 then bit x (n - 8 * length b)
                 else bit a (n - 8 * length b - 8))"
    unfolding foldl_Cons Cons.IH [OF len] * by auto
  consider "n < 8 * length b" | r where "n = 8 * length b + r" "r < 8"
    | "8 * length b + 8 \<le> n"
    by (metis add_less_cancel_left le_add_diff_inverse not_less)
  then show ?case
  proof cases
    case 1
    then have "n div 8 < length b" by auto
    then have "(x # b) ! (length (x # b) - 1 - n div 8) = b ! (length b - 1 - n div 8)"
      by (simp add: nth_Cons Suc_diff_Suc [symmetric])
    with 1 show ?thesis unfolding ih by simp
  qed (unfold ih, auto simp: add.commute)
qed

lemma bit_be_block:
  assumes "length b = 16"
  shows "bit (be_block b) n \<longleftrightarrow> n < 128 \<and> bit (b ! (15 - n div 8)) (n mod 8)"
  using bit_foldl_be [of b 0 n] assms by (auto simp: be_block_def)

lemma nth_s2:
  "i < 15 \<Longrightarrow> s2 b ! i = push_bit 1 (b ! i) OR drop_bit 7 (b ! (i + 1))"
  "s2 b ! 15 = push_bit 1 (b ! 15) XOR (drop_bit 7 (b ! 0) * 0x87)"
  by (simp_all add: s2_def nth_append)

lemma drop_bit_7_byte: "drop_bit 7 x = (if bit x 7 then 1 else 0)" for x :: u8
proof (rule bit_word_eqI)
  fix n assume "n < LENGTH(8)"
  show "bit (drop_bit 7 x) n = bit (if bit x 7 then 1 else 0 :: u8) n"
    using bit_imp_le_length [of x "7 + n"] by (cases "n = 0") (auto simp: bit_simps)
qed

lemma bit_87: "bit (0x87 :: int) n \<longleftrightarrow> n \<in> {0, 1, 2, 7}"
proof (cases "n < 8")
  case True
  then consider "n = 0" | "n = 1" | "n = 2" | "n = 3" | "n = 4" | "n = 5" | "n = 6" | "n = 7"
    by linarith
  then show ?thesis by cases (simp_all add: bit_iff_odd)
next
  case False
  then have "(0x87 :: int) < 2 ^ n" using power_increasing [of 8 n "2 :: int"] by simp
  then have "(0x87 :: int) div 2 ^ n = 0" by (intro div_pos_pos_trivial) simp_all
  then show ?thesis using False by (auto simp: bit_iff_odd)
qed

lemma bit_times_2: "bit (x * 2) n \<longleftrightarrow> n < LENGTH('a) \<and> n \<noteq> 0 \<and> bit x (n - 1)"
  for x :: "'a::len word"
  using bit_double_iff [of x n] by (simp add: mult.commute)

lemma bit_s2:
  assumes "i < 16" and "m < 8"
  shows "bit (s2 b ! i) m \<longleftrightarrow>
    (if m = 0 then (if i < 15 then bit (b ! (i + 1)) 7 else bit (b ! 0) 7)
     else bit (b ! i) (m - 1) \<noteq> (i = 15 \<and> bit (b ! 0) 7 \<and> m \<in> {1, 2, 7}))"
proof (cases "i = 15")
  case True
  then show ?thesis
    using assms by (auto simp: nth_s2 drop_bit_7_byte bit_simps bit_87 bit_times_2)
next
  case False
  with assms show ?thesis
    by (auto simp: nth_s2 drop_bit_7_byte bit_simps bit_times_2)
qed

lemma be_block_s2:
  assumes "length b = 16"
  shows "be_block (s2 b) = gf_double (be_block b)"
proof (rule bit_word_eqI)
  fix n assume "n < LENGTH(128)"
  then have n: "n < 128" by simp
  have top: "bit (be_block b) 127 \<longleftrightarrow> bit (b ! 0) 7" using assms by (simp add: bit_be_block)
  have rhs: "bit (gf_double (be_block b)) n \<longleftrightarrow>
      (0 < n \<and> bit (be_block b) (n - 1)) \<noteq> (bit (b ! 0) 7 \<and> n \<in> {0, 1, 2, 7})"
    using n by (auto simp: gf_double_def bit_simps bit_87 bit_times_2 top)
  have lhs: "bit (be_block (s2 b)) n \<longleftrightarrow> bit (s2 b ! (15 - n div 8)) (n mod 8)"
    using n by (simp add: bit_be_block)
  define q r where "q = n div 8" and "r = n mod 8"
  have qr: "n = 8 * q + r" "r < 8" "q < 16" using n by (auto simp: q_def r_def)
  show "bit (be_block (s2 b)) n \<longleftrightarrow> bit (gf_double (be_block b)) n"
  proof (cases r)
    case 0
    show ?thesis
    proof (cases q)
      case (Suc p)
      with 0 qr have "(n - 1) div 8 = p" "(n - 1) mod 8 = 7" by auto
      moreover have "Suc (15 - q) = 15 - p" using Suc qr by linarith
      ultimately show ?thesis
        unfolding lhs rhs using 0 Suc qr assms by (auto simp: bit_s2 bit_be_block)
    qed (unfold lhs rhs, use 0 qr assms in \<open>simp add: bit_s2\<close>)
  next
    case (Suc t)
    with qr have "(n - 1) div 8 = q" "(n - 1) mod 8 = t" by auto
    then have low: "bit (be_block b) (n - 1) \<longleftrightarrow> bit (b ! (15 - q)) t"
      using n bit_be_block [OF assms, of "n - 1"] by auto
    have red: "15 - q = 15 \<and> r \<in> {1, 2, 7} \<longleftrightarrow> n \<in> {0, 1, 2, 7}"
      using qr Suc by (cases q) auto
    have "bit (s2 b ! (15 - q)) r \<longleftrightarrow>
        bit (b ! (15 - q)) t \<noteq> (bit (b ! 0) 7 \<and> 15 - q = 15 \<and> r \<in> {1, 2, 7})"
      using qr Suc by (simp add: bit_s2) blast
    moreover have "n > 0" using Suc qr(1) by simp
    ultimately show ?thesis
      unfolding lhs rhs red low q_def [symmetric] r_def [symmetric] by blast
  qed
qed

lemma s3_s2: "length b = 16 \<Longrightarrow> s3 b = xor_blocks b (s2 b)"
proof (rule nth_equalityI)
  fix i assume b: "length b = 16" and "i < length (s3 b)"
  then consider "i < 15" | "i = 15" by fastforce
  then show "s3 b ! i = xor_blocks b (s2 b) ! i"
    using b by cases (simp_all add: s3_def s2_def nth_append)
qed simp

lemma be_block_xor:
  assumes "length a = 16" and "length b = 16"
  shows "be_block (xor_blocks a b) = be_block a XOR be_block b"
  by (rule bit_word_eqI) (use assms in \<open>auto simp: bit_be_block bit_xor_iff\<close>)

section \<open>The mode is inverted by its inverse\<close>

lemma ocb_encrypt_blocks_step:
  assumes "length plain > 16"
  shows "ocb_encrypt_blocks E key delta checksum plain =
    (let (encrypted, rest) = ocb_encrypt_blocks E key (s2 delta)
           (xor_blocks checksum (take 16 plain)) (drop 16 plain)
     in (xor_blocks (s2 delta) (E key (xor_blocks (s2 delta) (take 16 plain))) @ encrypted, rest))"
  using assms by (subst ocb_encrypt_blocks.simps) (simp add: Let_def)

lemma ocb_decrypt_blocks_step:
  assumes "length enc > 16"
  shows "ocb_decrypt_blocks D key delta checksum enc =
    (let pb = xor_blocks (s2 delta) (D key (xor_blocks (s2 delta) (take 16 enc)));
         (plain, rest) = ocb_decrypt_blocks D key (s2 delta) (xor_blocks checksum pb) (drop 16 enc)
     in (pb @ plain, rest))"
  using assms by (subst ocb_decrypt_blocks.simps) (simp add: Let_def)

text \<open>What the block loop of encryption leaves, and that the loop of decryption undoes it whatever
  the tail is turned into.\<close>

lemma ocb_blocks_roundtrip:
  assumes "aes_laws E D" and "length key = 16" and "length delta = 16" and "length checksum = 16"
    and "ocb_encrypt_blocks E key delta checksum plain = (enc, d, c, tail)"
  shows "\<exists>pre. plain = pre @ tail \<and> length enc = length pre \<and> length tail \<le> 16 \<and>
           length d = 16 \<and> length c = 16 \<and>
           (\<forall>t. length t = length tail \<longrightarrow>
              ocb_decrypt_blocks D key delta checksum (enc @ t) = (pre, d, c, t))"
  using assms(3-)
proof (induction plain arbitrary: delta checksum enc rule: length_induct)
  case (1 plain)
  show ?case
  proof (cases "length plain > 16")
    case True
    let ?pb = "take 16 plain" and ?d = "s2 delta"
    let ?cb = "xor_blocks ?d (E key (xor_blocks ?d ?pb))"
    obtain enc' where enc': "ocb_encrypt_blocks E key ?d (xor_blocks checksum ?pb) (drop 16 plain)
        = (enc', d, c, tail)" and enc: "enc = ?cb @ enc'"
      using 1(4) True by (auto simp: ocb_encrypt_blocks_step split: prod.splits)
    have "length (drop 16 plain) < length plain" using True by simp
    moreover have "length (xor_blocks checksum ?pb) = 16" using True 1(3) by simp
    ultimately obtain pre where pre: "drop 16 plain = pre @ tail" "length enc' = length pre"
        "length tail \<le> 16" "length d = 16" "length c = 16"
      and dec: "\<And>t. length t = length tail \<Longrightarrow>
        ocb_decrypt_blocks D key ?d (xor_blocks checksum ?pb) (enc' @ t) = (pre, d, c, t)"
      using 1(1) enc' length_s2 by blast
    have cb: "length ?cb = 16" using True assms by (simp add: aes_laws_E)
    have pb: "xor_blocks ?d (D key (xor_blocks ?d ?cb)) = ?pb"
      using True assms by (simp add: aes_laws_E)
    have "ocb_decrypt_blocks D key delta checksum (enc @ t) = (?pb @ pre, d, c, t)"
      if "length t = length tail" for t
    proof -
      have "length (pre @ tail) > 0" using True by (simp flip: pre(1))
      then have "length (enc @ t) > 16" using that pre(2) cb by (auto simp: enc)
      then show ?thesis
        using dec [OF that] cb pb by (simp add: ocb_decrypt_blocks_step enc Let_def)
    qed
    moreover have "plain = (?pb @ pre) @ tail" using pre(1) by (metis append_assoc append_take_drop_id)
    ultimately show ?thesis using pre cb True enc by (intro exI [of _ "?pb @ pre"]) auto
  next
    case False
    then have "enc = []" "d = delta" "c = checksum" "tail = plain"
      using 1(4) by (auto simp: ocb_encrypt_blocks.simps)
    with False 1(2,3) show ?thesis
      by (intro exI [of _ "[]"]) (auto simp: ocb_decrypt_blocks.simps)
  qed
qed

text \<open>The last block: the ciphertext tail padded with zeros and xored with the pad is the padded
  plaintext.\<close>

lemma ocb_final_block:
  assumes "length tail \<le> 16" and "length pad = 16"
  shows "xor_blocks (take (length tail) (xor_blocks pad (tail @ drop (length tail) pad))
           @ replicate (16 - length tail) 0) pad = tail @ drop (length tail) pad"
  using assms
  by (intro nth_equalityI) (auto simp: nth_append ac_simps)

lemma ocb_roundtrip:
  assumes "aes_laws E D" and "length key = 16" and "length nonce = 16"
    and "ocb_encrypt E key plain nonce = (encrypted, tag)"
  shows "ocb_decrypt E D key encrypted nonce = (plain, tag)"
    and "length encrypted = length plain" and "length tag = 16"
proof -
  obtain enc d c tail where
    b: "ocb_encrypt_blocks E key (E key nonce) (replicate 16 0) plain = (enc, d, c, tail)"
    by (metis prod_cases4)
  obtain pre where pre: "plain = pre @ tail" "length enc = length pre" "length tail \<le> 16"
      "length d = 16" "length c = 16"
    and dec: "\<And>t. length t = length tail \<Longrightarrow>
      ocb_decrypt_blocks D key (E key nonce) (replicate 16 0) (enc @ t) = (pre, d, c, t)"
    using ocb_blocks_roundtrip [OF assms(1,2) _ _ b] assms by (auto simp: aes_laws_E)
  let ?pad = "ocb_pad E key (s2 d) (length tail)"
  let ?fp = "tail @ drop (length tail) ?pad"
  have pad: "length ?pad = 16" using assms by simp
  have enc: "encrypted = enc @ take (length tail) (xor_blocks ?pad ?fp)"
    and tag: "tag = E key (xor_blocks (xor_blocks c ?fp) (s3 (s2 d)))"
    using assms(4) by (auto simp: ocb_encrypt_def b Let_def)
  have len: "length (take (length tail) (xor_blocks ?pad ?fp)) = length tail"
    using pad pre(3) by simp
  show "ocb_decrypt E D key encrypted nonce = (plain, tag)"
    using len pad pre ocb_final_block [OF pre(3) pad]
    by (simp add: ocb_decrypt_def enc tag dec Let_def)
  show "length encrypted = length plain" using len pre by (simp add: enc)
  show "length tag = 16" using assms pre pad by (simp add: tag aes_laws_E)
qed

section \<open>The nonce is a little-endian counter\<close>

fun le_val :: "bytes \<Rightarrow> nat" where
  "le_val [] = 0"
| "le_val (b # bs) = unat b + 256 * le_val bs"

lemma unat_byte_Suc: "b + 1 \<noteq> 0 \<Longrightarrow> unat (b + 1) = Suc (unat b)" for b :: u8
  using unatSuc [of b] by (simp add: add.commute)

lemma byte_wrap: "b + 1 = 0 \<longleftrightarrow> b = 255" for b :: u8
proof
  assume "b + 1 = 0"
  then have "b = - 1" by (simp add: eq_neg_iff_add_eq_0)
  then show "b = 255" by simp
qed simp

lemma byte_less_Suc: "b + 1 \<noteq> 0 \<Longrightarrow> b < b + 1" for b :: u8
  by (simp add: word_less_nat_alt unat_byte_Suc)

lemma le_val_bound: "le_val bs < 256 ^ length bs"
proof (induction bs)
  case (Cons b bs)
  have "unat b < 256" using unsigned_less [of b] by simp
  moreover have "256 * le_val bs + 256 \<le> 256 * 256 ^ length bs" using Cons by simp
  ultimately show ?case by simp
qed simp

lemma length_increment_iv [simp]: "length (increment_iv bs) = length bs"
  by (induction bs) (auto simp: Let_def)

lemma length_carry_iv_bytes [simp]: "length (carry_iv_bytes bs) = length bs"
  by (cases bs) auto

lemma le_val_increment: "le_val (increment_iv bs) = (le_val bs + 1) mod 256 ^ length bs"
proof (induction bs)
  case (Cons b bs)
  show ?case
  proof (cases "b + 1 = 0")
    case True
    then have "unat b = 255" by (simp add: byte_wrap)
    moreover have "256 * ((le_val bs + 1) mod 256 ^ length bs) = (256 * (le_val bs + 1)) mod 256 ^ Suc (length bs)"
      by (simp add: mult_mod_right)
    ultimately show ?thesis using True Cons by simp
  next
    case False
    have "le_val ((b + 1) # bs) = le_val (b # bs) + 1"
      using unat_byte_Suc [OF False] by simp
    moreover have "le_val ((b + 1) # bs) < 256 ^ length (b # bs)"
      using le_val_bound [of "(b + 1) # bs"] by simp
    ultimately show ?thesis using False by (simp add: Let_def)
  qed
qed simp

lemma le_val_funpow:
  "le_val ((increment_iv ^^ n) bs) = (le_val bs + n) mod 256 ^ length bs"
proof (induction n)
  case 0
  then show ?case using le_val_bound [of bs] by simp
next
  case (Suc n)
  have "length ((increment_iv ^^ n) bs) = length bs" by (induction n) auto
  then show ?case by (simp add: le_val_increment Suc mod_Suc_eq)
qed

text \<open>Locating the next nonce of the sequence.\<close>

lemma locate_next:
  assumes "iv \<noteq> []"
  shows "locate_nonce iv (increment_iv iv ! 0) = Some (increment_iv iv, 0, 0, False)"
proof -
  obtain b bs where iv: "iv = b # bs" using assms by (cases iv) auto
  show ?thesis
  proof (cases "b + 1 = 0")
    case True
    then have "b = 255" by (simp add: byte_wrap)
    with True show ?thesis by (simp add: locate_nonce_def iv)
  next
    case False
    then show ?thesis using byte_less_Suc [OF False] by (simp add: locate_nonce_def iv Let_def)
  qed
qed

section \<open>The state invariant\<close>

definition Ocb2_wf :: "Ocb2CryptState \<Rightarrow> bool" where
  "Ocb2_wf st \<longleftrightarrow>
     length (cipher st) = 16 \<and> length (raw_key st) = 16 \<and> length (encrypt_iv st) = 16 \<and>
     length (decrypt_iv st) = 16 \<and> length (decrypt_history st) = 256 \<and>
     cipher st = raw_key st"

lemma length_locate_nonce:
  "locate_nonce iv x = Some (iv', a, b, r) \<Longrightarrow> length iv' = length iv"
  by (auto simp: locate_nonce_def Let_def split: if_splits)

lemma nth_0_locate_nonce:
  "locate_nonce iv x = Some (iv', a, b, r) \<Longrightarrow> iv \<noteq> [] \<Longrightarrow> iv' ! 0 = x"
  by (cases iv) (auto simp: locate_nonce_def Let_def split: if_splits)

lemma Ocb2_wf_new: "Ocb2_wf Ocb2_new"
  by (simp add: Ocb2_wf_def Ocb2_new_def)

lemma Ocb2_wf_set_key: "Ocb2_wf st \<Longrightarrow> Ocb2_wf (snd (Ocb2_set_key key cn sn st))"
  by (auto simp: Ocb2_wf_def Ocb2_set_key_def)

lemma Ocb2_wf_set_decrypt_iv: "Ocb2_wf st \<Longrightarrow> Ocb2_wf (Ocb2_set_decrypt_iv sn st)"
  by (auto simp: Ocb2_wf_def Ocb2_set_decrypt_iv_def)

lemma Ocb2_wf_encrypt: "Ocb2_wf st \<Longrightarrow> Ocb2_wf (snd (Ocb2_encrypt E p st))"
  by (auto simp: Ocb2_wf_def Ocb2_encrypt_def Let_def split: prod.splits)

text \<open>The two ways a decryption ends: an error that leaves the state as it was, or the acceptance
  of a located nonce that the history does not hold.\<close>

lemma Ocb2_decrypt_cases:
  obtains (error) e where "Ocb2_decrypt E D data st = (Inl (InvalidState e), st)"
  | (accept) iv late_d lost_d restore plain tag where
      "initialized st" "4 \<le> length data"
      "locate_nonce (decrypt_iv st) (data ! 0) = Some (iv, late_d, lost_d, restore)"
      "decrypt_history st ! unat (iv ! 0) \<noteq> iv ! 1"
      "ocb_decrypt E D (cipher st) (drop 4 data) iv = (plain, tag)"
      "Ocb2_decrypt E D data st = (Inr plain,
         st\<lparr>decrypt_history := (decrypt_history st)[unat (iv ! 0) := iv ! 1],
            decrypt_iv := (if restore then decrypt_iv st else iv),
            stats := update_stats late_d lost_d (stats st)\<rparr>)"
  by (cases "Ocb2_decrypt E D data st = (Inl (InvalidState ''OCB2 not initialized''), st)";
      cases "locate_nonce (decrypt_iv st) (data ! 0)")
     (auto simp: Ocb2_decrypt_def Let_def split: prod.splits if_splits)

lemma Ocb2_wf_decrypt:
  assumes "Ocb2_wf st"
  shows "Ocb2_wf (snd (Ocb2_decrypt E D data st))"
  by (cases rule: Ocb2_decrypt_cases [of E D data st])
     (use assms in \<open>auto simp: Ocb2_wf_def dest: length_locate_nonce\<close>)

lemmas Ocb2_wf_intros [intro] = Ocb2_wf_new Ocb2_wf_set_key Ocb2_wf_set_decrypt_iv
  Ocb2_wf_encrypt Ocb2_wf_decrypt

text \<open>The state machine of a crypt state over its public operations.\<close>

inductive Ocb2_reachable :: "aes_fun \<Rightarrow> aes_fun \<Rightarrow> Ocb2CryptState \<Rightarrow> bool" for E D where
  reach_new: "Ocb2_reachable E D Ocb2_new"
| reach_set_key: "Ocb2_reachable E D st \<Longrightarrow> Ocb2_reachable E D (snd (Ocb2_set_key key cn sn st))"
| reach_set_decrypt_iv: "Ocb2_reachable E D st \<Longrightarrow> Ocb2_reachable E D (Ocb2_set_decrypt_iv sn st)"
| reach_encrypt: "Ocb2_reachable E D st \<Longrightarrow> Ocb2_reachable E D (snd (Ocb2_encrypt E p st))"
| reach_decrypt: "Ocb2_reachable E D st \<Longrightarrow> Ocb2_reachable E D (snd (Ocb2_decrypt E D data st))"

lemma Ocb2_reachable_wf: "Ocb2_reachable E D st \<Longrightarrow> Ocb2_wf st"
  by (induction rule: Ocb2_reachable.induct) auto

section \<open>Synchronised ends\<close>

text \<open>The history never holds the second nonce byte that the next visit of a slot will carry.\<close>

definition history_ok :: "bytes \<Rightarrow> bytes \<Rightarrow> bool" where
  "history_ok iv h \<longleftrightarrow>
     (\<forall>x < 256. if unat (iv ! 0) < x then h ! x \<noteq> iv ! 1 else h ! x \<noteq> iv ! 1 + 1)"

definition Ocb2_synced :: "aes_fun \<Rightarrow> aes_fun \<Rightarrow> Ocb2CryptState \<Rightarrow> Ocb2CryptState \<Rightarrow> bool" where
  "Ocb2_synced E D s r \<longleftrightarrow>
     aes_laws E D \<and> Ocb2_wf s \<and> Ocb2_wf r \<and> initialized s \<and> initialized r \<and>
     cipher s = cipher r \<and> encrypt_iv s = decrypt_iv r \<and>
     history_ok (decrypt_iv r) (decrypt_history r)"

lemma increment_iv_two:
  assumes "length iv = 16"
  shows "increment_iv iv ! 0 = iv ! 0 + 1"
    and "increment_iv iv ! 1 = (if iv ! 0 + 1 = 0 then iv ! 1 + 1 else iv ! 1)"
proof -
  obtain a b c where "iv = a # b # c" using assms
    by (cases iv; cases "tl iv") auto
  then show "increment_iv iv ! 0 = iv ! 0 + 1"
    "increment_iv iv ! 1 = (if iv ! 0 + 1 = 0 then iv ! 1 + 1 else iv ! 1)"
    by (auto simp: Let_def)
qed

lemma history_ok_next:
  assumes "history_ok iv h" and "length iv = 16" and "length h = 256"
  shows "h ! unat (increment_iv iv ! 0) \<noteq> increment_iv iv ! 1"
    and "history_ok (increment_iv iv) (h[unat (increment_iv iv ! 0) := increment_iv iv ! 1])"
proof -
  have b: "unat x < 256" for x :: u8 using unsigned_less [of x] by simp
  show "h ! unat (increment_iv iv ! 0) \<noteq> increment_iv iv ! 1"
  proof (cases "iv ! 0 + 1 = 0")
    case True
    then show ?thesis
      using assms(1) [unfolded history_ok_def, rule_format, of 0]
      unfolding increment_iv_two [OF assms(2)] by simp
  next
    case False
    then have "unat (iv ! 0) < unat (iv ! 0 + 1)" by (simp add: unat_byte_Suc)
    with False b show ?thesis
      using assms(1) unfolding history_ok_def increment_iv_two [OF assms(2)] by (metis (full_types))
  qed
  show "history_ok (increment_iv iv) (h[unat (increment_iv iv ! 0) := increment_iv iv ! 1])"
    unfolding history_ok_def
  proof (intro allI impI)
    fix x :: nat assume x: "x < 256"
    have ok: "if unat (iv ! 0) < x then h ! x \<noteq> iv ! 1 else h ! x \<noteq> iv ! 1 + 1"
      using assms(1) x unfolding history_ok_def by blast
    show "if unat (increment_iv iv ! 0) < x
      then h[unat (increment_iv iv ! 0) := increment_iv iv ! 1] ! x \<noteq> increment_iv iv ! 1
      else h[unat (increment_iv iv ! 0) := increment_iv iv ! 1] ! x \<noteq> increment_iv iv ! 1 + 1"
    proof (cases "iv ! 0 + 1 = 0")
      case True
      then have "unat (iv ! 0) = 255" by (simp add: byte_wrap)
      then show ?thesis
        unfolding increment_iv_two [OF assms(2)] using ok True x assms(3)
        by (simp add: nth_list_update)
    next
      case False
      show ?thesis
        unfolding increment_iv_two [OF assms(2)] using ok False x assms(3) unat_byte_Suc [OF False]
        by (auto simp: nth_list_update split: if_splits)
    qed
  qed
qed

text \<open>A packet of the sender is accepted by a receiver that locates the sender's nonce, is not
  barred by its history and has the same key.\<close>

lemma Ocb2_packet_accepted:
  assumes "aes_laws E D" and "Ocb2_wf s" and "Ocb2_wf r" and "initialized s" and "initialized r"
    and "cipher s = cipher r"
    and "locate_nonce (decrypt_iv r) (increment_iv (encrypt_iv s) ! 0) =
           Some (increment_iv (encrypt_iv s), late_d, lost_d, restore)"
    and "decrypt_history r ! unat (increment_iv (encrypt_iv s) ! 0) \<noteq> increment_iv (encrypt_iv s) ! 1"
  obtains packet where
    "Ocb2_encrypt E p s = (Inr packet, s\<lparr>encrypt_iv := increment_iv (encrypt_iv s)\<rparr>)"
    "length packet = length p + 4" "packet ! 0 = increment_iv (encrypt_iv s) ! 0"
    "Ocb2_decrypt E D packet r = (Inr p,
       r\<lparr>decrypt_history := (decrypt_history r)
            [unat (increment_iv (encrypt_iv s) ! 0) := increment_iv (encrypt_iv s) ! 1],
         decrypt_iv := (if restore then decrypt_iv r else increment_iv (encrypt_iv s)),
         stats := update_stats late_d lost_d (stats r)\<rparr>)"
proof -
  let ?iv = "increment_iv (encrypt_iv s)"
  obtain enc tag where o: "ocb_encrypt E (cipher s) p ?iv = (enc, tag)" by fastforce
  have "length (cipher s) = 16" "length ?iv = 16" using assms by (simp_all add: Ocb2_wf_def)
  then have rt: "ocb_decrypt E D (cipher r) enc ?iv = (p, tag)" "length enc = length p"
    using ocb_roundtrip [OF assms(1) _ _ o] assms(6) by auto
  let ?packet = "[?iv ! 0, tag ! 0, tag ! 1, tag ! 2] @ enc"
  have "Ocb2_encrypt E p s = (Inr ?packet, s\<lparr>encrypt_iv := ?iv\<rparr>)"
    using assms(4) o by (simp add: Ocb2_encrypt_def)
  moreover have "Ocb2_decrypt E D ?packet r = (Inr p,
       r\<lparr>decrypt_history := (decrypt_history r)[unat (?iv ! 0) := ?iv ! 1],
         decrypt_iv := (if restore then decrypt_iv r else ?iv),
         stats := update_stats late_d lost_d (stats r)\<rparr>)"
    using assms(5,7,8) rt(1) by (simp add: Ocb2_decrypt_def)
  ultimately show ?thesis using that [of ?packet] rt(2) by simp
qed

lemma Ocb2_synced_step:
  assumes "Ocb2_synced E D s r"
  shows "\<exists>packet s' r'. Ocb2_encrypt E p s = (Inr packet, s') \<and>
           Ocb2_decrypt E D packet r = (Inr p, r') \<and> Ocb2_synced E D s' r' \<and>
           length packet = length p + 4"
proof -
  let ?iv = "increment_iv (encrypt_iv s)"
  note a = assms [unfolded Ocb2_synced_def]
  have len: "length (decrypt_iv r) = 16" "length (decrypt_history r) = 256"
    using a by (auto simp: Ocb2_wf_def)
  then have ne: "decrypt_iv r \<noteq> []" by auto
  have hist: "decrypt_history r ! unat (?iv ! 0) \<noteq> ?iv ! 1"
    "history_ok ?iv ((decrypt_history r)[unat (?iv ! 0) := ?iv ! 1])"
    using history_ok_next [of "decrypt_iv r" "decrypt_history r"] a len by auto
  obtain packet where p: "Ocb2_encrypt E p s = (Inr packet, s\<lparr>encrypt_iv := ?iv\<rparr>)"
    "length packet = length p + 4"
    "Ocb2_decrypt E D packet r = (Inr p,
       r\<lparr>decrypt_history := (decrypt_history r)[unat (?iv ! 0) := ?iv ! 1],
         decrypt_iv := (if False then decrypt_iv r else ?iv),
         stats := update_stats 0 0 (stats r)\<rparr>)"
    by (rule Ocb2_packet_accepted [of E D s r 0 0 False p])
       (use a hist(1) locate_next [OF ne] in auto)
  have "Ocb2_synced E D (snd (Ocb2_encrypt E p s)) (snd (Ocb2_decrypt E D packet r))"
    using a hist(2) Ocb2_wf_encrypt [of s E p] Ocb2_wf_decrypt [of r E D packet]
    unfolding Ocb2_synced_def p by auto
  then show ?thesis using p by auto
qed

lemma history_ok_fresh:
  assumes "sn ! 1 \<notin> {127, 255 :: u8}"
  shows "history_ok sn (replicate 256 (NOT (sn ! 1)))"
proof -
  have ne: "NOT b \<noteq> b" for b :: u8
    by (metis bit_not_iff bit_imp_le_length len_gt_0 possible_bit_word)
  have "NOT (sn ! 1) \<noteq> sn ! 1 + 1"
  proof
    assume "NOT (sn ! 1) = sn ! 1 + 1"
    then have "sn ! 1 + sn ! 1 + 2 = 0" by (simp add: not_eq_complement algebra_simps)
    then have "(uint (sn ! 1) + uint (sn ! 1) + 2) mod 256 = 0" by (simp flip: uint_0_iff add: uint_word_ariths mod_simps)
    moreover have "0 \<le> uint (sn ! 1)" "uint (sn ! 1) < 256"
      using unsigned_less [of "sn ! 1"] by simp_all
    ultimately have "uint (sn ! 1) = 127 \<or> uint (sn ! 1) = 255" by presburger
    then show False using assms by (auto simp: word_uint_eq_iff)
  qed
  with ne show ?thesis by (simp add: history_ok_def)
qed

interpretation ocb2: crypt_channel "Ocb2_encrypt E" "Ocb2_decrypt E D" "Ocb2_synced E D"
  using Ocb2_synced_step by unfold_locales blast

text \<open>Installing one key and one server nonce at both ends synchronises the server's sending side
  with the client's receiving side.\<close>

lemma Ocb2_synced_set_key:
  assumes "aes_laws E D" and "length key = 16" and "length cn = 16" and "length sn = 16"
    and "sn ! 1 \<notin> {127, 255}" and "Ocb2_wf a" and "Ocb2_wf b"
  shows "Ocb2_synced E D (snd (Ocb2_set_key key sn cn a)) (snd (Ocb2_set_key key cn sn b))"
  using assms history_ok_fresh [OF assms(5)]
  by (simp add: Ocb2_synced_def Ocb2_set_key_def Ocb2_wf_def)

section \<open>Replays, counters and the window\<close>

text \<open>The states after a sequence of encryptions and after a sequence of received packets, and that
  the upper nonce bytes did not change on the way.\<close>

definition Ocb2_encrypts :: "aes_fun \<Rightarrow> bytes list \<Rightarrow> Ocb2CryptState \<Rightarrow> Ocb2CryptState" where
  "Ocb2_encrypts E ps st = fold (\<lambda>p st. snd (Ocb2_encrypt E p st)) ps st"

definition Ocb2_decrypts :: "aes_fun \<Rightarrow> aes_fun \<Rightarrow> bytes list \<Rightarrow> Ocb2CryptState \<Rightarrow> Ocb2CryptState" where
  "Ocb2_decrypts E D ds st = fold (\<lambda>d st. snd (Ocb2_decrypt E D d st)) ds st"

fun Ocb2_same_lap :: "aes_fun \<Rightarrow> aes_fun \<Rightarrow> bytes list \<Rightarrow> Ocb2CryptState \<Rightarrow> bool" where
  "Ocb2_same_lap E D [] st = True"
| "Ocb2_same_lap E D (d # ds) st =
     (let st' = snd (Ocb2_decrypt E D d st)
      in drop 1 (decrypt_iv st') = drop 1 (decrypt_iv st) \<and> Ocb2_same_lap E D ds st')"

lemma Ocb2_encrypts_iv:
  assumes "initialized st"
  shows "encrypt_iv (Ocb2_encrypts E ps st) = (increment_iv ^^ length ps) (encrypt_iv st)"
  using assms
proof (induction ps arbitrary: st)
  case (Cons p ps)
  have "encrypt_iv (snd (Ocb2_encrypt E p st)) = increment_iv (encrypt_iv st)"
    "initialized (snd (Ocb2_encrypt E p st))"
    using Cons.prems by (auto simp: Ocb2_encrypt_def Let_def split: prod.splits)
  then show ?case using Cons.IH by (simp add: Ocb2_encrypts_def funpow_swap1)
qed (simp add: Ocb2_encrypts_def)

definition Ocb2_seen :: "Ocb2CryptState \<Rightarrow> u8 \<Rightarrow> bool" where
  "Ocb2_seen st x \<longleftrightarrow> decrypt_history st ! unat x = decrypt_iv st ! 1"

lemma locate_same_lap:
  assumes "locate_nonce iv x = Some (iv', a, b, r)" and "\<not> (iv ! 0 = 255 \<and> x = 0)"
  shows "iv' = iv[0 := x]"
proof -
  have "\<not> x < iv ! 0" if "iv ! 0 + 1 = x"
    using that assms(2) byte_less_Suc [of "iv ! 0"] byte_wrap [of "iv ! 0"] by force
  then show ?thesis using assms(1) by (auto simp: locate_nonce_def Let_def split: if_splits)
qed

text \<open>The deltas of a located nonce.\<close>

lemma locate_deltas:
  "locate_nonce iv x = Some (iv', a, b, r) \<Longrightarrow>
     (r \<longrightarrow> iv' = iv[0 := x]) \<and> ((a, b) = (0, 0) \<or> (a, b) = (1, - 1) \<or> a = 0 \<and> 0 < b)"
  by (auto simp: locate_nonce_def Let_def word_less_def split: if_splits)

text \<open>Inside the window and the lap a nonce is located by its first byte.\<close>

lemma locate_window:
  assumes "\<bar>uint x - uint (iv ! 0)\<bar> < 30" and "x \<noteq> iv ! 0"
  shows "\<exists>a b. locate_nonce iv x = Some (iv[0 := x], a, b, x < iv ! 0)"
proof -
  have ne: "uint x \<noteq> uint (iv ! 0)" using assms(2) by (simp add: word_uint_eq_iff)
  show ?thesis
  proof (cases "iv ! 0 + 1 = x")
    case True
    have "iv ! 0 + 1 \<noteq> 0" using True assms(1) byte_wrap [of "iv ! 0"] by auto
    then have "iv ! 0 < x" using byte_less_Suc [of "iv ! 0"] True by simp
    then show ?thesis using True by (simp add: locate_nonce_def)
  next
    case False
    then show ?thesis using assms(1) ne by (auto simp: locate_nonce_def Let_def word_less_def)
  qed
qed

lemma unat_byte: "unat x < 256" for x :: u8
  using unsigned_less [of x] by simp

lemma Ocb2_accept_seen:
  assumes "Ocb2_wf st" and "Ocb2_decrypt E D data st = (Inr p, st')"
  shows "Ocb2_seen st' (data ! 0)"
proof (cases rule: Ocb2_decrypt_cases [of E D data st])
  case (accept iv a b r plain tag)
  have "length (decrypt_iv st) = 16" "length (decrypt_history st) = 256"
    using assms(1) by (auto simp: Ocb2_wf_def)
  moreover from this have "decrypt_iv st \<noteq> []" by auto
  from nth_0_locate_nonce [OF accept(3) this] have "iv ! 0 = data ! 0" .
  moreover have "r \<Longrightarrow> iv ! 1 = decrypt_iv st ! 1" using locate_deltas [OF accept(3)] by auto
  ultimately show ?thesis
    using accept(6) assms(2) unat_byte [of "data ! 0"] by (auto simp: Ocb2_seen_def)
qed (use assms in simp)

lemma Ocb2_seen_step:
  assumes "Ocb2_wf st" and "Ocb2_seen st x"
    and "drop 1 (decrypt_iv (snd (Ocb2_decrypt E D d st))) = drop 1 (decrypt_iv st)"
  shows "Ocb2_seen (snd (Ocb2_decrypt E D d st)) x"
proof (cases rule: Ocb2_decrypt_cases [of E D d st])
  case (accept iv a b r plain tag)
  let ?st = "snd (Ocb2_decrypt E D d st)"
  have len: "length (decrypt_iv st) = 16" "length (decrypt_iv ?st) = 16" "length (decrypt_history st) = 256"
    using assms(1) Ocb2_wf_decrypt [OF assms(1)] by (auto simp: Ocb2_wf_def)
  have "decrypt_iv ?st ! 1 = decrypt_iv st ! 1"
    using arg_cong [OF assms(3), of "\<lambda>l. l ! 0"] len by simp
  moreover have "iv ! 1 = decrypt_iv ?st ! 1"
    using accept(6) len locate_deltas [OF accept(3)] by auto
  ultimately show ?thesis
    using assms(2) accept(6) len(3) unat_byte [of x] unat_byte [of "iv ! 0"]
    by (auto simp: Ocb2_seen_def nth_list_update)
qed (use assms(2) in simp)

lemma Ocb2_seen_rejected:
  assumes "Ocb2_wf st" and "Ocb2_seen st (data ! 0)"
    and "\<not> (decrypt_iv st ! 0 = 255 \<and> data ! 0 = 0)"
  shows "\<exists>e. Ocb2_decrypt E D data st = (Inl (InvalidState e), st)"
proof (cases rule: Ocb2_decrypt_cases [of E D data st])
  case (accept iv a b r plain tag)
  have "length (decrypt_iv st) = 16" using assms(1) by (simp add: Ocb2_wf_def)
  with locate_same_lap [OF accept(3) assms(3)] have "iv ! 0 = data ! 0" "iv ! 1 = decrypt_iv st ! 1"
    by auto
  with accept(4) assms(2) show ?thesis by (simp add: Ocb2_seen_def)
qed blast

lemma Ocb2_seen_lap:
  assumes "Ocb2_wf st" and "Ocb2_seen st x" and "Ocb2_same_lap E D ds st"
  shows "Ocb2_seen (Ocb2_decrypts E D ds st) x \<and> Ocb2_wf (Ocb2_decrypts E D ds st)"
  using assms
proof (induction ds arbitrary: st)
  case (Cons d ds)
  then show ?case
    using Ocb2_seen_step [of st x E D d] Ocb2_wf_decrypt [of st E D d]
    by (simp add: Ocb2_decrypts_def Let_def)
qed (simp add: Ocb2_decrypts_def)

lemma late_update_stats:
  assumes "late s \<le> 1" and "(a, b) = (0, 0) \<or> (a, b) = (1, - 1) \<or> a = 0 \<and> 0 < b"
  shows "late (update_stats a b s) \<le> 1"
proof -
  have "late s = 0 \<or> late s = 1"
    using assms(1) by (auto simp: word_le_nat_alt word_unat_eq_iff le_Suc_eq)
  then show ?thesis using assms(2) by (auto simp: update_stats_def Let_def)
qed

lemma Ocb2_reachable_late: "Ocb2_reachable E D st \<Longrightarrow> late (stats st) \<le> 1"
proof (induction rule: Ocb2_reachable.induct)
  case (reach_decrypt st data)
  show ?case
  proof (cases rule: Ocb2_decrypt_cases [of E D data st])
    case (accept iv a b r plain tag)
    then show ?thesis using late_update_stats [OF reach_decrypt.IH] locate_deltas [OF accept(3)] by simp
  qed (use reach_decrypt.IH in simp)
qed (auto simp: Ocb2_new_def default_PacketStats_def Ocb2_set_key_def Ocb2_set_decrypt_iv_def
       Ocb2_encrypt_def Let_def split: prod.splits)

lemma locate_over_wrap:
  assumes "2 \<le> k" and "k < 30" and "255 < unat (iv ! 0) + k"
  shows "locate_nonce iv (iv ! 0 + of_nat k) = None"
proof -
  let ?b = "iv ! 0"
  have b: "0 \<le> uint ?b" "uint ?b < 256" using unsigned_less [of ?b] by simp_all
  have k: "255 < uint ?b + int k" using assms(3) unfolding uint_nat by linarith
  have "uint (of_nat k :: u8) = int k" using assms(2) by (simp add: unsigned_of_nat take_bit_nat_eq_self)
  then have "uint (?b + of_nat k) = (uint ?b + int k) mod 256" by (simp add: uint_word_ariths)
  also have "\<dots> = (uint ?b + int k - 256) mod 256" by (simp only: minus_mod_self2)
  also have "\<dots> = uint ?b + int k - 256"
    by (rule mod_pos_pos_trivial) (use b k assms(2) in linarith)+
  finally have s: "uint (?b + of_nat k) = uint ?b + int k - 256" .
  have "?b + 1 \<noteq> ?b + of_nat k"
  proof
    assume "?b + 1 = ?b + of_nat k"
    then have "(1 :: u8) = of_nat k" by simp
    then have "unat (of_nat k :: u8) = 1" by (metis unat_1)
    then show False using assms by (simp add: unat_of_nat)
  qed
  moreover have "?b + of_nat k < ?b" using s assms(2) by (simp add: word_less_def)
  moreover have "uint (?b + of_nat k) - uint ?b = int k - 256" using s by simp
  ultimately show ?thesis
    using assms(1,2) unfolding locate_nonce_def Let_def by (simp only: if_False if_True) auto
qed

section \<open>Properties\<close>

text \<open>An executable stand-in for AES with which the properties are instantiated: the key xored into
  the block.\<close>

definition xor_cipher :: aes_fun where
  "xor_cipher key b = xor_blocks key b"

lemma aes_laws_xor_cipher: "aes_laws xor_cipher xor_cipher"
  by (simp add: aes_laws_def xor_cipher_def)

text \<open>C11: OCB2 decryption inverts OCB2 encryption. For every key, nonce and plaintext of any length,
  decrypting the ciphertext under the same nonce gives the plaintext and recomputes the same
  authentication tag, so the tag check of an unmodified packet passes.\<close>

theorem ocb_decrypt_ocb_encrypt:
  assumes "aes_laws E D" and "length key = 16" and "length nonce = 16"
  shows "ocb_decrypt E D key (fst (ocb_encrypt E key plain nonce)) nonce =
           (plain, snd (ocb_encrypt E key plain nonce))"
  using ocb_roundtrip(1) [OF assms, of plain] by simp

theorem ocb_decrypt_ocb_encrypt_witness:
  "ocb_decrypt xor_cipher xor_cipher (replicate 16 7)
     (fst (ocb_encrypt xor_cipher (replicate 16 7) (replicate 20 65) (replicate 16 9)))
     (replicate 16 9) =
   (replicate 20 65, snd (ocb_encrypt xor_cipher (replicate 16 7) (replicate 20 65) (replicate 16 9)))"
  by (rule ocb_decrypt_ocb_encrypt [OF aes_laws_xor_cipher]) simp_all

text \<open>C1: A voice session in order. After both ends installed the key and nonces of one \<^verbatim>\<open>CryptSetup\<close>
  (whose server nonce has a second byte other than 127 and 255), every packet of a sequence of any
  length is decrypted to what was sent: across every wrap of the first nonce byte, with the
  carry into the higher bytes and without a false replay alarm.\<close>

theorem Ocb2_session_delivers:
  assumes "aes_laws E D" and "length key = 16" and "length client_nonce = 16"
    and "length server_nonce = 16" and "server_nonce ! 1 \<notin> {127, 255}"
  shows "fst (transmit (Ocb2_encrypt E) (Ocb2_decrypt E D) packets
           (snd (Ocb2_set_key key server_nonce client_nonce Ocb2_new))
           (snd (Ocb2_set_key key client_nonce server_nonce Ocb2_new))) = map Inr packets"
  using ocb2.transmit_delivers [OF Ocb2_synced_set_key [OF assms Ocb2_wf_new Ocb2_wf_new], of packets]
  by auto

theorem Ocb2_session_delivers_witness:
  "fst (transmit (Ocb2_encrypt xor_cipher) (Ocb2_decrypt xor_cipher xor_cipher)
     (replicate 1000 [1, 2, 3])
     (snd (Ocb2_set_key (replicate 16 7) (replicate 16 250) (replicate 16 3) Ocb2_new))
     (snd (Ocb2_set_key (replicate 16 7) (replicate 16 3) (replicate 16 250) Ocb2_new))) =
   map Inr (replicate 1000 [1, 2, 3])"
  by (rule Ocb2_session_delivers [OF aes_laws_xor_cipher]) simp_all

text \<open>C37: The offset sequence of the mode is the one of OCB2. Read as a big-endian 128-bit number,
  \<^verbatim>\<open>s2\<close> doubles a block in \<open>GF(2 ^ 128)\<close> with the reduction polynomial \<open>0x87\<close>, and \<^verbatim>\<open>s3\<close>
  triples it.\<close>

theorem offsets_in_field:
  assumes "length block = 16"
  shows "be_block (s2 block) = gf_double (be_block block) \<and>
         be_block (s3 block) = be_block block XOR gf_double (be_block block)"
  using assms by (simp add: be_block_s2 s3_s2 be_block_xor)

theorem offsets_in_field_witness:
  "be_block (s2 (replicate 16 0x80)) = gf_double (be_block (replicate 16 0x80)) \<and>
   be_block (s3 (replicate 16 0x80)) =
     be_block (replicate 16 0x80) XOR gf_double (be_block (replicate 16 0x80))"
  by (rule offsets_in_field) simp

text \<open>C32: A sender never reuses a nonce. From any initialised state, the nonce after any number of
  encryptions below \<open>2 ^ 128\<close> differs from the nonce before, so two packets of one key have
  different nonces.\<close>

theorem encrypt_nonces_fresh:
  assumes "initialized st" and "length (encrypt_iv st) = 16"
    and "ps \<noteq> []" and "length ps < 2 ^ 128"
  shows "encrypt_iv (Ocb2_encrypts E ps st) \<noteq> encrypt_iv st"
proof
  let ?v = "le_val (encrypt_iv st)"
  assume "encrypt_iv (Ocb2_encrypts E ps st) = encrypt_iv st"
  then have "(?v + length ps) mod 256 ^ 16 = ?v"
    using le_val_funpow [of "length ps" "encrypt_iv st"] Ocb2_encrypts_iv [OF assms(1)] assms(2)
    by simp
  moreover have "?v mod 256 ^ 16 = ?v" using le_val_bound [of "encrypt_iv st"] assms(2) by simp
  ultimately have "(256 ^ 16 :: nat) dvd length ps"
    using mod_eq_dvd_iff_nat [of ?v "?v + length ps" "256 ^ 16"] by simp
  then show False using assms(3,4) by (auto dest: dvd_imp_le)
qed

theorem encrypt_nonces_fresh_witness:
  "encrypt_iv (Ocb2_encrypts xor_cipher (replicate 300 [1, 2])
     (snd (Ocb2_set_key (replicate 16 7) (replicate 16 255) (replicate 16 3) Ocb2_new))) \<noteq>
   encrypt_iv (snd (Ocb2_set_key (replicate 16 7) (replicate 16 255) (replicate 16 3) Ocb2_new))"
  by (rule encrypt_nonces_fresh) (simp_all add: Ocb2_set_key_def)

text \<open>C30: No packet is accepted twice within a lap of the first nonce byte. Once a packet has been
  accepted, then after any further traffic that leaves the upper nonce bytes as they were, the
  same packet is refused and the state is untouched. (With the receiver at 255, a packet at 0 is
  read as the first of the next lap; its tag is checked under the next nonce.)\<close>

theorem replay_rejected:
  assumes "Ocb2_wf st" and "Ocb2_decrypt E D data st = (Inr plain, st')"
    and "Ocb2_same_lap E D ds st'"
    and "decrypt_iv (Ocb2_decrypts E D ds st') ! 0 \<noteq> 255 \<or> data ! 0 \<noteq> 0"
  shows "\<exists>e. Ocb2_decrypt E D data (Ocb2_decrypts E D ds st') =
           (Inl (InvalidState e), Ocb2_decrypts E D ds st')"
proof -
  have "Ocb2_wf st'" using Ocb2_wf_decrypt [OF assms(1), of E D data] assms(2) by simp
  then show ?thesis
    using Ocb2_seen_lap [OF _ Ocb2_accept_seen [OF assms(1,2)] assms(3)] Ocb2_seen_rejected assms(4)
    by blast
qed

definition demo_sender :: Ocb2CryptState where
  "demo_sender = snd (Ocb2_set_key (replicate 16 7) (replicate 16 5) (replicate 16 3) Ocb2_new)"

definition demo_receiver :: Ocb2CryptState where
  "demo_receiver = snd (Ocb2_set_key (replicate 16 7) (replicate 16 3) (replicate 16 5) Ocb2_new)"

definition demo_packet :: bytes where
  "demo_packet =
     (case fst (Ocb2_encrypt xor_cipher [65, 66, 67] demo_sender) of
        Inr packet \<Rightarrow> packet | Inl e \<Rightarrow> [])"

lemma demo_accepted: "fst (Ocb2_decrypt xor_cipher xor_cipher demo_packet demo_receiver) = Inr [65, 66, 67]"
  by code_simp

theorem replay_rejected_witness:
  "\<exists>e. Ocb2_decrypt xor_cipher xor_cipher demo_packet
     (Ocb2_decrypts xor_cipher xor_cipher []
        (snd (Ocb2_decrypt xor_cipher xor_cipher demo_packet demo_receiver))) =
     (Inl (InvalidState e), Ocb2_decrypts xor_cipher xor_cipher []
        (snd (Ocb2_decrypt xor_cipher xor_cipher demo_packet demo_receiver)))"
proof (rule replay_rejected)
  show "Ocb2_wf demo_receiver" unfolding demo_receiver_def by blast
  show "Ocb2_decrypt xor_cipher xor_cipher demo_packet demo_receiver =
      (Inr [65, 66, 67], snd (Ocb2_decrypt xor_cipher xor_cipher demo_packet demo_receiver))"
    by (simp flip: demo_accepted)
  have "demo_packet ! 0 = 6" by code_simp
  then show "decrypt_iv (Ocb2_decrypts xor_cipher xor_cipher []
      (snd (Ocb2_decrypt xor_cipher xor_cipher demo_packet demo_receiver))) ! 0 \<noteq> 255 \<or>
    demo_packet ! 0 \<noteq> 0" by simp
qed simp

text \<open>A refused packet has no effect: when decryption returns an error, for whichever reason,
  nonce, replay history and counters are the ones before the packet.\<close>

theorem decrypt_error_no_effect:
  assumes "fst (Ocb2_decrypt E D data st) = Inl e"
  shows "snd (Ocb2_decrypt E D data st) = st"
  by (cases rule: Ocb2_decrypt_cases [of E D data st]) (use assms in auto)

theorem decrypt_error_no_effect_witness:
  "snd (Ocb2_decrypt xor_cipher xor_cipher [1, 2, 3] Ocb2_new) = Ocb2_new"
  by (rule decrypt_error_no_effect) (simp add: Ocb2_decrypt_def Ocb2_new_def)

text \<open>C31: Reordered and lost packets inside the window. A packet the sender emitted \<open>k\<close> positions
  ahead of or behind the receiver, with \<open>0 < k < 30\<close> and in the same lap, is decrypted to its
  plaintext when its slot does not already hold the lap's byte; a late packet leaves the
  receiver's nonce where it was, a packet ahead moves it.\<close>

theorem window_accepts:
  assumes "aes_laws E D" and "Ocb2_wf s" and "Ocb2_wf r" and "initialized s" and "initialized r"
    and "cipher s = cipher r"
    and "increment_iv (encrypt_iv s) = (decrypt_iv r)[0 := x]"
    and "\<bar>uint x - uint (decrypt_iv r ! 0)\<bar> < 30" and "x \<noteq> decrypt_iv r ! 0"
    and "\<not> Ocb2_seen r x"
  shows "\<exists>packet r'. fst (Ocb2_encrypt E p s) = Inr packet \<and>
           Ocb2_decrypt E D packet r = (Inr p, r') \<and>
           decrypt_iv r' = (if x < decrypt_iv r ! 0 then decrypt_iv r else (decrypt_iv r)[0 := x]) \<and>
           Ocb2_seen r' x"
proof -
  let ?b = "decrypt_iv r ! 0"
  have len: "length (decrypt_iv r) = 16" "length (decrypt_history r) = 256"
    using assms(3) by (auto simp: Ocb2_wf_def)
  have iv: "increment_iv (encrypt_iv s) ! 0 = x" "increment_iv (encrypt_iv s) ! 1 = decrypt_iv r ! 1"
    using assms(7) len by simp_all
  have loc: "\<exists>a b. locate_nonce (decrypt_iv r) x = Some ((decrypt_iv r)[0 := x], a, b, x < ?b)"
    by (rule locate_window) (use assms(8,9) in auto)
  then obtain a b where loc:
    "locate_nonce (decrypt_iv r) x = Some (increment_iv (encrypt_iv s), a, b, x < ?b)"
    unfolding assms(7) by blast
  obtain packet where p: "Ocb2_encrypt E p s = (Inr packet, s\<lparr>encrypt_iv := increment_iv (encrypt_iv s)\<rparr>)"
    "Ocb2_decrypt E D packet r = (Inr p,
       r\<lparr>decrypt_history := (decrypt_history r)[unat x := decrypt_iv r ! 1],
         decrypt_iv := (if x < ?b then decrypt_iv r else increment_iv (encrypt_iv s)),
         stats := update_stats a b (stats r)\<rparr>)"
    by (rule Ocb2_packet_accepted [of E D s r a b "x < ?b" p])
       (use assms(1-6,10) loc in \<open>simp_all add: iv iv [simplified] Ocb2_seen_def\<close>)
  then show ?thesis
    unfolding assms(7) using len unat_byte [of x] by (auto simp: Ocb2_seen_def)
qed

definition demo_receiver_ahead :: Ocb2CryptState where
  "demo_receiver_ahead =
     snd (Ocb2_set_key (replicate 16 7) (replicate 16 3) (10 # replicate 15 5) Ocb2_new)"

theorem window_accepts_witness:
  "\<exists>packet r'. fst (Ocb2_encrypt xor_cipher [65] demo_sender) = Inr packet \<and>
     Ocb2_decrypt xor_cipher xor_cipher packet demo_receiver_ahead = (Inr [65], r') \<and>
     decrypt_iv r' = (if 6 < decrypt_iv demo_receiver_ahead ! 0 then decrypt_iv demo_receiver_ahead
                      else (decrypt_iv demo_receiver_ahead)[0 := 6]) \<and>
     Ocb2_seen r' 6"
proof (rule window_accepts [OF aes_laws_xor_cipher])
  show "Ocb2_wf demo_sender" "Ocb2_wf demo_receiver_ahead"
    unfolding demo_sender_def demo_receiver_ahead_def by blast+
  show "initialized demo_sender" "initialized demo_receiver_ahead"
    "cipher demo_sender = cipher demo_receiver_ahead"
    "\<not> Ocb2_seen demo_receiver_ahead 6" "6 \<noteq> decrypt_iv demo_receiver_ahead ! 0"
    by code_simp+
  show "increment_iv (encrypt_iv demo_sender) = (decrypt_iv demo_receiver_ahead)[0 := 6]"
    "\<bar>uint (6 :: u8) - uint (decrypt_iv demo_receiver_ahead ! 0)\<bar> < 30"
    by code_simp+
qed

text \<open>The late counter never exceeds one. In every reachable state \<^verbatim>\<open>stats.late\<close> is at most 1,
  however many packets arrived out of order: the branch that should take a recovered packet
  off \<^verbatim>\<open>lost\<close> subtracts it from \<^verbatim>\<open>late\<close>.\<close>

theorem late_counter_stuck:
  assumes "Ocb2_reachable E D st"
  shows "late (stats st) \<le> 1"
  using assms by (rule Ocb2_reachable_late)

theorem late_counter_stuck_witness: "late (stats Ocb2_new) \<le> 1"
  by (rule late_counter_stuck [of xor_cipher xor_cipher]) (rule reach_new)

text \<open>A gap that spans the wrap of the first nonce byte is not bridged. When the next packet
  received is \<open>k\<close> ahead (\<open>2 \<le> k < 30\<close>, inside the window the code allows) but its first
  byte has wrapped past 255, it is refused as out of range and the receiver does not move.\<close>

theorem gap_over_wrap_rejected:
  assumes "initialized st" and "4 \<le> length data"
    and "2 \<le> k" and "k < 30" and "255 < unat (decrypt_iv st ! 0) + k"
    and "data ! 0 = decrypt_iv st ! 0 + of_nat k"
  shows "Ocb2_decrypt E D data st = (Inl (InvalidState ''OCB2 nonce out of range''), st)"
  using assms locate_over_wrap [OF assms(3-5)] by (simp add: Ocb2_decrypt_def)

theorem gap_over_wrap_rejected_witness:
  "Ocb2_decrypt xor_cipher xor_cipher [1, 0, 0, 0]
     (snd (Ocb2_set_key (replicate 16 7) (replicate 16 3) (replicate 16 255) Ocb2_new)) =
   (Inl (InvalidState ''OCB2 nonce out of range''),
    snd (Ocb2_set_key (replicate 16 7) (replicate 16 3) (replicate 16 255) Ocb2_new))"
  by (rule gap_over_wrap_rejected [where k = 2]) (simp_all add: Ocb2_set_key_def)

text \<open>The first packet can be refused as a replay. With a server nonce whose first byte is 255
  and whose second byte is 127 or 255, the first packet of the session carries into the second
  byte, which then equals the complement that \<^verbatim>\<open>set_key\<close> filled the history with.\<close>

theorem first_packet_replay_alarm:
  assumes "length key = 16" and "length client_nonce = 16" and "length server_nonce = 16"
    and "server_nonce ! 0 = 255" and "server_nonce ! 1 = 127 \<or> server_nonce ! 1 = 255"
    and "4 \<le> length data" and "data ! 0 = 0"
  shows "fst (Ocb2_decrypt E D data (snd (Ocb2_set_key key client_nonce server_nonce st))) =
           Inl (InvalidState ''OCB2 replay detected'')"
proof -
  have "increment_iv server_nonce ! 0 = 0" using increment_iv_two(1) [OF assms(3)] assms(4) by simp
  then have "locate_nonce server_nonce (data ! 0) = Some (increment_iv server_nonce, 0, 0, False)"
    using locate_next [of server_nonce] assms(3,7) by (cases "server_nonce = []") auto
  moreover have "increment_iv server_nonce ! 1 = NOT (server_nonce ! 1)"
    using increment_iv_two(2) [OF assms(3)] assms(4,5) by auto
  ultimately show ?thesis
    using assms \<open>increment_iv server_nonce ! 0 = 0\<close> by (simp add: Ocb2_decrypt_def Ocb2_set_key_def)
qed

theorem first_packet_replay_alarm_witness:
  "fst (Ocb2_decrypt xor_cipher xor_cipher [0, 1, 2, 3]
     (snd (Ocb2_set_key (replicate 16 7) (replicate 16 3) (255 # 127 # replicate 14 0) Ocb2_new))) =
   Inl (InvalidState ''OCB2 replay detected'')"
  by (rule first_packet_replay_alarm) simp_all
end
