(* ===== verification/Server_State.thy ===== *)
theory Server_State
  imports Complex_Main Message Ocb2
begin

text \<open>
  The tracked server state (src/crates/mumble-protocol/src/state.rs): users, channels and
  connection metadata, and how each server message is applied to them. The shared statistics
  behind \<^verbatim>\<open>Arc<Mutex<_>>\<close> are fields of the state; a lock is never poisoned, since no holder panics.

  Floating-point arithmetic enters only in the ping statistics. \<open>PingStats\<close> is polymorphic in the
  number type and its update takes the operations as the argument \<open>fo\<close>; the program's instance
  is IEEE single precision on bit patterns, and the exact meaning of the update is proved for
  the operations of a field.
\<close>

section \<open>The persistent-chat protocol of a channel\<close>

datatype PchatProtocol = PP_None | PP_FancyV1FullArchive | PP_SignalV1

definition PchatProtocol_from_proto :: "i32 \<Rightarrow> PchatProtocol" where
  "PchatProtocol_from_proto value =
     (if value = 2 then PP_FancyV1FullArchive else if value = 4 then PP_SignalV1 else PP_None)"

fun PchatProtocol_to_proto :: "PchatProtocol \<Rightarrow> i32" where
  "PchatProtocol_to_proto PP_None = 0"
| "PchatProtocol_to_proto PP_FancyV1FullArchive = 2"
| "PchatProtocol_to_proto PP_SignalV1 = 4"

fun is_post_join :: "PchatProtocol \<Rightarrow> bool" where
  "is_post_join PP_SignalV1 = True"
| "is_post_join _ = False"

fun is_full_archive :: "PchatProtocol \<Rightarrow> bool" where
  "is_full_archive PP_FancyV1FullArchive = True"
| "is_full_archive _ = False"

fun is_encrypted :: "PchatProtocol \<Rightarrow> bool" where
  "is_encrypted PP_None = False"
| "is_encrypted _ = True"

fun protocol_version :: "PchatProtocol \<Rightarrow> u8 option" where
  "protocol_version PP_FancyV1FullArchive = Some 1"
| "protocol_version PP_SignalV1 = Some 2"
| "protocol_version PP_None = None"

fun PchatProtocol_fmt :: "PchatProtocol \<Rightarrow> string" where
  "PchatProtocol_fmt PP_None = ''None''"
| "PchatProtocol_fmt PP_FancyV1FullArchive = ''FancyV1FullArchive''"
| "PchatProtocol_fmt PP_SignalV1 = ''SignalV1''"

section \<open>Users, channels, statistics\<close>

record User =
  User_session :: u32
  User_name :: string
  User_channel_id :: u32
  User_user_id :: "u32 option"
  User_mute :: bool
  User_deaf :: bool
  User_self_mute :: bool
  User_self_deaf :: bool
  User_comment :: string
  User_texture :: bytes
  User_hash :: string

record Channel =
  Channel_channel_id :: u32
  Channel_parent_id :: "u32 option"
  Channel_name :: string
  Channel_description :: string
  Channel_description_hash :: "bytes option"
  Channel_position :: i32
  Channel_temporary :: bool
  Channel_max_users :: u32
  Channel_permissions :: "u32 option"
  Channel_is_enter_restricted :: bool
  Channel_can_enter :: bool
  Channel_pchat_protocol :: "PchatProtocol option"
  Channel_pchat_max_history :: "u32 option"
  Channel_pchat_retention_days :: "u32 option"

record 'f PingStats =
  tcp_packets :: u32
  tcp_ping_avg :: 'f
  tcp_ping_var :: 'f
  udp_packets :: u32
  udp_ping_avg :: 'f
  udp_ping_var :: 'f
  ping_count :: u32

record 'f float_ops =
  fadd :: "'f \<Rightarrow> 'f \<Rightarrow> 'f"
  fsub :: "'f \<Rightarrow> 'f \<Rightarrow> 'f"
  fmul :: "'f \<Rightarrow> 'f \<Rightarrow> 'f"
  fdiv :: "'f \<Rightarrow> 'f \<Rightarrow> 'f"
  of_u32 :: "u32 \<Rightarrow> 'f"

definition default_PingStats :: "f32 PingStats" where
  "default_PingStats =
     \<lparr>tcp_packets = 0, tcp_ping_avg = 0, tcp_ping_var = 0, udp_packets = 0, udp_ping_avg = 0,
      udp_ping_var = 0, ping_count = 0\<rparr>"

definition record_tcp_rtt :: "'f float_ops \<Rightarrow> 'f \<Rightarrow> 'f PingStats \<Rightarrow> 'f PingStats" where
  "record_tcp_rtt fo rtt_ms s =
     (let s = s\<lparr>tcp_packets := tcp_packets s + 1\<rparr>;
          s = s\<lparr>ping_count := ping_count s + 1\<rparr>;
          n = of_u32 fo (ping_count s);
          delta = fsub fo rtt_ms (tcp_ping_avg s);
          s = s\<lparr>tcp_ping_avg := fadd fo (tcp_ping_avg s) (fdiv fo delta n)\<rparr>;
          delta2 = fsub fo rtt_ms (tcp_ping_avg s)
      in s\<lparr>tcp_ping_var := fadd fo (tcp_ping_var s)
             (fdiv fo (fsub fo (fmul fo delta delta2) (tcp_ping_var s)) n)\<rparr>)"

record ConnectionInfo =
  session_id :: "u32 option"
  max_bandwidth :: "u32 option"
  welcome_text :: "string option"
  server_fancy_version :: "u64 option"

record ServerState =
  connection :: ConnectionInfo
  users :: "(u32, User) hash_map"
  channels :: "(u32, Channel) hash_map"
  ping_stats :: "f32 PingStats"
  decrypt_stats :: PacketStats
  server_packet_stats :: PacketStats

definition ServerState_new :: ServerState where
  "ServerState_new =
     \<lparr>connection = \<lparr>session_id = None, max_bandwidth = None, welcome_text = None,
                   server_fancy_version = None\<rparr>,
      users = [], channels = [], ping_stats = default_PingStats,
      decrypt_stats = default_PacketStats, server_packet_stats = default_PacketStats\<rparr>"

section \<open>Applying server messages\<close>

text \<open>\<^verbatim>\<open>state.field.inspect(|&v| target = v)\<close>: overwrite when the field is present.\<close>

definition inspect :: "'a option \<Rightarrow> ('a \<Rightarrow> 's \<Rightarrow> 's) \<Rightarrow> 's \<Rightarrow> 's" where
  "inspect field set_to s = (case field of None \<Rightarrow> s | Some v \<Rightarrow> set_to v s)"

definition new_User :: "u32 \<Rightarrow> User" where
  "new_User session =
     \<lparr>User_session = session, User_name = '''', User_channel_id = 0, User_user_id = None,
      User_mute = False, User_deaf = False, User_self_mute = False, User_self_deaf = False,
      User_comment = '''', User_texture = [], User_hash = ''''\<rparr>"

definition merge_user :: "UserState \<Rightarrow> User \<Rightarrow> User" where
  "merge_user state u =
     inspect (UserState_user_id state) (\<lambda>v u. u\<lparr>User_user_id := Some v\<rparr>)
     (inspect (UserState_hash state) (\<lambda>v u. u\<lparr>User_hash := v\<rparr>)
     (inspect (UserState_texture state) (\<lambda>v u. u\<lparr>User_texture := v\<rparr>)
     (inspect (UserState_comment state) (\<lambda>v u. u\<lparr>User_comment := v\<rparr>)
     (inspect (UserState_self_deaf state) (\<lambda>v u. u\<lparr>User_self_deaf := v\<rparr>)
     (inspect (UserState_self_mute state) (\<lambda>v u. u\<lparr>User_self_mute := v\<rparr>)
     (inspect (UserState_deaf state) (\<lambda>v u. u\<lparr>User_deaf := v\<rparr>)
     (inspect (UserState_mute state) (\<lambda>v u. u\<lparr>User_mute := v\<rparr>)
     (inspect (UserState_channel_id state) (\<lambda>v u. u\<lparr>User_channel_id := v\<rparr>)
     (inspect (UserState_name state) (\<lambda>v u. u\<lparr>User_name := v\<rparr>) u)))))))))"

definition apply_user_state :: "UserState \<Rightarrow> ServerState \<Rightarrow> ServerState" where
  "apply_user_state state s =
     (case UserState_session state of
        None \<Rightarrow> s
      | Some session \<Rightarrow>
          s\<lparr>users := hm_entry_modify session (new_User session) (merge_user state) (users s)\<rparr>)"

definition remove_user :: "u32 \<Rightarrow> ServerState \<Rightarrow> ServerState" where
  "remove_user session s = s\<lparr>users := hm_remove session (users s)\<rparr>"

definition new_Channel :: "u32 \<Rightarrow> Channel" where
  "new_Channel channel_id =
     \<lparr>Channel_channel_id = channel_id, Channel_parent_id = None, Channel_name = '''',
      Channel_description = '''', Channel_description_hash = None, Channel_position = 0,
      Channel_temporary = False, Channel_max_users = 0, Channel_permissions = None,
      Channel_is_enter_restricted = False, Channel_can_enter = True, Channel_pchat_protocol = None,
      Channel_pchat_max_history = None, Channel_pchat_retention_days = None\<rparr>"

definition merge_channel :: "ChannelState \<Rightarrow> Channel \<Rightarrow> Channel" where
  "merge_channel state c =
     inspect (ChannelState_pchat_retention_days state) (\<lambda>v c. c\<lparr>Channel_pchat_retention_days := Some v\<rparr>)
     (inspect (ChannelState_pchat_max_history state) (\<lambda>v c. c\<lparr>Channel_pchat_max_history := Some v\<rparr>)
     (inspect (ChannelState_pchat_protocol state)
        (\<lambda>v c. c\<lparr>Channel_pchat_protocol := Some (PchatProtocol_from_proto v)\<rparr>)
     (inspect (ChannelState_can_enter state) (\<lambda>v c. c\<lparr>Channel_can_enter := v\<rparr>)
     (inspect (ChannelState_is_enter_restricted state) (\<lambda>v c. c\<lparr>Channel_is_enter_restricted := v\<rparr>)
     (inspect (ChannelState_max_users state) (\<lambda>v c. c\<lparr>Channel_max_users := v\<rparr>)
     (inspect (ChannelState_temporary state) (\<lambda>v c. c\<lparr>Channel_temporary := v\<rparr>)
     (inspect (ChannelState_position state) (\<lambda>v c. c\<lparr>Channel_position := v\<rparr>)
     (inspect (ChannelState_description_hash state) (\<lambda>v c. c\<lparr>Channel_description_hash := Some v\<rparr>)
     (inspect (ChannelState_description state) (\<lambda>v c. c\<lparr>Channel_description := v\<rparr>)
     (inspect (ChannelState_name state) (\<lambda>v c. c\<lparr>Channel_name := v\<rparr>)
     (inspect (ChannelState_parent state) (\<lambda>v c. c\<lparr>Channel_parent_id := Some v\<rparr>) c)))))))))))"

definition apply_channel_state :: "ChannelState \<Rightarrow> ServerState \<Rightarrow> ServerState" where
  "apply_channel_state state s =
     (case ChannelState_channel_id state of
        None \<Rightarrow> s
      | Some channel_id \<Rightarrow>
          s\<lparr>channels :=
              hm_entry_modify channel_id (new_Channel channel_id) (merge_channel state) (channels s)\<rparr>)"

definition apply_permission_query :: "PermissionQuery \<Rightarrow> ServerState \<Rightarrow> ServerState" where
  "apply_permission_query pq s =
     (let s = (if PermissionQuery_flush pq = Some True then
                 s\<lparr>channels := hm_values_mut (\<lambda>ch. ch\<lparr>Channel_permissions := None\<rparr>) (channels s)\<rparr>
               else s)
      in case (PermissionQuery_channel_id pq, PermissionQuery_permissions pq) of
           (Some channel_id, Some perms) \<Rightarrow>
             s\<lparr>channels :=
                 hm_get_mut channel_id (\<lambda>ch. ch\<lparr>Channel_permissions := Some perms\<rparr>) (channels s)\<rparr>
         | _ \<Rightarrow> s)"

definition remove_channel :: "u32 \<Rightarrow> ServerState \<Rightarrow> ServerState" where
  "remove_channel channel_id s = s\<lparr>channels := hm_remove channel_id (channels s)\<rparr>"

definition apply_version :: "Version \<Rightarrow> ServerState \<Rightarrow> ServerState" where
  "apply_version version s =
     s\<lparr>connection := (connection s)\<lparr>server_fancy_version := Version_fancy_version version\<rparr>\<rparr>"

definition apply_server_sync :: "ServerSync \<Rightarrow> ServerState \<Rightarrow> ServerState" where
  "apply_server_sync sync s =
     (let s = s\<lparr>connection := (connection s)\<lparr>session_id := ServerSync_session sync,
                  max_bandwidth := ServerSync_max_bandwidth sync,
                  welcome_text := ServerSync_welcome_text sync\<rparr>\<rparr>
      in case ServerSync_permissions sync of
           None \<Rightarrow> s
         | Some perms \<Rightarrow>
             s\<lparr>channels :=
                 hm_get_mut 0 (\<lambda>ch. ch\<lparr>Channel_permissions := Some (ucast perms)\<rparr>) (channels s)\<rparr>)"

definition own_session :: "ServerState \<Rightarrow> u32 option" where
  "own_session s = session_id (connection s)"

definition record_tcp_ping :: "f32 float_ops \<Rightarrow> f32 \<Rightarrow> ServerState \<Rightarrow> ServerState" where
  "record_tcp_ping fo rtt_ms s = s\<lparr>ping_stats := record_tcp_rtt fo rtt_ms (ping_stats s)\<rparr>"

section \<open>The registry invariant\<close>

lemma inspect_simps [simp]:
  "inspect None f s = s"
  "inspect (Some v) f s = f v s"
  by (simp_all add: inspect_def)

text \<open>An \<open>inspect\<close> that overwrites a field is an update of the field to the present or the old value.\<close>

lemma inspect_User:
  "inspect x1 (\<lambda>v u. u\<lparr>User_user_id := Some v\<rparr>) u =
     u\<lparr>User_user_id := case x1 of None \<Rightarrow> User_user_id u | Some v \<Rightarrow> Some v\<rparr>"
  "inspect x2 (\<lambda>v u. u\<lparr>User_hash := v\<rparr>) u =
     u\<lparr>User_hash := case x2 of None \<Rightarrow> User_hash u | Some v \<Rightarrow> v\<rparr>"
  "inspect x3 (\<lambda>v u. u\<lparr>User_texture := v\<rparr>) u =
     u\<lparr>User_texture := case x3 of None \<Rightarrow> User_texture u | Some v \<Rightarrow> v\<rparr>"
  "inspect x4 (\<lambda>v u. u\<lparr>User_comment := v\<rparr>) u =
     u\<lparr>User_comment := case x4 of None \<Rightarrow> User_comment u | Some v \<Rightarrow> v\<rparr>"
  "inspect x5 (\<lambda>v u. u\<lparr>User_self_deaf := v\<rparr>) u =
     u\<lparr>User_self_deaf := case x5 of None \<Rightarrow> User_self_deaf u | Some v \<Rightarrow> v\<rparr>"
  "inspect x6 (\<lambda>v u. u\<lparr>User_self_mute := v\<rparr>) u =
     u\<lparr>User_self_mute := case x6 of None \<Rightarrow> User_self_mute u | Some v \<Rightarrow> v\<rparr>"
  "inspect x7 (\<lambda>v u. u\<lparr>User_deaf := v\<rparr>) u =
     u\<lparr>User_deaf := case x7 of None \<Rightarrow> User_deaf u | Some v \<Rightarrow> v\<rparr>"
  "inspect x8 (\<lambda>v u. u\<lparr>User_mute := v\<rparr>) u =
     u\<lparr>User_mute := case x8 of None \<Rightarrow> User_mute u | Some v \<Rightarrow> v\<rparr>"
  "inspect x9 (\<lambda>v u. u\<lparr>User_channel_id := v\<rparr>) u =
     u\<lparr>User_channel_id := case x9 of None \<Rightarrow> User_channel_id u | Some v \<Rightarrow> v\<rparr>"
  "inspect x10 (\<lambda>v u. u\<lparr>User_name := v\<rparr>) u =
     u\<lparr>User_name := case x10 of None \<Rightarrow> User_name u | Some v \<Rightarrow> v\<rparr>"
  by (simp_all add: inspect_def split: option.split)

lemma inspect_Channel:
  "inspect x11 (\<lambda>v u. u\<lparr>Channel_pchat_retention_days := Some v\<rparr>) u =
     u\<lparr>Channel_pchat_retention_days := case x11 of None \<Rightarrow> Channel_pchat_retention_days u | Some v \<Rightarrow> Some v\<rparr>"
  "inspect x12 (\<lambda>v u. u\<lparr>Channel_pchat_max_history := Some v\<rparr>) u =
     u\<lparr>Channel_pchat_max_history := case x12 of None \<Rightarrow> Channel_pchat_max_history u | Some v \<Rightarrow> Some v\<rparr>"
  "inspect x13 (\<lambda>v u. u\<lparr>Channel_pchat_protocol := Some (PchatProtocol_from_proto v)\<rparr>) u =
     u\<lparr>Channel_pchat_protocol := case x13 of None \<Rightarrow> Channel_pchat_protocol u | Some v \<Rightarrow> Some (PchatProtocol_from_proto v)\<rparr>"
  "inspect x14 (\<lambda>v u. u\<lparr>Channel_can_enter := v\<rparr>) u =
     u\<lparr>Channel_can_enter := case x14 of None \<Rightarrow> Channel_can_enter u | Some v \<Rightarrow> v\<rparr>"
  "inspect x15 (\<lambda>v u. u\<lparr>Channel_is_enter_restricted := v\<rparr>) u =
     u\<lparr>Channel_is_enter_restricted := case x15 of None \<Rightarrow> Channel_is_enter_restricted u | Some v \<Rightarrow> v\<rparr>"
  "inspect x16 (\<lambda>v u. u\<lparr>Channel_max_users := v\<rparr>) u =
     u\<lparr>Channel_max_users := case x16 of None \<Rightarrow> Channel_max_users u | Some v \<Rightarrow> v\<rparr>"
  "inspect x17 (\<lambda>v u. u\<lparr>Channel_temporary := v\<rparr>) u =
     u\<lparr>Channel_temporary := case x17 of None \<Rightarrow> Channel_temporary u | Some v \<Rightarrow> v\<rparr>"
  "inspect x18 (\<lambda>v u. u\<lparr>Channel_position := v\<rparr>) u =
     u\<lparr>Channel_position := case x18 of None \<Rightarrow> Channel_position u | Some v \<Rightarrow> v\<rparr>"
  "inspect x19 (\<lambda>v u. u\<lparr>Channel_description_hash := Some v\<rparr>) u =
     u\<lparr>Channel_description_hash := case x19 of None \<Rightarrow> Channel_description_hash u | Some v \<Rightarrow> Some v\<rparr>"
  "inspect x20 (\<lambda>v u. u\<lparr>Channel_description := v\<rparr>) u =
     u\<lparr>Channel_description := case x20 of None \<Rightarrow> Channel_description u | Some v \<Rightarrow> v\<rparr>"
  "inspect x21 (\<lambda>v u. u\<lparr>Channel_name := v\<rparr>) u =
     u\<lparr>Channel_name := case x21 of None \<Rightarrow> Channel_name u | Some v \<Rightarrow> v\<rparr>"
  "inspect x22 (\<lambda>v u. u\<lparr>Channel_parent_id := Some v\<rparr>) u =
     u\<lparr>Channel_parent_id := case x22 of None \<Rightarrow> Channel_parent_id u | Some v \<Rightarrow> Some v\<rparr>"
  by (simp_all add: inspect_def split: option.split)

lemma User_session_merge [simp]: "User_session (merge_user state u) = User_session u"
  by (simp add: merge_user_def inspect_User)

lemma Channel_id_merge [simp]: "Channel_channel_id (merge_channel state c) = Channel_channel_id c"
  by (simp add: merge_channel_def inspect_Channel)

definition state_wf :: "ServerState \<Rightarrow> bool" where
  "state_wf s \<longleftrightarrow> hm_keyed User_session (users s) \<and> hm_keyed Channel_channel_id (channels s)"

lemma state_wf_new: "state_wf ServerState_new"
  by (simp add: state_wf_def ServerState_new_def)

lemma state_wf_user_state: "state_wf s \<Longrightarrow> state_wf (apply_user_state us s)"
  by (auto simp: state_wf_def apply_user_state_def new_User_def intro!: hm_keyed_intros
      split: option.splits)

lemma state_wf_channel_state: "state_wf s \<Longrightarrow> state_wf (apply_channel_state cs s)"
  by (auto simp: state_wf_def apply_channel_state_def new_Channel_def intro!: hm_keyed_intros
      split: option.splits)

lemma state_wf_removals:
  "state_wf s \<Longrightarrow> state_wf (remove_user k s)" "state_wf s \<Longrightarrow> state_wf (remove_channel k s)"
  by (auto simp: state_wf_def remove_user_def remove_channel_def intro!: hm_keyed_intros)

lemma state_wf_permission_query: "state_wf s \<Longrightarrow> state_wf (apply_permission_query pq s)"
  by (auto simp: state_wf_def apply_permission_query_def Let_def intro!: hm_keyed_intros
      split: option.splits)

lemma state_wf_connection:
  "state_wf s \<Longrightarrow> state_wf (apply_version v s)"
  "state_wf s \<Longrightarrow> state_wf (apply_server_sync sync s)"
  "state_wf s \<Longrightarrow> state_wf (record_tcp_ping fo x s)"
  by (auto simp: state_wf_def apply_version_def apply_server_sync_def record_tcp_ping_def Let_def
      intro!: hm_keyed_intros split: option.splits)

lemmas state_wf_intros [intro] =
  state_wf_new state_wf_user_state state_wf_channel_state state_wf_removals
  state_wf_permission_query state_wf_connection

section \<open>Properties\<close>

text \<open>The value a field has after a sequence of updates of user \<open>k\<close>: the last one present, or \<open>d\<close>.\<close>

definition last_present :: "(UserState \<Rightarrow> 'a option) \<Rightarrow> u32 \<Rightarrow> UserState list \<Rightarrow> 'a \<Rightarrow> 'a" where
  "last_present field k uss d =
     fold (\<lambda>us d. if UserState_session us = Some k
                  then (case field us of None \<Rightarrow> d | Some v \<Rightarrow> v) else d) uss d"

definition user_or_new :: "u32 \<Rightarrow> ServerState \<Rightarrow> User" where
  "user_or_new k s = (case hm_get (users s) k of None \<Rightarrow> new_User k | Some u \<Rightarrow> u)"

lemma user_or_new_apply:
  "user_or_new k (apply_user_state us s) =
     (if UserState_session us = Some k then merge_user us (user_or_new k s) else user_or_new k s)"
  by (simp add: user_or_new_def apply_user_state_def split: option.splits)

lemma merge_user_fields:
  "User_channel_id (merge_user us u) =
     (case UserState_channel_id us of None \<Rightarrow> User_channel_id u | Some v \<Rightarrow> v)"
  "User_name (merge_user us u) = (case UserState_name us of None \<Rightarrow> User_name u | Some v \<Rightarrow> v)"
  "User_self_mute (merge_user us u) =
     (case UserState_self_mute us of None \<Rightarrow> User_self_mute u | Some v \<Rightarrow> v)"
  "User_self_deaf (merge_user us u) =
     (case UserState_self_deaf us of None \<Rightarrow> User_self_deaf u | Some v \<Rightarrow> v)"
  "User_hash (merge_user us u) = (case UserState_hash us of None \<Rightarrow> User_hash u | Some v \<Rightarrow> v)"
  by (simp_all add: merge_user_def inspect_User cong: option.case_cong)

lemma last_present_field:
  assumes "\<And>us u. p (merge_user us u) = (case field us of None \<Rightarrow> p u | Some v \<Rightarrow> v)"
  shows "p (user_or_new k (fold apply_user_state uss s)) =
           last_present field k uss (p (user_or_new k s))"
  by (induction uss arbitrary: s) (simp_all add: last_present_def user_or_new_apply assms)

lemma users_present_fold:
  "hm_get (users (fold apply_user_state uss s)) k \<noteq> None \<longleftrightarrow>
     hm_get (users s) k \<noteq> None \<or> Some k \<in> UserState_session ` set uss"
proof (induction uss arbitrary: s)
  case (Cons us uss)
  have "hm_get (users (apply_user_state us s)) k \<noteq> None \<longleftrightarrow>
      hm_get (users s) k \<noteq> None \<or> UserState_session us = Some k"
    by (auto simp: apply_user_state_def split: option.splits)
  with Cons show ?case by auto
qed simp

text \<open>User updates are merged field by field. After any sequence of \<^verbatim>\<open>UserState\<close> messages, a user
  is known exactly when he was before or one of the messages named his session, and each field
  (channel, name, self-mute, self-deaf, certificate hash) has the last value that a message for that
  session carried, or its previous value (or the default, for a new user) when none did;
  messages for other sessions do not touch it.\<close>

theorem user_updates_last_write:
  "(k \<in> dom (hm_get (users (fold apply_user_state uss s)))) =
     (k \<in> dom (hm_get (users s)) \<or> Some k \<in> UserState_session ` set uss) \<and>
   User_channel_id (user_or_new k (fold apply_user_state uss s)) =
     last_present UserState_channel_id k uss (User_channel_id (user_or_new k s)) \<and>
   User_name (user_or_new k (fold apply_user_state uss s)) =
     last_present UserState_name k uss (User_name (user_or_new k s)) \<and>
   User_self_mute (user_or_new k (fold apply_user_state uss s)) =
     last_present UserState_self_mute k uss (User_self_mute (user_or_new k s)) \<and>
   User_self_deaf (user_or_new k (fold apply_user_state uss s)) =
     last_present UserState_self_deaf k uss (User_self_deaf (user_or_new k s)) \<and>
   User_hash (user_or_new k (fold apply_user_state uss s)) =
     last_present UserState_hash k uss (User_hash (user_or_new k s))"
  unfolding domIff users_present_fold by (simp add: last_present_field merge_user_fields)

text \<open>Permission queries. A flushing query clears the cached permissions of every channel, and a
  query with a channel and a mask sets the mask of that channel, if known; no channel appears or
  disappears and nothing else of a channel changes.\<close>

theorem permission_query_effect:
  "hm_get (channels (apply_permission_query pq s)) j =
     map_option (\<lambda>ch. ch\<lparr>Channel_permissions :=
         (if PermissionQuery_channel_id pq = Some j \<and> PermissionQuery_permissions pq \<noteq> None
          then PermissionQuery_permissions pq
          else if PermissionQuery_flush pq = Some True then None
          else Channel_permissions ch)\<rparr>) (hm_get (channels s) j)"
  by (cases "hm_get (channels s) j")
     (auto simp: apply_permission_query_def Let_def split: option.splits)

text \<open>The exact operations of a field, and the sums of a list of samples.\<close>

definition exact_ops :: "('f::field_char_0) float_ops" where
  "exact_ops = \<lparr>fadd = (+), fsub = (-), fmul = (*), fdiv = (/), of_u32 = (\<lambda>n. of_nat (unat n))\<rparr>"

definition zero_PingStats :: "('f::field_char_0) PingStats" where
  "zero_PingStats = \<lparr>tcp_packets = 0, tcp_ping_avg = 0, tcp_ping_var = 0, udp_packets = 0,
     udp_ping_avg = 0, udp_ping_var = 0, ping_count = 0\<rparr>"

lemma welford_step:
  fixes a v x S Q n :: "'f::field_char_0"
  assumes "m \<noteq> 0" and "m = n + 1" and "n * a = S" and "n * v = Q - n * a * a"
  shows "m * (a + (x - a) / m) = S + x"
    and "m * (v + ((x - a) * (x - (a + (x - a) / m)) - v) / m) =
           Q + x * x - m * (a + (x - a) / m) * (a + (x - a) / m)"
proof -
  define e where "e = (x - a) / m"
  have x: "x = a + m * e" using assms(1) by (simp add: e_def)
  show "m * (a + (x - a) / m) = S + x"
    unfolding e_def [symmetric] using assms(2,3) by (simp add: x algebra_simps)
  have "m * (v + ((x - a) * (x - (a + e)) - v) / m) = m * v + ((x - a) * (x - (a + e)) - v)"
    using assms(1) by (simp add: distrib_left)
  also have "\<dots> = n * v + (x - a) * (x - (a + e))" using assms(2) by (simp add: algebra_simps)
  also have "\<dots> = Q + x * x - m * (a + e) * (a + e)"
    unfolding assms(4) x using assms(2) by (simp add: algebra_simps)
  finally show "m * (v + ((x - a) * (x - (a + (x - a) / m)) - v) / m) =
      Q + x * x - m * (a + (x - a) / m) * (a + (x - a) / m)"
    by (simp add: e_def)
qed

lemma record_exact:
  fixes s :: "'f::field_char_0 PingStats" and x :: 'f
  defines "m \<equiv> of_nat (unat (ping_count s + 1))"
  defines "b \<equiv> tcp_ping_avg s + (x - tcp_ping_avg s) / m"
  shows "ping_count (record_tcp_rtt exact_ops x s) = ping_count s + 1"
    "tcp_packets (record_tcp_rtt exact_ops x s) = tcp_packets s + 1"
    "tcp_ping_avg (record_tcp_rtt exact_ops x s) = b"
    "tcp_ping_var (record_tcp_rtt exact_ops x s) =
       tcp_ping_var s + ((x - tcp_ping_avg s) * (x - b) - tcp_ping_var s) / m"
  by (simp_all add: record_tcp_rtt_def exact_ops_def Let_def m_def b_def)

lemma welford_sums:
  fixes xs :: "'f::field_char_0 list"
  assumes "length xs < 2 ^ 32"
  shows "let s = fold (record_tcp_rtt exact_ops) xs zero_PingStats; n = of_nat (length xs)
         in unat (ping_count s) = length xs \<and> unat (tcp_packets s) = length xs \<and>
            n * tcp_ping_avg s = sum_list xs \<and>
            n * tcp_ping_var s = sum_list (map (\<lambda>x. x * x) xs) - n * tcp_ping_avg s * tcp_ping_avg s"
  using assms
proof (induction xs rule: rev_induct)
  case (snoc x xs)
  let ?s = "fold (record_tcp_rtt exact_ops) xs zero_PingStats"
  let ?n = "of_nat (length xs) :: 'f"
  have len: "Suc (length xs) < 2 ^ 32" using snoc.prems by simp
  with snoc.IH have ih: "unat (ping_count ?s) = length xs" "unat (tcp_packets ?s) = length xs"
      "?n * tcp_ping_avg ?s = sum_list xs"
      "?n * tcp_ping_var ?s = sum_list (map (\<lambda>x. x * x) xs) - ?n * tcp_ping_avg ?s * tcp_ping_avg ?s"
    by (simp_all add: Let_def)
  have c: "unat (w + 1) = Suc (length xs)" if "unat w = length xs" for w :: u32
    using that len by (simp add: unat_word_ariths)
  have m: "(of_nat (Suc (length xs)) :: 'f) \<noteq> 0" unfolding of_nat_eq_0_iff by simp
  have m1: "of_nat (Suc (length xs)) = ?n + 1" by (simp add: add.commute)
  note w = welford_step [OF m m1 ih(3,4), of x]
  have l: "length (xs @ [x]) = Suc (length xs)" by simp
  show ?case
    unfolding Let_def fold_append fold_simps comp_apply l record_exact c [OF ih(1)] c [OF ih(2)]
    using w by simp
qed (simp add: zero_PingStats_def)

text \<open>The ping statistics are the mean and the variance of the samples. With exact arithmetic,
  recording the round-trip times \<open>xs\<close> one by one (Welford's method) leaves their number, their mean
  and their population variance: \<open>n * avg\<close> is the sum, and \<open>n * var\<close> the sum of squares minus
  \<open>n * avg ^ 2\<close>.\<close>

theorem ping_stats_mean_variance:
  fixes xs :: "'f::field_char_0 list"
  assumes "xs \<noteq> []" and "length xs < 2 ^ 32"
  defines "s \<equiv> fold (record_tcp_rtt exact_ops) xs zero_PingStats"
  shows "unat (tcp_packets s) = length xs \<and>
         tcp_ping_avg s = sum_list xs / of_nat (length xs) \<and>
         tcp_ping_var s = sum_list (map (\<lambda>x. x * x) xs) / of_nat (length xs) - tcp_ping_avg s * tcp_ping_avg s"
proof -
  have n: "(of_nat (length xs) :: 'f) \<noteq> 0" using assms(1) by simp
  with welford_sums [OF assms(2)] show ?thesis
    by (auto simp: s_def Let_def field_simps)
qed

theorem ping_stats_mean_variance_witness:
  "unat (tcp_packets (fold (record_tcp_rtt exact_ops) [10, 20, 60 :: rat] zero_PingStats)) = 3 \<and>
   tcp_ping_avg (fold (record_tcp_rtt exact_ops) [10, 20, 60 :: rat] zero_PingStats) = 30 \<and>
   tcp_ping_var (fold (record_tcp_rtt exact_ops) [10, 20, 60 :: rat] zero_PingStats) = 1400 / 3"
proof -
  have "[10, 20, 60 :: rat] \<noteq> []" "length [10, 20, 60 :: rat] < 2 ^ 32" by simp_all
  from ping_stats_mean_variance [OF this] show ?thesis
    by (auto simp del: fold_simps)
qed

end
