(* ===== verification/Commands.thy ===== *)
theory Commands
  imports Server_State
begin

text \<open>
  The user commands of src/crates/mumble-protocol/src/command: one definition per command struct,
  \<open>X_execute\<close>, with the struct's fields as arguments and the messages it produces as the result;
  a boxed command is a value of \<open>BoxedCommand\<close> and \<open>execute\<close> is the dynamic dispatch of the trait
  \<^verbatim>\<open>CommandAction\<close>. A \<^verbatim>\<open>..Default::default()\<close> is the update of the message's default record.
\<close>

record CommandOutput =
  tcp_messages :: "ControlMessage list"
  udp_messages :: "UdpMessage list"
  disconnect :: bool

definition default_CommandOutput :: CommandOutput where
  "default_CommandOutput = \<lparr>tcp_messages = [], udp_messages = [], disconnect = False\<rparr>"

record UserListEntry =
  UserListEntry_user_id :: u32
  UserListEntry_name :: "string option"

record VoiceTargetEntry =
  VoiceTargetEntry_sessions :: "u32 list"
  VoiceTargetEntry_channel_id :: "u32 option"
  VoiceTargetEntry_group :: "string option"
  VoiceTargetEntry_links :: bool
  VoiceTargetEntry_children :: bool

section \<open>The commands\<close>

definition Authenticate_execute ::
    "string \<Rightarrow> string option \<Rightarrow> string list \<Rightarrow> ServerState \<Rightarrow> CommandOutput" where
  "Authenticate_execute username password tokens state =
     (let msg = default_Authenticate\<lparr>Authenticate_username := Some username,
        Authenticate_password := password,
        Authenticate_tokens := tokens,
        Authenticate_opus := Some True\<rparr>
      in default_CommandOutput\<lparr>tcp_messages := [CM_Authenticate msg]\<rparr>)"

definition BanUser_execute ::
    "u32 \<Rightarrow> string option \<Rightarrow> ServerState \<Rightarrow> CommandOutput" where
  "BanUser_execute session reason state =
     (let msg = default_UserRemove\<lparr>UserRemove_session := session,
        UserRemove_reason := reason,
        UserRemove_ban := Some True\<rparr>
      in default_CommandOutput\<lparr>tcp_messages := [CM_UserRemove msg]\<rparr>)"

definition ChannelListen_execute ::
    "u32 list \<Rightarrow> u32 list \<Rightarrow> ServerState \<Rightarrow> CommandOutput" where
  "ChannelListen_execute added removed state =
     (let msg = default_UserState\<lparr>UserState_session := own_session state,
        UserState_listening_channel_add := added,
        UserState_listening_channel_remove := removed\<rparr>
      in default_CommandOutput\<lparr>tcp_messages := [CM_UserState msg]\<rparr>)"

definition DeleteChannel_execute ::
    "u32 \<Rightarrow> ServerState \<Rightarrow> CommandOutput" where
  "DeleteChannel_execute channel_id state =
     (let msg = default_ChannelRemove\<lparr>ChannelRemove_channel_id := channel_id\<rparr>
      in default_CommandOutput\<lparr>tcp_messages := [CM_ChannelRemove msg]\<rparr>)"

definition Disconnect_execute ::
    "ServerState \<Rightarrow> CommandOutput" where
  "Disconnect_execute state =
     default_CommandOutput\<lparr>disconnect := True\<rparr>"

definition JoinChannel_execute ::
    "u32 \<Rightarrow> ServerState \<Rightarrow> CommandOutput" where
  "JoinChannel_execute channel_id state =
     (let msg = default_UserState\<lparr>UserState_session := own_session state,
        UserState_channel_id := Some channel_id\<rparr>
      in default_CommandOutput\<lparr>tcp_messages := [CM_UserState msg]\<rparr>)"

definition KickUser_execute ::
    "u32 \<Rightarrow> string option \<Rightarrow> ServerState \<Rightarrow> CommandOutput" where
  "KickUser_execute session reason state =
     (let msg = default_UserRemove\<lparr>UserRemove_session := session,
        UserRemove_reason := reason,
        UserRemove_ban := Some False\<rparr>
      in default_CommandOutput\<lparr>tcp_messages := [CM_UserRemove msg]\<rparr>)"

definition MoveUser_execute ::
    "u32 \<Rightarrow> u32 \<Rightarrow> ServerState \<Rightarrow> CommandOutput" where
  "MoveUser_execute session channel_id state =
     (let msg = default_UserState\<lparr>UserState_session := Some session,
        UserState_channel_id := Some channel_id\<rparr>
      in default_CommandOutput\<lparr>tcp_messages := [CM_UserState msg]\<rparr>)"

definition PermissionQuery_execute ::
    "u32 \<Rightarrow> ServerState \<Rightarrow> CommandOutput" where
  "PermissionQuery_execute channel_id state =
     (let msg = default_PermissionQuery\<lparr>PermissionQuery_channel_id := Some channel_id,
        PermissionQuery_permissions := None,
        PermissionQuery_flush := None\<rparr>
      in default_CommandOutput\<lparr>tcp_messages := [CM_PermissionQuery msg]\<rparr>)"

definition RegisterUser_execute ::
    "u32 \<Rightarrow> ServerState \<Rightarrow> CommandOutput" where
  "RegisterUser_execute session state =
     (let msg = default_UserState\<lparr>UserState_session := Some session,
        UserState_user_id := Some 0\<rparr>
      in default_CommandOutput\<lparr>tcp_messages := [CM_UserState msg]\<rparr>)"

definition RemoveUserAvatar_execute ::
    "u32 \<Rightarrow> ServerState \<Rightarrow> CommandOutput" where
  "RemoveUserAvatar_execute session state =
     (let msg = default_UserState\<lparr>UserState_session := Some session,
        UserState_texture := Some []\<rparr>
      in default_CommandOutput\<lparr>tcp_messages := [CM_UserState msg]\<rparr>)"

definition RequestAcl_execute ::
    "u32 \<Rightarrow> ServerState \<Rightarrow> CommandOutput" where
  "RequestAcl_execute channel_id state =
     (let msg = default_Acl\<lparr>Acl_channel_id := channel_id,
        Acl_inherit_acls := None,
        Acl_groups := [],
        Acl_acls := [],
        Acl_query := Some True\<rparr>
      in default_CommandOutput\<lparr>tcp_messages := [CM_Acl msg]\<rparr>)"

definition RequestBlob_execute ::
    "u32 list \<Rightarrow> u32 list \<Rightarrow> u32 list \<Rightarrow> u32 list \<Rightarrow> ServerState \<Rightarrow> CommandOutput" where
  "RequestBlob_execute session_texture session_comment channel_description user_id_comment state =
     (let msg = default_RequestBlob\<lparr>RequestBlob_session_texture := session_texture,
        RequestBlob_session_comment := session_comment,
        RequestBlob_channel_description := channel_description,
        RequestBlob_user_id_comment := user_id_comment\<rparr>
      in default_CommandOutput\<lparr>tcp_messages := [CM_RequestBlob msg]\<rparr>)"

definition RequestBanList_execute ::
    "ServerState \<Rightarrow> CommandOutput" where
  "RequestBanList_execute state =
     (let msg = default_BanList\<lparr>BanList_query := Some True\<rparr>
      in default_CommandOutput\<lparr>tcp_messages := [CM_BanList msg]\<rparr>)"

definition RequestUserList_execute ::
    "ServerState \<Rightarrow> CommandOutput" where
  "RequestUserList_execute state =
     (let msg = default_UserList\<lparr>UserList_users := []\<rparr>
      in default_CommandOutput\<lparr>tcp_messages := [CM_UserList msg]\<rparr>)"

definition RequestUserStats_execute ::
    "u32 \<Rightarrow> ServerState \<Rightarrow> CommandOutput" where
  "RequestUserStats_execute session state =
     (let msg = default_UserStats\<lparr>UserStats_session := Some session\<rparr>
      in default_CommandOutput\<lparr>tcp_messages := [CM_UserStats msg]\<rparr>)"

definition UpdateUserList_execute ::
    "UserListEntry list \<Rightarrow> ServerState \<Rightarrow> CommandOutput" where
  "UpdateUserList_execute entries state =
     (let msg = default_UserList\<lparr>UserList_users := map (\<lambda>u. default_UserList_User\<lparr>UserList_User_user_id := UserListEntry_user_id u,
       UserList_User_name := UserListEntry_name u\<rparr>) entries\<rparr>
      in default_CommandOutput\<lparr>tcp_messages := [CM_UserList msg]\<rparr>)"

definition ResetUserComment_execute ::
    "u32 \<Rightarrow> ServerState \<Rightarrow> CommandOutput" where
  "ResetUserComment_execute session state =
     (let msg = default_UserState\<lparr>UserState_session := Some session,
        UserState_comment := Some ''''\<rparr>
      in default_CommandOutput\<lparr>tcp_messages := [CM_UserState msg]\<rparr>)"

definition SendAcl_execute ::
    "u32 \<Rightarrow> bool \<Rightarrow> Acl_ChanGroup list \<Rightarrow> Acl_ChanAcl list \<Rightarrow> ServerState \<Rightarrow> CommandOutput" where
  "SendAcl_execute channel_id inherit_acls groups acls state =
     (let msg = default_Acl\<lparr>Acl_channel_id := channel_id,
        Acl_inherit_acls := Some inherit_acls,
        Acl_groups := groups,
        Acl_acls := acls,
        Acl_query := Some False\<rparr>
      in default_CommandOutput\<lparr>tcp_messages := [CM_Acl msg]\<rparr>)"

definition SendAudio_execute ::
    "bytes \<Rightarrow> u32 \<Rightarrow> u64 \<Rightarrow> (f32 \<times> f32 \<times> f32) option \<Rightarrow> bool \<Rightarrow> ServerState \<Rightarrow> CommandOutput" where
  "SendAudio_execute opus_data target frame_number positional_data is_terminator state =
     (let audio =
        \<lparr>Audio_sender_session = 0, Audio_frame_number = frame_number, Audio_opus_data = opus_data,
         Audio_positional_data = (case positional_data of None \<Rightarrow> [] | Some (x, y, z) \<Rightarrow> [x, y, z]),
         Audio_volume_adjustment = 0, Audio_is_terminator = is_terminator,
         Audio_header = Some (Target target)\<rparr>
      in default_CommandOutput\<lparr>udp_messages := [UM_Audio audio]\<rparr>)"

definition SendBanList_execute ::
    "BanList_BanEntry list \<Rightarrow> ServerState \<Rightarrow> CommandOutput" where
  "SendBanList_execute bans state =
     (let msg = default_BanList\<lparr>BanList_bans := bans,
        BanList_query := Some False\<rparr>
      in default_CommandOutput\<lparr>tcp_messages := [CM_BanList msg]\<rparr>)"

definition SendPing_execute ::
    "u64 \<Rightarrow> ServerState \<Rightarrow> CommandOutput" where
  "SendPing_execute timestamp state =
     (let msg = default_Ping\<lparr>Ping_timestamp := Some timestamp\<rparr>
      in default_CommandOutput\<lparr>tcp_messages := [CM_Ping msg]\<rparr>)"

definition SendPluginData_execute ::
    "u32 list \<Rightarrow> bytes \<Rightarrow> string \<Rightarrow> ServerState \<Rightarrow> CommandOutput" where
  "SendPluginData_execute receiver_sessions data data_id state =
     (let msg = default_PluginDataTransmission\<lparr>PluginDataTransmission_sender_session := None,
        PluginDataTransmission_receiver_sessions := receiver_sessions,
        PluginDataTransmission_data := Some data,
        PluginDataTransmission_data_id := Some data_id\<rparr>
      in default_CommandOutput\<lparr>tcp_messages := [CM_PluginDataTransmission msg]\<rparr>)"

definition SendTextMessage_execute ::
    "u32 list \<Rightarrow> u32 list \<Rightarrow> u32 list \<Rightarrow> string \<Rightarrow> string option \<Rightarrow> u64 option \<Rightarrow> string option \<Rightarrow> ServerState \<Rightarrow> CommandOutput" where
  "SendTextMessage_execute channel_ids user_sessions tree_ids message message_id timestamp edit_id state =
     (let msg = default_TextMessage\<lparr>TextMessage_session := user_sessions,
        TextMessage_channel_id := channel_ids,
        TextMessage_tree_id := tree_ids,
        TextMessage_message := message,
        TextMessage_message_id := message_id,
        TextMessage_timestamp := timestamp,
        TextMessage_edit_id := edit_id\<rparr>
      in default_CommandOutput\<lparr>tcp_messages := [CM_TextMessage msg]\<rparr>)"

definition SendWebRtcSignal_execute ::
    "u32 \<Rightarrow> i32 \<Rightarrow> string \<Rightarrow> ServerState \<Rightarrow> CommandOutput" where
  "SendWebRtcSignal_execute target_session signal_type payload state =
     (let msg = default_WebRtcSignal\<lparr>WebRtcSignal_target_session := Some target_session,
        WebRtcSignal_sender_session := None,
        WebRtcSignal_signal_type := Some signal_type,
        WebRtcSignal_payload := Some payload\<rparr>
      in default_CommandOutput\<lparr>tcp_messages := [CM_WebRtcSignal msg]\<rparr>)"

definition SendPchatAck_execute ::
    "PchatAck \<Rightarrow> ServerState \<Rightarrow> CommandOutput" where
  "SendPchatAck_execute ack state =
     default_CommandOutput\<lparr>tcp_messages := [CM_PchatAck ack]\<rparr>"

definition SendPchatMessage_execute ::
    "PchatMessage \<Rightarrow> ServerState \<Rightarrow> CommandOutput" where
  "SendPchatMessage_execute message state =
     default_CommandOutput\<lparr>tcp_messages := [CM_PchatMessage message]\<rparr>"

definition SendPchatDeleteMessages_execute ::
    "PchatDeleteMessages \<Rightarrow> ServerState \<Rightarrow> CommandOutput" where
  "SendPchatDeleteMessages_execute message state =
     default_CommandOutput\<lparr>tcp_messages := [CM_PchatDeleteMessages message]\<rparr>"

definition SendPchatFetch_execute ::
    "PchatFetch \<Rightarrow> ServerState \<Rightarrow> CommandOutput" where
  "SendPchatFetch_execute fetch state =
     default_CommandOutput\<lparr>tcp_messages := [CM_PchatFetch fetch]\<rparr>"

definition SendPchatKeyAnnounce_execute ::
    "PchatKeyAnnounce \<Rightarrow> ServerState \<Rightarrow> CommandOutput" where
  "SendPchatKeyAnnounce_execute announce state =
     default_CommandOutput\<lparr>tcp_messages := [CM_PchatKeyAnnounce announce]\<rparr>"

definition SendPchatKeyExchange_execute ::
    "PchatKeyExchange \<Rightarrow> ServerState \<Rightarrow> CommandOutput" where
  "SendPchatKeyExchange_execute exchange state =
     default_CommandOutput\<lparr>tcp_messages := [CM_PchatKeyExchange exchange]\<rparr>"

definition SendPchatEpochCountersig_execute ::
    "PchatEpochCountersig \<Rightarrow> ServerState \<Rightarrow> CommandOutput" where
  "SendPchatEpochCountersig_execute countersig state =
     default_CommandOutput\<lparr>tcp_messages := [CM_PchatEpochCountersig countersig]\<rparr>"

definition SendPchatKeyChallengeResponse_execute ::
    "PchatKeyChallengeResponse \<Rightarrow> ServerState \<Rightarrow> CommandOutput" where
  "SendPchatKeyChallengeResponse_execute response state =
     default_CommandOutput\<lparr>tcp_messages := [CM_PchatKeyChallengeResponse response]\<rparr>"

definition SendPchatKeyHolderReport_execute ::
    "PchatKeyHolderReport \<Rightarrow> ServerState \<Rightarrow> CommandOutput" where
  "SendPchatKeyHolderReport_execute report state =
     default_CommandOutput\<lparr>tcp_messages := [CM_PchatKeyHolderReport report]\<rparr>"

definition SendPchatKeyHoldersQuery_execute ::
    "PchatKeyHoldersQuery \<Rightarrow> ServerState \<Rightarrow> CommandOutput" where
  "SendPchatKeyHoldersQuery_execute query state =
     default_CommandOutput\<lparr>tcp_messages := [CM_PchatKeyHoldersQuery query]\<rparr>"

definition SendPchatReaction_execute ::
    "PchatReaction \<Rightarrow> ServerState \<Rightarrow> CommandOutput" where
  "SendPchatReaction_execute message state =
     default_CommandOutput\<lparr>tcp_messages := [CM_PchatReaction message]\<rparr>"

definition SendPchatPin_execute ::
    "PchatPin \<Rightarrow> ServerState \<Rightarrow> CommandOutput" where
  "SendPchatPin_execute message state =
     default_CommandOutput\<lparr>tcp_messages := [CM_PchatPin message]\<rparr>"

definition SendPchatSenderKeyDistribution_execute ::
    "u32 \<Rightarrow> bytes \<Rightarrow> ServerState \<Rightarrow> CommandOutput" where
  "SendPchatSenderKeyDistribution_execute channel_id distribution state =
     (let msg = default_PchatSenderKeyDistribution\<lparr>PchatSenderKeyDistribution_channel_id := Some channel_id,
        PchatSenderKeyDistribution_sender_hash := None,
        PchatSenderKeyDistribution_distribution := Some distribution\<rparr>
      in default_CommandOutput\<lparr>tcp_messages := [CM_PchatSenderKeyDistribution msg]\<rparr>)"

definition SendFancyPushRegister_execute ::
    "string \<Rightarrow> u32 list \<Rightarrow> ServerState \<Rightarrow> CommandOutput" where
  "SendFancyPushRegister_execute token muted_channels state =
     (let msg = default_FancyPushRegister\<lparr>FancyPushRegister_token := Some token,
        FancyPushRegister_muted_channels := muted_channels\<rparr>
      in default_CommandOutput\<lparr>tcp_messages := [CM_FancyPushRegister msg]\<rparr>)"

definition SendFancyPushUpdate_execute ::
    "u32 list \<Rightarrow> ServerState \<Rightarrow> CommandOutput" where
  "SendFancyPushUpdate_execute muted_channels state =
     (let msg = default_FancyPushUpdate\<lparr>FancyPushUpdate_muted_channels := muted_channels\<rparr>
      in default_CommandOutput\<lparr>tcp_messages := [CM_FancyPushUpdate msg]\<rparr>)"

definition SendFancySubscribePush_execute ::
    "u32 list \<Rightarrow> ServerState \<Rightarrow> CommandOutput" where
  "SendFancySubscribePush_execute muted_channels state =
     (let msg = default_FancySubscribePush\<lparr>FancySubscribePush_muted_channels := muted_channels\<rparr>
      in default_CommandOutput\<lparr>tcp_messages := [CM_FancySubscribePush msg]\<rparr>)"

definition SendReadReceipt_execute ::
    "u32 \<Rightarrow> string option \<Rightarrow> bool \<Rightarrow> string option \<Rightarrow> ServerState \<Rightarrow> CommandOutput" where
  "SendReadReceipt_execute channel_id last_read_message_id query query_message_id state =
     (let msg = default_FancyReadReceipt\<lparr>FancyReadReceipt_channel_id := Some channel_id,
        FancyReadReceipt_last_read_message_id := last_read_message_id,
        FancyReadReceipt_timestamp := None,
        FancyReadReceipt_query := (if query then Some True else None),
        FancyReadReceipt_query_message_id := query_message_id\<rparr>
      in default_CommandOutput\<lparr>tcp_messages := [CM_FancyReadReceipt msg]\<rparr>)"

definition SendTypingIndicator_execute ::
    "u32 \<Rightarrow> ServerState \<Rightarrow> CommandOutput" where
  "SendTypingIndicator_execute channel_id state =
     (let msg = default_FancyTypingIndicator\<lparr>FancyTypingIndicator_channel_id := Some channel_id,
        FancyTypingIndicator_actor := None\<rparr>
      in default_CommandOutput\<lparr>tcp_messages := [CM_FancyTypingIndicator msg]\<rparr>)"

definition SendDrawStroke_execute ::
    "u32 \<Rightarrow> string \<Rightarrow> u32 \<Rightarrow> f32 \<Rightarrow> f32 option \<Rightarrow> f32 list \<Rightarrow> bool \<Rightarrow> bool \<Rightarrow> bool \<Rightarrow> ServerState \<Rightarrow> CommandOutput" where
  "SendDrawStroke_execute channel_id stroke_id color width width_frac points is_end is_clear clear_all state =
     (let msg = default_FancyDrawStroke\<lparr>FancyDrawStroke_sender_session := None,
        FancyDrawStroke_channel_id := Some channel_id,
        FancyDrawStroke_stroke_id := Some stroke_id,
        FancyDrawStroke_color := Some color,
        FancyDrawStroke_width := Some width,
        FancyDrawStroke_width_frac := width_frac,
        FancyDrawStroke_points := points,
        FancyDrawStroke_is_end := Some is_end,
        FancyDrawStroke_is_clear := Some is_clear,
        FancyDrawStroke_clear_all := Some clear_all\<rparr>
      in default_CommandOutput\<lparr>tcp_messages := [CM_FancyDrawStroke msg]\<rparr>)"

definition SendWatchSync_execute ::
    "FancyWatchSync \<Rightarrow> ServerState \<Rightarrow> CommandOutput" where
  "SendWatchSync_execute message state =
     default_CommandOutput\<lparr>tcp_messages := [CM_FancyWatchSync message]\<rparr>"

definition RequestLinkPreview_execute ::
    "string list \<Rightarrow> string \<Rightarrow> ServerState \<Rightarrow> CommandOutput" where
  "RequestLinkPreview_execute urls request_id state =
     (let msg = default_FancyLinkPreviewRequest\<lparr>FancyLinkPreviewRequest_urls := urls,
        FancyLinkPreviewRequest_request_id := Some request_id\<rparr>
      in default_CommandOutput\<lparr>tcp_messages := [CM_FancyLinkPreviewRequest msg]\<rparr>)"

definition SetChannelState_execute ::
    "u32 option \<Rightarrow> u32 option \<Rightarrow> string option \<Rightarrow> string option \<Rightarrow> i32 option \<Rightarrow> bool option \<Rightarrow> u32 option \<Rightarrow> PchatProtocol option \<Rightarrow> u32 option \<Rightarrow> u32 option \<Rightarrow> ServerState \<Rightarrow> CommandOutput" where
  "SetChannelState_execute channel_id parent name description pos temporary max_users pchat_protocol pchat_max_history pchat_retention_days state =
     (let msg = default_ChannelState\<lparr>ChannelState_channel_id := channel_id,
        ChannelState_parent := parent,
        ChannelState_name := name,
        ChannelState_description := description,
        ChannelState_position := pos,
        ChannelState_temporary := temporary,
        ChannelState_max_users := max_users,
        ChannelState_pchat_protocol := map_option PchatProtocol_to_proto pchat_protocol,
        ChannelState_pchat_max_history := pchat_max_history,
        ChannelState_pchat_retention_days := pchat_retention_days\<rparr>
      in default_CommandOutput\<lparr>tcp_messages := [CM_ChannelState msg]\<rparr>)"

definition SetComment_execute ::
    "string \<Rightarrow> ServerState \<Rightarrow> CommandOutput" where
  "SetComment_execute comment state =
     (let msg = default_UserState\<lparr>UserState_session := own_session state,
        UserState_comment := Some comment\<rparr>
      in default_CommandOutput\<lparr>tcp_messages := [CM_UserState msg]\<rparr>)"

definition SetPrioritySpeaker_execute ::
    "u32 \<Rightarrow> bool \<Rightarrow> ServerState \<Rightarrow> CommandOutput" where
  "SetPrioritySpeaker_execute session priority state =
     (let msg = default_UserState\<lparr>UserState_session := Some session,
        UserState_priority_speaker := Some priority\<rparr>
      in default_CommandOutput\<lparr>tcp_messages := [CM_UserState msg]\<rparr>)"

definition SetSelfDeaf_execute ::
    "bool \<Rightarrow> ServerState \<Rightarrow> CommandOutput" where
  "SetSelfDeaf_execute deafened state =
     (let msg = default_UserState\<lparr>UserState_session := own_session state,
        UserState_self_deaf := Some deafened,
        UserState_self_mute := (if deafened then Some True else None)\<rparr>
      in default_CommandOutput\<lparr>tcp_messages := [CM_UserState msg]\<rparr>)"

definition SetSelfMute_execute ::
    "bool \<Rightarrow> ServerState \<Rightarrow> CommandOutput" where
  "SetSelfMute_execute muted state =
     (let msg = default_UserState\<lparr>UserState_session := own_session state,
        UserState_self_mute := Some muted,
        UserState_self_deaf := (if \<not> muted then Some False else None)\<rparr>
      in default_CommandOutput\<lparr>tcp_messages := [CM_UserState msg]\<rparr>)"

definition SetTexture_execute ::
    "bytes \<Rightarrow> ServerState \<Rightarrow> CommandOutput" where
  "SetTexture_execute texture state =
     (let msg = default_UserState\<lparr>UserState_session := own_session state,
        UserState_texture := Some texture\<rparr>
      in default_CommandOutput\<lparr>tcp_messages := [CM_UserState msg]\<rparr>)"

definition SetUserDeaf_execute ::
    "u32 \<Rightarrow> bool \<Rightarrow> ServerState \<Rightarrow> CommandOutput" where
  "SetUserDeaf_execute session deafened state =
     (let msg = default_UserState\<lparr>UserState_session := Some session,
        UserState_deaf := Some deafened\<rparr>
      in default_CommandOutput\<lparr>tcp_messages := [CM_UserState msg]\<rparr>)"

definition SetUserMute_execute ::
    "u32 \<Rightarrow> bool \<Rightarrow> ServerState \<Rightarrow> CommandOutput" where
  "SetUserMute_execute session muted state =
     (let msg = default_UserState\<lparr>UserState_session := Some session,
        UserState_mute := Some muted\<rparr>
      in default_CommandOutput\<lparr>tcp_messages := [CM_UserState msg]\<rparr>)"

definition SetVoiceTarget_execute ::
    "u32 \<Rightarrow> VoiceTargetEntry list \<Rightarrow> ServerState \<Rightarrow> CommandOutput" where
  "SetVoiceTarget_execute ident targets state =
     (let msg = default_VoiceTarget\<lparr>VoiceTarget_id := Some ident,
        VoiceTarget_targets := map (\<lambda>t. \<lparr>VoiceTarget_Target_session = VoiceTargetEntry_sessions t,
       VoiceTarget_Target_channel_id = VoiceTargetEntry_channel_id t,
       VoiceTarget_Target_group = VoiceTargetEntry_group t,
       VoiceTarget_Target_links = (if VoiceTargetEntry_links t then Some True else None),
       VoiceTarget_Target_children = (if VoiceTargetEntry_children t then Some True else None)\<rparr>) targets\<rparr>
      in default_CommandOutput\<lparr>tcp_messages := [CM_VoiceTarget msg]\<rparr>)"

section \<open>Dispatch\<close>

datatype (plugins only: code) BoxedCommand =
  Cmd_Authenticate string "string option" "string list"
| Cmd_BanUser u32 "string option"
| Cmd_ChannelListen "u32 list" "u32 list"
| Cmd_DeleteChannel u32
| Cmd_Disconnect
| Cmd_JoinChannel u32
| Cmd_KickUser u32 "string option"
| Cmd_MoveUser u32 u32
| Cmd_PermissionQuery u32
| Cmd_RegisterUser u32
| Cmd_RemoveUserAvatar u32
| Cmd_RequestAcl u32
| Cmd_RequestBlob "u32 list" "u32 list" "u32 list" "u32 list"
| Cmd_RequestBanList
| Cmd_RequestUserList
| Cmd_RequestUserStats u32
| Cmd_UpdateUserList "UserListEntry list"
| Cmd_ResetUserComment u32
| Cmd_SendAcl u32 bool "Acl_ChanGroup list" "Acl_ChanAcl list"
| Cmd_SendAudio bytes u32 u64 "(f32 \<times> f32 \<times> f32) option" bool
| Cmd_SendBanList "BanList_BanEntry list"
| Cmd_SendPing u64
| Cmd_SendPluginData "u32 list" bytes string
| Cmd_SendTextMessage "u32 list" "u32 list" "u32 list" string "string option" "u64 option" "string option"
| Cmd_SendWebRtcSignal u32 i32 string
| Cmd_SendPchatAck PchatAck
| Cmd_SendPchatMessage PchatMessage
| Cmd_SendPchatDeleteMessages PchatDeleteMessages
| Cmd_SendPchatFetch PchatFetch
| Cmd_SendPchatKeyAnnounce PchatKeyAnnounce
| Cmd_SendPchatKeyExchange PchatKeyExchange
| Cmd_SendPchatEpochCountersig PchatEpochCountersig
| Cmd_SendPchatKeyChallengeResponse PchatKeyChallengeResponse
| Cmd_SendPchatKeyHolderReport PchatKeyHolderReport
| Cmd_SendPchatKeyHoldersQuery PchatKeyHoldersQuery
| Cmd_SendPchatReaction PchatReaction
| Cmd_SendPchatPin PchatPin
| Cmd_SendPchatSenderKeyDistribution u32 bytes
| Cmd_SendFancyPushRegister string "u32 list"
| Cmd_SendFancyPushUpdate "u32 list"
| Cmd_SendFancySubscribePush "u32 list"
| Cmd_SendReadReceipt u32 "string option" bool "string option"
| Cmd_SendTypingIndicator u32
| Cmd_SendDrawStroke u32 string u32 f32 "f32 option" "f32 list" bool bool bool
| Cmd_SendWatchSync FancyWatchSync
| Cmd_RequestLinkPreview "string list" string
| Cmd_SetChannelState "u32 option" "u32 option" "string option" "string option" "i32 option" "bool option" "u32 option" "PchatProtocol option" "u32 option" "u32 option"
| Cmd_SetComment string
| Cmd_SetPrioritySpeaker u32 bool
| Cmd_SetSelfDeaf bool
| Cmd_SetSelfMute bool
| Cmd_SetTexture bytes
| Cmd_SetUserDeaf u32 bool
| Cmd_SetUserMute u32 bool
| Cmd_SetVoiceTarget u32 "VoiceTargetEntry list"

primrec execute :: "BoxedCommand \<Rightarrow> ServerState \<Rightarrow> CommandOutput" where
  "execute (Cmd_Authenticate username password tokens) = Authenticate_execute username password tokens"
| "execute (Cmd_BanUser session reason) = BanUser_execute session reason"
| "execute (Cmd_ChannelListen added removed) = ChannelListen_execute added removed"
| "execute (Cmd_DeleteChannel channel_id) = DeleteChannel_execute channel_id"
| "execute (Cmd_Disconnect) = Disconnect_execute"
| "execute (Cmd_JoinChannel channel_id) = JoinChannel_execute channel_id"
| "execute (Cmd_KickUser session reason) = KickUser_execute session reason"
| "execute (Cmd_MoveUser session channel_id) = MoveUser_execute session channel_id"
| "execute (Cmd_PermissionQuery channel_id) = PermissionQuery_execute channel_id"
| "execute (Cmd_RegisterUser session) = RegisterUser_execute session"
| "execute (Cmd_RemoveUserAvatar session) = RemoveUserAvatar_execute session"
| "execute (Cmd_RequestAcl channel_id) = RequestAcl_execute channel_id"
| "execute (Cmd_RequestBlob session_texture session_comment channel_description user_id_comment) = RequestBlob_execute session_texture session_comment channel_description user_id_comment"
| "execute (Cmd_RequestBanList) = RequestBanList_execute"
| "execute (Cmd_RequestUserList) = RequestUserList_execute"
| "execute (Cmd_RequestUserStats session) = RequestUserStats_execute session"
| "execute (Cmd_UpdateUserList entries) = UpdateUserList_execute entries"
| "execute (Cmd_ResetUserComment session) = ResetUserComment_execute session"
| "execute (Cmd_SendAcl channel_id inherit_acls groups acls) = SendAcl_execute channel_id inherit_acls groups acls"
| "execute (Cmd_SendAudio opus_data target frame_number positional_data is_terminator) = SendAudio_execute opus_data target frame_number positional_data is_terminator"
| "execute (Cmd_SendBanList bans) = SendBanList_execute bans"
| "execute (Cmd_SendPing timestamp) = SendPing_execute timestamp"
| "execute (Cmd_SendPluginData receiver_sessions data data_id) = SendPluginData_execute receiver_sessions data data_id"
| "execute (Cmd_SendTextMessage channel_ids user_sessions tree_ids message message_id timestamp edit_id) = SendTextMessage_execute channel_ids user_sessions tree_ids message message_id timestamp edit_id"
| "execute (Cmd_SendWebRtcSignal target_session signal_type payload) = SendWebRtcSignal_execute target_session signal_type payload"
| "execute (Cmd_SendPchatAck ack) = SendPchatAck_execute ack"
| "execute (Cmd_SendPchatMessage message) = SendPchatMessage_execute message"
| "execute (Cmd_SendPchatDeleteMessages message) = SendPchatDeleteMessages_execute message"
| "execute (Cmd_SendPchatFetch fetch) = SendPchatFetch_execute fetch"
| "execute (Cmd_SendPchatKeyAnnounce announce) = SendPchatKeyAnnounce_execute announce"
| "execute (Cmd_SendPchatKeyExchange exchange) = SendPchatKeyExchange_execute exchange"
| "execute (Cmd_SendPchatEpochCountersig countersig) = SendPchatEpochCountersig_execute countersig"
| "execute (Cmd_SendPchatKeyChallengeResponse response) = SendPchatKeyChallengeResponse_execute response"
| "execute (Cmd_SendPchatKeyHolderReport report) = SendPchatKeyHolderReport_execute report"
| "execute (Cmd_SendPchatKeyHoldersQuery query) = SendPchatKeyHoldersQuery_execute query"
| "execute (Cmd_SendPchatReaction message) = SendPchatReaction_execute message"
| "execute (Cmd_SendPchatPin message) = SendPchatPin_execute message"
| "execute (Cmd_SendPchatSenderKeyDistribution channel_id distribution) = SendPchatSenderKeyDistribution_execute channel_id distribution"
| "execute (Cmd_SendFancyPushRegister token muted_channels) = SendFancyPushRegister_execute token muted_channels"
| "execute (Cmd_SendFancyPushUpdate muted_channels) = SendFancyPushUpdate_execute muted_channels"
| "execute (Cmd_SendFancySubscribePush muted_channels) = SendFancySubscribePush_execute muted_channels"
| "execute (Cmd_SendReadReceipt channel_id last_read_message_id query query_message_id) = SendReadReceipt_execute channel_id last_read_message_id query query_message_id"
| "execute (Cmd_SendTypingIndicator channel_id) = SendTypingIndicator_execute channel_id"
| "execute (Cmd_SendDrawStroke channel_id stroke_id color width width_frac points is_end is_clear clear_all) = SendDrawStroke_execute channel_id stroke_id color width width_frac points is_end is_clear clear_all"
| "execute (Cmd_SendWatchSync message) = SendWatchSync_execute message"
| "execute (Cmd_RequestLinkPreview urls request_id) = RequestLinkPreview_execute urls request_id"
| "execute (Cmd_SetChannelState channel_id parent name description pos temporary max_users pchat_protocol pchat_max_history pchat_retention_days) = SetChannelState_execute channel_id parent name description pos temporary max_users pchat_protocol pchat_max_history pchat_retention_days"
| "execute (Cmd_SetComment comment) = SetComment_execute comment"
| "execute (Cmd_SetPrioritySpeaker session priority) = SetPrioritySpeaker_execute session priority"
| "execute (Cmd_SetSelfDeaf deafened) = SetSelfDeaf_execute deafened"
| "execute (Cmd_SetSelfMute muted) = SetSelfMute_execute muted"
| "execute (Cmd_SetTexture texture) = SetTexture_execute texture"
| "execute (Cmd_SetUserDeaf session deafened) = SetUserDeaf_execute session deafened"
| "execute (Cmd_SetUserMute session muted) = SetUserMute_execute session muted"
| "execute (Cmd_SetVoiceTarget ident targets) = SetVoiceTarget_execute ident targets"

lemmas command_defs =
  Authenticate_execute_def BanUser_execute_def ChannelListen_execute_def
  DeleteChannel_execute_def Disconnect_execute_def JoinChannel_execute_def KickUser_execute_def
  MoveUser_execute_def PermissionQuery_execute_def RegisterUser_execute_def
  RemoveUserAvatar_execute_def RequestAcl_execute_def RequestBlob_execute_def
  RequestBanList_execute_def RequestUserList_execute_def RequestUserStats_execute_def
  UpdateUserList_execute_def ResetUserComment_execute_def SendAcl_execute_def
  SendAudio_execute_def SendBanList_execute_def SendPing_execute_def SendPluginData_execute_def
  SendTextMessage_execute_def SendWebRtcSignal_execute_def SendPchatAck_execute_def
  SendPchatMessage_execute_def SendPchatDeleteMessages_execute_def SendPchatFetch_execute_def
  SendPchatKeyAnnounce_execute_def SendPchatKeyExchange_execute_def
  SendPchatEpochCountersig_execute_def SendPchatKeyChallengeResponse_execute_def
  SendPchatKeyHolderReport_execute_def SendPchatKeyHoldersQuery_execute_def
  SendPchatReaction_execute_def SendPchatPin_execute_def
  SendPchatSenderKeyDistribution_execute_def SendFancyPushRegister_execute_def
  SendFancyPushUpdate_execute_def SendFancySubscribePush_execute_def SendReadReceipt_execute_def
  SendTypingIndicator_execute_def SendDrawStroke_execute_def SendWatchSync_execute_def
  RequestLinkPreview_execute_def SetChannelState_execute_def SetComment_execute_def
  SetPrioritySpeaker_execute_def SetSelfDeaf_execute_def SetSelfMute_execute_def
  SetTexture_execute_def SetUserDeaf_execute_def SetUserMute_execute_def
  SetVoiceTarget_execute_def

section \<open>Properties\<close>

text \<open>What a command sends. Every command produces exactly one TCP message and nothing else, except
  \<^verbatim>\<open>SendAudio\<close>, which produces one UDP message, and \<^verbatim>\<open>Disconnect\<close>, which produces no message and asks
  for the disconnect; no other command disconnects.\<close>

theorem command_output_shape:
  "length (tcp_messages (execute c state)) + length (udp_messages (execute c state)) =
     (if c = Cmd_Disconnect then 0 else 1) \<and>
   disconnect (execute c state) = (c = Cmd_Disconnect) \<and>
   (udp_messages (execute c state) = []) =
     (\<forall>opus target frame pos end. c \<noteq> Cmd_SendAudio opus target frame pos end)"
  by (cases c) (simp_all add: command_defs default_CommandOutput_def Let_def)

text \<open>The server accepts a command and echoes its \<^verbatim>\<open>UserState\<close> back.\<close>

definition echo_command :: "BoxedCommand \<Rightarrow> ServerState \<Rightarrow> ServerState" where
  "echo_command c s =
     fold (\<lambda>m s. case m of CM_UserState us \<Rightarrow> apply_user_state us s | _ \<Rightarrow> s)
       (tcp_messages (execute c s)) s"

definition deaf_implies_mute :: "ServerState \<Rightarrow> bool" where
  "deaf_implies_mute s =
     (case own_session s of None \<Rightarrow> True
      | Some k \<Rightarrow> User_self_deaf (user_or_new k s) \<longrightarrow> User_self_mute (user_or_new k s))"

lemma own_session_apply_user_state [simp]: "own_session (apply_user_state us s) = own_session s"
  by (simp add: own_session_def apply_user_state_def split: option.splits)

lemma echo_self_commands:
  assumes "c \<in> {Cmd_SetSelfMute b, Cmd_SetSelfDeaf b}" and "deaf_implies_mute s"
  shows "deaf_implies_mute (echo_command c s) \<and> own_session (echo_command c s) = own_session s"
proof (cases "own_session s")
  case None
  with assms(1) show ?thesis
    by (auto simp: echo_command_def command_defs default_CommandOutput_def deaf_implies_mute_def)
next
  case (Some k)
  with assms show ?thesis
    by (auto simp: echo_command_def command_defs default_CommandOutput_def deaf_implies_mute_def
        user_or_new_apply merge_user_fields default_UserState_def split: if_splits)
qed

text \<open>Self-deafening includes self-muting. Starting from a state in which our own user is not deaf
  without being mute, every sequence of \<^verbatim>\<open>SetSelfMute\<close> and \<^verbatim>\<open>SetSelfDeaf\<close> commands that the server
  echoes keeps it so: deafening also mutes, and unmuting also undeafens.\<close>

theorem self_deaf_implies_self_mute:
  assumes "deaf_implies_mute s"
    and "set cs \<subseteq> range Cmd_SetSelfMute \<union> range Cmd_SetSelfDeaf"
  shows "deaf_implies_mute (fold echo_command cs s)"
  using assms
proof (induction cs arbitrary: s)
  case (Cons c cs)
  then obtain b where "c \<in> {Cmd_SetSelfMute b, Cmd_SetSelfDeaf b}" by auto
  from echo_self_commands [OF this Cons.prems(1)] Cons show ?case by simp
qed simp

definition demo_state :: ServerState where
  "demo_state = apply_user_state (default_UserState\<lparr>UserState_session := Some 5\<rparr>)
     (apply_server_sync (default_ServerSync\<lparr>ServerSync_session := Some 5\<rparr>) ServerState_new)"

theorem self_deaf_implies_self_mute_witness:
  "deaf_implies_mute demo_state \<and>
   deaf_implies_mute (fold echo_command [Cmd_SetSelfDeaf True, Cmd_SetSelfMute False] demo_state)"
proof -
  have *: "deaf_implies_mute demo_state"
    by (simp add: deaf_implies_mute_def demo_state_def user_or_new_def apply_user_state_def
        apply_server_sync_def own_session_def ServerState_new_def default_UserState_def
        default_ServerSync_def merge_user_fields new_User_def)
  with self_deaf_implies_self_mute [of demo_state "[Cmd_SetSelfDeaf True, Cmd_SetSelfMute False]"]
  show ?thesis by auto
qed

end
