(* ===== verification/Work_Queue.thy ===== *)
theory Work_Queue
  imports Commands
begin

text \<open>
  The work queue of the event loop (src/crates/mumble-protocol/src/work_queue.rs) over bounded
  channels. A \<^verbatim>\<open>tokio::sync::mpsc\<close> channel is its capacity, its items in order, and whether its
  senders or its receiver are gone; the locale \<open>bounded_fifo\<close> states what the queue relies on.
  An awaited \<^verbatim>\<open>send\<close> on a full channel and an awaited \<^verbatim>\<open>recv\<close> on an empty one do not complete
  yet: their value is \<open>None\<close>.
\<close>

section \<open>Channels\<close>

record 'a chan =
  capacity :: nat
  queue :: "'a list"
  tx_closed :: bool
  rx_closed :: bool

datatype try_send_error = Full | Closed

definition chan_new :: "nat \<Rightarrow> 'a chan" where
  "chan_new n = \<lparr>capacity = n, queue = [], tx_closed = False, rx_closed = False\<rparr>"

definition chan_try_send :: "'a \<Rightarrow> 'a chan \<Rightarrow> (try_send_error + unit) \<times> 'a chan" where
  "chan_try_send x c =
     (if rx_closed c then (Inl Closed, c)
      else if length (queue c) < capacity c then (Inr (), c\<lparr>queue := queue c @ [x]\<rparr>)
      else (Inl Full, c))"

definition chan_send :: "'a \<Rightarrow> 'a chan \<Rightarrow> (unit result \<times> 'a chan) option" where
  "chan_send x c =
     (case chan_try_send x c of
        (Inr u, c') \<Rightarrow> Some (Inr (), c')
      | (Inl Closed, c') \<Rightarrow> Some (Inl QueueClosed, c')
      | (Inl Full, c') \<Rightarrow> None)"

text \<open>\<^verbatim>\<open>recv\<close>: the next item; \<open>None\<close> inside when all senders are gone and the channel is drained.\<close>

definition chan_recv :: "'a chan \<Rightarrow> ('a option \<times> 'a chan) option" where
  "chan_recv c =
     (case queue c of
        x # xs \<Rightarrow> Some (Some x, c\<lparr>queue := xs\<rparr>)
      | [] \<Rightarrow> if tx_closed c then Some (None, c) else None)"

text \<open>Dropping the receiver: what is queued is gone and later sends fail.\<close>

definition chan_drop_rx :: "'a chan \<Rightarrow> 'a chan" where
  "chan_drop_rx c = c\<lparr>queue := [], rx_closed := True\<rparr>"

text \<open>A sequence of pushes and pops on a channel, with the items accepted and the items received.\<close>

datatype 'a fifo_op = Push 'a | Pop

fun fifo_run ::
    "('a \<Rightarrow> 'c \<Rightarrow> ('e + unit) \<times> 'c) \<Rightarrow> ('c \<Rightarrow> ('a option \<times> 'c) option)
       \<Rightarrow> 'a fifo_op list \<Rightarrow> 'c \<Rightarrow> 'a list \<times> 'a list \<times> 'c" where
  "fifo_run snd_op rcv_op [] c = ([], [], c)"
| "fifo_run snd_op rcv_op (Push x # ops) c =
     (case snd_op x c of
        (Inr u, c') \<Rightarrow> (case fifo_run snd_op rcv_op ops c' of (acc, got, d) \<Rightarrow> (x # acc, got, d))
      | (Inl e, c') \<Rightarrow> fifo_run snd_op rcv_op ops c')"
| "fifo_run snd_op rcv_op (Pop # ops) c =
     (case rcv_op c of
        Some (Some x, c') \<Rightarrow> (case fifo_run snd_op rcv_op ops c' of (acc, got, d) \<Rightarrow> (acc, x # got, d))
      | Some (None, c') \<Rightarrow> fifo_run snd_op rcv_op ops c'
      | None \<Rightarrow> fifo_run snd_op rcv_op ops c)"

text \<open>The contract of a bounded first-in first-out channel.\<close>

locale bounded_fifo =
  fixes try_send :: "'a \<Rightarrow> 'c \<Rightarrow> ('e + unit) \<times> 'c"
    and recv :: "'c \<Rightarrow> ('a option \<times> 'c) option"
    and content :: "'c \<Rightarrow> 'a list"
    and bound :: "'c \<Rightarrow> nat"
  assumes send_ok: "try_send x c = (Inr u, c') \<Longrightarrow>
        content c' = content c @ [x] \<and> bound c' = bound c \<and> length (content c) < bound c"
    and send_err: "try_send x c = (Inl e, c') \<Longrightarrow> c' = c"
    and recv_item: "recv c = Some (Some x, c') \<Longrightarrow> content c = x # content c' \<and> bound c' = bound c"
    and recv_end: "recv c = Some (None, c') \<Longrightarrow> c' = c \<and> content c = []"
    and recv_wait: "recv c = None \<Longrightarrow> content c = []"
begin

text \<open>Nothing is lost, duplicated or reordered: what was queued and then accepted is what was
  received followed by what is still queued; and the bound is respected.\<close>

lemma conservation:
  "fifo_run try_send recv ops c = (acc, got, d) \<Longrightarrow>
     content c @ acc = got @ content d \<and> bound d = bound c"
proof (induction ops arbitrary: c acc got)
  case (Cons op ops)
  show ?case
  proof (cases op)
    case (Push x)
    show ?thesis
    proof (cases "fst (try_send x c)")
      case (Inl e)
      then have "try_send x c = (Inl e, c)" using send_err by (metis prod.collapse)
      with Cons.prems Push Cons.IH [of c] show ?thesis by simp
    next
      case (Inr u)
      then have s: "try_send x c = (Inr u, snd (try_send x c))" by (metis prod.collapse)
      obtain acc' where "acc = x # acc'" "fifo_run try_send recv ops (snd (try_send x c)) = (acc', got, d)"
        using Cons.prems Push s by (auto split: prod.splits sum.splits)
      with Cons.IH [OF this(2)] send_ok [OF s] show ?thesis by simp
    qed
  next
    case Pop
    show ?thesis
    proof (cases "recv c")
      case None
      with Cons.prems Pop Cons.IH [of c] show ?thesis by simp
    next
      case (Some r)
      obtain ox c' where r: "r = (ox, c')" by (cases r)
      show ?thesis
      proof (cases ox)
        case None
        with Cons.prems Pop Some r recv_end [of c c'] Cons.IH [of c] show ?thesis by simp
      next
        case (Some x)
        with \<open>recv c = Some r\<close> r have rc: "recv c = Some (Some x, c')" by simp
        obtain got' where "got = x # got'" "fifo_run try_send recv ops c' = (acc, got', d)"
          using Cons.prems Pop rc by (auto split: prod.splits)
        with Cons.IH [OF this(2)] recv_item [OF rc] show ?thesis by simp
      qed
    qed
  qed
qed simp

lemma recv_first:
  assumes "content c = x # xs"
  obtains c' where "recv c = Some (Some x, c')" "content c' = xs" "bound c' = bound c"
proof (cases "recv c")
  case None
  with recv_wait assms show ?thesis by simp
next
  case (Some r)
  obtain ox c' where r: "r = (ox, c')" by (cases r)
  show ?thesis
  proof (cases ox)
    case None
    with Some r recv_end [of c c'] assms show ?thesis by simp
  next
    case (Some y)
    with \<open>recv c = Some r\<close> r recv_item [of c y c'] assms show ?thesis by (auto intro: that)
  qed
qed

end

interpretation mpsc: bounded_fifo chan_try_send chan_recv queue capacity
  by unfold_locales
    (auto simp: chan_try_send_def chan_recv_def split: if_splits list.splits)

text \<open>A channel created with \<open>n\<close> slots never holds more than \<open>n\<close> items.\<close>

definition chan_ok :: "nat \<Rightarrow> 'a chan \<Rightarrow> bool" where
  "chan_ok n c \<longleftrightarrow> capacity c = n \<and> length (queue c) \<le> n"

lemma chan_ok_new [simp]: "chan_ok n (chan_new n)"
  by (simp add: chan_ok_def chan_new_def)

lemma chan_ok_drop [intro]: "chan_ok n c \<Longrightarrow> chan_ok n (chan_drop_rx c)"
  by (simp add: chan_ok_def chan_drop_rx_def)

lemma chan_ok_try_send: "chan_ok n c \<Longrightarrow> chan_try_send x c = (r, c') \<Longrightarrow> chan_ok n c'"
  using mpsc.send_ok [of x c _ c'] mpsc.send_err [of x c _ c']
  by (cases r) (auto simp: chan_ok_def)

lemma chan_ok_send: "chan_ok n c \<Longrightarrow> chan_send x c = Some (r, c') \<Longrightarrow> chan_ok n c'"
  using chan_ok_try_send [of n c x]
  by (auto simp: chan_send_def split: prod.splits sum.splits try_send_error.splits)

lemma chan_ok_recv: "chan_ok n c \<Longrightarrow> chan_recv c = Some (r, c') \<Longrightarrow> chan_ok n c'"
  using mpsc.recv_item [of c _ c'] mpsc.recv_end [of c c']
  by (cases r) (auto simp: chan_ok_def)

lemmas chan_ok_intros = chan_ok_try_send chan_ok_send chan_ok_recv

section \<open>The work queue\<close>

datatype WorkItem =
  WI_ServerMessage ServerMessage
| WI_UserCommand BoxedCommand
| WI_Shutdown

text \<open>The two ends of the queue share four channels; the record holds the channels of
  \<^verbatim>\<open>WorkQueueSender\<close>, \<^verbatim>\<open>WorkQueueReceiver\<close> and the outbound audio receiver.\<close>

record work_queue =
  wq_udp :: "UdpMessage chan"
  wq_tcp :: "ControlMessage chan"
  wq_cmd :: "BoxedCommand chan"
  wq_audio_out :: "UdpMessage chan"

definition UDP_CHANNEL_SIZE :: nat where "UDP_CHANNEL_SIZE = 256"
definition TCP_CHANNEL_SIZE :: nat where "TCP_CHANNEL_SIZE = 64"
definition CMD_CHANNEL_SIZE :: nat where "CMD_CHANNEL_SIZE = 32"
definition AUDIO_OUT_CHANNEL_SIZE :: nat where "AUDIO_OUT_CHANNEL_SIZE = 128"

lemmas channel_sizes = UDP_CHANNEL_SIZE_def TCP_CHANNEL_SIZE_def CMD_CHANNEL_SIZE_def
  AUDIO_OUT_CHANNEL_SIZE_def

definition work_queue_create :: work_queue where
  "work_queue_create =
     \<lparr>wq_udp = chan_new UDP_CHANNEL_SIZE, wq_tcp = chan_new TCP_CHANNEL_SIZE,
      wq_cmd = chan_new CMD_CHANNEL_SIZE, wq_audio_out = chan_new AUDIO_OUT_CHANNEL_SIZE\<rparr>"

definition send_udp :: "UdpMessage \<Rightarrow> work_queue \<Rightarrow> (unit result \<times> work_queue) option" where
  "send_udp msg q = map_option (\<lambda>(r, c). (r, q\<lparr>wq_udp := c\<rparr>)) (chan_send msg (wq_udp q))"

definition send_tcp :: "ControlMessage \<Rightarrow> work_queue \<Rightarrow> (unit result \<times> work_queue) option" where
  "send_tcp msg q = map_option (\<lambda>(r, c). (r, q\<lparr>wq_tcp := c\<rparr>)) (chan_send msg (wq_tcp q))"

definition send_command :: "BoxedCommand \<Rightarrow> work_queue \<Rightarrow> (unit result \<times> work_queue) option" where
  "send_command cmd q = map_option (\<lambda>(r, c). (r, q\<lparr>wq_cmd := c\<rparr>)) (chan_send cmd (wq_cmd q))"

definition try_send_audio :: "UdpMessage \<Rightarrow> work_queue \<Rightarrow> unit result \<times> work_queue" where
  "try_send_audio msg q =
     (case chan_try_send msg (wq_audio_out q) of
        (Inl e, c) \<Rightarrow> (Inl QueueClosed, q\<lparr>wq_audio_out := c\<rparr>)
      | (Inr u, c) \<Rightarrow> (Inr (), q\<lparr>wq_audio_out := c\<rparr>))"

text \<open>The biased \<^verbatim>\<open>select!\<close> of \<^verbatim>\<open>recv\<close>: a branch whose channel yields an item is taken, in the order
  UDP, TCP, commands; a branch whose channel is closed and drained is disabled; with every branch
  disabled the \<^verbatim>\<open>else\<close> branch gives \<open>Shutdown\<close>; otherwise the receiver waits.\<close>

definition wq_recv :: "work_queue \<Rightarrow> (WorkItem \<times> work_queue) option" where
  "wq_recv q =
     (case chan_recv (wq_udp q) of
        Some (Some m, c) \<Rightarrow> Some (WI_ServerMessage (SM_Udp m), q\<lparr>wq_udp := c\<rparr>)
      | u \<Rightarrow>
        (case chan_recv (wq_tcp q) of
           Some (Some m, c) \<Rightarrow> Some (WI_ServerMessage (SM_Control m), q\<lparr>wq_tcp := c\<rparr>)
         | t \<Rightarrow>
           (case chan_recv (wq_cmd q) of
              Some (Some cmd, c) \<Rightarrow> Some (WI_UserCommand cmd, q\<lparr>wq_cmd := c\<rparr>)
            | k \<Rightarrow> if u \<noteq> None \<and> t \<noteq> None \<and> k \<noteq> None then Some (WI_Shutdown, q) else None)))"

text \<open>The queue as one list: the order in which the items are served.\<close>

definition queued :: "work_queue \<Rightarrow> WorkItem list" where
  "queued q = map (\<lambda>m. WI_ServerMessage (SM_Udp m)) (queue (wq_udp q))
     @ map (\<lambda>m. WI_ServerMessage (SM_Control m)) (queue (wq_tcp q))
     @ map WI_UserCommand (queue (wq_cmd q))"

definition all_senders_gone :: "work_queue \<Rightarrow> bool" where
  "all_senders_gone q \<longleftrightarrow> tx_closed (wq_udp q) \<and> tx_closed (wq_tcp q) \<and> tx_closed (wq_cmd q)"

lemma wq_recv_queued:
  "wq_recv q =
     (case queue (wq_udp q) of
        m # ms \<Rightarrow> Some (WI_ServerMessage (SM_Udp m), q\<lparr>wq_udp := (wq_udp q)\<lparr>queue := ms\<rparr>\<rparr>)
      | [] \<Rightarrow>
        (case queue (wq_tcp q) of
           m # ms \<Rightarrow> Some (WI_ServerMessage (SM_Control m), q\<lparr>wq_tcp := (wq_tcp q)\<lparr>queue := ms\<rparr>\<rparr>)
         | [] \<Rightarrow>
           (case queue (wq_cmd q) of
              m # ms \<Rightarrow> Some (WI_UserCommand m, q\<lparr>wq_cmd := (wq_cmd q)\<lparr>queue := ms\<rparr>\<rparr>)
            | [] \<Rightarrow> if all_senders_gone q then Some (WI_Shutdown, q) else None)))"
  by (simp add: wq_recv_def chan_recv_def all_senders_gone_def split: list.splits)

lemma wq_recv_cases:
  assumes "wq_recv q = Some (item, q')"
  shows "(queued q = item # queued q') \<or> (item = WI_Shutdown \<and> q' = q \<and> queued q = [] \<and> all_senders_gone q)"
  using assms unfolding wq_recv_queued
  by (auto simp: queued_def split: list.splits if_splits)

lemma wq_recv_frame:
  assumes "wq_recv q = Some (item, q')"
  shows "wq_audio_out q' = wq_audio_out q"
  using assms unfolding wq_recv_queued by (auto split: list.splits if_splits)

lemma wq_recv_None: "wq_recv q = None \<longleftrightarrow> queued q = [] \<and> \<not> all_senders_gone q"
  unfolding wq_recv_queued by (auto simp: queued_def split: list.splits if_splits)

text \<open>A run of the queue: sends from the tasks interleaved with receives by the event loop.\<close>

datatype wq_op = Op_Udp UdpMessage | Op_Tcp ControlMessage | Op_Cmd BoxedCommand | Op_Recv

definition wq_send_op :: "wq_op \<Rightarrow> work_queue \<Rightarrow> (unit result \<times> work_queue) option" where
  "wq_send_op op q =
     (case op of
        Op_Udp m \<Rightarrow> send_udp m q | Op_Tcp m \<Rightarrow> send_tcp m q | Op_Cmd c \<Rightarrow> send_command c q
      | Op_Recv \<Rightarrow> None)"

fun wq_op_item :: "wq_op \<Rightarrow> WorkItem" where
  "wq_op_item (Op_Udp m) = WI_ServerMessage (SM_Udp m)"
| "wq_op_item (Op_Tcp m) = WI_ServerMessage (SM_Control m)"
| "wq_op_item (Op_Cmd c) = WI_UserCommand c"
| "wq_op_item Op_Recv = WI_Shutdown"

text \<open>\<open>wq_run\<close> gives the items accepted, the items received and the final queue. A send that does
  not complete because the channel is full leaves no trace.\<close>

fun wq_run :: "wq_op list \<Rightarrow> work_queue \<Rightarrow> WorkItem list \<times> WorkItem list \<times> work_queue" where
  "wq_run [] q = ([], [], q)"
| "wq_run (op # ops) q =
     (if op = Op_Recv then
        (case wq_recv q of
           None \<Rightarrow> wq_run ops q
         | Some (item, q') \<Rightarrow> (case wq_run ops q' of (acc, got, d) \<Rightarrow> (acc, item # got, d)))
      else
        (case wq_send_op op q of
           Some (Inr u, q') \<Rightarrow> (case wq_run ops q' of (acc, got, d) \<Rightarrow> (wq_op_item op # acc, got, d))
         | Some (Inl e, q') \<Rightarrow> wq_run ops q'
         | None \<Rightarrow> wq_run ops q))"

fun of_udp :: "WorkItem \<Rightarrow> bool" where
  "of_udp (WI_ServerMessage (SM_Udp m)) = True" | "of_udp _ = False"

fun of_tcp :: "WorkItem \<Rightarrow> bool" where
  "of_tcp (WI_ServerMessage (SM_Control m)) = True" | "of_tcp _ = False"

fun of_cmd :: "WorkItem \<Rightarrow> bool" where
  "of_cmd (WI_UserCommand c) = True" | "of_cmd _ = False"


lemma chan_send_cases:
  assumes "chan_send x c = Some (r, c')"
  shows "(r = Inr () \<and> queue c' = queue c @ [x] \<and> capacity c' = capacity c) \<or> (r = Inl QueueClosed \<and> c' = c)"
  using assms mpsc.send_ok [of x c] mpsc.send_err [of x c]
  by (auto simp: chan_send_def split: prod.splits sum.splits try_send_error.splits)

lemma filter_queued:
  "filter of_udp (queued q) = map (\<lambda>m. WI_ServerMessage (SM_Udp m)) (queue (wq_udp q))"
  "filter of_tcp (queued q) = map (\<lambda>m. WI_ServerMessage (SM_Control m)) (queue (wq_tcp q))"
  "filter of_cmd (queued q) = map WI_UserCommand (queue (wq_cmd q))"
  by (simp_all add: queued_def filter_map o_def)

lemma wq_send_op_cases:
  assumes "wq_send_op op q = Some (r, q')" and "p \<in> {of_udp, of_tcp, of_cmd}"
  shows "filter p (queued q') =
    filter p (queued q) @ (if r = Inr () then filter p [wq_op_item op] else [])"
  using assms
  by (cases op; auto simp: wq_send_op_def send_udp_def send_tcp_def send_command_def filter_queued
      dest!: chan_send_cases)

lemma wq_recv_filter:
  assumes "wq_recv q = Some (item, q')" and "p \<in> {of_udp, of_tcp, of_cmd}"
  shows "filter p (queued q) = filter p [item] @ filter p (queued q')"
  using wq_recv_cases [OF assms(1)] assms(2) by auto

text \<open>The bounds of the four channels.\<close>

definition wq_ok :: "work_queue \<Rightarrow> bool" where
  "wq_ok q \<longleftrightarrow> chan_ok UDP_CHANNEL_SIZE (wq_udp q) \<and> chan_ok TCP_CHANNEL_SIZE (wq_tcp q) \<and>
     chan_ok CMD_CHANNEL_SIZE (wq_cmd q) \<and> chan_ok AUDIO_OUT_CHANNEL_SIZE (wq_audio_out q)"

lemma wq_ok_create [simp]: "wq_ok work_queue_create"
  by (simp add: wq_ok_def work_queue_create_def)

lemma wq_ok_sends:
  "wq_ok q \<Longrightarrow> send_udp m q = Some (r, q') \<Longrightarrow> wq_ok q'"
  "wq_ok q \<Longrightarrow> send_tcp t q = Some (r, q') \<Longrightarrow> wq_ok q'"
  "wq_ok q \<Longrightarrow> send_command c q = Some (r, q') \<Longrightarrow> wq_ok q'"
  by (auto simp: wq_ok_def send_udp_def send_tcp_def send_command_def dest: chan_ok_send)

lemma wq_ok_recv: "wq_ok q \<Longrightarrow> wq_recv q = Some (item, q') \<Longrightarrow> wq_ok q'"
  unfolding wq_recv_queued
  by (auto simp: wq_ok_def chan_ok_def split: list.splits if_splits)

lemma wq_ok_audio_out:
  "wq_ok q \<Longrightarrow> chan_ok AUDIO_OUT_CHANNEL_SIZE c \<Longrightarrow> wq_ok (q\<lparr>wq_audio_out := c\<rparr>)"
  by (simp add: wq_ok_def)

section \<open>Properties\<close>

text \<open>The receiver serves the queue as one list: all pending UDP messages, then all pending
  control messages, then the user commands, each group in its order of arrival. With nothing
  pending it waits, and reports \<open>Shutdown\<close> only when the senders of all three channels are gone.\<close>

theorem recv_serves_by_priority:
  "map_option (\<lambda>(item, q'). (item, queued q')) (wq_recv q) =
     (case queued q of
        x # xs \<Rightarrow> Some (x, xs)
      | [] \<Rightarrow> if all_senders_gone q then Some (WI_Shutdown, []) else None)"
proof (cases "wq_recv q")
  case None
  then have "queued q = []" "\<not> all_senders_gone q" using wq_recv_None [of q] by blast+
  with None show ?thesis by simp
next
  case (Some r)
  obtain item q' where r: "r = (item, q')" by (cases r)
  with Some wq_recv_cases [of q item q'] show ?thesis by auto
qed

text \<open>C14: In any interleaving of the sends of the reader tasks and the command forwarder with the
  receives of the event loop, no accepted item is lost, duplicated or overtaken by a later one of
  the same source: for each source, what was queued and then accepted is what was received
  followed by what is still queued.\<close>

theorem work_queue_conserves:
  assumes "wq_run ops q = (acc, got, d)" and "p \<in> {of_udp, of_tcp, of_cmd}"
  shows "filter p (queued q) @ filter p acc = filter p got @ filter p (queued d)"
  using assms(1)
proof (induction ops arbitrary: q acc got)
  case (Cons op ops)
  show ?case
  proof (cases "op = Op_Recv")
    case True
    show ?thesis
    proof (cases "wq_recv q")
      case None
      with True Cons.prems Cons.IH [of q] show ?thesis by simp
    next
      case (Some r)
      obtain item q' where r: "wq_recv q = Some (item, q')" using Some by (cases r) auto
      obtain got' where "got = item # got'" "wq_run ops q' = (acc, got', d)"
        using Cons.prems True r by (auto split: prod.splits)
      with Cons.IH [OF this(2)] wq_recv_filter [OF r assms(2)] show ?thesis by simp
    qed
  next
    case False
    show ?thesis
    proof (cases "wq_send_op op q")
      case None
      with False Cons.prems Cons.IH [of q] show ?thesis by simp
    next
      case (Some r)
      obtain res q' where r: "wq_send_op op q = Some (res, q')" using Some by (cases r) auto
      show ?thesis
      proof (cases res)
        case (Inl e)
        with False Cons.prems r Cons.IH [of q'] wq_send_op_cases [OF r assms(2)] show ?thesis by simp
      next
        case (Inr u)
        obtain acc' where "acc = wq_op_item op # acc'" "wq_run ops q' = (acc', got, d)"
          using Cons.prems False r Inr by (auto split: prod.splits)
        with Cons.IH [OF this(2)] wq_send_op_cases [OF r assms(2)] Inr show ?thesis by auto
      qed
    qed
  qed
qed simp

theorem work_queue_conserves_witness:
  "\<exists>d. wq_run [Op_Tcp (CM_UdpTunnel [1]), Op_Udp (UM_Ping default_UdpPing), Op_Recv, Op_Recv] work_queue_create =
     ([WI_ServerMessage (SM_Control (CM_UdpTunnel [1])), WI_ServerMessage (SM_Udp (UM_Ping default_UdpPing))],
      [WI_ServerMessage (SM_Udp (UM_Ping default_UdpPing)), WI_ServerMessage (SM_Control (CM_UdpTunnel [1]))], d) \<and>
     filter of_tcp (queued d) = []"
proof -
  obtain d where d: "wq_run [Op_Tcp (CM_UdpTunnel [1]), Op_Udp (UM_Ping default_UdpPing), Op_Recv, Op_Recv] work_queue_create =
     ([WI_ServerMessage (SM_Control (CM_UdpTunnel [1])), WI_ServerMessage (SM_Udp (UM_Ping default_UdpPing))],
      [WI_ServerMessage (SM_Udp (UM_Ping default_UdpPing)), WI_ServerMessage (SM_Control (CM_UdpTunnel [1]))], d)"
    by (simp add: wq_send_op_def send_udp_def send_tcp_def chan_send_def chan_try_send_def wq_recv_queued
        work_queue_create_def chan_new_def channel_sizes)
  from work_queue_conserves [OF d, of of_tcp] have "filter of_tcp (queued d) = []"
    by (simp add: queued_def work_queue_create_def chan_new_def)
  with d show ?thesis by blast
qed

end
