(* ===== verification/Audio_Codec.thy ===== *)
theory Audio_Codec
  imports Message
begin

text \<open>
  The audio packet codecs of src/crates/mumble-protocol/src/transport/audio_codec.rs: the
  variable-length integers, the legacy binary packet and the protobuf packet behind one header
  byte, and the dispatch on its type bits. The protobuf codec of \<^verbatim>\<open>mumble_udp::Audio\<close> is the
  third-party crate \<^verbatim>\<open>prost\<close>: \<open>aenc\<close> and \<open>adec\<close> stand for \<^verbatim>\<open>encode_to_vec\<close> and \<^verbatim>\<open>decode\<close>. A Rust index
  panic is \<open>None\<close>.
\<close>

type_synonym audio_enc = "Audio \<Rightarrow> bytes"
type_synonym audio_dec = "bytes \<Rightarrow> string + Audio"

section \<open>Audio types\<close>

datatype AudioType = AT_Protobuf | AT_Opus

fun AudioType_as_u8 :: "AudioType \<Rightarrow> u8" where
  "AudioType_as_u8 AT_Protobuf = 0"
| "AudioType_as_u8 AT_Opus = 4"

definition AudioType_try_from :: "u8 \<Rightarrow> AudioType result" where
  "AudioType_try_from value =
     (if value = 0 then Inr AT_Protobuf
      else if value = 4 then Inr AT_Opus
      else Inl (InvalidState (''unsupported audio type '' @ show_nat (unat value))))"

section \<open>Variable-length integers\<close>

text \<open>\<^verbatim>\<open>{first:02X}\<close>.\<close>

definition hex_digit_upper :: "nat \<Rightarrow> char" where
  "hex_digit_upper d = char_of (if d < 10 then 48 + d else 55 + d)"

definition show_hex2_upper :: "u8 \<Rightarrow> string" where
  "show_hex2_upper b = [hex_digit_upper (unat b div 16), hex_digit_upper (unat b mod 16)]"

definition varint_read :: "bytes \<Rightarrow> (u64 \<times> nat) result" where
  "varint_read buf =
     (if buf = [] then Inl (InvalidState ''varint: empty input'')
      else
        let first = buf ! 0
        in if first AND 0x80 = 0 then Inr (ucast first, 1)
           else if first AND 0xC0 = 0x80 then
             if length buf < 2 then Inl (InvalidState ''varint: truncated 2-byte'')
             else Inr (push_bit 8 (ucast first AND 0x3F) OR ucast (buf ! 1), 2)
           else if first AND 0xE0 = 0xC0 then
             if length buf < 3 then Inl (InvalidState ''varint: truncated 3-byte'')
             else Inr (push_bit 16 (ucast first AND 0x1F) OR at_bit 8 (buf ! 1) OR ucast (buf ! 2), 3)
           else if first AND 0xF0 = 0xE0 then
             if length buf < 4 then Inl (InvalidState ''varint: truncated 4-byte'')
             else Inr (push_bit 24 (ucast first AND 0x0F) OR at_bit 16 (buf ! 1) OR
                       at_bit 8 (buf ! 2) OR ucast (buf ! 3), 4)
           else if first = 0xF0 then
             if length buf < 5 then Inl (InvalidState ''varint: truncated 32-bit'')
             else Inr (at_bit 24 (buf ! 1) OR at_bit 16 (buf ! 2) OR at_bit 8 (buf ! 3) OR
                       ucast (buf ! 4), 5)
           else if first = 0xF4 then
             if length buf < 9 then Inl (InvalidState ''varint: truncated 64-bit'')
             else Inr (at_bit 56 (buf ! 1) OR at_bit 48 (buf ! 2) OR at_bit 40 (buf ! 3) OR
                       at_bit 32 (buf ! 4) OR at_bit 24 (buf ! 5) OR at_bit 16 (buf ! 6) OR
                       at_bit 8 (buf ! 7) OR ucast (buf ! 8), 9)
           else Inl (InvalidState (''varint: unsupported prefix byte 0x'' @ show_hex2_upper first)))"

text \<open>The bytes that \<^verbatim>\<open>write\<close> pushes.\<close>

definition varint_write :: "u64 \<Rightarrow> bytes" where
  "varint_write val =
     (if val < 0x80 then [ucast val]
      else if val < 0x4000 then [0x80 OR (byte_of 8 val AND 0x3F), ucast val]
      else if val < 0x200000 then
        [0xC0 OR (byte_of 16 val AND 0x1F), byte_of 8 val, ucast val]
      else if val < 0x10000000 then
        [0xE0 OR (byte_of 24 val AND 0x0F), byte_of 16 val, byte_of 8 val, ucast val]
      else if val \<le> 0xFFFFFFFF then
        [0xF0, byte_of 24 val, byte_of 16 val, byte_of 8 val, ucast val]
      else 0xF4 # map (\<lambda>shift. byte_of (shift * 8) val) (rev [0..<8]))"

section \<open>The legacy packet\<close>

text \<open>The target bits of the header byte, computed the same way in both encoders.\<close>

definition header_target :: "Audio \<Rightarrow> u8" where
  "header_target audio = (case Audio_header audio of Some (Target t) \<Rightarrow> ucast t AND 0x1F | _ \<Rightarrow> 0)"

definition LegacyAudioCodec_encode :: "Audio \<Rightarrow> bytes" where
  "LegacyAudioCodec_encode audio =
     (let target = header_target audio;
          header = push_bit 5 (AudioType_as_u8 AT_Opus) OR target;
          len_term = of_nat (length (Audio_opus_data audio)) AND 0x1FFF;
          len_term = (if Audio_is_terminator audio then len_term OR 0x2000 else len_term)
      in [header] @ varint_write (Audio_frame_number audio) @ varint_write len_term @
         Audio_opus_data audio)"

definition LegacyAudioCodec_decode :: "bytes \<Rightarrow> Audio result" where
  "LegacyAudioCodec_decode data =
     (if data = [] then Inl (InvalidState ''empty audio packet'')
      else
        let header = data ! 0;
            audio_type = drop_bit 5 header;
            target = header AND 0x1F
        in if audio_type \<noteq> AudioType_as_u8 AT_Opus then
             Inl (InvalidState (''unsupported audio type '' @ show_nat (unat audio_type) @
               '' (expected Opus = '' @ show_nat (unat (AudioType_as_u8 AT_Opus)) @ '')''))
           else
             and_then (varint_read (drop 1 data)) (\<lambda>(session, n1).
             let pos1 = 1 + n1 in
             and_then (varint_read (drop pos1 data)) (\<lambda>(sequence, n2).
             let pos2 = pos1 + n2 in
             and_then (varint_read (drop pos2 data)) (\<lambda>(len_term, n3).
             let pos = pos2 + n3;
                 opus_len = unat (len_term AND 0x1FFF);
                 is_terminator = (len_term AND 0x2000 \<noteq> 0)
             in if pos + opus_len > length data then
                  Inl (InvalidState (''opus data truncated: need '' @ show_nat opus_len @
                    '' bytes, have '' @ show_nat (length data - pos)))
                else
                  Inr \<lparr>Audio_sender_session = ucast session, Audio_frame_number = sequence,
                       Audio_opus_data = take opus_len (drop pos data), Audio_positional_data = [],
                       Audio_volume_adjustment = 0, Audio_is_terminator = is_terminator,
                       Audio_header = Some (Target (ucast target))\<rparr>))))"

section \<open>The protobuf packet\<close>

definition ProtobufAudioCodec_encode :: "audio_enc \<Rightarrow> Audio \<Rightarrow> bytes" where
  "ProtobufAudioCodec_encode aenc audio =
     (let target = header_target audio;
          header = push_bit 5 (AudioType_as_u8 AT_Protobuf) OR target;
          wire_audio = audio\<lparr>Audio_header := None\<rparr>
      in header # aenc wire_audio)"

definition ProtobufAudioCodec_decode :: "audio_dec \<Rightarrow> bytes \<Rightarrow> Audio result option" where
  "ProtobufAudioCodec_decode adec data =
     (case data of
        [] \<Rightarrow> None
      | header # payload \<Rightarrow>
          let target = ucast (header AND 0x1F)
          in Some (case adec payload of
               Inl e \<Rightarrow> Inl (InvalidState (''protobuf audio decode: '' @ e))
             | Inr audio \<Rightarrow>
                 Inr (if Audio_header audio = None then audio\<lparr>Audio_header := Some (Target target)\<rparr>
                      else audio)))"

definition decode_tunnel_audio :: "audio_dec \<Rightarrow> bytes \<Rightarrow> Audio result option" where
  "decode_tunnel_audio adec data =
     (if data = [] then Some (Inl (InvalidState ''empty UdpTunnel payload''))
      else case AudioType_try_from (drop_bit 5 (data ! 0)) of
             Inl e \<Rightarrow> Some (Inl e)
           | Inr AT_Protobuf \<Rightarrow> ProtobufAudioCodec_decode adec data
           | Inr AT_Opus \<Rightarrow> Some (LegacyAudioCodec_decode data))"

section \<open>Reading back a written integer\<close>

lemma const_masks:
  "(0x3F :: 'a::len word) = mask 6" "(0x1F :: 'a word) = mask 5" "(0x0F :: 'a word) = mask 4"
  "(0x1FFF :: 'a word) = mask 13"
  by (simp_all add: mask_eq_exp_minus_1)

lemma less_8_cases:
  assumes "n < (8 :: nat)"
  obtains "n = 0" | "n = 1" | "n = 2" | "n = 3" | "n = 4" | "n = 5" | "n = 6" | "n = 7"
  using assms by linarith

text \<open>A prefix over the low bits of a byte keeps both apart.\<close>

lemma prefix_tests:
  fixes x :: u8
  shows "(0x80 OR (x AND mask 6)) AND 0x80 \<noteq> 0" "(0x80 OR (x AND mask 6)) AND 0xC0 = 0x80"
    "(0xC0 OR (x AND mask 5)) AND 0x80 \<noteq> 0" "(0xC0 OR (x AND mask 5)) AND 0xC0 \<noteq> 0x80"
    "(0xC0 OR (x AND mask 5)) AND 0xE0 = 0xC0"
    "(0xE0 OR (x AND mask 4)) AND 0x80 \<noteq> 0" "(0xE0 OR (x AND mask 4)) AND 0xC0 \<noteq> 0x80"
    "(0xE0 OR (x AND mask 4)) AND 0xE0 \<noteq> 0xC0" "(0xE0 OR (x AND mask 4)) AND 0xF0 = 0xE0"
proof -
  have b: "(p OR (x AND m)) AND q = (p AND q) OR (x AND (m AND q))" for p q m :: u8
    by (rule bit_word_eqI) (auto simp: bit_simps)
  show "(0x80 OR (x AND mask 6)) AND 0x80 \<noteq> 0" "(0x80 OR (x AND mask 6)) AND 0xC0 = 0x80"
    "(0xC0 OR (x AND mask 5)) AND 0x80 \<noteq> 0" "(0xC0 OR (x AND mask 5)) AND 0xC0 \<noteq> 0x80"
    "(0xC0 OR (x AND mask 5)) AND 0xE0 = 0xC0"
    "(0xE0 OR (x AND mask 4)) AND 0x80 \<noteq> 0" "(0xE0 OR (x AND mask 4)) AND 0xC0 \<noteq> 0x80"
    "(0xE0 OR (x AND mask 4)) AND 0xE0 \<noteq> 0xC0" "(0xE0 OR (x AND mask 4)) AND 0xF0 = 0xE0"
    unfolding b by (simp_all add: mask_eq_exp_minus_1)
qed

lemma prefix_low:
  fixes x :: u8
  shows "ucast (0x80 OR (x AND mask 6)) AND mask 6 = (ucast x AND mask 6 :: u64)"
    "ucast (0xC0 OR (x AND mask 5)) AND mask 5 = (ucast x AND mask 5 :: u64)"
    "ucast (0xE0 OR (x AND mask 4)) AND mask 4 = (ucast x AND mask 4 :: u64)"
proof -
  have b: "ucast (p OR (x AND mask k)) AND mask k = (ucast p AND mask k) OR (ucast x AND mask k :: u64)"
    for p :: u8 and k
    by (rule bit_word_eqI) (auto simp: bit_simps dest: bit_imp_le_length)
  show "ucast (0x80 OR (x AND mask 6)) AND mask 6 = (ucast x AND mask 6 :: u64)"
    "ucast (0xC0 OR (x AND mask 5)) AND mask 5 = (ucast x AND mask 5 :: u64)"
    "ucast (0xE0 OR (x AND mask 4)) AND mask 4 = (ucast x AND mask 4 :: u64)"
    unfolding b by (simp_all add: mask_eq_exp_minus_1)
qed

lemma bit_low_mask: "bit (push_bit s (ucast (byte_of s v) AND mask k) :: u64) n \<longleftrightarrow>
    bit v n \<and> s \<le> n \<and> n < s + k \<and> n < s + 8" for v :: u64
  using bit_imp_le_length [of v n] by (auto simp: bit_simps)

lemmas varint_bits = bit_or_iff bit_low_mask bit_at_bit_byte_of bit_low_byte

lemma varint_join_14:
  assumes "unat v < 2 ^ 14"
  shows "push_bit 8 (ucast (byte_of 8 v) AND mask 6) OR ucast (ucast v :: u8) = (v :: u64)"
  by (rule bit_word_eqI, unfold varint_bits, use bit_lt_exp [OF assms] in force)

lemma varint_join_21:
  assumes "unat v < 2 ^ 21"
  shows "push_bit 16 (ucast (byte_of 16 v) AND mask 5) OR at_bit 8 (byte_of 8 v) OR ucast (ucast v :: u8) = (v :: u64)"
  by (rule bit_word_eqI, unfold varint_bits, use bit_lt_exp [OF assms] in force)

lemma varint_join_28:
  assumes "unat v < 2 ^ 28"
  shows "push_bit 24 (ucast (byte_of 24 v) AND mask 4) OR at_bit 16 (byte_of 16 v) OR
     at_bit 8 (byte_of 8 v) OR ucast (ucast v :: u8) = (v :: u64)"
  by (rule bit_word_eqI, unfold varint_bits, use bit_lt_exp [OF assms] in force)

lemma varint_join_32:
  assumes "unat v < 2 ^ 32"
  shows "at_bit 24 (byte_of 24 v) OR at_bit 16 (byte_of 16 v) OR at_bit 8 (byte_of 8 v) OR
     ucast (ucast v :: u8) = (v :: u64)"
  by (rule bit_word_eqI, unfold varint_bits, use bit_lt_exp [OF assms] in force)

lemma small_byte:
  fixes v :: u64
  assumes "unat v < 2 ^ 7"
  shows "ucast v AND 0x80 = (0 :: u8)" "ucast (ucast v :: u8) = v"
proof -
  have "bit (0x80 :: u8) n \<Longrightarrow> n = 7" if "n < 8" for n
    using that by (cases rule: less_8_cases) simp_all
  then show "ucast v AND 0x80 = (0 :: u8)"
    by (intro bit_word_eqI) (auto simp: bit_and_iff bit_ucast_iff dest: bit_lt_exp [OF assms])
  show "ucast (ucast v :: u8) = v"
    by (rule bit_word_eqI, unfold bit_low_byte, auto dest: bit_lt_exp [OF assms])
qed

lemma rev_upt_8: "rev [0..<8] = [7, 6, 5, 4, 3, 2, 1, 0]"
  by (simp add: upt_rec)

lemma varint_read_write: "varint_read (varint_write v @ rest) = Inr (v, length (varint_write v))"
proof -
  have lt: "v < c \<longleftrightarrow> unat v < unat c" for c by (rule word_less_nat_alt)
  consider "unat v < 2 ^ 7" | "2 ^ 7 \<le> unat v" "unat v < 2 ^ 14" | "2 ^ 14 \<le> unat v" "unat v < 2 ^ 21"
    | "2 ^ 21 \<le> unat v" "unat v < 2 ^ 28" | "2 ^ 28 \<le> unat v" "unat v < 2 ^ 32" | "2 ^ 32 \<le> unat v"
    by linarith
  then show ?thesis
  proof cases
    case 1
    then show ?thesis using small_byte [of v] by (simp add: varint_write_def varint_read_def lt)
  next
    case 2
    then show ?thesis using varint_join_14 [of v]
      by (simp add: varint_write_def varint_read_def lt const_masks prefix_tests prefix_low)
  next
    case 3
    then show ?thesis using varint_join_21 [of v]
      by (simp add: varint_write_def varint_read_def lt const_masks prefix_tests prefix_low)
  next
    case 4
    then show ?thesis using varint_join_28 [of v]
      by (simp add: varint_write_def varint_read_def lt const_masks prefix_tests prefix_low)
  next
    case 5
    then show ?thesis using varint_join_32 [of v]
      by (simp add: varint_write_def varint_read_def lt word_le_nat_alt)
  next
    case 6
    then show ?thesis using bytes64_join [of v]
      by (simp add: varint_write_def varint_read_def lt word_le_nat_alt rev_upt_8)
  qed
qed

lemma varint_read_bounds: "varint_read buf = Inr (v, n) \<Longrightarrow> 0 < n \<and> n \<le> length buf \<and> n \<le> 9"
  by (auto simp: varint_read_def Let_def Suc_le_eq split: if_splits)

lemma length_varint_write: "0 < length (varint_write v) \<and> length (varint_write v) \<le> 9"
  by (simp add: varint_write_def)

section \<open>The codec interface\<close>

lemma header_target_mask: "header_target a = header_target a AND mask 5"
  by (auto simp: header_target_def const_masks split: option.splits Audio_Header.splits)

lemma header_bits:
  fixes x :: u8
  assumes "x = x AND mask 5"
  shows "drop_bit 5 (push_bit 5 4 OR x) = 4" "(push_bit 5 4 OR x) AND mask 5 = x" "drop_bit 5 x = 0"
proof -
  have *: "n < 5" if "bit x n" for n
  proof -
    have "bit (x AND mask 5) n" by (rule subst [OF assms, of "\<lambda>w. bit w n"]) (rule that)
    then show ?thesis by (simp add: bit_and_iff bit_mask_iff)
  qed
  show "drop_bit 5 x = 0"
    by (rule bit_word_eqI) (auto simp: bit_drop_bit_eq dest: *)
  moreover have "drop_bit 5 (push_bit 5 (4 :: u8)) = 4" by simp
  ultimately show "drop_bit 5 (push_bit 5 4 OR x) = 4" by (simp add: drop_bit_or)
  have "push_bit 5 (4 :: u8) AND mask 5 = 0" by (simp add: mask_eq_exp_minus_1)
  then show "(push_bit 5 4 OR x) AND mask 5 = x"
    by (simp only: bit.conj_disj_distrib2 assms [symmetric] or.left_neutral)
qed

text \<open>What the trait \<^verbatim>\<open>AudioPacketCodec\<close> promises of its \<^verbatim>\<open>AUDIO_TYPE\<close>: an encoded packet carries the
  type and the target in its first byte, so the dispatch of a received packet finds the codec.\<close>

locale audio_packet_codec =
  fixes AUDIO_TYPE :: AudioType
    and encode :: "Audio \<Rightarrow> bytes"
  assumes encode_header:
    "\<exists>payload. encode a = (push_bit 5 (AudioType_as_u8 AUDIO_TYPE) OR header_target a) # payload"
begin

lemma dispatch_type: "AudioType_try_from (drop_bit 5 (encode a ! 0)) = Inr AUDIO_TYPE"
proof -
  obtain p where "encode a = (push_bit 5 (AudioType_as_u8 AUDIO_TYPE) OR header_target a) # p"
    using encode_header by blast
  then show ?thesis
    using header_bits(1,3) [OF header_target_mask [of a]]
    by (cases AUDIO_TYPE) (simp_all add: AudioType_try_from_def)
qed

lemma encode_nonempty: "encode a \<noteq> []"
  using encode_header [of a] by auto

end

interpretation legacy: audio_packet_codec AT_Opus LegacyAudioCodec_encode
  by unfold_locales (simp add: LegacyAudioCodec_encode_def Let_def)

interpretation protobuf: audio_packet_codec AT_Protobuf "ProtobufAudioCodec_encode aenc"
  by unfold_locales (simp add: ProtobufAudioCodec_encode_def Let_def)

section \<open>Properties\<close>

text \<open>Variable-length integers. Every 64-bit value is read back from the bytes written for it,
  whatever follows them, and the reader consumes exactly these bytes, at most nine.\<close>

theorem varint_roundtrip:
  "varint_read (varint_write v @ rest) = Inr (v, length (varint_write v)) \<and>
   length (varint_write v) \<le> 9"
  by (simp add: varint_read_write length_varint_write)

text \<open>The packet as a server relays it: the sender's session is inserted behind the header byte.\<close>

definition server_relay :: "u32 \<Rightarrow> bytes \<Rightarrow> bytes" where
  "server_relay session packet =
     (case packet of [] \<Rightarrow> [] | header # rest \<Rightarrow> header # varint_write (ucast session) @ rest)"

lemma len_term_bits:
  fixes l :: u64
  assumes "unat l < 2 ^ 13"
  shows "l AND mask 13 = l" "(l OR 0x2000) AND mask 13 = l" "l AND 0x2000 = 0" "(l OR 0x2000) AND 0x2000 \<noteq> 0"
proof -
  have *: "bit l n \<Longrightarrow> n < 13" for n using bit_lt_exp [OF assms] .
  show m: "l AND mask 13 = l"
    by (rule bit_word_eqI) (auto simp: bit_and_iff bit_mask_iff dest: *)
  have "(0x2000 :: u64) AND mask 13 = 0" by (simp add: mask_eq_exp_minus_1)
  then show "(l OR 0x2000) AND mask 13 = l"
    by (simp only: bit.conj_disj_distrib2 m or.right_neutral)
  have 2: "(0x2000 :: u64) = push_bit 13 1" by simp
  show "l AND 0x2000 = 0"
    unfolding 2 by (rule bit_word_eqI, unfold bit_and_iff bit_push_bit_iff bit_1_iff) (auto dest: *)
  then have "(l OR 0x2000) AND 0x2000 = 0x2000"
    by (simp only: bit.conj_disj_distrib2 or.left_neutral and.idem)
  then show "(l OR 0x2000) AND 0x2000 \<noteq> 0" by simp
qed

text \<open>C36: The legacy packet. A packet encoded by the client (with less than 8 KiB of Opus data) and
  relayed by the server with the sender's session is decoded to the same frame number, data and
  terminator flag, with that session and the five target bits.\<close>

theorem legacy_audio_roundtrip:
  assumes "length (Audio_opus_data audio) < 8192"
  shows "decode_tunnel_audio adec (server_relay session (LegacyAudioCodec_encode audio)) =
    Some (Inr (audio\<lparr>Audio_sender_session := session, Audio_positional_data := [],
      Audio_volume_adjustment := 0, Audio_header := Some (Target (ucast (header_target audio)))\<rparr>))"
proof -
  let ?l = "of_nat (length (Audio_opus_data audio)) :: u64"
  have l: "unat ?l = length (Audio_opus_data audio)" using assms by (simp add: unat_of_nat)
  then have "unat ?l < 2 ^ 13" using assms by simp
  note lt = len_term_bits [OF this]
  note hb = header_bits [OF header_target_mask [of audio]]
  have s: "ucast (ucast session :: u64) = session" by (rule bit_word_eqI) (simp add: bit_ucast_iff)
  let ?len_term = "if Audio_is_terminator audio then ?l OR 0x2000 else ?l"
  let ?h = "push_bit 5 4 OR header_target audio"
  have enc: "server_relay session (LegacyAudioCodec_encode audio) =
      ?h # varint_write (ucast session) @ varint_write (Audio_frame_number audio) @
        varint_write ?len_term @ Audio_opus_data audio"
    by (simp add: server_relay_def LegacyAudioCodec_encode_def const_masks lt(1) Let_def)
  have t: "?len_term AND mask 13 = ?l" "(?len_term AND 0x2000 \<noteq> 0) = Audio_is_terminator audio"
    using lt by simp_all
  have drops: "drop (length a + (length b + length c)) (a @ b @ c @ d) = d"
    "drop (length a + length b) (a @ b @ d) = d" for a b c d :: bytes
    by simp_all
  have "LegacyAudioCodec_decode (server_relay session (LegacyAudioCodec_encode audio)) =
    Inr (audio\<lparr>Audio_sender_session := session, Audio_positional_data := [],
      Audio_volume_adjustment := 0, Audio_header := Some (Target (ucast (header_target audio)))\<rparr>)"
    unfolding enc LegacyAudioCodec_decode_def
    using hb t l s by (simp add: varint_read_write const_masks Let_def drop_append)
  then show ?thesis
    using hb(1) by (simp add: decode_tunnel_audio_def enc AudioType_try_from_def)
qed

definition demo_audio :: Audio where
  "demo_audio =
     \<lparr>Audio_sender_session = 0, Audio_frame_number = 300, Audio_opus_data = [1, 2, 3],
      Audio_positional_data = [], Audio_volume_adjustment = 0, Audio_is_terminator = True,
      Audio_header = Some (Target 2)\<rparr>"

definition demo_aenc :: audio_enc where
  "demo_aenc a = [9, 9]"

definition demo_adec :: audio_dec where
  "demo_adec p = (if p = [9, 9] then Inr (demo_audio\<lparr>Audio_header := None\<rparr>) else Inl ''bad'')"

theorem legacy_audio_roundtrip_witness:
  "decode_tunnel_audio demo_adec (server_relay 7 (LegacyAudioCodec_encode demo_audio)) =
   Some (Inr (demo_audio\<lparr>Audio_sender_session := 7\<rparr>))"
proof -
  have "length (Audio_opus_data demo_audio) < 8192" by (simp add: demo_audio_def)
  from legacy_audio_roundtrip [OF this, of demo_adec 7] show ?thesis
    by (simp add: demo_audio_def header_target_def)
qed

text \<open>The protobuf packet. What \<^verbatim>\<open>ProtobufAudioCodec\<close> encodes, the tunnel decoder turns back into
  the same audio message, with the target (its five low bits) taken from the header byte; the
  decoder relies on \<^verbatim>\<open>prost\<close> only for the message without its header field.\<close>

theorem protobuf_audio_roundtrip:
  assumes "adec (aenc (audio\<lparr>Audio_header := None\<rparr>)) = Inr (audio\<lparr>Audio_header := None\<rparr>)"
  shows "decode_tunnel_audio adec (ProtobufAudioCodec_encode aenc audio) =
    Some (Inr (audio\<lparr>Audio_header := Some (Target (ucast (header_target audio)))\<rparr>))"
proof -
  have "header_target audio AND 0x1F = header_target audio"
    by (subst (2) header_target_mask) (simp add: const_masks)
  then have "ProtobufAudioCodec_decode adec (ProtobufAudioCodec_encode aenc audio) =
      Some (Inr (audio\<lparr>Audio_header := Some (Target (ucast (header_target audio)))\<rparr>))"
    using assms by (simp add: ProtobufAudioCodec_encode_def ProtobufAudioCodec_decode_def)
  then show ?thesis
    using protobuf.dispatch_type [of aenc audio] protobuf.encode_nonempty [of aenc audio]
    by (simp add: decode_tunnel_audio_def)
qed

theorem protobuf_audio_roundtrip_witness:
  "decode_tunnel_audio demo_adec (ProtobufAudioCodec_encode demo_aenc demo_audio) =
    Some (Inr (demo_audio\<lparr>Audio_header := Some (Target (ucast (header_target demo_audio)))\<rparr>))"
  by (rule protobuf_audio_roundtrip) (simp add: demo_adec_def demo_aenc_def)

text \<open>No packet makes the tunnel decoder panic. It returns a result on every input; the legacy
  decoder never slices outside the packet, because a successful varint read consumes between one
  byte and the bytes that are there; and a type other than 0 and 4 is an error.\<close>

theorem tunnel_decoder_total:
  "decode_tunnel_audio adec data \<noteq> None \<and>
   (case varint_read buf of Inl e \<Rightarrow> True | Inr (v, n) \<Rightarrow> 0 < n \<and> n \<le> length buf) \<and>
   (case decode_tunnel_audio adec data of
      Some (Inr audio) \<Rightarrow> data \<noteq> [] \<and> (drop_bit 5 (data ! 0) = 0 \<or> drop_bit 5 (data ! 0) = 4)
    | _ \<Rightarrow> True)"
  using varint_read_bounds [of buf]
  by (auto simp: decode_tunnel_audio_def ProtobufAudioCodec_decode_def AudioType_try_from_def
      split: sum.splits prod.splits list.splits AudioType.splits option.splits if_splits)

end
