(* ===== verification/Udp.thy ===== *)
theory Udp
  imports Ocb2 Audio_Codec
begin

text \<open>
  The UDP transport of src/crates/mumble-protocol/src/transport/udp.rs: the marker byte in front of
  a protobuf payload, and sending and receiving through a crypt state. A socket is the list of what
  its coming receive calls give (datagrams and errors), the list of the datagrams it sent, and the fates of its coming send calls;
  \<^verbatim>\<open>recv\<close> cuts a datagram to the receive buffer. \<open>None\<close> of \<open>UdpTransport_recv\<close> means that the call is still waiting for a datagram. The
  protobuf codecs of \<^verbatim>\<open>Audio\<close> and \<^verbatim>\<open>Ping\<close> (crate \<^verbatim>\<open>prost\<close>) are the parameters \<open>aenc\<close>, \<open>adec\<close>, \<open>penc\<close>, \<open>pdec\<close>.
\<close>

type_synonym ping_enc = "UdpPing \<Rightarrow> bytes"
type_synonym ping_dec = "bytes \<Rightarrow> string + UdpPing"

definition MAX_UDP_SIZE :: nat where
  "MAX_UDP_SIZE = 1024"

record UdpConfig =
  UdpConfig_server_host :: string
  UdpConfig_server_port :: u16

definition default_UdpConfig :: UdpConfig where
  "default_UdpConfig = \<lparr>UdpConfig_server_host = ''localhost'', UdpConfig_server_port = 64738\<rparr>"

section \<open>The wire format\<close>

fun encode_udp_message :: "audio_enc \<Rightarrow> ping_enc \<Rightarrow> UdpMessage \<Rightarrow> bytes" where
  "encode_udp_message aenc penc (UM_Audio audio) = 0x00 # aenc audio"
| "encode_udp_message aenc penc (UM_Ping ping) = 0x01 # penc ping"

definition show_hex2 :: "u8 \<Rightarrow> string" where
  "show_hex2 b =
     (let hex_digit = (\<lambda>d. char_of (if d < (10 :: nat) then 48 + d else 87 + d))
      in [hex_digit (unat b div 16), hex_digit (unat b mod 16)])"

definition decode_udp_message :: "audio_dec \<Rightarrow> ping_dec \<Rightarrow> bytes \<Rightarrow> UdpMessage result" where
  "decode_udp_message adec pdec data =
     (case data of
        [] \<Rightarrow> Inl (InvalidState ''empty UDP packet'')
      | marker # payload \<Rightarrow>
          if marker = 0x00 then
            (case adec payload of Inl e \<Rightarrow> Inl (Decode e) | Inr audio \<Rightarrow> Inr (UM_Audio audio))
          else if marker = 0x01 then
            (case pdec payload of Inl e \<Rightarrow> Inl (Decode e) | Inr ping \<Rightarrow> Inr (UM_Ping ping))
          else Inl (InvalidState (''unsupported UDP message type: 0x'' @ show_hex2 marker)))"

section \<open>The transport\<close>

datatype sock_recv = Datagram bytes | RecvError io_error_kind

text \<open>\<^verbatim>\<open>UdpSocket::send\<close> waits until the socket is writable. The list gives, for each coming attempt, \<open>None\<close> when the
  system takes the datagram, or the error it gives; attempts beyond the list succeed.\<close>

fun socket_send :: "bytes \<Rightarrow> io_error_kind option list \<Rightarrow> unit result \<times> io_error_kind option list" where
  "socket_send data [] = (Inr (), [])"
| "socket_send data (None # fs) = (Inr (), fs)"
| "socket_send data (Some e # fs) = (if e = WouldBlock then socket_send data fs else (Inl (Io e), fs))"

record 's UdpTransport =
  socket_in :: "sock_recv list"
  socket_out :: "bytes list"
  send_fate :: "io_error_kind option list"
  crypt :: 's

definition UdpTransport_send ::
    "'s crypt_op \<Rightarrow> audio_enc \<Rightarrow> ping_enc \<Rightarrow> UdpMessage \<Rightarrow> 's UdpTransport \<Rightarrow> unit result \<times> 's UdpTransport" where
  "UdpTransport_send encrypt aenc penc msg t =
     (let payload = encode_udp_message aenc penc msg
      in case encrypt payload (crypt t) of
           (Inl e, c) \<Rightarrow> (Inl e, t\<lparr>crypt := c\<rparr>)
         | (Inr encrypted, c) \<Rightarrow>
             (case socket_send encrypted (send_fate t) of
                (Inl e, fs) \<Rightarrow> (Inl e, t\<lparr>crypt := c, send_fate := fs\<rparr>)
              | (Inr u, fs) \<Rightarrow> (Inr (), t\<lparr>crypt := c, send_fate := fs, socket_out := socket_out t @ [encrypted]\<rparr>)))"

fun udp_recv_loop ::
    "'s crypt_op \<Rightarrow> audio_dec \<Rightarrow> ping_dec \<Rightarrow> sock_recv list \<Rightarrow> 's \<Rightarrow>
     UdpMessage result option \<times> sock_recv list \<times> 's" where
  "udp_recv_loop decrypt adec pdec [] c = (None, [], c)"
| "udp_recv_loop decrypt adec pdec (RecvError k # ds) c = (Some (Inl (Io k)), ds, c)"
| "udp_recv_loop decrypt adec pdec (Datagram d # ds) c =
     (let received = take MAX_UDP_SIZE d
      in if received = [] then (Some (Inl ConnectionClosed), ds, c)
         else case decrypt received c of
                (Inl e, c') \<Rightarrow> udp_recv_loop decrypt adec pdec ds c'
              | (Inr decrypted, c') \<Rightarrow>
                  (case decode_udp_message adec pdec decrypted of
                     Inr msg \<Rightarrow> (Some (Inr msg), ds, c')
                   | Inl e \<Rightarrow> udp_recv_loop decrypt adec pdec ds c'))"

definition UdpTransport_recv ::
    "'s crypt_op \<Rightarrow> audio_dec \<Rightarrow> ping_dec \<Rightarrow> 's UdpTransport \<Rightarrow>
     UdpMessage result option \<times> 's UdpTransport" where
  "UdpTransport_recv decrypt adec pdec t =
     (let (res, ds, c) = udp_recv_loop decrypt adec pdec (socket_in t) (crypt t)
      in (res, t\<lparr>socket_in := ds, crypt := c\<rparr>))"

definition UdpTransport_set_crypt_state :: "'s \<Rightarrow> 's UdpTransport \<Rightarrow> 's UdpTransport" where
  "UdpTransport_set_crypt_state c t = t\<lparr>crypt := c\<rparr>"

section \<open>Sending through a synchronised crypt channel\<close>

lemma udp_update_order [simp]:
  "t\<lparr>crypt := c, socket_out := x\<rparr> = t\<lparr>socket_out := x, crypt := c\<rparr>"
  "t\<lparr>crypt := c, socket_in := y\<rparr> = t\<lparr>socket_in := y, crypt := c\<rparr>"
  "t\<lparr>crypt := c, send_fate := z\<rparr> = t\<lparr>send_fate := z, crypt := c\<rparr>"
  "t\<lparr>socket_out := x, socket_in := y\<rparr> = t\<lparr>socket_in := y, socket_out := x\<rparr>"
  "t\<lparr>send_fate := z, socket_in := y\<rparr> = t\<lparr>socket_in := y, send_fate := z\<rparr>"
  "t\<lparr>send_fate := z, socket_out := x\<rparr> = t\<lparr>socket_out := x, send_fate := z\<rparr>"
  by (cases t; simp)+

definition udp_ok :: "audio_enc \<Rightarrow> audio_dec \<Rightarrow> ping_enc \<Rightarrow> ping_dec \<Rightarrow> UdpMessage \<Rightarrow> bool" where
  "udp_ok aenc adec penc pdec m =
     (case m of UM_Audio a \<Rightarrow> adec (aenc a) = Inr a | UM_Ping p \<Rightarrow> pdec (penc p) = Inr p)"

lemma decode_encode_udp:
  "udp_ok aenc adec penc pdec m \<Longrightarrow>
     decode_udp_message adec pdec (encode_udp_message aenc penc m) = Inr m"
  by (cases m) (simp_all add: udp_ok_def decode_udp_message_def)

fun UdpTransport_sends ::
    "'s crypt_op \<Rightarrow> audio_enc \<Rightarrow> ping_enc \<Rightarrow> UdpMessage list \<Rightarrow> 's UdpTransport \<Rightarrow> 's UdpTransport" where
  "UdpTransport_sends encrypt aenc penc [] t = t"
| "UdpTransport_sends encrypt aenc penc (m # ms) t =
     UdpTransport_sends encrypt aenc penc ms (snd (UdpTransport_send encrypt aenc penc m t))"

fun UdpTransport_recvs ::
    "'s crypt_op \<Rightarrow> audio_dec \<Rightarrow> ping_dec \<Rightarrow> nat \<Rightarrow> 's UdpTransport \<Rightarrow>
     UdpMessage result option list \<times> 's UdpTransport" where
  "UdpTransport_recvs decrypt adec pdec 0 t = ([], t)"
| "UdpTransport_recvs decrypt adec pdec (Suc n) t =
     (let (res, t') = UdpTransport_recv decrypt adec pdec t;
          (ress, t'') = UdpTransport_recvs decrypt adec pdec n t'
      in (res # ress, t''))"

text \<open>A crypt channel that also bounds the size of its packets.\<close>

locale sized_crypt_channel = crypt_channel encrypt decrypt synced
  for encrypt :: "'s crypt_op" and decrypt :: "'s crypt_op" and synced :: "'s \<Rightarrow> 's \<Rightarrow> bool" +
  fixes overhead :: nat
  assumes packet_size:
    "synced s r \<Longrightarrow> encrypt p s = (Inr packet, s') \<Longrightarrow>
       length p \<le> length packet \<and> length packet \<le> length p + overhead"
begin

lemma sends_out:
  "send_fate t = [] \<Longrightarrow> socket_out (UdpTransport_sends encrypt aenc penc ms t) =
     socket_out t @ socket_out (UdpTransport_sends encrypt aenc penc ms (t\<lparr>socket_out := []\<rparr>))"
proof (induction ms arbitrary: t)
  case (Cons m ms)
  obtain res c where e: "encrypt (encode_udp_message aenc penc m) (crypt t) = (res, c)" by fastforce
  have t: "t\<lparr>send_fate := []\<rparr> = t" "t\<lparr>send_fate := [], socket_out := x\<rparr> = t\<lparr>socket_out := x\<rparr>" for x
    using Cons.prems by (cases t, simp)+
  show ?case
  proof (cases res)
    case (Inl err)
    then show ?thesis using e Cons.prems Cons.IH [of "t\<lparr>crypt := c\<rparr>"] by (simp add: UdpTransport_send_def)
  next
    case (Inr packet)
    then show ?thesis
      using e t Cons.prems Cons.IH [of "t\<lparr>crypt := c, socket_out := socket_out t @ [packet]\<rparr>"]
        Cons.IH [of "t\<lparr>crypt := c, socket_out := [packet]\<rparr>"]
      by (cases t) (simp add: UdpTransport_send_def)
  qed
qed simp

text \<open>Every message that fits a datagram is received in order.\<close>

lemma udp_delivers:
  assumes "synced (crypt t) (crypt u)" and "socket_out t = []" and "send_fate t = []"
    and "\<forall>m \<in> set ms. udp_ok aenc adec penc pdec m \<and>
           length (encode_udp_message aenc penc m) + overhead \<le> MAX_UDP_SIZE"
  shows "\<exists>u'. UdpTransport_recvs decrypt adec pdec (length ms)
             (u\<lparr>socket_in := map Datagram (socket_out (UdpTransport_sends encrypt aenc penc ms t)) @ rest\<rparr>) =
           (map (\<lambda>m. Some (Inr m)) ms, u') \<and> socket_in u' = rest"
  using assms
proof (induction ms arbitrary: t u)
  case (Cons m ms)
  let ?p = "encode_udp_message aenc penc m"
  obtain packet s' r' where p: "encrypt ?p (crypt t) = (Inr packet, s')"
      "decrypt packet (crypt u) = (Inr ?p, r')" "synced s' r'"
    using synced_step [OF Cons.prems(1)] by blast
  have len: "?p \<noteq> []" "length ?p \<le> length packet" "length packet \<le> MAX_UDP_SIZE"
    using packet_size [OF Cons.prems(1) p(1)] Cons.prems(4) by (cases m; simp)+
  then have tk: "take MAX_UDP_SIZE packet = packet" "packet \<noteq> []" by auto
  let ?t = "t\<lparr>crypt := s', socket_out := []\<rparr>"
  let ?out = "socket_out (UdpTransport_sends encrypt aenc penc ms ?t)"
  have out: "socket_out (UdpTransport_sends encrypt aenc penc (m # ms) t) = packet # ?out"
    using p(1) Cons.prems(2,3) sends_out [of "t\<lparr>crypt := s', socket_out := [packet]\<rparr>" aenc penc ms]
    by (cases t) (simp add: UdpTransport_send_def)
  have recv: "UdpTransport_recv decrypt adec pdec (u\<lparr>socket_in := Datagram packet # map Datagram ?out @ rest\<rparr>) =
      (Some (Inr m), u\<lparr>socket_in := map Datagram ?out @ rest, crypt := r'\<rparr>)"
    using p(2) tk Cons.prems(4) decode_encode_udp [of aenc adec penc pdec m]
    by (simp add: UdpTransport_recv_def)
  have "\<exists>u'. UdpTransport_recvs decrypt adec pdec (length ms)
      ((u\<lparr>crypt := r'\<rparr>)\<lparr>socket_in := map Datagram ?out @ rest\<rparr>) = (map (\<lambda>m. Some (Inr m)) ms, u') \<and>
      socket_in u' = rest"
    by (rule Cons.IH) (use p(3) Cons.prems(3,4) in auto)
  then show ?case unfolding out using recv by auto
qed simp

end

interpretation plaintext_udp: sized_crypt_channel Plaintext_encrypt Plaintext_decrypt
    "\<lambda>s r. Plaintext_is_initialized s" 0
  by unfold_locales (simp add: Plaintext_encrypt_def)

interpretation ocb2_udp: sized_crypt_channel "Ocb2_encrypt E" "Ocb2_decrypt E D" "Ocb2_synced E D" 4
proof unfold_locales
  fix s r p packet s'
  assume "Ocb2_synced E D s r" and "Ocb2_encrypt E p s = (Inr packet, s')"
  with Ocb2_synced_step [of E D s r p] show "length p \<le> length packet \<and> length packet \<le> length p + 4"
    by auto
qed

section \<open>Properties\<close>

text \<open>C13: The encrypted voice link. After one \<^verbatim>\<open>CryptSetup\<close> on both ends, every audio and ping message
  that fits a datagram (payload and the four header bytes within 1024 bytes) and that the sockets carry is received in order
  and unchanged, for a sequence of any length, unless the second byte of the server's nonce is 127 or 255. The replay
  history starts out filled with the complement of that byte, and for these two values the packet that first carries into the
  byte finds its own value there and is refused.\<close>

theorem udp_session_delivers:
  assumes "aes_laws E D" and "length key = 16" and "length client_nonce = 16"
    and "length server_nonce = 16" and "server_nonce ! 1 \<notin> {127, 255}"
    and "\<forall>m \<in> set ms. udp_ok aenc adec penc pdec m \<and> length (encode_udp_message aenc penc m) \<le> 1020"
  shows "fst (UdpTransport_recvs (Ocb2_decrypt E D) adec pdec (length ms)
      \<lparr>socket_in = map Datagram (socket_out (UdpTransport_sends (Ocb2_encrypt E) aenc penc ms
         \<lparr>socket_in = [], socket_out = [], send_fate = [],
          crypt = snd (Ocb2_set_key key server_nonce client_nonce Ocb2_new)\<rparr>)),
       socket_out = [], send_fate = [], crypt = snd (Ocb2_set_key key client_nonce server_nonce Ocb2_new)\<rparr>) =
    map (\<lambda>m. Some (Inr m)) ms"
proof -
  let ?t = "\<lparr>socket_in = [], socket_out = [], send_fate = [],
    crypt = snd (Ocb2_set_key key server_nonce client_nonce Ocb2_new)\<rparr>"
  let ?u = "\<lparr>socket_in = [], socket_out = [], send_fate = [],
    crypt = snd (Ocb2_set_key key client_nonce server_nonce Ocb2_new)\<rparr>"
  have "Ocb2_synced E D (crypt ?t) (crypt ?u)"
    using Ocb2_synced_set_key [OF assms(1-5) Ocb2_wf_new Ocb2_wf_new] by simp
  from ocb2_udp.udp_delivers [OF this, of ms aenc adec penc pdec "[]"] assms(6) show ?thesis
    by (auto simp: MAX_UDP_SIZE_def)
qed

definition demo_penc :: ping_enc where
  "demo_penc p = [8, 1]"

definition demo_pdec :: ping_dec where
  "demo_pdec b = (if b = [8, 1] then Inr default_UdpPing else Inl ''bad'')"

theorem udp_session_delivers_witness:
  "fst (UdpTransport_recvs (Ocb2_decrypt xor_cipher xor_cipher) demo_adec demo_pdec
      (length (replicate 600 (UM_Ping default_UdpPing)))
      \<lparr>socket_in = map Datagram (socket_out (UdpTransport_sends (Ocb2_encrypt xor_cipher) demo_aenc demo_penc
         (replicate 600 (UM_Ping default_UdpPing))
         \<lparr>socket_in = [], socket_out = [], send_fate = [],
          crypt = snd (Ocb2_set_key (replicate 16 1) (replicate 16 2) (replicate 16 3) Ocb2_new)\<rparr>)),
       socket_out = [], send_fate = [],
       crypt = snd (Ocb2_set_key (replicate 16 1) (replicate 16 3) (replicate 16 2) Ocb2_new)\<rparr>) =
    map (\<lambda>m. Some (Inr m)) (replicate 600 (UM_Ping default_UdpPing))"
  by (rule udp_session_delivers [OF aes_laws_xor_cipher])
     (simp_all add: udp_ok_def demo_penc_def demo_pdec_def)

text \<open>Injected datagrams are harmless. A datagram that does not decrypt is skipped: the receive
  call returns what it would have returned without it, in the same state of the transport.\<close>

theorem junk_datagram_skipped:
  assumes "d \<noteq> []" and "fst (Ocb2_decrypt E D (take 1024 d) (crypt t)) = Inl e"
  shows "UdpTransport_recv (Ocb2_decrypt E D) adec pdec (t\<lparr>socket_in := Datagram d # ds\<rparr>) =
         UdpTransport_recv (Ocb2_decrypt E D) adec pdec (t\<lparr>socket_in := ds\<rparr>)"
proof -
  have "Ocb2_decrypt E D (take 1024 d) (crypt t) = (Inl e, crypt t)"
    by (cases rule: Ocb2_decrypt_cases [of E D "take 1024 d" "crypt t"]) (use assms(2) in auto)
  then show ?thesis
    using assms(1) by (simp add: UdpTransport_recv_def MAX_UDP_SIZE_def split: prod.splits)
qed

theorem junk_datagram_skipped_witness:
  "UdpTransport_recv (Ocb2_decrypt xor_cipher xor_cipher) demo_adec demo_pdec
     (\<lparr>socket_in = [], socket_out = [], send_fate = [], crypt = demo_receiver\<rparr>\<lparr>socket_in := Datagram [1, 2, 3] # [Datagram [4, 5]]\<rparr>) =
   UdpTransport_recv (Ocb2_decrypt xor_cipher xor_cipher) demo_adec demo_pdec
     (\<lparr>socket_in = [], socket_out = [], send_fate = [], crypt = demo_receiver\<rparr>\<lparr>socket_in := [Datagram [4, 5]]\<rparr>)"
  by (rule junk_datagram_skipped [where e = "InvalidState ''UDP packet too short for OCB2 header''"])
     (simp_all add: demo_receiver_def Ocb2_set_key_def Ocb2_decrypt_def)

end
