(* ===== verification/Fancy_Utils.thy ===== *)
theory Fancy_Utils
  imports Message
begin

text \<open>
  The shared helpers of src/crates/fancy-utils: the version scheme (version.rs), hexadecimal text
  (hex.rs), the HTML stripper (html.rs), the permission table (permissions.rs) and the printing of IP
  addresses (net.rs). A string is its list of UTF-8 bytes. \<open>hex_decode\<close> slices a string at byte
  positions; the panic of a slice inside a character is the outer \<open>None\<close>.
\<close>

section \<open>Versions\<close>

definition fancy_version_encode :: "u16 \<Rightarrow> u16 \<Rightarrow> u16 \<Rightarrow> u64" where
  "fancy_version_encode major minor patch =
     push_bit 48 (ucast major) OR push_bit 32 (ucast minor) OR push_bit 16 (ucast patch)"

definition fancy_version_decode :: "u64 \<Rightarrow> u16 \<times> u16 \<times> u16" where
  "fancy_version_decode v =
     (let major = ucast (drop_bit 48 v AND 0xFFFF);
          minor = ucast (drop_bit 32 v AND 0xFFFF);
          patch = ucast (drop_bit 16 v AND 0xFFFF)
      in (major, minor, patch))"

definition fancy_version_string :: "u64 \<Rightarrow> string" where
  "fancy_version_string v =
     (let (major, minor, patch) = fancy_version_decode v
      in show_nat (unat major) @ ''.'' @ show_nat (unat minor) @ ''.'' @ show_nat (unat patch))"

section \<open>Hexadecimal text\<close>

definition hex_nibble :: "char \<Rightarrow> u8 option" where
  "hex_nibble ch =
     (let b = of_char ch :: nat
      in if 48 \<le> b \<and> b \<le> 57 then Some (of_nat (b - 48))
         else if 97 \<le> b \<and> b \<le> 102 then Some (of_nat (b - 97 + 10))
         else if 65 \<le> b \<and> b \<le> 70 then Some (of_nat (b - 65 + 10))
         else None)"

fun hex_to_bytes :: "string \<Rightarrow> bytes" where
  "hex_to_bytes (a # b # rest) =
     (case hex_nibble a of
        None \<Rightarrow> hex_to_bytes rest
      | Some hi \<Rightarrow>
          (case hex_nibble b of
             None \<Rightarrow> hex_to_bytes rest
           | Some lo \<Rightarrow> (push_bit 4 hi OR lo) # hex_to_bytes rest))"
| "hex_to_bytes _ = []"

text \<open>\<^verbatim>\<open>is_char_boundary\<close> in front of the remaining bytes: not inside a UTF-8 sequence.\<close>

fun at_char_boundary :: "string \<Rightarrow> bool" where
  "at_char_boundary [] = True"
| "at_char_boundary (c # cs) = (\<not> (128 \<le> (of_char c :: nat) \<and> (of_char c :: nat) < 192))"

fun hex_decode_pairs :: "string \<Rightarrow> bytes option option" where
  "hex_decode_pairs (a # b # rest) =
     (if \<not> at_char_boundary (a # b # rest) \<or> \<not> at_char_boundary rest then None
      else case from_str_radix 16 256 [a, b] of
             None \<Rightarrow> Some None
           | Some v \<Rightarrow>
               (case hex_decode_pairs rest of
                  None \<Rightarrow> None
                | Some None \<Rightarrow> Some None
                | Some (Some bs) \<Rightarrow> Some (Some (of_nat v # bs))))"
| "hex_decode_pairs _ = Some (Some [])"

definition hex_decode :: "string \<Rightarrow> bytes option option" where
  "hex_decode s = (if \<not> 2 dvd length s then Some None else hex_decode_pairs s)"

definition hex_digit_lower :: "nat \<Rightarrow> char" where
  "hex_digit_lower d = char_of (if d < 10 then 48 + d else 87 + d)"

definition hex2 :: "u8 \<Rightarrow> string" where
  "hex2 b = [hex_digit_lower (unat b div 16), hex_digit_lower (unat b mod 16)]"

definition bytes_to_hex :: "bytes \<Rightarrow> string" where
  "bytes_to_hex bytes = concat (map hex2 bytes)"

section \<open>HTML\<close>

fun strip_html_loop :: "bool \<Rightarrow> string \<Rightarrow> string" where
  "strip_html_loop inside_tag [] = []"
| "strip_html_loop inside_tag (ch # rest) =
     (if ch = CHR ''<'' then strip_html_loop True rest
      else if ch = CHR ''>'' then strip_html_loop False rest
      else if \<not> inside_tag then ch # strip_html_loop inside_tag rest
      else strip_html_loop inside_tag rest)"

definition strip_html_tags :: "string \<Rightarrow> string" where
  "strip_html_tags html = strip_html_loop False html"

section \<open>Permissions\<close>

record PermissionEntry =
  perm_bit :: u32
  perm_ident :: string
  perm_label :: string
  perm_root_only :: bool

definition PERM_WRITE :: u32 where
  "PERM_WRITE = 0x1"

definition PERM_TRAVERSE :: u32 where
  "PERM_TRAVERSE = 0x2"

definition PERM_ENTER :: u32 where
  "PERM_ENTER = 0x4"

definition PERM_SPEAK :: u32 where
  "PERM_SPEAK = 0x8"

definition PERM_MUTE_DEAFEN :: u32 where
  "PERM_MUTE_DEAFEN = 0x10"

definition PERM_MOVE :: u32 where
  "PERM_MOVE = 0x20"

definition PERM_MAKE_CHANNEL :: u32 where
  "PERM_MAKE_CHANNEL = 0x40"

definition PERM_LINK_CHANNEL :: u32 where
  "PERM_LINK_CHANNEL = 0x80"

definition PERM_WHISPER :: u32 where
  "PERM_WHISPER = 0x100"

definition PERM_TEXT_MESSAGE :: u32 where
  "PERM_TEXT_MESSAGE = 0x200"

definition PERM_MAKE_TEMP_CHANNEL :: u32 where
  "PERM_MAKE_TEMP_CHANNEL = 0x400"

definition PERM_LISTEN :: u32 where
  "PERM_LISTEN = 0x800"

definition PERM_DELETE_MESSAGE :: u32 where
  "PERM_DELETE_MESSAGE = 0x1000"

definition PERM_SUBSCRIBE_PUSH :: u32 where
  "PERM_SUBSCRIBE_PUSH = 0x2000"

definition PERM_SHARE_FILES :: u32 where
  "PERM_SHARE_FILES = 0x4000"

definition PERM_SHARE_FILES_PUBLIC :: u32 where
  "PERM_SHARE_FILES_PUBLIC = 0x8000"

definition PERM_KICK :: u32 where
  "PERM_KICK = 0x10000"

definition PERM_BAN :: u32 where
  "PERM_BAN = 0x20000"

definition PERM_REGISTER :: u32 where
  "PERM_REGISTER = 0x40000"

definition PERM_SELF_REGISTER :: u32 where
  "PERM_SELF_REGISTER = 0x80000"

definition PERM_RESET_USER_CONTENT :: u32 where
  "PERM_RESET_USER_CONTENT = 0x100000"

definition PERM_KEY_OWNER :: u32 where
  "PERM_KEY_OWNER = 0x200000"

definition PERM_MANAGE_EMOTES :: u32 where
  "PERM_MANAGE_EMOTES = 0x400000"

definition ENTRIES :: "PermissionEntry list" where
  "ENTRIES =
     [\<lparr>perm_bit = PERM_WRITE, perm_ident = ''WRITE'', perm_label = ''Write'', perm_root_only = False\<rparr>,
      \<lparr>perm_bit = PERM_TRAVERSE, perm_ident = ''TRAVERSE'', perm_label = ''Traverse'', perm_root_only = False\<rparr>,
      \<lparr>perm_bit = PERM_ENTER, perm_ident = ''ENTER'', perm_label = ''Enter'', perm_root_only = False\<rparr>,
      \<lparr>perm_bit = PERM_SPEAK, perm_ident = ''SPEAK'', perm_label = ''Speak'', perm_root_only = False\<rparr>,
      \<lparr>perm_bit = PERM_MUTE_DEAFEN, perm_ident = ''MUTE_DEAFEN'', perm_label = ''Mute/Deafen'', perm_root_only = False\<rparr>,
      \<lparr>perm_bit = PERM_MOVE, perm_ident = ''MOVE'', perm_label = ''Move'', perm_root_only = False\<rparr>,
      \<lparr>perm_bit = PERM_MAKE_CHANNEL, perm_ident = ''MAKE_CHANNEL'', perm_label = ''Make Channel'', perm_root_only = False\<rparr>,
      \<lparr>perm_bit = PERM_LINK_CHANNEL, perm_ident = ''LINK_CHANNEL'', perm_label = ''Link Channel'', perm_root_only = False\<rparr>,
      \<lparr>perm_bit = PERM_WHISPER, perm_ident = ''WHISPER'', perm_label = ''Whisper'', perm_root_only = False\<rparr>,
      \<lparr>perm_bit = PERM_TEXT_MESSAGE, perm_ident = ''TEXT_MESSAGE'', perm_label = ''Text Message'', perm_root_only = False\<rparr>,
      \<lparr>perm_bit = PERM_MAKE_TEMP_CHANNEL, perm_ident = ''MAKE_TEMP_CHANNEL'', perm_label = ''Make Temp Channel'', perm_root_only = False\<rparr>,
      \<lparr>perm_bit = PERM_LISTEN, perm_ident = ''LISTEN'', perm_label = ''Listen'', perm_root_only = False\<rparr>,
      \<lparr>perm_bit = PERM_DELETE_MESSAGE, perm_ident = ''DELETE_MESSAGE'', perm_label = ''Delete Message'', perm_root_only = False\<rparr>,
      \<lparr>perm_bit = PERM_SUBSCRIBE_PUSH, perm_ident = ''SUBSCRIBE_PUSH'', perm_label = ''Subscribe Push'', perm_root_only = False\<rparr>,
      \<lparr>perm_bit = PERM_SHARE_FILES, perm_ident = ''SHARE_FILES'', perm_label = ''Share Files'', perm_root_only = False\<rparr>,
      \<lparr>perm_bit = PERM_SHARE_FILES_PUBLIC, perm_ident = ''SHARE_FILES_PUBLIC'', perm_label = ''Share Files (Public)'', perm_root_only = False\<rparr>,
      \<lparr>perm_bit = PERM_KICK, perm_ident = ''KICK'', perm_label = ''Kick'', perm_root_only = True\<rparr>,
      \<lparr>perm_bit = PERM_BAN, perm_ident = ''BAN'', perm_label = ''Ban'', perm_root_only = True\<rparr>,
      \<lparr>perm_bit = PERM_REGISTER, perm_ident = ''REGISTER'', perm_label = ''Register'', perm_root_only = True\<rparr>,
      \<lparr>perm_bit = PERM_SELF_REGISTER, perm_ident = ''SELF_REGISTER'', perm_label = ''Self-Register'', perm_root_only = True\<rparr>,
      \<lparr>perm_bit = PERM_RESET_USER_CONTENT, perm_ident = ''RESET_USER_CONTENT'', perm_label = ''Reset User Content'', perm_root_only = True\<rparr>,
      \<lparr>perm_bit = PERM_KEY_OWNER, perm_ident = ''KEY_OWNER'', perm_label = ''Key Owner'', perm_root_only = True\<rparr>,
      \<lparr>perm_bit = PERM_MANAGE_EMOTES, perm_ident = ''MANAGE_EMOTES'', perm_label = ''Manage Emotes'', perm_root_only = True\<rparr>]"

lemmas permission_defs =
  PERM_WRITE_def PERM_TRAVERSE_def PERM_ENTER_def PERM_SPEAK_def PERM_MUTE_DEAFEN_def
  PERM_MOVE_def PERM_MAKE_CHANNEL_def PERM_LINK_CHANNEL_def PERM_WHISPER_def
  PERM_TEXT_MESSAGE_def PERM_MAKE_TEMP_CHANNEL_def PERM_LISTEN_def PERM_DELETE_MESSAGE_def
  PERM_SUBSCRIBE_PUSH_def PERM_SHARE_FILES_def PERM_SHARE_FILES_PUBLIC_def PERM_KICK_def
  PERM_BAN_def PERM_REGISTER_def PERM_SELF_REGISTER_def PERM_RESET_USER_CONTENT_def
  PERM_KEY_OWNER_def PERM_MANAGE_EMOTES_def

section \<open>IP addresses\<close>

text \<open>\<^verbatim>\<open>{:x}\<close> of a number, without leading zeros.\<close>

fun show_hex :: "nat \<Rightarrow> string" where
  "show_hex n = (if n < 16 then [hex_digit_lower n] else show_hex (n div 16) @ [hex_digit_lower (n mod 16)])"

declare show_hex.simps [simp del]

definition dotted :: "u8 \<Rightarrow> u8 \<Rightarrow> u8 \<Rightarrow> u8 \<Rightarrow> string" where
  "dotted a b c d = show_nat (unat a) @ ''.'' @ show_nat (unat b) @ ''.'' @ show_nat (unat c) @ ''.'' @
     show_nat (unat d)"

fun join_with :: "string \<Rightarrow> string list \<Rightarrow> string" where
  "join_with sep [] = []"
| "join_with sep [x] = x"
| "join_with sep (x # y # ys) = x @ sep @ join_with sep (y # ys)"

definition format_ip_address :: "bytes \<Rightarrow> string" where
  "format_ip_address bytes =
     (if length bytes = 4 then dotted (bytes ! 0) (bytes ! 1) (bytes ! 2) (bytes ! 3)
      else if length bytes = 16 then
        if list_all (\<lambda>b. b = 0) (take 10 bytes) \<and> bytes ! 10 = 0xff \<and> bytes ! 11 = 0xff then
          dotted (bytes ! 12) (bytes ! 13) (bytes ! 14) (bytes ! 15)
        else join_with '':''
          (map (\<lambda>i. show_hex (unat (from_be16 (bytes ! (2 * i)) (bytes ! (2 * i + 1))))) [0..<8])
      else concat (map hex2 bytes))"

section \<open>Lemmas\<close>

lemma bit_u16: "bit x n \<Longrightarrow> n < 16" for x :: u16
  using bit_imp_le_length [of x n] by simp

lemma mask_FFFF: "(0xFFFF :: u64) = mask 16"
  by (simp add: mask_eq_exp_minus_1)

lemma version_decode_encode: "fancy_version_decode (fancy_version_encode a b c) = (a, b, c)"
proof -
  let ?v = "push_bit 48 (ucast a) OR push_bit 32 (ucast b) OR push_bit 16 (ucast c) :: u64"
  have "ucast (drop_bit 48 ?v AND mask 16) = a"
    by (rule bit_word_eqI) (auto simp: bit_ucast_iff bit_and_iff bit_mask_iff bit_drop_bit_eq bit_or_iff bit_push_bit_iff
        dest: bit_u16)
  moreover have "ucast (drop_bit 32 ?v AND mask 16) = b"
    by (rule bit_word_eqI) (auto simp: bit_ucast_iff bit_and_iff bit_mask_iff bit_drop_bit_eq bit_or_iff bit_push_bit_iff
        dest: bit_u16)
  moreover have "ucast (drop_bit 16 ?v AND mask 16) = c"
    by (rule bit_word_eqI) (auto simp: bit_ucast_iff bit_and_iff bit_mask_iff bit_drop_bit_eq bit_or_iff bit_push_bit_iff
        dest: bit_u16)
  ultimately show ?thesis
    unfolding fancy_version_decode_def fancy_version_encode_def Let_def mask_FFFF by blast
qed

lemma version_value:
  "unat (fancy_version_encode a b c) = unat a * 2 ^ 48 + (unat b * 2 ^ 32 + unat c * 2 ^ 16)"
proof -
  have lt: "unat x < 65536" for x :: u16 using unsigned_less [of x] by simp
  have p: "unat (push_bit k (ucast x) :: u64) = unat x * 2 ^ k" if "k \<le> 48" for x :: u16 and k
  proof -
    have "unat x * 2 ^ k < 65536 * 2 ^ k" using lt [of x] by simp
    also have "\<dots> \<le> 65536 * 2 ^ 48" using that by (intro mult_left_mono power_increasing) simp_all
    finally have "unat x * 2 ^ k < 2 ^ 64" by simp
    moreover have "unat (ucast x :: u64) = unat x"
      using lt [of x] by (simp add: unsigned_ucast_eq take_bit_eq_mod)
    ultimately show ?thesis
      unfolding unsigned_push_bit_eq by (simp add: push_bit_eq_mult take_bit_eq_mod)
  qed
  let ?A = "push_bit 48 (ucast a) :: u64" and ?B = "push_bit 32 (ucast b) :: u64"
    and ?C = "push_bit 16 (ucast c) :: u64"
  have "?B AND ?C = 0"
    by (rule bit_word_eqI) (auto simp: bit_and_iff bit_push_bit_iff bit_ucast_iff dest!: bit_u16)
  moreover have "?A AND (?B OR ?C) = 0"
    by (rule bit_word_eqI) (auto simp: bit_and_iff bit_or_iff bit_push_bit_iff bit_ucast_iff dest!: bit_u16)
  ultimately have "fancy_version_encode a b c = ?A + (?B + ?C)"
    by (simp only: fancy_version_encode_def disjunctive_add_eq_or)
  moreover have "unat b * 2 ^ 32 + unat c * 2 ^ 16 < 2 ^ 48"
    using lt [of b] lt [of c] by simp
  moreover have "unat a * 2 ^ 48 + (unat b * 2 ^ 32 + unat c * 2 ^ 16) < 2 ^ 64"
    using lt [of a] lt [of b] lt [of c] by simp
  ultimately show ?thesis
    by (simp add: unat_word_ariths p del: push_bit_of_1)
qed

lemma version_le:
  "fancy_version_encode a b c \<le> fancy_version_encode a' b' c' \<longleftrightarrow>
     a < a' \<or> a = a' \<and> (b < b' \<or> b = b' \<and> c \<le> c')"
proof -
  have lt: "unat x < 65536" for x :: u16 using unsigned_less [of x] by simp
  have lex: "x * (65536 * m) + y \<le> x' * (65536 * m) + y' \<longleftrightarrow> x < x' \<or> x = x' \<and> y \<le> y'"
    if "y < 65536 * m" "y' < 65536 * m" for x x' y y' m :: nat
  proof -
    consider "x < x'" | "x = x'" | "x' < x" by linarith
    then show ?thesis
    proof cases
      case 1
      then have "(x + 1) * (65536 * m) \<le> x' * (65536 * m)" by (intro mult_right_mono) auto
      then show ?thesis using 1 that by simp
    next
      case 3
      then have "(x' + 1) * (65536 * m) \<le> x * (65536 * m)" by (intro mult_right_mono) auto
      then show ?thesis using 3 that by simp
    qed simp
  qed
  have 1: "unat b * 2 ^ 32 + unat c * 2 ^ 16 < 65536 * 2 ^ 32" for b c :: u16
    using lt [of b] lt [of c] by simp
  have 2: "unat c * 2 ^ 16 < 65536 * 2 ^ 16" for c :: u16 using lt [of c] by simp
  show ?thesis
    using lex [OF 1 1, of "unat a" b c "unat a'" b' c'] lex [OF 2 2, of "unat b" c "unat b'" c']
    by (simp add: word_le_nat_alt word_less_nat_alt version_value word_unat_eq_iff)
qed

lemma of_char_hex_digit: "d < 16 \<Longrightarrow> of_char (hex_digit_lower d) = (if d < 10 then 48 + d else 87 + d)"
  by (auto simp: hex_digit_lower_def)

lemma hex_nibble_digit: "d < 16 \<Longrightarrow> hex_nibble (hex_digit_lower d) = Some (of_nat d)"
  by (auto simp: hex_nibble_def of_char_hex_digit)

lemma to_digit_hex: "d < 16 \<Longrightarrow> to_digit 16 (hex_digit_lower d) = Some d"
  by (auto simp: to_digit_def of_char_hex_digit)

lemma hex_digit_not_plus:
  assumes "d < 16"
  shows "hex_digit_lower d \<noteq> CHR ''+''"
proof
  assume "hex_digit_lower d = CHR ''+''"
  with to_digit_hex [OF assms] show False by (simp add: to_digit_def)
qed

lemma byte_nibbles: "unat b div 16 < 16" "unat b mod 16 < 16" for b :: u8
proof -
  have "unat b < 256" using unsigned_less [of b] by simp
  then show "unat b div 16 < 16" by (simp add: less_mult_imp_div_less)
qed simp

lemma nibbles_join: "push_bit 4 (of_nat (unat b div 16)) OR of_nat (unat b mod 16) = b" for b :: u8
proof -
  have "unat (of_nat (unat b div 16) :: u8) = unat b div 16"
    using byte_nibbles(1) [of b] by (simp add: unat_of_nat)
  also have "\<dots> = unat (drop_bit 4 b)"
    by (subst unat_drop_bit_eq) (simp add: drop_bit_eq_div)
  finally have 1: "of_nat (unat b div 16) = drop_bit 4 b" by (simp only: word_unat_eq_iff)
  have "unat (of_nat (unat b mod 16) :: u8) = unat b mod 16"
    using byte_nibbles(2) [of b] by (simp add: unat_of_nat)
  also have "\<dots> = unat (take_bit 4 b)"
    by (subst unsigned_take_bit_eq) (simp add: take_bit_eq_mod)
  finally have 2: "of_nat (unat b mod 16) = take_bit 4 b" by (simp only: word_unat_eq_iff)
  show ?thesis unfolding 1 2
    by (rule bit_word_eqI, unfold bit_or_iff bit_push_bit_iff bit_drop_bit_eq bit_take_bit_iff) auto
qed

lemma from_str_radix_hex2: "from_str_radix 16 256 (hex2 b) = Some (unat b)"
proof -
  have "unat b < 256" using unsigned_less [of b] by simp
  moreover have "unat b div 16 * 16 + unat b mod 16 = unat b" by simp
  ultimately show ?thesis
    using byte_nibbles [of b]
    by (simp add: hex2_def from_str_radix_def hex_digit_not_plus to_digit_hex)
qed

lemma at_char_boundary_hex: "at_char_boundary (bytes_to_hex bs)" "at_char_boundary (hex2 b @ rest)"
proof -
  have *: "at_char_boundary (hex2 b @ rest)" for b rest
    using byte_nibbles [of b] by (simp add: hex2_def of_char_hex_digit)
  then show "at_char_boundary (hex2 b @ rest)" .
  show "at_char_boundary (bytes_to_hex bs)" by (cases bs) (simp_all add: bytes_to_hex_def *)
qed

lemma bytes_to_hex_Cons: "bytes_to_hex (b # bs) = hex2 b @ bytes_to_hex bs"
  by (simp add: bytes_to_hex_def)

lemma hex_to_bytes_hex2: "hex_to_bytes (hex2 b @ rest) = b # hex_to_bytes rest"
  using byte_nibbles [of b] nibbles_join [of b] by (simp add: hex2_def hex_nibble_digit)

lemma hex_decode_pairs_hex: "hex_decode_pairs (bytes_to_hex bs) = Some (Some bs)"
proof (induction bs)
  case (Cons b bs)
  obtain x y where xy: "hex2 b = [x, y]" by (simp add: hex2_def)
  have "at_char_boundary (x # y # bytes_to_hex bs)"
    using at_char_boundary_hex(2) [of b "bytes_to_hex bs"] by (simp add: xy)
  then show ?case
    using Cons at_char_boundary_hex(1) [of bs] from_str_radix_hex2 [of b]
    by (simp add: bytes_to_hex_Cons xy del: at_char_boundary.simps)
qed (simp add: bytes_to_hex_def)

lemma length_bytes_to_hex: "length (bytes_to_hex bs) = 2 * length bs"
  by (induction bs) (simp_all add: bytes_to_hex_def hex2_def)

lemma strip_html_loop_no_brackets: "set (strip_html_loop inside s) \<inter> {CHR ''<'', CHR ''>''} = {}"
  by (induction inside s rule: strip_html_loop.induct) auto

lemma strip_html_loop_plain:
  "set s \<inter> {CHR ''<'', CHR ''>''} = {} \<Longrightarrow> strip_html_loop False s = s"
  by (induction s) auto

lemma strip_html_loop_append_tag:
  assumes "CHR ''>'' \<notin> set t"
  shows "strip_html_loop True (t @ CHR ''>'' # s) = strip_html_loop False s"
  using assms by (induction t) auto

section \<open>Properties\<close>

text \<open>Version numbers. Decoding an encoded version gives its three parts back, and encoded versions
  are ordered as the triples are, lexicographically: comparing the encoded numbers, as the codec
  selection does, compares the versions.\<close>

theorem fancy_version_order:
  "fancy_version_decode (fancy_version_encode a b c) = (a, b, c) \<and>
   (fancy_version_encode a b c \<le> fancy_version_encode a' b' c') =
     (a < a' \<or> a = a' \<and> (b < b' \<or> b = b' \<and> c \<le> c'))"
  by (simp add: version_decode_encode version_le)

text \<open>Hexadecimal text. Both decoders give back every byte string that was printed as lower-case
  hex, and the strict one does not panic on it.\<close>

theorem hex_roundtrip:
  "hex_to_bytes (bytes_to_hex bs) = bs \<and> hex_decode (bytes_to_hex bs) = Some (Some bs) \<and>
   length (bytes_to_hex bs) = 2 * length bs"
proof -
  have "hex_to_bytes (bytes_to_hex bs) = bs"
    by (induction bs) (simp_all add: bytes_to_hex_Cons hex_to_bytes_hex2, simp add: bytes_to_hex_def)
  then show ?thesis by (simp add: hex_decode_def hex_decode_pairs_hex length_bytes_to_hex)
qed

text \<open>The strict hex decoder accepts a plus sign: \<^verbatim>\<open>"+f"\<close> decodes to the byte 15, although it
  contains a character that is no hex digit, and a multi-byte character at an even position makes
  it panic instead of returning \<^verbatim>\<open>None\<close>.\<close>

theorem hex_decode_not_strict:
  "hex_decode ''+f'' = Some (Some [15]) \<and>
   hex_decode [CHR ''a'', char_of (195 :: nat), char_of (164 :: nat), CHR ''b''] = None"
  by (simp add: hex_decode_def from_str_radix_def to_digit_def)

text \<open>Stripping HTML. The result contains no angle bracket, text without angle brackets is
  unchanged, stripping twice is stripping once, and a tag between two pieces of text disappears.\<close>

theorem strip_html_spec:
  "set (strip_html_tags s) \<inter> {CHR ''<'', CHR ''>''} = {} \<and>
   strip_html_tags (strip_html_tags s) = strip_html_tags s"
  unfolding strip_html_tags_def
  using strip_html_loop_no_brackets [of False s] by (simp add: strip_html_loop_plain)

text \<open>The permission table. The flags are pairwise different single bits, listed in the order of
  their bits without a gap, and the root-only permissions are exactly those from bit 16 up.\<close>

theorem permission_table:
  "map perm_bit ENTRIES = map (\<lambda>i. push_bit i 1) [0..<23] \<and> distinct (map perm_ident ENTRIES) \<and>
   list_all (\<lambda>e. perm_root_only e = (0x10000 \<le> perm_bit e)) ENTRIES"
  by (simp add: ENTRIES_def permission_defs upt_rec word_le_nat_alt)

end
