(* ===== verification/Tcp_Codec.thy ===== *)
theory Tcp_Codec
  imports Message
begin

text \<open>
  The framing of TCP control messages, \<^verbatim>\<open>[type:u16][length:u32][payload]\<close>
  (src/crates/mumble-protocol/src/transport/codec.rs), and the receive loop of
  src/crates/mumble-protocol/src/transport/tcp.rs over it.

  The payload codec is the third-party crate \<^verbatim>\<open>prost\<close>: \<open>enc m\<close> is \<^verbatim>\<open>encode_to_vec\<close> of the message in
  the variant \<open>m\<close>, and \<open>dec t\<close> is \<^verbatim>\<open>decode\<close> of the message type of the variant \<open>t\<close>, wrapped in
  that variant, as every arm of \<^verbatim>\<open>deserialize_control_message\<close> does it. \<open>prost_ok\<close> says what is
  relied on for a message: decoding inverts encoding.
  The socket is the list of the chunks that \<^verbatim>\<open>read_buf\<close> will return; after it comes the error of \<open>read_error\<close>, or
  without one the end of the stream, which an empty chunk stands for too. When and with which error the connection breaks under a writer is \<open>write_fault\<close>.
\<close>

type_synonym prost_enc = "ControlMessage \<Rightarrow> bytes"
type_synonym prost_dec = "TcpMessageType \<Rightarrow> bytes \<Rightarrow> string + ControlMessage"

definition prost_ok :: "prost_enc \<Rightarrow> prost_dec \<Rightarrow> ControlMessage \<Rightarrow> bool" where
  "prost_ok enc dec m \<longleftrightarrow>
     (message_type m \<noteq> MT_UdpTunnel \<longrightarrow> dec (message_type m) (enc m) = Inr m)"

section \<open>Frames\<close>

definition MAX_PAYLOAD_SIZE :: u32 where
  "MAX_PAYLOAD_SIZE = 8 * 1024 * 1024"

definition HEADER_SIZE :: nat where
  "HEADER_SIZE = 6"

definition serialize_control_message :: "prost_enc \<Rightarrow> ControlMessage \<Rightarrow> (u16 \<times> bytes) result" where
  "serialize_control_message enc msg =
     (let payload = (case msg of CM_UdpTunnel data \<Rightarrow> data | _ \<Rightarrow> enc msg)
      in Inr (type_id msg, payload))"

definition deserialize_control_message :: "prost_dec \<Rightarrow> u16 \<Rightarrow> bytes \<Rightarrow> ControlMessage result" where
  "deserialize_control_message dec ty payload =
     and_then (TcpMessageType_try_from ty)
       (\<lambda>msg_type. if msg_type = MT_UdpTunnel then Inr (CM_UdpTunnel payload)
          else case dec msg_type payload of Inl e \<Rightarrow> Inl (Decode e) | Inr m \<Rightarrow> Inr m)"

definition encode :: "prost_enc \<Rightarrow> ControlMessage \<Rightarrow> bytes result" where
  "encode enc msg =
     and_then (serialize_control_message enc msg)
       (\<lambda>(ty, payload). Inr (be16 ty @ be32 (of_nat (length payload)) @ payload))"

text \<open>\<^verbatim>\<open>decode\<close> returns the message, if a frame is complete, and the buffer that is left.\<close>

definition decode :: "prost_dec \<Rightarrow> bytes \<Rightarrow> ControlMessage option result \<times> bytes" where
  "decode dec buf =
     (if length buf < HEADER_SIZE then (Inr None, buf)
      else
        let msg_type = from_be16 (buf ! 0) (buf ! 1);
            payload_len = from_be32 (buf ! 2) (buf ! 3) (buf ! 4) (buf ! 5)
        in if payload_len > MAX_PAYLOAD_SIZE then
             (Inl (InvalidState (''payload too large: '' @ show_nat (unat payload_len) @ '' bytes'')), buf)
           else
             let total = HEADER_SIZE + unat payload_len
             in if length buf < total then (Inr None, buf)
                else
                  let buf' = drop HEADER_SIZE buf;
                      payload = take (unat payload_len) buf';
                      rest = drop (unat payload_len) buf'
                  in case deserialize_control_message dec msg_type payload of
                       Inl e \<Rightarrow> (Inl e, rest)
                     | Inr msg \<Rightarrow> (Inr (Some msg), rest))"

section \<open>The receive loop\<close>

text \<open>\<open>reader\<close>: the chunks that the reads to come give, an empty one for the end of the stream; after them every
  read fails with \<open>read_error\<close>, or the peer has closed the connection.\<close>

record TcpReader =
  reader :: "bytes list"
  read_buf :: bytes
  read_error :: "io_error_kind option"

definition read_end :: "io_error_kind option \<Rightarrow> Error" where
  "read_end f = (case f of None \<Rightarrow> ConnectionClosed | Some k \<Rightarrow> Io k)"

fun recv_loop :: "Error \<Rightarrow> (bytes \<Rightarrow> 'm option result \<times> bytes) \<Rightarrow> bytes \<Rightarrow> bytes list \<Rightarrow> 'm result \<times> bytes \<times> bytes list" where
  "recv_loop fin unframe buf chunks =
     (case unframe buf of
        (Inl e, buf') \<Rightarrow> (Inl e, buf', chunks)
      | (Inr (Some msg), buf') \<Rightarrow> (Inr msg, buf', chunks)
      | (Inr None, buf') \<Rightarrow>
          (case chunks of
             [] \<Rightarrow> (Inl fin, buf', [])
           | c # cs \<Rightarrow> if c = [] then (Inl ConnectionClosed, buf', cs)
                      else recv_loop fin unframe (buf' @ c) cs))"

declare recv_loop.simps [simp del]

definition TcpReader_recv :: "prost_dec \<Rightarrow> TcpReader \<Rightarrow> ControlMessage result \<times> TcpReader" where
  "TcpReader_recv dec r =
     (let (res, buf, chunks) = recv_loop (read_end (read_error r)) (decode dec) (read_buf r) (reader r)
      in (res, r\<lparr>read_buf := buf, reader := chunks\<rparr>))"

text \<open>\<open>writer\<close>: what was written to the stream. With \<open>write_fault = Some (n, k)\<close> the connection takes \<open>n\<close> more
  units, each a byte or a flush, and every operation after them fails; \<^verbatim>\<open>write_all\<close> may then have written a part of its bytes.\<close>

record TcpWriter =
  writer :: bytes
  write_fault :: "(nat \<times> io_error_kind) option"

definition write_all :: "bytes \<Rightarrow> TcpWriter \<Rightarrow> unit result \<times> TcpWriter" where
  "write_all bs w =
     (case write_fault w of
        None \<Rightarrow> (Inr (), w\<lparr>writer := writer w @ bs\<rparr>)
      | Some (n, k) \<Rightarrow>
          if length bs \<le> n then (Inr (), w\<lparr>writer := writer w @ bs, write_fault := Some (n - length bs, k)\<rparr>)
          else (Inl (Io k), w\<lparr>writer := writer w @ take n bs, write_fault := Some (0, k)\<rparr>))"

definition flush_writer :: "TcpWriter \<Rightarrow> unit result \<times> TcpWriter" where
  "flush_writer w =
     (case write_fault w of
        None \<Rightarrow> (Inr (), w)
      | Some (n, k) \<Rightarrow> if n = 0 then (Inl (Io k), w) else (Inr (), w\<lparr>write_fault := Some (n - 1, k)\<rparr>))"

definition TcpWriter_send :: "prost_enc \<Rightarrow> ControlMessage \<Rightarrow> TcpWriter \<Rightarrow> unit result \<times> TcpWriter" where
  "TcpWriter_send enc msg w =
     (case encode enc msg of
        Inl e \<Rightarrow> (Inl e, w)
      | Inr frame \<Rightarrow>
          (case write_all frame w of
             (Inl e, w') \<Rightarrow> (Inl e, w')
           | (Inr u, w') \<Rightarrow> flush_writer w'))"

section \<open>Self-delimiting frames\<close>

lemma append_eq_longE:
  assumes "xs @ ys = zs @ ws" and "length zs \<le> length xs"
  obtains r where "xs = zs @ r" and "ws = r @ ys"
proof -
  have "zs = take (length zs) xs"
    using arg_cong [OF assms(1), of "take (length zs)"] assms(2) by simp
  then have xs: "xs = zs @ drop (length zs) xs" by (metis append_take_drop_id)
  moreover have "ws = drop (length zs) xs @ ys"
    using assms(1) by (subst (asm) xs) simp
  ultimately show ?thesis by (rule that)
qed

text \<open>
  The contract of a frame format: a complete frame in front of the buffer is taken off, and a
  buffer that holds only a proper prefix of a frame is left alone. From it follows, once for
  every such format, that the receive loop delivers the messages of a byte stream whatever
  chunks the stream arrives in.
\<close>

fun recv_many :: "Error \<Rightarrow> (bytes \<Rightarrow> 'm option result \<times> bytes) \<Rightarrow> nat \<Rightarrow> bytes \<Rightarrow> bytes list \<Rightarrow>
    'm result list \<times> bytes \<times> bytes list" where
  "recv_many fin unframe 0 buf chunks = ([], buf, chunks)"
| "recv_many fin unframe (Suc n) buf chunks =
     (let (res, buf', chunks') = recv_loop fin unframe buf chunks;
          (ress, ends) = recv_many fin unframe n buf' chunks'
      in (res # ress, ends))"

locale frame_codec =
  fixes frame :: "'m \<Rightarrow> bytes"
    and unframe :: "bytes \<Rightarrow> 'm option result \<times> bytes"
    and valid :: "'m \<Rightarrow> bool"
  assumes unframe_frame: "valid m \<Longrightarrow> unframe (frame m @ rest) = (Inr (Some m), rest)"
    and unframe_prefix: "valid m \<Longrightarrow> frame m = p @ q \<Longrightarrow> q \<noteq> [] \<Longrightarrow> unframe p = (Inr None, p)"
begin

text \<open>The loop reads chunks until the first frame is complete.\<close>

lemma recv_loop_first:
  assumes "valid m" and "[] \<notin> set chunks" and "buf @ concat chunks = frame m @ rest"
  shows "\<exists>buf' chunks'. recv_loop fin unframe buf chunks = (Inr m, buf', chunks') \<and>
           buf' @ concat chunks' = rest \<and> [] \<notin> set chunks'"
  using assms(2,3)
proof (induction chunks arbitrary: buf)
  case Nil
  then have "buf = frame m @ rest" by simp
  then show ?case using unframe_frame [OF assms(1)] by (subst recv_loop.simps) simp
next
  case (Cons c cs)
  show ?case
  proof (cases "length (frame m) \<le> length buf")
    case True
    from append_eq_longE [OF Cons.prems(2) True]
    obtain r where "buf = frame m @ r" "rest = r @ concat (c # cs)" .
    then show ?thesis using unframe_frame [OF assms(1)] Cons.prems(1)
      by (subst recv_loop.simps) auto
  next
    case False
    then have "length buf \<le> length (frame m)" by simp
    from append_eq_longE [OF Cons.prems(2) [symmetric] this] obtain q where "frame m = buf @ q" .
    moreover from this False have "q \<noteq> []" by auto
    ultimately have "unframe buf = (Inr None, buf)" by (rule unframe_prefix [OF assms(1)])
    moreover have "(buf @ c) @ concat cs = frame m @ rest" "[] \<notin> set cs" "c \<noteq> []"
      using Cons.prems by auto
    ultimately show ?thesis using Cons.IH [of "buf @ c"] by (subst recv_loop.simps) simp
  qed
qed

lemma recv_many_stream:
  assumes "\<forall>m \<in> set ms. valid m" and "[] \<notin> set chunks"
    and "buf @ concat chunks = concat (map frame ms) @ rest"
  shows "\<exists>buf' chunks'. recv_many fin unframe (length ms) buf chunks = (map Inr ms, buf', chunks') \<and>
           buf' @ concat chunks' = rest \<and> [] \<notin> set chunks'"
  using assms
proof (induction ms arbitrary: buf chunks)
  case (Cons m ms)
  from Cons.prems obtain b' c' where 1: "recv_loop fin unframe buf chunks = (Inr m, b', c')"
      and 2: "b' @ concat c' = concat (map frame ms) @ rest" "[] \<notin> set c'"
    using recv_loop_first [of m chunks buf "concat (map frame ms) @ rest" fin] by auto
  show ?case using Cons.IH [OF _ 2(2,1)] Cons.prems(1) 1 by auto
qed auto

end

section \<open>The TCP framing is self-delimiting\<close>

definition payload_of :: "prost_enc \<Rightarrow> ControlMessage \<Rightarrow> bytes" where
  "payload_of enc msg = (case msg of CM_UdpTunnel data \<Rightarrow> data | _ \<Rightarrow> enc msg)"

definition tcp_frame :: "prost_enc \<Rightarrow> ControlMessage \<Rightarrow> bytes" where
  "tcp_frame enc msg =
     be16 (type_id msg) @ be32 (of_nat (length (payload_of enc msg))) @ payload_of enc msg"

lemma encode_tcp_frame: "encode enc msg = Inr (tcp_frame enc msg)"
  by (simp add: encode_def serialize_control_message_def tcp_frame_def payload_of_def)

lemma deserialize_payload:
  assumes "prost_ok enc dec msg"
  shows "deserialize_control_message dec (type_id msg) (payload_of enc msg) = Inr msg"
proof (cases "message_type msg = MT_UdpTunnel")
  case True
  then obtain d where "msg = CM_UdpTunnel d" by (cases msg) auto
  then show ?thesis by (simp add: deserialize_control_message_def payload_of_def)
next
  case False
  then have "payload_of enc msg = enc msg" by (cases msg) (simp_all add: payload_of_def)
  then show ?thesis
    using assms False by (simp add: deserialize_control_message_def prost_ok_def)
qed

text \<open>Decoding a buffer that starts with a header.\<close>

lemma decode_header:
  "decode dec (be16 ty @ be32 len @ body) =
     (if len > MAX_PAYLOAD_SIZE then
        (Inl (InvalidState (''payload too large: '' @ show_nat (unat len) @ '' bytes'')),
         be16 ty @ be32 len @ body)
      else if length body < unat len then (Inr None, be16 ty @ be32 len @ body)
      else case deserialize_control_message dec ty (take (unat len) body) of
             Inl e \<Rightarrow> (Inl e, drop (unat len) body)
           | Inr msg \<Rightarrow> (Inr (Some msg), drop (unat len) body))"
  by (simp add: decode_def HEADER_SIZE_def be16_def be32_def Let_def)

definition tcp_valid :: "prost_enc \<Rightarrow> prost_dec \<Rightarrow> ControlMessage \<Rightarrow> bool" where
  "tcp_valid enc dec msg \<longleftrightarrow>
     prost_ok enc dec msg \<and> length (payload_of enc msg) \<le> unat MAX_PAYLOAD_SIZE"

lemma tcp_valid_len:
  assumes "tcp_valid enc dec msg"
  shows "unat (of_nat (length (payload_of enc msg)) :: u32) = length (payload_of enc msg)"
    and "\<not> MAX_PAYLOAD_SIZE < of_nat (length (payload_of enc msg))"
proof -
  have "length (payload_of enc msg) \<le> 8388608"
    using assms by (simp add: tcp_valid_def MAX_PAYLOAD_SIZE_def)
  then show 1: "unat (of_nat (length (payload_of enc msg)) :: u32) = length (payload_of enc msg)"
    by (simp add: unat_of_nat)
  show "\<not> MAX_PAYLOAD_SIZE < of_nat (length (payload_of enc msg))"
    using assms 1 by (simp add: tcp_valid_def word_less_nat_alt)
qed

lemma decode_frame:
  assumes "tcp_valid enc dec msg"
  shows "decode dec (tcp_frame enc msg @ rest) = (Inr (Some msg), rest)"
proof -
  have "prost_ok enc dec msg" using assms by (simp add: tcp_valid_def)
  then show ?thesis
    using tcp_valid_len [OF assms] deserialize_payload [of enc dec msg]
    by (simp add: tcp_frame_def decode_header)
qed

lemma decode_prefix:
  assumes "tcp_valid enc dec msg" and "tcp_frame enc msg = p @ q" and "q \<noteq> []"
  shows "decode dec p = (Inr None, p)"
proof (cases "length p < 6")
  case True
  then show ?thesis by (simp add: decode_def HEADER_SIZE_def)
next
  case False
  let ?h = "be16 (type_id msg) @ be32 (of_nat (length (payload_of enc msg)))"
  have "?h @ payload_of enc msg = p @ q" using assms(2) by (simp add: tcp_frame_def)
  moreover have "length ?h = 6" by simp
  ultimately obtain body where "p = ?h @ body" "payload_of enc msg = body @ q"
    using False append_eq_longE [of p q ?h "payload_of enc msg"] by (metis not_less)
  then show ?thesis
    using assms(3) tcp_valid_len [OF assms(1)] by (simp add: decode_header)
qed

interpretation tcp: frame_codec "tcp_frame enc" "decode dec" "tcp_valid enc dec"
  by unfold_locales (simp_all add: decode_frame decode_prefix)

section \<open>Properties\<close>

fun TcpReader_recvs :: "prost_dec \<Rightarrow> nat \<Rightarrow> TcpReader \<Rightarrow> ControlMessage result list \<times> TcpReader" where
  "TcpReader_recvs dec 0 r = ([], r)"
| "TcpReader_recvs dec (Suc n) r =
     (let (res, r') = TcpReader_recv dec r; (ress, r'') = TcpReader_recvs dec n r' in (res # ress, r''))"

definition TcpWriter_sends :: "prost_enc \<Rightarrow> ControlMessage list \<Rightarrow> TcpWriter \<Rightarrow> TcpWriter" where
  "TcpWriter_sends enc ms w = fold (\<lambda>m w. snd (TcpWriter_send enc m w)) ms w"

lemma TcpReader_recvs_many:
  "TcpReader_recvs dec n r =
     (let (ress, buf, chunks) = recv_many (read_end (read_error r)) (decode dec) n (read_buf r) (reader r)
      in (ress, r\<lparr>read_buf := buf, reader := chunks\<rparr>))"
  by (induction n arbitrary: r) (simp_all add: TcpReader_recv_def split: prod.splits)

lemma TcpWriter_send_open:
  "write_fault w = None \<Longrightarrow> TcpWriter_send enc m w = (Inr (), w\<lparr>writer := writer w @ tcp_frame enc m\<rparr>)"
  by (simp add: TcpWriter_send_def encode_tcp_frame write_all_def flush_writer_def)

lemma writer_sends:
  "write_fault w = None \<Longrightarrow> writer (TcpWriter_sends enc ms w) = writer w @ concat (map (tcp_frame enc) ms)"
proof (induction ms arbitrary: w)
  case (Cons m ms)
  then show ?case
    using Cons.IH [of "w\<lparr>writer := writer w @ tcp_frame enc m\<rparr>"]
    by (simp add: TcpWriter_sends_def TcpWriter_send_open)
qed (simp add: TcpWriter_sends_def)

lemma decode_Nil: "decode dec [] = (Inr None, [])"
  by (simp add: decode_def HEADER_SIZE_def)

lemma concat_Nil_no_empty: "concat chunks = [] \<Longrightarrow> [] \<notin> set chunks \<Longrightarrow> chunks = []"
  by (cases chunks) auto

text \<open>C3: The TCP control stream. Whatever messages are sent (each with a payload of at most 8 MiB),
  and however the network cuts the byte stream into non-empty chunks, the reader delivers exactly
  these messages in order, and then reports the end of the stream, or the error with which the connection broke, with an empty buffer.\<close>

theorem tcp_stream_delivers:
  assumes "\<forall>m \<in> set ms. prost_ok enc dec m \<and> length (payload_of enc m) \<le> 8388608"
    and "[] \<notin> set chunks"
    and "concat chunks = writer (TcpWriter_sends enc ms \<lparr>writer = [], write_fault = None\<rparr>)"
  shows "TcpReader_recvs dec (length ms) \<lparr>reader = chunks, read_buf = [], read_error = f\<rparr> =
           (map Inr ms, \<lparr>reader = [], read_buf = [], read_error = f\<rparr>) \<and>
         TcpReader_recv dec \<lparr>reader = [], read_buf = [], read_error = f\<rparr> =
           (Inl (case f of None \<Rightarrow> ConnectionClosed | Some k \<Rightarrow> Io k), \<lparr>reader = [], read_buf = [], read_error = f\<rparr>)"
proof -
  have "\<forall>m \<in> set ms. tcp_valid enc dec m"
    using assms(1) by (simp add: tcp_valid_def MAX_PAYLOAD_SIZE_def)
  from tcp.recv_many_stream [OF this assms(2), of "[]" "[]" "read_end f"] assms(3) obtain b c where
    "recv_many (read_end f) (decode dec) (length ms) [] chunks = (map Inr ms, b, c)" "b @ concat c = []" "[] \<notin> set c"
    by (auto simp: writer_sends)
  then show ?thesis
    using concat_Nil_no_empty [of c]
    by (simp add: TcpReader_recvs_many TcpReader_recv_def recv_loop.simps decode_Nil read_end_def)
qed

definition demo_enc :: prost_enc where
  "demo_enc m = [10, 20, 30]"

definition demo_dec :: prost_dec where
  "demo_dec t p = (if t = MT_Ping \<and> p = [10, 20, 30] then Inr (CM_Ping default_Ping) else Inl ''bad'')"

theorem tcp_stream_delivers_witness:
  "TcpReader_recvs demo_dec 2
     \<lparr>reader = [[0, 3, 0, 0, 0, 3, 10], [20, 30, 0], [1, 0, 0, 0, 1, 99]], read_buf = [], read_error = Some ConnectionReset\<rparr> =
     ([Inr (CM_Ping default_Ping), Inr (CM_UdpTunnel [99])], \<lparr>reader = [], read_buf = [], read_error = Some ConnectionReset\<rparr>) \<and>
   TcpReader_recv demo_dec \<lparr>reader = [], read_buf = [], read_error = Some ConnectionReset\<rparr> =
     (Inl (Io ConnectionReset), \<lparr>reader = [], read_buf = [], read_error = Some ConnectionReset\<rparr>)"
proof -
  let ?ms = "[CM_Ping default_Ping, CM_UdpTunnel [99]]"
  let ?chunks = "[[0, 3, 0, 0, 0, 3, 10], [20, 30, 0], [1, 0, 0, 0, 1, 99]] :: bytes list"
  have "\<forall>m \<in> set ?ms. prost_ok demo_enc demo_dec m \<and> length (payload_of demo_enc m) \<le> 8388608"
    by (simp add: prost_ok_def demo_enc_def demo_dec_def payload_of_def)
  moreover have "concat ?chunks = writer (TcpWriter_sends demo_enc ?ms \<lparr>writer = [], write_fault = None\<rparr>)"
    by (simp add: writer_sends tcp_frame_def demo_enc_def payload_of_def type_id_def be16_def be32_def)
  ultimately have "TcpReader_recvs demo_dec (length ?ms) \<lparr>reader = ?chunks, read_buf = [], read_error = Some ConnectionReset\<rparr> =
      (map Inr ?ms, \<lparr>reader = [], read_buf = [], read_error = Some ConnectionReset\<rparr>) \<and>
    TcpReader_recv demo_dec \<lparr>reader = [], read_buf = [], read_error = Some ConnectionReset\<rparr> =
      (Inl (Io ConnectionReset), \<lparr>reader = [], read_buf = [], read_error = Some ConnectionReset\<rparr>)"
    using tcp_stream_delivers [of ?ms demo_enc demo_dec ?chunks "Some ConnectionReset"] by simp
  moreover have "length ?ms = 2" by simp
  ultimately show ?thesis by (simp only: list.map)
qed

text \<open>The reader waits with a bounded buffer. When \<^verbatim>\<open>decode\<close> asks for more data it has taken
  nothing from the buffer, and the buffer is shorter than a header plus the largest payload.\<close>

theorem decode_waits_bounded:
  assumes "decode dec buf = (Inr None, rest)"
  shows "rest = buf \<and> length buf < 6 + 8388608"
proof -
  have "unat l \<le> 8388608" if "\<not> MAX_PAYLOAD_SIZE < l" for l :: u32
    using that by (simp add: MAX_PAYLOAD_SIZE_def word_less_nat_alt)
  from this [of "from_be32 (buf ! 2) (buf ! 3) (buf ! 4) (buf ! 5)"] show ?thesis
    using assms by (auto simp: decode_def HEADER_SIZE_def Let_def split: if_splits sum.splits)
qed

theorem decode_waits_bounded_witness:
  "[0, 3, 0, 0, 0, 3, 10] = [0, 3, 0, 0, 0, 3, 10 :: u8] \<and>
   length [0, 3, 0, 0, 0, 3, 10 :: u8] < 6 + 8388608"
  by (rule decode_waits_bounded [of demo_dec])
     (simp add: decode_def HEADER_SIZE_def MAX_PAYLOAD_SIZE_def from_be32_def)

text \<open>C38: The encoder does not enforce the decoder's limit. A message whose payload is larger than
  8 MiB (and below 4 GiB) is encoded without an error, and the decoder refuses the frame without
  consuming it, so every later receive on that stream fails the same way.\<close>

theorem oversized_frame_blocks:
  assumes "8388608 < length (payload_of enc msg)" and "length (payload_of enc msg) < 2 ^ 32"
  shows "\<exists>frame e. encode enc msg = Inr frame \<and>
           (\<forall>rest chunks f.
              TcpReader_recv dec \<lparr>reader = chunks, read_buf = frame @ rest, read_error = f\<rparr> =
                (Inl (InvalidState e), \<lparr>reader = chunks, read_buf = frame @ rest, read_error = f\<rparr>))"
proof -
  let ?l = "of_nat (length (payload_of enc msg)) :: u32"
  have "unat ?l = length (payload_of enc msg)" using assms(2) by (simp add: unat_of_nat)
  then have "MAX_PAYLOAD_SIZE < ?l"
    using assms(1) by (simp add: word_less_nat_alt MAX_PAYLOAD_SIZE_def)
  then have "decode dec (tcp_frame enc msg @ rest) =
      (Inl (InvalidState (''payload too large: '' @ show_nat (unat ?l) @ '' bytes'')),
       tcp_frame enc msg @ rest)" for rest
    by (simp add: tcp_frame_def decode_header)
  then show ?thesis
    by (intro exI) (auto simp: encode_tcp_frame TcpReader_recv_def recv_loop.simps)
qed

theorem oversized_frame_blocks_witness:
  "\<exists>frame e. encode demo_enc (CM_UdpTunnel (replicate 9000000 0)) = Inr frame \<and>
     (\<forall>rest chunks f.
        TcpReader_recv demo_dec \<lparr>reader = chunks, read_buf = frame @ rest, read_error = f\<rparr> =
          (Inl (InvalidState e), \<lparr>reader = chunks, read_buf = frame @ rest, read_error = f\<rparr>))"
  by (rule oversized_frame_blocks) (simp_all add: payload_of_def)

end
