(* ===== verification/Fancy_Codec.thy ===== *)
theory Fancy_Codec
  imports Fancy_Utils Tcp_Codec Server_State
begin

text \<open>
  The codec of the extension messages (src/crates/mumble-protocol/src/fancy_codec.rs) and the table of
  the server versions they need (fancy_message_support.rs): which messages are sent natively, which
  are wrapped in a \<^verbatim>\<open>PluginDataTransmission\<close> for a server that does not know them, and how a
  wrapped message is unwrapped. The codec of a connection is a value of \<open>FancyCodec\<close>; its methods
  take the protobuf codec \<open>enc\<close>/\<open>dec\<close> as in Tcp_Codec.
\<close>

section \<open>Message support\<close>

datatype FallbackPolicy = FP_PluginData | FP_ServerOnly

record MessageSupport =
  min_version :: u64
  fallback :: FallbackPolicy

definition message_support :: "ControlMessage \<Rightarrow> MessageSupport option" where
  "message_support msg =
     (case msg of
        CM_PchatMessage _ \<Rightarrow> Some \<lparr>min_version = fancy_version_encode 0 2 12, fallback = FP_ServerOnly\<rparr>
      | CM_PchatFetch _ \<Rightarrow> Some \<lparr>min_version = fancy_version_encode 0 2 12, fallback = FP_ServerOnly\<rparr>
      | CM_PchatFetchResponse _ \<Rightarrow> Some \<lparr>min_version = fancy_version_encode 0 2 12, fallback = FP_ServerOnly\<rparr>
      | CM_PchatMessageDeliver _ \<Rightarrow> Some \<lparr>min_version = fancy_version_encode 0 2 12, fallback = FP_ServerOnly\<rparr>
      | CM_PchatKeyAnnounce _ \<Rightarrow> Some \<lparr>min_version = fancy_version_encode 0 2 12, fallback = FP_ServerOnly\<rparr>
      | CM_PchatKeyExchange _ \<Rightarrow> Some \<lparr>min_version = fancy_version_encode 0 2 12, fallback = FP_ServerOnly\<rparr>
      | CM_PchatKeyRequest _ \<Rightarrow> Some \<lparr>min_version = fancy_version_encode 0 2 12, fallback = FP_ServerOnly\<rparr>
      | CM_PchatAck _ \<Rightarrow> Some \<lparr>min_version = fancy_version_encode 0 2 12, fallback = FP_ServerOnly\<rparr>
      | CM_PchatEpochCountersig _ \<Rightarrow> Some \<lparr>min_version = fancy_version_encode 0 2 12, fallback = FP_ServerOnly\<rparr>
      | CM_PchatKeyHolderReport _ \<Rightarrow> Some \<lparr>min_version = fancy_version_encode 0 2 12, fallback = FP_ServerOnly\<rparr>
      | CM_PchatKeyHoldersQuery _ \<Rightarrow> Some \<lparr>min_version = fancy_version_encode 0 2 12, fallback = FP_ServerOnly\<rparr>
      | CM_PchatKeyHoldersList _ \<Rightarrow> Some \<lparr>min_version = fancy_version_encode 0 2 12, fallback = FP_ServerOnly\<rparr>
      | CM_PchatKeyChallenge _ \<Rightarrow> Some \<lparr>min_version = fancy_version_encode 0 2 12, fallback = FP_ServerOnly\<rparr>
      | CM_PchatKeyChallengeResponse _ \<Rightarrow> Some \<lparr>min_version = fancy_version_encode 0 2 12, fallback = FP_ServerOnly\<rparr>
      | CM_PchatKeyChallengeResult _ \<Rightarrow> Some \<lparr>min_version = fancy_version_encode 0 2 12, fallback = FP_ServerOnly\<rparr>
      | CM_PchatDeleteMessages _ \<Rightarrow> Some \<lparr>min_version = fancy_version_encode 0 2 12, fallback = FP_ServerOnly\<rparr>
      | CM_PchatOfflineQueueDrain _ \<Rightarrow> Some \<lparr>min_version = fancy_version_encode 0 2 12, fallback = FP_ServerOnly\<rparr>
      | CM_PchatReaction _ \<Rightarrow> Some \<lparr>min_version = fancy_version_encode 0 2 12, fallback = FP_ServerOnly\<rparr>
      | CM_PchatReactionDeliver _ \<Rightarrow> Some \<lparr>min_version = fancy_version_encode 0 2 12, fallback = FP_ServerOnly\<rparr>
      | CM_PchatReactionFetchResponse _ \<Rightarrow> Some \<lparr>min_version = fancy_version_encode 0 2 12, fallback = FP_ServerOnly\<rparr>
      | CM_WebRtcSignal _ \<Rightarrow> Some \<lparr>min_version = fancy_version_encode 0 2 12, fallback = FP_PluginData\<rparr>
      | CM_PchatSenderKeyDistribution _ \<Rightarrow> Some \<lparr>min_version = fancy_version_encode 0 2 12, fallback = FP_PluginData\<rparr>
      | CM_FancyPushRegister _ \<Rightarrow> Some \<lparr>min_version = fancy_version_encode 0 2 12, fallback = FP_ServerOnly\<rparr>
      | CM_FancyPushUpdate _ \<Rightarrow> Some \<lparr>min_version = fancy_version_encode 0 2 12, fallback = FP_ServerOnly\<rparr>
      | CM_FancyCustomReactionsConfig _ \<Rightarrow> Some \<lparr>min_version = fancy_version_encode 0 2 12, fallback = FP_ServerOnly\<rparr>
      | CM_FancySubscribePush _ \<Rightarrow> Some \<lparr>min_version = fancy_version_encode 0 2 12, fallback = FP_ServerOnly\<rparr>
      | CM_FancyReadReceipt _ \<Rightarrow> Some \<lparr>min_version = fancy_version_encode 0 2 12, fallback = FP_ServerOnly\<rparr>
      | CM_FancyReadReceiptDeliver _ \<Rightarrow> Some \<lparr>min_version = fancy_version_encode 0 2 12, fallback = FP_ServerOnly\<rparr>
      | CM_PchatPin _ \<Rightarrow> Some \<lparr>min_version = fancy_version_encode 0 2 16, fallback = FP_ServerOnly\<rparr>
      | CM_PchatPinDeliver _ \<Rightarrow> Some \<lparr>min_version = fancy_version_encode 0 2 16, fallback = FP_ServerOnly\<rparr>
      | CM_PchatPinFetchResponse _ \<Rightarrow> Some \<lparr>min_version = fancy_version_encode 0 2 16, fallback = FP_ServerOnly\<rparr>
      | CM_FancyTypingIndicator _ \<Rightarrow> Some \<lparr>min_version = fancy_version_encode 0 2 18, fallback = FP_PluginData\<rparr>
      | CM_FancyWatchSync _ \<Rightarrow> Some \<lparr>min_version = fancy_version_encode 0 2 20, fallback = FP_PluginData\<rparr>
      | CM_FancyDrawStroke _ \<Rightarrow> Some \<lparr>min_version = fancy_version_encode 0 3 0, fallback = FP_ServerOnly\<rparr>
      | _ \<Rightarrow> None)"

section \<open>Codecs\<close>

definition FANCY_NATIVE_MIN_VERSION :: u64 where
  "FANCY_NATIVE_MIN_VERSION = fancy_version_encode 0 2 12"

definition WRAPPED_DATA_ID_PREFIX :: string where
  "WRAPPED_DATA_ID_PREFIX = ''fancy-native:''"

datatype FancyCodec = NativeCodec u64 | LegacyCodec

definition select_codec :: "u64 option \<Rightarrow> FancyCodec" where
  "select_codec version_opt =
     (case version_opt of
        Some v \<Rightarrow> if v \<ge> FANCY_NATIVE_MIN_VERSION then NativeCodec v else LegacyCodec
      | None \<Rightarrow> LegacyCodec)"

definition patch_sender_session :: "ControlMessage \<Rightarrow> u32 option \<Rightarrow> ControlMessage" where
  "patch_sender_session msg sender =
     (case msg of
        CM_FancyTypingIndicator ti \<Rightarrow>
          if FancyTypingIndicator_actor ti = None
          then CM_FancyTypingIndicator (ti\<lparr>FancyTypingIndicator_actor := sender\<rparr>) else msg
      | CM_FancyWatchSync ws \<Rightarrow>
          if FancyWatchSync_actor ws = None
          then CM_FancyWatchSync (ws\<lparr>FancyWatchSync_actor := sender\<rparr>) else msg
      | _ \<Rightarrow> msg)"

definition sessions_in_channel_except :: "ServerState \<Rightarrow> u32 \<Rightarrow> u32 \<Rightarrow> u32 list" where
  "sessions_in_channel_except state channel own =
     map User_session
       (filter (\<lambda>u. User_channel_id u = channel \<and> User_session u \<noteq> own) (hm_values (users state)))"

definition channel_members_except_self :: "ServerState \<Rightarrow> u32 \<Rightarrow> u32 list" where
  "channel_members_except_self state own =
     (let own_channel = (case hm_get (users state) own of None \<Rightarrow> 0 | Some u \<Rightarrow> User_channel_id u)
      in sessions_in_channel_except state own_channel own)"

definition unwrap_or_0 :: "u32 option \<Rightarrow> u32" where
  "unwrap_or_0 x = (case x of None \<Rightarrow> 0 | Some v \<Rightarrow> v)"

definition extract_receiver_sessions :: "ControlMessage \<Rightarrow> ServerState \<Rightarrow> u32 list" where
  "extract_receiver_sessions msg state =
     (let own = unwrap_or_0 (own_session state)
      in case msg of
           CM_WebRtcSignal signal \<Rightarrow>
             (let target = unwrap_or_0 (WebRtcSignal_target_session signal)
              in if target \<noteq> 0 then [target] else channel_members_except_self state own)
         | CM_PchatSenderKeyDistribution skd \<Rightarrow>
             sessions_in_channel_except state
               (unwrap_or_0 (PchatSenderKeyDistribution_channel_id skd)) own
         | CM_FancyTypingIndicator _ \<Rightarrow> channel_members_except_self state own
         | CM_FancyWatchSync _ \<Rightarrow> channel_members_except_self state own
         | _ \<Rightarrow> [])"

definition LegacyCodec_encode ::
    "prost_enc \<Rightarrow> ControlMessage \<Rightarrow> ServerState \<Rightarrow> ControlMessage option" where
  "LegacyCodec_encode enc msg state =
     (if \<not> is_fancy_extension msg then Some msg
      else
        let receiver_sessions = extract_receiver_sessions msg state
        in if receiver_sessions = [] then None
           else case serialize_control_message enc msg of
                  Inl e \<Rightarrow> None
                | Inr (ty, payload) \<Rightarrow>
                    Some (CM_PluginDataTransmission
                      \<lparr>PluginDataTransmission_sender_session = None,
                       PluginDataTransmission_receiver_sessions = receiver_sessions,
                       PluginDataTransmission_data = Some payload,
                       PluginDataTransmission_data_id =
                         Some (WRAPPED_DATA_ID_PREFIX @ show_nat (unat ty))\<rparr>))"

text \<open>\<^verbatim>\<open>str::strip_prefix\<close>.\<close>

definition strip_prefix :: "string \<Rightarrow> string \<Rightarrow> string option" where
  "strip_prefix prefix s =
     (if take (length prefix) s = prefix then Some (drop (length prefix) s) else None)"

definition LegacyCodec_decode :: "prost_dec \<Rightarrow> ControlMessage \<Rightarrow> ControlMessage" where
  "LegacyCodec_decode dec msg =
     (case msg of
        CM_PluginDataTransmission pd \<Rightarrow>
          (case PluginDataTransmission_data_id pd of
             None \<Rightarrow> msg
           | Some data_id \<Rightarrow>
               (case strip_prefix WRAPPED_DATA_ID_PREFIX data_id of
                  None \<Rightarrow> msg
                | Some type_id_str \<Rightarrow>
                    (case from_str_radix 10 (2 ^ 16) type_id_str of
                       None \<Rightarrow> msg
                     | Some ty \<Rightarrow>
                         (case PluginDataTransmission_data pd of
                            None \<Rightarrow> msg
                          | Some payload \<Rightarrow>
                              (case deserialize_control_message dec (of_nat ty) payload of
                                 Inr decoded \<Rightarrow>
                                   patch_sender_session decoded (PluginDataTransmission_sender_session pd)
                               | Inl e \<Rightarrow> msg)))))
      | _ \<Rightarrow> msg)"

definition NativeCodec_encode ::
    "prost_enc \<Rightarrow> u64 \<Rightarrow> ControlMessage \<Rightarrow> ServerState \<Rightarrow> ControlMessage option" where
  "NativeCodec_encode enc server_version msg state =
     (if \<not> is_fancy_extension msg then Some msg
      else case message_support msg of
             Some s \<Rightarrow>
               if server_version \<ge> min_version s then Some msg
               else if fallback s = FP_PluginData then LegacyCodec_encode enc msg state
               else None
           | None \<Rightarrow> Some msg)"

definition NativeCodec_decode :: "prost_dec \<Rightarrow> ControlMessage \<Rightarrow> ControlMessage" where
  "NativeCodec_decode dec msg = LegacyCodec_decode dec msg"

fun codec_encode ::
    "prost_enc \<Rightarrow> FancyCodec \<Rightarrow> ControlMessage \<Rightarrow> ServerState \<Rightarrow> ControlMessage option" where
  "codec_encode enc (NativeCodec v) = NativeCodec_encode enc v"
| "codec_encode enc LegacyCodec = LegacyCodec_encode enc"

fun codec_decode :: "prost_dec \<Rightarrow> FancyCodec \<Rightarrow> ControlMessage \<Rightarrow> ControlMessage" where
  "codec_decode dec (NativeCodec v) = NativeCodec_decode dec"
| "codec_decode dec LegacyCodec = LegacyCodec_decode dec"

section \<open>Lemmas\<close>

lemma strip_prefix_append [simp]: "strip_prefix p (p @ s) = Some s"
  by (simp add: strip_prefix_def)

lemma extension_not_tunnel: "is_fancy_extension msg \<Longrightarrow> message_type msg \<noteq> MT_UdpTunnel"
  by (auto simp: is_fancy_extension_iff type_id_def)



lemma legacy_encode_receivers:
  assumes "is_fancy_extension msg" and "LegacyCodec_encode enc msg state = Some wrapped"
  shows "\<exists>pd. wrapped = CM_PluginDataTransmission pd \<and>
           PluginDataTransmission_receiver_sessions pd = extract_receiver_sessions msg state \<and>
           extract_receiver_sessions msg state \<noteq> []"
  using assms
  by (auto simp: LegacyCodec_encode_def Let_def serialize_control_message_def split: if_splits)

section \<open>The contract of a codec\<close>






lemma message_support_None:
  "message_support m = None \<longleftrightarrow> \<not> is_fancy_extension m \<or>
     message_type m \<in> {MT_FancyLinkPreviewRequest, MT_FancyLinkPreviewResponse}"
  by (cases m) (simp_all add: message_support_def is_fancy_extension_iff type_id_def)

lemma plugin_data_not_extension: "\<not> is_fancy_extension (CM_PluginDataTransmission pd)"
  by (simp add: is_fancy_extension_iff type_id_def)

section \<open>Properties\<close>





definition demo_reject :: ControlMessage where
  "demo_reject = CM_Reject (default_Reject\<lparr>Reject_reason := Some ''no''\<rparr>)"

definition demo_typing :: ControlMessage where
  "demo_typing = CM_FancyTypingIndicator (default_FancyTypingIndicator\<lparr>FancyTypingIndicator_channel_id := Some 3\<rparr>)"

definition demo_codec_enc :: prost_enc where
  "demo_codec_enc m = [1, 2]"

definition demo_codec_dec :: prost_dec where
  "demo_codec_dec t p = (if t = MT_Reject then Inr demo_reject
     else if t = MT_FancyTypingIndicator then Inr demo_typing else Inl ''bad'')"

lemma demo_prost_ok:
  "prost_ok demo_codec_enc demo_codec_dec demo_reject" "prost_ok demo_codec_enc demo_codec_dec demo_typing"
  by (simp_all add: prost_ok_def demo_reject_def demo_typing_def demo_codec_dec_def)

text \<open>Two users in channel 3; we are session 5.\<close>

definition demo_channel_state :: ServerState where
  "demo_channel_state = ServerState_new\<lparr>connection := (connection ServerState_new)\<lparr>session_id := Some 5\<rparr>,
     users := [(5, (new_User 5)\<lparr>User_channel_id := 3\<rparr>), (6, (new_User 6)\<lparr>User_channel_id := 3\<rparr>)]\<rparr>"


text \<open>A server gets only the extension messages it understands. When an extension message is sent
  in its native form, the server announced a version from which on the table says it is understood,
  and at least 0.2.12; the only messages without an entry in the table are the link-preview request
  and response, which go natively to every server with an extension codec.\<close>

theorem native_only_if_supported:
  assumes "is_fancy_extension m" and "codec_encode enc (select_codec v) m st = Some w"
    and "is_fancy_extension w"
  shows "w = m \<and> (\<exists>n. v = Some n \<and> fancy_version_encode 0 2 12 \<le> n \<and>
           (case message_support m of
              Some s \<Rightarrow> min_version s \<le> n
            | None \<Rightarrow> message_type m \<in> {MT_FancyLinkPreviewRequest, MT_FancyLinkPreviewResponse}))"
proof -
  have no: "LegacyCodec_encode enc m st \<noteq> Some w"
    using legacy_encode_receivers [OF assms(1), of enc st w] assms(3) plugin_data_not_extension by auto
  then obtain n where n: "v = Some n" "FANCY_NATIVE_MIN_VERSION \<le> n" "select_codec v = NativeCodec n"
    using assms(2) by (auto simp: select_codec_def split: option.splits if_splits)
  show ?thesis
  proof (cases "message_support m")
    case None
    then show ?thesis
      using n assms(1,2) message_support_None [of m]
      by (auto simp: NativeCodec_encode_def FANCY_NATIVE_MIN_VERSION_def)
  next
    case (Some s)
    then show ?thesis
      using n no assms(1,2)
      by (auto simp: NativeCodec_encode_def FANCY_NATIVE_MIN_VERSION_def split: if_splits)
  qed
qed

theorem native_only_if_supported_witness:
  "demo_typing = demo_typing \<and>
   (\<exists>n. Some (fancy_version_encode 0 2 18) = Some n \<and> fancy_version_encode 0 2 12 \<le> n \<and>
      (case message_support demo_typing of
         Some s \<Rightarrow> min_version s \<le> n
       | None \<Rightarrow> message_type demo_typing \<in> {MT_FancyLinkPreviewRequest, MT_FancyLinkPreviewResponse}))"
proof (rule native_only_if_supported)
  show ext: "is_fancy_extension demo_typing"
    by (simp add: is_fancy_extension_iff type_id_def demo_typing_def)
  then show "is_fancy_extension demo_typing" .
  show "codec_encode demo_codec_enc (select_codec (Some (fancy_version_encode 0 2 18))) demo_typing
      demo_channel_state = Some demo_typing"
    using ext by (simp add: select_codec_def FANCY_NATIVE_MIN_VERSION_def version_le NativeCodec_encode_def
        message_support_def demo_typing_def)
qed

text \<open>Who receives a relayed message. In a well-formed state, typing indicators, watch-together
  events and broadcast WebRTC signals are addressed to exactly the other users of our channel, and a
  sender key to exactly the other users of the channel it names; never to ourselves.\<close>

theorem relay_receivers:
  assumes "state_wf state"
  defines "own \<equiv> unwrap_or_0 (own_session state)"
  defines "own_channel \<equiv> (case hm_get (users state) own of None \<Rightarrow> 0 | Some u \<Rightarrow> User_channel_id u)"
  shows "set (extract_receiver_sessions (CM_FancyTypingIndicator ti) state) =
           {k. \<exists>u. hm_get (users state) k = Some u \<and> User_channel_id u = own_channel \<and> k \<noteq> own} \<and>
         set (extract_receiver_sessions (CM_FancyWatchSync ws) state) =
           {k. \<exists>u. hm_get (users state) k = Some u \<and> User_channel_id u = own_channel \<and> k \<noteq> own} \<and>
         set (extract_receiver_sessions (CM_PchatSenderKeyDistribution skd) state) =
           {k. \<exists>u. hm_get (users state) k = Some u \<and> k \<noteq> own \<and>
                User_channel_id u = unwrap_or_0 (PchatSenderKeyDistribution_channel_id skd)}"
proof -
  have wf: "hm_wf (users state)" and key: "\<And>k u. hm_get (users state) k = Some u \<Longrightarrow> User_session u = k"
    using assms(1) by (auto simp: state_wf_def hm_keyed_def)
  have "set (sessions_in_channel_except state c own) =
      {k. \<exists>u. hm_get (users state) k = Some u \<and> User_channel_id u = c \<and> k \<noteq> own}" for c
  proof -
    have "k \<in> set (sessions_in_channel_except state c own) \<longleftrightarrow>
        (\<exists>u. u \<in> set (hm_values (users state)) \<and> User_channel_id u = c \<and> User_session u \<noteq> own \<and>
             k = User_session u)" for k
      unfolding sessions_in_channel_except_def by (simp only: set_map set_filter) blast
    then have "k \<in> set (sessions_in_channel_except state c own) \<longleftrightarrow>
        (\<exists>u j. hm_get (users state) j = Some u \<and> User_channel_id u = c \<and> User_session u \<noteq> own \<and>
             k = User_session u)" for k
      unfolding set_hm_values [OF wf] by blast
    moreover have "(\<exists>u j. hm_get (users state) j = Some u \<and> User_channel_id u = c \<and> User_session u \<noteq> own \<and>
             k = User_session u) \<longleftrightarrow> (\<exists>u. hm_get (users state) k = Some u \<and> User_channel_id u = c \<and> k \<noteq> own)" for k
      by (metis key)
    ultimately show ?thesis by auto
  qed
  then show ?thesis
    by (auto simp: extract_receiver_sessions_def channel_members_except_self_def Let_def own_def own_channel_def)
qed

lemma demo_channel_state_wf: "state_wf demo_channel_state"
  by (auto simp: state_wf_def demo_channel_state_def ServerState_new_def hm_keyed_def hm_wf_def new_User_def
      split: if_splits)

theorem relay_receivers_witness:
  "set (extract_receiver_sessions (CM_FancyTypingIndicator default_FancyTypingIndicator) demo_channel_state) =
     {k. \<exists>u. hm_get (users demo_channel_state) k = Some u \<and>
        User_channel_id u = (case hm_get (users demo_channel_state) (unwrap_or_0 (own_session demo_channel_state)) of
          None \<Rightarrow> 0 | Some u \<Rightarrow> User_channel_id u) \<and>
        k \<noteq> unwrap_or_0 (own_session demo_channel_state)}"
  using relay_receivers [OF demo_channel_state_wf] by blast

text \<open>A peer can inject standard messages. The unwrapping does not check that the wrapped type is an
  extension: for every message, also a standard one such as \<^verbatim>\<open>Reject\<close> or \<^verbatim>\<open>CryptSetup\<close> that only the
  server may send, plug-in data from any peer with its type number and payload is decoded to it.\<close>

theorem peer_injects_any_message:
  assumes "prost_ok enc dec m"
    and "PluginDataTransmission_data pd = Some (payload_of enc m)"
    and "PluginDataTransmission_data_id pd = Some (''fancy-native:'' @ show_nat (unat (type_id m)))"
  shows "codec_decode dec c (CM_PluginDataTransmission pd) =
           patch_sender_session m (PluginDataTransmission_sender_session pd)"
proof -
  have "codec_decode dec c x = LegacyCodec_decode dec x" for x
    by (cases c) (simp_all add: NativeCodec_decode_def)
  moreover have "strip_prefix WRAPPED_DATA_ID_PREFIX (''fancy-native:'' @ s) = Some s" for s
    using strip_prefix_append [of "''fancy-native:''" s] by (simp add: WRAPPED_DATA_ID_PREFIX_def)
  moreover have "from_str_radix 10 (2 ^ 16) (show_nat (unat (type_id m))) = Some (unat (type_id m))"
    using unsigned_less [of "type_id m"] by (intro from_str_radix_show_nat) simp
  ultimately show ?thesis
    using assms(2,3) deserialize_payload [OF assms(1)] by (simp add: LegacyCodec_decode_def)
qed

theorem peer_injects_any_message_witness:
  "codec_decode demo_codec_dec LegacyCodec (CM_PluginDataTransmission
     \<lparr>PluginDataTransmission_sender_session = Some 9, PluginDataTransmission_receiver_sessions = [5],
      PluginDataTransmission_data = Some (payload_of demo_codec_enc demo_reject),
      PluginDataTransmission_data_id = Some (''fancy-native:'' @ show_nat (unat (type_id demo_reject)))\<rparr>) =
   demo_reject"
  using peer_injects_any_message [OF demo_prost_ok(1), of
      "\<lparr>PluginDataTransmission_sender_session = Some 9, PluginDataTransmission_receiver_sessions = [5],
        PluginDataTransmission_data = Some (payload_of demo_codec_enc demo_reject),
        PluginDataTransmission_data_id = Some (''fancy-native:'' @ show_nat (unat (type_id demo_reject)))\<rparr>"
      LegacyCodec]
  by (simp add: patch_sender_session_def demo_reject_def)

end
