(* ===== verification/Client_Udp.thy ===== *)
theory Client_Udp
  imports Work_Queue Udp Fancy_Codec
begin

text \<open>
  The state of the client's event loop and its UDP side (src/crates/mumble-protocol/src/client.rs,
  event.rs): sending encrypted datagrams with the TCP tunnel as fallback, the key set-up, the
  runtime switch of \<^verbatim>\<open>force_tcp\<close>, and the task that reads datagrams and asks for a nonce resync.

  The locals of \<^verbatim>\<open>event_loop\<close> that its tasks share are the record \<open>event_loop\<close>. The callbacks of the
  \<^verbatim>\<open>EventHandler\<close> are recorded in order in \<open>handler\<close>. Third-party code and IEEE arithmetic are the
  record \<open>libs\<close>; what one iteration reads from its surroundings (clocks, the outcome of opening a
  socket) is the record \<open>env\<close>; a UDP socket carries the fates of its coming send calls.
\<close>

section \<open>Parameters\<close>

record libs =
  l_enc :: prost_enc
  l_dec :: prost_dec
  l_aenc :: audio_enc
  l_adec :: audio_dec
  l_penc :: ping_enc
  l_pdec :: ping_dec
  l_E :: aes_fun
  l_D :: aes_fun
  l_fo :: "f32 float_ops"
  l_as_f32 :: "u64 \<Rightarrow> f32"

text \<open>\<open>fate\<close>: for each coming attempt \<open>None\<close> when the system takes the datagram, or the error it
  gives; attempts beyond the list succeed.\<close>

record udp_socket =
  sent :: "bytes list"
  fate :: "io_error_kind option list"

text \<open>\<open>now_ms\<close> and \<open>ping_ms\<close> are the readings of the system clock by the message handler and by
  \<^verbatim>\<open>udp_ping_message\<close>; \<open>instant\<close> is the monotonic clock in milliseconds; \<open>udp_connect\<close> is
  the outcome of \<^verbatim>\<open>UdpTransport::connect\<close>.\<close>

record env =
  now_ms :: u64
  ping_ms :: u64
  instant :: nat
  udp_connect :: "UdpConfig \<Rightarrow> udp_socket result"

datatype client_event =
  OnControlMessage ControlMessage
| OnUdpMessage UdpMessage
| OnConnected
| OnDisconnected
| OnAudioTransportChanged bool
| OnPingStats PacketStats PacketStats

section \<open>The state of the event loop\<close>

record UdpSender =
  snd_socket :: udp_socket
  snd_crypt :: Ocb2CryptState

record StoredCrypto =
  sc_key :: bytes
  sc_client_nonce :: bytes
  sc_server_nonce :: bytes

text \<open>The spawned \<^verbatim>\<open>udp_reader_loop\<close>: its locals, and whether it still runs.\<close>

record UdpReader =
  rd_crypt :: Ocb2CryptState
  consecutive_failures :: u32
  last_resync_request :: nat
  rd_running :: bool

record event_loop =
  handler :: "client_event list"
  el_state :: ServerState
  outbound :: "ControlMessage chan"
  tcp_writer :: TcpWriter
  el_codec :: FancyCodec
  udp_sender :: "UdpSender option"
  udp_reader_task :: "UdpReader option"
  udp_resync_tx :: "bytes chan option"
  stored_crypto :: "StoredCrypto option"
  udp_config :: UdpConfig
  el_wq :: work_queue
  force_tcp :: bool
  outbound_audio_count :: u64
  tcp_reader :: TcpReader
  tcp_reader_ended :: bool
  tcp_reader_alive :: bool
  ext_cmd :: "BoxedCommand chan"
  watch_force_tcp :: bool
  watch_changed :: bool
  running :: bool

definition emit :: "client_event \<Rightarrow> event_loop \<Rightarrow> event_loop" where
  "emit e s = s\<lparr>handler := handler s @ [e]\<rparr>"

text \<open>The state in which the event loop starts.\<close>

definition event_loop_init :: "UdpConfig \<Rightarrow> bool \<Rightarrow> TcpReader \<Rightarrow> TcpWriter \<Rightarrow> event_loop" where
  "event_loop_init uc force rd wr =
     \<lparr>handler = [], el_state = ServerState_new, outbound = chan_new 64, tcp_writer = wr,
      el_codec = LegacyCodec, udp_sender = None, udp_reader_task = None, udp_resync_tx = None,
      stored_crypto = None, udp_config = uc, el_wq = work_queue_create, force_tcp = force,
      outbound_audio_count = 0, tcp_reader = rd, tcp_reader_ended = False, tcp_reader_alive = True,
      ext_cmd = chan_new 32, watch_force_tcp = force, watch_changed = False, running = True\<rparr>"

section \<open>The outbound channel\<close>

text \<open>One iteration of \<^verbatim>\<open>tcp_writer_loop\<close>. When a send fails the loop ends and its end of the
  channel is dropped with what it still held.\<close>

definition tcp_writer_loop_step :: "libs \<Rightarrow> event_loop \<Rightarrow> event_loop" where
  "tcp_writer_loop_step L s =
     (case chan_recv (outbound s) of
        Some (Some msg, c) \<Rightarrow>
          (case TcpWriter_send (l_enc L) msg (tcp_writer s) of
             (Inr u, w) \<Rightarrow> s\<lparr>outbound := c, tcp_writer := w\<rparr>
           | (Inl e, w) \<Rightarrow> s\<lparr>outbound := chan_drop_rx c, tcp_writer := w\<rparr>)
      | _ \<Rightarrow> s)"

text \<open>\<^verbatim>\<open>outbound_tx.send(msg).await\<close> inside a handler of the event loop: on a full channel the handler
  waits while the writer task takes one message off.\<close>

definition outbound_send :: "libs \<Rightarrow> ControlMessage \<Rightarrow> event_loop \<Rightarrow> unit result \<times> event_loop" where
  "outbound_send L msg s =
     (let s' = (if chan_send msg (outbound s) = None then tcp_writer_loop_step L s else s)
      in case chan_send msg (outbound s') of
           Some (r, c) \<Rightarrow> (r, s'\<lparr>outbound := c\<rparr>)
         | None \<Rightarrow> (Inl QueueClosed, s'))"

definition outbound_try_send ::
    "ControlMessage \<Rightarrow> event_loop \<Rightarrow> (try_send_error + unit) \<times> event_loop" where
  "outbound_try_send msg s =
     (case chan_try_send msg (outbound s) of (r, c) \<Rightarrow> (r, s\<lparr>outbound := c\<rparr>))"

section \<open>Sending datagrams\<close>

text \<open>Unlike \<^verbatim>\<open>send\<close>, \<^verbatim>\<open>try_send\<close> reports \<^verbatim>\<open>WouldBlock\<close>.\<close>

definition socket_try_send ::
    "bytes \<Rightarrow> io_error_kind option list \<Rightarrow> unit result \<times> io_error_kind option list" where
  "socket_try_send data fs =
     (case fs of
        [] \<Rightarrow> (Inr (), [])
      | None # fs' \<Rightarrow> (Inr (), fs')
      | Some e # fs' \<Rightarrow> (Inl (Io e), fs'))"

definition put_datagram ::
    "unit result \<times> io_error_kind option list \<Rightarrow> bytes \<Rightarrow> udp_socket \<Rightarrow> unit result \<times> udp_socket" where
  "put_datagram out data sk =
     (case out of
        (Inr u, fs) \<Rightarrow> (Inr (), sk\<lparr>sent := sent sk @ [data], fate := fs\<rparr>)
      | (Inl e, fs) \<Rightarrow> (Inl e, sk\<lparr>fate := fs\<rparr>))"

definition send_raw :: "libs \<Rightarrow> bytes \<Rightarrow> UdpSender \<Rightarrow> unit result \<times> UdpSender" where
  "send_raw L payload u =
     (case Ocb2_encrypt (l_E L) payload (snd_crypt u) of
        (Inl e, c) \<Rightarrow> (Inl e, u\<lparr>snd_crypt := c\<rparr>)
      | (Inr encrypted, c) \<Rightarrow>
          (case put_datagram (socket_send encrypted (fate (snd_socket u))) encrypted (snd_socket u) of
             (r, sk) \<Rightarrow> (r, u\<lparr>snd_crypt := c, snd_socket := sk\<rparr>)))"

definition try_send_raw :: "libs \<Rightarrow> bytes \<Rightarrow> UdpSender \<Rightarrow> bool result \<times> UdpSender" where
  "try_send_raw L payload u =
     (case Ocb2_encrypt (l_E L) payload (snd_crypt u) of
        (Inl e, c) \<Rightarrow> (Inl e, u\<lparr>snd_crypt := c\<rparr>)
      | (Inr encrypted, c) \<Rightarrow>
          (case put_datagram (socket_try_send encrypted (fate (snd_socket u))) encrypted (snd_socket u) of
             (r, sk) \<Rightarrow>
               (case r of
                  Inr ok \<Rightarrow> Inr True
                | Inl e \<Rightarrow> if e = Io WouldBlock then Inr False else Inl e,
                u\<lparr>snd_crypt := c, snd_socket := sk\<rparr>)))"

definition send_one_audio_packet :: "libs \<Rightarrow> UdpMessage \<Rightarrow> event_loop \<Rightarrow> event_loop" where
  "send_one_audio_packet L msg s =
     (case msg of
        UM_Audio audio \<Rightarrow>
          let s = s\<lparr>outbound_audio_count := outbound_audio_count s + 1\<rparr>;
              (sent_udp, s) =
                (case udp_sender s of
                   Some sender \<Rightarrow>
                     let payload = encode_udp_message (l_aenc L) (l_penc L) msg
                     in (case try_send_raw L payload sender of
                           (Inr ok, sender') \<Rightarrow> (ok, s\<lparr>udp_sender := Some sender'\<rparr>)
                         | (Inl e, sender') \<Rightarrow> (False, s\<lparr>udp_sender := Some sender'\<rparr>))
                 | None \<Rightarrow> (False, s))
          in if sent_udp then s
             else let tunnel = CM_UdpTunnel (ProtobufAudioCodec_encode (l_aenc L) audio)
                  in snd (outbound_try_send tunnel s)
      | UM_Ping p \<Rightarrow> s)"

definition udp_ping_message :: "env \<Rightarrow> UdpMessage" where
  "udp_ping_message ev = UM_Ping (default_UdpPing\<lparr>UdpPing_timestamp := ping_ms ev\<rparr>)"

definition send_udp_ping :: "libs \<Rightarrow> env \<Rightarrow> event_loop \<Rightarrow> event_loop" where
  "send_udp_ping L ev s =
     (case udp_sender s of
        Some sender \<Rightarrow>
          let payload = encode_udp_message (l_aenc L) (l_penc L) (udp_ping_message ev)
          in s\<lparr>udp_sender := Some (snd (send_raw L payload sender))\<rparr>
      | None \<Rightarrow> s)"

text \<open>The loop of \<^verbatim>\<open>send_udp_output\<close> over the messages of a command.\<close>

fun send_udp_output :: "libs \<Rightarrow> UdpMessage list \<Rightarrow> event_loop \<Rightarrow> event_loop" where
  "send_udp_output L [] s = s"
| "send_udp_output L (UM_Ping p # msgs) s = send_udp_output L msgs s"
| "send_udp_output L (UM_Audio audio # msgs) s =
     (let (use_tunnel, s) =
            (case udp_sender s of
               Some sender \<Rightarrow>
                 let payload = encode_udp_message (l_aenc L) (l_penc L) (UM_Audio audio)
                 in (case send_raw L payload sender of
                       (Inl e, sender') \<Rightarrow> (True, s\<lparr>udp_sender := Some sender'\<rparr>)
                     | (Inr u, sender') \<Rightarrow> (False, s\<lparr>udp_sender := Some sender'\<rparr>))
             | None \<Rightarrow> (True, s))
      in if use_tunnel then
           (case outbound_send L (CM_UdpTunnel (ProtobufAudioCodec_encode (l_aenc L) audio)) s of
              (Inl e, s') \<Rightarrow> s'
            | (Inr u, s') \<Rightarrow> send_udp_output L msgs s')
         else send_udp_output L msgs s)"

section \<open>Starting and stopping UDP\<close>

definition RESYNC_FAILURE_THRESHOLD :: u32 where
  "RESYNC_FAILURE_THRESHOLD = 50"

definition RESYNC_REQUEST_COOLDOWN :: nat where
  "RESYNC_REQUEST_COOLDOWN = 5000"

definition udp_reader_init :: "env \<Rightarrow> Ocb2CryptState \<Rightarrow> UdpReader" where
  "udp_reader_init ev c =
     \<lparr>rd_crypt = c, consecutive_failures = 0,
      last_resync_request =
        (if RESYNC_REQUEST_COOLDOWN \<le> instant ev then instant ev - RESYNC_REQUEST_COOLDOWN
         else instant ev),
      rd_running = True\<rparr>"

definition start_udp :: "libs \<Rightarrow> env \<Rightarrow> bytes \<Rightarrow> bytes \<Rightarrow> bytes \<Rightarrow> event_loop \<Rightarrow> event_loop" where
  "start_udp L ev key client_nonce server_nonce s =
     (case Ocb2_set_key key client_nonce server_nonce Ocb2_new of
        (Inl e, c) \<Rightarrow> s
      | (Inr u, encrypt_crypt) \<Rightarrow>
        (case Ocb2_set_key key client_nonce server_nonce Ocb2_new of
           (Inl e, c) \<Rightarrow> s
         | (Inr v, decrypt_crypt) \<Rightarrow>
           (case udp_connect ev (udp_config s) of
              Inl e \<Rightarrow> s
            | Inr socket \<Rightarrow>
                let s = s\<lparr>udp_resync_tx := Some (chan_new 4)\<rparr>;
                    s = s\<lparr>udp_reader_task := Some (udp_reader_init ev decrypt_crypt)\<rparr>;
                    s = s\<lparr>udp_sender := Some \<lparr>snd_socket = socket, snd_crypt = encrypt_crypt\<rparr>\<rparr>;
                    s = send_udp_ping L ev s
                in emit (OnAudioTransportChanged True) s)))"

definition handle_crypt_setup :: "libs \<Rightarrow> env \<Rightarrow> CryptSetup \<Rightarrow> event_loop \<Rightarrow> event_loop" where
  "handle_crypt_setup L ev cs s =
     (case (CryptSetup_key cs, CryptSetup_client_nonce cs, CryptSetup_server_nonce cs) of
        (Some key, Some client_nonce, Some server_nonce) \<Rightarrow>
          let s = s\<lparr>stored_crypto := Some \<lparr>sc_key = key, sc_client_nonce = client_nonce,
                                             sc_server_nonce = server_nonce\<rparr>\<rparr>
          in if force_tcp s then emit (OnAudioTransportChanged False) s
             else start_udp L ev key client_nonce server_nonce s
      | (_, _, Some sn) \<Rightarrow>
          (case udp_resync_tx s of
             Some tx \<Rightarrow> s\<lparr>udp_resync_tx := Some (snd (chan_try_send sn tx))\<rparr>
           | None \<Rightarrow> s)
      | _ \<Rightarrow> s)"

definition handle_force_tcp_change :: "libs \<Rightarrow> env \<Rightarrow> event_loop \<Rightarrow> event_loop" where
  "handle_force_tcp_change L ev s =
     (if force_tcp s then
        emit (OnAudioTransportChanged False)
          (s\<lparr>udp_reader_task := None, udp_sender := None, udp_resync_tx := None\<rparr>)
      else case stored_crypto s of
             Some crypto \<Rightarrow>
               start_udp L ev (sc_key crypto) (sc_client_nonce crypto) (sc_server_nonce crypto) s
           | None \<Rightarrow> s)"

section \<open>The datagram reader\<close>

definition reader_exit :: "UdpReader \<Rightarrow> event_loop \<Rightarrow> event_loop" where
  "reader_exit rd s =
     s\<lparr>udp_reader_task := Some (rd\<lparr>rd_running := False\<rparr>),
       udp_resync_tx := map_option chan_drop_rx (udp_resync_tx s)\<rparr>"

text \<open>The part of an iteration after a datagram was received. \<open>None\<close> when the work queue is full
  and the send has to wait.\<close>

definition udp_reader_datagram ::
    "libs \<Rightarrow> nat \<Rightarrow> bytes \<Rightarrow> UdpReader \<Rightarrow> event_loop \<Rightarrow> event_loop option" where
  "udp_reader_datagram L now data rd s =
     (case Ocb2_decrypt (l_E L) (l_D L) data (rd_crypt rd) of
        (Inl e, c) \<Rightarrow>
          let rd = rd\<lparr>rd_crypt := c,
                      consecutive_failures :=
                        (if consecutive_failures rd = 0xFFFFFFFF then 0xFFFFFFFF
                         else consecutive_failures rd + 1)\<rparr>
          in if RESYNC_FAILURE_THRESHOLD \<le> consecutive_failures rd
                \<and> RESYNC_REQUEST_COOLDOWN \<le> now - last_resync_request rd then
               (case outbound_try_send (CM_CryptSetup default_CryptSetup) s of
                  (Inr u, s') \<Rightarrow>
                    Some (s'\<lparr>udp_reader_task :=
                      Some (rd\<lparr>last_resync_request := now, consecutive_failures := 0\<rparr>)\<rparr>)
                | (Inl Full, s') \<Rightarrow> Some (s'\<lparr>udp_reader_task := Some rd\<rparr>)
                | (Inl Closed, s') \<Rightarrow> Some (reader_exit rd s'))
             else Some (s\<lparr>udp_reader_task := Some rd\<rparr>)
      | (Inr decrypted, c) \<Rightarrow>
          let rd = rd\<lparr>rd_crypt := c, consecutive_failures := 0\<rparr>;
              s = s\<lparr>el_state := (el_state s)\<lparr>decrypt_stats := stats c\<rparr>,
                    udp_reader_task := Some rd\<rparr>
          in (case decode_udp_message (l_adec L) (l_pdec L) decrypted of
                Inl e \<Rightarrow> Some s
              | Inr msg \<Rightarrow>
                  (case send_udp msg (el_wq s) of
                     None \<Rightarrow> None
                   | Some (Inl e, q) \<Rightarrow> Some (reader_exit rd (s\<lparr>el_wq := q\<rparr>))
                   | Some (Inr u, q) \<Rightarrow> Some (s\<lparr>el_wq := q\<rparr>))))"

text \<open>One iteration of \<^verbatim>\<open>udp_reader_loop\<close>: a pushed nonce is taken first; otherwise what the
  socket gives.\<close>

definition udp_reader_loop_step :: "libs \<Rightarrow> nat \<Rightarrow> sock_recv \<Rightarrow> event_loop \<Rightarrow> event_loop option" where
  "udp_reader_loop_step L now recv s =
     (case udp_reader_task s of
        None \<Rightarrow> None
      | Some rd \<Rightarrow>
          if \<not> rd_running rd then None
          else case udp_resync_tx s of
                 None \<Rightarrow> Some (reader_exit rd s)
               | Some nonces \<Rightarrow>
                 (case chan_recv nonces of
                    Some (Some nonce, c) \<Rightarrow>
                      Some (s\<lparr>udp_resync_tx := Some c,
                             udp_reader_task := Some (rd\<lparr>rd_crypt := Ocb2_set_decrypt_iv nonce (rd_crypt rd),
                                                         consecutive_failures := 0\<rparr>)\<rparr>)
                  | Some (None, c) \<Rightarrow> Some (reader_exit rd s)
                  | None \<Rightarrow>
                      (case recv of
                         Datagram d \<Rightarrow>
                           if take 1024 d = [] then Some (reader_exit rd s)
                           else udp_reader_datagram L now (take 1024 d) rd s
                       | RecvError e \<Rightarrow>
                           if e = ConnectionReset then Some s else Some (reader_exit rd s))))"


section \<open>The UDP invariant\<close>

text \<open>Both directions use well-formed, initialised crypt states under one key, and the sender, the
  reader and the resync channel exist together.\<close>

definition crypt_ok :: "Ocb2CryptState \<Rightarrow> bool" where
  "crypt_ok c \<longleftrightarrow> Ocb2_wf c \<and> initialized c"

definition udp_inv :: "UdpSender option \<Rightarrow> UdpReader option \<Rightarrow> bytes chan option \<Rightarrow> bool" where
  "udp_inv us rd tx \<longleftrightarrow>
     (us = None \<longleftrightarrow> rd = None) \<and> (us = None \<longleftrightarrow> tx = None) \<and>
     (\<forall>u. us = Some u \<longrightarrow> crypt_ok (snd_crypt u)) \<and>
     (\<forall>r. rd = Some r \<longrightarrow> crypt_ok (rd_crypt r)) \<and>
     (\<forall>u r. us = Some u \<longrightarrow> rd = Some r \<longrightarrow> cipher (snd_crypt u) = cipher (rd_crypt r)) \<and>
     (\<forall>c. tx = Some c \<longrightarrow> chan_ok 4 c)"

lemma Ocb2_encrypt_keeps:
  "initialized (snd (Ocb2_encrypt E p c)) = initialized c"
  "cipher (snd (Ocb2_encrypt E p c)) = cipher c"
  by (simp_all add: Ocb2_encrypt_def Let_def split: prod.splits)

lemma Ocb2_decrypt_keeps:
  "initialized (snd (Ocb2_decrypt E D p c)) = initialized c"
  "cipher (snd (Ocb2_decrypt E D p c)) = cipher c"
  by (cases rule: Ocb2_decrypt_cases [of E D p c]; simp)+

lemma Ocb2_set_decrypt_iv_keeps:
  "initialized (Ocb2_set_decrypt_iv n c) = initialized c"
  "cipher (Ocb2_set_decrypt_iv n c) = cipher c"
  by (simp_all add: Ocb2_set_decrypt_iv_def)

lemma crypt_ok_steps:
  "crypt_ok c \<Longrightarrow> crypt_ok (snd (Ocb2_encrypt E p c))"
  "crypt_ok c \<Longrightarrow> crypt_ok (snd (Ocb2_decrypt E D p c))"
  "crypt_ok c \<Longrightarrow> crypt_ok (Ocb2_set_decrypt_iv n c)"
  by (auto simp: crypt_ok_def Ocb2_encrypt_keeps Ocb2_decrypt_keeps Ocb2_set_decrypt_iv_keeps)

lemma crypt_ok_set_key:
  assumes "Ocb2_set_key k cn sn Ocb2_new = (Inr u, c)"
  shows "crypt_ok c"
proof -
  have "Ocb2_wf c" using Ocb2_wf_set_key [OF Ocb2_wf_new, of k cn sn] assms by simp
  moreover have "initialized c" using assms by (auto simp: Ocb2_set_key_def split: if_splits)
  ultimately show ?thesis by (simp add: crypt_ok_def)
qed

lemma snd_crypt_send_raw [simp]:
  "snd_crypt (snd (send_raw L p u)) = snd (Ocb2_encrypt (l_E L) p (snd_crypt u))"
  "snd_crypt (snd (try_send_raw L p u)) = snd (Ocb2_encrypt (l_E L) p (snd_crypt u))"
  by (simp_all add: send_raw_def try_send_raw_def put_datagram_def split: prod.splits sum.splits)

lemma udp_inv_None [simp]: "udp_inv None None None"
  by (simp add: udp_inv_def)

lemma udp_inv_sender:
  assumes "udp_inv (Some u) rd tx" and "crypt_ok (snd_crypt u')"
    and "cipher (snd_crypt u') = cipher (snd_crypt u)"
  shows "udp_inv (Some u') rd tx"
  using assms by (auto simp: udp_inv_def)

lemma udp_inv_send_raw:
  assumes "udp_inv (Some u) rd tx"
  shows "udp_inv (Some (snd (send_raw L p u))) rd tx" "udp_inv (Some (snd (try_send_raw L p u))) rd tx"
proof -
  have "crypt_ok (snd_crypt u)" using assms by (simp add: udp_inv_def)
  then show "udp_inv (Some (snd (send_raw L p u))) rd tx" "udp_inv (Some (snd (try_send_raw L p u))) rd tx"
    using assms by (auto intro!: udp_inv_sender [OF assms] simp: crypt_ok_steps Ocb2_encrypt_keeps)
qed

lemma udp_inv_reader:
  assumes "udp_inv us (Some r) tx" and "crypt_ok (rd_crypt r')"
    and "cipher (rd_crypt r') = cipher (rd_crypt r)"
  shows "udp_inv us (Some r') tx"
  using assms by (auto simp: udp_inv_def)

lemma udp_inv_tx:
  assumes "udp_inv us rd (Some c)" and "chan_ok 4 c'"
  shows "udp_inv us rd (Some c')"
  using assms by (auto simp: udp_inv_def)

lemma udp_inv_drop: "udp_inv us rd tx \<Longrightarrow> udp_inv us rd (map_option chan_drop_rx tx)"
  by (auto simp: udp_inv_def)

section \<open>What the operations change\<close>

text \<open>An awaited send: the outbound channel and the writer move on, everything else stays.\<close>

definition moved_out :: "event_loop \<Rightarrow> event_loop \<Rightarrow> bool" where
  "moved_out s s' \<longleftrightarrow>
     (\<exists>c w. s' = s\<lparr>outbound := c, tcp_writer := w\<rparr> \<and> (\<forall>n. chan_ok n (outbound s) \<longrightarrow> chan_ok n c))"

lemma moved_outI:
  assumes "s' = s\<lparr>outbound := c, tcp_writer := w\<rparr>" and "\<And>n. chan_ok n (outbound s) \<Longrightarrow> chan_ok n c"
  shows "moved_out s s'"
  using assms unfolding moved_out_def by blast

lemma moved_out_refl [simp]: "moved_out s s"
  by (rule moved_outI [where c = "outbound s" and w = "tcp_writer s"]) simp_all

lemma moved_out_channel:
  assumes "\<And>n. chan_ok n (outbound s) \<Longrightarrow> chan_ok n c"
  shows "moved_out s (s\<lparr>outbound := c\<rparr>)"
  by (rule moved_outI [where c = c and w = "tcp_writer s"]) (simp, rule assms)

lemma moved_out_trans: "moved_out s s' \<Longrightarrow> moved_out s' s'' \<Longrightarrow> moved_out s s''"
  unfolding moved_out_def by force

lemma moved_out_writer: "moved_out s (tcp_writer_loop_step L s)"
proof (cases "\<exists>m c. chan_recv (outbound s) = Some (Some m, c)")
  case True
  then obtain m c where c: "chan_recv (outbound s) = Some (Some m, c)" by blast
  obtain r w where w: "TcpWriter_send (l_enc L) m (tcp_writer s) = (r, w)" by (cases "TcpWriter_send (l_enc L) m (tcp_writer s)")
  have ok: "chan_ok n c" if "chan_ok n (outbound s)" for n using chan_ok_recv [OF that c] .
  show ?thesis
    by (rule moved_outI [where c = "case r of Inl e \<Rightarrow> chan_drop_rx c | Inr u \<Rightarrow> c" and w = w])
      (use c w ok in \<open>auto simp: tcp_writer_loop_step_def split: sum.splits\<close>)
next
  case False
  then have "tcp_writer_loop_step L s = s"
    by (auto simp: tcp_writer_loop_step_def split: option.splits)
  then show ?thesis by simp
qed

lemma moved_out_send: "outbound_send L m s = (r, s') \<Longrightarrow> moved_out s s'"
proof -
  assume send: "outbound_send L m s = (r, s')"
  define t where "t = (if chan_send m (outbound s) = None then tcp_writer_loop_step L s else s)"
  have t: "moved_out s t" by (simp add: t_def moved_out_writer)
  have "moved_out t s'"
  proof (cases "chan_send m (outbound t)")
    case None
    with send show ?thesis by (simp add: outbound_send_def Let_def flip: t_def)
  next
    case (Some rc)
    with send have "s' = t\<lparr>outbound := snd rc\<rparr>"
      by (cases rc) (simp add: outbound_send_def Let_def flip: t_def)
    then show ?thesis
      using Some chan_ok_send [of _ "outbound t" m "fst rc" "snd rc"] by (auto intro: moved_out_channel)
  qed
  with t show ?thesis by (rule moved_out_trans)
qed

lemma moved_out_try_send: "outbound_try_send m s = (r, s') \<Longrightarrow> moved_out s s'"
  by (auto simp: outbound_try_send_def split: prod.splits intro!: moved_out_channel dest: chan_ok_try_send)


section \<open>The invariant of the event loop\<close>

text \<open>\<open>loop_ok n cd v r s\<close>: the registries are well-formed, the UDP side is consistent and absent under
  \<^verbatim>\<open>force_tcp\<close>, every channel is within its bound, \<^verbatim>\<open>on_disconnected\<close> was called \<open>n\<close> times, the codec
  is \<open>cd\<close>, the server announced the version \<open>v\<close>, and the loop runs iff \<open>r\<close>.\<close>

definition loop_ok :: "nat \<Rightarrow> FancyCodec \<Rightarrow> u64 option \<Rightarrow> bool \<Rightarrow> event_loop \<Rightarrow> bool" where
  "loop_ok n cd v r s \<longleftrightarrow>
     state_wf (el_state s) \<and>
     udp_inv (udp_sender s) (udp_reader_task s) (udp_resync_tx s) \<and>
     (force_tcp s \<longrightarrow> udp_sender s = None) \<and>
     chan_ok 64 (outbound s) \<and> chan_ok 32 (ext_cmd s) \<and> wq_ok (el_wq s) \<and>
     count_list (handler s) OnDisconnected = n \<and>
     el_codec s = cd \<and> server_fancy_version (connection (el_state s)) = v \<and> running s = r"

lemma loop_ok_emit:
  "loop_ok n cd v r s \<Longrightarrow> e \<noteq> OnDisconnected \<Longrightarrow> loop_ok n cd v r (emit e s)"
  "loop_ok n cd v r s \<Longrightarrow> loop_ok (Suc n) cd v r (emit OnDisconnected s)"
  by (simp_all add: loop_ok_def emit_def)

lemma loop_ok_moved: "loop_ok n cd v r s \<Longrightarrow> moved_out s s' \<Longrightarrow> loop_ok n cd v r s'"
  by (auto simp: loop_ok_def moved_out_def)

lemma loop_ok_sender:
  "loop_ok n cd v r s \<Longrightarrow> udp_sender s = Some u \<Longrightarrow>
     udp_inv (Some u') (udp_reader_task s) (udp_resync_tx s) \<Longrightarrow>
     loop_ok n cd v r (s\<lparr>udp_sender := Some u'\<rparr>)"
  by (auto simp: loop_ok_def)

lemma loop_ok_udp_inv:
  "loop_ok n cd v r s \<Longrightarrow> udp_inv (udp_sender s) (udp_reader_task s) (udp_resync_tx s)"
  by (simp add: loop_ok_def)

lemma loop_ok_send_raw:
  assumes "loop_ok n cd v r s" and "udp_sender s = Some u"
  shows "loop_ok n cd v r (s\<lparr>udp_sender := Some (snd (send_raw L p u))\<rparr>)"
    and "loop_ok n cd v r (s\<lparr>udp_sender := Some (snd (try_send_raw L p u))\<rparr>)"
  using loop_ok_udp_inv [OF assms(1)] assms(2)
  by (auto intro!: loop_ok_sender [OF assms] udp_inv_send_raw)

lemma loop_ok_count [simp]:
  "loop_ok n cd v r (s\<lparr>outbound_audio_count := k\<rparr>) = loop_ok n cd v r s"
  "loop_ok n cd v r (s\<lparr>stored_crypto := sc\<rparr>) = loop_ok n cd v r s"
  "loop_ok n cd v r (s\<lparr>watch_changed := wc\<rparr>) = loop_ok n cd v r s"
  "loop_ok n cd v r (s\<lparr>watch_force_tcp := wft\<rparr>) = loop_ok n cd v r s"
  "loop_ok n cd v r (s\<lparr>tcp_reader := tr\<rparr>) = loop_ok n cd v r s"
  "loop_ok n cd v r (s\<lparr>tcp_reader_ended := te\<rparr>) = loop_ok n cd v r s"
  "loop_ok n cd v r (s\<lparr>tcp_reader_alive := ta\<rparr>) = loop_ok n cd v r s"
  by (simp_all add: loop_ok_def)

lemma loop_ok_wq: "loop_ok n cd v r s \<Longrightarrow> wq_ok q \<Longrightarrow> loop_ok n cd v r (s\<lparr>el_wq := q\<rparr>)"
  by (simp add: loop_ok_def)

lemma loop_ok_send_udp_ping: "loop_ok n cd v r s \<Longrightarrow> loop_ok n cd v r (send_udp_ping L ev s)"
  by (auto simp: send_udp_ping_def Let_def split: option.splits intro: loop_ok_send_raw)

lemma loop_ok_send_one_audio_packet:
  assumes "loop_ok n cd v r s"
  shows "loop_ok n cd v r (send_one_audio_packet L msg s)"
proof (cases msg)
  case (UM_Audio audio)
  define t where "t = s\<lparr>outbound_audio_count := outbound_audio_count s + 1\<rparr>"
  have t: "loop_ok n cd v r t" using assms by (simp add: t_def)
  let ?p = "encode_udp_message (l_aenc L) (l_penc L) msg"
  have tunnel: "loop_ok n cd v r (snd (outbound_try_send m x))" if "loop_ok n cd v r x" for m x
    using that moved_out_try_send [of m x] loop_ok_moved by (cases "outbound_try_send m x") fastforce
  show ?thesis
  proof (cases "udp_sender t")
    case None
    with t tunnel show ?thesis
      by (simp add: send_one_audio_packet_def UM_Audio Let_def flip: t_def)
  next
    case (Some u)
    with t have "loop_ok n cd v r (t\<lparr>udp_sender := Some (snd (try_send_raw L ?p u))\<rparr>)"
      by (rule loop_ok_send_raw)
    then show ?thesis
      using Some tunnel
      by (cases "try_send_raw L ?p u"; cases "fst (try_send_raw L ?p u)")
        (simp_all add: send_one_audio_packet_def UM_Audio Let_def flip: t_def)
  qed
qed (simp add: send_one_audio_packet_def assms)

lemma loop_ok_send_udp_output: "loop_ok n cd v r s \<Longrightarrow> loop_ok n cd v r (send_udp_output L msgs s)"
proof (induction L msgs s rule: send_udp_output.induct)
  case (3 L audio msgs s)
  let ?p = "encode_udp_message (l_aenc L) (l_penc L) (UM_Audio audio)"
  let ?t = "CM_UdpTunnel (ProtobufAudioCodec_encode (l_aenc L) audio)"
  define tun where "tun = (case udp_sender s of Some u \<Rightarrow> \<exists>e. fst (send_raw L ?p u) = Inl e | None \<Rightarrow> True)"
  define t where "t = (case udp_sender s of Some u \<Rightarrow> s\<lparr>udp_sender := Some (snd (send_raw L ?p u))\<rparr> | None \<Rightarrow> s)"
  have t: "loop_ok n cd v r t"
    using 3(3) by (auto simp: t_def split: option.splits intro: loop_ok_send_raw)
  have pair: "(case udp_sender s of
               Some sender \<Rightarrow>
                 let payload = ?p
                 in (case send_raw L payload sender of
                       (Inl e, sender') \<Rightarrow> (True, s\<lparr>udp_sender := Some sender'\<rparr>)
                     | (Inr u, sender') \<Rightarrow> (False, s\<lparr>udp_sender := Some sender'\<rparr>))
             | None \<Rightarrow> (True, s)) = (tun, t)"
    by (auto simp: tun_def t_def split: option.splits prod.splits sum.splits)
  show ?case
  proof (cases tun)
    case True
    obtain res s' where res: "outbound_send L ?t t = (res, s')" by (cases "outbound_send L ?t t")
    have s': "loop_ok n cd v r s'" using t moved_out_send [OF res] by (rule loop_ok_moved)
    show ?thesis
    proof (cases res)
      case (Inl e)
      with s' res True show ?thesis unfolding send_udp_output.simps pair by simp
    next
      case (Inr u)
      have "loop_ok n cd v r (send_udp_output L msgs s')"
        by (rule 3(1) [OF pair [symmetric]]) (use True res Inr s' in auto)
      with res True Inr show ?thesis unfolding send_udp_output.simps pair by simp
    qed
  next
    case False
    have "loop_ok n cd v r (send_udp_output L msgs t)"
      by (rule 3(2) [OF pair [symmetric]]) (use False t in auto)
    with False show ?thesis unfolding send_udp_output.simps pair by simp
  qed
qed simp_all


lemma loop_ok_start_udp:
  assumes ok: "loop_ok n cd v r s" and "\<not> force_tcp s"
  shows "loop_ok n cd v r (start_udp L ev key cn sn s)"
proof (cases "Ocb2_set_key key cn sn Ocb2_new")
  case (Pair res c)
  show ?thesis
  proof (cases res)
    case (Inl e)
    with Pair ok show ?thesis by (simp add: start_udp_def)
  next
    case (Inr u)
    have c: "crypt_ok c" using Pair Inr by (auto intro: crypt_ok_set_key)
    show ?thesis
    proof (cases "udp_connect ev (udp_config s)")
      case (Inr socket)
      define t where "t = s\<lparr>udp_resync_tx := Some (chan_new 4), udp_reader_task := Some (udp_reader_init ev c),
        udp_sender := Some \<lparr>snd_socket = socket, snd_crypt = c\<rparr>\<rparr>"
      have "loop_ok n cd v r t"
        using ok assms(2) c by (auto simp: loop_ok_def t_def udp_inv_def udp_reader_init_def)
      then show ?thesis
        using Pair \<open>res = Inr u\<close> Inr
        by (auto simp: start_udp_def Let_def simp flip: t_def intro!: loop_ok_emit loop_ok_send_udp_ping)
    qed (use Pair Inr ok in \<open>simp add: start_udp_def\<close>)
  qed
qed

lemma loop_ok_handle_crypt_setup:
  assumes ok: "loop_ok n cd v r s"
  shows "loop_ok n cd v r (handle_crypt_setup L ev cs s)"
proof -
  have resync: "loop_ok n cd v r (s\<lparr>udp_resync_tx := Some (snd (chan_try_send sn tx))\<rparr>)"
    if "udp_resync_tx s = Some tx" for sn tx
  proof -
    have "chan_ok 4 (snd (chan_try_send sn tx))"
      using that loop_ok_udp_inv [OF ok] chan_ok_try_send [of 4 tx sn]
      by (cases "chan_try_send sn tx") (auto simp: udp_inv_def)
    with that ok show ?thesis by (auto simp: loop_ok_def intro: udp_inv_tx)
  qed
  show ?thesis
    using ok resync
    by (auto simp: handle_crypt_setup_def Let_def split: option.splits
        intro!: loop_ok_emit loop_ok_start_udp)
qed

lemma loop_ok_handle_force_tcp_change:
  assumes "loop_ok n cd v r s"
  shows "loop_ok n cd v r (handle_force_tcp_change L ev (s\<lparr>force_tcp := f\<rparr>))"
proof (cases f)
  case True
  have "loop_ok n cd v r (s\<lparr>force_tcp := f, udp_reader_task := None, udp_sender := None, udp_resync_tx := None\<rparr>)"
    using assms by (simp add: loop_ok_def)
  with True show ?thesis by (simp add: handle_force_tcp_change_def loop_ok_emit)
next
  case False
  with assms have "loop_ok n cd v r (s\<lparr>force_tcp := f\<rparr>)" by (simp add: loop_ok_def)
  with False show ?thesis
    by (auto simp: handle_force_tcp_change_def split: option.splits intro: loop_ok_start_udp)
qed

text \<open>The reader task.\<close>

lemma loop_ok_reader:
  assumes "loop_ok n cd v r s" and "udp_reader_task s = Some rd" and "crypt_ok (rd_crypt rd')"
    and "cipher (rd_crypt rd') = cipher (rd_crypt rd)"
  shows "loop_ok n cd v r (s\<lparr>udp_reader_task := Some rd'\<rparr>)" and "loop_ok n cd v r (reader_exit rd' s)"
proof -
  have "udp_inv (udp_sender s) (Some rd') (udp_resync_tx s)" if "crypt_ok (rd_crypt rd')"
      "cipher (rd_crypt rd') = cipher (rd_crypt rd)" for rd'
    using loop_ok_udp_inv [OF assms(1)] assms(2) that by (auto intro: udp_inv_reader)
  note inv = this [OF assms(3,4)] this [of "rd'\<lparr>rd_running := False\<rparr>"]
  from inv(1) assms(1) show "loop_ok n cd v r (s\<lparr>udp_reader_task := Some rd'\<rparr>)"
    by (simp add: loop_ok_def)
  from inv(2) assms show "loop_ok n cd v r (reader_exit rd' s)"
    by (simp add: loop_ok_def reader_exit_def udp_inv_drop)
qed

lemma loop_ok_decrypt_stats:
  "loop_ok n cd v r s \<Longrightarrow> loop_ok n cd v r (s\<lparr>el_state := (el_state s)\<lparr>decrypt_stats := st\<rparr>\<rparr>)"
  by (simp add: loop_ok_def state_wf_def)

lemma reader_update_twice [simp]:
  "s\<lparr>udp_reader_task := a, el_wq := q, udp_reader_task := b\<rparr> = s\<lparr>el_wq := q, udp_reader_task := b\<rparr>"
  by simp

lemma loop_ok_udp_reader_datagram:
  assumes ok: "loop_ok n cd v r s" and rd: "udp_reader_task s = Some rd"
    and step: "udp_reader_datagram L now data rd s = Some s'"
  shows "loop_ok n cd v r s'"
proof -
  obtain res c where dec: "Ocb2_decrypt (l_E L) (l_D L) data (rd_crypt rd) = (res, c)"
    by (cases "Ocb2_decrypt (l_E L) (l_D L) data (rd_crypt rd)")
  have crypt: "crypt_ok c" "cipher c = cipher (rd_crypt rd)"
    using loop_ok_udp_inv [OF ok] rd crypt_ok_steps(2) [of "rd_crypt rd" "l_E L" "l_D L" data]
      Ocb2_decrypt_keeps [of "l_E L" "l_D L" data "rd_crypt rd"] dec
    by (auto simp: udp_inv_def)
  show ?thesis
  proof (cases res)
    case (Inl e)
    have "loop_ok n cd v r t \<and> udp_reader_task t = Some rd"
      if "outbound_try_send m s = (x, t)" for m x t
      using loop_ok_moved [OF ok moved_out_try_send [OF that]] moved_out_try_send [OF that] rd
      by (auto simp: moved_out_def)
    then show ?thesis
      using step dec Inl ok rd crypt unfolding udp_reader_datagram_def
      by (auto simp: Let_def split: if_splits prod.splits sum.splits try_send_error.splits
          intro!: loop_ok_reader)
  next
    case (Inr decrypted)
    define rd' where "rd' = rd\<lparr>rd_crypt := c, consecutive_failures := 0\<rparr>"
    define t where "t = s\<lparr>el_state := (el_state s)\<lparr>decrypt_stats := stats c\<rparr>, udp_reader_task := Some rd'\<rparr>"
    have t: "loop_ok n cd v r t" "udp_reader_task t = Some rd'"
      using ok rd crypt unfolding t_def rd'_def
      by (auto intro!: loop_ok_reader(1) [where rd = rd] loop_ok_decrypt_stats)
    have q: "loop_ok n cd v r (t\<lparr>el_wq := q\<rparr>) \<and> udp_reader_task (t\<lparr>el_wq := q\<rparr>) = Some rd'"
      if "send_udp msg (el_wq t) = Some (x, q)" for msg x q
      using that t wq_ok_sends(1) [of "el_wq t" msg x q] by (auto intro!: loop_ok_wq simp: loop_ok_def)
    have rd'_crypt: "crypt_ok (rd_crypt rd')" using crypt by (simp add: rd'_def)
    from step dec Inr have "(case decode_udp_message (l_adec L) (l_pdec L) decrypted of
                Inl e \<Rightarrow> Some t
              | Inr msg \<Rightarrow>
                  (case send_udp msg (el_wq t) of
                     None \<Rightarrow> None
                   | Some (Inl e, q) \<Rightarrow> Some (reader_exit rd' (t\<lparr>el_wq := q\<rparr>))
                   | Some (Inr u, q) \<Rightarrow> Some (t\<lparr>el_wq := q\<rparr>))) = Some s'"
      unfolding udp_reader_datagram_def t_def rd'_def by (simp add: Let_def)
    then show ?thesis
      using t q rd'_crypt
      by (auto split: sum.splits option.splits prod.splits intro!: loop_ok_reader(2))
  qed
qed

lemma loop_ok_udp_reader_loop_step:
  assumes ok: "loop_ok n cd v r s" and step: "udp_reader_loop_step L now recv s = Some s'"
  shows "loop_ok n cd v r s'"
proof -
  obtain rd where rd: "udp_reader_task s = Some rd" using step
    by (auto simp: udp_reader_loop_step_def split: option.splits)
  have crypt: "crypt_ok (rd_crypt rd)" using loop_ok_udp_inv [OF ok] rd by (simp add: udp_inv_def)
  have exit: "loop_ok n cd v r (reader_exit rd s)" using ok rd crypt by (rule loop_ok_reader) simp
  have nonce: "loop_ok n cd v r (s\<lparr>udp_resync_tx := Some c,
      udp_reader_task := Some (rd\<lparr>rd_crypt := Ocb2_set_decrypt_iv m (rd_crypt rd), consecutive_failures := 0\<rparr>)\<rparr>)"
    if "udp_resync_tx s = Some nonces" "chan_recv nonces = Some (Some m, c)" for nonces m c
  proof -
    have "chan_ok 4 c" using that loop_ok_udp_inv [OF ok] chan_ok_recv by (auto simp: udp_inv_def)
    then have "loop_ok n cd v r (s\<lparr>udp_resync_tx := Some c\<rparr>)"
      using ok that(1) by (auto simp: loop_ok_def intro: udp_inv_tx)
    then show ?thesis
      by (rule loop_ok_reader(1) [where rd = rd])
        (simp_all add: rd crypt_ok_steps crypt Ocb2_set_decrypt_iv_keeps)
  qed
  show ?thesis
    using step rd ok exit nonce unfolding udp_reader_loop_step_def
    by (auto split: if_splits option.splits prod.splits sock_recv.splits
        intro: loop_ok_udp_reader_datagram [OF ok rd])
qed

lemmas loop_ok_intros = loop_ok_emit loop_ok_send_udp_ping loop_ok_send_one_audio_packet
  loop_ok_send_udp_output loop_ok_handle_crypt_setup loop_ok_handle_force_tcp_change


section \<open>Audio takes one path\<close>

text \<open>The datagrams handed to the socket so far; whether the socket takes the next one; the datagram
  that carries a payload.\<close>

definition datagrams :: "event_loop \<Rightarrow> bytes list" where
  "datagrams s = (case udp_sender s of None \<Rightarrow> [] | Some u \<Rightarrow> sent (snd_socket u))"

definition udp_takes :: "event_loop \<Rightarrow> bool" where
  "udp_takes s =
     (case udp_sender s of
        None \<Rightarrow> False
      | Some u \<Rightarrow> initialized (snd_crypt u) \<and>
          (case fate (snd_socket u) of [] \<Rightarrow> True | f # fs \<Rightarrow> f = None))"

definition datagram_of :: "libs \<Rightarrow> bytes \<Rightarrow> event_loop \<Rightarrow> bytes" where
  "datagram_of L payload s =
     (case udp_sender s of
        None \<Rightarrow> []
      | Some u \<Rightarrow> (case fst (Ocb2_encrypt (l_E L) payload (snd_crypt u)) of Inr p \<Rightarrow> p | Inl e \<Rightarrow> []))"

lemma Ocb2_encrypt_cases:
  obtains "\<not> initialized c" "Ocb2_encrypt E p c = (Inl (InvalidState ''OCB2 not initialized''), c)"
  | q c' where "initialized c" "Ocb2_encrypt E p c = (Inr q, c')"
  by (cases "initialized c"; cases "Ocb2_encrypt E p c")
    (auto simp: Ocb2_encrypt_def Let_def split: prod.splits)

lemma try_send_raw_outcome:
  assumes "udp_sender s = Some u" and "try_send_raw L p u = (r, u')"
  shows "r = Inr True \<longleftrightarrow> udp_takes s"
    and "sent (snd_socket u') = (if udp_takes s then datagrams s @ [datagram_of L p s] else datagrams s)"
  using assms
  by (cases rule: Ocb2_encrypt_cases [of "snd_crypt u" "l_E L" p];
      auto simp: try_send_raw_def put_datagram_def socket_try_send_def udp_takes_def datagrams_def
        datagram_of_def split: list.splits option.splits sum.splits if_splits)+

text \<open>An outbound audio packet takes exactly one path. When the UDP socket takes it, it goes out as
  one encrypted datagram and nothing is queued for TCP; otherwise no datagram is sent and the packet
  is offered to the TCP channel as a tunnel message, where a full or closed channel drops it.\<close>

theorem audio_takes_one_path:
  "(datagrams (send_one_audio_packet L (UM_Audio a) s), outbound (send_one_audio_packet L (UM_Audio a) s)) =
     (if udp_takes s
      then (datagrams s @ [datagram_of L (encode_udp_message (l_aenc L) (l_penc L) (UM_Audio a)) s], outbound s)
      else (datagrams s,
            snd (chan_try_send (CM_UdpTunnel (ProtobufAudioCodec_encode (l_aenc L) a)) (outbound s))))"
proof (cases "udp_sender s")
  case None
  then show ?thesis
    by (simp add: send_one_audio_packet_def Let_def udp_takes_def datagrams_def outbound_try_send_def
        split: prod.splits)
next
  case (Some u)
  let ?p = "encode_udp_message (l_aenc L) (l_penc L) (UM_Audio a)"
  obtain r u' where att: "try_send_raw L ?p u = (r, u')" by (cases "try_send_raw L ?p u")
  note out = try_send_raw_outcome [OF Some att]
  show ?thesis
  proof (cases "udp_takes s")
    case True
    with out have r: "r = Inr True" by simp
    with Some True att out(2) show ?thesis
      by (simp add: send_one_audio_packet_def Let_def datagrams_def)
  next
    case False
    with out have r: "r \<noteq> Inr True" by simp
    obtain tr c where t: "chan_try_send (CM_UdpTunnel (ProtobufAudioCodec_encode (l_aenc L) a)) (outbound s) = (tr, c)"
      by (cases "chan_try_send (CM_UdpTunnel (ProtobufAudioCodec_encode (l_aenc L) a)) (outbound s)")
    from r Some False att out(2) t show ?thesis
      by (cases r) (simp_all add: send_one_audio_packet_def Let_def datagrams_def outbound_try_send_def)
  qed
qed


section \<open>Restarting UDP\<close>

text \<open>A successful start: the sender's crypt state is the key set-up followed by the initial ping,
  whatever was there before.\<close>

lemma start_udp_sender:
  assumes "length key = 16" and "length cn = 16" and "length sn = 16"
    and "udp_connect ev (udp_config s) = Inr socket"
  shows "\<exists>u. udp_sender (start_udp L ev key cn sn s) = Some u \<and> cipher (snd_crypt u) = key \<and>
    encrypt_iv (snd_crypt u) = increment_iv cn"
  using assms
  by (auto simp: start_udp_def Let_def Ocb2_set_key_def Ocb2_new_def AES_BLOCK_SIZE_def emit_def
      send_udp_ping_def Ocb2_encrypt_def split: prod.splits)

text \<open>Switching \<^verbatim>\<open>force_tcp\<close> off starts UDP again from the key material of the last full
  \<^verbatim>\<open>CryptSetup\<close>, so the new sender has the key and the nonce of the first start: whatever was sent in
  between (the state \<open>t\<close> is any state that still stores that material), the packets that follow reuse
  the nonces of the packets sent after the set-up.\<close>

theorem force_tcp_toggle_reuses_nonces:
  assumes "CryptSetup_key cs = Some key" and "CryptSetup_client_nonce cs = Some cn"
    and "CryptSetup_server_nonce cs = Some sn"
    and "length key = 16" and "length cn = 16" and "length sn = 16"
    and "\<not> force_tcp s"
    and "udp_connect ev (udp_config s) = Inr socket" and "udp_connect ev' (udp_config t) = Inr socket'"
    and "stored_crypto t = stored_crypto (handle_crypt_setup L ev cs s)"
  shows "\<exists>u u'. udp_sender (handle_crypt_setup L ev cs s) = Some u \<and>
    udp_sender (handle_force_tcp_change L ev' (t\<lparr>force_tcp := False\<rparr>)) = Some u' \<and>
    cipher (snd_crypt u') = cipher (snd_crypt u) \<and> encrypt_iv (snd_crypt u') = encrypt_iv (snd_crypt u)"
proof -
  define s0 where "s0 = s\<lparr>stored_crypto := Some \<lparr>sc_key = key, sc_client_nonce = cn, sc_server_nonce = sn\<rparr>\<rparr>"
  have init: "handle_crypt_setup L ev cs s = start_udp L ev key cn sn s0"
    using assms(1-3,7) by (simp add: handle_crypt_setup_def s0_def)
  have "stored_crypto (start_udp L ev key cn sn s0) = stored_crypto s0"
    by (auto simp: start_udp_def Let_def emit_def send_udp_ping_def split: prod.splits sum.splits)
  with init assms(10) have stored: "stored_crypto t = Some \<lparr>sc_key = key, sc_client_nonce = cn, sc_server_nonce = sn\<rparr>"
    by (simp add: s0_def)
  have "udp_connect ev (udp_config s0) = Inr socket" using assms(8) by (simp add: s0_def)
  moreover have "udp_connect ev' (udp_config (t\<lparr>force_tcp := False\<rparr>)) = Inr socket'" using assms(9) by simp
  ultimately show ?thesis
    using start_udp_sender [of key cn sn ev s0 socket L]
      start_udp_sender [of key cn sn ev' "t\<lparr>force_tcp := False\<rparr>" socket' L] assms(4-6) init stored
    by (auto simp: handle_force_tcp_change_def)
qed

section \<open>Requesting a resync\<close>

text \<open>A sequence of iterations of the reader. Before each one the other tasks may have changed
  the outbound channel, the nonce channel and the work queue in any way. The result is the list of
  the instants at which a request went into the outbound channel.\<close>

record reader_input =
  ri_now :: nat
  ri_recv :: sock_recv
  ri_outbound :: "ControlMessage chan"
  ri_nonces :: "bytes chan option"
  ri_wq :: work_queue

definition ri_view :: "reader_input \<Rightarrow> event_loop \<Rightarrow> event_loop" where
  "ri_view i s = s\<lparr>outbound := ri_outbound i, udp_resync_tx := ri_nonces i, el_wq := ri_wq i\<rparr>"

fun resync_requests :: "libs \<Rightarrow> reader_input list \<Rightarrow> event_loop \<Rightarrow> nat list" where
  "resync_requests L [] s = []"
| "resync_requests L (i # ins) s =
     (case udp_reader_loop_step L (ri_now i) (ri_recv i) (ri_view i s) of
        None \<Rightarrow> resync_requests L ins s
      | Some s' \<Rightarrow>
          if queue (outbound s') = queue (ri_outbound i) then resync_requests L ins s'
          else ri_now i # resync_requests L ins s')"

text \<open>One iteration either leaves the outbound queue, the instant of the last request and raises
  the failure count by at most one, or it is a request.\<close>

lemma reader_exit_simps [simp]:
  "udp_reader_task (reader_exit rd s) = Some (rd\<lparr>rd_running := False\<rparr>)"
  "outbound (reader_exit rd s) = outbound s"
  by (simp_all add: reader_exit_def)

lemma sat_inc_le: "unat (if x = 0xFFFFFFFF then 0xFFFFFFFF else x + 1 :: u32) \<le> unat x + 1"
  by (simp add: unat_word_ariths)

lemma threshold_le:
  "RESYNC_FAILURE_THRESHOLD \<le> (if x = 0xFFFFFFFF then 0xFFFFFFFF else x + 1) \<Longrightarrow> 50 \<le> unat x + 1"
proof -
  assume "RESYNC_FAILURE_THRESHOLD \<le> (if x = 0xFFFFFFFF then 0xFFFFFFFF else x + 1)"
  then have "unat (50 :: u32) \<le> unat (if x = 0xFFFFFFFF then 0xFFFFFFFF else x + 1 :: u32)"
    unfolding RESYNC_FAILURE_THRESHOLD_def word_le_nat_alt .
  then show ?thesis using sat_inc_le [of x] by simp
qed

lemma udp_reader_datagram_request:
  assumes "udp_reader_datagram L now data rd s = Some s'"
  obtains (quiet) rd' where "udp_reader_task s' = Some rd'"
      "last_resync_request rd' = last_resync_request rd"
      "unat (consecutive_failures rd') \<le> unat (consecutive_failures rd) + 1"
      "queue (outbound s') = queue (outbound s)"
  | (request) rd' where "udp_reader_task s' = Some rd'" "last_resync_request rd' = now"
      "consecutive_failures rd' = 0" "50 \<le> unat (consecutive_failures rd) + 1"
      "last_resync_request rd + RESYNC_REQUEST_COOLDOWN \<le> now"
proof (cases "Ocb2_decrypt (l_E L) (l_D L) data (rd_crypt rd)")
  case (Pair res c)
  let ?cf = "if consecutive_failures rd = 0xFFFFFFFF then 0xFFFFFFFF else consecutive_failures rd + 1"
  show ?thesis
  proof (cases res)
    case (Inl e)
    let ?ask = "RESYNC_FAILURE_THRESHOLD \<le> ?cf \<and> RESYNC_REQUEST_COOLDOWN \<le> now - last_resync_request rd"
    show ?thesis
    proof (cases "?ask \<and> \<not> rx_closed (outbound s) \<and> length (queue (outbound s)) < capacity (outbound s)")
      case True
      then have "50 \<le> unat (consecutive_failures rd) + 1" using threshold_le by blast
      moreover from True have "RESYNC_REQUEST_COOLDOWN \<le> now - last_resync_request rd" by blast
      then have "last_resync_request rd + RESYNC_REQUEST_COOLDOWN \<le> now"
        by (simp add: RESYNC_REQUEST_COOLDOWN_def)
      ultimately show ?thesis
        using True assms Pair Inl
        by (intro request) (auto simp: udp_reader_datagram_def Let_def outbound_try_send_def chan_try_send_def)
    next
      case False
      then obtain rd' where "udp_reader_task s' = Some rd'" "consecutive_failures rd' = ?cf"
          "last_resync_request rd' = last_resync_request rd" "queue (outbound s') = queue (outbound s)"
        using assms Pair Inl
        by (auto simp: udp_reader_datagram_def Let_def outbound_try_send_def chan_try_send_def split: if_splits)
      then show ?thesis using sat_inc_le [of "consecutive_failures rd"] by (intro quiet [of rd']) simp_all
    qed
  next
    case (Inr plain)
    with assms Pair obtain rd' where "udp_reader_task s' = Some rd'" "consecutive_failures rd' = 0"
        "last_resync_request rd' = last_resync_request rd" "outbound s' = outbound s"
      by (auto simp: udp_reader_datagram_def Let_def split: sum.splits option.splits prod.splits)
    then show ?thesis by (intro quiet [of rd']) simp_all
  qed
qed

lemma udp_reader_step_request:
  assumes "udp_reader_loop_step L now recv s = Some s'" and "udp_reader_task s = Some rd"
  obtains (quiet) rd' where "udp_reader_task s' = Some rd'"
      "last_resync_request rd' = last_resync_request rd"
      "unat (consecutive_failures rd') \<le> unat (consecutive_failures rd) + 1"
      "queue (outbound s') = queue (outbound s)"
  | (request) rd' where "udp_reader_task s' = Some rd'" "last_resync_request rd' = now"
      "consecutive_failures rd' = 0" "50 \<le> unat (consecutive_failures rd) + 1"
      "last_resync_request rd + RESYNC_REQUEST_COOLDOWN \<le> now"
proof (cases "\<exists>d. udp_reader_datagram L now d rd s = Some s'")
  case True
  then obtain d where "udp_reader_datagram L now d rd s = Some s'" by blast
  then show ?thesis by (rule udp_reader_datagram_request) (rule quiet request; assumption)+
next
  case False
  with assms have "\<exists>rd'. udp_reader_task s' = Some rd' \<and> last_resync_request rd' = last_resync_request rd \<and>
      (consecutive_failures rd' = 0 \<or> consecutive_failures rd' = consecutive_failures rd) \<and> outbound s' = outbound s"
    by (auto simp: udp_reader_loop_step_def split: if_splits option.splits prod.splits sock_recv.splits)
  then show ?thesis by (auto intro: quiet)
qed

lemma resync_requests_bounds:
  assumes "udp_reader_task s = Some rd"
  shows "successively (\<lambda>a b. a + RESYNC_REQUEST_COOLDOWN \<le> b) (last_resync_request rd # resync_requests L ins s)"
    and "50 * length (resync_requests L ins s) \<le> length ins + unat (consecutive_failures rd)"
proof -
  have "successively (\<lambda>a b. a + RESYNC_REQUEST_COOLDOWN \<le> b) (last_resync_request rd # resync_requests L ins s)
      \<and> 50 * length (resync_requests L ins s) \<le> length ins + unat (consecutive_failures rd)"
    using assms
  proof (induction ins arbitrary: s rd)
    case (Cons i ins)
    let ?v = "ri_view i s"
    have v: "udp_reader_task ?v = Some rd" "outbound ?v = ri_outbound i"
      using Cons.prems by (simp_all add: ri_view_def)
    show ?case
    proof (cases "udp_reader_loop_step L (ri_now i) (ri_recv i) ?v")
      case None
      with Cons.IH [OF Cons.prems] show ?thesis by simp
    next
      case (Some s')
      from Some v(1) show ?thesis
      proof (cases rule: udp_reader_step_request)
        case (quiet rd')
        with Cons.IH [OF quiet(1)] Some v(2) show ?thesis by auto
      next
        case (request rd')
        note IH = Cons.IH [OF request(1)]
        show ?thesis
        proof (cases "queue (outbound s') = queue (ri_outbound i)")
          case True
          have "successively (\<lambda>a b. a + RESYNC_REQUEST_COOLDOWN \<le> b) (last_resync_request rd # resync_requests L ins s')"
            using IH request(2,5) by (cases "resync_requests L ins s'") auto
          with True Some IH request show ?thesis by auto
        next
          case False
          with Some IH request show ?thesis by auto
        qed
      qed
    qed
  qed simp
  then show "successively (\<lambda>a b. a + RESYNC_REQUEST_COOLDOWN \<le> b) (last_resync_request rd # resync_requests L ins s)"
    "50 * length (resync_requests L ins s) \<le> length ins + unat (consecutive_failures rd)" by auto
qed

text \<open>Resync requests are rate-limited, whatever datagrams arrive and whatever the other tasks do to the
  channels: two requests are at least five seconds apart, and there is at most one for every fifty
  iterations of a reader that starts without failures.\<close>

theorem resync_rate_limited:
  assumes "udp_reader_task s = Some (udp_reader_init ev c)"
  shows "successively (\<lambda>a b. a + 5000 \<le> b) (resync_requests L ins s) \<and>
    50 * length (resync_requests L ins s) \<le> length ins"
  using resync_requests_bounds [OF assms, of L ins]
  by (cases "resync_requests L ins s") (auto simp: udp_reader_init_def RESYNC_REQUEST_COOLDOWN_def)


section \<open>Recovering from a lost nonce\<close>

text \<open>C20: A partial \<^verbatim>\<open>CryptSetup\<close> with the server's current nonce repairs a reader that lost it. The
  control loop forwards the nonce, the reader's next iteration applies it whatever the socket gives,
  and from then on the reader decrypts every packet the server sends. (The history must not hold
  the second nonce byte of a coming packet, which is what the reader takes for a replay.)\<close>

theorem resync_recovers:
  assumes "aes_laws (l_E L) (l_D L)"
    and "udp_reader_task s = Some rd" and "rd_running rd" and "crypt_ok (rd_crypt rd)"
    and "udp_resync_tx s = Some tx" and "queue tx = []" and "\<not> rx_closed tx" and "capacity tx = 4"
    and "crypt_ok server" and "cipher server = cipher (rd_crypt rd)"
    and "CryptSetup_key cs = None" and "CryptSetup_server_nonce cs = Some (encrypt_iv server)"
    and "history_ok (encrypt_iv server) (decrypt_history (rd_crypt rd))"
  shows "\<exists>s' rd'. udp_reader_loop_step L now recv (handle_crypt_setup L ev cs s) = Some s' \<and>
    udp_reader_task s' = Some rd' \<and> consecutive_failures rd' = 0 \<and>
    (\<forall>ps. fst (transmit (Ocb2_encrypt (l_E L)) (Ocb2_decrypt (l_E L) (l_D L)) ps server (rd_crypt rd')) = map Inr ps)"
proof -
  let ?rd' = "rd\<lparr>rd_crypt := Ocb2_set_decrypt_iv (encrypt_iv server) (rd_crypt rd), consecutive_failures := 0\<rparr>"
  have "Ocb2_synced (l_E L) (l_D L) server (rd_crypt ?rd')"
    using assms(1,4,9,10,13)
    by (auto simp: Ocb2_synced_def crypt_ok_def Ocb2_set_decrypt_iv_def Ocb2_wf_def AES_BLOCK_SIZE_def)
  then have "\<exists>x y. transmit (Ocb2_encrypt (l_E L)) (Ocb2_decrypt (l_E L) (l_D L)) ps server (rd_crypt ?rd') = (map Inr ps, x, y)" for ps
    using ocb2.transmit_delivers by blast
  then have "\<forall>ps. fst (transmit (Ocb2_encrypt (l_E L)) (Ocb2_decrypt (l_E L) (l_D L)) ps server (rd_crypt ?rd')) = map Inr ps"
    by (metis fst_conv)
  moreover have "\<exists>s'. udp_reader_loop_step L now recv (handle_crypt_setup L ev cs s) = Some s' \<and> udp_reader_task s' = Some ?rd'"
    using assms(2,3,5-8,11,12)
    by (simp add: handle_crypt_setup_def chan_try_send_def udp_reader_loop_step_def chan_recv_def split: option.splits)
  ultimately show ?thesis by force
qed

text \<open>An empty datagram, which UDP allows, ends the reader task as if the socket were closed: the sender
  stays, so audio keeps going out over UDP, and no later datagram or resync is ever processed.\<close>

theorem empty_datagram_stops_reader:
  assumes "udp_reader_task s = Some rd" and "rd_running rd" and "udp_resync_tx s = Some tx"
    and "queue tx = []" and "\<not> tx_closed tx"
  shows "\<exists>s'. udp_reader_loop_step L now (Datagram []) s = Some s' \<and> udp_sender s' = udp_sender s \<and>
    (\<forall>now' recv. udp_reader_loop_step L now' recv s' = None)"
  using assms by (simp add: udp_reader_loop_step_def chan_recv_def reader_exit_def)

section \<open>Witnesses\<close>

text \<open>A concrete client: the demonstration codecs of the transport theories and the \<^verbatim>\<open>xor\<close> cipher
  for the third-party code.\<close>

definition demo_libs :: libs where
  "demo_libs = \<lparr>l_enc = demo_enc, l_dec = demo_dec, l_aenc = demo_aenc, l_adec = demo_adec,
     l_penc = demo_penc, l_pdec = demo_pdec, l_E = xor_cipher, l_D = xor_cipher,
     l_fo = \<lparr>fadd = (+), fsub = (-), fmul = (*), fdiv = (\<lambda>a b. a), of_u32 = (\<lambda>x. x)\<rparr>, l_as_f32 = ucast\<rparr>"

definition demo_env :: env where
  "demo_env = \<lparr>now_ms = 1000, ping_ms = 1000, instant = 10000, udp_connect = (\<lambda>c. Inr \<lparr>sent = [], fate = []\<rparr>)\<rparr>"

definition demo_crypt_setup :: CryptSetup where
  "demo_crypt_setup = \<lparr>CryptSetup_key = Some (replicate 16 1), CryptSetup_client_nonce = Some (replicate 16 2),
     CryptSetup_server_nonce = Some (replicate 16 0)\<rparr>"

definition demo_loop :: event_loop where
  "demo_loop = event_loop_init default_UdpConfig False \<lparr>reader = [], read_buf = [], read_error = None\<rparr> \<lparr>writer = [], write_fault = None\<rparr>"

definition demo_crypt :: Ocb2CryptState where
  "demo_crypt = snd (Ocb2_set_key (replicate 16 1) (replicate 16 2) (replicate 16 0) Ocb2_new)"

definition demo_server :: Ocb2CryptState where
  "demo_server = snd (Ocb2_set_key (replicate 16 1) (replicate 16 9) (replicate 16 2) Ocb2_new)"

definition demo_udp_loop :: event_loop where
  "demo_udp_loop = demo_loop\<lparr>udp_reader_task := Some (udp_reader_init demo_env demo_crypt),
     udp_sender := Some \<lparr>snd_socket = \<lparr>sent = [], fate = []\<rparr>, snd_crypt = demo_crypt\<rparr>,
     udp_resync_tx := Some (chan_new 4)\<rparr>"

theorem force_tcp_toggle_reuses_nonces_witness:
  "\<exists>u u'. udp_sender (handle_crypt_setup demo_libs demo_env demo_crypt_setup demo_loop) = Some u \<and>
    udp_sender (handle_force_tcp_change demo_libs demo_env
      ((handle_crypt_setup demo_libs demo_env demo_crypt_setup demo_loop)\<lparr>force_tcp := False\<rparr>)) = Some u' \<and>
    cipher (snd_crypt u') = cipher (snd_crypt u) \<and> encrypt_iv (snd_crypt u') = encrypt_iv (snd_crypt u)"
  by (rule force_tcp_toggle_reuses_nonces
      [where key = "replicate 16 1" and cn = "replicate 16 2" and sn = "replicate 16 0"
        and socket = "\<lparr>sent = [], fate = []\<rparr>" and socket' = "\<lparr>sent = [], fate = []\<rparr>"])
    (simp_all add: demo_crypt_setup_def demo_env_def demo_loop_def event_loop_init_def)

theorem resync_rate_limited_witness:
  "udp_reader_task demo_udp_loop = Some (udp_reader_init demo_env demo_crypt) \<and>
   50 * length (resync_requests demo_libs [\<lparr>ri_now = 10020, ri_recv = Datagram [7], ri_outbound = chan_new 64,
     ri_nonces = Some (chan_new 4), ri_wq = work_queue_create\<rparr>] demo_udp_loop) \<le> 1"
proof -
  have rd: "udp_reader_task demo_udp_loop = Some (udp_reader_init demo_env demo_crypt)"
    by (simp add: demo_udp_loop_def)
  show ?thesis
    using rd resync_rate_limited [OF rd, of demo_libs "[\<lparr>ri_now = 10020, ri_recv = Datagram [7],
      ri_outbound = chan_new 64, ri_nonces = Some (chan_new 4), ri_wq = work_queue_create\<rparr>]"] by simp
qed

theorem resync_recovers_witness:
  "\<exists>s' rd'. udp_reader_loop_step demo_libs 10020 (Datagram [7])
      (handle_crypt_setup demo_libs demo_env
         \<lparr>CryptSetup_key = None, CryptSetup_client_nonce = None, CryptSetup_server_nonce = Some (encrypt_iv demo_server)\<rparr>
         demo_udp_loop) = Some s' \<and>
    udp_reader_task s' = Some rd' \<and> consecutive_failures rd' = 0 \<and>
    (\<forall>ps. fst (transmit (Ocb2_encrypt (l_E demo_libs)) (Ocb2_decrypt (l_E demo_libs) (l_D demo_libs)) ps
       demo_server (rd_crypt rd')) = map Inr ps)"
  by (rule resync_recovers [where rd = "udp_reader_init demo_env demo_crypt" and tx = "chan_new 4"])
    (simp_all add: demo_udp_loop_def udp_reader_init_def chan_new_def demo_libs_def
      aes_laws_xor_cipher demo_crypt_def demo_server_def Ocb2_set_key_def AES_BLOCK_SIZE_def
      history_ok_def Ocb2_new_def crypt_ok_def Ocb2_wf_def)

theorem empty_datagram_stops_reader_witness:
  "\<exists>s'. udp_reader_loop_step demo_libs 10020 (Datagram []) demo_udp_loop = Some s' \<and>
    udp_sender s' = udp_sender demo_udp_loop \<and>
    (\<forall>now' recv. udp_reader_loop_step demo_libs now' recv s' = None)"
  by (rule empty_datagram_stops_reader [where rd = "udp_reader_init demo_env demo_crypt" and tx = "chan_new 4"])
    (simp_all add: demo_udp_loop_def udp_reader_init_def chan_new_def)

end
