(* ===== verification/Client.thy ===== *)
theory Client
  imports Client_Udp Fancy_Utils
begin

text \<open>
  The client (src/crates/mumble-protocol/src/client.rs): configuration and connection set-up, the
  dispatch of work items, one iteration of the event loop, the tasks around it, and the step relation
  of the whole client in which the loop, its tasks and the user's handle interleave.
\<close>

section \<open>Version and configuration\<close>

record MumbleVersion =
  major :: u16
  minor :: u16
  patch :: u16

definition MumbleVersion_new :: "u16 \<Rightarrow> u16 \<Rightarrow> u16 \<Rightarrow> MumbleVersion" where
  "MumbleVersion_new ma mi pa = \<lparr>major = ma, minor = mi, patch = pa\<rparr>"

definition encode_v1 :: "MumbleVersion \<Rightarrow> u32" where
  "encode_v1 v = push_bit 16 (ucast (major v)) OR push_bit 8 (ucast (minor v)) OR ucast (patch v)"

definition encode_v2 :: "MumbleVersion \<Rightarrow> u64" where
  "encode_v2 v =
     push_bit 48 (ucast (major v)) OR push_bit 32 (ucast (minor v)) OR push_bit 16 (ucast (patch v))"

definition MumbleVersion_fmt :: "MumbleVersion \<Rightarrow> string" where
  "MumbleVersion_fmt v =
     show_nat (unat (major v)) @ ''.'' @ show_nat (unat (minor v)) @ ''.'' @ show_nat (unat (patch v))"

definition default_MumbleVersion :: MumbleVersion where
  "default_MumbleVersion = MumbleVersion_new 1 6 0"

text \<open>The part of \<^verbatim>\<open>ClientConfig\<close> beside the TLS settings of the TCP transport.\<close>

record ClientConfig =
  cc_udp :: UdpConfig
  cc_ping_interval_ms :: nat
  cc_version :: MumbleVersion
  cc_force_tcp :: bool

definition default_ClientConfig :: ClientConfig where
  "default_ClientConfig =
     \<lparr>cc_udp = default_UdpConfig, cc_ping_interval_ms = 15000, cc_version = default_MumbleVersion,
      cc_force_tcp = False\<rparr>"

section \<open>Connecting\<close>

definition MAX_RETRIES :: nat where
  "MAX_RETRIES = 3"

text \<open>The retry loop of \<^verbatim>\<open>run\<close>: attempt \<open>attempt\<close> has the outcome \<open>connect attempt\<close>.\<close>

function connect_loop :: "(nat \<Rightarrow> 'a result) \<Rightarrow> nat \<Rightarrow> Error option \<Rightarrow> 'a result" where
  "connect_loop connect attempt last_err =
     (if MAX_RETRIES < attempt then
        Inl (case last_err of
               Some e \<Rightarrow> e
             | None \<Rightarrow> Other ''connection loop exited without recording an error'')
      else case connect attempt of
             Inr t \<Rightarrow> Inr t
           | Inl e \<Rightarrow>
               if e = Io ConnectionRefused \<and> attempt < MAX_RETRIES
               then connect_loop connect (attempt + 1) (Some e)
               else Inl e)"
  by pat_completeness auto
termination by (relation "measure (\<lambda>(c, attempt, l). Suc MAX_RETRIES - attempt)") auto

declare connect_loop.simps [simp del]

text \<open>\<open>os\<close> and \<open>release\<close> are the compile-time strings of the build.\<close>

definition FANCY_VERSION :: u64 where
  "FANCY_VERSION = fancy_version_encode 0 2 17"

definition version_message :: "string \<Rightarrow> string \<Rightarrow> MumbleVersion \<Rightarrow> ControlMessage" where
  "version_message release os ver =
     CM_Version \<lparr>Version_version_v1 = Some (encode_v1 ver), Version_version_v2 = Some (encode_v2 ver),
       Version_release = Some release, Version_os = Some os, Version_os_version = None,
       Version_fancy_version = Some FANCY_VERSION\<rparr>"

text \<open>\<^verbatim>\<open>run\<close>: connect, send the version message before anything else, and start the loop.\<close>

definition run ::
    "libs \<Rightarrow> (nat \<Rightarrow> (TcpReader \<times> TcpWriter) result) \<Rightarrow> string \<Rightarrow> string \<Rightarrow> ClientConfig \<Rightarrow> event_loop result" where
  "run L connect release os config =
     and_then (connect_loop connect 1 None) (\<lambda>(rd, wr).
       case TcpWriter_send (l_enc L) (version_message release os (cc_version config)) wr of
         (Inl e, w) \<Rightarrow> Inl e
       | (Inr u, w) \<Rightarrow> Inr (event_loop_init (cc_udp config) (cc_force_tcp config) rd w))"

section \<open>Dispatch\<close>

datatype LoopAction = Continue | Break

text \<open>The effect of a control message on the tracked state, and the callbacks that go with it.\<close>

definition handle_control_message ::
    "libs \<Rightarrow> env \<Rightarrow> ControlMessage \<Rightarrow> event_loop \<Rightarrow> event_loop" where
  "handle_control_message L ev msg s =
     emit (OnControlMessage msg)
       (case msg of
          CM_Version v \<Rightarrow> s\<lparr>el_state := apply_version v (el_state s)\<rparr>
        | CM_Ping p \<Rightarrow>
            let st = (case Ping_timestamp p of
                        Some ts \<Rightarrow>
                          let rtt_ms = l_as_f32 L (if ts \<le> now_ms ev then now_ms ev - ts else 0)
                          in record_tcp_ping (l_fo L) rtt_ms (el_state s)
                      | None \<Rightarrow> el_state s);
                unwrap_or_0 = (\<lambda>x. case x of None \<Rightarrow> 0 | Some v \<Rightarrow> v);
                to_client = \<lparr>good = unwrap_or_0 (Ping_good p), late = unwrap_or_0 (Ping_late p),
                             lost = unwrap_or_0 (Ping_lost p), resync = unwrap_or_0 (Ping_resync p)\<rparr>;
                st = st\<lparr>server_packet_stats := to_client\<rparr>;
                from_client = decrypt_stats st
            in emit (OnPingStats from_client to_client) (s\<lparr>el_state := st\<rparr>)
        | CM_ServerSync sync \<Rightarrow> emit OnConnected (s\<lparr>el_state := apply_server_sync sync (el_state s)\<rparr>)
        | CM_UserState us \<Rightarrow> s\<lparr>el_state := apply_user_state us (el_state s)\<rparr>
        | CM_UserRemove ur \<Rightarrow> s\<lparr>el_state := remove_user (UserRemove_session ur) (el_state s)\<rparr>
        | CM_ChannelState cs \<Rightarrow> s\<lparr>el_state := apply_channel_state cs (el_state s)\<rparr>
        | CM_ChannelRemove cr \<Rightarrow> s\<lparr>el_state := remove_channel (ChannelRemove_channel_id cr) (el_state s)\<rparr>
        | CM_PermissionQuery pq \<Rightarrow> s\<lparr>el_state := apply_permission_query pq (el_state s)\<rparr>
        | _ \<Rightarrow> s)"

text \<open>The patterns \<^verbatim>\<open>if let ControlMessage::UdpTunnel(data) = ctrl\<close> and \<^verbatim>\<open>if let ControlMessage::CryptSetup(cs) = ctrl\<close>.\<close>

fun as_UdpTunnel :: "ControlMessage \<Rightarrow> bytes option" where
  "as_UdpTunnel (CM_UdpTunnel data) = Some data"
| "as_UdpTunnel _ = None"

fun as_CryptSetup :: "ControlMessage \<Rightarrow> CryptSetup option" where
  "as_CryptSetup (CM_CryptSetup cs) = Some cs"
| "as_CryptSetup _ = None"

text \<open>\<open>None\<close> of \<open>decode_tunnel_audio\<close> (an index out of range) does not occur there, since the
  payload was checked to be non-empty; it has no branch of its own.\<close>

definition handle_server_message ::
    "libs \<Rightarrow> env \<Rightarrow> ServerMessage \<Rightarrow> event_loop \<Rightarrow> LoopAction \<times> event_loop" where
  "handle_server_message L ev server_msg s =
     (case server_msg of
        SM_Udp udp_msg \<Rightarrow> (Continue, emit (OnUdpMessage udp_msg) s)
      | SM_Control raw \<Rightarrow>
          let ctrl = codec_decode (l_dec L) (el_codec s) raw
          in case as_UdpTunnel ctrl of
               Some data \<Rightarrow>
                 (case decode_tunnel_audio (l_adec L) data of
                    Some (Inr audio) \<Rightarrow> (Continue, emit (OnUdpMessage (UM_Audio audio)) s)
                  | _ \<Rightarrow> (Continue, s))
             | None \<Rightarrow>
                 let s = (case as_CryptSetup ctrl of
                            Some cs \<Rightarrow> handle_crypt_setup L ev cs s
                          | None \<Rightarrow> s);
                     s = handle_control_message L ev ctrl s;
                     s = (if message_type ctrl = MT_Version then
                            s\<lparr>el_codec := select_codec (server_fancy_version (connection (el_state s)))\<rparr>
                          else s);
                     s = (if message_type ctrl = MT_Ping then send_udp_ping L ev s else s)
                 in if message_type ctrl = MT_Reject then (Break, emit OnDisconnected s)
                    else (Continue, s))"

text \<open>The loop over the messages of a command: a message the codec drops is skipped, a closed
  channel ends it.\<close>

fun send_tcp_output :: "libs \<Rightarrow> ControlMessage list \<Rightarrow> event_loop \<Rightarrow> event_loop" where
  "send_tcp_output L [] s = s"
| "send_tcp_output L (msg # msgs) s =
     (case codec_encode (l_enc L) (el_codec s) msg (el_state s) of
        None \<Rightarrow> send_tcp_output L msgs s
      | Some m \<Rightarrow>
          (case outbound_send L m s of
             (Inl e, s') \<Rightarrow> s'
           | (Inr u, s') \<Rightarrow> send_tcp_output L msgs s'))"

definition handle_user_command :: "libs \<Rightarrow> BoxedCommand \<Rightarrow> event_loop \<Rightarrow> LoopAction \<times> event_loop" where
  "handle_user_command L cmd s =
     (let output = execute cmd (el_state s);
          s = send_tcp_output L (tcp_messages output) s;
          s = send_udp_output L (udp_messages output) s
      in if disconnect output then (Break, emit OnDisconnected s) else (Continue, s))"

definition dispatch_item :: "libs \<Rightarrow> env \<Rightarrow> WorkItem \<Rightarrow> event_loop \<Rightarrow> LoopAction \<times> event_loop" where
  "dispatch_item L ev item s =
     (case item of
        WI_ServerMessage msg \<Rightarrow> handle_server_message L ev msg s
      | WI_UserCommand cmd \<Rightarrow> handle_user_command L cmd s
      | WI_Shutdown \<Rightarrow> (Break, emit OnDisconnected s))"

section \<open>One iteration of the event loop\<close>

text \<open>The biased \<^verbatim>\<open>select!\<close>: the work queue, then outbound audio, then a change of \<^verbatim>\<open>force_tcp\<close>, then
  the end of the TCP reader task. \<open>None\<close> while no branch is ready, or after the loop has ended.
  After a \<open>Break\<close> the tasks are aborted and the receiving ends of the channels are dropped.\<close>

definition drop_receivers :: "work_queue \<Rightarrow> work_queue" where
  "drop_receivers q =
     \<lparr>wq_udp = chan_drop_rx (wq_udp q), wq_tcp = chan_drop_rx (wq_tcp q),
      wq_cmd = chan_drop_rx (wq_cmd q), wq_audio_out = chan_drop_rx (wq_audio_out q)\<rparr>"

definition finish_iteration :: "LoopAction \<times> event_loop \<Rightarrow> event_loop" where
  "finish_iteration r =
     (case r of
        (Continue, s) \<Rightarrow> s
      | (Break, s) \<Rightarrow>
          s\<lparr>running := False, udp_reader_task := map_option (rd_running_update (\<lambda>_. False)) (udp_reader_task s),
            outbound := chan_drop_rx (outbound s), ext_cmd := chan_drop_rx (ext_cmd s),
            el_wq := drop_receivers (el_wq s)\<rparr>)"

definition event_loop_iteration :: "libs \<Rightarrow> env \<Rightarrow> event_loop \<Rightarrow> event_loop option" where
  "event_loop_iteration L ev s =
     (if \<not> running s then None
      else case wq_recv (el_wq s) of
        Some (item, q) \<Rightarrow> Some (finish_iteration (dispatch_item L ev item (s\<lparr>el_wq := q\<rparr>)))
      | None \<Rightarrow>
        (case chan_recv (wq_audio_out (el_wq s)) of
           Some (Some msg, c) \<Rightarrow>
             Some (send_one_audio_packet L msg (s\<lparr>el_wq := (el_wq s)\<lparr>wq_audio_out := c\<rparr>\<rparr>))
         | _ \<Rightarrow>
           if watch_changed s then
             let new_force = watch_force_tcp s; s = s\<lparr>watch_changed := False\<rparr>
             in if new_force \<noteq> force_tcp s then
                  Some (handle_force_tcp_change L ev (s\<lparr>force_tcp := new_force\<rparr>))
                else Some s
           else if tcp_reader_alive s \<and> tcp_reader_ended s then
             Some (finish_iteration (dispatch_item L ev WI_Shutdown (s\<lparr>tcp_reader_alive := False\<rparr>)))
           else None))"

section \<open>The tasks and the handle\<close>

text \<open>One iteration of \<^verbatim>\<open>tcp_reader_loop\<close>, of \<^verbatim>\<open>ping_loop\<close> and of \<^verbatim>\<open>cmd_forwarder_loop\<close>; \<open>None\<close> while the
  iteration has to wait.\<close>

definition tcp_reader_loop_step :: "libs \<Rightarrow> event_loop \<Rightarrow> event_loop option" where
  "tcp_reader_loop_step L s =
     (if tcp_reader_ended s \<or> \<not> running s then None
      else case TcpReader_recv (l_dec L) (tcp_reader s) of
             (Inl e, r) \<Rightarrow> Some (s\<lparr>tcp_reader := r, tcp_reader_ended := True\<rparr>)
           | (Inr msg, r) \<Rightarrow>
               (case send_tcp msg (el_wq s) of
                  None \<Rightarrow> None
                | Some (Inl e, q) \<Rightarrow> Some (s\<lparr>tcp_reader := r, tcp_reader_ended := True, el_wq := q\<rparr>)
                | Some (Inr u, q) \<Rightarrow> Some (s\<lparr>tcp_reader := r, el_wq := q\<rparr>)))"

definition tcp_ping :: "env \<Rightarrow> ServerState \<Rightarrow> ControlMessage" where
  "tcp_ping ev st =
     (let stats_snapshot = Server_State.ping_stats st; crypto_snapshot = decrypt_stats st
      in CM_Ping \<lparr>Ping_timestamp = Some (now_ms ev), Ping_good = Some (good crypto_snapshot),
           Ping_late = Some (late crypto_snapshot), Ping_lost = Some (lost crypto_snapshot),
           Ping_resync = Some (resync crypto_snapshot),
           Ping_udp_packets = Some (udp_packets stats_snapshot),
           Ping_tcp_packets = Some (tcp_packets stats_snapshot),
           Ping_udp_ping_avg = Some (udp_ping_avg stats_snapshot),
           Ping_udp_ping_var = Some (udp_ping_var stats_snapshot),
           Ping_tcp_ping_avg = Some (tcp_ping_avg stats_snapshot),
           Ping_tcp_ping_var = Some (tcp_ping_var stats_snapshot)\<rparr>)"

definition ping_loop_step :: "env \<Rightarrow> event_loop \<Rightarrow> event_loop option" where
  "ping_loop_step ev s =
     (if \<not> running s then None
      else map_option (\<lambda>(r, c). s\<lparr>outbound := c\<rparr>) (chan_send (tcp_ping ev (el_state s)) (outbound s)))"

definition cmd_forwarder_loop_step :: "event_loop \<Rightarrow> event_loop option" where
  "cmd_forwarder_loop_step s =
     (if \<not> running s then None
      else case chan_recv (ext_cmd s) of
             Some (Some cmd, c) \<Rightarrow>
               map_option (\<lambda>(r, q). s\<lparr>ext_cmd := (case r of Inr u \<Rightarrow> c | Inl e \<Rightarrow> chan_drop_rx c), el_wq := q\<rparr>)
                 (send_command cmd (el_wq s))
           | _ \<Rightarrow> None)"

text \<open>The operations of \<^verbatim>\<open>ClientHandle\<close>.\<close>

definition ClientHandle_send :: "BoxedCommand \<Rightarrow> event_loop \<Rightarrow> (unit result \<times> event_loop) option" where
  "ClientHandle_send cmd s = map_option (\<lambda>(r, c). (r, s\<lparr>ext_cmd := c\<rparr>)) (chan_send cmd (ext_cmd s))"

definition ClientHandle_send_audio :: "UdpMessage \<Rightarrow> event_loop \<Rightarrow> unit result \<times> event_loop" where
  "ClientHandle_send_audio msg s =
     (case chan_try_send msg (wq_audio_out (el_wq s)) of
        (Inr u, c) \<Rightarrow> (Inr (), s\<lparr>el_wq := (el_wq s)\<lparr>wq_audio_out := c\<rparr>\<rparr>)
      | (Inl Full, c) \<Rightarrow> (Inl (InvalidState ''audio channel full''), s)
      | (Inl Closed, c) \<Rightarrow> (Inl QueueClosed, s))"

definition set_force_tcp :: "bool \<Rightarrow> event_loop \<Rightarrow> event_loop" where
  "set_force_tcp force s = (if running s then s\<lparr>watch_force_tcp := force, watch_changed := True\<rparr> else s)"

text \<open>The client as a whole: any interleaving of the loop, its tasks and the handle.\<close>

inductive client_step :: "libs \<Rightarrow> event_loop \<Rightarrow> event_loop \<Rightarrow> bool" for L where
  step_loop: "event_loop_iteration L ev s = Some s' \<Longrightarrow> client_step L s s'"
| step_writer: "running s \<Longrightarrow> client_step L s (tcp_writer_loop_step L s)"
| step_tcp_reader: "tcp_reader_loop_step L s = Some s' \<Longrightarrow> client_step L s s'"
| step_udp_reader: "udp_reader_loop_step L now recv s = Some s' \<Longrightarrow> client_step L s s'"
| step_ping: "ping_loop_step ev s = Some s' \<Longrightarrow> client_step L s s'"
| step_forward: "cmd_forwarder_loop_step s = Some s' \<Longrightarrow> client_step L s s'"
| step_send: "ClientHandle_send cmd s = Some (r, s') \<Longrightarrow> client_step L s s'"
| step_send_audio: "ClientHandle_send_audio msg s = (r, s') \<Longrightarrow> client_step L s s'"
| step_force_tcp: "client_step L s (set_force_tcp force s)"

inductive client_reachable :: "libs \<Rightarrow> event_loop \<Rightarrow> bool" for L where
  reach_init: "client_reachable L (event_loop_init uc force rd wr)"
| reach_step: "client_reachable L s \<Longrightarrow> client_step L s s' \<Longrightarrow> client_reachable L s'"


section \<open>Every step keeps the invariant\<close>

text \<open>The version the server has announced after a message.\<close>

fun announced :: "ControlMessage \<Rightarrow> u64 option \<Rightarrow> u64 option" where
  "announced (CM_Version w) v = Version_fancy_version w"
| "announced _ v = v"

lemma loop_ok_state:
  assumes "loop_ok n cd v r s" and "state_wf st" and "server_fancy_version (connection st) = v'"
  shows "loop_ok n cd v' r (s\<lparr>el_state := st\<rparr>)"
  using assms by (simp add: loop_ok_def)

lemma connection_kept [simp]:
  "connection (apply_user_state us st) = connection st"
  "connection (apply_channel_state cs st) = connection st"
  "connection (remove_user k st) = connection st"
  "connection (remove_channel k st) = connection st"
  "connection (apply_permission_query pq st) = connection st"
  "connection (record_tcp_ping fo x st) = connection st"
  "server_fancy_version (connection (apply_server_sync sync st)) = server_fancy_version (connection st)"
  "server_fancy_version (connection (apply_version w st)) = Version_fancy_version w"
  by (simp_all add: apply_user_state_def apply_channel_state_def remove_user_def remove_channel_def
      apply_permission_query_def record_tcp_ping_def apply_server_sync_def apply_version_def Let_def
      split: option.splits)

lemma state_wf_server_stats: "state_wf st \<Longrightarrow> state_wf (st\<lparr>server_packet_stats := p\<rparr>)"
  by (simp add: state_wf_def)

lemma loop_ok_handle_control_message:
  assumes ok: "loop_ok n cd v r s"
  shows "loop_ok n cd (announced msg v) r (handle_control_message L ev msg s)"
proof -
  have wf: "state_wf (el_state s)" and v: "server_fancy_version (connection (el_state s)) = v"
    using ok by (simp_all add: loop_ok_def)
  note upd = loop_ok_state [OF ok]
  show ?thesis
    unfolding handle_control_message_def
    by (rule loop_ok_emit, cases msg)
      (auto simp: ok wf v Let_def split: option.splits
        intro!: upd loop_ok_emit(1) state_wf_server_stats)
qed


lemma loop_ok_codec: "loop_ok n cd v r s \<Longrightarrow> loop_ok n cd' v r (s\<lparr>el_codec := cd'\<rparr>)"
  by (simp add: loop_ok_def)

lemma loop_ok_version: "loop_ok n cd v r s \<Longrightarrow> server_fancy_version (connection (el_state s)) = v"
  by (simp add: loop_ok_def)

lemma announced_other: "message_type msg \<noteq> MT_Version \<Longrightarrow> announced msg v = v"
  by (cases msg) simp_all

lemma loop_ok_handle_server_message:
  assumes ok: "loop_ok n (select_codec v) v r s" and step: "handle_server_message L ev m s = (a, s')"
  shows "\<exists>v'. loop_ok (if a = Break then Suc n else n) (select_codec v') v' r s'"
proof (cases m)
  case (SM_Udp u)
  with step have "a = Continue" "s' = emit (OnUdpMessage u) s"
    by (auto simp: handle_server_message_def)
  with ok show ?thesis by (auto intro: loop_ok_emit)
next
  case (SM_Control raw)
  define ctrl where "ctrl = codec_decode (l_dec L) (el_codec s) raw"
  show ?thesis
  proof (cases "as_UdpTunnel ctrl")
    case (Some data)
    with step SM_Control have "a = Continue \<and> (s' = s \<or> (\<exists>audio. s' = emit (OnUdpMessage (UM_Audio audio)) s))"
      by (auto simp: handle_server_message_def Let_def simp flip: ctrl_def split: option.splits sum.splits)
    with ok show ?thesis by (auto intro: loop_ok_emit)
  next
    case None
    define s1 where "s1 = (case as_CryptSetup ctrl of Some cs \<Rightarrow> handle_crypt_setup L ev cs s | None \<Rightarrow> s)"
    define s2 where "s2 = handle_control_message L ev ctrl s1"
    define s3 where "s3 = (if message_type ctrl = MT_Version
      then s2\<lparr>el_codec := select_codec (server_fancy_version (connection (el_state s2)))\<rparr> else s2)"
    define s4 where "s4 = (if message_type ctrl = MT_Ping then send_udp_ping L ev s3 else s3)"
    have 1: "loop_ok n (select_codec v) v r s1"
      using ok by (auto simp: s1_def intro: loop_ok_handle_crypt_setup split: option.splits)
    have 2: "loop_ok n (select_codec v) (announced ctrl v) r s2"
      unfolding s2_def using 1 by (rule loop_ok_handle_control_message)
    have 3: "loop_ok n (select_codec (announced ctrl v)) (announced ctrl v) r s3"
      using 2 loop_ok_version [OF 2] by (auto simp: s3_def announced_other intro: loop_ok_codec)
    have 4: "loop_ok n (select_codec (announced ctrl v)) (announced ctrl v) r s4"
      using 3 by (auto simp: s4_def intro: loop_ok_send_udp_ping)
    have "handle_server_message L ev m s =
        (if message_type ctrl = MT_Reject then (Break, emit OnDisconnected s4) else (Continue, s4))"
      using SM_Control None unfolding handle_server_message_def Let_def s4_def s3_def s2_def s1_def
      by (simp flip: ctrl_def)
    with step 4 show ?thesis by (auto split: if_splits intro: loop_ok_emit)
  qed
qed

lemma loop_ok_send_tcp_output: "loop_ok n cd v r s \<Longrightarrow> loop_ok n cd v r (send_tcp_output L msgs s)"
proof (induction L msgs s rule: send_tcp_output.induct)
  case (2 L msg msgs s)
  show ?case
  proof (cases "codec_encode (l_enc L) (el_codec s) msg (el_state s)")
    case None
    with 2 show ?thesis by simp
  next
    case (Some m)
    obtain res s' where res: "outbound_send L m s = (res, s')" by (cases "outbound_send L m s")
    have "loop_ok n cd v r s'" using 2(3) moved_out_send [OF res] by (rule loop_ok_moved)
    with Some res 2(2) [OF Some] show ?thesis by (cases res) auto
  qed
qed simp

lemma loop_ok_dispatch_item:
  assumes ok: "loop_ok n (select_codec v) v r s" and step: "dispatch_item L ev item s = (a, s')"
  shows "\<exists>v'. loop_ok (if a = Break then Suc n else n) (select_codec v') v' r s'"
proof (cases item)
  case (WI_ServerMessage m)
  with step show ?thesis
    using loop_ok_handle_server_message [OF ok] by (simp add: dispatch_item_def)
next
  case (WI_UserCommand cmd)
  have "loop_ok n (select_codec v) v r (send_udp_output L us (send_tcp_output L ms s))" for us ms
    using ok by (intro loop_ok_send_udp_output loop_ok_send_tcp_output)
  with WI_UserCommand step show ?thesis
    by (auto simp: dispatch_item_def handle_user_command_def Let_def split: if_splits intro: loop_ok_emit)
next
  case WI_Shutdown
  with step ok show ?thesis by (auto simp: dispatch_item_def intro: loop_ok_emit)
qed

text \<open>The invariant of the client: \<open>loop_ok\<close> with the codec that belongs to the announced version and
  with \<^verbatim>\<open>on_disconnected\<close> called exactly when the loop has ended; and once it has ended, all receiving
  ends are gone and the reader does not run.\<close>

definition ended_ok :: "event_loop \<Rightarrow> bool" where
  "ended_ok s \<longleftrightarrow> running s \<or>
     (rx_closed (ext_cmd s) \<and> rx_closed (wq_audio_out (el_wq s)) \<and>
      (\<forall>rd. udp_reader_task s = Some rd \<longrightarrow> \<not> rd_running rd))"

definition client_inv :: "event_loop \<Rightarrow> bool" where
  "client_inv s \<longleftrightarrow>
     (\<exists>v. loop_ok (if running s then 0 else 1) (select_codec v) v (running s) s) \<and> ended_ok s"

lemma wq_ok_drop: "wq_ok q \<Longrightarrow> wq_ok (drop_receivers q)"
  by (simp add: wq_ok_def drop_receivers_def chan_ok_drop)

lemma udp_inv_abort:
  "udp_inv us rd tx \<Longrightarrow> udp_inv us (map_option (rd_running_update (\<lambda>_. False)) rd) tx"
  by (auto simp: udp_inv_def)

lemma loop_ok_running: "loop_ok n cd v r s \<Longrightarrow> running s = r"
  by (simp add: loop_ok_def)

lemma client_inv_finish:
  assumes "loop_ok (if a = Break then 1 else 0) (select_codec v) v True s"
  shows "client_inv (finish_iteration (a, s))"
proof (cases a)
  case Continue
  with assms loop_ok_running [OF assms] show ?thesis
    by (auto simp: client_inv_def finish_iteration_def ended_ok_def)
next
  case Break
  have "loop_ok 1 (select_codec v) v False (finish_iteration (a, s))"
    using assms Break by (simp add: loop_ok_def finish_iteration_def wq_ok_drop udp_inv_abort chan_ok_drop)
  moreover have "ended_ok (finish_iteration (a, s))"
    using Break by (auto simp: ended_ok_def finish_iteration_def drop_receivers_def chan_drop_rx_def)
  moreover have "\<not> running (finish_iteration (a, s))" using Break by (simp add: finish_iteration_def)
  ultimately show ?thesis by (auto simp: client_inv_def)
qed

lemma client_inv_running: "client_inv s \<Longrightarrow> running s \<Longrightarrow> \<exists>v. loop_ok 0 (select_codec v) v True s"
  by (simp add: client_inv_def)

lemma client_invI: "loop_ok 0 (select_codec v) v True s \<Longrightarrow> client_inv s"
  using loop_ok_running [of 0 "select_codec v" v True s] by (auto simp: client_inv_def ended_ok_def)


lemma client_inv_iteration:
  assumes inv: "client_inv s" and step: "event_loop_iteration L ev s = Some s'"
  shows "client_inv s'"
proof -
  have run: "running s" using step by (auto simp: event_loop_iteration_def split: if_splits)
  obtain v where ok: "loop_ok 0 (select_codec v) v True s" using client_inv_running [OF inv run] by blast
  have wq: "wq_ok (el_wq s)" using ok by (simp add: loop_ok_def)
  have dispatch: "client_inv (finish_iteration (dispatch_item L ev item t))"
    if t: "loop_ok 0 (select_codec v) v True t" for item t
  proof -
    obtain a t' where d: "dispatch_item L ev item t = (a, t')" by (cases "dispatch_item L ev item t")
    from loop_ok_dispatch_item [OF t d] obtain v' where
      "loop_ok (if a = Break then 1 else 0) (select_codec v') v' True t'" by (auto split: if_splits)
    then show ?thesis unfolding d by (rule client_inv_finish)
  qed
  show ?thesis
  proof (cases "wq_recv (el_wq s)")
    case (Some r)
    then obtain item q where q: "wq_recv (el_wq s) = Some (item, q)" by (cases r) auto
    have "loop_ok 0 (select_codec v) v True (s\<lparr>el_wq := q\<rparr>)"
      using ok wq_ok_recv [OF wq q] by (rule loop_ok_wq)
    from dispatch [OF this, of item] show ?thesis
      using step run q by (simp add: event_loop_iteration_def)
  next
    case None
    show ?thesis
    proof (cases "\<exists>msg c. chan_recv (wq_audio_out (el_wq s)) = Some (Some msg, c)")
      case True
      then obtain msg c where c: "chan_recv (wq_audio_out (el_wq s)) = Some (Some msg, c)" by blast
      have "wq_ok ((el_wq s)\<lparr>wq_audio_out := c\<rparr>)"
        using wq c by (auto simp: wq_ok_def dest: chan_ok_recv)
      then have "loop_ok 0 (select_codec v) v True (send_one_audio_packet L msg (s\<lparr>el_wq := (el_wq s)\<lparr>wq_audio_out := c\<rparr>\<rparr>))"
        using ok by (intro loop_ok_send_one_audio_packet loop_ok_wq)
      then show ?thesis using step run None c by (auto simp: event_loop_iteration_def intro: client_invI)
    next
      case False
      have force: "client_inv (handle_force_tcp_change L ev (s\<lparr>watch_changed := False, force_tcp := f\<rparr>))" for f
        using loop_ok_handle_force_tcp_change [of 0 "select_codec v" v True "s\<lparr>watch_changed := False\<rparr>"] ok
        by (intro client_invI) simp
      have same: "client_inv (s\<lparr>watch_changed := False\<rparr>)" using ok by (intro client_invI) simp
      have "client_inv (finish_iteration (dispatch_item L ev WI_Shutdown (s\<lparr>tcp_reader_alive := False\<rparr>)))"
        using ok by (intro dispatch) simp
      then show ?thesis
        using step run None False force same
        by (auto simp: event_loop_iteration_def Let_def split: if_splits option.splits)
    qed
  qed
qed

text \<open>After the loop has ended nothing moves any more.\<close>

lemma ended_stuck:
  assumes "client_inv s" and "\<not> running s" and "client_step L s s'"
  shows "s' = s"
  using assms(3)
proof cases
  case (step_udp_reader now recv)
  with assms(1,2) show ?thesis
    by (auto simp: udp_reader_loop_step_def client_inv_def ended_ok_def split: option.splits if_splits)
next
  case (step_send cmd r)
  with assms(1,2) show ?thesis
    by (auto simp: ClientHandle_send_def chan_send_def chan_try_send_def client_inv_def ended_ok_def)
next
  case (step_send_audio msg r)
  with assms(1,2) show ?thesis
    by (auto simp: ClientHandle_send_audio_def chan_try_send_def client_inv_def ended_ok_def)
qed (use assms(2) in \<open>simp_all add: event_loop_iteration_def tcp_reader_loop_step_def ping_loop_step_def
      cmd_forwarder_loop_step_def set_force_tcp_def\<close>)

lemma loop_ok_ext_cmd: "loop_ok n cd v r s \<Longrightarrow> chan_ok 32 c \<Longrightarrow> loop_ok n cd v r (s\<lparr>ext_cmd := c\<rparr>)"
  by (simp add: loop_ok_def)

lemma client_inv_step:
  assumes inv: "client_inv s" and step: "client_step L s s'"
  shows "client_inv s'"
proof (cases "running s")
  case False
  with ended_stuck [OF inv _ step] inv show ?thesis by simp
next
  case True
  obtain v where ok: "loop_ok 0 (select_codec v) v True s" using client_inv_running [OF inv True] by blast
  from step show ?thesis
  proof cases
    case (step_loop ev)
    with inv show ?thesis by (auto intro: client_inv_iteration)
  next
    case step_writer
    with ok show ?thesis by (auto intro: client_invI loop_ok_moved moved_out_writer)
  next
    case step_tcp_reader
    with ok show ?thesis
      by (auto simp: tcp_reader_loop_step_def split: if_splits prod.splits sum.splits option.splits
          intro!: client_invI loop_ok_wq dest: wq_ok_sends(2) [rotated] simp: loop_ok_def)
  next
    case (step_udp_reader now recv)
    with ok show ?thesis by (auto intro: client_invI loop_ok_udp_reader_loop_step)
  next
    case (step_ping ev)
    with ok show ?thesis
      by (auto simp: ping_loop_step_def split: if_splits intro!: client_invI [of v] loop_ok_moved [OF ok] moved_out_channel
          dest: chan_ok_send)
  next
    case step_forward
    then obtain cmd c res q where c: "chan_recv (ext_cmd s) = Some (Some cmd, c)"
      and q: "send_command cmd (el_wq s) = Some (res, q)"
      and s': "s' = s\<lparr>ext_cmd := (case res of Inr u \<Rightarrow> c | Inl e \<Rightarrow> chan_drop_rx c), el_wq := q\<rparr>"
      by (auto simp: cmd_forwarder_loop_step_def split: if_splits option.splits)
    have "chan_ok 32 c" "wq_ok q"
      using ok chan_ok_recv [OF _ c] wq_ok_sends(3) [OF _ q] by (auto simp: loop_ok_def)
    then have "loop_ok 0 (select_codec v) v True s'"
      unfolding s' using ok by (intro loop_ok_wq loop_ok_ext_cmd) (auto split: sum.splits)
    then show ?thesis by (rule client_invI)
  next
    case (step_send cmd r)
    then obtain c where "chan_send cmd (ext_cmd s) = Some (r, c)" "s' = s\<lparr>ext_cmd := c\<rparr>"
      by (auto simp: ClientHandle_send_def)
    with ok show ?thesis
      by (auto intro!: client_invI [of v] loop_ok_ext_cmd dest: chan_ok_send [rotated] simp: loop_ok_def)
  next
    case (step_send_audio msg r)
    with ok show ?thesis
      by (auto simp: ClientHandle_send_audio_def split: prod.splits sum.splits try_send_error.splits
          intro!: client_invI [of v] loop_ok_wq wq_ok_audio_out dest: chan_ok_try_send [rotated] simp: loop_ok_def wq_ok_def)
  next
    case (step_force_tcp force)
    with ok show ?thesis by (auto simp: set_force_tcp_def intro: client_invI)
  qed
qed

lemma client_inv_init: "client_inv (event_loop_init uc force rd wr)"
  by (rule client_invI [of None])
    (simp add: loop_ok_def event_loop_init_def select_codec_def ServerState_new_def state_wf_def)

lemma client_reachable_inv: "client_reachable L s \<Longrightarrow> client_inv s"
  by (induction rule: client_reachable.induct) (auto intro: client_inv_init client_inv_step)


section \<open>Ending the loop\<close>

text \<open>What the handlers leave alone: the work queue, the switch of \<^verbatim>\<open>force_tcp\<close>, the TCP reader and
  whether the loop runs.\<close>

definition frame :: "event_loop \<Rightarrow> work_queue \<times> bool \<times> bool \<times> bool \<times> bool" where
  "frame s = (el_wq s, watch_changed s, tcp_reader_ended s, tcp_reader_alive s, running s)"

lemma frame_moved: "moved_out s s' \<Longrightarrow> frame s' = frame s"
  by (auto simp: moved_out_def frame_def)

lemma frame_simps [simp]:
  "frame (emit e s) = frame s"
  "frame (s\<lparr>el_codec := cd\<rparr>) = frame s"
  "frame (s\<lparr>el_state := st\<rparr>) = frame s"
  "frame (s\<lparr>udp_sender := us\<rparr>) = frame s"
  "frame (s\<lparr>udp_resync_tx := tx\<rparr>) = frame s"
  "frame (s\<lparr>stored_crypto := sc\<rparr>) = frame s"
  "frame (s\<lparr>udp_reader_task := rd\<rparr>) = frame s"
  "frame (s\<lparr>force_tcp := f\<rparr>) = frame s"
  "frame (s\<lparr>outbound_audio_count := k\<rparr>) = frame s"
  by (simp_all add: frame_def emit_def)

lemma frame_send_udp_ping [simp]: "frame (send_udp_ping L ev s) = frame s"
  by (simp add: send_udp_ping_def Let_def split: option.splits)

lemma frame_start_udp [simp]: "frame (start_udp L ev key cn sn s) = frame s"
  by (simp add: start_udp_def Let_def split: prod.splits sum.splits)

lemma frame_handle_crypt_setup [simp]: "frame (handle_crypt_setup L ev cs s) = frame s"
  by (simp add: handle_crypt_setup_def Let_def split: option.splits)

lemma frame_handle_force_tcp_change [simp]: "frame (handle_force_tcp_change L ev s) = frame s"
  by (simp add: handle_force_tcp_change_def split: option.splits)

lemma frame_handle_control_message [simp]: "frame (handle_control_message L ev msg s) = frame s"
  by (cases msg) (simp_all add: handle_control_message_def Let_def)

lemma frame_handle_server_message: "frame (snd (handle_server_message L ev m s)) = frame s"
  by (cases m) (auto simp: handle_server_message_def Let_def split: option.splits sum.splits)

lemma frame_send_one_audio_packet [simp]: "frame (send_one_audio_packet L msg s) = frame s"
proof (cases msg)
  case (UM_Audio audio)
  have "frame (snd (outbound_try_send m x)) = frame x" for m x
    using moved_out_try_send [of m x] frame_moved by (cases "outbound_try_send m x") fastforce
  with UM_Audio show ?thesis
    by (auto simp: send_one_audio_packet_def Let_def split: option.splits prod.splits sum.splits)
qed (simp add: send_one_audio_packet_def)

lemma frame_send_tcp_output: "frame (send_tcp_output L msgs s) = frame s"
proof (induction L msgs s rule: send_tcp_output.induct)
  case (2 L msg msgs s)
  then show ?case
    using frame_moved moved_out_send by (fastforce split: option.splits prod.splits sum.splits)
qed simp

lemma frame_send_udp_output: "frame (send_udp_output L msgs s) = frame s"
proof (induction msgs arbitrary: s)
  case (Cons m msgs)
  have *: "frame s' = frame x" if "outbound_send L y x = (r, s')" for x y r s'
    using moved_out_send [OF that] by (rule frame_moved)
  show ?case
    using Cons.IH by (cases m) (auto simp: Let_def split: option.splits prod.splits sum.splits dest!: *)
qed simp

lemma frame_dispatch_item: "frame (snd (dispatch_item L ev item s)) = frame s"
  by (cases item)
    (simp_all add: dispatch_item_def handle_user_command_def Let_def frame_handle_server_message
      frame_send_udp_output frame_send_tcp_output)

text \<open>The loop ends exactly on a shutdown item, on a server message that decodes to \<^verbatim>\<open>Reject\<close>
  and on the user's \<^verbatim>\<open>Disconnect\<close> command; no other message, failure or command ends it.\<close>

theorem dispatch_breaks_iff:
  "(fst (dispatch_item L ev item s) = Break) =
     (item = WI_Shutdown \<or>
      (\<exists>raw r. item = WI_ServerMessage (SM_Control raw) \<and>
         codec_decode (l_dec L) (el_codec s) raw = CM_Reject r) \<or>
      item = WI_UserCommand Cmd_Disconnect)"
proof (cases item)
  case (WI_ServerMessage m)
  have rej: "message_type c = MT_Reject \<longleftrightarrow> (\<exists>r. c = CM_Reject r)" for c by (cases c) auto
  have tun: "as_UdpTunnel c = Some d \<Longrightarrow> c = CM_UdpTunnel d" for c d by (cases c) auto
  show ?thesis
  proof (cases m)
    case (SM_Control raw)
    show ?thesis
    proof (cases "as_UdpTunnel (codec_decode (l_dec L) (el_codec s) raw)")
      case None
      with WI_ServerMessage SM_Control show ?thesis
        by (simp add: dispatch_item_def handle_server_message_def Let_def rej)
    next
      case (Some data)
      with WI_ServerMessage SM_Control show ?thesis
        by (auto simp: dispatch_item_def handle_server_message_def Let_def dest: tun
            split: option.splits sum.splits)
    qed
  qed (use WI_ServerMessage in \<open>simp add: dispatch_item_def handle_server_message_def\<close>)
next
  case (WI_UserCommand c)
  have "disconnect (execute c st) = (c = Cmd_Disconnect)" for st
    by (cases c) (simp_all add: command_defs default_CommandOutput_def Let_def)
  with WI_UserCommand show ?thesis by (simp add: dispatch_item_def handle_user_command_def Let_def)
qed (simp add: dispatch_item_def)

text \<open>How much is ahead of the end of the loop: the queued items, the queued outbound audio and a
  pending change of \<^verbatim>\<open>force_tcp\<close>.\<close>

definition pending :: "event_loop \<Rightarrow> nat" where
  "pending s = length (queued (el_wq s)) + length (queue (wq_audio_out (el_wq s))) +
     (if watch_changed s then 1 else 0)"

lemma finish_running:
  "running (finish_iteration (a, s)) \<longleftrightarrow> a = Continue \<and> running s"
  "a = Continue \<Longrightarrow> finish_iteration (a, s) = s"
  by (cases a; simp add: finish_iteration_def)+

lemma iteration_progress:
  assumes "running s" and "tcp_reader_ended s" and "tcp_reader_alive s"
  shows "\<exists>s'. event_loop_iteration L ev s = Some s' \<and>
    (\<not> running s' \<or> (tcp_reader_ended s' \<and> tcp_reader_alive s' \<and> pending s' < pending s))"
proof (cases "wq_recv (el_wq s)")
  case (Some x)
  then obtain item q where q: "wq_recv (el_wq s) = Some (item, q)" by (cases x) auto
  obtain a t where d: "dispatch_item L ev item (s\<lparr>el_wq := q\<rparr>) = (a, t)"
    by (cases "dispatch_item L ev item (s\<lparr>el_wq := q\<rparr>)")
  have t: "frame t = frame (s\<lparr>el_wq := q\<rparr>)" using frame_dispatch_item [of L ev item "s\<lparr>el_wq := q\<rparr>"] d by simp
  have it: "event_loop_iteration L ev s = Some (finish_iteration (a, t))"
    using assms(1) q d by (simp add: event_loop_iteration_def)
  show ?thesis
  proof (cases "a = Continue")
    case True
    then have "item \<noteq> WI_Shutdown" using d by (auto simp: dispatch_item_def)
    with wq_recv_cases [OF q] have "queued (el_wq s) = item # queued q" by blast
    with t wq_recv_frame [OF q] assms True show ?thesis
      by (intro exI [of _ "finish_iteration (a, t)"]) (auto simp: it finish_running frame_def pending_def)
  next
    case False
    then show ?thesis using it finish_running(1) [of a t] by blast
  qed
next
  case None
  then have none: "queued (el_wq s) = []" using wq_recv_None by blast
  show ?thesis
  proof (cases "queue (wq_audio_out (el_wq s))")
    case (Cons msg ms)
    then obtain c where c: "chan_recv (wq_audio_out (el_wq s)) = Some (Some msg, c)" "queue c = ms"
      by (rule mpsc.recv_first)
    let ?t = "s\<lparr>el_wq := (el_wq s)\<lparr>wq_audio_out := c\<rparr>\<rparr>"
    have t: "frame (send_one_audio_packet L msg ?t) = frame ?t" by simp
    have "event_loop_iteration L ev s = Some (send_one_audio_packet L msg ?t)"
      using None c assms(1) by (simp add: event_loop_iteration_def)
    with t c(2) Cons assms show ?thesis
      by (auto simp: frame_def pending_def queued_def)
  next
    case Nil
    have it: "event_loop_iteration L ev s =
        (if watch_changed s then
           Some (if watch_force_tcp s \<noteq> force_tcp s
             then handle_force_tcp_change L ev (s\<lparr>watch_changed := False, force_tcp := watch_force_tcp s\<rparr>)
             else s\<lparr>watch_changed := False\<rparr>)
         else Some (finish_iteration (dispatch_item L ev WI_Shutdown (s\<lparr>tcp_reader_alive := False\<rparr>))))"
      using None Nil assms
      by (cases "tx_closed (wq_audio_out (el_wq s))") (simp_all add: event_loop_iteration_def chan_recv_def Let_def)
    show ?thesis
    proof (cases "watch_changed s")
      case True
      define s' where "s' = (if watch_force_tcp s \<noteq> force_tcp s
             then handle_force_tcp_change L ev (s\<lparr>watch_changed := False, force_tcp := watch_force_tcp s\<rparr>)
             else s\<lparr>watch_changed := False\<rparr>)"
      have "frame s' = frame (s\<lparr>watch_changed := False\<rparr>)" by (simp add: s'_def)
      moreover have "event_loop_iteration L ev s = Some s'" using it True unfolding s'_def by (simp only: if_True)
      ultimately show ?thesis using True assms by (intro exI [of _ s']) (simp add: frame_def pending_def)
    next
      case False
      with it show ?thesis by (simp add: dispatch_item_def finish_running)
    qed
  qed
qed

fun iterations :: "libs \<Rightarrow> env list \<Rightarrow> event_loop \<Rightarrow> event_loop" where
  "iterations L [] s = s"
| "iterations L (ev # evs) s =
     (case event_loop_iteration L ev s of None \<Rightarrow> s | Some s' \<Rightarrow> iterations L evs s')"

lemma iterations_ended: "\<not> running s \<Longrightarrow> iterations L evs s = s"
  by (cases evs) (simp_all add: event_loop_iteration_def)

text \<open>What the end of the connection has to do, written without queues: serve the pending items one after the other
  until one of them ends the loop, then send the pending audio, follow a change of \<^verbatim>\<open>force_tcp\<close>, and tell the handler.
  The environment of the k-th iteration is the k-th of \<open>evs\<close>.\<close>

definition dequeue :: "work_queue \<Rightarrow> work_queue" where
  "dequeue q =
     (if queue (wq_udp q) \<noteq> [] then q\<lparr>wq_udp := (wq_udp q)\<lparr>queue := tl (queue (wq_udp q))\<rparr>\<rparr>
      else if queue (wq_tcp q) \<noteq> [] then q\<lparr>wq_tcp := (wq_tcp q)\<lparr>queue := tl (queue (wq_tcp q))\<rparr>\<rparr>
      else q\<lparr>wq_cmd := (wq_cmd q)\<lparr>queue := tl (queue (wq_cmd q))\<rparr>\<rparr>)"

fun serve_items :: "libs \<Rightarrow> (env \<times> WorkItem) list \<Rightarrow> event_loop \<Rightarrow> LoopAction \<times> event_loop" where
  "serve_items L [] s = (Continue, s)"
| "serve_items L ((ev, item) # rest) s =
     (case dispatch_item L ev item (s\<lparr>el_wq := dequeue (el_wq s)\<rparr>) of
        (Continue, s') \<Rightarrow> serve_items L rest s'
      | (Break, s') \<Rightarrow> (Break, s'))"

definition dequeue_audio :: "event_loop \<Rightarrow> event_loop" where
  "dequeue_audio s = s\<lparr>el_wq := (el_wq s)\<lparr>wq_audio_out := (wq_audio_out (el_wq s))
     \<lparr>queue := tl (queue (wq_audio_out (el_wq s)))\<rparr>\<rparr>\<rparr>"

fun serve_audio :: "libs \<Rightarrow> UdpMessage list \<Rightarrow> event_loop \<Rightarrow> event_loop" where
  "serve_audio L [] s = s"
| "serve_audio L (msg # msgs) s = serve_audio L msgs (send_one_audio_packet L msg (dequeue_audio s))"

definition serve_force :: "libs \<Rightarrow> env \<Rightarrow> event_loop \<Rightarrow> event_loop" where
  "serve_force L ev s =
     (let t = s\<lparr>watch_changed := False\<rparr>
      in if watch_changed s \<and> watch_force_tcp s \<noteq> force_tcp s
         then handle_force_tcp_change L ev (t\<lparr>force_tcp := watch_force_tcp s\<rparr>) else t)"

definition serve_pending :: "libs \<Rightarrow> env list \<Rightarrow> event_loop \<Rightarrow> event_loop" where
  "serve_pending L evs s =
     (let items = queued (el_wq s); audio = queue (wq_audio_out (el_wq s))
      in case serve_items L (zip evs items) s of
           (Break, s') \<Rightarrow> finish_iteration (Break, s')
         | (Continue, s') \<Rightarrow>
             let s'' = serve_force L (evs ! (length items + length audio)) (serve_audio L audio s')
             in finish_iteration (Break, emit OnDisconnected (s''\<lparr>tcp_reader_alive := False\<rparr>)))"

lemma dequeue_queued:
  assumes "queued q = item # items"
  shows "wq_recv q = Some (item, dequeue q)" "queued (dequeue q) = items"
    "wq_audio_out (dequeue q) = wq_audio_out q" "all_senders_gone (dequeue q) = all_senders_gone q"
  using assms
  by (cases "queue (wq_udp q)"; cases "queue (wq_tcp q)"; cases "queue (wq_cmd q)";
      auto simp: wq_recv_queued dequeue_def queued_def all_senders_gone_def)+

lemma iterations_items:
  assumes "running s" and "queued (el_wq s) = items" and "length items \<le> length evs"
  shows "case serve_items L (zip evs items) s of
      (Break, s') \<Rightarrow> iterations L evs s = finish_iteration (Break, s')
    | (Continue, s') \<Rightarrow> iterations L evs s = iterations L (drop (length items) evs) s' \<and>
        running s' \<and> queued (el_wq s') = [] \<and> wq_audio_out (el_wq s') = wq_audio_out (el_wq s) \<and>
        all_senders_gone (el_wq s') = all_senders_gone (el_wq s) \<and>
        tcp_reader_ended s' = tcp_reader_ended s \<and> tcp_reader_alive s' = tcp_reader_alive s"
  using assms
proof (induction items arbitrary: s evs)
  case (Cons item items)
  note q = dequeue_queued [OF Cons.prems(2)]
  obtain ev evs' where evs: "evs = ev # evs'" "length items \<le> length evs'"
    using Cons.prems(3) by (cases evs) auto
  obtain a t where d: "dispatch_item L ev item (s\<lparr>el_wq := dequeue (el_wq s)\<rparr>) = (a, t)" by (rule prod.exhaust)
  have t: "el_wq t = dequeue (el_wq s)" "running t" "tcp_reader_ended t = tcp_reader_ended s"
      "tcp_reader_alive t = tcp_reader_alive s"
    using frame_dispatch_item [of L ev item "s\<lparr>el_wq := dequeue (el_wq s)\<rparr>"] d Cons.prems(1) by (simp_all add: frame_def)
  have it: "event_loop_iteration L ev s = Some (finish_iteration (a, t))"
    using Cons.prems(1) q(1) d by (simp add: event_loop_iteration_def)
  show ?case
  proof (cases a)
    case Continue
    have "queued (el_wq t) = items" using t(1) q(2) by simp
    from Cons.IH [OF t(2) this evs(2)] show ?thesis
      using Continue it d t q(3,4)
      by (simp add: evs(1) finish_running cong: prod.case_cong LoopAction.case_cong)
  next
    case Break
    then show ?thesis
      using it d by (simp add: evs(1) iterations_ended finish_running)
  qed
qed simp

lemma iterations_audio:
  assumes "running s" and "queued (el_wq s) = []" and "\<not> all_senders_gone (el_wq s)"
    and "queue (wq_audio_out (el_wq s)) = msgs" and "length msgs \<le> length evs"
  shows "iterations L evs s = iterations L (drop (length msgs) evs) (serve_audio L msgs s) \<and>
    running (serve_audio L msgs s) \<and> queued (el_wq (serve_audio L msgs s)) = [] \<and>
    \<not> all_senders_gone (el_wq (serve_audio L msgs s)) \<and> queue (wq_audio_out (el_wq (serve_audio L msgs s))) = [] \<and>
    tcp_reader_ended (serve_audio L msgs s) = tcp_reader_ended s \<and>
    tcp_reader_alive (serve_audio L msgs s) = tcp_reader_alive s"
  using assms
proof (induction msgs arbitrary: s evs)
  case (Cons msg msgs)
  obtain ev evs' where evs: "evs = ev # evs'" "length msgs \<le> length evs'" using Cons.prems(5) by (cases evs) auto
  let ?t = "send_one_audio_packet L msg (dequeue_audio s)"
  have "frame ?t = frame (dequeue_audio s)" by simp
  then have t: "el_wq ?t = el_wq (dequeue_audio s)" "running ?t" "tcp_reader_ended ?t = tcp_reader_ended s"
      "tcp_reader_alive ?t = tcp_reader_alive s"
    using Cons.prems(1) by (simp_all add: frame_def dequeue_audio_def)
  have none: "wq_recv (el_wq s) = None" using Cons.prems(2,3) wq_recv_None by blast
  have "event_loop_iteration L ev s = Some ?t"
    using none Cons.prems(1,4) by (simp add: event_loop_iteration_def chan_recv_def dequeue_audio_def)
  moreover have "queued (el_wq ?t) = []" "\<not> all_senders_gone (el_wq ?t)" "queue (wq_audio_out (el_wq ?t)) = msgs"
    using Cons.prems(2-4) t(1) by (simp_all add: dequeue_audio_def queued_def all_senders_gone_def)
  ultimately show ?case
    using Cons.IH [of ?t evs'] evs t by simp
qed simp

lemma iterations_last:
  assumes "running s" and "queued (el_wq s) = []" and "\<not> all_senders_gone (el_wq s)"
    and "queue (wq_audio_out (el_wq s)) = []" and "tcp_reader_ended s" and "tcp_reader_alive s"
    and "length evs > (if watch_changed s then 1 else 0)"
  shows "iterations L evs s =
    finish_iteration (Break, emit OnDisconnected ((serve_force L (evs ! 0) s)\<lparr>tcp_reader_alive := False\<rparr>))"
proof -
  have last: "event_loop_iteration L ev t =
      Some (finish_iteration (Break, emit OnDisconnected (t\<lparr>tcp_reader_alive := False\<rparr>)))"
    if "frame t = frame (s\<lparr>watch_changed := False\<rparr>)" for ev t
    using that assms wq_recv_None [of "el_wq s"]
    by (auto simp: event_loop_iteration_def chan_recv_def frame_def dispatch_item_def split: option.splits)
  obtain ev evs' where evs: "evs = ev # evs'" using assms(7) by (cases evs) auto
  show ?thesis
  proof (cases "watch_changed s")
    case False
    then have same: "s\<lparr>watch_changed := False\<rparr> = s" by simp
    show ?thesis
      using last [of s ev] False by (simp add: evs serve_force_def Let_def same iterations_ended finish_running)
  next
    case True
    then obtain ev2 evs2 where evs2: "evs' = ev2 # evs2" using assms(7) evs by (cases evs') auto
    let ?t = "serve_force L ev s"
    have "event_loop_iteration L ev s = Some ?t"
      using True assms(1-4) wq_recv_None [of "el_wq s"]
      by (auto simp: event_loop_iteration_def chan_recv_def serve_force_def Let_def split: option.splits)
    moreover have "frame ?t = frame (s\<lparr>watch_changed := False\<rparr>)" by (simp add: serve_force_def Let_def)
    ultimately show ?thesis
      using last [of ?t ev2] by (simp add: evs evs2 iterations_ended finish_running)
  qed
qed

lemma serve_items_frame: "watch_changed (snd (serve_items L xs s)) = watch_changed s"
proof (induction L xs s rule: serve_items.induct)
  case (2 L ev item rest s)
  have "watch_changed (snd (dispatch_item L ev item (s\<lparr>el_wq := dequeue (el_wq s)\<rparr>))) = watch_changed s"
    using frame_dispatch_item [of L ev item "s\<lparr>el_wq := dequeue (el_wq s)\<rparr>"] by (simp add: frame_def)
  with 2 show ?case by (auto split: prod.splits LoopAction.splits)
qed simp

lemma serve_audio_frame: "watch_changed (serve_audio L msgs s) = watch_changed s"
proof (induction msgs arbitrary: s)
  case (Cons msg msgs)
  have "frame (send_one_audio_packet L msg (dequeue_audio s)) = frame (dequeue_audio s)" by simp
  with Cons show ?case by (simp add: frame_def dequeue_audio_def)
qed simp

lemma serve_watch: "watch_changed (serve_audio L msgs (snd (serve_items L xs s))) = watch_changed s"
  by (simp add: serve_audio_frame serve_items_frame)

text \<open>C21: When the TCP connection is lost, the loop serves everything that is pending and then ends. Its run is that of
  the description above: each queued server message and user command is dispatched, in the order of the queue, until
  one of them ends the loop (a rejection, or the user's own disconnect); else each queued packet of outbound audio is
  sent, a change of \<^verbatim>\<open>force_tcp\<close> is followed, and the handler is told. It takes at most one iteration per pending item and
  one more. (The loop holds a sender of its queue itself, so the queue never reports that all senders are gone.)\<close>

theorem loop_drains_and_ends:
  assumes "running s" and "tcp_reader_ended s" and "tcp_reader_alive s" and "\<not> all_senders_gone (el_wq s)"
    and "pending s < length evs"
  shows "iterations L evs s = serve_pending L evs s \<and> \<not> running (serve_pending L evs s)"
proof -
  let ?n = "length (queued (el_wq s))" and ?msgs = "queue (wq_audio_out (el_wq s))"
  obtain a t where run: "serve_items L (zip evs (queued (el_wq s))) s = (a, t)" by (rule prod.exhaust)
  have n: "?n \<le> length evs" "length ?msgs \<le> length (drop ?n evs)" using assms(5) by (auto simp: pending_def split: if_splits)
  note items = iterations_items [OF assms(1) refl n(1), of L, unfolded run]
  show ?thesis
  proof (cases a)
    case Break
    with items run show ?thesis by (simp add: serve_pending_def Let_def finish_running)
  next
    case Continue
    with items have t: "running t" "queued (el_wq t) = []" "\<not> all_senders_gone (el_wq t)"
        "queue (wq_audio_out (el_wq t)) = ?msgs" "tcp_reader_ended t" "tcp_reader_alive t"
      using assms(2-4) by (simp_all add: Let_def)
    note audio = iterations_audio [OF t(1-4) n(2), of L]
    let ?u = "serve_audio L ?msgs t" and ?k = "?n + length ?msgs"
    have kept: "watch_changed ?u = watch_changed s"
      using serve_watch [of L ?msgs "zip evs (queued (el_wq s))" s] run by simp
    have len: "(if watch_changed ?u then 1 else 0) < length (drop (length ?msgs) (drop ?n evs))"
      using assms(5) by (auto simp: kept pending_def split: if_splits)
    have "drop (length ?msgs) (drop ?n evs) ! 0 = evs ! ?k" using len by (simp add: add.commute)
    with audio t iterations_last [of ?u "drop (length ?msgs) (drop ?n evs)" L] len items Continue
    show ?thesis by (simp add: serve_pending_def Let_def run finish_running)
  qed
qed


section \<open>Properties of the client\<close>

text \<open>C2: The client's invariant. In every reachable state, whatever the server sends and however the
  tasks interleave: every user and channel is stored under its own id; the codec is the one for the
  Fancy version the server announced; with \<^verbatim>\<open>force_tcp\<close> there is no UDP sender, reader or resync
  channel; no channel exceeds its capacity; and \<^verbatim>\<open>on_disconnected\<close> has been called exactly once if the
  loop has ended and not at all before.\<close>

theorem client_invariant:
  assumes "client_reachable L s"
  shows "state_wf (el_state s) \<and>
    el_codec s = select_codec (server_fancy_version (connection (el_state s))) \<and>
    (force_tcp s \<longrightarrow> udp_sender s = None \<and> udp_reader_task s = None \<and> udp_resync_tx s = None) \<and>
    length (queue (outbound s)) \<le> 64 \<and> length (queue (wq_udp (el_wq s))) \<le> 256 \<and>
    length (queue (wq_tcp (el_wq s))) \<le> 64 \<and> length (queue (wq_cmd (el_wq s))) \<le> 32 \<and>
    length (queue (wq_audio_out (el_wq s))) \<le> 128 \<and>
    count_list (handler s) OnDisconnected = (if running s then 0 else 1)"
  using client_reachable_inv [OF assms]
  by (auto simp: client_inv_def loop_ok_def wq_ok_def chan_ok_def channel_sizes udp_inv_def)

theorem client_invariant_witness:
  "client_reachable demo_libs (handle_force_tcp_change demo_libs demo_env
     (demo_loop\<lparr>watch_force_tcp := True, watch_changed := False, force_tcp := True\<rparr>)) \<and>
   udp_sender (handle_force_tcp_change demo_libs demo_env
     (demo_loop\<lparr>watch_force_tcp := True, watch_changed := False, force_tcp := True\<rparr>)) = None"
proof -
  let ?s1 = "set_force_tcp True demo_loop"
  let ?s2 = "handle_force_tcp_change demo_libs demo_env
     (demo_loop\<lparr>watch_force_tcp := True, watch_changed := False, force_tcp := True\<rparr>)"
  have 1: "client_reachable demo_libs ?s1"
    unfolding demo_loop_def by (rule reach_step [OF reach_init step_force_tcp])
  have "event_loop_iteration demo_libs demo_env ?s1 = Some ?s2"
    by (simp add: event_loop_iteration_def set_force_tcp_def demo_loop_def event_loop_init_def
        wq_recv_queued work_queue_create_def chan_new_def chan_recv_def all_senders_gone_def Let_def)
  then have 2: "client_reachable demo_libs ?s2" by (intro reach_step [OF 1] step_loop)
  have "force_tcp ?s2" by (simp add: handle_force_tcp_change_def emit_def)
  with client_invariant [OF 2] 2 show ?thesis by blast
qed

text \<open>Once the loop has ended nothing moves any more: no task and no operation of the handle
  changes the state, and the handle reports that the queue is closed.\<close>

theorem ended_client_is_inert:
  assumes "client_reachable L s" and "\<not> running s"
  shows "(\<forall>s'. client_step L s s' \<longrightarrow> s' = s) \<and>
    ClientHandle_send cmd s = Some (Inl QueueClosed, s) \<and>
    ClientHandle_send_audio msg s = (Inl QueueClosed, s)"
  using client_reachable_inv [OF assms(1)] assms(2) ended_stuck [of s L]
  by (auto simp: client_inv_def ended_ok_def ClientHandle_send_def ClientHandle_send_audio_def
      chan_send_def chan_try_send_def)

definition demo_ended :: event_loop where
  "demo_ended = finish_iteration (dispatch_item demo_libs demo_env (WI_UserCommand Cmd_Disconnect) demo_loop)"

lemma demo_ended_reachable: "client_reachable demo_libs demo_ended" "\<not> running demo_ended"
proof -
  let ?s1 = "demo_loop\<lparr>ext_cmd := (ext_cmd demo_loop)\<lparr>queue := [Cmd_Disconnect]\<rparr>\<rparr>"
  let ?s2 = "demo_loop\<lparr>el_wq := (el_wq demo_loop)\<lparr>wq_cmd := (wq_cmd (el_wq demo_loop))\<lparr>queue := [Cmd_Disconnect]\<rparr>\<rparr>\<rparr>"
  note defs = demo_loop_def event_loop_init_def work_queue_create_def chan_new_def channel_sizes
  have "client_reachable demo_libs ?s1"
    by (rule reach_step [OF reach_init [of demo_libs default_UdpConfig False "\<lparr>reader = [], read_buf = [], read_error = None\<rparr>" "\<lparr>writer = [], write_fault = None\<rparr>"]
          step_send [where cmd = Cmd_Disconnect and r = "Inr ()"]])
      (simp add: ClientHandle_send_def chan_send_def chan_try_send_def defs)
  then have "client_reachable demo_libs ?s2"
    by (rule reach_step [OF _ step_forward])
      (simp add: cmd_forwarder_loop_step_def chan_recv_def send_command_def chan_send_def chan_try_send_def defs)
  then show "client_reachable demo_libs demo_ended"
    by (rule reach_step [OF _ step_loop [where ev = demo_env]])
      (simp add: event_loop_iteration_def wq_recv_queued demo_ended_def defs)
  show "\<not> running demo_ended"
    by (simp add: demo_ended_def dispatch_item_def handle_user_command_def command_defs
        default_CommandOutput_def finish_iteration_def Let_def)
qed

theorem ended_client_is_inert_witness:
  "ClientHandle_send Cmd_Disconnect demo_ended = Some (Inl QueueClosed, demo_ended) \<and>
   ClientHandle_send_audio (UM_Ping default_UdpPing) demo_ended = (Inl QueueClosed, demo_ended)"
  using ended_client_is_inert [OF demo_ended_reachable, of Cmd_Disconnect "UM_Ping default_UdpPing"] by blast

theorem loop_drains_and_ends_witness:
  "(let s = demo_loop\<lparr>tcp_reader_ended := True, watch_changed := True,
       el_wq := (el_wq demo_loop)\<lparr>wq_udp := (wq_udp (el_wq demo_loop))\<lparr>queue := [UM_Ping default_UdpPing]\<rparr>\<rparr>\<rparr>;
       s' = iterations demo_libs [demo_env, demo_env, demo_env] s
    in \<not> running s' \<and> handler s' = [OnUdpMessage (UM_Ping default_UdpPing), OnDisconnected])"
proof -
  let ?s = "demo_loop\<lparr>tcp_reader_ended := True, watch_changed := True,
       el_wq := (el_wq demo_loop)\<lparr>wq_udp := (wq_udp (el_wq demo_loop))\<lparr>queue := [UM_Ping default_UdpPing]\<rparr>\<rparr>\<rparr>"
  note defs = demo_loop_def event_loop_init_def work_queue_create_def chan_new_def queued_def
  have "iterations demo_libs [demo_env, demo_env, demo_env] ?s = serve_pending demo_libs [demo_env, demo_env, demo_env] ?s \<and>
      \<not> running (serve_pending demo_libs [demo_env, demo_env, demo_env] ?s)"
    by (rule loop_drains_and_ends) (simp_all add: defs pending_def all_senders_gone_def)
  moreover have "handler (serve_pending demo_libs [demo_env, demo_env, demo_env] ?s) =
      [OnUdpMessage (UM_Ping default_UdpPing), OnDisconnected]"
    by (simp add: serve_pending_def Let_def defs dispatch_item_def handle_server_message_def serve_force_def
        finish_iteration_def emit_def)
  ultimately show ?thesis by (simp add: Let_def)
qed

text \<open>C39: Connecting gives the outcome of the first attempt that is not refused, and of the third one
  at the latest: a refused connection is retried at most twice, every other error is final.\<close>

theorem connect_retries:
  "connect_loop connect 1 None =
     connect (if connect 1 \<noteq> Inl (Io ConnectionRefused) then 1
              else if connect 2 \<noteq> Inl (Io ConnectionRefused) then 2 else 3)"
  by (subst connect_loop.simps, subst connect_loop.simps, subst connect_loop.simps)
    (auto simp: MAX_RETRIES_def numeral_2_eq_2 numeral_3_eq_3 split: sum.splits)

section \<open>What a command puts on the wire\<close>

text \<open>The bytes written and the frames still queued: the TCP stream as it will be.\<close>

definition tcp_stream :: "libs \<Rightarrow> event_loop \<Rightarrow> bytes" where
  "tcp_stream L s = writer (tcp_writer s) @ concat (map (tcp_frame (l_enc L)) (queue (outbound s)))"

definition out_open :: "event_loop \<Rightarrow> bool" where
  "out_open s \<longleftrightarrow> \<not> rx_closed (outbound s) \<and> chan_ok 64 (outbound s) \<and> write_fault (tcp_writer s) = None"

lemma tcp_stream_writer_step:
  assumes "out_open s"
  shows "tcp_stream L (tcp_writer_loop_step L s) = tcp_stream L s \<and> out_open (tcp_writer_loop_step L s) \<and>
    length (queue (outbound (tcp_writer_loop_step L s))) = length (queue (outbound s)) - 1"
  using assms
  by (cases "queue (outbound s)")
    (auto simp: tcp_writer_loop_step_def chan_recv_def tcp_stream_def out_open_def chan_ok_def
      TcpWriter_send_open)

lemma outbound_send_stream:
  assumes "out_open s"
  obtains s' where "outbound_send L m s = (Inr (), s')" "out_open s'"
    "tcp_stream L s' = tcp_stream L s @ tcp_frame (l_enc L) m"
proof -
  define t where "t = (if chan_send m (outbound s) = None then tcp_writer_loop_step L s else s)"
  have t: "tcp_stream L t = tcp_stream L s" "out_open t"
    using tcp_stream_writer_step [OF assms] assms by (auto simp: t_def)
  have "length (queue (outbound t)) < 64"
    using assms tcp_stream_writer_step [OF assms, of L]
    by (auto simp: t_def chan_send_def chan_try_send_def out_open_def chan_ok_def split: if_splits)
  with t(2) have "chan_send m (outbound t) = Some (Inr (), (outbound t)\<lparr>queue := queue (outbound t) @ [m]\<rparr>)"
    by (simp add: chan_send_def chan_try_send_def out_open_def chan_ok_def)
  then have "outbound_send L m s = (Inr (), t\<lparr>outbound := (outbound t)\<lparr>queue := queue (outbound t) @ [m]\<rparr>\<rparr>)"
    by (simp add: outbound_send_def Let_def flip: t_def)
  moreover have "out_open (t\<lparr>outbound := (outbound t)\<lparr>queue := queue (outbound t) @ [m]\<rparr>\<rparr>)"
    using t(2) \<open>length (queue (outbound t)) < 64\<close> by (simp add: out_open_def chan_ok_def)
  moreover have "tcp_stream L (t\<lparr>outbound := (outbound t)\<lparr>queue := queue (outbound t) @ [m]\<rparr>\<rparr>) =
      tcp_stream L s @ tcp_frame (l_enc L) m"
    using t(1) by (simp add: tcp_stream_def)
  ultimately show ?thesis by (rule that)
qed

lemma outbound_send_keeps:
  "outbound_send L m s = (r, s') \<Longrightarrow> el_codec s' = el_codec s \<and> el_state s' = el_state s"
  using moved_out_send [of L m s r s'] by (auto simp: moved_out_def)

text \<open>The messages of a command as the codec lets them through.\<close>

definition encoded_messages :: "libs \<Rightarrow> event_loop \<Rightarrow> ControlMessage list \<Rightarrow> ControlMessage list" where
  "encoded_messages L s msgs =
     List.map_filter (\<lambda>m. codec_encode (l_enc L) (el_codec s) m (el_state s)) msgs"

lemma send_tcp_output_stream:
  assumes "out_open s"
  shows "tcp_stream L (send_tcp_output L msgs s) =
      tcp_stream L s @ concat (map (tcp_frame (l_enc L)) (encoded_messages L s msgs)) \<and>
    out_open (send_tcp_output L msgs s)"
  using assms
proof (induction msgs arbitrary: s)
  case Nil
  then show ?case by (simp add: encoded_messages_def List.map_filter_def)
next
  case (Cons msg msgs)
  show ?case
  proof (cases "codec_encode (l_enc L) (el_codec s) msg (el_state s)")
    case None
    with Cons show ?thesis by (simp add: encoded_messages_def List.map_filter_simps)
  next
    case (Some m)
    obtain s' where s': "outbound_send L m s = (Inr (), s')" "out_open s'"
        "tcp_stream L s' = tcp_stream L s @ tcp_frame (l_enc L) m"
      using outbound_send_stream [OF Cons.prems] .
    have "encoded_messages L s' msgs = encoded_messages L s msgs"
      using outbound_send_keeps [OF s'(1)] by (simp add: encoded_messages_def)
    with Cons.IH [OF s'(2)] s' Some show ?thesis
      by (simp add: encoded_messages_def List.map_filter_simps)
  qed
qed

text \<open>The writer task drains the outbound channel.\<close>

lemma writer_drains:
  assumes "out_open s"
  shows "writer (tcp_writer ((tcp_writer_loop_step L ^^ length (queue (outbound s))) s)) = tcp_stream L s"
  using assms
proof (induction "length (queue (outbound s))" arbitrary: s)
  case 0
  then show ?case by (simp add: tcp_stream_def)
next
  case (Suc n)
  let ?t = "tcp_writer_loop_step L s"
  have t: "tcp_stream L ?t = tcp_stream L s" "out_open ?t" "n = length (queue (outbound ?t))"
    using tcp_stream_writer_step [OF Suc.prems, of L] Suc.hyps(2) by simp_all
  from Suc.hyps(1) [OF t(3,2)] t show ?case
    by (simp add: Suc.hyps(2) [symmetric] funpow_swap1 del: funpow.simps add: funpow_Suc_right)
qed

end
