(* ===== verification/Pchat_Provider.thy ===== *)
theory Pchat_Provider
  imports Server_State
begin

text \<open>
  The message stores of the persistent chat: the domain types of
  src/crates/mumble-protocol/src/persistent/mod.rs, the channel configurations of config.rs and the
  providers of provider.rs.

  A trait object \<^verbatim>\<open>Box<dyn PersistentProviderBackend>\<close> is a record of its operations together with
  the state they work on. A range is applied to a slice: \<open>None\<close> is the panic of a slice out of
  bounds. The locale \<open>message_store\<close> is the contract of \<^verbatim>\<open>get_messages\<close> and \<^verbatim>\<open>store_message\<close>,
  \<open>replacing_store\<close> adds \<^verbatim>\<open>replace_message\<close>; every provider is an interpretation.
\<close>

section \<open>Domain types\<close>

definition as_wire_str :: "PchatProtocol \<Rightarrow> string" where
  "as_wire_str p =
     (case p of
        PP_None \<Rightarrow> ''NONE''
      | PP_FancyV1FullArchive \<Rightarrow> ''FANCY_V1_FULL_ARCHIVE''
      | PP_SignalV1 \<Rightarrow> ''SIGNAL_V1'')"

definition from_wire_str :: "string \<Rightarrow> PchatProtocol" where
  "from_wire_str s =
     (if s = ''FANCY_V1_FULL_ARCHIVE'' \<or> s = ''FULL_ARCHIVE'' then PP_FancyV1FullArchive
      else if s = ''SIGNAL_V1'' then PP_SignalV1
      else PP_None)"

lemma from_wire_str_as_wire_str [simp]: "from_wire_str (as_wire_str p) = p"
  by (cases p) (simp_all add: from_wire_str_def as_wire_str_def)

datatype MessageRange =
  Latest u64
| Before string u64
| After string u64

record StoredMessage =
  sm_message_id :: string
  sm_channel_id :: u32
  sm_timestamp :: u64
  sm_sender_hash :: string
  sm_sender_name :: string
  sm_body :: string
  sm_encrypted :: bool
  sm_epoch :: "u32 option"
  sm_chain_index :: "u32 option"
  sm_replaces_id :: "string option"

datatype KeyTrustLevel = ManuallyVerified | Verified | Unverified | Disputed

section \<open>Channel configurations\<close>

record ChannelPersistConfig =
  cc_channel_id :: u32
  cc_mode :: PchatProtocol
  cc_max_history :: u32
  cc_retention_days :: u32
  cc_key_custodians :: "string list"

definition from_channel_state ::
    "u32 \<Rightarrow> i32 option \<Rightarrow> u32 option \<Rightarrow> u32 option \<Rightarrow> string list \<Rightarrow> ChannelPersistConfig" where
  "from_channel_state channel_id pchat_protocol pchat_max_history pchat_retention_days
     pchat_key_custodians =
     \<lparr>cc_channel_id = channel_id,
      cc_mode = (case pchat_protocol of Some v \<Rightarrow> PchatProtocol_from_proto v | None \<Rightarrow> PP_None),
      cc_max_history = (case pchat_max_history of Some v \<Rightarrow> v | None \<Rightarrow> 0),
      cc_retention_days = (case pchat_retention_days of Some v \<Rightarrow> v | None \<Rightarrow> 0),
      cc_key_custodians = pchat_key_custodians\<rparr>"

definition is_persistent :: "ChannelPersistConfig \<Rightarrow> bool" where
  "is_persistent c \<longleftrightarrow> cc_mode c \<noteq> PP_None"

record ConfigRegistry =
  cr_configs :: "(u32, ChannelPersistConfig) hash_map"

definition ConfigRegistry_new :: ConfigRegistry where
  "ConfigRegistry_new = \<lparr>cr_configs = []\<rparr>"

definition upsert :: "ChannelPersistConfig \<Rightarrow> ConfigRegistry \<Rightarrow> ConfigRegistry" where
  "upsert config r = r\<lparr>cr_configs := hm_insert (cc_channel_id config) config (cr_configs r)\<rparr>"

definition ConfigRegistry_remove :: "u32 \<Rightarrow> ConfigRegistry \<Rightarrow> ConfigRegistry" where
  "ConfigRegistry_remove channel_id r = r\<lparr>cr_configs := hm_remove channel_id (cr_configs r)\<rparr>"

definition persistent_channels :: "ConfigRegistry \<Rightarrow> ChannelPersistConfig list" where
  "persistent_channels r = filter is_persistent (hm_values (cr_configs r))"

definition get_config :: "ConfigRegistry \<Rightarrow> u32 \<Rightarrow> ChannelPersistConfig option" where
  "get_config r channel_id = hm_get (cr_configs r) channel_id"

definition mode_for :: "ConfigRegistry \<Rightarrow> u32 \<Rightarrow> PchatProtocol" where
  "mode_for r channel_id = (case get_config r channel_id of Some c \<Rightarrow> cc_mode c | None \<Rightarrow> PP_None)"

text \<open>The registry is keyed by the channel of each configuration, and the persistent channels it
  lists are those whose mode is not \<^verbatim>\<open>NONE\<close>.\<close>

definition registry_inv :: "ConfigRegistry \<Rightarrow> bool" where
  "registry_inv r \<longleftrightarrow> hm_keyed cc_channel_id (cr_configs r)"

lemma registry_inv_intros [intro]:
  "registry_inv ConfigRegistry_new"
  "registry_inv r \<Longrightarrow> registry_inv (upsert c r)"
  "registry_inv r \<Longrightarrow> registry_inv (ConfigRegistry_remove ch r)"
  by (simp_all add: registry_inv_def ConfigRegistry_new_def upsert_def ConfigRegistry_remove_def
      hm_keyed_insert hm_keyed_remove)

lemma mode_for_upsert:
  "mode_for (upsert c r) ch = (if ch = cc_channel_id c then cc_mode c else mode_for r ch)"
  by (simp add: mode_for_def get_config_def upsert_def)

lemma mode_for_remove:
  "mode_for (ConfigRegistry_remove c r) ch = (if ch = c then PP_None else mode_for r ch)"
  by (simp add: mode_for_def get_config_def ConfigRegistry_remove_def)

lemma persistent_channels_iff:
  assumes "registry_inv r"
  shows "cc_channel_id ` set (persistent_channels r) = {ch. mode_for r ch \<noteq> PP_None}"
proof -
  from assms have keyed: "hm_wf (cr_configs r)"
      "hm_get (cr_configs r) k = Some v \<Longrightarrow> cc_channel_id v = k" for k v
    by (auto simp: registry_inv_def hm_keyed_def)
  show ?thesis
  proof (intro set_eqI iffI)
    fix ch
    assume "ch \<in> cc_channel_id ` set (persistent_channels r)"
    then obtain k c where "hm_get (cr_configs r) k = Some c" "cc_mode c \<noteq> PP_None"
        "ch = cc_channel_id c"
      using set_hm_values [OF keyed(1)] by (auto simp: persistent_channels_def is_persistent_def)
    with keyed(2) show "ch \<in> {ch. mode_for r ch \<noteq> PP_None}"
      by (auto simp: mode_for_def get_config_def)
  next
    fix ch
    assume "ch \<in> {ch. mode_for r ch \<noteq> PP_None}"
    then obtain c where c: "hm_get (cr_configs r) ch = Some c" "cc_mode c \<noteq> PP_None"
      by (auto simp: mode_for_def get_config_def split: option.splits)
    then have "c \<in> set (persistent_channels r)"
      using set_hm_values [OF keyed(1)] by (auto simp: persistent_channels_def is_persistent_def)
    with keyed(2) [OF c(1)] show "ch \<in> cc_channel_id ` set (persistent_channels r)" by blast
  qed
qed

section \<open>Ranges\<close>

text \<open>\<^verbatim>\<open>msgs[start..end].to_vec()\<close>: \<open>None\<close> is the panic when the bounds are out of order or range.\<close>

definition slice_to_vec :: "nat \<Rightarrow> nat \<Rightarrow> 'a list \<Rightarrow> 'a list option" where
  "slice_to_vec start end' xs =
     (if start \<le> end' \<and> end' \<le> length xs then Some (take (end' - start) (drop start xs)) else None)"

definition apply_range :: "StoredMessage list \<Rightarrow> MessageRange \<Rightarrow> StoredMessage list option" where
  "apply_range msgs rng =
     (case rng of
        Latest limit \<Rightarrow>
          let start = length msgs - unat limit
          in slice_to_vec start (length msgs) msgs
      | Before message_id limit \<Rightarrow>
          (case position (\<lambda>m. sm_message_id m = message_id) msgs of
             Some pos \<Rightarrow>
               let start = pos - unat limit
               in slice_to_vec start pos msgs
           | None \<Rightarrow> Some [])
      | After message_id limit \<Rightarrow>
          (case position (\<lambda>m. sm_message_id m = message_id) msgs of
             Some pos \<Rightarrow>
               let end' = min (unat (of_nat pos + 1 + limit)) (length msgs)
               in slice_to_vec (pos + 1) end' msgs
           | None \<Rightarrow> Some []))"

text \<open>What the ranges mean on a history whose length is a machine integer.\<close>

lemma position_less: "position p xs = Some i \<Longrightarrow> i < length xs"
  by (drule position_Some) simp

lemma apply_Latest: "apply_range msgs (Latest n) = Some (drop (length msgs - unat n) msgs)"
  by (simp add: apply_range_def slice_to_vec_def)

lemma apply_Before:
  assumes "position (\<lambda>m. sm_message_id m = i) msgs = Some pos"
  shows "apply_range msgs (Before i n) = Some (drop (pos - unat n) (take pos msgs))"
  using position_less [OF assms] assms
  by (simp add: apply_range_def slice_to_vec_def drop_take Let_def)

lemma unat_pos_limit:
  assumes "pos + 1 + unat n < 2 ^ 64"
  shows "unat (of_nat pos + 1 + n :: u64) = pos + 1 + unat n"
proof -
  have "unat (of_nat (pos + 1 + unat n) :: u64) = pos + 1 + unat n"
    using assms by (simp only: unat_of_nat take_bit_nat_eq_self_iff len_of_numeral_defs) simp
  then show ?thesis by (simp add: ac_simps)
qed

lemma unat_pos_limit_wraps:
  assumes "2 ^ 64 \<le> pos + 1 + unat n" and "pos < 2 ^ 64"
  shows "unat (of_nat pos + 1 + n :: u64) < pos + 1"
proof -
  have n: "unat n < 2 ^ 64" using unsigned_less [of n] by simp
  have "unat (of_nat (pos + 1 + unat n) :: u64) = (pos + 1 + unat n) mod 2 ^ 64"
    by (simp only: unat_of_nat take_bit_eq_mod len_of_numeral_defs) simp
  also have "\<dots> = pos + 1 + unat n - 2 ^ 64" using assms n by (simp add: mod_if)
  also have "\<dots> < pos + 1" using n by simp
  finally show ?thesis by (simp add: ac_simps)
qed

lemma apply_After:
  assumes "position (\<lambda>m. sm_message_id m = i) msgs = Some pos" and "pos + 1 + unat n < 2 ^ 64"
  shows "apply_range msgs (After i n) = Some (take (unat n) (drop (pos + 1) msgs))"
  using position_less [OF assms(1)] assms(1) unat_pos_limit [OF assms(2)]
  by (simp add: apply_range_def slice_to_vec_def Let_def min_def)

lemma apply_unknown:
  assumes "position (\<lambda>m. sm_message_id m = i) msgs = None"
  shows "apply_range msgs (Before i n) = Some []" "apply_range msgs (After i n) = Some []"
  using assms by (simp_all add: apply_range_def)

lemma position_distinct:
  assumes "distinct (map f xs)" and "i < length xs"
  shows "position (\<lambda>x. f x = f (xs ! i)) xs = Some i"
  using assms
proof (induction xs arbitrary: i)
  case (Cons x xs)
  then show ?case by (cases i) (auto dest: nth_mem)
qed simp

section \<open>The contract of a message store\<close>

text \<open>\<open>messages s ch\<close> is the history of a channel, oldest first. Reading applies the range to it,
  storing appends to it and touches no other channel.\<close>

type_synonym 's get_op = "'s \<Rightarrow> u32 \<Rightarrow> MessageRange \<Rightarrow> StoredMessage list result option"
type_synonym 's store_op = "u32 \<Rightarrow> StoredMessage \<Rightarrow> 's \<Rightarrow> unit result \<times> 's"
type_synonym 's replace_op = "u32 \<Rightarrow> string \<Rightarrow> StoredMessage \<Rightarrow> 's \<Rightarrow> bool result \<times> 's"

text \<open>The position that \<^verbatim>\<open>replace_message\<close> looks for, and the history after it.\<close>

definition replace_pos :: "string \<Rightarrow> StoredMessage \<Rightarrow> StoredMessage list \<Rightarrow> nat option" where
  "replace_pos replaces_id replacement msgs =
     position (\<lambda>m. sm_message_id m = replaces_id \<and> sm_sender_hash m = sm_sender_hash replacement) msgs"

definition replaced :: "string \<Rightarrow> StoredMessage \<Rightarrow> StoredMessage list \<Rightarrow> StoredMessage list" where
  "replaced replaces_id replacement msgs =
     (case replace_pos replaces_id replacement msgs of
        Some pos \<Rightarrow> msgs[pos := replacement] | None \<Rightarrow> msgs)"

text \<open>Paging backwards, as a client of the store does: the latest \<open>n\<close> messages, then \<open>n\<close> messages
  before the oldest one it has, \<open>k\<close> times.\<close>

definition page :: "'s get_op \<Rightarrow> 's \<Rightarrow> u32 \<Rightarrow> MessageRange \<Rightarrow> StoredMessage list" where
  "page get s ch r = (case get s ch r of Some (Inr ms) \<Rightarrow> ms | _ \<Rightarrow> [])"

fun history_walk :: "'s get_op \<Rightarrow> 's \<Rightarrow> u32 \<Rightarrow> u64 \<Rightarrow> nat \<Rightarrow> StoredMessage list" where
  "history_walk get s ch n 0 = page get s ch (Latest n)"
| "history_walk get s ch n (Suc k) =
     (case history_walk get s ch n k of
        [] \<Rightarrow> []
      | m # ms \<Rightarrow> page get s ch (Before (sm_message_id m) n) @ m # ms)"

lemma replace_pos_iff:
  "replace_pos i m xs \<noteq> None \<longleftrightarrow>
     (\<exists>x \<in> set xs. sm_message_id x = i \<and> sm_sender_hash x = sm_sender_hash m)"
  using position_None [of "\<lambda>x. sm_message_id x = i \<and> sm_sender_hash x = sm_sender_hash m" xs]
  by (simp add: replace_pos_def)

lemma list_all2_refl_or: "list_all2 (\<lambda>x y. y = x \<or> P x y) xs xs"
  by (rule list_all2_refl) simp

lemma replaced_changes:
  "list_all2 (\<lambda>x y. y = x \<or> (sm_message_id x = i \<and> sm_sender_hash x = sm_sender_hash m) \<and> y = m)
     xs (replaced i m xs)"
proof (cases "replace_pos i m xs")
  case (Some pos)
  then have "pos < length xs"
      "sm_message_id (xs ! pos) = i \<and> sm_sender_hash (xs ! pos) = sm_sender_hash m"
    by (auto simp: replace_pos_def dest: position_Some)
  with Some show ?thesis
    by (auto simp: replaced_def list_all2_conv_all_nth nth_list_update)
qed (simp add: replaced_def list_all2_refl_or)

locale message_store =
  fixes messages :: "'s \<Rightarrow> u32 \<Rightarrow> StoredMessage list"
    and invar :: "'s \<Rightarrow> bool"
    and get :: "'s get_op"
    and store :: "'s store_op"
  assumes get_apply_range:
      "invar s \<Longrightarrow> get s ch r = map_option Inr (apply_range (messages s ch) r)"
    and store_ok: "invar s \<Longrightarrow> fst (store ch m s) = Inr ()"
    and store_invar: "invar s \<Longrightarrow> invar (snd (store ch m s))"
    and store_appends:
      "invar s \<Longrightarrow> messages (snd (store ch m s)) = (messages s)(ch := messages s ch @ [m])"
begin

definition store_all :: "(u32 \<times> StoredMessage) list \<Rightarrow> 's \<Rightarrow> 's" where
  "store_all ms s = fold (\<lambda>(ch, m) s. snd (store ch m s)) ms s"

text \<open>A store is a multimap of histories: it keeps what was stored in a channel, in order.\<close>

lemma messages_store_all:
  assumes "invar s"
  shows "invar (store_all ms s) \<and>
    messages (store_all ms s) ch = messages s ch @ map snd (filter (\<lambda>(c, m). c = ch) ms)"
  using assms
proof (induction ms arbitrary: s)
  case (Cons cm ms)
  obtain c m where cm: "cm = (c, m)" by fastforce
  have "invar (snd (store c m s))" by (rule store_invar) fact
  from Cons.IH [OF this] Cons.prems show ?case
    by (simp add: cm store_all_def store_appends)
qed (simp add: store_all_def)

lemma page_eq: "invar s \<Longrightarrow> apply_range (messages s ch) r = Some ms \<Longrightarrow> page get s ch r = ms"
  by (simp add: page_def get_apply_range)

lemma history_walk_suffix:
  assumes inv: "invar s" and dist: "distinct (map sm_message_id (messages s ch))"
  shows "history_walk get s ch n k =
           drop (length (messages s ch) - unat n * Suc k) (messages s ch)"
proof (induction k)
  case 0
  show ?case by (simp add: page_eq [OF inv apply_Latest])
next
  case (Suc k)
  let ?ms = "messages s ch"
  let ?i = "length ?ms - unat n * Suc k"
  show ?case
  proof (cases "drop ?i ?ms")
    case Nil
    then have "length ?ms \<le> ?i" by simp
    then have "length ?ms = 0 \<or> unat n = 0" by (simp only: mult_Suc_right) arith
    then have "?ms = [] \<or> unat n = 0" by simp
    then show ?thesis using Suc Nil by auto
  next
    case (Cons m rest)
    then have i: "?i < length ?ms" and m: "m = ?ms ! ?i"
      by (metis drop_all list.distinct(1) not_less,
          metis drop_eq_Nil hd_drop_conv_nth list.distinct(1) list.sel(1) not_less)
    have "position (\<lambda>x. sm_message_id x = sm_message_id m) ?ms = Some ?i"
      unfolding m by (rule position_distinct [OF dist i])
    then have "page get s ch (Before (sm_message_id m) n) = drop (?i - unat n) (take ?i ?ms)"
      by (intro page_eq [OF inv] apply_Before)
    moreover have "?i - unat n = length ?ms - unat n * Suc (Suc k)" by simp
    moreover have "drop j (take ?i ?ms) @ drop ?i ?ms = drop j ?ms" if "j \<le> ?i" for j
      using that by (metis append_take_drop_id diff_is_0_eq diff_le_self drop0 drop_append
          length_take min.absorb2)
    ultimately show ?thesis using Suc Cons by simp
  qed
qed

text \<open>With a positive page size the walk reaches the beginning: paging loses and repeats nothing.\<close>

lemma history_walk_all:
  assumes "invar s" and "distinct (map sm_message_id (messages s ch))" and "0 < unat n"
    and "length (messages s ch) \<le> Suc k"
  shows "history_walk get s ch n k = messages s ch"
proof -
  have "Suc k \<le> unat n * Suc k" using mult_le_mono1 [of 1 "unat n" "Suc k"] assms(3) by simp
  then have "length (messages s ch) - unat n * Suc k = 0" using assms(4) by simp
  then show ?thesis using history_walk_suffix [OF assms(1,2), of n k] by simp
qed

end

locale replacing_store = message_store messages invar get store
  for messages :: "'s \<Rightarrow> u32 \<Rightarrow> StoredMessage list"
    and invar :: "'s \<Rightarrow> bool"
    and get :: "'s get_op" and store :: "'s store_op" +
  fixes replace :: "'s replace_op"
  assumes replace_result:
      "invar s \<Longrightarrow> fst (replace ch i m s) = Inr (replace_pos i m (messages s ch) \<noteq> None)"
    and replace_invar: "invar s \<Longrightarrow> invar (snd (replace ch i m s))"
    and replace_effect: "invar s \<Longrightarrow>
      messages (snd (replace ch i m s)) = (messages s)(ch := replaced i m (messages s ch))"
begin

text \<open>Replacing changes no length and no message of another sender.\<close>

lemma replace_keeps_length:
  "invar s \<Longrightarrow> length (messages (snd (replace c i m s)) ch) = length (messages s ch)"
  by (simp add: replace_effect replaced_def split: option.splits)

lemma replace_keeps_senders:
  assumes "invar s"
  shows "map sm_sender_hash (messages (snd (replace c i m s)) ch) =
         map sm_sender_hash (messages s ch)"
proof (cases "replace_pos i m (messages s c)")
  case (Some pos)
  then have "pos < length (messages s c)" "sm_sender_hash (messages s c ! pos) = sm_sender_hash m"
    by (auto simp: replace_pos_def dest: position_Some)
  then have "map sm_sender_hash ((messages s c)[pos := m]) = map sm_sender_hash (messages s c)"
    by (metis list_update_id map_update nth_map)
  with Some assms show ?thesis by (simp add: replace_effect replaced_def)
qed (use assms in \<open>simp add: replace_effect replaced_def\<close>)

end

section \<open>The volatile provider\<close>

record VolatileMessageProvider =
  v_messages :: "(u32, StoredMessage list) hash_map"

definition VolatileMessageProvider_new :: VolatileMessageProvider where
  "VolatileMessageProvider_new = \<lparr>v_messages = []\<rparr>"

definition clear_channel :: "u32 \<Rightarrow> VolatileMessageProvider \<Rightarrow> VolatileMessageProvider" where
  "clear_channel channel_id v = v\<lparr>v_messages := hm_remove channel_id (v_messages v)\<rparr>"

definition clear_all :: "VolatileMessageProvider \<Rightarrow> VolatileMessageProvider" where
  "clear_all v = v\<lparr>v_messages := []\<rparr>"

text \<open>The volatile provider and the in-memory backend keep their messages in the same way: a map
  from channels to vectors, read with \<open>apply_range\<close>, extended by a push into the entry, searched
  for a replacement position.\<close>

definition cache_get ::
    "(u32, StoredMessage list) hash_map \<Rightarrow> u32 \<Rightarrow> MessageRange \<Rightarrow> StoredMessage list result option"
  where
  "cache_get cache channel_id r =
     (case hm_get cache channel_id of
        None \<Rightarrow> Some (Inr [])
      | Some msgs \<Rightarrow> map_option Inr (apply_range msgs r))"

definition cache_push ::
    "u32 \<Rightarrow> StoredMessage \<Rightarrow> (u32, StoredMessage list) hash_map
      \<Rightarrow> (u32, StoredMessage list) hash_map" where
  "cache_push channel_id message cache =
     hm_entry_modify channel_id [] (\<lambda>msgs. msgs @ [message]) cache"

definition cache_replace ::
    "u32 \<Rightarrow> string \<Rightarrow> StoredMessage \<Rightarrow> (u32, StoredMessage list) hash_map
      \<Rightarrow> bool result \<times> (u32, StoredMessage list) hash_map" where
  "cache_replace channel_id replaces_id replacement cache =
     (case hm_get cache channel_id of
        Some msgs \<Rightarrow>
          (case replace_pos replaces_id replacement msgs of
             Some pos \<Rightarrow> (Inr True, hm_insert channel_id (msgs[pos := replacement]) cache)
           | None \<Rightarrow> (Inr False, cache))
      | None \<Rightarrow> (Inr False, cache))"

definition volatile_get_messages :: "VolatileMessageProvider get_op" where
  "volatile_get_messages v channel_id r = cache_get (v_messages v) channel_id r"

definition volatile_store_message :: "VolatileMessageProvider store_op" where
  "volatile_store_message channel_id message v =
     (Inr (), v\<lparr>v_messages := cache_push channel_id message (v_messages v)\<rparr>)"

definition volatile_replace_message :: "VolatileMessageProvider replace_op" where
  "volatile_replace_message channel_id replaces_id replacement v =
     (case cache_replace channel_id replaces_id replacement (v_messages v) of
        (r, cache) \<Rightarrow> (r, v\<lparr>v_messages := cache\<rparr>))"

definition volatile_has_more :: "VolatileMessageProvider \<Rightarrow> u32 \<Rightarrow> bool" where
  "volatile_has_more v channel_id = False"

definition volatile_mode :: "VolatileMessageProvider \<Rightarrow> u32 \<Rightarrow> PchatProtocol" where
  "volatile_mode v channel_id = PP_None"

section \<open>Persistent backends\<close>

text \<open>The operations of the trait \<^verbatim>\<open>PersistentProviderBackend\<close> on a backend state of type \<open>'b\<close>.\<close>

record 'b PersistentProviderBackend =
  cached_messages :: "'b get_op"
  cache_message :: "'b store_op"
  replace_cached_message :: "'b replace_op"
  server_has_more :: "'b \<Rightarrow> u32 \<Rightarrow> bool"
  channel_mode :: "'b \<Rightarrow> u32 \<Rightarrow> PchatProtocol"

record InMemoryPersistentBackend =
  b_cache :: "(u32, StoredMessage list) hash_map"
  b_modes :: "(u32, PchatProtocol) hash_map"
  b_has_more :: "(u32, bool) hash_map"

definition InMemoryPersistentBackend_new :: InMemoryPersistentBackend where
  "InMemoryPersistentBackend_new = \<lparr>b_cache = [], b_modes = [], b_has_more = []\<rparr>"

definition set_mode :: "u32 \<Rightarrow> PchatProtocol \<Rightarrow> InMemoryPersistentBackend \<Rightarrow> InMemoryPersistentBackend"
  where
  "set_mode channel_id mode b = b\<lparr>b_modes := hm_insert channel_id mode (b_modes b)\<rparr>"

definition set_has_more :: "u32 \<Rightarrow> bool \<Rightarrow> InMemoryPersistentBackend \<Rightarrow> InMemoryPersistentBackend"
  where
  "set_has_more channel_id has_more b = b\<lparr>b_has_more := hm_insert channel_id has_more (b_has_more b)\<rparr>"

definition in_memory_cached_messages :: "InMemoryPersistentBackend get_op" where
  "in_memory_cached_messages b channel_id r = cache_get (b_cache b) channel_id r"

definition in_memory_cache_message :: "InMemoryPersistentBackend store_op" where
  "in_memory_cache_message channel_id message b =
     (Inr (), b\<lparr>b_cache := cache_push channel_id message (b_cache b)\<rparr>)"

definition in_memory_replace_cached_message :: "InMemoryPersistentBackend replace_op" where
  "in_memory_replace_cached_message channel_id replaces_id replacement b =
     (case cache_replace channel_id replaces_id replacement (b_cache b) of
        (r, cache) \<Rightarrow> (r, b\<lparr>b_cache := cache\<rparr>))"

definition in_memory_server_has_more :: "InMemoryPersistentBackend \<Rightarrow> u32 \<Rightarrow> bool" where
  "in_memory_server_has_more b channel_id =
     (case hm_get (b_has_more b) channel_id of Some v \<Rightarrow> v | None \<Rightarrow> False)"

definition in_memory_channel_mode :: "InMemoryPersistentBackend \<Rightarrow> u32 \<Rightarrow> PchatProtocol" where
  "in_memory_channel_mode b channel_id =
     (case hm_get (b_modes b) channel_id of Some v \<Rightarrow> v | None \<Rightarrow> PP_None)"

definition in_memory_backend :: "InMemoryPersistentBackend PersistentProviderBackend" where
  "in_memory_backend =
     \<lparr>cached_messages = in_memory_cached_messages,
      cache_message = in_memory_cache_message,
      replace_cached_message = in_memory_replace_cached_message,
      server_has_more = in_memory_server_has_more,
      channel_mode = in_memory_channel_mode\<rparr>"

section \<open>The persistent and the composite provider\<close>

record 'b PersistentMessageProvider =
  backend_ops :: "'b PersistentProviderBackend"
  backend :: 'b

definition persistent_get_messages :: "'b PersistentMessageProvider get_op" where
  "persistent_get_messages p channel_id r =
     cached_messages (backend_ops p) (backend p) channel_id r"

definition persistent_store_message :: "'b PersistentMessageProvider store_op" where
  "persistent_store_message channel_id message p =
     (case cache_message (backend_ops p) channel_id message (backend p) of
        (r, b) \<Rightarrow> (r, p\<lparr>backend := b\<rparr>))"

definition persistent_replace_message :: "'b PersistentMessageProvider replace_op" where
  "persistent_replace_message channel_id replaces_id replacement p =
     (case replace_cached_message (backend_ops p) channel_id replaces_id replacement (backend p) of
        (r, b) \<Rightarrow> (r, p\<lparr>backend := b\<rparr>))"

definition persistent_has_more :: "'b PersistentMessageProvider \<Rightarrow> u32 \<Rightarrow> bool" where
  "persistent_has_more p channel_id = server_has_more (backend_ops p) (backend p) channel_id"

definition persistent_mode :: "'b PersistentMessageProvider \<Rightarrow> u32 \<Rightarrow> PchatProtocol" where
  "persistent_mode p channel_id = channel_mode (backend_ops p) (backend p) channel_id"

record 'b CompositeMessageProvider =
  volatile :: VolatileMessageProvider
  persistent :: "'b PersistentMessageProvider"

definition effective_mode :: "'b CompositeMessageProvider \<Rightarrow> u32 \<Rightarrow> PchatProtocol" where
  "effective_mode p channel_id = persistent_mode (persistent p) channel_id"

definition composite_get_messages :: "'b CompositeMessageProvider get_op" where
  "composite_get_messages p channel_id r =
     (case effective_mode p channel_id of
        PP_FancyV1FullArchive \<Rightarrow> persistent_get_messages (persistent p) channel_id r
      | _ \<Rightarrow> volatile_get_messages (volatile p) channel_id r)"

definition composite_store_message :: "'b CompositeMessageProvider store_op" where
  "composite_store_message channel_id message p =
     (case effective_mode p channel_id of
        PP_FancyV1FullArchive \<Rightarrow>
          (case persistent_store_message channel_id message (persistent p) of
             (r, q) \<Rightarrow> (r, p\<lparr>persistent := q\<rparr>))
      | _ \<Rightarrow>
          (case volatile_store_message channel_id message (volatile p) of
             (r, v) \<Rightarrow> (r, p\<lparr>volatile := v\<rparr>)))"

definition composite_replace_message :: "'b CompositeMessageProvider replace_op" where
  "composite_replace_message channel_id replaces_id replacement p =
     (case volatile_replace_message channel_id replaces_id replacement (volatile p) of
        (Inl e, v) \<Rightarrow> (Inl e, p\<lparr>volatile := v\<rparr>)
      | (Inr True, v) \<Rightarrow> (Inr True, p\<lparr>volatile := v\<rparr>)
      | (Inr False, v) \<Rightarrow>
          (case persistent_replace_message channel_id replaces_id replacement (persistent p) of
             (r, q) \<Rightarrow> (r, p\<lparr>volatile := v, persistent := q\<rparr>)))"

definition composite_has_more :: "'b CompositeMessageProvider \<Rightarrow> u32 \<Rightarrow> bool" where
  "composite_has_more p channel_id =
     (case effective_mode p channel_id of
        PP_FancyV1FullArchive \<Rightarrow> persistent_has_more (persistent p) channel_id
      | _ \<Rightarrow> volatile_has_more (volatile p) channel_id)"

definition composite_mode :: "'b CompositeMessageProvider \<Rightarrow> u32 \<Rightarrow> PchatProtocol" where
  "composite_mode p channel_id = effective_mode p channel_id"

section \<open>The providers keep the contract\<close>

text \<open>The history of a channel in a map of vectors.\<close>

definition channel_history :: "(u32, StoredMessage list) hash_map \<Rightarrow> u32 \<Rightarrow> StoredMessage list" where
  "channel_history cache ch = (case hm_get cache ch of Some msgs \<Rightarrow> msgs | None \<Rightarrow> [])"

lemma apply_range_Nil [simp]: "apply_range [] r = Some []"
  by (cases r) (simp_all add: apply_range_def slice_to_vec_def)

lemma cache_get_history: "cache_get cache ch r = map_option Inr (apply_range (channel_history cache ch) r)"
  by (simp add: cache_get_def channel_history_def split: option.splits)

lemma history_cache_push:
  "channel_history (cache_push ch m cache) =
     (channel_history cache)(ch := channel_history cache ch @ [m])"
  by (rule ext) (simp add: channel_history_def cache_push_def split: option.splits)

lemma replace_pos_Nil [simp]: "replace_pos i m [] = None"
  by (simp add: replace_pos_def)

lemma cache_replace_cases:
  "cache_replace ch i m cache = (Inr (replace_pos i m (channel_history cache ch) \<noteq> None), cache') \<Longrightarrow>
   channel_history cache' = (channel_history cache)(ch := replaced i m (channel_history cache ch))"
  by (rule ext)
     (auto simp: cache_replace_def channel_history_def replaced_def split: option.splits)

lemma cache_replace_result:
  "fst (cache_replace ch i m cache) = Inr (replace_pos i m (channel_history cache ch) \<noteq> None)"
  by (simp add: cache_replace_def channel_history_def split: option.splits)

lemma cache_replace_effect:
  "channel_history (snd (cache_replace ch i m cache)) =
     (channel_history cache)(ch := replaced i m (channel_history cache ch))"
  using cache_replace_result [of ch i m cache]
  by (intro cache_replace_cases) (metis prod.collapse)

lemmas cache_laws = cache_get_history history_cache_push cache_replace_result cache_replace_effect

interpretation volatile: replacing_store "\<lambda>v. channel_history (v_messages v)" "\<lambda>v. True"
    volatile_get_messages volatile_store_message volatile_replace_message
  by unfold_locales
     (simp_all add: volatile_get_messages_def volatile_store_message_def volatile_replace_message_def
      cache_laws case_prod_unfold)

text \<open>What the composite provider relies on: a backend whose cache is a store and whose operations
  leave the channel modes alone.\<close>

locale lawful_backend =
  replacing_store bmessages binvar "cached_messages ops" "cache_message ops"
    "replace_cached_message ops"
  for bmessages :: "'b \<Rightarrow> u32 \<Rightarrow> StoredMessage list"
    and binvar :: "'b \<Rightarrow> bool"
    and ops :: "'b PersistentProviderBackend" +
  assumes cache_keeps_mode:
      "binvar b \<Longrightarrow> channel_mode ops (snd (cache_message ops ch m b)) = channel_mode ops b"
    and replace_keeps_mode: "binvar b \<Longrightarrow>
      channel_mode ops (snd (replace_cached_message ops ch i m b)) = channel_mode ops b"
begin

definition pinvar :: "'b PersistentMessageProvider \<Rightarrow> bool" where
  "pinvar p \<longleftrightarrow> backend_ops p = ops \<and> binvar (backend p)"

definition visible :: "'b CompositeMessageProvider \<Rightarrow> u32 \<Rightarrow> StoredMessage list" where
  "visible p ch =
     (if effective_mode p ch = PP_FancyV1FullArchive then bmessages (backend (persistent p)) ch
      else channel_history (v_messages (volatile p)) ch)"

lemma persistent_replacing_store:
  "replacing_store (\<lambda>p. bmessages (backend p)) pinvar persistent_get_messages
     persistent_store_message persistent_replace_message"
  by unfold_locales
     (simp_all add: pinvar_def persistent_get_messages_def persistent_store_message_def
      persistent_replace_message_def case_prod_unfold get_apply_range store_ok store_invar
      store_appends replace_result replace_invar replace_effect)

lemma composite_message_store:
  "message_store visible (\<lambda>p. pinvar (persistent p)) composite_get_messages composite_store_message"
proof unfold_locales
  fix p :: "'b CompositeMessageProvider" and ch r m
  assume inv: "pinvar (persistent p)"
  then have ops: "backend_ops (persistent p) = ops" "binvar (backend (persistent p))"
    by (simp_all add: pinvar_def)
  show "composite_get_messages p ch r = map_option Inr (apply_range (visible p ch) r)"
    by (simp add: composite_get_messages_def visible_def persistent_get_messages_def ops
        get_apply_range volatile.get_apply_range split: PchatProtocol.splits)
  show "fst (composite_store_message ch m p) = Inr ()"
    by (simp add: composite_store_message_def persistent_store_message_def ops store_ok
        volatile.store_ok case_prod_unfold split: PchatProtocol.splits)
  show "pinvar (persistent (snd (composite_store_message ch m p)))"
    by (simp add: composite_store_message_def persistent_store_message_def pinvar_def ops store_invar
        case_prod_unfold split: PchatProtocol.splits)
  show "visible (snd (composite_store_message ch m p)) = (visible p)(ch := visible p ch @ [m])"
    by (rule ext)
       (simp add: composite_store_message_def persistent_store_message_def visible_def ops
        effective_mode_def persistent_mode_def store_appends cache_keeps_mode case_prod_unfold
        volatile.store_appends split: PchatProtocol.splits)
qed

end

sublocale lawful_backend \<subseteq> pers: replacing_store "\<lambda>p. bmessages (backend p)" pinvar
    persistent_get_messages persistent_store_message persistent_replace_message
  by (rule persistent_replacing_store)

sublocale lawful_backend \<subseteq> comp: message_store visible "\<lambda>p. pinvar (persistent p)"
    composite_get_messages composite_store_message
  by (rule composite_message_store)

interpretation in_memory: lawful_backend "\<lambda>b. channel_history (b_cache b)" "\<lambda>b. True" in_memory_backend
  by unfold_locales
     (simp_all add: in_memory_backend_def in_memory_cached_messages_def in_memory_cache_message_def
      in_memory_replace_cached_message_def in_memory_channel_mode_def cache_laws case_prod_unfold fun_eq_iff)

text \<open>The composite provider over the in-memory backend, with the modes of the channels set; its two
  histories of a channel.\<close>

definition composite_in_memory ::
    "(u32, PchatProtocol) hash_map \<Rightarrow> InMemoryPersistentBackend CompositeMessageProvider" where
  "composite_in_memory modes =
     \<lparr>volatile = VolatileMessageProvider_new,
      persistent = \<lparr>backend_ops = in_memory_backend,
        backend = fold (\<lambda>(ch, mode). set_mode ch mode) modes InMemoryPersistentBackend_new\<rparr>\<rparr>"

abbreviation volatile_history :: "'b CompositeMessageProvider \<Rightarrow> u32 \<Rightarrow> StoredMessage list" where
  "volatile_history p \<equiv> channel_history (v_messages (volatile p))"

abbreviation persistent_history ::
    "InMemoryPersistentBackend CompositeMessageProvider \<Rightarrow> u32 \<Rightarrow> StoredMessage list" where
  "persistent_history p \<equiv> channel_history (b_cache (backend (persistent p)))"

lemma b_cache_fold_set_mode:
  "b_cache (fold (\<lambda>(ch, mode). set_mode ch mode) modes b) = b_cache b"
  by (induction modes arbitrary: b) (auto simp: set_mode_def)

lemma composite_in_memory_inv:
  "in_memory.pinvar (persistent (composite_in_memory modes))"
  "in_memory.visible (composite_in_memory modes) ch = []"
  by (simp_all add: in_memory.pinvar_def in_memory.visible_def composite_in_memory_def
      VolatileMessageProvider_new_def channel_history_def b_cache_fold_set_mode
      InMemoryPersistentBackend_new_def)

section \<open>Properties\<close>

text \<open>C15: Paging through a channel returns its history. After any sequence of messages stored into the
  composite provider, whatever the modes of the channels, reading the latest \<open>n\<close> messages of a
  channel and then \<open>n\<close> messages before the oldest one read, again and again, yields exactly the
  messages stored in this channel, in the order they were stored, provided their ids differ.\<close>

theorem paging_returns_history:
  fixes stored :: "(u32 \<times> StoredMessage) list" and ch :: u32
  defines "history \<equiv> map snd (filter (\<lambda>(c, m). c = ch) stored)"
  assumes ids: "distinct (map sm_message_id history)"
    and limit: "0 < n" and enough: "length history \<le> Suc k"
  shows "history_walk composite_get_messages
           (fold (\<lambda>(c, m) p. snd (composite_store_message c m p)) stored (composite_in_memory modes))
           ch n k = history"
proof -
  let ?p = "in_memory.comp.store_all stored (composite_in_memory modes)"
  have p: "in_memory.pinvar (persistent ?p)" "in_memory.visible ?p ch = history"
    using in_memory.comp.messages_store_all [OF composite_in_memory_inv(1), of stored modes ch]
    by (simp_all add: composite_in_memory_inv history_def)
  have "history_walk composite_get_messages ?p ch n k = history"
    using in_memory.comp.history_walk_all [of ?p ch n k] p ids limit enough
    by (simp add: word_less_nat_alt)
  then show ?thesis by (simp add: in_memory.comp.store_all_def)
qed

definition demo_message :: "string \<Rightarrow> string \<Rightarrow> StoredMessage" where
  "demo_message message_id sender =
     \<lparr>sm_message_id = message_id, sm_channel_id = 1, sm_timestamp = 0, sm_sender_hash = sender,
      sm_sender_name = ''n'', sm_body = ''b'', sm_encrypted = False, sm_epoch = None,
      sm_chain_index = None, sm_replaces_id = None\<rparr>"

theorem paging_returns_history_witness:
  "history_walk composite_get_messages
     (fold (\<lambda>(c, m) p. snd (composite_store_message c m p))
        [(1, demo_message ''a'' ''x''), (2, demo_message ''b'' ''x''), (1, demo_message ''c'' ''y'')]
        (composite_in_memory [(1, PP_FancyV1FullArchive)])) 1 1 1 =
   [demo_message ''a'' ''x'', demo_message ''c'' ''y'']"
  using paging_returns_history [of 1
      "[(1, demo_message ''a'' ''x''), (2, demo_message ''b'' ''x''), (1, demo_message ''c'' ''y'')]"
      1 1 "[(1, PP_FancyV1FullArchive)]"]
  by (simp add: demo_message_def)

text \<open>C34: What a replacement may change. Replacing a message through the composite provider reports
  success exactly when one of its stores holds, in that channel, a message with the given id from the
  same sender; every position that changes held such a message and now holds the replacement, and
  no history gets longer or shorter. In particular nobody replaces the message of another sender.\<close>

theorem replace_only_own_message:
  fixes p :: "InMemoryPersistentBackend CompositeMessageProvider" and m :: StoredMessage
    and ch :: u32 and i :: string
  assumes "backend_ops (persistent p) = in_memory_backend"
  defines "p' \<equiv> snd (composite_replace_message ch i m p)"
    and "own \<equiv> \<lambda>x. sm_message_id x = i \<and> sm_sender_hash x = sm_sender_hash m"
  shows "fst (composite_replace_message ch i m p) =
           Inr (\<exists>x. (x \<in> set (volatile_history p ch) \<or> x \<in> set (persistent_history p ch)) \<and> own x) \<and>
         list_all2 (\<lambda>x y. y = x \<or> c = ch \<and> own x \<and> y = m) (volatile_history p c) (volatile_history p' c) \<and>
         list_all2 (\<lambda>x y. y = x \<or> c = ch \<and> own x \<and> y = m) (persistent_history p c) (persistent_history p' c)"
proof -
  let ?P = "persistent_replace_message ch i m (persistent p)"
  have V: "fst (volatile_replace_message ch i m (volatile p)) = Inr (\<exists>x \<in> set (volatile_history p ch). own x)"
    by (simp add: volatile.replace_result replace_pos_iff own_def del: not_None_eq)
  have P: "fst ?P = Inr (\<exists>x \<in> set (persistent_history p ch). own x)"
      "channel_history (b_cache (backend (snd ?P))) =
         (persistent_history p)(ch := replaced i m (persistent_history p ch))"
    using in_memory.pers.replace_result [of "persistent p" ch i m]
      in_memory.pers.replace_effect [of "persistent p" ch i m] assms(1)
    by (simp_all add: replace_pos_iff in_memory.pinvar_def own_def del: not_None_eq)
  show ?thesis
  proof (cases "\<exists>x \<in> set (volatile_history p ch). own x")
    case True
    then have "composite_replace_message ch i m p =
        (Inr True, p\<lparr>volatile := snd (volatile_replace_message ch i m (volatile p))\<rparr>)"
      using V by (simp add: composite_replace_message_def case_prod_unfold)
    then show ?thesis
      using True replaced_changes [of i m "volatile_history p c"]
      by (auto simp: p'_def own_def volatile.replace_effect list_all2_same)
  next
    case False
    then have "composite_replace_message ch i m p =
        (fst ?P, p\<lparr>volatile := snd (volatile_replace_message ch i m (volatile p)), persistent := snd ?P\<rparr>)"
      using V by (simp add: composite_replace_message_def case_prod_unfold)
    then show ?thesis
      using False P replaced_changes [of i m "volatile_history p c"]
        replaced_changes [of i m "persistent_history p c"]
      by (auto simp: p'_def own_def volatile.replace_effect list_all2_same)
  qed
qed

theorem replace_only_own_message_witness:
  "fst (composite_replace_message 1 ''a'' (demo_message ''z'' ''mallory'')
      (snd (composite_store_message 1 (demo_message ''a'' ''alice'') (composite_in_memory [])))) = Inr False"
  using replace_only_own_message [of "snd (composite_store_message 1 (demo_message ''a'' ''alice'')
      (composite_in_memory []))" 1 "''a''" "demo_message ''z'' ''mallory''" 1]
  by (simp add: composite_in_memory_def composite_store_message_def effective_mode_def persistent_mode_def
      in_memory_backend_def in_memory_channel_mode_def InMemoryPersistentBackend_new_def
      volatile_store_message_def VolatileMessageProvider_new_def cache_push_def hm_entry_modify_def
      channel_history_def demo_message_def)

text \<open>When reading panics. A read with a range never fails, except for a forward page with a known
  cursor whose limit overflows the machine word when it is added to the position: the end of the
  slice then wraps to before its start and the read panics.\<close>

theorem get_messages_panics_iff:
  assumes "length (channel_history (v_messages v) ch) < 2 ^ 64"
  shows "volatile_get_messages v ch r = None \<longleftrightarrow>
    (\<exists>i n pos. r = After i n \<and>
       position (\<lambda>m. sm_message_id m = i) (channel_history (v_messages v) ch) = Some pos \<and>
       2 ^ 64 \<le> pos + 1 + unat n)"
proof (cases r)
  case (Latest n)
  then show ?thesis by (simp add: volatile.get_apply_range apply_Latest)
next
  case (Before i n)
  then show ?thesis
    by (cases "position (\<lambda>m. sm_message_id m = i) (channel_history (v_messages v) ch)")
       (simp_all add: volatile.get_apply_range apply_Before apply_unknown)
next
  case (After i n)
  show ?thesis
  proof (cases "position (\<lambda>m. sm_message_id m = i) (channel_history (v_messages v) ch)")
    case None
    with After show ?thesis by (simp add: volatile.get_apply_range apply_unknown)
  next
    case (Some pos)
    with assms have pos: "pos < length (channel_history (v_messages v) ch)" "pos < 2 ^ 64"
      using position_less by force+
    show ?thesis
    proof (cases "pos + 1 + unat n < 2 ^ 64")
      case True
      with After Some show ?thesis by (simp add: volatile.get_apply_range apply_After)
    next
      case False
      with pos(2) have "unat (of_nat pos + 1 + n) < pos + 1" by (intro unat_pos_limit_wraps) auto
      with After Some False show ?thesis
        by (simp add: volatile.get_apply_range apply_range_def slice_to_vec_def Let_def)
    qed
  qed
qed

theorem get_messages_panics_iff_witness:
  "volatile_get_messages (snd (volatile_store_message 1 (demo_message ''a'' ''x'') VolatileMessageProvider_new))
     1 (After ''a'' (- 1)) = None"
proof -
  let ?v = "snd (volatile_store_message 1 (demo_message ''a'' ''x'') VolatileMessageProvider_new)"
  have "channel_history (v_messages ?v) 1 = [demo_message ''a'' ''x'']"
    by (simp add: volatile.store_appends VolatileMessageProvider_new_def channel_history_def)
  then show ?thesis
    using get_messages_panics_iff [of ?v 1 "After ''a'' (- 1)"]
    by (simp add: demo_message_def unsigned_minus_1_eq_mask mask_eq_exp_minus_1)
qed

text \<open>The channels of the Signal protocol have no persistent history: the composite provider routes
  them to the volatile store, like channels without persistence.\<close>

theorem signal_channels_are_volatile:
  "effective_mode p ch = PP_SignalV1 \<Longrightarrow>
     composite_get_messages p ch r = volatile_get_messages (volatile p) ch r \<and>
     persistent (snd (composite_store_message ch m p)) = persistent p \<and>
     \<not> composite_has_more p ch"
  by (simp add: composite_get_messages_def composite_store_message_def composite_has_more_def
      volatile_has_more_def case_prod_unfold)

end
