(* ===== verification/Pchat_Crypto.thy ===== *)
theory Pchat_Crypto
  imports Pchat_Provider Fancy_Utils
begin

text \<open>
  The cryptographic protocol of the persistent chat, version 1
  (src/crates/mumble-protocol/src/persistent/protocol/fancy_v1): padding and authenticated
  encryption, associated data, the byte layout of signed data, key derivation, the chain ratchet
  and the identity derived from a seed.

  The primitives of the third-party crates (XChaCha20-Poly1305, SHA-256, HKDF, HMAC, X25519,
  Ed25519, UUID parsing) are the record \<open>crypto_lib\<close>; a primitive that can fail returns the text
  of its error. \<open>crypto_laws\<close> states what their documentation promises. The random numbers of an
  encryption are an argument. The traits become records of their operations.
\<close>

section \<open>Primitives\<close>

record crypto_lib =
  aead_encrypt :: "bytes \<Rightarrow> bytes \<Rightarrow> bytes \<Rightarrow> bytes \<Rightarrow> string + bytes"
  aead_decrypt :: "bytes \<Rightarrow> bytes \<Rightarrow> bytes \<Rightarrow> bytes \<Rightarrow> string + bytes"
  sha256 :: "bytes \<Rightarrow> bytes"
  hkdf_sha256 :: "bytes \<Rightarrow> bytes \<Rightarrow> bytes \<Rightarrow> nat \<Rightarrow> string + bytes"
  hmac_sha256 :: "bytes \<Rightarrow> bytes \<Rightarrow> bytes"
  x25519_public :: "bytes \<Rightarrow> bytes"
  x25519_agree :: "bytes \<Rightarrow> bytes \<Rightarrow> bytes"
  ed25519_public :: "bytes \<Rightarrow> bytes"
  ed25519_sign :: "bytes \<Rightarrow> bytes \<Rightarrow> bytes"
  ed25519_key_error :: "bytes \<Rightarrow> string option"
  ed25519_signature_error :: "bytes \<Rightarrow> string option"
  ed25519_verify_error :: "bytes \<Rightarrow> bytes \<Rightarrow> bytes \<Rightarrow> string option"
  uuid_parse :: "string \<Rightarrow> string + bytes"

text \<open>The documented behaviour the code relies on: decryption inverts encryption and the tag has 16
  bytes; digests and derived keys have their lengths; both ends of a key agreement compute the same
  secret; a signature made with a key verifies under its public key. Arguments of
  \<open>aead_encrypt\<close> are key, nonce, associated data and message; of \<open>hkdf_sha256\<close> salt, input key
  material, info and output length.\<close>

definition crypto_laws :: "crypto_lib \<Rightarrow> bool" where
  "crypto_laws lib \<longleftrightarrow>
     (\<forall>key nonce aad msg. length key = 32 \<and> length nonce = 24 \<and> length msg < 2 ^ 32 \<longrightarrow>
        (\<exists>ct. aead_encrypt lib key nonce aad msg = Inr ct \<and> length ct = length msg + 16 \<and>
              aead_decrypt lib key nonce aad ct = Inr msg)) \<and>
     (\<forall>d. length (sha256 lib d) = 32) \<and>
     (\<forall>salt ikm info. \<exists>okm. hkdf_sha256 lib salt ikm info 32 = Inr okm \<and> length okm = 32) \<and>
     (\<forall>a. length (x25519_public lib a) = 32) \<and>
     (\<forall>a b. x25519_agree lib a (x25519_public lib b) = x25519_agree lib b (x25519_public lib a)) \<and>
     (\<forall>k. length (ed25519_public lib k) = 32 \<and> ed25519_key_error lib (ed25519_public lib k) = None) \<and>
     (\<forall>k d. ed25519_signature_error lib (ed25519_sign lib k d) = None \<and>
            ed25519_verify_error lib (ed25519_public lib k) d (ed25519_sign lib k d) = None) \<and>
     (\<forall>s b. uuid_parse lib s = Inr b \<longrightarrow> length b = 16)"

text \<open>The random numbers drawn by one encryption: the padding jitter and the nonce.\<close>

record rng_draw =
  rd_jitter :: u32
  rd_nonce :: bytes

text \<open>\<^verbatim>\<open>str::as_bytes\<close> and \<^verbatim>\<open>map_err\<close>.\<close>

definition as_bytes :: "string \<Rightarrow> bytes" where
  "as_bytes s = map of_char s"

definition map_err :: "('e \<Rightarrow> 'f) \<Rightarrow> 'e + 'a \<Rightarrow> 'f + 'a" where
  "map_err f r = (case r of Inl e \<Rightarrow> Inl (f e) | Inr a \<Rightarrow> Inr a)"

lemma map_err_simps [simp, result_simps]:
  "map_err f (Inl e) = Inl (f e)"
  "map_err f (Inr a) = Inr a"
  by (simp_all add: map_err_def)

section \<open>Constants\<close>

definition ENCRYPTION_VERSION :: u8 where
  "ENCRYPTION_VERSION = 0x01"

definition HKDF_INFO_CHAIN :: bytes where
  "HKDF_INFO_CHAIN = as_bytes ''fancy-pchat-chain-v1''"

definition HKDF_INFO_MSG :: bytes where
  "HKDF_INFO_MSG = as_bytes ''fancy-pchat-msg-v1''"

definition HKDF_SALT_IDENTITY :: bytes where
  "HKDF_SALT_IDENTITY = as_bytes ''fancy-pchat-v1''"

definition HKDF_INFO_X25519 :: bytes where
  "HKDF_INFO_X25519 = as_bytes ''x25519''"

definition HKDF_INFO_ED25519 :: bytes where
  "HKDF_INFO_ED25519 = as_bytes ''ed25519''"

definition HKDF_SALT_ARCHIVE_KEY :: bytes where
  "HKDF_SALT_ARCHIVE_KEY = as_bytes ''fancy-pchat-archive-key-v1''"

definition KEY_LEN :: nat where
  "KEY_LEN = 32"

definition PADDING_BLOCK :: nat where
  "PADDING_BLOCK = 256"

definition NONCE_LEN :: nat where
  "NONCE_LEN = 24"

definition supported_versions :: "u8 list" where
  "supported_versions = [1, 2]"

section \<open>Associated data, fingerprints and signed data\<close>

definition build_aad :: "u32 \<Rightarrow> bytes \<Rightarrow> u64 \<Rightarrow> bytes" where
  "build_aad channel_id message_id timestamp = be32 channel_id @ message_id @ be64 timestamp"

definition uuid_to_bytes :: "crypto_lib \<Rightarrow> string \<Rightarrow> bytes result" where
  "uuid_to_bytes lib uuid_str =
     map_err (\<lambda>e. InvalidState (''invalid UUID: '' @ e)) (uuid_parse lib uuid_str)"

definition epoch_fingerprint :: "crypto_lib \<Rightarrow> bytes \<Rightarrow> bytes" where
  "epoch_fingerprint lib key = take 8 (sha256 lib key)"

definition build_countersig_data ::
    "u32 \<Rightarrow> u32 \<Rightarrow> bytes \<Rightarrow> bytes \<Rightarrow> u64 \<Rightarrow> string \<Rightarrow> bytes" where
  "build_countersig_data channel_id epoch epoch_fp parent_fp timestamp distributor_hash =
     be32 channel_id @ be32 epoch @ epoch_fp @ parent_fp @ be64 timestamp @ as_bytes distributor_hash"

definition build_key_exchange_signed_data ::
    "u8 \<Rightarrow> u32 \<Rightarrow> PchatProtocol \<Rightarrow> u32 \<Rightarrow> bytes \<Rightarrow> string \<Rightarrow> string option \<Rightarrow> u64 \<Rightarrow> bytes" where
  "build_key_exchange_signed_data algorithm_version channel_id mode epoch encrypted_key
     recipient_hash request_id timestamp =
     (let mode_byte = (case mode of PP_FancyV1FullArchive \<Rightarrow> 2 | _ \<Rightarrow> 0) :: u8;
          req_id_bytes = as_bytes (case request_id of Some r \<Rightarrow> r | None \<Rightarrow> [])
      in algorithm_version # be32 channel_id @ mode_byte # be32 epoch @ encrypted_key @
         as_bytes recipient_hash @ req_id_bytes @ be64 timestamp)"

definition build_key_announce_signed_data ::
    "u8 \<Rightarrow> string \<Rightarrow> u64 \<Rightarrow> bytes \<Rightarrow> bytes \<Rightarrow> bytes" where
  "build_key_announce_signed_data algorithm_version cert_hash timestamp identity_public signing_public =
     algorithm_version # as_bytes cert_hash @ be64 timestamp @ identity_public @ signing_public"

section \<open>Key derivation and the chain ratchet\<close>

definition HkdfSha256_derive :: "crypto_lib \<Rightarrow> bytes \<Rightarrow> bytes \<Rightarrow> bytes \<Rightarrow> bytes result" where
  "HkdfSha256_derive lib ikm salt info =
     map_err (\<lambda>e. Other (''HKDF expand failed: '' @ e)) (hkdf_sha256 lib salt ikm info KEY_LEN)"

text \<open>The archive key; \<open>None\<close> is the panic of the \<^verbatim>\<open>expect\<close>.\<close>

definition derive_archive_key :: "crypto_lib \<Rightarrow> bytes \<Rightarrow> u32 \<Rightarrow> bytes option" where
  "derive_archive_key lib seed channel_id =
     (case hkdf_sha256 lib HKDF_SALT_ARCHIVE_KEY seed (be32 channel_id) 32 of
        Inr key \<Rightarrow> Some key | Inl e \<Rightarrow> None)"

type_synonym key_deriver = "bytes \<Rightarrow> bytes \<Rightarrow> bytes \<Rightarrow> bytes result"

definition derive_chain_key :: "key_deriver \<Rightarrow> bytes \<Rightarrow> bytes result" where
  "derive_chain_key derive current = derive current HKDF_SALT_IDENTITY HKDF_INFO_CHAIN"

definition derive_message_key :: "key_deriver \<Rightarrow> bytes \<Rightarrow> bytes result" where
  "derive_message_key derive chain_key = derive chain_key HKDF_SALT_IDENTITY HKDF_INFO_MSG"

text \<open>\<^verbatim>\<open>for _ in 0..target_index\<close>: advance the chain key.\<close>

fun advance_chain :: "key_deriver \<Rightarrow> nat \<Rightarrow> bytes \<Rightarrow> bytes result" where
  "advance_chain derive 0 chain_key = Inr chain_key"
| "advance_chain derive (Suc n) chain_key =
     and_then (derive_chain_key derive chain_key) (advance_chain derive n)"

definition derive_key_at_index :: "key_deriver \<Rightarrow> bytes \<Rightarrow> u32 \<Rightarrow> bytes result" where
  "derive_key_at_index derive epoch_key target_index =
     and_then (advance_chain derive (unat target_index) epoch_key) (derive_message_key derive)"

section \<open>Padding and encryption\<close>

definition pad_plaintext :: "u32 \<Rightarrow> bytes \<Rightarrow> bytes result" where
  "pad_plaintext random plaintext =
     (let min_padded_len = length plaintext + 2;
          blocks_needed = (min_padded_len + PADDING_BLOCK - 1) div PADDING_BLOCK;
          block_aligned = blocks_needed * PADDING_BLOCK;
          jitter = unat (random mod of_nat PADDING_BLOCK);
          padded_length = block_aligned + jitter;
          pad_count = padded_length - length plaintext
      in if pad_count < 2 ^ 16
         then Inr (plaintext @ replicate (padded_length - 2 - length plaintext) 0 @ be16 (of_nat pad_count))
         else Inl (InvalidState ''message too large for padding''))"

definition unpad_plaintext :: "bytes \<Rightarrow> bytes result" where
  "unpad_plaintext padded =
     (if length padded < 2 then Inl (InvalidState ''padded data too short'')
      else
        let pad_count = unat (from_be16 (padded ! (length padded - 2)) (padded ! (length padded - 1)))
        in if pad_count < 2 \<or> pad_count > length padded
           then Inl (InvalidState (''invalid pad_count: '' @ show_nat pad_count @ '' for data length '' @
                  show_nat (length padded)))
           else Inr (take (length padded - pad_count) padded))"

definition XChaCha_encrypt :: "crypto_lib \<Rightarrow> rng_draw \<Rightarrow> bytes \<Rightarrow> bytes \<Rightarrow> bytes \<Rightarrow> bytes result" where
  "XChaCha_encrypt lib rd key plaintext aad =
     (if length key \<noteq> KEY_LEN
      then Inl (InvalidState (''encryption key must be '' @ show_nat KEY_LEN @ '' bytes, got '' @
             show_nat (length key)))
      else
        and_then (pad_plaintext (rd_jitter rd) plaintext) (\<lambda>padded.
        and_then (map_err (\<lambda>e. Other (''encryption failed: '' @ e))
                    (aead_encrypt lib key (rd_nonce rd) aad padded)) (\<lambda>ciphertext.
        Inr (ENCRYPTION_VERSION # rd_nonce rd @ ciphertext))))"

definition XChaCha_decrypt :: "crypto_lib \<Rightarrow> bytes \<Rightarrow> bytes \<Rightarrow> bytes \<Rightarrow> bytes result" where
  "XChaCha_decrypt lib key payload aad =
     (if length key \<noteq> KEY_LEN
      then Inl (InvalidState (''decryption key must be '' @ show_nat KEY_LEN @ '' bytes, got '' @
             show_nat (length key)))
      else if length payload < 1 + NONCE_LEN + 16 then Inl (InvalidState ''payload too short'')
      else if payload ! 0 \<noteq> ENCRYPTION_VERSION
      then Inl (InvalidState (''unsupported encryption version: 0x'' @ hex2 (payload ! 0)))
      else
        let nonce = take NONCE_LEN (drop 1 payload);
            ciphertext = drop (1 + NONCE_LEN) payload
        in and_then (map_err (\<lambda>e. Other (''decryption failed: '' @ e))
                       (aead_decrypt lib key nonce aad ciphertext)) unpad_plaintext)"

section \<open>Identities and suites\<close>

record CryptoIdentity =
  dh_public_key :: bytes
  signing_public_key :: bytes
  dh_agree :: "bytes \<Rightarrow> bytes"
  sign :: "bytes \<Rightarrow> bytes"

record SeedIdentity =
  si_dh_secret :: bytes
  si_dh_public :: bytes
  si_signing_key :: bytes

definition SeedIdentity_from_seed :: "crypto_lib \<Rightarrow> bytes \<Rightarrow> SeedIdentity result" where
  "SeedIdentity_from_seed lib seed =
     and_then (HkdfSha256_derive lib seed HKDF_SALT_IDENTITY HKDF_INFO_X25519) (\<lambda>dh_bytes.
     and_then (HkdfSha256_derive lib seed HKDF_SALT_IDENTITY HKDF_INFO_ED25519) (\<lambda>sign_bytes.
     Inr \<lparr>si_dh_secret = dh_bytes, si_dh_public = x25519_public lib dh_bytes,
          si_signing_key = sign_bytes\<rparr>))"

definition seed_identity :: "crypto_lib \<Rightarrow> SeedIdentity \<Rightarrow> CryptoIdentity" where
  "seed_identity lib si =
     \<lparr>dh_public_key = si_dh_public si,
      signing_public_key = ed25519_public lib (si_signing_key si),
      dh_agree = x25519_agree lib (si_dh_secret si),
      sign = ed25519_sign lib (si_signing_key si)\<rparr>"

record CryptoSuite =
  suite_version :: u8
  suite_name :: string
  suite_encrypt :: "rng_draw \<Rightarrow> bytes \<Rightarrow> bytes \<Rightarrow> bytes \<Rightarrow> bytes result"
  suite_decrypt :: "bytes \<Rightarrow> bytes \<Rightarrow> bytes \<Rightarrow> bytes result"
  suite_derive :: key_deriver
  suite_key_at_index :: "bytes \<Rightarrow> u32 \<Rightarrow> bytes result"
  suite_build_aad :: "u32 \<Rightarrow> bytes \<Rightarrow> u64 \<Rightarrow> bytes"
  suite_fingerprint :: "bytes \<Rightarrow> bytes"
  suite_archive_key :: "bytes \<Rightarrow> u32 \<Rightarrow> bytes option"
  suite_countersig_data :: "u32 \<Rightarrow> u32 \<Rightarrow> bytes \<Rightarrow> bytes \<Rightarrow> u64 \<Rightarrow> string \<Rightarrow> bytes"

definition XChaCha20Suite :: "crypto_lib \<Rightarrow> CryptoSuite" where
  "XChaCha20Suite lib =
     \<lparr>suite_version = ENCRYPTION_VERSION,
      suite_name = ''XChaCha20-Poly1305 + HKDF-SHA256'',
      suite_encrypt = XChaCha_encrypt lib,
      suite_decrypt = XChaCha_decrypt lib,
      suite_derive = HkdfSha256_derive lib,
      suite_key_at_index = derive_key_at_index (HkdfSha256_derive lib),
      suite_build_aad = build_aad,
      suite_fingerprint = epoch_fingerprint lib,
      suite_archive_key = derive_archive_key lib,
      suite_countersig_data = build_countersig_data\<rparr>"

section \<open>Lemmas\<close>

named_theorems crypto_simps \<open>the laws of the primitives\<close>

lemma crypto_lawsD [crypto_simps]:
  assumes "crypto_laws lib"
  shows "length (sha256 lib d) = 32" "length (x25519_public lib a) = 32"
    "length (ed25519_public lib k) = 32" "ed25519_key_error lib (ed25519_public lib k) = None"
    "ed25519_signature_error lib (ed25519_sign lib k m) = None"
    "ed25519_verify_error lib (ed25519_public lib k) m (ed25519_sign lib k m) = None"
  using assms by (simp_all add: crypto_laws_def)

lemma crypto_laws_aead:
  assumes "crypto_laws lib" "length key = 32" "length nonce = 24" "length msg < 2 ^ 32"
  obtains ct where "aead_encrypt lib key nonce aad msg = Inr ct" "length ct = length msg + 16"
    "aead_decrypt lib key nonce aad ct = Inr msg"
  using assms unfolding crypto_laws_def by metis

lemma crypto_laws_agree:
  "crypto_laws lib \<Longrightarrow>
   x25519_agree lib a (x25519_public lib b) = x25519_agree lib b (x25519_public lib a)"
  unfolding crypto_laws_def by blast

lemma crypto_laws_derive:
  assumes "crypto_laws lib"
  obtains okm where "HkdfSha256_derive lib ikm salt info = Inr okm" "length okm = 32"
proof -
  from assms obtain okm where "hkdf_sha256 lib salt ikm info 32 = Inr okm" "length okm = 32"
    unfolding crypto_laws_def by metis
  then show thesis by (intro that [of okm]) (simp_all add: HkdfSha256_derive_def KEY_LEN_def)
qed

lemma uuid_length:
  "crypto_laws lib \<Longrightarrow> uuid_to_bytes lib s = Inr b \<Longrightarrow> length b = 16"
  by (cases "uuid_parse lib s") (auto simp: uuid_to_bytes_def crypto_laws_def)

text \<open>The number of bytes that the padding adds: at least the trailer, at most two blocks.\<close>

definition pad_count :: "u32 \<Rightarrow> nat \<Rightarrow> nat" where
  "pad_count random n = (257 + n) div 256 * 256 + unat (random mod 256) - n"

lemma pad_count_bounds: "2 \<le> pad_count random n" "pad_count random n \<le> 512"
proof -
  have j: "unat (random mod 256) < 256" for random :: u32
    by (simp add: unat_mod)
  have "(257 + n) div 256 * 256 + (257 + n) mod 256 = 257 + n" by (rule div_mult_mod_eq)
  moreover have "(257 + n) mod 256 < 256" by simp
  ultimately have "n + 2 \<le> (257 + n) div 256 * 256" "(257 + n) div 256 * 256 \<le> 257 + n" by simp_all
  then show "2 \<le> pad_count random n" "pad_count random n \<le> 512"
    using j [of random] by (simp_all add: pad_count_def)
qed

lemma pad_plaintext_eq:
  "pad_plaintext random plaintext =
     Inr (plaintext @ replicate (pad_count random (length plaintext) - 2) 0 @
          be16 (of_nat (pad_count random (length plaintext))))"
  using pad_count_bounds [of random "length plaintext"]
  by (simp add: pad_plaintext_def Let_def PADDING_BLOCK_def pad_count_def diff_commute)

lemma unpad_trailer:
  assumes "2 \<le> n" "n < 2 ^ 16" "length zeros = n - 2"
  shows "unpad_plaintext (plaintext @ zeros @ be16 (of_nat n)) = Inr plaintext"
proof -
  have n: "unat (of_nat n :: u16) = n"
    using assms(2) by (simp add: unat_of_nat take_bit_nat_eq_self)
  let ?p = "plaintext @ zeros @ be16 (of_nat n)"
  have "?p ! (length ?p - 2) = byte_of 8 (of_nat n :: u16)" "?p ! (length ?p - 1) = ucast (of_nat n :: u16)"
    by (simp_all add: be16_def nth_append)
  then show ?thesis
    using assms n by (simp add: unpad_plaintext_def Let_def)
qed

lemma unpad_pad: "pad_plaintext random plaintext = Inr padded \<Longrightarrow> unpad_plaintext padded = Inr plaintext"
  using pad_count_bounds [of random "length plaintext"]
  by (auto simp: pad_plaintext_eq intro!: unpad_trailer)

text \<open>What a client of an encryptor relies on, whatever the suite: an admissible message seals, and
  opening what was sealed under the same key and associated data gives the message back.\<close>

locale aead_box =
  fixes seal :: "'r \<Rightarrow> bytes \<Rightarrow> bytes \<Rightarrow> bytes \<Rightarrow> bytes result"
    and unseal :: "bytes \<Rightarrow> bytes \<Rightarrow> bytes \<Rightarrow> bytes result"
    and admissible :: "'r \<Rightarrow> bytes \<Rightarrow> bytes \<Rightarrow> bool"
  assumes seal_unseal: "admissible r key msg \<Longrightarrow>
      \<exists>ct. seal r key msg aad = Inr ct \<and> unseal key ct aad = Inr msg"
begin

lemma seal_inj:
  assumes "admissible r key m" "admissible r' key m'"
    and "seal r key m aad = seal r' key m' aad"
  shows "m = m'"
  using seal_unseal [OF assms(1), of aad] seal_unseal [OF assms(2), of aad] assms(3) by auto

end

definition xchacha_admissible :: "crypto_lib \<Rightarrow> rng_draw \<Rightarrow> bytes \<Rightarrow> bytes \<Rightarrow> bool" where
  "xchacha_admissible lib rd key msg \<longleftrightarrow>
     crypto_laws lib \<and> length (rd_nonce rd) = 24 \<and> length key = 32 \<and> length msg < 2 ^ 31"

text \<open>The payload of an encryption: version byte, nonce, ciphertext with its tag; its length is that
  of the padded message and 41 bytes.\<close>

lemma XChaCha_encrypt_ok:
  assumes "xchacha_admissible lib rd key msg"
  obtains ct where
    "XChaCha_encrypt lib rd key msg aad = Inr (ENCRYPTION_VERSION # rd_nonce rd @ ct)"
    "length ct = length msg + pad_count (rd_jitter rd) (length msg) + 16"
    "XChaCha_decrypt lib key (ENCRYPTION_VERSION # rd_nonce rd @ ct) aad = Inr msg"
proof -
  let ?n = "pad_count (rd_jitter rd) (length msg)"
  let ?p = "msg @ replicate (?n - 2) 0 @ be16 (of_nat ?n)"
  note bounds = pad_count_bounds [where random = "rd_jitter rd" and n = "length msg"]
  have pad: "pad_plaintext (rd_jitter rd) msg = Inr ?p" by (rule pad_plaintext_eq)
  have len: "length ?p = length msg + ?n" using bounds by simp
  with assms bounds have "length ?p < 2 ^ 32" by (simp add: xchacha_admissible_def)
  with assms obtain ct where ct: "aead_encrypt lib key (rd_nonce rd) aad ?p = Inr ct"
      "length ct = length ?p + 16" "aead_decrypt lib key (rd_nonce rd) aad ct = Inr ?p"
    unfolding xchacha_admissible_def
    using crypto_laws_aead [where lib = lib and key = key and nonce = "rd_nonce rd" and msg = ?p and aad = aad]
    by metis
  have nonce: "length (rd_nonce rd) = 24" "length key = 32"
    using assms by (simp_all add: xchacha_admissible_def)
  show thesis
  proof
    show "XChaCha_encrypt lib rd key msg aad = Inr (ENCRYPTION_VERSION # rd_nonce rd @ ct)"
      using ct(1) nonce pad by (simp add: XChaCha_encrypt_def KEY_LEN_def)
    show "length ct = length msg + ?n + 16" using ct(2) len by simp
    show "XChaCha_decrypt lib key (ENCRYPTION_VERSION # rd_nonce rd @ ct) aad = Inr msg"
      using ct(2,3) nonce unpad_pad [OF pad]
      by (simp add: XChaCha_decrypt_def KEY_LEN_def NONCE_LEN_def Let_def)
  qed
qed

interpretation xchacha: aead_box "XChaCha_encrypt lib" "XChaCha_decrypt lib" "xchacha_admissible lib"
proof unfold_locales
  fix rd key msg aad
  assume "xchacha_admissible lib rd key msg"
  then show "\<exists>ct. XChaCha_encrypt lib rd key msg aad = Inr ct \<and> XChaCha_decrypt lib key ct aad = Inr msg"
    by (rule XChaCha_encrypt_ok) blast
qed

text \<open>The chain ratchet is a monoid action: advancing by \<open>i\<close> and then by \<open>j\<close> steps is advancing by
  \<open>i + j\<close>.\<close>

lemma advance_chain_add:
  "advance_chain derive (i + j) k = and_then (advance_chain derive i k) (advance_chain derive j)"
proof (induction i arbitrary: k)
  case (Suc i)
  then show ?case by (cases "derive_chain_key derive k") simp_all
qed simp

lemma advance_chain_total:
  assumes "crypto_laws lib"
  obtains k' where "advance_chain (HkdfSha256_derive lib) n k = Inr k'"
proof (induction n arbitrary: k thesis)
  case (Suc n)
  obtain k1 where "derive_chain_key (HkdfSha256_derive lib) k = Inr k1"
    unfolding derive_chain_key_def by (rule crypto_laws_derive [OF assms])
  with Suc.IH [of k1] Suc.prems show ?case by auto
qed simp

lemma be32_inj [simp]: "be32 x = be32 y \<longleftrightarrow> x = y"
proof
  assume "be32 x = be32 y"
  then have "from_be32 (byte_of 24 x) (byte_of 16 x) (byte_of 8 x) (ucast x) =
      from_be32 (byte_of 24 y) (byte_of 16 y) (byte_of 8 y) (ucast y)"
    by (simp only: be32_def list.inject)
  then show "x = y" by (simp only: from_be32_be32)
qed simp

lemma be64_inj [simp]: "be64 x = be64 y \<longleftrightarrow> x = y"
proof
  assume eq: "be64 x = be64 y"
  have "x = at_bit 56 (byte_of 56 x) OR at_bit 48 (byte_of 48 x) OR at_bit 40 (byte_of 40 x) OR
      at_bit 32 (byte_of 32 x) OR at_bit 24 (byte_of 24 x) OR at_bit 16 (byte_of 16 x) OR
      at_bit 8 (byte_of 8 x) OR ucast (ucast x :: u8)"
    by (rule bytes64_join [symmetric])
  also have "\<dots> = y" using eq by (simp only: be64_def list.inject bytes64_join)
  finally show "x = y" .
qed simp

text \<open>The associated data binds channel, message id and timestamp: no two contexts share it.\<close>

lemma build_aad_inj:
  assumes "length m = 16" "length m' = 16"
  shows "build_aad c m t = build_aad c' m' t' \<longleftrightarrow> c = c' \<and> m = m' \<and> t = t'"
  using assms by (auto simp: build_aad_def)

section \<open>Properties\<close>

text \<open>C29: Encrypting and decrypting a message. Under a 32-byte key every message is encrypted, the
  payload opens under the same key and associated data and gives the message back, and its length
  hides the length of the message up to the block: it is the message rounded up to
  256-byte blocks, plus the jitter below one block, plus the version byte, the nonce and the tag.\<close>

theorem encrypt_decrypt_roundtrip:
  assumes "crypto_laws lib" "length (rd_nonce rd) = 24" "length key = 32" "length msg < 2 ^ 31"
  shows "\<exists>payload. XChaCha_encrypt lib rd key msg aad = Inr payload \<and>
           XChaCha_decrypt lib key payload aad = Inr msg \<and>
           length payload = (length msg + 2 + 255) div 256 * 256 + unat (rd_jitter rd mod 256) + 41"
proof -
  from assms have "xchacha_admissible lib rd key msg" by (simp add: xchacha_admissible_def)
  then obtain ct where ct:
      "XChaCha_encrypt lib rd key msg aad = Inr (ENCRYPTION_VERSION # rd_nonce rd @ ct)"
      "length ct = length msg + pad_count (rd_jitter rd) (length msg) + 16"
      "XChaCha_decrypt lib key (ENCRYPTION_VERSION # rd_nonce rd @ ct) aad = Inr msg"
    by (rule XChaCha_encrypt_ok)
  moreover have "length msg + pad_count (rd_jitter rd) (length msg) =
      (257 + length msg) div 256 * 256 + unat (rd_jitter rd mod 256)"
    using pad_count_bounds(1) [of "rd_jitter rd" "length msg"] unfolding pad_count_def by linarith
  ultimately show ?thesis using assms(2) by (simp add: add.commute)
qed

definition demo_crypto :: crypto_lib where
  "demo_crypto =
     \<lparr>aead_encrypt = (\<lambda>key nonce aad msg. Inr (msg @ replicate 16 0)),
      aead_decrypt = (\<lambda>key nonce aad ct. Inr (take (length ct - 16) ct)),
      sha256 = (\<lambda>d. take 32 (d @ replicate 32 0)),
      hkdf_sha256 = (\<lambda>salt ikm info n. Inr (take n (ikm @ replicate n 0))),
      hmac_sha256 = (\<lambda>key msg. replicate 32 0),
      x25519_public = (\<lambda>a. take 32 (a @ replicate 32 0)),
      x25519_agree = (\<lambda>a b. map2 (XOR) (take 32 (a @ replicate 32 0)) b),
      ed25519_public = (\<lambda>k. replicate 32 1),
      ed25519_sign = (\<lambda>k d. replicate 64 7),
      ed25519_key_error = (\<lambda>k. None),
      ed25519_signature_error = (\<lambda>s. if length s = 64 then None else Some ''length''),
      ed25519_verify_error = (\<lambda>k d s. if s = replicate 64 7 then None else Some ''bad''),
      uuid_parse = (\<lambda>s. if length s = 36 then Inr (replicate 16 0) else Inl ''length'')\<rparr>"

lemma map2_xor_commute: "map2 (XOR) xs ys = map2 (XOR) ys (xs :: u8 list)"
proof (induction xs arbitrary: ys)
  case (Cons x xs)
  then show ?case by (cases ys) (simp_all add: xor.commute)
qed simp

lemma crypto_laws_demo: "crypto_laws demo_crypto"
  unfolding crypto_laws_def
  by (auto simp: demo_crypto_def map2_xor_commute min_def split: if_splits)

definition demo_draw :: rng_draw where
  "demo_draw = \<lparr>rd_jitter = 300, rd_nonce = replicate 24 5\<rparr>"

theorem encrypt_decrypt_roundtrip_witness:
  "\<exists>payload. XChaCha_encrypt demo_crypto demo_draw (replicate 32 9) [1, 2, 3] [] = Inr payload \<and>
     XChaCha_decrypt demo_crypto (replicate 32 9) payload [] = Inr [1, 2, 3] \<and> length payload = 341"
  using encrypt_decrypt_roundtrip [OF crypto_laws_demo, of demo_draw "replicate 32 9" "[1, 2, 3]" "[]"]
  by (simp add: demo_draw_def)

text \<open>The ratchet reaches the same keys from any point: the message key at index \<open>i + j\<close> of an epoch
  is the message key at index \<open>j\<close> of the chain advanced by \<open>i\<close> steps, and it always exists. So
  deleted intermediate chain keys can be derived again from the epoch key, as the history needs.\<close>

theorem ratchet_index_composes:
  assumes "crypto_laws lib" "unat i + unat j < 2 ^ 32"
  shows "\<exists>chain key. advance_chain (HkdfSha256_derive lib) (unat i) epoch_key = Inr chain \<and>
     derive_key_at_index (HkdfSha256_derive lib) chain j = Inr key \<and>
     derive_key_at_index (HkdfSha256_derive lib) epoch_key (i + j) = Inr key \<and> length key = 32"
proof -
  let ?D = "HkdfSha256_derive lib"
  have ij: "unat (i + j) = unat i + unat j"
    using assms(2) by (simp add: unat_word_ariths)
  obtain chain where chain: "advance_chain ?D (unat i) epoch_key = Inr chain"
    by (rule advance_chain_total [OF assms(1)])
  obtain k where k: "advance_chain ?D (unat j) chain = Inr k"
    by (rule advance_chain_total [OF assms(1)])
  obtain key where "derive_message_key ?D k = Inr key" "length key = 32"
    unfolding derive_message_key_def by (rule crypto_laws_derive [OF assms(1)])
  with chain k ij show ?thesis
    by (simp add: derive_key_at_index_def advance_chain_add)
qed

theorem ratchet_index_composes_witness:
  "\<exists>chain key. advance_chain (HkdfSha256_derive demo_crypto) 2 (replicate 32 9) = Inr chain \<and>
     derive_key_at_index (HkdfSha256_derive demo_crypto) chain 3 = Inr key \<and>
     derive_key_at_index (HkdfSha256_derive demo_crypto) (replicate 32 9) 5 = Inr key \<and> length key = 32"
  using ratchet_index_composes [OF crypto_laws_demo, of 2 3 "replicate 32 9"] by simp

end
