(* ===== verification/Key_Manager.thy ===== *)
theory Key_Manager
  imports Pchat_Crypto "HOL-Library.List_Lexorder" "HOL-Library.Char_ord"
begin

text \<open>
  Key management of the persistent chat (src/crates/mumble-protocol/src/persistent/keys): the
  announcements of identities, the exchange of channel keys, the consensus over received keys, the
  trust in custodians, and the encryption of messages; with the key messages of wire.rs.

  The identity and the cipher suite of the manager are records of operations, the Signal bridge
  is a value of type \<open>'br\<close> with the operations \<open>signal_ops\<close>. Clocks are arguments: \<open>now\<close> is the
  system time in milliseconds, \<open>instant\<close> a monotonic clock in milliseconds. A \<^verbatim>\<open>HashSet\<close> is a set;
  a \<^verbatim>\<open>BTreeMap\<close> is an association list whose last entry is the one with the largest key.
\<close>

section \<open>Wire messages\<close>

record wire_PchatKeyExchange =
  kx_channel_id :: u32
  kx_protocol :: string
  kx_epoch :: u32
  kx_encrypted_key :: bytes
  kx_sender_hash :: string
  kx_recipient_hash :: string
  kx_request_id :: "string option"
  kx_timestamp :: u64
  kx_algorithm_version :: u8
  kx_signature :: bytes
  kx_parent_fingerprint :: "bytes option"
  kx_epoch_fingerprint :: bytes
  kx_countersignature :: "bytes option"
  kx_countersigner_hash :: "string option"

record wire_PchatKeyRequest =
  kr_channel_id :: u32
  kr_protocol :: string
  kr_requester_hash :: string
  kr_requester_public :: bytes
  kr_request_id :: string
  kr_timestamp :: u64
  kr_relay_cap :: u32

record wire_PchatKeyAnnounce =
  ka_algorithm_version :: u8
  ka_identity_public :: bytes
  ka_signing_public :: bytes
  ka_cert_hash :: string
  ka_timestamp :: u64
  ka_signature :: bytes
  ka_tls_signature :: bytes

section \<open>State\<close>

definition ALGORITHM_VERSION :: u8 where
  "ALGORITHM_VERSION = 1"

definition DEFAULT_MAX_REQUESTS :: u32 where
  "DEFAULT_MAX_REQUESTS = 50"

definition CONSENSUS_WINDOW_SECS :: nat where
  "CONSENSUS_WINDOW_SECS = 10"

definition COUNTERSIG_FRESHNESS_MS :: u64 where
  "COUNTERSIG_FRESHNESS_MS = 5 * 60 * 1000"

definition KEY_EXCHANGE_FRESHNESS_MS :: u64 where
  "KEY_EXCHANGE_FRESHNESS_MS = 5 * 60 * 1000"

record EpochKey =
  ek_key :: bytes
  ek_chain_index :: u32
  ek_current_chain_key :: bytes

definition EpochKey_new :: "bytes \<Rightarrow> EpochKey" where
  "EpochKey_new key = \<lparr>ek_key = key, ek_chain_index = 0, ek_current_chain_key = key\<rparr>"

definition EpochKey_fingerprint :: "crypto_lib \<Rightarrow> EpochKey \<Rightarrow> bytes" where
  "EpochKey_fingerprint lib k = epoch_fingerprint lib (ek_key k)"

record ChannelKey =
  ck_key :: bytes

definition ChannelKey_fingerprint :: "crypto_lib \<Rightarrow> ChannelKey \<Rightarrow> bytes" where
  "ChannelKey_fingerprint lib k = epoch_fingerprint lib (ck_key k)"

record PeerKeyRecord =
  pk_algorithm_version :: u8
  pk_dh_public :: bytes
  pk_signing_public :: bytes
  pk_highest_announce_ts :: u64

record EpochCandidate =
  ec_sender_hash :: string
  ec_epoch_key :: EpochKey
  ec_parent_fingerprint :: bytes
  ec_epoch_fingerprint :: bytes
  ec_received_at :: nat

record ConsensusCollector =
  cl_window_start :: nat
  cl_responses :: "(string, bytes) hash_map"
  cl_request_timestamp :: u64
  cl_observed_members :: u32

definition window_elapsed :: "nat \<Rightarrow> ConsensusCollector \<Rightarrow> bool" where
  "window_elapsed instant c \<longleftrightarrow> (instant - cl_window_start c) div 1000 \<ge> CONSENSUS_WINDOW_SECS"

record CustodianPinState =
  pinned :: "string list"
  confirmed :: bool
  pending_update :: "string list option"

definition CustodianPinState_empty :: CustodianPinState where
  "CustodianPinState_empty = \<lparr>pinned = [], confirmed = True, pending_update = None\<rparr>"

definition first_observation :: "string list \<Rightarrow> CustodianPinState" where
  "first_observation custodians =
     \<lparr>pinned = custodians, confirmed = (custodians = []), pending_update = None\<rparr>"

record EncryptedPayload =
  ep_ciphertext :: bytes
  ep_epoch :: "u32 option"
  ep_chain_index :: "u32 option"
  ep_epoch_fingerprint :: bytes

definition channel_key_fingerprint :: "crypto_lib \<Rightarrow> bytes \<Rightarrow> u32 \<Rightarrow> PchatProtocol \<Rightarrow> bytes" where
  "channel_key_fingerprint lib key channel_id protocol =
     sha256 lib (key @ be32 channel_id @ [ucast (PchatProtocol_to_proto protocol)])"

record 'br signal_ops =
  group_encrypt :: "u32 \<Rightarrow> bytes \<Rightarrow> 'br \<Rightarrow> bytes result \<times> 'br"
  group_decrypt :: "string \<Rightarrow> u32 \<Rightarrow> bytes \<Rightarrow> 'br \<Rightarrow> bytes result \<times> 'br"
  bridge_remove_channel :: "u32 \<Rightarrow> 'br \<Rightarrow> unit result \<times> 'br"

record 'br KeyManager =
  identity :: CryptoIdentity
  suite :: CryptoSuite
  peer_keys :: "(string, PeerKeyRecord) hash_map"
  epoch_keys :: "(u32, (u32, EpochKey \<times> KeyTrustLevel) hash_map) hash_map"
  archive_keys :: "(u32, ChannelKey \<times> KeyTrustLevel) hash_map"
  requests_processed :: u32
  max_requests_per_connection :: u32
  pending_consensus :: "(string, ConsensusCollector) hash_map"
  channel_originators :: "(u32, string) hash_map"
  pinned_custodians :: "(u32, CustodianPinState) hash_map"
  pending_epoch_candidates :: "(u32 \<times> u32, EpochCandidate list) hash_map"
  km_key_holders :: "(u32, string set) hash_map"
  signal_bridge :: "'br option"

definition with_suite :: "CryptoIdentity \<Rightarrow> CryptoSuite \<Rightarrow> 'br KeyManager" where
  "with_suite ident su =
     \<lparr>identity = ident, suite = su, peer_keys = [], epoch_keys = [], archive_keys = [],
      requests_processed = 0, max_requests_per_connection = DEFAULT_MAX_REQUESTS,
      pending_consensus = [], channel_originators = [], pinned_custodians = [],
      pending_epoch_candidates = [], km_key_holders = [], signal_bridge = None\<rparr>"

definition KeyManager_new :: "crypto_lib \<Rightarrow> CryptoIdentity \<Rightarrow> 'br KeyManager" where
  "KeyManager_new lib ident = with_suite ident (XChaCha20Suite lib)"

section \<open>Accessors and mutators\<close>

definition has_key :: "'br KeyManager \<Rightarrow> u32 \<Rightarrow> PchatProtocol \<Rightarrow> bool" where
  "has_key km channel_id protocol =
     (case protocol of
        PP_FancyV1FullArchive \<Rightarrow> hm_get (archive_keys km) channel_id \<noteq> None
      | PP_SignalV1 \<Rightarrow> signal_bridge km \<noteq> None
      | _ \<Rightarrow> False)"

definition get_archive_key :: "'br KeyManager \<Rightarrow> u32 \<Rightarrow> (bytes \<times> KeyTrustLevel) option" where
  "get_archive_key km channel_id =
     map_option (\<lambda>(ck, trust). (ck_key ck, trust)) (hm_get (archive_keys km) channel_id)"

definition get_channel_originator :: "'br KeyManager \<Rightarrow> u32 \<Rightarrow> string option" where
  "get_channel_originator km channel_id = hm_get (channel_originators km) channel_id"

definition key_holders :: "'br KeyManager \<Rightarrow> u32 \<Rightarrow> string set" where
  "key_holders km channel_id =
     (case hm_get (km_key_holders km) channel_id of Some s \<Rightarrow> s | None \<Rightarrow> {})"

definition record_key_holder :: "u32 \<Rightarrow> string \<Rightarrow> 'br KeyManager \<Rightarrow> 'br KeyManager" where
  "record_key_holder channel_id cert_hash km =
     km\<lparr>km_key_holders := hm_entry_modify channel_id {} (insert cert_hash) (km_key_holders km)\<rparr>"

definition replace_key_holders :: "u32 \<Rightarrow> string set \<Rightarrow> 'br KeyManager \<Rightarrow> 'br KeyManager" where
  "replace_key_holders channel_id hashes km =
     (if hashes = {} then km\<lparr>km_key_holders := hm_remove channel_id (km_key_holders km)\<rparr>
      else km\<lparr>km_key_holders := hm_insert channel_id hashes (km_key_holders km)\<rparr>)"

definition KeyManager_remove_channel :: "'br signal_ops \<Rightarrow> u32 \<Rightarrow> 'br KeyManager \<Rightarrow> 'br KeyManager" where
  "KeyManager_remove_channel sig channel_id km =
     km\<lparr>epoch_keys := hm_remove channel_id (epoch_keys km),
        archive_keys := hm_remove channel_id (archive_keys km),
        channel_originators := hm_remove channel_id (channel_originators km),
        pinned_custodians := hm_remove channel_id (pinned_custodians km),
        km_key_holders := hm_remove channel_id (km_key_holders km),
        signal_bridge := map_option (\<lambda>b. snd (bridge_remove_channel sig channel_id b)) (signal_bridge km)\<rparr>"

definition set_signal_bridge :: "'br \<Rightarrow> 'br KeyManager \<Rightarrow> 'br KeyManager" where
  "set_signal_bridge bridge km = km\<lparr>signal_bridge := Some bridge\<rparr>"

definition compute_challenge_proof :: "crypto_lib \<Rightarrow> 'br KeyManager \<Rightarrow> u32 \<Rightarrow> bytes \<Rightarrow> bytes option" where
  "compute_challenge_proof lib km channel_id challenge =
     (case hm_get (archive_keys km) channel_id of
        None \<Rightarrow> None
      | Some (key, trust) \<Rightarrow> Some (hmac_sha256 lib (ck_key key) challenge))"

definition dh_public_bytes :: "'br KeyManager \<Rightarrow> bytes" where
  "dh_public_bytes km = dh_public_key (identity km)"

definition signing_public_bytes :: "'br KeyManager \<Rightarrow> bytes" where
  "signing_public_bytes km = signing_public_key (identity km)"

definition store_epoch_key ::
    "u32 \<Rightarrow> u32 \<Rightarrow> bytes \<Rightarrow> KeyTrustLevel \<Rightarrow> 'br KeyManager \<Rightarrow> 'br KeyManager" where
  "store_epoch_key channel_id epoch key trust km =
     km\<lparr>epoch_keys :=
          hm_entry_modify channel_id [] (hm_insert epoch (EpochKey_new key, trust)) (epoch_keys km)\<rparr>"

definition store_archive_key ::
    "u32 \<Rightarrow> bytes \<Rightarrow> KeyTrustLevel \<Rightarrow> 'br KeyManager \<Rightarrow> 'br KeyManager" where
  "store_archive_key channel_id key trust km =
     km\<lparr>archive_keys := hm_insert channel_id (\<lparr>ck_key = key\<rparr>, trust) (archive_keys km)\<rparr>"

definition set_channel_originator :: "u32 \<Rightarrow> string \<Rightarrow> 'br KeyManager \<Rightarrow> 'br KeyManager" where
  "set_channel_originator channel_id cert_hash km =
     km\<lparr>channel_originators := hm_insert channel_id cert_hash (channel_originators km)\<rparr>"

section \<open>Peers\<close>

text \<open>The checks of an announcement before the state is looked at, in the order of the code:
  version, key lengths, signing key, signature bytes, signature.\<close>

definition check_announce :: "crypto_lib \<Rightarrow> wire_PchatKeyAnnounce \<Rightarrow> unit result" where
  "check_announce lib a =
     (if ka_algorithm_version a \<noteq> ALGORITHM_VERSION
      then Inl (InvalidState (''unsupported algorithm_version: '' @ show_nat (unat (ka_algorithm_version a))))
      else if length (ka_identity_public a) \<noteq> 32 \<or> length (ka_signing_public a) \<noteq> 32
      then Inl (InvalidState ''invalid key lengths'')
      else
        let signed_data = build_key_announce_signed_data (ka_algorithm_version a) (ka_cert_hash a)
              (ka_timestamp a) (ka_identity_public a) (ka_signing_public a)
        in case ed25519_key_error lib (ka_signing_public a) of
             Some e \<Rightarrow> Inl (InvalidState (''invalid Ed25519 key: '' @ e))
           | None \<Rightarrow>
               (case ed25519_signature_error lib (ka_signature a) of
                  Some e \<Rightarrow> Inl (InvalidState (''invalid signature: '' @ e))
                | None \<Rightarrow>
                    (case ed25519_verify_error lib (ka_signing_public a) signed_data (ka_signature a) of
                       Some e \<Rightarrow> Inl (InvalidState (''signature verification failed: '' @ e))
                     | None \<Rightarrow> Inr ())))"

definition announced_record :: "wire_PchatKeyAnnounce \<Rightarrow> PeerKeyRecord" where
  "announced_record a =
     \<lparr>pk_algorithm_version = ka_algorithm_version a, pk_dh_public = ka_identity_public a,
      pk_signing_public = ka_signing_public a, pk_highest_announce_ts = ka_timestamp a\<rparr>"

definition record_peer_key ::
    "crypto_lib \<Rightarrow> wire_PchatKeyAnnounce \<Rightarrow> 'br KeyManager \<Rightarrow> bool result \<times> 'br KeyManager" where
  "record_peer_key lib a km =
     (case check_announce lib a of
        Inl e \<Rightarrow> (Inl e, km)
      | Inr u \<Rightarrow>
          (case hm_get (peer_keys km) (ka_cert_hash a) of
             Some existing \<Rightarrow>
               if ka_timestamp a \<le> pk_highest_announce_ts existing then (Inr False, km)
               else (Inr True,
                 km\<lparr>peer_keys := hm_insert (ka_cert_hash a) (announced_record a) (peer_keys km)\<rparr>)
           | None \<Rightarrow>
               (Inr True,
                 km\<lparr>peer_keys := hm_insert (ka_cert_hash a) (announced_record a) (peer_keys km)\<rparr>)))"

definition get_peer :: "'br KeyManager \<Rightarrow> string \<Rightarrow> PeerKeyRecord option" where
  "get_peer km cert_hash = hm_get (peer_keys km) cert_hash"

definition build_key_announce :: "'br KeyManager \<Rightarrow> string \<Rightarrow> u64 \<Rightarrow> wire_PchatKeyAnnounce" where
  "build_key_announce km cert_hash timestamp =
     (let identity_public = dh_public_bytes km;
          signing_public = signing_public_bytes km;
          signed_data = build_key_announce_signed_data ALGORITHM_VERSION cert_hash timestamp
            identity_public signing_public
      in \<lparr>ka_algorithm_version = ALGORITHM_VERSION, ka_identity_public = identity_public,
          ka_signing_public = signing_public, ka_cert_hash = cert_hash, ka_timestamp = timestamp,
          ka_signature = sign (identity km) signed_data, ka_tls_signature = []\<rparr>)"

section \<open>Trust in custodians\<close>

definition is_trusted_authority :: "'br KeyManager \<Rightarrow> string \<Rightarrow> u32 \<Rightarrow> string list \<Rightarrow> bool" where
  "is_trusted_authority km sender_hash channel_id key_custodians =
     (let in_server_list = sender_hash \<in> set key_custodians;
          is_originator = (hm_get (channel_originators km) channel_id = Some sender_hash)
      in if \<not> in_server_list \<and> \<not> is_originator then False
         else case hm_get (pinned_custodians km) channel_id of
                Some pin_state \<Rightarrow>
                  if \<not> confirmed pin_state then False
                  else sender_hash \<in> set (pinned pin_state) \<or> is_originator
              | None \<Rightarrow> is_originator)"

definition verify_countersignature_internal ::
    "crypto_lib \<Rightarrow> u64 \<Rightarrow> 'br KeyManager \<Rightarrow> u32 \<Rightarrow> u32 \<Rightarrow> bytes \<Rightarrow> bytes \<Rightarrow> string \<Rightarrow> string \<Rightarrow> u64 \<Rightarrow> bytes
      \<Rightarrow> unit result" where
  "verify_countersignature_internal lib now km channel_id epoch epoch_fp parent_fp signer_hash
     distributor_hash timestamp countersignature =
     (if now > timestamp + COUNTERSIG_FRESHNESS_MS
      then Inl (InvalidState ''countersignature timestamp too old'')
      else case hm_get (peer_keys km) signer_hash of
             None \<Rightarrow> Inl (InvalidState (''unknown countersigner: '' @ signer_hash))
           | Some peer \<Rightarrow>
               let data = build_countersig_data channel_id epoch epoch_fp parent_fp timestamp
                     distributor_hash
               in case ed25519_signature_error lib countersignature of
                    Some e \<Rightarrow> Inl (InvalidState (''invalid countersig bytes: '' @ e))
                  | None \<Rightarrow>
                      (case ed25519_verify_error lib (pk_signing_public peer) data countersignature of
                         Some e \<Rightarrow> Inl (InvalidState (''countersignature invalid: '' @ e))
                       | None \<Rightarrow> Inr ()))"

definition verify_countersignature ::
    "crypto_lib \<Rightarrow> u64 \<Rightarrow> u32 \<Rightarrow> u32 \<Rightarrow> bytes \<Rightarrow> bytes \<Rightarrow> string \<Rightarrow> string \<Rightarrow> u64 \<Rightarrow> bytes \<Rightarrow> string list
      \<Rightarrow> 'br KeyManager \<Rightarrow> KeyTrustLevel result \<times> 'br KeyManager" where
  "verify_countersignature lib now channel_id epoch epoch_fp parent_fp signer_hash distributor_hash
     timestamp countersignature key_custodians km =
     (case verify_countersignature_internal lib now km channel_id epoch epoch_fp parent_fp signer_hash
             distributor_hash timestamp countersignature of
        Inl e \<Rightarrow> (Inl e, km)
      | Inr u \<Rightarrow>
          if \<not> is_trusted_authority km signer_hash channel_id key_custodians
          then (Inl (InvalidState ''countersigner is not a trusted authority''), km)
          else (Inr Verified,
            km\<lparr>epoch_keys :=
                 hm_get_mut channel_id (hm_get_mut epoch (\<lambda>(key, trust). (key, Verified)))
                   (epoch_keys km)\<rparr>))"

definition update_custodian_pin :: "u32 \<Rightarrow> string list \<Rightarrow> 'br KeyManager \<Rightarrow> bool \<times> 'br KeyManager" where
  "update_custodian_pin channel_id new_custodians km =
     (case hm_get (pinned_custodians km) channel_id of
        Some pin_state \<Rightarrow>
          if pinned pin_state = new_custodians then (False, km)
          else (True,
            km\<lparr>pinned_custodians := hm_insert channel_id
                 (pin_state\<lparr>pending_update := Some new_custodians\<rparr>) (pinned_custodians km)\<rparr>)
      | None \<Rightarrow>
          let pins = hm_insert channel_id (first_observation new_custodians) (pinned_custodians km)
          in ((case hm_get pins channel_id of Some s \<Rightarrow> \<not> confirmed s | None \<Rightarrow> False),
              km\<lparr>pinned_custodians := pins\<rparr>))"

definition accept_custodian_update :: "u32 \<Rightarrow> 'br KeyManager \<Rightarrow> 'br KeyManager" where
  "accept_custodian_update channel_id km =
     km\<lparr>pinned_custodians := hm_get_mut channel_id
          (\<lambda>s. (case pending_update s of
                  Some new_list \<Rightarrow> s\<lparr>pinned := new_list, pending_update := None\<rparr>
                | None \<Rightarrow> s)\<lparr>confirmed := True\<rparr>)
          (pinned_custodians km)\<rparr>"

definition confirm_custodian_list :: "u32 \<Rightarrow> 'br KeyManager \<Rightarrow> 'br KeyManager" where
  "confirm_custodian_list channel_id km =
     km\<lparr>pinned_custodians := hm_get_mut channel_id (\<lambda>s. s\<lparr>confirmed := True\<rparr>) (pinned_custodians km)\<rparr>"

definition get_custodian_pin :: "'br KeyManager \<Rightarrow> u32 \<Rightarrow> CustodianPinState option" where
  "get_custodian_pin km channel_id = hm_get (pinned_custodians km) channel_id"

definition resolve_dispute ::
    "u32 \<Rightarrow> PchatProtocol \<Rightarrow> string \<Rightarrow> 'br KeyManager \<Rightarrow> unit result \<times> 'br KeyManager" where
  "resolve_dispute channel_id mode trusted_sender_hash km =
     (case mode of
        PP_FancyV1FullArchive \<Rightarrow>
          (Inr (), km\<lparr>archive_keys :=
             hm_get_mut channel_id (\<lambda>(key, trust). (key, ManuallyVerified)) (archive_keys km)\<rparr>)
      | _ \<Rightarrow> (Inl (InvalidState (''cannot resolve dispute for mode '' @ PchatProtocol_fmt mode)), km))"

definition trust_level :: "'br KeyManager \<Rightarrow> u32 \<Rightarrow> PchatProtocol \<Rightarrow> KeyTrustLevel option" where
  "trust_level km channel_id mode =
     (case mode of
        PP_FancyV1FullArchive \<Rightarrow> map_option snd (hm_get (archive_keys km) channel_id)
      | _ \<Rightarrow> None)"

section \<open>Key exchange\<close>

definition validate_timestamp_freshness :: "u64 option \<Rightarrow> u64 \<Rightarrow> unit result" where
  "validate_timestamp_freshness request_timestamp exchange_timestamp =
     (case request_timestamp of
        Some req_ts \<Rightarrow>
          if exchange_timestamp < req_ts
          then Inl (InvalidState ''key-exchange timestamp before request'')
          else if exchange_timestamp > req_ts + KEY_EXCHANGE_FRESHNESS_MS
          then Inl (InvalidState ''key-exchange timestamp too far after request'')
          else Inr ()
      | None \<Rightarrow> Inr ())"

definition exchange_signed_data :: "wire_PchatKeyExchange \<Rightarrow> bytes" where
  "exchange_signed_data x =
     build_key_exchange_signed_data (kx_algorithm_version x) (kx_channel_id x)
       (from_wire_str (kx_protocol x)) (kx_epoch x) (kx_encrypted_key x) (kx_recipient_hash x)
       (kx_request_id x) (kx_timestamp x)"

definition verify_key_exchange_signature ::
    "crypto_lib \<Rightarrow> 'br KeyManager \<Rightarrow> wire_PchatKeyExchange \<Rightarrow> unit result" where
  "verify_key_exchange_signature lib km x =
     (case hm_get (peer_keys km) (kx_sender_hash x) of
        None \<Rightarrow> Inl (InvalidState (''unknown sender: '' @ kx_sender_hash x))
      | Some peer \<Rightarrow>
          if kx_algorithm_version x \<noteq> pk_algorithm_version peer
          then Inl (InvalidState ''algorithm_version mismatch with sender's announced version'')
          else case ed25519_signature_error lib (kx_signature x) of
                 Some e \<Rightarrow> Inl (InvalidState (''invalid signature bytes: '' @ e))
               | None \<Rightarrow>
                   (case ed25519_verify_error lib (pk_signing_public peer) (exchange_signed_data x)
                           (kx_signature x) of
                      Some e \<Rightarrow> Inl (InvalidState (''key-exchange signature invalid: '' @ e))
                    | None \<Rightarrow> Inr ()))"

definition KEY_WRAP :: bytes where
  "KEY_WRAP = as_bytes ''key-wrap''"

definition decrypt_exchanged_key :: "'br KeyManager \<Rightarrow> wire_PchatKeyExchange \<Rightarrow> bytes result" where
  "decrypt_exchanged_key km x =
     (case hm_get (peer_keys km) (kx_sender_hash x) of
        None \<Rightarrow> Inl (InvalidState ''unknown sender'')
      | Some peer \<Rightarrow>
          let shared_secret = dh_agree (identity km) (pk_dh_public peer)
          in and_then (suite_derive (suite km) shared_secret HKDF_SALT_IDENTITY KEY_WRAP) (\<lambda>decrypt_key.
             and_then (suite_decrypt (suite km) decrypt_key (kx_encrypted_key x) []) (\<lambda>key_bytes.
             if length key_bytes \<noteq> 32
             then Inl (InvalidState (''decrypted key is '' @ show_nat (length key_bytes) @
                    '' bytes, expected 32''))
             else Inr key_bytes)))"

definition new_collector :: "nat \<Rightarrow> u64 option \<Rightarrow> ConsensusCollector" where
  "new_collector instant request_timestamp =
     \<lparr>cl_window_start = instant, cl_responses = [],
      cl_request_timestamp = (case request_timestamp of Some t \<Rightarrow> t | None \<Rightarrow> 0),
      cl_observed_members = 0\<rparr>"

definition add_response :: "string \<Rightarrow> bytes \<Rightarrow> ConsensusCollector \<Rightarrow> ConsensusCollector" where
  "add_response sender_hash key_bytes c =
     c\<lparr>cl_responses := hm_insert sender_hash key_bytes (cl_responses c)\<rparr>"

definition store_exchanged_key ::
    "nat \<Rightarrow> PchatProtocol \<Rightarrow> wire_PchatKeyExchange \<Rightarrow> bytes \<Rightarrow> u64 option \<Rightarrow> 'br KeyManager
      \<Rightarrow> unit result \<times> 'br KeyManager" where
  "store_exchanged_key instant protocol x key_bytes request_timestamp km =
     (case protocol of
        PP_FancyV1FullArchive \<Rightarrow>
          (case kx_request_id x of
             Some request_id \<Rightarrow>
               (Inr (), km\<lparr>pending_consensus :=
                  hm_entry_modify request_id (new_collector instant request_timestamp)
                    (add_response (kx_sender_hash x) key_bytes) (pending_consensus km)\<rparr>)
           | None \<Rightarrow>
               (Inr (), km\<lparr>archive_keys :=
                  hm_insert (kx_channel_id x) (\<lparr>ck_key = key_bytes\<rparr>, Unverified) (archive_keys km)\<rparr>))
      | _ \<Rightarrow>
          (Inl (InvalidState (''unexpected protocol in key-exchange: '' @ PchatProtocol_fmt protocol)), km))"

text \<open>The result of the check is dropped by the caller.\<close>

definition check_inline_countersignature ::
    "crypto_lib \<Rightarrow> u64 \<Rightarrow> 'br KeyManager \<Rightarrow> wire_PchatKeyExchange \<Rightarrow> unit result option" where
  "check_inline_countersignature lib now km x =
     (case (kx_countersignature x, kx_countersigner_hash x) of
        (Some countersig, Some countersigner) \<Rightarrow>
          let parent_fp = (case kx_parent_fingerprint x of Some fp \<Rightarrow> fp | None \<Rightarrow> replicate 8 0)
          in Some (verify_countersignature_internal lib now km (kx_channel_id x) (kx_epoch x)
               (kx_epoch_fingerprint x) parent_fp countersigner (kx_sender_hash x) (kx_timestamp x)
               countersig)
      | _ \<Rightarrow> None)"

definition receive_key_exchange ::
    "crypto_lib \<Rightarrow> nat \<Rightarrow> u64 \<Rightarrow> wire_PchatKeyExchange \<Rightarrow> u64 option \<Rightarrow> 'br KeyManager
      \<Rightarrow> unit result \<times> 'br KeyManager" where
  "receive_key_exchange lib instant now x request_timestamp km =
     (case and_then (verify_key_exchange_signature lib km x) (\<lambda>_.
           and_then (validate_timestamp_freshness request_timestamp (kx_timestamp x)) (\<lambda>_.
           and_then (decrypt_exchanged_key km x) (\<lambda>key_bytes.
           if length (kx_epoch_fingerprint x) \<noteq> 8 \<or>
              epoch_fingerprint lib key_bytes \<noteq> take 8 (kx_epoch_fingerprint x)
           then Inl (InvalidState ''epoch_fingerprint mismatch'')
           else Inr key_bytes))) of
        Inl e \<Rightarrow> (Inl e, km)
      | Inr key_bytes \<Rightarrow>
          (case store_exchanged_key instant (from_wire_str (kx_protocol x)) x key_bytes
                  request_timestamp km of
             (Inl e, km') \<Rightarrow> (Inl e, km')
           | (Inr u, km') \<Rightarrow>
               let ignored = check_inline_countersignature lib now km' x
               in (Inr (), km')))"

definition distribute_key ::
    "crypto_lib \<Rightarrow> rng_draw \<Rightarrow> 'br KeyManager \<Rightarrow> u32 \<Rightarrow> PchatProtocol \<Rightarrow> u32 \<Rightarrow> string \<Rightarrow> bytes
      \<Rightarrow> string option \<Rightarrow> u64 \<Rightarrow> wire_PchatKeyExchange result" where
  "distribute_key lib rd km channel_id protocol epoch recipient_hash recipient_public request_id
     timestamp =
     and_then
       (case protocol of
          PP_FancyV1FullArchive \<Rightarrow>
            (case hm_get (archive_keys km) channel_id of
               None \<Rightarrow> Inl (InvalidState ''no archive key'')
             | Some (channel_key, trust) \<Rightarrow> Inr (ck_key channel_key))
        | _ \<Rightarrow> Inl (InvalidState (''cannot distribute key for protocol '' @ PchatProtocol_fmt protocol)))
     (\<lambda>key_bytes.
     and_then (suite_derive (suite km) (dh_agree (identity km) recipient_public) HKDF_SALT_IDENTITY KEY_WRAP)
     (\<lambda>wrap_key.
     and_then (suite_encrypt (suite km) rd wrap_key key_bytes [])
     (\<lambda>encrypted_key.
       let signed_data = build_key_exchange_signed_data ALGORITHM_VERSION channel_id protocol epoch
             encrypted_key recipient_hash request_id timestamp
       in Inr
         \<lparr>kx_channel_id = channel_id, kx_protocol = as_wire_str protocol, kx_epoch = epoch,
          kx_encrypted_key = encrypted_key, kx_sender_hash = [], kx_recipient_hash = recipient_hash,
          kx_request_id = request_id, kx_timestamp = timestamp,
          kx_algorithm_version = ALGORITHM_VERSION, kx_signature = sign (identity km) signed_data,
          kx_parent_fingerprint = None, kx_epoch_fingerprint = epoch_fingerprint lib key_bytes,
          kx_countersignature = None, kx_countersigner_hash = None\<rparr>)))"

definition handle_key_request ::
    "crypto_lib \<Rightarrow> rng_draw \<Rightarrow> u64 \<Rightarrow> wire_PchatKeyRequest \<Rightarrow> string \<Rightarrow> 'br KeyManager
      \<Rightarrow> wire_PchatKeyExchange option result \<times> 'br KeyManager" where
  "handle_key_request lib rd now request our_cert_hash km =
     (if requests_processed km \<ge> max_requests_per_connection km then (Inr None, km)
      else if length (kr_requester_public request) \<noteq> 32
      then (Inl (InvalidState ''invalid requester public key length''), km)
      else
        let protocol = from_wire_str (kr_protocol request);
            channel_id = kr_channel_id request;
            has_key = (case protocol of
              PP_FancyV1FullArchive \<Rightarrow> hm_get (archive_keys km) channel_id \<noteq> None
            | _ \<Rightarrow> False)
        in if \<not> has_key then (Inr None, km)
           else case distribute_key lib rd km channel_id protocol 0 (kr_requester_hash request)
                       (kr_requester_public request) (Some (kr_request_id request)) now of
                  Inl e \<Rightarrow> (Inl e, km)
                | Inr exchange \<Rightarrow>
                    (Inr (Some (exchange\<lparr>kx_sender_hash := our_cert_hash\<rparr>)),
                     km\<lparr>requests_processed := requests_processed km + 1\<rparr>))"

section \<open>Consensus\<close>

text \<open>\<^verbatim>\<open>Iterator::max_by_key\<close> returns the last maximum, \<^verbatim>\<open>min_by\<close> the first minimum.\<close>

fun max_by_key :: "('a \<Rightarrow> nat) \<Rightarrow> 'a list \<Rightarrow> 'a option" where
  "max_by_key f [] = None"
| "max_by_key f (x # xs) = Some (fold (\<lambda>y best. if f best \<le> f y then y else best) xs x)"

fun min_by :: "('a \<Rightarrow> 'b::linorder) \<Rightarrow> 'a list \<Rightarrow> 'a option" where
  "min_by f [] = None"
| "min_by f (x # xs) = Some (fold (\<lambda>y best. if f y < f best then y else best) xs x)"

text \<open>\<^verbatim>\<open>[0u8; 32].copy_from_slice(key_bytes)\<close>: \<open>None\<close> is the panic on another length.\<close>

definition copy32 :: "bytes \<Rightarrow> bytes option" where
  "copy32 b = (if length b = 32 then Some b else None)"

definition compute_consensus_threshold :: "u32 \<Rightarrow> u32" where
  "compute_consensus_threshold observed_members =
     (let t = observed_members div 2 in if t < 1 then 1 else if t > 5 then 5 else t)"

definition group_responses :: "(string \<times> bytes) list \<Rightarrow> (bytes, string list) hash_map" where
  "group_responses responses =
     fold (\<lambda>(sender, key_bytes). hm_entry_modify key_bytes [] (\<lambda>senders. senders @ [sender])) responses []"

definition find_custodian_key_in_groups ::
    "'br KeyManager \<Rightarrow> (bytes, string list) hash_map \<Rightarrow> u32 \<Rightarrow> string list \<Rightarrow> bytes option option" where
  "find_custodian_key_in_groups km key_groups channel_id key_custodians =
     (case find (\<lambda>(key_bytes, senders).
              \<exists>sender \<in> set senders. is_trusted_authority km sender channel_id key_custodians) key_groups of
        Some (key_bytes, senders) \<Rightarrow> map_option Some (copy32 key_bytes)
      | None \<Rightarrow> Some None)"

text \<open>Accept a key of the collector: store it with its trust and report it.\<close>

definition accept_key ::
    "u32 \<Rightarrow> bytes \<Rightarrow> KeyTrustLevel \<Rightarrow> 'br KeyManager
      \<Rightarrow> ((KeyTrustLevel \<times> bytes option) result \<times> 'br KeyManager) option" where
  "accept_key channel_id key_bytes trust km =
     (case copy32 key_bytes of
        None \<Rightarrow> None
      | Some key \<Rightarrow> Some (Inr (trust, Some key),
          km\<lparr>archive_keys := hm_insert channel_id (\<lparr>ck_key = key\<rparr>, trust) (archive_keys km)\<rparr>))"

definition evaluate_consensus ::
    "string \<Rightarrow> u32 \<Rightarrow> string list \<Rightarrow> 'br KeyManager
      \<Rightarrow> ((KeyTrustLevel \<times> bytes option) result \<times> 'br KeyManager) option" where
  "evaluate_consensus request_id channel_id key_custodians km =
     (case hm_get (pending_consensus km) request_id of
        None \<Rightarrow> Some (Inl (InvalidState ''no consensus collector''), km)
      | Some collector \<Rightarrow>
          let km' = km\<lparr>pending_consensus := hm_remove request_id (pending_consensus km)\<rparr>;
              responses = cl_responses collector
          in if responses = [] then Some (Inr (Unverified, None), km')
             else case find (\<lambda>(sender, key_bytes).
                         is_trusted_authority km' sender channel_id key_custodians) responses of
                    Some (sender, key_bytes) \<Rightarrow> accept_key channel_id key_bytes Verified km'
                  | None \<Rightarrow>
                      let required_threshold = compute_consensus_threshold (cl_observed_members collector);
                          key_groups = group_responses responses
                      in (case key_groups of
                            [(key_bytes, senders)] \<Rightarrow>
                              let trust = (if of_nat (length senders) \<ge> required_threshold
                                           then Verified else Unverified)
                              in accept_key channel_id key_bytes trust km'
                          | _ \<Rightarrow>
                              (case find_custodian_key_in_groups km' key_groups channel_id key_custodians of
                                 None \<Rightarrow> None
                               | Some (Some key) \<Rightarrow> accept_key channel_id key Verified km'
                               | Some None \<Rightarrow>
                                   (case max_by_key (\<lambda>(k, senders). length senders) key_groups of
                                      None \<Rightarrow> Some (Inl (InvalidState
                                        ''key_groups unexpectedly empty during majority resolution''), km')
                                    | Some (majority_key, senders) \<Rightarrow>
                                        accept_key channel_id majority_key Disputed km'))))"

text \<open>\<^verbatim>\<open>BTreeMap::values().next_back()\<close>.\<close>

definition btree_last :: "('k::linorder, 'v) hash_map \<Rightarrow> 'v option" where
  "btree_last m = (if m = [] then None else Some (snd (last (sort_key fst m))))"

definition current_epoch_fingerprint :: "crypto_lib \<Rightarrow> 'br KeyManager \<Rightarrow> u32 \<Rightarrow> bytes option" where
  "current_epoch_fingerprint lib km channel_id =
     map_option (\<lambda>(key, trust). EpochKey_fingerprint lib key)
       (Option.bind (hm_get (epoch_keys km) channel_id) btree_last)"

definition resolve_epoch_fork ::
    "crypto_lib \<Rightarrow> (string \<Rightarrow> string) \<Rightarrow> u32 \<Rightarrow> u32 \<Rightarrow> 'br KeyManager
      \<Rightarrow> string option result \<times> 'br KeyManager" where
  "resolve_epoch_fork lib to_lowercase channel_id epoch km =
     (let candidates = (case hm_get (pending_epoch_candidates km) (channel_id, epoch) of
                          Some cs \<Rightarrow> cs | None \<Rightarrow> []);
          km' = km\<lparr>pending_epoch_candidates :=
                     hm_remove (channel_id, epoch) (pending_epoch_candidates km)\<rparr>
      in if candidates = [] then (Inr None, km')
         else
           let current_epoch_fp = current_epoch_fingerprint lib km' channel_id;
               valid_candidates = filter (\<lambda>c. case current_epoch_fp of
                   Some fp \<Rightarrow> ec_parent_fingerprint c = fp | None \<Rightarrow> True) candidates
           in if valid_candidates = []
              then (Inl (InvalidState ''no valid epoch candidates (parent_fingerprint mismatch)''), km')
              else case min_by (\<lambda>c. to_lowercase (ec_sender_hash c)) valid_candidates of
                     None \<Rightarrow> (Inl (InvalidState
                       ''valid_candidates unexpectedly empty after non-empty check''), km')
                   | Some winner \<Rightarrow>
                       (Inr (Some (ec_sender_hash winner)),
                        km'\<lparr>epoch_keys := hm_entry_modify channel_id []
                              (hm_insert epoch (ec_epoch_key winner, Unverified)) (epoch_keys km')\<rparr>))"

section \<open>Messages\<close>

definition KeyManager_encrypt ::
    "crypto_lib \<Rightarrow> 'br signal_ops \<Rightarrow> rng_draw \<Rightarrow> PchatProtocol \<Rightarrow> u32 \<Rightarrow> string \<Rightarrow> u64 \<Rightarrow> bytes
      \<Rightarrow> 'br KeyManager \<Rightarrow> EncryptedPayload result \<times> 'br KeyManager" where
  "KeyManager_encrypt lib sig rd protocol channel_id message_id timestamp plaintext km =
     (case uuid_to_bytes lib message_id of
        Inl e \<Rightarrow> (Inl e, km)
      | Inr uuid_bytes \<Rightarrow>
          let aad = build_aad channel_id uuid_bytes timestamp
          in case protocol of
               PP_FancyV1FullArchive \<Rightarrow>
                 (case hm_get (archive_keys km) channel_id of
                    None \<Rightarrow> (Inl (InvalidState ''no archive key for channel''), km)
                  | Some (channel_key, trust) \<Rightarrow>
                      (and_then (suite_encrypt (suite km) rd (ck_key channel_key) plaintext aad)
                         (\<lambda>ciphertext. Inr \<lparr>ep_ciphertext = ciphertext, ep_epoch = None,
                            ep_chain_index = None,
                            ep_epoch_fingerprint = ChannelKey_fingerprint lib channel_key\<rparr>), km))
             | PP_SignalV1 \<Rightarrow>
                 (case signal_bridge km of
                    None \<Rightarrow> (Inl (InvalidState ''signal bridge not loaded''), km)
                  | Some bridge \<Rightarrow>
                      (case group_encrypt sig channel_id plaintext bridge of
                         (r, bridge') \<Rightarrow>
                           (and_then r (\<lambda>ciphertext. Inr \<lparr>ep_ciphertext = ciphertext, ep_epoch = None,
                              ep_chain_index = None, ep_epoch_fingerprint = replicate 8 0\<rparr>),
                            km\<lparr>signal_bridge := Some bridge'\<rparr>)))
             | _ \<Rightarrow> (Inl (InvalidState (''cannot encrypt for protocol '' @ PchatProtocol_fmt protocol)), km))"

definition KeyManager_decrypt ::
    "crypto_lib \<Rightarrow> 'br KeyManager \<Rightarrow> PchatProtocol \<Rightarrow> u32 \<Rightarrow> string \<Rightarrow> u64 \<Rightarrow> EncryptedPayload \<Rightarrow> bytes result"
  where
  "KeyManager_decrypt lib km protocol channel_id message_id timestamp payload =
     and_then (uuid_to_bytes lib message_id) (\<lambda>uuid_bytes.
       let aad = build_aad channel_id uuid_bytes timestamp
       in case protocol of
            PP_FancyV1FullArchive \<Rightarrow>
              (case hm_get (archive_keys km) channel_id of
                 None \<Rightarrow> Inl (InvalidState ''no archive key for channel'')
               | Some (channel_key, trust) \<Rightarrow>
                   suite_decrypt (suite km) (ck_key channel_key) (ep_ciphertext payload) aad)
          | _ \<Rightarrow> Inl (InvalidState (''cannot decrypt for protocol '' @ PchatProtocol_fmt protocol)))"

definition decrypt_signal ::
    "'br signal_ops \<Rightarrow> string \<Rightarrow> u32 \<Rightarrow> bytes \<Rightarrow> 'br KeyManager \<Rightarrow> bytes result \<times> 'br KeyManager" where
  "decrypt_signal sig sender_hash channel_id ciphertext km =
     (case signal_bridge km of
        None \<Rightarrow> (Inl (InvalidState ''signal bridge not loaded''), km)
      | Some bridge \<Rightarrow>
          (case group_decrypt sig sender_hash channel_id ciphertext bridge of
             (r, bridge') \<Rightarrow> (r, km\<lparr>signal_bridge := Some bridge'\<rparr>)))"

definition check_key_by_decryption ::
    "crypto_lib \<Rightarrow> 'br KeyManager \<Rightarrow> u32 \<Rightarrow> PchatProtocol \<Rightarrow> StoredMessage list \<Rightarrow> bool" where
  "check_key_by_decryption lib km channel_id mode messages =
     (let successful_senders = foldl (\<lambda>senders msg.
            if \<not> sm_encrypted msg then senders
            else
              let payload = \<lparr>ep_ciphertext = as_bytes (sm_body msg), ep_epoch = sm_epoch msg,
                    ep_chain_index = sm_chain_index msg, ep_epoch_fingerprint = replicate 8 0\<rparr>
              in case KeyManager_decrypt lib km mode channel_id (sm_message_id msg) (sm_timestamp msg)
                        payload of
                   Inr plaintext \<Rightarrow> insert (sm_sender_hash msg) senders
                 | Inl e \<Rightarrow> senders) {} messages
      in card successful_senders \<ge> 2)"

end
