(* ===== verification/Key_Protocol.thy ===== *)
theory Key_Protocol
  imports Key_Manager
begin

text \<open>
  What the key management of Key_Manager guarantees: which announcement of a peer counts, how many
  requests are served, the outcome of a consensus, who is trusted, and that a channel key reaches
  a member that asks for it. The relation \<open>key_step\<close> lets the operations take turns in any order;
  \<open>key_reachable\<close> collects the channels for which the user confirmed a custodian list.
\<close>

section \<open>Announcements\<close>

lemma record_peer_key_effect:
  "hm_get (peer_keys (snd (record_peer_key lib a km))) h =
     (if ka_cert_hash a = h \<and> check_announce lib a = Inr () \<and>
         (case hm_get (peer_keys km) h of None \<Rightarrow> True | Some r \<Rightarrow> pk_highest_announce_ts r < ka_timestamp a)
      then Some (announced_record a) else hm_get (peer_keys km) h)"
  by (auto simp: record_peer_key_def not_le split: sum.splits option.splits if_splits)

text \<open>Announcing a sequence of keys.\<close>

definition record_peer_keys :: "crypto_lib \<Rightarrow> wire_PchatKeyAnnounce list \<Rightarrow> 'br KeyManager \<Rightarrow> 'br KeyManager" where
  "record_peer_keys lib as km = foldl (\<lambda>km a. snd (record_peer_key lib a km)) km as"

definition valid_announces :: "crypto_lib \<Rightarrow> string \<Rightarrow> wire_PchatKeyAnnounce list \<Rightarrow> wire_PchatKeyAnnounce list" where
  "valid_announces lib h as = filter (\<lambda>a. ka_cert_hash a = h \<and> check_announce lib a = Inr ()) as"

text \<open>The first of the newest elements.\<close>

definition first_newest :: "wire_PchatKeyAnnounce \<Rightarrow> wire_PchatKeyAnnounce list \<Rightarrow> bool" where
  "first_newest a as \<longleftrightarrow>
     (\<exists>ys zs. as = ys @ a # zs \<and> (\<forall>b \<in> set ys. ka_timestamp b < ka_timestamp a) \<and>
        (\<forall>b \<in> set zs. ka_timestamp b \<le> ka_timestamp a))"

lemma first_newest_snoc_newer:
  assumes "first_newest a as" "ka_timestamp a < ka_timestamp b"
  shows "first_newest b (as @ [b])"
proof -
  from assms(1) have "\<forall>c \<in> set as. ka_timestamp c \<le> ka_timestamp a"
    by (auto simp: first_newest_def less_imp_le)
  with assms(2) have "\<forall>c \<in> set as. ka_timestamp c < ka_timestamp b"
    by (meson le_less_trans)
  then show ?thesis unfolding first_newest_def by (intro exI [of _ as] exI [of _ "[]"]) simp
qed

lemma first_newest_snoc_older:
  assumes "first_newest a as" "ka_timestamp b \<le> ka_timestamp a"
  shows "first_newest a (as @ [b])"
proof -
  from assms(1) obtain ys zs where "as = ys @ a # zs" "\<forall>c \<in> set ys. ka_timestamp c < ka_timestamp a"
      "\<forall>c \<in> set zs. ka_timestamp c \<le> ka_timestamp a"
    by (auto simp: first_newest_def)
  with assms(2) show ?thesis unfolding first_newest_def
    by (intro exI [of _ ys] exI [of _ "zs @ [b]"]) simp
qed

lemma record_peer_keys_newest:
  assumes "hm_get (peer_keys km) h = None"
  shows "if valid_announces lib h as = [] then hm_get (peer_keys (record_peer_keys lib as km)) h = None
         else \<exists>a. first_newest a (valid_announces lib h as) \<and>
                  hm_get (peer_keys (record_peer_keys lib as km)) h = Some (announced_record a)"
proof (induction as rule: rev_induct)
  case Nil
  show ?case using assms by (simp add: valid_announces_def record_peer_keys_def)
next
  case (snoc b as)
  let ?km = "record_peer_keys lib as km"
  let ?v = "valid_announces lib h as"
  have step: "record_peer_keys lib (as @ [b]) km = snd (record_peer_key lib b ?km)"
    by (simp add: record_peer_keys_def)
  have ts: "pk_highest_announce_ts (announced_record a) = ka_timestamp a" for a
    by (simp add: announced_record_def)
  show ?case
  proof (cases "ka_cert_hash b = h \<and> check_announce lib b = Inr ()")
    case False
    then have "valid_announces lib h (as @ [b]) = ?v" by (auto simp: valid_announces_def)
    moreover have "hm_get (peer_keys (snd (record_peer_key lib b ?km))) h = hm_get (peer_keys ?km) h"
      using False by (auto simp: record_peer_key_effect)
    ultimately show ?thesis using snoc by (simp add: step)
  next
    case True
    then have v: "valid_announces lib h (as @ [b]) = ?v @ [b]" by (simp add: valid_announces_def)
    show ?thesis
    proof (cases "?v = []")
      case True
      have "first_newest b [b]" unfolding first_newest_def by (intro exI [of _ "[]"]) simp
      with True \<open>ka_cert_hash b = h \<and> check_announce lib b = Inr ()\<close> snoc show ?thesis
        by (auto simp: step v record_peer_key_effect)
    next
      case False
      with snoc obtain a where a: "first_newest a ?v"
          "hm_get (peer_keys ?km) h = Some (announced_record a)" by auto
      show ?thesis
        using True a first_newest_snoc_newer [OF a(1), of b] first_newest_snoc_older [OF a(1), of b]
        by (cases "ka_timestamp a < ka_timestamp b") (auto simp: step v record_peer_key_effect ts not_less)
    qed
  qed
qed

section \<open>Key requests\<close>

lemma handle_key_request_outcome:
  "(\<exists>x. handle_key_request lib rd now request h km =
          (Inr (Some x), km\<lparr>requests_processed := requests_processed km + 1\<rparr>) \<and>
        requests_processed km < max_requests_per_connection km) \<or>
   (\<exists>r. handle_key_request lib rd now request h km = (r, km) \<and> (\<forall>x. r \<noteq> Inr (Some x)))"
proof (cases "distribute_key lib rd km (kr_channel_id request) (from_wire_str (kr_protocol request)) 0
    (kr_requester_hash request) (kr_requester_public request) (Some (kr_request_id request)) now")
  case (Inl e)
  then show ?thesis by (simp add: handle_key_request_def Let_def)
next
  case (Inr x)
  then show ?thesis by (cases "max_requests_per_connection km \<le> requests_processed km")
    (simp_all add: handle_key_request_def Let_def not_le)
qed

lemma handle_key_request_cases:
  obtains (served) x where "handle_key_request lib rd now request h km =
      (Inr (Some x), km\<lparr>requests_processed := requests_processed km + 1\<rparr>)"
      "requests_processed km < max_requests_per_connection km"
  | (refused) r where "handle_key_request lib rd now request h km = (r, km)" "\<forall>x. r \<noteq> Inr (Some x)"
  using handle_key_request_outcome [of lib rd now request h km] by blast

section \<open>Grouping of responses\<close>

lemma group_responses_snoc:
  "group_responses (rs @ [(s, k)]) = hm_entry_modify k [] (\<lambda>senders. senders @ [s]) (group_responses rs)"
  by (simp add: group_responses_def)

text \<open>The group of a key lists the senders of that key, in order.\<close>

lemma group_responses_get:
  "hm_get (group_responses rs) k =
     (case filter (\<lambda>r. snd r = k) rs of [] \<Rightarrow> None | rs' \<Rightarrow> Some (map fst rs'))"
proof (induction rs arbitrary: k rule: rev_induct)
  case (snoc r rs)
  obtain s j where r: "r = (s, j)" by (cases r)
  show ?case
    using snoc [of k] snoc [of j]
    by (auto simp: r group_responses_snoc split: list.splits)
qed (simp add: group_responses_def)

lemma group_responses_wf [simp]: "hm_wf (group_responses rs)"
proof (induction rs rule: rev_induct)
  case (snoc r rs)
  then show ?case by (cases r) (auto simp: group_responses_snoc)
qed (simp add: group_responses_def)

lemma group_responses_entry:
  "(k, senders) \<in> set (group_responses rs) \<longleftrightarrow>
     senders = map fst (filter (\<lambda>r. snd r = k) rs) \<and> senders \<noteq> []"
  by (auto simp: hm.entries_get group_responses_get split: list.splits)

lemma group_responses_keys: "fst ` set (group_responses rs) = snd ` set rs"
proof (intro set_eqI iffI)
  fix k
  assume "k \<in> fst ` set (group_responses rs)"
  then obtain senders where "map fst (filter (\<lambda>r. snd r = k) rs) \<noteq> []"
    by (auto simp: group_responses_entry)
  then show "k \<in> snd ` set rs" by (auto simp: filter_empty_conv)
next
  fix k
  assume "k \<in> snd ` set rs"
  then have "map fst (filter (\<lambda>r. snd r = k) rs) \<noteq> []" by (auto simp: filter_empty_conv)
  then have "(k, map fst (filter (\<lambda>r. snd r = k) rs)) \<in> set (group_responses rs)"
    by (simp add: group_responses_entry)
  then show "k \<in> fst ` set (group_responses rs)" by force
qed

lemma single_group:
  assumes "group_responses rs = [(k, senders)]"
  shows "snd ` set rs = {k}" "senders = map fst rs"
proof -
  show keys: "snd ` set rs = {k}" using group_responses_keys [of rs] assms by simp
  have "filter (\<lambda>r. snd r = k) rs = rs" using keys by (auto simp: filter_id_conv)
  moreover have "senders = map fst (filter (\<lambda>r. snd r = k) rs)"
    using group_responses_entry [of k senders rs] assms by simp
  ultimately show "senders = map fst rs" by simp
qed

lemma agreeing_responses:
  assumes "rs \<noteq> []" "\<forall>r \<in> set rs. snd r = k"
  shows "group_responses rs = [(k, map fst rs)]"
proof -
  have "snd ` set rs = {k}" using assms by (cases rs) auto
  then have keys: "fst ` set (group_responses rs) = {k}" by (simp add: group_responses_keys)
  have "length (group_responses rs) = card (fst ` set (group_responses rs))"
    using group_responses_wf [of rs] by (metis distinct_card hm_wf_def length_map list.set_map)
  then obtain e where e: "group_responses rs = [e]" by (auto simp: keys length_Suc_conv)
  obtain j senders where js: "e = (j, senders)" by (cases e)
  with e keys have "j = k" by simp
  with e js show ?thesis using single_group(2) [of rs k senders] by simp
qed

lemma fold_max_best:
  fixes f :: "'a \<Rightarrow> nat"
  defines "g \<equiv> \<lambda>y best. if f best \<le> f y then y else best"
  shows "fold g xs x \<in> insert x (set xs) \<and> (\<forall>y \<in> insert x (set xs). f y \<le> f (fold g xs x))"
proof (induction xs arbitrary: x)
  case (Cons z xs)
  from Cons [of "g z x"] show ?case by (force simp: g_def split: if_splits)
qed simp

lemma max_by_key_Some:
  assumes "max_by_key f xs = Some m"
  shows "m \<in> set xs" "y \<in> set xs \<Longrightarrow> f y \<le> f m"
proof -
  from assms obtain x zs where "xs = x # zs" "m = fold (\<lambda>y best. if f best \<le> f y then y else best) zs x"
    by (cases xs) auto
  with fold_max_best [of f zs x] show "m \<in> set xs" "y \<in> set xs \<Longrightarrow> f y \<le> f m" by auto
qed

lemma fold_min_best:
  fixes f :: "'a \<Rightarrow> 'b::linorder"
  defines "g \<equiv> \<lambda>y best. if f y < f best then y else best"
  shows "fold g xs x \<in> insert x (set xs) \<and> (\<forall>y \<in> insert x (set xs). f (fold g xs x) \<le> f y)"
proof (induction xs arbitrary: x)
  case (Cons z xs)
  from Cons [of "g z x"] show ?case by (force simp: g_def not_less split: if_splits)
qed simp

lemma min_by_Some:
  assumes "min_by f xs = Some m"
  shows "m \<in> set xs" "y \<in> set xs \<Longrightarrow> f m \<le> f y"
proof -
  from assms obtain x zs where "xs = x # zs" "m = fold (\<lambda>y best. if f y < f best then y else best) zs x"
    by (cases xs) auto
  with fold_min_best [of f zs x] show "m \<in> set xs" "y \<in> set xs \<Longrightarrow> f m \<le> f y" by auto
qed

section \<open>The outcome of a consensus\<close>

lemma is_trusted_authority_pending [simp]:
  "is_trusted_authority (pending_consensus_update f km) s ch cs = is_trusted_authority km s ch cs"
  by (simp add: is_trusted_authority_def)

lemma accept_key_32:
  "length key = 32 \<Longrightarrow> accept_key ch key t km =
     Some (Inr (t, Some key), km\<lparr>archive_keys := hm_insert ch (\<lparr>ck_key = key\<rparr>, t) (archive_keys km)\<rparr>)"
  by (simp add: accept_key_def copy32_def)

text \<open>Without a trusted responder the search among the groups finds nothing.\<close>

lemma find_custodian_none:
  assumes "\<forall>(s, k) \<in> set rs. \<not> is_trusted_authority km s ch cs"
  shows "find_custodian_key_in_groups km (group_responses rs) ch cs = Some None"
proof -
  have "\<not> is_trusted_authority km s ch cs"
    if "(k, senders) \<in> set (group_responses rs)" "s \<in> set senders" for k senders s
    using that assms by (auto simp: group_responses_entry)
  then have "find (\<lambda>(k, senders). \<exists>s \<in> set senders. is_trusted_authority km s ch cs)
      (group_responses rs) = None"
    by (auto simp: find_None_iff)
  then show ?thesis by (simp add: find_custodian_key_in_groups_def)
qed

definition votes :: "bytes \<Rightarrow> (string \<times> bytes) list \<Rightarrow> nat" where
  "votes k rs = length (filter (\<lambda>r. snd r = k) rs)"

lemma majority_group:
  assumes "max_by_key (\<lambda>(k, senders). length senders) (group_responses rs) = Some (key, senders)"
  shows "key \<in> snd ` set rs" "votes k rs \<le> votes key rs"
proof -
  note max = max_by_key_Some [OF assms]
  have key: "senders = map fst (filter (\<lambda>r. snd r = key) rs)" "senders \<noteq> []"
    using max(1) group_responses_entry [of key senders rs] by auto
  then show "key \<in> snd ` set rs" by (auto simp: filter_empty_conv)
  show "votes k rs \<le> votes key rs"
  proof (cases "filter (\<lambda>r. snd r = k) rs = []")
    case False
    then have "(k, map fst (filter (\<lambda>r. snd r = k) rs)) \<in> set (group_responses rs)"
      by (simp add: group_responses_entry)
    from max(2) [OF this] key(1) show ?thesis by (simp add: votes_def)
  qed (simp add: votes_def)
qed

text \<open>The decision on the responses of a collector, as a specification: the key of a trusted responder,
  else the common key with the trust its number of responders gives, else a most frequent key.\<close>

definition consensus_spec ::
    "(string \<Rightarrow> bool) \<Rightarrow> u32 \<Rightarrow> (string \<times> bytes) list \<Rightarrow> KeyTrustLevel \<Rightarrow> bytes \<Rightarrow> bool" where
  "consensus_spec trusted threshold rs t key \<longleftrightarrow>
     (if \<exists>(s, k) \<in> set rs. trusted s then t = Verified \<and> (\<exists>s. trusted s \<and> (s, key) \<in> set rs)
      else if \<exists>k. \<forall>r \<in> set rs. snd r = k
      then (\<forall>r \<in> set rs. snd r = key) \<and>
           t = (if threshold \<le> of_nat (length rs) then Verified else Unverified)
      else t = Disputed \<and> key \<in> snd ` set rs \<and> (\<forall>k. votes k rs \<le> votes key rs))"

lemma group_responses_disagree:
  assumes "\<not> (\<exists>k. \<forall>r \<in> set rs. snd r = k)"
  shows "\<exists>e f es. group_responses rs = e # f # es"
proof -
  have "group_responses rs \<noteq> []" using assms group_responses_keys [of rs] by fastforce
  moreover have False if "group_responses rs = [(k, senders)]" for k senders
    using single_group(1) [OF that] assms by blast
  ultimately show ?thesis by (metis list.exhaust surj_pair)
qed

lemma find_SomeD: "find P xs = Some x \<Longrightarrow> x \<in> set xs \<and> P x"
  by (induction xs) (auto split: if_splits)

text \<open>The three ways through the evaluation of a non-empty collector.\<close>

lemma evaluate_trusted:
  assumes "hm_get (pending_consensus km) rid = Some c" "cl_responses c \<noteq> []"
    and "find (\<lambda>(s, k). is_trusted_authority km s ch cs) (cl_responses c) = Some (s, key)"
  shows "evaluate_consensus rid ch cs km =
    accept_key ch key Verified (km\<lparr>pending_consensus := hm_remove rid (pending_consensus km)\<rparr>)"
  unfolding evaluate_consensus_def Let_def using assms by simp

lemma evaluate_agreeing:
  assumes "hm_get (pending_consensus km) rid = Some c" "cl_responses c \<noteq> []"
    and "find (\<lambda>(s, k). is_trusted_authority km s ch cs) (cl_responses c) = None"
    and "\<forall>r \<in> set (cl_responses c). snd r = key"
  shows "evaluate_consensus rid ch cs km =
    accept_key ch key
      (if compute_consensus_threshold (cl_observed_members c) \<le> of_nat (length (cl_responses c))
       then Verified else Unverified)
      (km\<lparr>pending_consensus := hm_remove rid (pending_consensus km)\<rparr>)"
  unfolding evaluate_consensus_def Let_def using assms(1-3) agreeing_responses [OF assms(2,4)] by simp

lemma evaluate_disagreeing:
  assumes "hm_get (pending_consensus km) rid = Some c" "cl_responses c \<noteq> []"
    and none: "find (\<lambda>(s, k). is_trusted_authority km s ch cs) (cl_responses c) = None"
    and "\<not> (\<exists>k. \<forall>r \<in> set (cl_responses c). snd r = k)"
  obtains key senders where
    "max_by_key (\<lambda>(k, senders). length senders) (group_responses (cl_responses c)) = Some (key, senders)"
    "evaluate_consensus rid ch cs km =
       accept_key ch key Disputed (km\<lparr>pending_consensus := hm_remove rid (pending_consensus km)\<rparr>)"
proof -
  obtain e f es where grp: "group_responses (cl_responses c) = e # f # es"
    using group_responses_disagree [OF assms(4)] by blast
  let ?max = "max_by_key (\<lambda>(k, senders). length senders) (group_responses (cl_responses c))"
  let ?km = "km\<lparr>pending_consensus := hm_remove rid (pending_consensus km)\<rparr>"
  obtain r where "?max = Some r" unfolding grp max_by_key.simps by blast
  moreover obtain key senders where "r = (key, senders)" by (cases r)
  ultimately have mx: "?max = Some (key, senders)" by simp
  have "\<forall>(s, k) \<in> set (cl_responses c). \<not> is_trusted_authority ?km s ch cs"
    using none by (auto simp: find_None_iff)
  then have "find_custodian_key_in_groups ?km (group_responses (cl_responses c)) ch cs = Some None"
    by (rule find_custodian_none)
  then have "evaluate_consensus rid ch cs km = accept_key ch key Disputed ?km"
    unfolding evaluate_consensus_def Let_def
    using assms(1-3) mx by (simp add: grp del: max_by_key.simps)
  with mx show thesis by (rule that)
qed

lemma consensus_specI:
  "find (\<lambda>(s, k). trusted s) rs = Some (s, key) \<Longrightarrow> consensus_spec trusted th rs Verified key"
  "find (\<lambda>(s, k). trusted s) rs = None \<Longrightarrow> \<forall>r \<in> set rs. snd r = key \<Longrightarrow> rs \<noteq> [] \<Longrightarrow>
     consensus_spec trusted th rs (if th \<le> of_nat (length rs) then Verified else Unverified) key"
  "find (\<lambda>(s, k). trusted s) rs = None \<Longrightarrow> \<not> (\<exists>k. \<forall>r \<in> set rs. snd r = k) \<Longrightarrow>
     max_by_key (\<lambda>(k, senders). length senders) (group_responses rs) = Some (key, senders) \<Longrightarrow>
     consensus_spec trusted th rs Disputed key"
proof -
  assume "find (\<lambda>(s, k). trusted s) rs = Some (s, key)"
  from find_SomeD [OF this] show "consensus_spec trusted th rs Verified key"
    unfolding consensus_spec_def by auto
next
  assume none: "find (\<lambda>(s, k). trusted s) rs = None" and all: "\<forall>r \<in> set rs. snd r = key"
  from none have no: "\<not> (\<exists>(s, k) \<in> set rs. trusted s)" by (auto simp: find_None_iff)
  from all have "\<exists>k. \<forall>r \<in> set rs. snd r = k" by blast
  with no all show "consensus_spec trusted th rs
      (if th \<le> of_nat (length rs) then Verified else Unverified) key"
    unfolding consensus_spec_def by simp
next
  assume none: "find (\<lambda>(s, k). trusted s) rs = None" and dis: "\<not> (\<exists>k. \<forall>r \<in> set rs. snd r = k)"
    and mx: "max_by_key (\<lambda>(k, senders). length senders) (group_responses rs) = Some (key, senders)"
  from none have no: "\<not> (\<exists>(s, k) \<in> set rs. trusted s)" by (auto simp: find_None_iff)
  with dis majority_group [OF mx] show "consensus_spec trusted th rs Disputed key"
    unfolding consensus_spec_def by simp
qed

lemma consensus_spec_key: "consensus_spec trusted th rs t key \<Longrightarrow> rs \<noteq> [] \<Longrightarrow> key \<in> snd ` set rs"
proof -
  assume spec: "consensus_spec trusted th rs t key" and ne: "rs \<noteq> []"
  from ne have "hd rs \<in> set rs" by simp
  with spec show "key \<in> snd ` set rs"
    unfolding consensus_spec_def by (auto split: if_splits intro: rev_image_eqI)
qed

lemma evaluate_consensus_outcome:
  assumes coll: "hm_get (pending_consensus km) rid = Some c" and ne: "cl_responses c \<noteq> []"
    and len: "\<forall>(s, k) \<in> set (cl_responses c). length k = 32"
  obtains t key where
    "evaluate_consensus rid ch cs km =
       Some (Inr (t, Some key),
         km\<lparr>pending_consensus := hm_remove rid (pending_consensus km),
            archive_keys := hm_insert ch (\<lparr>ck_key = key\<rparr>, t) (archive_keys km)\<rparr>)"
    "consensus_spec (\<lambda>s. is_trusted_authority km s ch cs)
       (compute_consensus_threshold (cl_observed_members c)) (cl_responses c) t key"
proof -
  let ?rs = "cl_responses c"
  let ?T = "\<lambda>s. is_trusted_authority km s ch cs"
  let ?km = "km\<lparr>pending_consensus := hm_remove rid (pending_consensus km)\<rparr>"
  let ?th = "compute_consensus_threshold (cl_observed_members c)"
  obtain t key where ev: "evaluate_consensus rid ch cs km = accept_key ch key t ?km"
      and spec: "consensus_spec ?T ?th ?rs t key"
  proof (cases "find (\<lambda>(s, k). ?T s) ?rs")
    case (Some r)
    moreover obtain s key where "r = (s, key)" by (cases r)
    ultimately have f: "find (\<lambda>(s, k). ?T s) ?rs = Some (s, key)" by simp
    show thesis by (rule that [OF evaluate_trusted [OF coll ne f] consensus_specI(1) [OF f]])
  next
    case None
    show thesis
    proof (cases "\<exists>k. \<forall>r \<in> set ?rs. snd r = k")
      case True
      then obtain key where key: "\<forall>r \<in> set ?rs. snd r = key" by blast
      show thesis
        by (rule that [OF evaluate_agreeing [OF coll ne None key] consensus_specI(2) [OF None key ne]])
    next
      case False
      obtain key senders where
          "max_by_key (\<lambda>(k, senders). length senders) (group_responses ?rs) = Some (key, senders)"
          "evaluate_consensus rid ch cs km = accept_key ch key Disputed ?km"
        by (rule evaluate_disagreeing [OF coll ne None False])
      with consensus_specI(3) [OF None False] show thesis by (intro that)
    qed
  qed
  have "length key = 32" using consensus_spec_key [OF spec ne] len by auto
  then have "evaluate_consensus rid ch cs km =
      Some (Inr (t, Some key), ?km\<lparr>archive_keys := hm_insert ch (\<lparr>ck_key = key\<rparr>, t) (archive_keys ?km)\<rparr>)"
    by (simp only: ev accept_key_32)
  then show thesis using spec by (intro that) simp_all
qed

section \<open>The collectors of a manager\<close>

text \<open>Every collector was opened by a response and holds 32-byte keys; none ever counts the members
  of its channel.\<close>

definition collectors_ok :: "'br KeyManager \<Rightarrow> bool" where
  "collectors_ok km \<longleftrightarrow>
     (\<forall>rid c. hm_get (pending_consensus km) rid = Some c \<longrightarrow>
        cl_responses c \<noteq> [] \<and> hm_wf (cl_responses c) \<and>
        (\<forall>s k. hm_get (cl_responses c) s = Some k \<longrightarrow> length k = 32) \<and> cl_observed_members c = 0)"

lemma collectors_ok_new [intro]: "collectors_ok (with_suite ident su)"
  by (simp add: collectors_ok_def with_suite_def)

lemma collectors_ok_lengths:
  assumes "collectors_ok km" "hm_get (pending_consensus km) rid = Some c"
  shows "\<forall>(s, k) \<in> set (cl_responses c). length k = 32"
proof -
  from assms have "hm_wf (cl_responses c)"
      "\<forall>s k. hm_get (cl_responses c) s = Some k \<longrightarrow> length k = 32"
    unfolding collectors_ok_def by blast+
  then show ?thesis by (rule hm.values_all)
qed

lemma AList_update_ne [simp]: "AList.update k v m \<noteq> []"
  by (cases m) auto

lemma hm_wf_single [simp]: "hm_wf [(k, v)]"
  by (simp add: hm_wf_def)

lemma store_exchanged_key_collectors:
  assumes "collectors_ok km" "length key = 32"
  shows "collectors_ok (snd (store_exchanged_key instant protocol x key rts km))"
  using assms
  by (auto simp: store_exchanged_key_def collectors_ok_def add_response_def new_collector_def
      split: PchatProtocol.splits option.splits if_splits)

lemma decrypt_exchanged_key_length:
  "decrypt_exchanged_key km x = Inr key \<Longrightarrow> length key = 32"
  by (auto simp: decrypt_exchanged_key_def Let_def and_then_eq_Inr split: option.splits if_splits)

lemma verify_key_exchange_signature_ok:
  "verify_key_exchange_signature lib km x = Inr () \<longleftrightarrow>
     (\<exists>peer. hm_get (peer_keys km) (kx_sender_hash x) = Some peer \<and>
        kx_algorithm_version x = pk_algorithm_version peer \<and>
        ed25519_signature_error lib (kx_signature x) = None \<and>
        ed25519_verify_error lib (pk_signing_public peer) (exchange_signed_data x) (kx_signature x) = None)"
  unfolding verify_key_exchange_signature_def by (simp split: option.splits)

text \<open>What an accepted exchange has passed, and its effect.\<close>

lemma receive_key_exchange_ok:
  assumes "receive_key_exchange lib instant now x rts km = (Inr (), km')"
  obtains key where "verify_key_exchange_signature lib km x = Inr ()"
    "validate_timestamp_freshness rts (kx_timestamp x) = Inr ()"
    "decrypt_exchanged_key km x = Inr key" "length (kx_epoch_fingerprint x) = 8"
    "epoch_fingerprint lib key = kx_epoch_fingerprint x"
    "store_exchanged_key instant (from_wire_str (kx_protocol x)) x key rts km = (Inr (), km')"
  using assms
  by (auto simp: receive_key_exchange_def Let_def and_then_eq_Inr split: sum.splits prod.splits if_splits)

lemma receive_key_exchange_intro:
  assumes "verify_key_exchange_signature lib km x = Inr ()"
    "validate_timestamp_freshness rts (kx_timestamp x) = Inr ()"
    "decrypt_exchanged_key km x = Inr key" "length (kx_epoch_fingerprint x) = 8"
    "epoch_fingerprint lib key = kx_epoch_fingerprint x"
    "store_exchanged_key instant (from_wire_str (kx_protocol x)) x key rts km = (Inr (), km')"
  shows "receive_key_exchange lib instant now x rts km = (Inr (), km')"
  using assms by (simp add: receive_key_exchange_def Let_def)

lemma receive_key_exchange_error:
  assumes "receive_key_exchange lib instant now x rts km = (Inl e, km')"
  shows "km' = km"
  using assms
  by (auto simp: receive_key_exchange_def store_exchanged_key_def Let_def
      split: sum.splits prod.splits if_splits PchatProtocol.splits option.splits)

lemma receive_key_exchange_collectors:
  assumes "collectors_ok km"
  shows "collectors_ok (snd (receive_key_exchange lib instant now x rts km))"
proof (cases "receive_key_exchange lib instant now x rts km")
  case (Pair r km')
  show ?thesis
  proof (cases r)
    case (Inl e)
    with Pair receive_key_exchange_error assms show ?thesis by fastforce
  next
    case (Inr u)
    with Pair have "receive_key_exchange lib instant now x rts km = (Inr (), km')" by simp
    then obtain key where "decrypt_exchanged_key km x = Inr key"
        "store_exchanged_key instant (from_wire_str (kx_protocol x)) x key rts km = (Inr (), km')"
      by (rule receive_key_exchange_ok)
    with store_exchanged_key_collectors [OF assms decrypt_exchanged_key_length] Pair show ?thesis
      by (metis snd_conv)
  qed
qed

lemma evaluate_consensus_collectors:
  assumes ok: "collectors_ok km" and ev: "evaluate_consensus rid ch cs km = Some (r, km')"
  shows "collectors_ok km'"
proof (cases "hm_get (pending_consensus km) rid")
  case None
  with ev ok show ?thesis by (simp add: evaluate_consensus_def)
next
  case (Some c)
  with ok have "cl_responses c \<noteq> []" by (auto simp: collectors_ok_def)
  with Some obtain t key where
      "evaluate_consensus rid ch cs km = Some (Inr (t, Some key),
         km\<lparr>pending_consensus := hm_remove rid (pending_consensus km),
            archive_keys := hm_insert ch (\<lparr>ck_key = key\<rparr>, t) (archive_keys km)\<rparr>)"
    using evaluate_consensus_outcome [OF Some _ collectors_ok_lengths [OF ok Some]] by metis
  with ev ok show ?thesis by (auto simp: collectors_ok_def split: if_splits)
qed

text \<open>The operations as steps, in any order. The label says for which channel the user confirmed or
  accepted a custodian list in this step; the reachable states carry the set of these channels.\<close>

inductive key_step :: "crypto_lib \<Rightarrow> u32 option \<Rightarrow> 'br KeyManager \<Rightarrow> 'br KeyManager \<Rightarrow> bool" for lib where
  announce: "record_peer_key lib a km = (r, km') \<Longrightarrow> key_step lib None km km'"
| exchange: "receive_key_exchange lib instant now x rts km = (r, km') \<Longrightarrow> key_step lib None km km'"
| request: "handle_key_request lib rd now req h km = (r, km') \<Longrightarrow> key_step lib None km km'"
| consensus: "evaluate_consensus rid ch cs km = Some (r, km') \<Longrightarrow> key_step lib None km km'"
| pin: "update_custodian_pin ch cs km = (b, km') \<Longrightarrow> key_step lib None km km'"
| accept: "key_step lib (Some ch) km (accept_custodian_update ch km)"
| confirm: "key_step lib (Some ch) km (confirm_custodian_list ch km)"
| store: "key_step lib None km (store_archive_key ch k t km)"
| originator: "key_step lib None km (set_channel_originator ch h km)"
| remove: "key_step lib None km (KeyManager_remove_channel sig ch km)"
| dispute: "resolve_dispute ch mode h km = (r, km') \<Longrightarrow> key_step lib None km km'"
| countersign: "verify_countersignature lib now ch e fp pfp signer distr ts csig cs km = (r, km') \<Longrightarrow>
    key_step lib None km km'"
| fork: "resolve_epoch_fork lib lower ch e km = (r, km') \<Longrightarrow> key_step lib None km km'"

inductive key_reachable :: "crypto_lib \<Rightarrow> CryptoIdentity \<Rightarrow> u32 set \<Rightarrow> 'br KeyManager \<Rightarrow> bool"
  for lib ident where
  init: "key_reachable lib ident {} (KeyManager_new lib ident)"
| more: "key_reachable lib ident U km \<Longrightarrow> key_step lib l km km' \<Longrightarrow>
    key_reachable lib ident (U \<union> set_option l) km'"

text \<open>The fields that the operations leave alone.\<close>

lemma record_peer_key_keeps:
  assumes "record_peer_key lib a km = (r, km')"
  shows "pending_consensus km' = pending_consensus km" "pinned_custodians km' = pinned_custodians km"
  using assms by (auto simp: record_peer_key_def split: sum.splits option.splits if_splits)

lemma receive_key_exchange_keeps:
  assumes "receive_key_exchange lib instant now x rts km = (r, km')"
  shows "pinned_custodians km' = pinned_custodians km"
  using assms
  by (auto simp: receive_key_exchange_def store_exchanged_key_def Let_def
      split: sum.splits prod.splits if_splits PchatProtocol.splits option.splits)

lemma handle_key_request_keeps:
  assumes "handle_key_request lib rd now req h km = (r, km')"
  shows "pending_consensus km' = pending_consensus km" "pinned_custodians km' = pinned_custodians km"
proof -
  have "pending_consensus km' = pending_consensus km \<and> pinned_custodians km' = pinned_custodians km"
    using assms by (cases rule: handle_key_request_cases [of lib rd now req h km]) auto
  then show "pending_consensus km' = pending_consensus km" "pinned_custodians km' = pinned_custodians km"
    by simp_all
qed

lemma accept_key_keeps:
  "accept_key ch k t km = Some (r, km') \<Longrightarrow> pinned_custodians km' = pinned_custodians km"
  by (auto simp: accept_key_def split: option.splits)

lemma evaluate_consensus_keeps:
  assumes "evaluate_consensus rid ch cs km = Some (r, km')"
  shows "pinned_custodians km' = pinned_custodians km"
  using assms
  by (auto simp: evaluate_consensus_def Let_def dest!: accept_key_keeps
      split: option.splits if_splits list.splits prod.splits)

lemma resolve_dispute_keeps:
  assumes "resolve_dispute ch mode h km = (r, km')"
  shows "pending_consensus km' = pending_consensus km" "pinned_custodians km' = pinned_custodians km"
  using assms by (auto simp: resolve_dispute_def split: PchatProtocol.splits)

lemma verify_countersignature_keeps:
  assumes "verify_countersignature lib now ch e fp pfp signer distr ts csig cs km = (r, km')"
  shows "pending_consensus km' = pending_consensus km" "pinned_custodians km' = pinned_custodians km"
  using assms by (auto simp: verify_countersignature_def split: sum.splits if_splits)

lemma resolve_epoch_fork_keeps:
  assumes "resolve_epoch_fork lib lower ch e km = (r, km')"
  shows "pending_consensus km' = pending_consensus km" "pinned_custodians km' = pinned_custodians km"
  using assms by (auto simp: resolve_epoch_fork_def Let_def split: option.splits if_splits)

lemma update_custodian_pin_keeps:
  assumes "update_custodian_pin ch cs km = (b, km')"
  shows "pending_consensus km' = pending_consensus km"
  using assms by (auto simp: update_custodian_pin_def Let_def split: option.splits if_splits)

lemmas keeps_pending = record_peer_key_keeps(1) handle_key_request_keeps(1) resolve_dispute_keeps(1)
  verify_countersignature_keeps(1) resolve_epoch_fork_keeps(1) update_custodian_pin_keeps

lemmas keeps_pins = record_peer_key_keeps(2) handle_key_request_keeps(2) resolve_dispute_keeps(2)
  verify_countersignature_keeps(2) resolve_epoch_fork_keeps(2) receive_key_exchange_keeps
  evaluate_consensus_keeps

lemma collectors_ok_cong: "pending_consensus km' = pending_consensus km \<Longrightarrow> collectors_ok km \<Longrightarrow> collectors_ok km'"
  by (simp add: collectors_ok_def)

lemma key_step_collectors:
  assumes "key_step lib l km km'" "collectors_ok km"
  shows "collectors_ok km'"
  using assms
proof (cases rule: key_step.cases)
  case (exchange instant now x rts r)
  with receive_key_exchange_collectors [OF assms(2)] show ?thesis by (metis snd_conv)
next
  case (consensus rid ch cs r)
  with evaluate_consensus_collectors [OF assms(2)] show ?thesis by blast
qed (auto dest!: keeps_pending intro!: collectors_ok_cong [OF _ assms(2)]
      simp: accept_custodian_update_def confirm_custodian_list_def
      store_archive_key_def set_channel_originator_def KeyManager_remove_channel_def)

lemma key_reachable_collectors: "key_reachable lib ident U km \<Longrightarrow> collectors_ok km"
  by (induction rule: key_reachable.induct) (auto simp: KeyManager_new_def intro: key_step_collectors)

text \<open>A confirmed custodian list is empty, or the user confirmed it.\<close>

definition pins_ok :: "u32 set \<Rightarrow> 'br KeyManager \<Rightarrow> bool" where
  "pins_ok U km \<longleftrightarrow>
     (\<forall>ch p. hm_get (pinned_custodians km) ch = Some p \<longrightarrow> confirmed p \<longrightarrow> pinned p = [] \<or> ch \<in> U)"

lemma pins_ok_cong: "pinned_custodians km' = pinned_custodians km \<Longrightarrow> pins_ok U km \<Longrightarrow> pins_ok U km'"
  by (simp add: pins_ok_def)

lemma update_custodian_pin_pins_ok:
  assumes "update_custodian_pin ch cs km = (b, km')" "pins_ok U km"
  shows "pins_ok U km'"
  using assms
  by (auto simp: update_custodian_pin_def pins_ok_def first_observation_def Let_def
      split: option.splits if_splits) blast+

lemma key_step_pins_ok:
  assumes "key_step lib l km km'" "pins_ok U km"
  shows "pins_ok (U \<union> set_option l) km'"
  using assms
proof (cases rule: key_step.cases)
  case (pin ch cs b)
  with assms(2) update_custodian_pin_pins_ok show ?thesis by auto
next
  case (accept ch)
  with assms(2) show ?thesis
    by (auto simp: pins_ok_def accept_custodian_update_def split: if_splits option.splits)
next
  case (confirm ch)
  with assms(2) show ?thesis
    by (auto simp: pins_ok_def confirm_custodian_list_def split: if_splits)
next
  case (remove sig ch)
  with assms(2) show ?thesis
    by (auto simp: pins_ok_def KeyManager_remove_channel_def split: if_splits)
qed (auto dest!: keeps_pins intro!: pins_ok_cong [OF _ assms(2)]
      simp: store_archive_key_def set_channel_originator_def)

lemma key_reachable_pins_ok: "key_reachable lib ident U km \<Longrightarrow> pins_ok U km"
proof (induction rule: key_reachable.induct)
  case init
  show ?case by (simp add: pins_ok_def KeyManager_new_def with_suite_def)
qed (rule key_step_pins_ok)

section \<open>Exchange of a key between two managers\<close>

text \<open>A manager with the identity of a seed and the production suite.\<close>

definition seeded :: "crypto_lib \<Rightarrow> SeedIdentity \<Rightarrow> 'br KeyManager \<Rightarrow> bool" where
  "seeded lib si km \<longleftrightarrow>
     suite km = XChaCha20Suite lib \<and> identity km = seed_identity lib si \<and>
     si_dh_public si = x25519_public lib (si_dh_secret si)"

lemma from_seed_public:
  "SeedIdentity_from_seed lib seed = Inr si \<Longrightarrow> si_dh_public si = x25519_public lib (si_dh_secret si)"
  by (auto simp: SeedIdentity_from_seed_def and_then_eq_Inr)

lemma seeded_new:
  "SeedIdentity_from_seed lib seed = Inr si \<Longrightarrow> seeded lib si (KeyManager_new lib (seed_identity lib si))"
  by (simp add: seeded_def KeyManager_new_def with_suite_def from_seed_public)

lemma seeded_public:
  assumes "seeded lib si km"
  shows "dh_public_bytes km = x25519_public lib (si_dh_secret si)"
    "signing_public_bytes km = ed25519_public lib (si_signing_key si)"
  using assms by (simp_all add: seeded_def dh_public_bytes_def signing_public_bytes_def seed_identity_def)

lemma own_announce_valid:
  assumes "crypto_laws lib" "seeded lib si km"
  shows "check_announce lib (build_key_announce km h ts) = Inr ()"
  using assms(2)
  by (simp add: check_announce_def build_key_announce_def Let_def seeded_public [OF assms(2)]
      crypto_lawsD [OF assms(1)] seeded_def seed_identity_def)

text \<open>Both ends derive the same wrapping key.\<close>

lemma wrap_key_agrees:
  assumes "crypto_laws lib" "seeded lib sa a" "seeded lib sb b"
  obtains wk where "length wk = 32"
    "suite_derive (suite a) (dh_agree (identity a) (dh_public_bytes b)) HKDF_SALT_IDENTITY KEY_WRAP = Inr wk"
    "suite_derive (suite b) (dh_agree (identity b) (dh_public_bytes a)) HKDF_SALT_IDENTITY KEY_WRAP = Inr wk"
proof -
  obtain wk where wk: "HkdfSha256_derive lib
      (x25519_agree lib (si_dh_secret sa) (x25519_public lib (si_dh_secret sb))) HKDF_SALT_IDENTITY KEY_WRAP
      = Inr wk" "length wk = 32"
    by (rule crypto_laws_derive [OF assms(1)])
  have ident: "identity a = seed_identity lib sa" "identity b = seed_identity lib sb"
      "suite a = XChaCha20Suite lib" "suite b = XChaCha20Suite lib"
    using assms(2,3) by (simp_all add: seeded_def)
  show thesis
    using wk crypto_laws_agree [OF assms(1), of "si_dh_secret sb" "si_dh_secret sa"]
    by (intro that [of wk])
       (simp_all add: ident seeded_public [OF assms(2)] seeded_public [OF assms(3)] seed_identity_def
        XChaCha20Suite_def)
qed

lemma build_signed_data_eq:
  "exchange_signed_data x = build_key_exchange_signed_data (kx_algorithm_version x) (kx_channel_id x)
     (from_wire_str (kx_protocol x)) (kx_epoch x) (kx_encrypted_key x) (kx_recipient_hash x)
     (kx_request_id x) (kx_timestamp x)"
  by (simp add: exchange_signed_data_def)

lemma distributed_key_received:
  assumes laws: "crypto_laws lib" and a: "seeded lib sa a" and b: "seeded lib sb b"
    and key: "hm_get (archive_keys a) ch = Some (\<lparr>ck_key = key\<rparr>, t)" "length key = 32"
    and nonce: "length (rd_nonce rd) = 24"
    and peer: "hm_get (peer_keys b) h = Some (announced_record (build_key_announce a h ts0))"
  obtains x where "distribute_key lib rd a ch PP_FancyV1FullArchive e rh (dh_public_bytes b) rid ts = Inr x"
    "kx_channel_id x = ch" "kx_request_id x = rid" "kx_timestamp x = ts"
    "kx_protocol x = as_wire_str PP_FancyV1FullArchive"
    "kx_epoch_fingerprint x = epoch_fingerprint lib key"
    "verify_key_exchange_signature lib b (x\<lparr>kx_sender_hash := h\<rparr>) = Inr ()"
    "decrypt_exchanged_key b (x\<lparr>kx_sender_hash := h\<rparr>) = Inr key"
proof -
  obtain wk where wk: "length wk = 32"
      "suite_derive (suite a) (dh_agree (identity a) (dh_public_bytes b)) HKDF_SALT_IDENTITY KEY_WRAP = Inr wk"
      "suite_derive (suite b) (dh_agree (identity b) (dh_public_bytes a)) HKDF_SALT_IDENTITY KEY_WRAP = Inr wk"
    by (rule wrap_key_agrees [OF laws a b])
  have suites: "suite a = XChaCha20Suite lib" "suite b = XChaCha20Suite lib"
    using a b by (simp_all add: seeded_def)
  have "xchacha_admissible lib rd wk key"
    using laws nonce wk(1) key(2) by (simp add: xchacha_admissible_def)
  from xchacha.seal_unseal [OF this, of "[]"] obtain ct where
      ct: "XChaCha_encrypt lib rd wk key [] = Inr ct" "XChaCha_decrypt lib wk ct [] = Inr key"
    by blast
  define data where "data = build_key_exchange_signed_data ALGORITHM_VERSION ch PP_FancyV1FullArchive e ct rh rid ts"
  let ?x = "\<lparr>kx_channel_id = ch, kx_protocol = as_wire_str PP_FancyV1FullArchive, kx_epoch = e,
      kx_encrypted_key = ct, kx_sender_hash = [], kx_recipient_hash = rh, kx_request_id = rid,
      kx_timestamp = ts, kx_algorithm_version = ALGORITHM_VERSION,
      kx_signature = sign (identity a) data, kx_parent_fingerprint = None,
      kx_epoch_fingerprint = epoch_fingerprint lib key, kx_countersignature = None,
      kx_countersigner_hash = None\<rparr>"
  have rec: "pk_algorithm_version (announced_record (build_key_announce a h ts0)) = ALGORITHM_VERSION"
      "pk_dh_public (announced_record (build_key_announce a h ts0)) = dh_public_bytes a"
      "pk_signing_public (announced_record (build_key_announce a h ts0)) = signing_public_bytes a"
    by (simp_all add: announced_record_def build_key_announce_def Let_def)
  have sgn: "sign (identity a) data = ed25519_sign lib (si_signing_key sa) data"
    using a by (simp add: seeded_def seed_identity_def)
  show thesis
  proof (rule that [of ?x])
    show "distribute_key lib rd a ch PP_FancyV1FullArchive e rh (dh_public_bytes b) rid ts = Inr ?x"
      using key(1) wk(2) ct(1) by (simp add: distribute_key_def suites XChaCha20Suite_def data_def)
    show "verify_key_exchange_signature lib b (?x\<lparr>kx_sender_hash := h\<rparr>) = Inr ()"
      using peer
      by (simp add: verify_key_exchange_signature_def rec build_signed_data_eq sgn
          seeded_public [OF a] data_def [symmetric] crypto_lawsD [OF laws])
    show "decrypt_exchanged_key b (?x\<lparr>kx_sender_hash := h\<rparr>) = Inr key"
      using peer wk(3) ct(2) key(2)
      by (simp add: decrypt_exchanged_key_def rec suites XChaCha20Suite_def)
  qed simp_all
qed

lemma handle_key_request_served:
  assumes "requests_processed km < max_requests_per_connection km"
    "length (kr_requester_public req) = 32" "from_wire_str (kr_protocol req) = PP_FancyV1FullArchive"
    "hm_get (archive_keys km) (kr_channel_id req) \<noteq> None"
    "distribute_key lib rd km (kr_channel_id req) PP_FancyV1FullArchive 0 (kr_requester_hash req)
       (kr_requester_public req) (Some (kr_request_id req)) now = Inr x"
  shows "handle_key_request lib rd now req h km =
    (Inr (Some (x\<lparr>kx_sender_hash := h\<rparr>)), km\<lparr>requests_processed := requests_processed km + 1\<rparr>)"
  using assms by (simp add: handle_key_request_def Let_def)

text \<open>Encrypting under the archive key of one manager and decrypting under the same key of another.\<close>

lemma message_roundtrip:
  assumes laws: "crypto_laws lib" and suites: "suite a = XChaCha20Suite lib" "suite b = XChaCha20Suite lib"
    and keys: "hm_get (archive_keys a) ch = Some (\<lparr>ck_key = key\<rparr>, t)"
      "hm_get (archive_keys b) ch = Some (\<lparr>ck_key = key\<rparr>, t')" "length key = 32"
    and msg: "length (rd_nonce rd) = 24" "length plaintext < 2 ^ 31" "uuid_parse lib mid = Inr uuid"
  shows "\<exists>p. KeyManager_encrypt lib sig rd PP_FancyV1FullArchive ch mid ts plaintext a = (Inr p, a) \<and>
     KeyManager_decrypt lib b PP_FancyV1FullArchive ch mid ts p = Inr plaintext"
proof -
  have "xchacha_admissible lib rd key plaintext" using laws keys(3) msg by (simp add: xchacha_admissible_def)
  from xchacha.seal_unseal [OF this, of "build_aad ch uuid ts"] show ?thesis
    using keys(1,2) msg(3)
    by (auto simp: KeyManager_encrypt_def KeyManager_decrypt_def uuid_to_bytes_def suites XChaCha20Suite_def)
qed

section \<open>Properties\<close>

text \<open>C10: A channel key reaches the member that asks for it. Alice holds the archive key of a channel, Bob
  records her announcement and his request reaches her within the freshness window: she answers,
  Bob accepts the answer, his consensus stores exactly Alice's key, and from then on every
  message that Alice encrypts for the channel decrypts at Bob to what she wrote.\<close>

theorem channel_key_reaches_member:
  fixes a b :: "'br KeyManager" and ts0 :: u64
  assumes laws: "crypto_laws lib" and a: "seeded lib sa a" and b: "seeded lib sb b"
    and key: "hm_get (archive_keys a) ch = Some (\<lparr>ck_key = key\<rparr>, t)" "length key = 32"
    and quota: "requests_processed a < max_requests_per_connection a"
    and req: "kr_channel_id req = ch" "kr_protocol req = as_wire_str PP_FancyV1FullArchive"
      "kr_requester_public req = dh_public_bytes b"
    and fresh: "kr_timestamp req \<le> now" "now \<le> kr_timestamp req + KEY_EXCHANGE_FRESHNESS_MS"
    and b0: "hm_get (peer_keys b) h = None" "hm_get (pending_consensus b) (kr_request_id req) = None"
    and nonce: "length (rd_nonce rd) = 24"
  defines "b1 \<equiv> snd (record_peer_key lib (build_key_announce a h ts0) b)"
  shows "\<exists>x a' b2 b3.
     handle_key_request lib rd now req h a = (Inr (Some x), a') \<and>
     receive_key_exchange lib instant now' x (Some (kr_timestamp req)) b1 = (Inr (), b2) \<and>
     evaluate_consensus (kr_request_id req) ch cs b2 = Some (Inr (Verified, Some key), b3) \<and>
     (\<forall>rd' mid uuid ts plaintext.
        length (rd_nonce rd') = 24 \<and> uuid_parse lib mid = Inr uuid \<and> length plaintext < 2 ^ 31 \<longrightarrow>
        (\<exists>p. KeyManager_encrypt lib sig rd' PP_FancyV1FullArchive ch mid ts plaintext a' = (Inr p, a') \<and>
             KeyManager_decrypt lib b3 PP_FancyV1FullArchive ch mid ts p = Inr plaintext))"
proof -
  let ?rid = "kr_request_id req"
  let ?rec = "announced_record (build_key_announce a h ts0)"
  have b1: "b1 = b\<lparr>peer_keys := hm_insert h ?rec (peer_keys b)\<rparr>"
    using own_announce_valid [OF laws a, of h ts0] b0(1)
    by (simp add: b1_def record_peer_key_def build_key_announce_def Let_def)
  have sb1: "seeded lib sb b1" using b by (simp add: seeded_def b1)
  have peer: "hm_get (peer_keys b1) h = Some ?rec" by (simp add: b1)
  have pub: "dh_public_bytes b1 = dh_public_bytes b" by (simp add: dh_public_bytes_def b1)
  obtain x where x: "distribute_key lib rd a ch PP_FancyV1FullArchive 0 (kr_requester_hash req)
        (dh_public_bytes b1) (Some ?rid) now = Inr x"
      "kx_channel_id x = ch" "kx_request_id x = Some ?rid" "kx_timestamp x = now"
      "kx_protocol x = as_wire_str PP_FancyV1FullArchive"
      "kx_epoch_fingerprint x = epoch_fingerprint lib key"
      "verify_key_exchange_signature lib b1 (x\<lparr>kx_sender_hash := h\<rparr>) = Inr ()"
      "decrypt_exchanged_key b1 (x\<lparr>kx_sender_hash := h\<rparr>) = Inr key"
    by (rule distributed_key_received [OF laws a sb1 key nonce peer])
  let ?x = "x\<lparr>kx_sender_hash := h\<rparr>"
  let ?a = "a\<lparr>requests_processed := requests_processed a + 1\<rparr>"
  let ?c = "add_response h key (new_collector instant (Some (kr_timestamp req)))"
  let ?b2 = "b1\<lparr>pending_consensus := hm_insert ?rid ?c (pending_consensus b1)\<rparr>"
  have served: "handle_key_request lib rd now req h a = (Inr (Some ?x), ?a)"
    using x(1) quota req key(1) seeded_public(1) [OF b] crypto_lawsD(2) [OF laws]
    by (intro handle_key_request_served) (simp_all add: pub)
  have received: "receive_key_exchange lib instant now' ?x (Some (kr_timestamp req)) b1 = (Inr (), ?b2)"
    using x fresh b0(2) crypto_lawsD(1) [OF laws]
    by (intro receive_key_exchange_intro [where key = key])
       (simp_all add: validate_timestamp_freshness_def not_less epoch_fingerprint_def
        store_exchanged_key_def hm_entry_modify_def b1)
  obtain t' k where ev: "evaluate_consensus ?rid ch cs ?b2 =
        Some (Inr (t', Some k), ?b2\<lparr>pending_consensus := hm_remove ?rid (pending_consensus ?b2),
          archive_keys := hm_insert ch (\<lparr>ck_key = k\<rparr>, t') (archive_keys ?b2)\<rparr>)"
      and spec: "consensus_spec (\<lambda>s. is_trusted_authority ?b2 s ch cs)
        (compute_consensus_threshold (cl_observed_members ?c)) (cl_responses ?c) t' k"
    using key(2)
    by (rule_tac evaluate_consensus_outcome [of ?b2 ?rid ?c ch cs])
       (auto simp: add_response_def new_collector_def)
  have tk: "t' = Verified" "k = key"
    using spec by (auto simp: consensus_spec_def add_response_def new_collector_def
        compute_consensus_threshold_def split: if_splits)
  have archive: "hm_get (archive_keys ?a) ch = Some (\<lparr>ck_key = key\<rparr>, t)"
      "suite ?a = XChaCha20Suite lib" "suite b1 = XChaCha20Suite lib"
    using key(1) a sb1 by (simp_all add: seeded_def)
  let ?b3 = "?b2\<lparr>pending_consensus := hm_remove ?rid (pending_consensus ?b2),
      archive_keys := hm_insert ch (\<lparr>ck_key = key\<rparr>, Verified) (archive_keys ?b2)\<rparr>"
  have messages: "\<exists>p. KeyManager_encrypt lib sig rd' PP_FancyV1FullArchive ch mid ts plaintext ?a = (Inr p, ?a) \<and>
      KeyManager_decrypt lib ?b3 PP_FancyV1FullArchive ch mid ts p = Inr plaintext"
    if "length (rd_nonce rd') = 24" "uuid_parse lib mid = Inr uuid" "length plaintext < 2 ^ 31"
    for rd' mid uuid ts plaintext
    by (rule message_roundtrip [OF laws archive(2) _ archive(1) _ key(2) that(1,3,2), where t' = Verified])
       (simp_all add: archive(3))
  have ev': "evaluate_consensus ?rid ch cs ?b2 = Some (Inr (Verified, Some key), ?b3)"
    using ev unfolding tk .
  show ?thesis
    by (rule exI [of _ ?x], rule exI [of _ ?a], rule exI [of _ ?b2], rule exI [of _ ?b3])
       (use served received ev' messages in blast)
qed

definition demo_seed :: "u8 \<Rightarrow> SeedIdentity" where
  "demo_seed n = \<lparr>si_dh_secret = replicate 32 n, si_dh_public = x25519_public demo_crypto (replicate 32 n),
     si_signing_key = replicate 32 n\<rparr>"

definition demo_manager :: "u8 \<Rightarrow> unit KeyManager" where
  "demo_manager n = KeyManager_new demo_crypto (seed_identity demo_crypto (demo_seed n))"

lemma seeded_demo: "seeded demo_crypto (demo_seed n) (demo_manager n)"
  by (simp add: seeded_def demo_manager_def KeyManager_new_def with_suite_def demo_seed_def)

definition demo_request :: wire_PchatKeyRequest where
  "demo_request = \<lparr>kr_channel_id = 1, kr_protocol = as_wire_str PP_FancyV1FullArchive,
     kr_requester_hash = ''bob'', kr_requester_public = dh_public_bytes (demo_manager 2),
     kr_request_id = ''r'', kr_timestamp = 1000, kr_relay_cap = 3\<rparr>"

theorem channel_key_reaches_member_witness:
  "\<exists>x a' b2 b3.
     handle_key_request demo_crypto demo_draw 2000 demo_request ''alice''
       (store_archive_key 1 (replicate 32 9) Verified (demo_manager 1)) = (Inr (Some x), a') \<and>
     receive_key_exchange demo_crypto 0 2000 x (Some 1000)
       (snd (record_peer_key demo_crypto
          (build_key_announce (store_archive_key 1 (replicate 32 9) Verified (demo_manager 1)) ''alice'' 5)
          (demo_manager 2))) = (Inr (), b2) \<and>
     evaluate_consensus ''r'' 1 [] b2 = Some (Inr (Verified, Some (replicate 32 9)), b3)"
proof -
  let ?a = "store_archive_key 1 (replicate 32 9) Verified (demo_manager 1)"
  have "seeded demo_crypto (demo_seed 1) ?a"
    using seeded_demo [of 1] by (simp add: seeded_def store_archive_key_def)
  from channel_key_reaches_member [OF crypto_laws_demo this seeded_demo [of 2], where key = "replicate 32 9"
      and t = Verified and ch = 1 and req = demo_request and now = 2000 and h = "''alice''" and rd = demo_draw
      and ?ts0.0 = 5 and instant = 0 and now' = 2000 and cs = "[]"]
  show ?thesis
    by (simp add: demo_request_def store_archive_key_def demo_manager_def KeyManager_new_def with_suite_def
        DEFAULT_MAX_REQUESTS_def KEY_EXCHANGE_FRESHNESS_MS_def demo_draw_def) blast
qed

text \<open>C28: Which announcement of a peer counts. After any sequence of announcements the keys recorded for
  a peer are those of its newest validly signed announcement, the first one if several have the
  same timestamp; announcements that fail a check, and older ones replayed later, change nothing.\<close>

theorem newest_announcement_counts:
  assumes "hm_get (peer_keys km) h = None"
  shows "if valid_announces lib h as = [] then get_peer (record_peer_keys lib as km) h = None
         else \<exists>a. first_newest a (valid_announces lib h as) \<and>
                  get_peer (record_peer_keys lib as km) h = Some (announced_record a)"
  unfolding get_peer_def using assms by (rule record_peer_keys_newest)

theorem newest_announcement_counts_witness:
  "\<exists>a. first_newest a (valid_announces demo_crypto ''alice''
          [build_key_announce (demo_manager 1) ''alice'' 7, build_key_announce (demo_manager 3) ''alice'' 5]) \<and>
       get_peer (record_peer_keys demo_crypto
          [build_key_announce (demo_manager 1) ''alice'' 7, build_key_announce (demo_manager 3) ''alice'' 5]
          (demo_manager 2)) ''alice'' = Some (announced_record a)"
proof -
  have "valid_announces demo_crypto ''alice''
      [build_key_announce (demo_manager 1) ''alice'' 7, build_key_announce (demo_manager 3) ''alice'' 5] \<noteq> []"
    using own_announce_valid [OF crypto_laws_demo seeded_demo [of 1], of "''alice''" 7]
    by (simp add: valid_announces_def build_key_announce_def Let_def)
  moreover have "hm_get (peer_keys (demo_manager 2)) ''alice'' = None"
    by (simp add: demo_manager_def KeyManager_new_def with_suite_def)
  ultimately show ?thesis
    using newest_announcement_counts [of "demo_manager 2" "''alice''" demo_crypto
        "[build_key_announce (demo_manager 1) ''alice'' 7, build_key_announce (demo_manager 3) ''alice'' 5]"]
    by simp
qed

text \<open>C27: The outcome of a consensus. In every reachable state, evaluating a pending request never
  panics, removes it, and stores a key that some member sent: the key of a trusted responder,
  as verified, if there is one; else, if all responders agree, their key; else the key with the most votes,
  as disputed.\<close>

theorem consensus_outcome:
  assumes "key_reachable lib ident U km" and "hm_get (pending_consensus km) rid = Some c"
  shows "\<exists>t key km'. evaluate_consensus rid ch cs km = Some (Inr (t, Some key), km') \<and>
     hm_get (archive_keys km') ch = Some (\<lparr>ck_key = key\<rparr>, t) \<and>
     hm_get (pending_consensus km') rid = None \<and>
     consensus_spec (\<lambda>s. is_trusted_authority km s ch cs)
       (compute_consensus_threshold (cl_observed_members c)) (cl_responses c) t key"
proof -
  note ok = key_reachable_collectors [OF assms(1)]
  have "cl_responses c \<noteq> []" using ok assms(2) by (auto simp: collectors_ok_def)
  then obtain t key where
      "evaluate_consensus rid ch cs km = Some (Inr (t, Some key),
         km\<lparr>pending_consensus := hm_remove rid (pending_consensus km),
            archive_keys := hm_insert ch (\<lparr>ck_key = key\<rparr>, t) (archive_keys km)\<rparr>)"
      "consensus_spec (\<lambda>s. is_trusted_authority km s ch cs)
         (compute_consensus_threshold (cl_observed_members c)) (cl_responses c) t key"
    using evaluate_consensus_outcome [OF assms(2) _ collectors_ok_lengths [OF ok assms(2)]] by blast
  then show ?thesis by (intro exI conjI) (assumption | simp)+
qed

text \<open>A single unknown member decides. The members of a channel are never counted, so in every
  reachable state the threshold of a pending request is one: a lone response of any
  peer, or any set of agreeing responses, is stored as verified although nobody confirmed it.\<close>

theorem lone_response_is_verified:
  assumes "key_reachable lib ident U km" and "hm_get (pending_consensus km) rid = Some c"
    and "\<forall>r \<in> set (cl_responses c). snd r = key" and "length (cl_responses c) < 2 ^ 32"
  shows "\<exists>km'. evaluate_consensus rid ch cs km = Some (Inr (Verified, Some key), km') \<and>
     hm_get (archive_keys km') ch = Some (\<lparr>ck_key = key\<rparr>, Verified)"
proof -
  note ok = key_reachable_collectors [OF assms(1)]
  have c: "cl_responses c \<noteq> []" "cl_observed_members c = 0"
    using ok assms(2) unfolding collectors_ok_def by blast+
  have one: "1 \<le> (of_nat (length (cl_responses c)) :: u32)"
    using c(1) assms(4) by (simp add: word_le_nat_alt unat_of_nat take_bit_nat_eq_self Suc_le_eq)
  have th: "compute_consensus_threshold (cl_observed_members c) = 1"
    by (simp add: c(2) compute_consensus_threshold_def)
  obtain t k where ev: "evaluate_consensus rid ch cs km = Some (Inr (t, Some k),
        km\<lparr>pending_consensus := hm_remove rid (pending_consensus km),
           archive_keys := hm_insert ch (\<lparr>ck_key = k\<rparr>, t) (archive_keys km)\<rparr>)"
      and spec: "consensus_spec (\<lambda>s. is_trusted_authority km s ch cs) 1 (cl_responses c) t k"
    by (rule evaluate_consensus_outcome
        [OF assms(2) c(1) collectors_ok_lengths [OF ok assms(2)], of ch cs, unfolded th])
  from consensus_spec_key [OF spec c(1)] obtain r where "r \<in> set (cl_responses c)" "k = snd r" by blast
  with assms(3) have "k = key" by blast
  moreover have "t = Verified"
  proof (cases "\<exists>(s, k) \<in> set (cl_responses c). is_trusted_authority km s ch cs")
    case True
    with spec show ?thesis by (simp add: consensus_spec_def)
  next
    case False
    moreover have "\<exists>k. \<forall>r \<in> set (cl_responses c). snd r = k" using assms(3) by blast
    ultimately show ?thesis using spec one by (simp only: consensus_spec_def if_False if_True)
  qed
  ultimately show ?thesis using ev by simp
qed

text \<open>A state with one response of an unknown member, for the witnesses.\<close>

definition demo_exchange :: wire_PchatKeyExchange where
  "demo_exchange =
     \<lparr>kx_channel_id = 1, kx_protocol = ''FULL_ARCHIVE'', kx_epoch = 0,
      kx_encrypted_key = ENCRYPTION_VERSION # replicate 24 0 @ replicate 32 9 @ [0, 2] @ replicate 16 0,
      kx_sender_hash = ''alice'', kx_recipient_hash = ''bob'', kx_request_id = Some ''r'',
      kx_timestamp = 1000, kx_algorithm_version = 1, kx_signature = replicate 64 7,
      kx_parent_fingerprint = None, kx_epoch_fingerprint = replicate 8 9,
      kx_countersignature = None, kx_countersigner_hash = None\<rparr>"

definition demo_bob :: "unit KeyManager" where
  "demo_bob = snd (record_peer_key demo_crypto (build_key_announce (demo_manager 1) ''alice'' 5) (demo_manager 2))"

lemma demo_bob_reachable: "key_reachable demo_crypto (seed_identity demo_crypto (demo_seed 2)) {} demo_bob"
proof -
  let ?i = "seed_identity demo_crypto (demo_seed 2)"
  have "key_reachable demo_crypto ?i {} (demo_manager 2)"
    unfolding demo_manager_def by (rule key_reachable.init)
  moreover have "key_step demo_crypto None (demo_manager 2) demo_bob"
    unfolding demo_bob_def by (rule key_step.announce [OF prod.collapse [symmetric]])
  ultimately show ?thesis using key_reachable.more [of demo_crypto ?i "{}"] by force
qed

lemma demo_bob_alice:
  "hm_get (peer_keys demo_bob) ''alice'' =
     Some (announced_record (build_key_announce (demo_manager 1) ''alice'' 5))"
  using own_announce_valid [OF crypto_laws_demo seeded_demo [of 1], of "''alice''" 5]
  by (simp add: demo_bob_def record_peer_key_effect build_key_announce_def Let_def
      demo_manager_def KeyManager_new_def with_suite_def)

lemma demo_bob_fields:
  "suite demo_bob = XChaCha20Suite demo_crypto" "pending_consensus demo_bob = []"
  "pinned_custodians demo_bob = []" "channel_originators demo_bob = []"
  by (auto simp: demo_bob_def record_peer_key_def demo_manager_def KeyManager_new_def with_suite_def
      split: sum.splits option.splits)

lemma demo_payload:
  "length wk = 32 \<Longrightarrow>
   XChaCha_decrypt demo_crypto wk (kx_encrypted_key demo_exchange) [] = Inr (replicate 32 9)"
  by (simp add: XChaCha_decrypt_def demo_exchange_def KEY_LEN_def NONCE_LEN_def demo_crypto_def Let_def
      unpad_plaintext_def from_be16_def nth_append)

lemma hkdf_demo: "hkdf_sha256 demo_crypto salt ikm info n = Inr (take n (ikm @ replicate n 0))"
  by (simp add: demo_crypto_def)

lemma kx_sender_demo: "kx_sender_hash demo_exchange = ''alice''"
  by (simp add: demo_exchange_def)

lemma demo_bob_decrypts: "decrypt_exchanged_key demo_bob demo_exchange = Inr (replicate 32 9)"
proof -
  have "length (take 32 (ikm @ replicate 32 0)) = 32" for ikm :: bytes by simp
  then show ?thesis
    using demo_bob_alice demo_payload
    by (simp add: decrypt_exchanged_key_def demo_bob_fields XChaCha20Suite_def HkdfSha256_derive_def
        hkdf_demo KEY_LEN_def kx_sender_demo)
qed

lemma demo_bob_receives:
  "receive_key_exchange demo_crypto 0 2000 demo_exchange None demo_bob =
     (Inr (), demo_bob\<lparr>pending_consensus :=
        [(''r'', add_response ''alice'' (replicate 32 9) (new_collector 0 None))]\<rparr>)"
proof (rule receive_key_exchange_intro [where key = "replicate 32 9"])
  show "verify_key_exchange_signature demo_crypto demo_bob demo_exchange = Inr ()"
    using demo_bob_alice
    by (simp add: verify_key_exchange_signature_ok demo_exchange_def announced_record_def
        build_key_announce_def Let_def ALGORITHM_VERSION_def demo_crypto_def)
  show "decrypt_exchanged_key demo_bob demo_exchange = Inr (replicate 32 9)"
    by (rule demo_bob_decrypts)
  show "store_exchanged_key 0 (from_wire_str (kx_protocol demo_exchange)) demo_exchange (replicate 32 9) None demo_bob =
      (Inr (), demo_bob\<lparr>pending_consensus :=
        [(''r'', add_response ''alice'' (replicate 32 9) (new_collector 0 None))]\<rparr>)"
    by (simp add: store_exchanged_key_def demo_exchange_def from_wire_str_def demo_bob_fields hm_entry_modify_def)
qed (simp_all add: demo_exchange_def validate_timestamp_freshness_def epoch_fingerprint_def demo_crypto_def)

lemma demo_asked_reachable:
  "key_reachable demo_crypto (seed_identity demo_crypto (demo_seed 2)) {}
     (demo_bob\<lparr>pending_consensus :=
        [(''r'', add_response ''alice'' (replicate 32 9) (new_collector 0 None))]\<rparr>)"
  using key_reachable.more [OF demo_bob_reachable key_step.exchange [OF demo_bob_receives]] by simp

theorem consensus_outcome_witness:
  "\<exists>t key km'. evaluate_consensus ''r'' 1 [] (demo_bob\<lparr>pending_consensus :=
        [(''r'', add_response ''alice'' (replicate 32 9) (new_collector 0 None))]\<rparr>) =
      Some (Inr (t, Some key), km') \<and> hm_get (archive_keys km') 1 = Some (\<lparr>ck_key = key\<rparr>, t)"
  using consensus_outcome [OF demo_asked_reachable, of "''r''"
      "add_response ''alice'' (replicate 32 9) (new_collector 0 None)" 1 "[]"]
  by auto

theorem lone_response_is_verified_witness:
  "\<exists>km'. evaluate_consensus ''r'' 1 [] (demo_bob\<lparr>pending_consensus :=
        [(''r'', add_response ''alice'' (replicate 32 9) (new_collector 0 None))]\<rparr>) =
      Some (Inr (Verified, Some (replicate 32 9)), km') \<and>
     hm_get (archive_keys km') 1 = Some (\<lparr>ck_key = replicate 32 9\<rparr>, Verified)"
  using lone_response_is_verified [OF demo_asked_reachable, of "''r''"
      "add_response ''alice'' (replicate 32 9) (new_collector 0 None)" "replicate 32 9" 1 "[]"]
  by (simp add: add_response_def new_collector_def)

text \<open>C33: Trust in custodians needs the user. In every reachable state a member that the manager trusts
  for a channel is its originator, or stands both in the list the server sends and in a pinned list
  that the user confirmed or accepted for this very channel.\<close>

theorem custodian_trust_needs_user:
  assumes "key_reachable lib ident U km" and "is_trusted_authority km s ch cs"
  shows "get_channel_originator km ch = Some s \<or>
     ch \<in> U \<and> s \<in> set cs \<and>
     (\<exists>p. get_custodian_pin km ch = Some p \<and> confirmed p \<and> s \<in> set (pinned p))"
  using key_reachable_pins_ok [OF assms(1)] assms(2)
  by (auto simp: is_trusted_authority_def pins_ok_def get_channel_originator_def get_custodian_pin_def Let_def
      split: option.splits if_splits) (metis empty_iff list.set(1))

text \<open>The signature of a key exchange does not separate its fields. Whoever relays a valid answer to
  a request can move the request id into the recipient: the signature still verifies, and
  the receiver stores the key at once, unverified and without a consensus, over any key it had.\<close>

theorem spliced_exchange_overwrites_key:
  assumes "receive_key_exchange lib instant now x rts km = (Inr (), km')"
    and "kx_request_id x = Some rid"
  shows "\<exists>key. decrypt_exchanged_key km x = Inr key \<and>
     receive_key_exchange lib instant now
       (x\<lparr>kx_recipient_hash := kx_recipient_hash x @ rid, kx_request_id := None\<rparr>) rts km =
     (Inr (), km\<lparr>archive_keys := hm_insert (kx_channel_id x) (\<lparr>ck_key = key\<rparr>, Unverified) (archive_keys km)\<rparr>)"
proof -
  let ?y = "x\<lparr>kx_recipient_hash := kx_recipient_hash x @ rid, kx_request_id := None\<rparr>"
  from assms(1) obtain key where r: "verify_key_exchange_signature lib km x = Inr ()"
      "validate_timestamp_freshness rts (kx_timestamp x) = Inr ()"
      "decrypt_exchanged_key km x = Inr key" "length (kx_epoch_fingerprint x) = 8"
      "epoch_fingerprint lib key = kx_epoch_fingerprint x"
      "store_exchanged_key instant (from_wire_str (kx_protocol x)) x key rts km = (Inr (), km')"
    by (rule receive_key_exchange_ok)
  have "exchange_signed_data ?y = exchange_signed_data x"
    using assms(2) by (simp add: exchange_signed_data_def build_key_exchange_signed_data_def as_bytes_def)
  then have "verify_key_exchange_signature lib km ?y = Inr ()"
    using r(1) by (simp add: verify_key_exchange_signature_ok)
  moreover have "decrypt_exchanged_key km ?y = Inr key"
    using r(3) by (cases "hm_get (peer_keys km) (kx_sender_hash x)") (simp_all add: decrypt_exchanged_key_def)
  moreover have "from_wire_str (kx_protocol x) = PP_FancyV1FullArchive"
    using r(6) by (cases "from_wire_str (kx_protocol x)") (simp_all add: store_exchanged_key_def)
  ultimately show ?thesis
    using r(2-5) by (intro exI [of _ key] conjI receive_key_exchange_intro [where key = key])
      (simp_all add: store_exchanged_key_def)
qed

theorem spliced_exchange_overwrites_key_witness:
  "receive_key_exchange demo_crypto 0 2000
     (demo_exchange\<lparr>kx_recipient_hash := kx_recipient_hash demo_exchange @ ''r'', kx_request_id := None\<rparr>)
     None demo_bob =
   (Inr (), demo_bob\<lparr>archive_keys :=
      hm_insert (kx_channel_id demo_exchange) (\<lparr>ck_key = replicate 32 9\<rparr>, Unverified) (archive_keys demo_bob)\<rparr>)"
  using spliced_exchange_overwrites_key [OF demo_bob_receives, of "''r''"] demo_bob_decrypts
  by (simp add: demo_exchange_def)

text \<open>The custodian of a channel whose list the user confirmed is trusted.\<close>

lemma demo_pinned_reachable:
  "key_reachable demo_crypto (seed_identity demo_crypto (demo_seed 2)) {1}
     (confirm_custodian_list 1 (snd (update_custodian_pin 1 [''carol''] demo_bob)))"
proof -
  have "key_step demo_crypto None demo_bob (snd (update_custodian_pin 1 [''carol''] demo_bob))"
    by (rule key_step.pin [OF prod.collapse [symmetric]])
  from key_reachable.more [OF key_reachable.more [OF demo_bob_reachable this] key_step.confirm [of _ 1]]
  show ?thesis by simp
qed

theorem custodian_trust_needs_user_witness:
  "is_trusted_authority (confirm_custodian_list 1 (snd (update_custodian_pin 1 [''carol''] demo_bob)))
     ''carol'' 1 [''carol''] \<and>
   (get_channel_originator (confirm_custodian_list 1 (snd (update_custodian_pin 1 [''carol''] demo_bob))) 1
      = Some ''carol'' \<or> (1 :: u32) \<in> {1})"
proof -
  have "is_trusted_authority (confirm_custodian_list 1 (snd (update_custodian_pin 1 [''carol''] demo_bob)))
     ''carol'' 1 [''carol'']"
    by (simp add: is_trusted_authority_def confirm_custodian_list_def update_custodian_pin_def
        demo_bob_fields first_observation_def hm_get_mut_def Let_def)
  with custodian_trust_needs_user [OF demo_pinned_reachable this] show ?thesis by blast
qed

definition epoch_candidates :: "'br KeyManager \<Rightarrow> u32 \<Rightarrow> u32 \<Rightarrow> EpochCandidate list" where
  "epoch_candidates km ch e =
     (case hm_get (pending_epoch_candidates km) (ch, e) of Some cs \<Rightarrow> cs | None \<Rightarrow> [])"

definition stored_epoch_key :: "'br KeyManager \<Rightarrow> u32 \<Rightarrow> u32 \<Rightarrow> (EpochKey \<times> KeyTrustLevel) option" where
  "stored_epoch_key km ch e = Option.bind (hm_get (epoch_keys km) ch) (\<lambda>m. hm_get m e)"

definition extends_epoch :: "bytes option \<Rightarrow> EpochCandidate \<Rightarrow> bool" where
  "extends_epoch fp c \<longleftrightarrow> (case fp of Some f \<Rightarrow> ec_parent_fingerprint c = f | None \<Rightarrow> True)"

lemma current_epoch_fingerprint_pending [simp]:
  "current_epoch_fingerprint lib (pending_epoch_candidates_update f km) ch =
   current_epoch_fingerprint lib km ch"
  by (simp add: current_epoch_fingerprint_def)

lemma resolve_epoch_fork_winner:
  assumes "min_by (\<lambda>c. lower (ec_sender_hash c))
      (filter (extends_epoch (current_epoch_fingerprint lib km ch)) (epoch_candidates km ch e)) = Some w"
  shows "fst (resolve_epoch_fork lib lower ch e km) = Inr (Some (ec_sender_hash w))"
    "stored_epoch_key (snd (resolve_epoch_fork lib lower ch e km)) ch e = Some (ec_epoch_key w, Unverified)"
proof -
  let ?v = "filter (extends_epoch (current_epoch_fingerprint lib km ch)) (epoch_candidates km ch e)"
  have ne: "?v \<noteq> []" using assms by auto
  then have "epoch_candidates km ch e \<noteq> []" by auto
  with ne [unfolded extends_epoch_def [abs_def]] assms [unfolded extends_epoch_def [abs_def]]
  show "fst (resolve_epoch_fork lib lower ch e km) = Inr (Some (ec_sender_hash w))"
      "stored_epoch_key (snd (resolve_epoch_fork lib lower ch e km)) ch e = Some (ec_epoch_key w, Unverified)"
    unfolding resolve_epoch_fork_def Let_def
    by (simp_all add: epoch_candidates_def [symmetric] stored_epoch_key_def)
qed

lemma min_by_set_eq:
  assumes "set xs = set ys" "inj_on f (set xs)"
  shows "min_by f xs = min_by f ys"
proof (cases xs)
  case Nil
  with assms(1) show ?thesis by simp
next
  case (Cons x xs')
  with assms(1) obtain m n where m: "min_by f xs = Some m" and n: "min_by f ys = Some n"
    by (cases ys) auto
  have "f m \<le> f n" "f n \<le> f m"
    using min_by_Some [OF m] min_by_Some [OF n] assms(1) by auto
  with assms min_by_Some(1) [OF m] min_by_Some(1) [OF n] have "m = n" by (auto dest: inj_onD)
  with m n show ?thesis by simp
qed

text \<open>All clients resolve an epoch fork alike. Two managers that know the same candidates, in any
  order, and the same current epoch key, choose the same winner and store the same epoch key; the winner
  has the least certificate hash, ignoring case, among the candidates that extend the current epoch.\<close>

theorem epoch_forks_resolve_alike:
  fixes km km' :: "'b KeyManager"
  assumes same: "set (epoch_candidates km ch e) = set (epoch_candidates km' ch e)"
      "current_epoch_fingerprint lib km ch = current_epoch_fingerprint lib km' ch"
    and inj: "inj_on (\<lambda>c. lower (ec_sender_hash c)) (set (epoch_candidates km ch e))"
    and some: "c \<in> set (epoch_candidates km ch e)" "extends_epoch (current_epoch_fingerprint lib km ch) c"
  shows "\<exists>w \<in> set (epoch_candidates km ch e).
     (\<forall>c \<in> set (epoch_candidates km ch e). extends_epoch (current_epoch_fingerprint lib km ch) c \<longrightarrow>
        lower (ec_sender_hash w) \<le> lower (ec_sender_hash c)) \<and>
     fst (resolve_epoch_fork lib lower ch e km) = Inr (Some (ec_sender_hash w)) \<and>
     fst (resolve_epoch_fork lib lower ch e km') = Inr (Some (ec_sender_hash w)) \<and>
     stored_epoch_key (snd (resolve_epoch_fork lib lower ch e km)) ch e = Some (ec_epoch_key w, Unverified) \<and>
     stored_epoch_key (snd (resolve_epoch_fork lib lower ch e km')) ch e = Some (ec_epoch_key w, Unverified)"
proof -
  let ?f = "\<lambda>c. lower (ec_sender_hash c)"
  let ?v = "\<lambda>km :: 'b KeyManager. filter (extends_epoch (current_epoch_fingerprint lib km ch)) (epoch_candidates km ch e)"
  have "?v km \<noteq> []" using some by (auto simp: filter_empty_conv)
  then obtain w where w: "min_by ?f (?v km) = Some w" by (cases "?v km") auto
  have "inj_on ?f (set (?v km))" by (rule inj_on_subset [OF inj]) auto
  then have w': "min_by ?f (?v km') = Some w"
    using min_by_set_eq [of "?v km" "?v km'" ?f] w same by simp
  have "w \<in> set (epoch_candidates km ch e)" using min_by_Some(1) [OF w] by simp
  moreover have "\<forall>c \<in> set (epoch_candidates km ch e).
      extends_epoch (current_epoch_fingerprint lib km ch) c \<longrightarrow> ?f w \<le> ?f c"
    using min_by_Some(2) [OF w] by simp
  ultimately show ?thesis
    using resolve_epoch_fork_winner [OF w] resolve_epoch_fork_winner [OF w'] by blast
qed

definition demo_candidate :: "string \<Rightarrow> u8 \<Rightarrow> EpochCandidate" where
  "demo_candidate h n = \<lparr>ec_sender_hash = h, ec_epoch_key = EpochKey_new (replicate 32 n),
     ec_parent_fingerprint = replicate 8 0, ec_epoch_fingerprint = replicate 8 n, ec_received_at = 0\<rparr>"

theorem epoch_forks_resolve_alike_witness:
  "fst (resolve_epoch_fork demo_crypto id 1 2 ((demo_manager 1)\<lparr>pending_epoch_candidates :=
      [((1, 2), [demo_candidate ''b'' 1, demo_candidate ''a'' 2])]\<rparr>)) =
   fst (resolve_epoch_fork demo_crypto id 1 2 ((demo_manager 2)\<lparr>pending_epoch_candidates :=
      [((1, 2), [demo_candidate ''a'' 2, demo_candidate ''b'' 1])]\<rparr>))"
proof -
  let ?k1 = "(demo_manager 1)\<lparr>pending_epoch_candidates := [((1, 2), [demo_candidate ''b'' 1, demo_candidate ''a'' 2])]\<rparr>"
  let ?k2 = "(demo_manager 2)\<lparr>pending_epoch_candidates := [((1, 2), [demo_candidate ''a'' 2, demo_candidate ''b'' 1])]\<rparr>"
  have c: "epoch_candidates ?k1 1 2 = [demo_candidate ''b'' 1, demo_candidate ''a'' 2]"
      "epoch_candidates ?k2 1 2 = [demo_candidate ''a'' 2, demo_candidate ''b'' 1]"
    by (simp_all add: epoch_candidates_def)
  have fp: "current_epoch_fingerprint demo_crypto ?k1 1 = None" "current_epoch_fingerprint demo_crypto ?k2 1 = None"
    by (simp_all add: current_epoch_fingerprint_def demo_manager_def KeyManager_new_def with_suite_def)
  have inj: "inj_on (\<lambda>c. id (ec_sender_hash c)) (set (epoch_candidates ?k1 1 2))"
    unfolding c by (simp add: demo_candidate_def)
  have same: "set (epoch_candidates ?k1 1 2) = set (epoch_candidates ?k2 1 2)"
      "current_epoch_fingerprint demo_crypto ?k1 1 = current_epoch_fingerprint demo_crypto ?k2 1"
    unfolding c fp by auto
  have some: "demo_candidate ''a'' 2 \<in> set (epoch_candidates ?k1 1 2)"
      "extends_epoch (current_epoch_fingerprint demo_crypto ?k1 1) (demo_candidate ''a'' 2)"
    unfolding c fp by (simp_all add: extends_epoch_def)
  from epoch_forks_resolve_alike [OF same inj some] show ?thesis by (elim bexE conjE) (simp only:)
qed

end
