(* ===== verification/Audio_Stages.thy ===== *)
theory Audio_Stages
  imports Prelude
begin

text \<open>
  The stages of the audio pipelines (src/crates/mumble-protocol/src/audio): PCM frames (sample.rs),
  the Opus encoder and decoder (encoder.rs, decoder.rs), the silent capture and the null playback
  (capture.rs, playback.rs), the filter chain (filter/mod.rs) and the crossfade at frame boundaries.

  A sample is the bit pattern of its IEEE single; \<open>f32_ops\<close> are the arithmetic operations of the
  target. The library libopus is the record \<open>opus_lib\<close> on the states of its decoders and encoders.
  A byte buffer is read as little-endian samples, as on the supported targets. \<open>None\<close> is a panic.
\<close>

section \<open>Frames\<close>

datatype SampleFormat = SF_I16 | SF_F32

fun byte_width :: "SampleFormat \<Rightarrow> nat" where
  "byte_width SF_I16 = 2"
| "byte_width SF_F32 = 4"

record AudioFormat =
  sample_rate :: u32
  channels :: u16
  sample_format :: SampleFormat

definition MONO_48KHZ_F32 :: AudioFormat where
  "MONO_48KHZ_F32 = \<lparr>sample_rate = 48000, channels = 1, sample_format = SF_F32\<rparr>"

definition MONO_48KHZ_I16 :: AudioFormat where
  "MONO_48KHZ_I16 = \<lparr>sample_rate = 48000, channels = 1, sample_format = SF_I16\<rparr>"

record AudioFrame =
  fr_data :: bytes
  fr_format :: AudioFormat
  fr_sequence :: u64
  fr_is_silent :: bool

definition sample_count :: "AudioFrame \<Rightarrow> nat option" where
  "sample_count f =
     (let bytes_per_sample = (case sample_format (fr_format f) of SF_I16 \<Rightarrow> 2 | SF_F32 \<Rightarrow> 4);
          d = bytes_per_sample * unat (channels (fr_format f))
      in if d = 0 then None else Some (length (fr_data f) div d))"

text \<open>Samples in memory: \<^verbatim>\<open>to_ne_bytes\<close> and the reinterpretation of a byte slice.\<close>

definition sample_bytes :: "f32 \<Rightarrow> bytes" where
  "sample_bytes s = rev (be32 s)"

definition samples_bytes :: "f32 list \<Rightarrow> bytes" where
  "samples_bytes ss = concat (map sample_bytes ss)"

fun cast_samples :: "bytes \<Rightarrow> f32 list" where
  "cast_samples (a # b # c # d # rest) = from_be32 d c b a # cast_samples rest"
| "cast_samples _ = []"

definition as_f32_samples :: "AudioFrame \<Rightarrow> f32 list option" where
  "as_f32_samples f =
     (if sample_format (fr_format f) \<noteq> SF_F32 \<or> length (fr_data f) mod 4 \<noteq> 0 then None
      else Some (cast_samples (fr_data f)))"

text \<open>Writing through \<^verbatim>\<open>as_f32_samples_mut\<close>.\<close>

definition set_f32_samples :: "f32 list \<Rightarrow> AudioFrame \<Rightarrow> AudioFrame" where
  "set_f32_samples ss f = f\<lparr>fr_data := samples_bytes ss\<rparr>"

lemma sample_bytes_eq: "sample_bytes s = [ucast s, byte_of 8 s, byte_of 16 s, byte_of 24 s]"
  by (simp add: sample_bytes_def be32_def)

lemma length_samples_bytes [simp]: "length (samples_bytes ss) = 4 * length ss"
  by (induction ss) (simp_all add: samples_bytes_def sample_bytes_def)

lemma cast_samples_bytes [simp]: "cast_samples (samples_bytes ss) = ss"
proof (induction ss)
  case (Cons s ss)
  have "samples_bytes (s # ss) = ucast s # byte_of 8 s # byte_of 16 s # byte_of 24 s # samples_bytes ss"
    by (simp add: samples_bytes_def sample_bytes_eq)
  with Cons show ?case by simp
qed (simp add: samples_bytes_def)

lemma length_cast_samples: "length (cast_samples bs) = length bs div 4"
  by (induction bs rule: cast_samples.induct) simp_all

text \<open>Frames of single-precision samples.\<close>

definition frame_ok :: "AudioFrame \<Rightarrow> bool" where
  "frame_ok frame \<longleftrightarrow> sample_format (fr_format frame) = SF_F32 \<and> length (fr_data frame) mod 4 = 0"

lemma frame_ok_samples: "frame_ok frame \<Longrightarrow> as_f32_samples frame = Some (cast_samples (fr_data frame))"
  by (simp add: frame_ok_def as_f32_samples_def)

lemma as_f32_set [simp]:
  "sample_format (fr_format frame) = SF_F32 \<Longrightarrow> as_f32_samples (set_f32_samples ss frame) = Some ss"
  by (simp add: as_f32_samples_def set_f32_samples_def)

text \<open>What a filter must leave unchanged of a frame.\<close>

definition same_shape :: "AudioFrame \<Rightarrow> AudioFrame \<Rightarrow> bool" where
  "same_shape frame frame' \<longleftrightarrow> fr_format frame' = fr_format frame \<and> fr_sequence frame' = fr_sequence frame \<and>
     length (fr_data frame') = length (fr_data frame)"

lemma same_shape_ok: "same_shape frame frame' \<Longrightarrow> frame_ok frame' = frame_ok frame"
  by (simp add: same_shape_def frame_ok_def)

lemma same_shape_refl [simp]: "same_shape frame frame"
  by (simp add: same_shape_def)

lemma same_shape_trans: "same_shape a b \<Longrightarrow> same_shape b c \<Longrightarrow> same_shape a c"
  by (simp add: same_shape_def)

lemma same_shape_set:
  "frame_ok frame \<Longrightarrow> length ss = length (cast_samples (fr_data frame)) \<Longrightarrow>
   same_shape frame (set_f32_samples ss frame)"
  by (auto simp: same_shape_def frame_ok_def set_f32_samples_def length_cast_samples dvd_eq_mod_eq_0 [symmetric])

lemma same_shape_silent [simp]: "same_shape frame (frame'\<lparr>fr_is_silent := b\<rparr>) = same_shape frame frame'"
  by (simp add: same_shape_def)

section \<open>Arithmetic on samples\<close>

record f32_ops =
  f_add :: "f32 \<Rightarrow> f32 \<Rightarrow> f32"
  f_sub :: "f32 \<Rightarrow> f32 \<Rightarrow> f32"
  f_mul :: "f32 \<Rightarrow> f32 \<Rightarrow> f32"
  f_div :: "f32 \<Rightarrow> f32 \<Rightarrow> f32"
  f_abs :: "f32 \<Rightarrow> f32"
  f_cos :: "f32 \<Rightarrow> f32"
  f_sin :: "f32 \<Rightarrow> f32"
  f_sqrt :: "f32 \<Rightarrow> f32"
  f_tanh :: "f32 \<Rightarrow> f32"
  f_signum :: "f32 \<Rightarrow> f32"
  f_lt :: "f32 \<Rightarrow> f32 \<Rightarrow> bool"
  f_le :: "f32 \<Rightarrow> f32 \<Rightarrow> bool"
  f_eq :: "f32 \<Rightarrow> f32 \<Rightarrow> bool"
  f_of_nat :: "nat \<Rightarrow> f32"

abbreviation f_gt :: "f32_ops \<Rightarrow> f32 \<Rightarrow> f32 \<Rightarrow> bool" where
  "f_gt fo x y \<equiv> f_lt fo y x"

abbreviation f_ge :: "f32_ops \<Rightarrow> f32 \<Rightarrow> f32 \<Rightarrow> bool" where
  "f_ge fo x y \<equiv> f_le fo y x"

text \<open>\<^verbatim>\<open>f32::clamp\<close> asserts that its bounds are ordered.\<close>

definition f_clamp :: "f32_ops \<Rightarrow> f32 \<Rightarrow> f32 \<Rightarrow> f32 \<Rightarrow> f32 option" where
  "f_clamp fo x lo hi =
     (if f_le fo lo hi
      then let x = (if f_lt fo x lo then lo else x) in Some (if f_lt fo hi x then hi else x)
      else None)"

text \<open>The literals 0.0, 0.5, 1.0, \<^verbatim>\<open>std::f32::consts::PI\<close> and 0.002.\<close>

definition F_ZERO :: f32 where "F_ZERO = 0"
definition F_HALF :: f32 where "F_HALF = 0x3F000000"
definition F_ONE :: f32 where "F_ONE = 0x3F800000"
definition F_PI :: f32 where "F_PI = 0x40490FDB"
definition F_CLICK :: f32 where "F_CLICK = 0x3B03126F"

definition CROSSFADE_LEN :: nat where
  "CROSSFADE_LEN = 24"

text \<open>The loop over the first \<open>n\<close> samples with their index.\<close>

definition map_prefix :: "nat \<Rightarrow> (nat \<Rightarrow> 'a \<Rightarrow> 'a) \<Rightarrow> 'a list \<Rightarrow> 'a list" where
  "map_prefix n f xs = map (\<lambda>(i, x). f i x) (zip [0..<min n (length xs)] (take n xs)) @ drop n xs"

definition apply_crossfade_correction :: "f32_ops \<Rightarrow> f32 list \<Rightarrow> f32 \<Rightarrow> nat \<Rightarrow> f32 list" where
  "apply_crossfade_correction fo samples correction cf_len =
     map_prefix cf_len (\<lambda>i sample.
       let t = f_div fo (f_of_nat fo i) (f_of_nat fo cf_len);
           decay = f_mul fo F_HALF (f_add fo F_ONE (f_cos fo (f_mul fo F_PI t)))
       in f_add fo sample (f_mul fo correction decay)) samples"

lemma length_map_prefix [simp]: "length (map_prefix n f xs) = length xs"
  by (simp add: map_prefix_def)

lemma length_crossfade [simp]: "length (apply_crossfade_correction fo ss c n) = length ss"
  by (simp add: apply_crossfade_correction_def)

section \<open>The Opus decoder\<close>

record EncodedPacket =
  ep_data :: bytes
  ep_sequence :: u64
  ep_frame_samples :: u32

datatype OpusApplication = Voip | AudioApp | LowDelay

datatype opus_setting =
  SetBitrate i32
| SetVbr bool
| SetComplexity i32
| SetInbandFec bool
| SetPacketLossPerc i32
| SetDtx bool

text \<open>The calls into libopus. Decoding and encoding write into a buffer and return a count.\<close>

record ('d, 'e) opus_lib =
  dec_new :: "u32 \<Rightarrow> nat \<Rightarrow> string + 'd"
  dec_decode :: "bytes \<Rightarrow> f32 list \<Rightarrow> 'd \<Rightarrow> (string + nat) \<times> f32 list \<times> 'd"
  enc_new :: "u32 \<Rightarrow> nat \<Rightarrow> OpusApplication \<Rightarrow> string + 'e"
  enc_set :: "opus_setting \<Rightarrow> 'e \<Rightarrow> (string + unit) \<times> 'e"
  enc_encode :: "f32 list \<Rightarrow> bytes \<Rightarrow> 'e \<Rightarrow> (string + nat) \<times> bytes \<times> 'e"

text \<open>The documented contract: the buffer keeps its length and the count stays inside it; a decoder for
  \<open>n\<close> channels returns the samples per channel.\<close>

definition opus_dec_ok :: "('d, 'e) opus_lib \<Rightarrow> nat \<Rightarrow> bool" where
  "opus_dec_ok op n \<longleftrightarrow>
     (\<forall>data buf d r buf' d'. dec_decode op data buf d = (r, buf', d') \<longrightarrow>
        length buf' = length buf \<and> (\<forall>k. r = Inr k \<longrightarrow> k * n \<le> length buf))"

record 'd OpusDecoder =
  od_format :: AudioFormat
  od_inner :: 'd
  od_out_buf :: "f32 list"
  od_frame_size :: nat

definition OpusDecoder_new :: "('d, 'e) opus_lib \<Rightarrow> AudioFormat \<Rightarrow> 'd OpusDecoder result" where
  "OpusDecoder_new op format =
     (if channels format \<noteq> 1 \<and> channels format \<noteq> 2
      then Inl (InvalidState (''Opus only supports 1 or 2 channels, got '' @ show_nat (unat (channels format))))
      else case dec_new op (sample_rate format) (unat (channels format)) of
             Inl e \<Rightarrow> Inl (OpusCodec e)
           | Inr inner \<Rightarrow>
               Inr \<lparr>od_format = format, od_inner = inner,
                 od_out_buf = replicate (unat (sample_rate format) div 1000 * 120 * unat (channels format)) F_ZERO,
                 od_frame_size = unat (sample_rate format) div 1000 * 10\<rparr>)"

definition OpusDecoder_decode ::
    "('d, 'e) opus_lib \<Rightarrow> EncodedPacket \<Rightarrow> 'd OpusDecoder \<Rightarrow> (AudioFrame result \<times> 'd OpusDecoder) option" where
  "OpusDecoder_decode op packet dec =
     (case dec_decode op (ep_data packet) (od_out_buf dec) (od_inner dec) of
        (Inl e, buf, d) \<Rightarrow> Some (Inl (OpusCodec e), dec\<lparr>od_inner := d, od_out_buf := buf\<rparr>)
      | (Inr decoded_samples, buf, d) \<Rightarrow>
          let total_samples = decoded_samples * unat (channels (od_format dec))
          in if total_samples > length buf then None
             else Some (Inr \<lparr>fr_data = samples_bytes (take total_samples buf), fr_format = od_format dec,
                    fr_sequence = ep_sequence packet, fr_is_silent = False\<rparr>,
                  dec\<lparr>od_inner := d, od_out_buf := buf\<rparr>))"

definition OpusDecoder_decode_lost ::
    "('d, 'e) opus_lib \<Rightarrow> 'd OpusDecoder \<Rightarrow> (AudioFrame result \<times> 'd OpusDecoder) option" where
  "OpusDecoder_decode_lost op dec =
     (let needed = od_frame_size dec * unat (channels (od_format dec));
          out_buf = od_out_buf dec @ replicate (needed - length (od_out_buf dec)) F_ZERO
      in case dec_decode op [] (take needed out_buf) (od_inner dec) of
           (Inl e, buf, d) \<Rightarrow>
             Some (Inl (OpusCodec e), dec\<lparr>od_inner := d, od_out_buf := buf @ drop needed out_buf\<rparr>)
         | (Inr decoded_samples, buf, d) \<Rightarrow>
             let total_samples = decoded_samples * unat (channels (od_format dec));
                 out_buf' = buf @ drop needed out_buf
             in if total_samples > length out_buf' then None
                else Some (Inr \<lparr>fr_data = samples_bytes (take total_samples out_buf'),
                       fr_format = od_format dec, fr_sequence = 0, fr_is_silent = False\<rparr>,
                     dec\<lparr>od_inner := d, od_out_buf := out_buf'\<rparr>))"

definition OpusDecoder_reset :: "('d, 'e) opus_lib \<Rightarrow> 'd OpusDecoder \<Rightarrow> 'd OpusDecoder" where
  "OpusDecoder_reset op dec =
     (case dec_new op (sample_rate (od_format dec)) (if channels (od_format dec) = 1 then 1 else 2) of
        Inr fresh \<Rightarrow> dec\<lparr>od_inner := fresh\<rparr>
      | Inl e \<Rightarrow> dec)"

section \<open>The Opus encoder\<close>

record OpusEncoderConfig =
  oc_bitrate :: i32
  oc_frame_size :: nat
  oc_application :: OpusApplication
  oc_vbr :: bool
  oc_complexity :: i32
  oc_fec :: bool
  oc_packet_loss_percent :: i32
  oc_dtx :: bool

definition default_OpusEncoderConfig :: "bool \<Rightarrow> OpusEncoderConfig" where
  "default_OpusEncoderConfig android =
     \<lparr>oc_bitrate = 72000, oc_frame_size = 960, oc_application = (if android then Voip else AudioApp),
      oc_vbr = True, oc_complexity = 8, oc_fec = True, oc_packet_loss_percent = 3, oc_dtx = False\<rparr>"

record 'e OpusEncoder =
  oe_config :: OpusEncoderConfig
  oe_format :: AudioFormat
  oe_inner :: 'e
  oe_out_buf :: bytes
  oe_sequence :: u64

fun enc_settings :: "('d, 'e) opus_lib \<Rightarrow> opus_setting list \<Rightarrow> 'e \<Rightarrow> unit result \<times> 'e" where
  "enc_settings op [] enc = (Inr (), enc)"
| "enc_settings op (s # ss) enc =
     (case enc_set op s enc of
        (Inl e, enc') \<Rightarrow> (Inl (OpusCodec e), enc')
      | (Inr u, enc') \<Rightarrow> enc_settings op ss enc')"

definition configure_encoder :: "('d, 'e) opus_lib \<Rightarrow> OpusEncoderConfig \<Rightarrow> 'e \<Rightarrow> unit result \<times> 'e" where
  "configure_encoder op config enc =
     enc_settings op
       [SetBitrate (oc_bitrate config), SetVbr (oc_vbr config), SetComplexity (oc_complexity config),
        SetInbandFec (oc_fec config), SetPacketLossPerc (oc_packet_loss_percent config),
        SetDtx (oc_dtx config)] enc"

definition OpusEncoder_new ::
    "('d, 'e) opus_lib \<Rightarrow> OpusEncoderConfig \<Rightarrow> AudioFormat \<Rightarrow> 'e OpusEncoder result" where
  "OpusEncoder_new op config format =
     (if channels format \<noteq> 1 \<and> channels format \<noteq> 2
      then Inl (InvalidState (''Opus only supports 1 or 2 channels, got '' @ show_nat (unat (channels format))))
      else case enc_new op (sample_rate format) (unat (channels format)) (oc_application config) of
             Inl e \<Rightarrow> Inl (OpusCodec e)
           | Inr inner \<Rightarrow>
               (case configure_encoder op config inner of
                  (Inl e, inner') \<Rightarrow> Inl e
                | (Inr u, inner') \<Rightarrow>
                    Inr \<lparr>oe_config = config, oe_format = format, oe_inner = inner',
                         oe_out_buf = replicate 4000 0, oe_sequence = 0\<rparr>))"

definition OpusEncoder_encode ::
    "('d, 'e) opus_lib \<Rightarrow> AudioFrame \<Rightarrow> 'e OpusEncoder \<Rightarrow> (EncodedPacket result \<times> 'e OpusEncoder) option" where
  "OpusEncoder_encode op frame enc =
     (case as_f32_samples frame of
        None \<Rightarrow> None
      | Some samples \<Rightarrow>
          (case enc_encode op samples (oe_out_buf enc) (oe_inner enc) of
             (Inl e, buf, inner) \<Rightarrow> Some (Inl (OpusCodec e), enc\<lparr>oe_inner := inner, oe_out_buf := buf\<rparr>)
           | (Inr written, buf, inner) \<Rightarrow>
               if written > length buf then None
               else Some (Inr \<lparr>ep_data = take written buf, ep_sequence = oe_sequence enc,
                      ep_frame_samples = of_nat (oc_frame_size (oe_config enc))\<rparr>,
                    enc\<lparr>oe_inner := inner, oe_out_buf := buf, oe_sequence := oe_sequence enc + 1\<rparr>)))"

definition OpusEncoder_reset :: "('d, 'e) opus_lib \<Rightarrow> 'e OpusEncoder \<Rightarrow> 'e OpusEncoder" where
  "OpusEncoder_reset op enc =
     (let enc = enc\<lparr>oe_sequence := 0\<rparr>
      in case enc_new op (sample_rate (oe_format enc)) (if channels (oe_format enc) = 1 then 1 else 2)
                (oc_application (oe_config enc)) of
           Inr fresh \<Rightarrow> enc\<lparr>oe_inner := snd (configure_encoder op (oe_config enc) fresh)\<rparr>
         | Inl e \<Rightarrow> enc)"

section \<open>Capture, playback and filters\<close>

record 'c AudioCapture =
  read_frame :: "'c \<Rightarrow> AudioFrame result \<times> 'c"
  capture_start :: "'c \<Rightarrow> unit result \<times> 'c"
  capture_stop :: "'c \<Rightarrow> unit result \<times> 'c"

record SilentCapture =
  sc_format :: AudioFormat
  sc_frame_size :: nat
  sc_sequence :: u64

definition SilentCapture_new :: "AudioFormat \<Rightarrow> nat \<Rightarrow> SilentCapture" where
  "SilentCapture_new format frame_size_samples =
     \<lparr>sc_format = format, sc_frame_size = frame_size_samples, sc_sequence = 0\<rparr>"

definition SilentCapture_read_frame :: "SilentCapture \<Rightarrow> AudioFrame result \<times> SilentCapture" where
  "SilentCapture_read_frame c =
     (let bytes_per_sample = (case sample_format (sc_format c) of SF_I16 \<Rightarrow> 2 | SF_F32 \<Rightarrow> 4);
          total_bytes = sc_frame_size c * unat (channels (sc_format c)) * bytes_per_sample
      in (Inr \<lparr>fr_data = replicate total_bytes 0, fr_format = sc_format c, fr_sequence = sc_sequence c,
              fr_is_silent = False\<rparr>,
          c\<lparr>sc_sequence := sc_sequence c + 1\<rparr>))"

definition silent_capture :: "SilentCapture AudioCapture" where
  "silent_capture =
     \<lparr>read_frame = SilentCapture_read_frame, capture_start = (\<lambda>c. (Inr (), c)),
      capture_stop = (\<lambda>c. (Inr (), c))\<rparr>"

record 'p AudioPlayback =
  write_frame :: "AudioFrame \<Rightarrow> 'p \<Rightarrow> unit result \<times> 'p"
  playback_start :: "'p \<Rightarrow> unit result \<times> 'p"
  playback_stop :: "'p \<Rightarrow> unit result \<times> 'p"

definition null_playback :: "AudioFormat AudioPlayback" where
  "null_playback =
     \<lparr>write_frame = (\<lambda>frame p. (Inr (), p)), playback_start = (\<lambda>p. (Inr (), p)),
      playback_stop = (\<lambda>p. (Inr (), p))\<rparr>"

text \<open>The operations of the trait \<^verbatim>\<open>AudioFilter\<close> on filter states of type \<open>'f\<close>;
  \<open>None\<close> is a panic.\<close>

record 'f AudioFilter =
  filter_process :: "AudioFrame \<Rightarrow> 'f \<Rightarrow> (unit result \<times> AudioFrame \<times> 'f) option"
  filter_reset :: "'f \<Rightarrow> 'f"
  filter_is_enabled :: "'f \<Rightarrow> bool"
  filter_set_enabled :: "bool \<Rightarrow> 'f \<Rightarrow> 'f"

type_synonym 'f FilterChain = "('f AudioFilter \<times> 'f) list"

definition FilterChain_push :: "'f AudioFilter \<Rightarrow> 'f \<Rightarrow> 'f FilterChain \<Rightarrow> 'f FilterChain" where
  "FilterChain_push ops f chain = chain @ [(ops, f)]"

fun FilterChain_process ::
    "'f FilterChain \<Rightarrow> AudioFrame \<Rightarrow> (unit result \<times> AudioFrame \<times> 'f FilterChain) option" where
  "FilterChain_process [] frame = Some (Inr (), frame, [])"
| "FilterChain_process ((ops, f) # rest) frame =
     (if filter_is_enabled ops f then
        (case filter_process ops frame f of
           None \<Rightarrow> None
         | Some (Inl e, frame', f') \<Rightarrow> Some (Inl e, frame', (ops, f') # rest)
         | Some (Inr u, frame', f') \<Rightarrow>
             map_option (\<lambda>(r, frame'', rest'). (r, frame'', (ops, f') # rest'))
               (FilterChain_process rest frame'))
      else
        map_option (\<lambda>(r, frame', rest'). (r, frame', (ops, f) # rest'))
          (FilterChain_process rest frame))"

definition FilterChain_reset :: "'f FilterChain \<Rightarrow> 'f FilterChain" where
  "FilterChain_reset chain = map (\<lambda>(ops, f). (ops, filter_reset ops f)) chain"

text \<open>A chain is the composition of its enabled filters; in particular chains concatenate.\<close>

lemma FilterChain_process_append:
  "FilterChain_process (xs @ ys) frame =
     (case FilterChain_process xs frame of
        None \<Rightarrow> None
      | Some (Inl e, frame', xs') \<Rightarrow> Some (Inl e, frame', xs' @ ys)
      | Some (Inr u, frame', xs') \<Rightarrow>
          map_option (\<lambda>(r, frame'', ys'). (r, frame'', xs' @ ys')) (FilterChain_process ys frame'))"
proof (induction xs arbitrary: frame)
  case Nil
  show ?case by (simp add: case_prod_beta option.map_id)
next
  case (Cons x xs)
  obtain ops f where "x = (ops, f)" by (cases x)
  with Cons show ?case
    by (auto simp: map_option_case split: option.splits sum.splits)
qed

text \<open>What the decoder promises to the mixer and the pipeline.\<close>

lemma OpusDecoder_decode_ok:
  assumes ok: "opus_dec_ok op (unat (channels (od_format dec)))"
  obtains r dec' where "OpusDecoder_decode op packet dec = Some (r, dec')" "od_format dec' = od_format dec"
    "\<And>frame. r = Inr frame \<Longrightarrow> fr_format frame = od_format dec \<and> length (fr_data frame) mod 4 = 0"
proof -
  obtain r buf d where d: "dec_decode op (ep_data packet) (od_out_buf dec) (od_inner dec) = (r, buf, d)"
    by (metis prod_cases3)
  with ok have "length buf = length (od_out_buf dec)"
      "\<forall>k. r = Inr k \<longrightarrow> k * unat (channels (od_format dec)) \<le> length buf"
    unfolding opus_dec_ok_def by metis+
  with d show thesis
    by (cases r) (auto intro!: that simp: OpusDecoder_decode_def Let_def)
qed

lemma OpusDecoder_decode_lost_ok:
  assumes ok: "opus_dec_ok op (unat (channels (od_format dec)))"
  obtains r dec' where "OpusDecoder_decode_lost op dec = Some (r, dec')" "od_format dec' = od_format dec"
    "\<And>frame. r = Inr frame \<Longrightarrow> fr_format frame = od_format dec \<and> length (fr_data frame) mod 4 = 0"
proof -
  let ?needed = "od_frame_size dec * unat (channels (od_format dec))"
  let ?out = "od_out_buf dec @ replicate (?needed - length (od_out_buf dec)) F_ZERO"
  obtain r buf d where d: "dec_decode op [] (take ?needed ?out) (od_inner dec) = (r, buf, d)"
    by (metis prod_cases3)
  with ok have "length buf = length (take ?needed ?out)"
      "\<forall>k. r = Inr k \<longrightarrow> k * unat (channels (od_format dec)) \<le> length (take ?needed ?out)"
    unfolding opus_dec_ok_def by metis+
  with d show thesis
    by (cases r) (auto intro!: that simp: OpusDecoder_decode_lost_def Let_def)
qed

text \<open>A codec that copies bytes to samples and back, for the examples.\<close>

definition demo_opus :: "(unit, unit) opus_lib" where
  "demo_opus =
     \<lparr>dec_new = (\<lambda>rate n. Inr ()),
      dec_decode = (\<lambda>data buf d.
        if data = [] then (Inl ''corrupt'', buf, ())
        else (Inr (min (length data) (length buf)),
              map ucast (take (length buf) data) @ drop (length data) buf, ())),
      enc_new = (\<lambda>rate n app. Inr ()),
      enc_set = (\<lambda>s e. (Inr (), e)),
      enc_encode = (\<lambda>samples buf e.
        if length samples > length buf then (Inl ''buffer too small'', buf, ())
        else (Inr (length samples), map ucast samples @ drop (length samples) buf, ()))\<rparr>"

lemma demo_opus_ok [simp]: "opus_dec_ok demo_opus (Suc 0)"
  by (auto simp: opus_dec_ok_def demo_opus_def split: if_splits)

definition demo_f32 :: f32_ops where
  "demo_f32 =
     \<lparr>f_add = (+), f_sub = (-), f_mul = (\<lambda>x y. x), f_div = (\<lambda>x y. x), f_abs = (\<lambda>x. x),
      f_cos = (\<lambda>x. x), f_sin = (\<lambda>x. x), f_sqrt = (\<lambda>x. x), f_tanh = (\<lambda>x. x), f_signum = (\<lambda>x. 1),
      f_lt = (\<lambda>x y. x < y), f_le = (\<lambda>x y. x \<le> y), f_eq = (\<lambda>x y. x = y), f_of_nat = of_nat\<rparr>"

end
