(* ===== verification/Audio_Mixer.thy ===== *)
theory Audio_Mixer
  imports Audio_Stages
begin

text \<open>
  The per-speaker mixer (src/crates/mumble-protocol/src/audio/mixer.rs): one Opus decoder per remote
  speaker, gap detection on the sequence numbers, and bounded sample buffers that the playback
  callback drains. The shared buffers are a field of the mixer; the playback is the step \<open>drain\<close>.
  A lock is never poisoned. Instants are milliseconds.
\<close>

section \<open>State\<close>

definition SPEAKER_TIMEOUT_SECS :: nat where
  "SPEAKER_TIMEOUT_SECS = 30"

definition MAX_SPEAKER_BUFFER_SAMPLES :: nat where
  "MAX_SPEAKER_BUFFER_SAMPLES = 19200"

definition SAMPLES_PER_SEQ_UNIT :: u64 where
  "SAMPLES_PER_SEQ_UNIT = 480"

definition MAX_SILENCE_FILL_UNITS :: u64 where
  "MAX_SILENCE_FILL_UNITS = of_nat MAX_SPEAKER_BUFFER_SAMPLES div SAMPLES_PER_SEQ_UNIT"

type_synonym speaker_buffers = "(u32, f32 list) hash_map"

record 'd SpeakerDecoder =
  sd_decoder :: "'d OpusDecoder"
  sd_last_seq :: "u64 option"
  sd_expected_next_seq :: "u64 option"
  sd_prev_last_sample :: "f32 option"
  sd_needs_fade_in :: bool
  sd_last_activity :: nat

definition SpeakerDecoder_new ::
    "('d, 'e) opus_lib \<Rightarrow> nat \<Rightarrow> AudioFormat \<Rightarrow> 'd SpeakerDecoder result" where
  "SpeakerDecoder_new op instant format =
     and_then (OpusDecoder_new op format) (\<lambda>decoder.
       Inr \<lparr>sd_decoder = decoder, sd_last_seq = None, sd_expected_next_seq = None,
            sd_prev_last_sample = None, sd_needs_fade_in = True, sd_last_activity = instant\<rparr>)"

record 'd AudioMixer =
  mx_speakers :: "(u32, 'd SpeakerDecoder) hash_map"
  mx_buffers :: speaker_buffers
  mx_format :: AudioFormat

definition AudioMixer_new :: "speaker_buffers \<Rightarrow> AudioFormat \<Rightarrow> 'd AudioMixer" where
  "AudioMixer_new buffers format = \<lparr>mx_speakers = [], mx_buffers = buffers, mx_format = format\<rparr>"

section \<open>Gaps and buffers\<close>

definition GAP_TOLERANCE :: u64 where
  "GAP_TOLERANCE = 8"

definition detect_certain_gap :: "u64 option \<Rightarrow> u64 \<Rightarrow> u64" where
  "detect_certain_gap expected incoming =
     (case expected of
        None \<Rightarrow> 0
      | Some expected \<Rightarrow>
          if incoming \<le> expected + GAP_TOLERANCE then 0
          else min (incoming - expected) MAX_SILENCE_FILL_UNITS)"

definition frame_seq_units :: "AudioFrame \<Rightarrow> AudioFormat \<Rightarrow> u64" where
  "frame_seq_units frame format =
     (let bytes_per_sample = of_nat (max (byte_width (sample_format format)) 1) :: u64;
          chans = ucast (max (channels format) 1) :: u64;
          total_samples = of_nat (length (fr_data frame)) div bytes_per_sample div chans
      in max (total_samples div SAMPLES_PER_SEQ_UNIT) 1)"

definition insert_silence :: "u32 \<Rightarrow> u64 \<Rightarrow> AudioFormat \<Rightarrow> speaker_buffers \<Rightarrow> speaker_buffers" where
  "insert_silence session units format bufs =
     (let requested = unat units * unat SAMPLES_PER_SEQ_UNIT * unat (channels format)
      in if requested = 0 then bufs
         else hm_entry_modify session [] (\<lambda>buf.
           let remaining = MAX_SPEAKER_BUFFER_SAMPLES - length buf;
               to_insert = min requested remaining
           in buf @ replicate to_insert F_ZERO) bufs)"

definition push_samples :: "u32 \<Rightarrow> AudioFrame \<Rightarrow> speaker_buffers \<Rightarrow> speaker_buffers option" where
  "push_samples session frame bufs =
     (case as_f32_samples frame of
        None \<Rightarrow> None
      | Some samples \<Rightarrow>
          Some (hm_entry_modify session [] (\<lambda>buf.
            let buf = buf @ samples
            in if length buf > MAX_SPEAKER_BUFFER_SAMPLES
               then drop (length buf - MAX_SPEAKER_BUFFER_SAMPLES) buf else buf) bufs))"

text \<open>The correction at a frame boundary; the result is the frame and the remembered last sample.\<close>

definition mixer_boundary_crossfade ::
    "f32_ops \<Rightarrow> AudioFrame \<Rightarrow> f32 option \<Rightarrow> (AudioFrame \<times> f32 option) option" where
  "mixer_boundary_crossfade fo frame prev_last_sample =
     (if sample_format (fr_format frame) \<noteq> SF_F32 then Some (frame, prev_last_sample)
      else case as_f32_samples frame of
             None \<Rightarrow> None
           | Some samples \<Rightarrow>
               let samples' =
                 (case prev_last_sample of
                    None \<Rightarrow> samples
                  | Some prev_val \<Rightarrow>
                      if samples = [] then samples
                      else
                        let correction = f_sub fo prev_val (hd samples)
                        in if f_gt fo (f_abs fo correction) F_CLICK
                           then apply_crossfade_correction fo samples correction
                                  (min CROSSFADE_LEN (length samples))
                           else samples)
               in Some (set_f32_samples samples' frame,
                        if samples' = [] then None else Some (last samples')))"

definition FADE_LEN :: nat where
  "FADE_LEN = 240"

definition apply_cold_start_fade_in :: "f32_ops \<Rightarrow> AudioFrame \<Rightarrow> AudioFrame option" where
  "apply_cold_start_fade_in fo frame =
     (if sample_format (fr_format frame) \<noteq> SF_F32 then Some frame
      else case as_f32_samples frame of
             None \<Rightarrow> None
           | Some samples \<Rightarrow>
               let n = min FADE_LEN (length samples)
               in Some (set_f32_samples (map_prefix n (\<lambda>i sample.
                    let t = f_div fo (f_of_nat fo i) (f_of_nat fo n);
                        w = f_sub fo F_HALF (f_mul fo F_HALF (f_cos fo (f_mul fo F_PI t)))
                    in f_mul fo sample w) samples) frame))"

section \<open>Operations\<close>

text \<open>The restart check: a sequence number far below the last one drops the decoder.\<close>

definition drop_restarted :: "u32 \<Rightarrow> u64 \<Rightarrow> 'd AudioMixer \<Rightarrow> 'd AudioMixer" where
  "drop_restarted session sequence mx =
     (case hm_get (mx_speakers mx) session of
        Some speaker \<Rightarrow>
          (case sd_last_seq speaker of
             Some prev \<Rightarrow>
               if prev > sequence \<and> prev - sequence > 10
               then mx\<lparr>mx_speakers := hm_remove session (mx_speakers mx)\<rparr> else mx
           | None \<Rightarrow> mx)
      | None \<Rightarrow> mx)"

text \<open>The smoothing of a decoded frame: fade-in of a fresh decoder, crossfade after inserted silence.\<close>

definition smooth_frame :: "f32_ops \<Rightarrow> AudioFrame \<Rightarrow> 'd SpeakerDecoder \<Rightarrow> AudioFrame option" where
  "smooth_frame fo frame speaker =
     (if sd_needs_fade_in speaker then apply_cold_start_fade_in fo frame
      else if sd_prev_last_sample speaker \<noteq> None
      then map_option fst (mixer_boundary_crossfade fo frame (sd_prev_last_sample speaker))
      else Some frame)"

text \<open>The decoder of a speaker, created on its first packet; the packet is noted, and a certain gap is
  filled with silence before the packet is decoded.\<close>

definition speaker_for ::
    "('d, 'e) opus_lib \<Rightarrow> nat \<Rightarrow> u32 \<Rightarrow> 'd AudioMixer \<Rightarrow> 'd SpeakerDecoder result" where
  "speaker_for op instant session mx =
     (case hm_get (mx_speakers mx) session of
        Some speaker \<Rightarrow> Inr speaker
      | None \<Rightarrow> SpeakerDecoder_new op instant (mx_format mx))"

definition note_packet :: "nat \<Rightarrow> u64 \<Rightarrow> u64 \<Rightarrow> 'd SpeakerDecoder \<Rightarrow> 'd SpeakerDecoder" where
  "note_packet instant sequence silence_units speaker =
     (let speaker = speaker\<lparr>sd_last_activity := instant, sd_last_seq := Some sequence\<rparr>
      in if silence_units > 0 then speaker\<lparr>sd_prev_last_sample := Some F_ZERO\<rparr> else speaker)"

definition fill_gap :: "u32 \<Rightarrow> u64 \<Rightarrow> 'd AudioMixer \<Rightarrow> speaker_buffers" where
  "fill_gap session silence_units mx =
     (if silence_units > 0 then insert_silence session silence_units (mx_format mx) (mx_buffers mx)
      else mx_buffers mx)"

definition feed ::
    "('d, 'e) opus_lib \<Rightarrow> f32_ops \<Rightarrow> nat \<Rightarrow> u32 \<Rightarrow> EncodedPacket \<Rightarrow> 'd AudioMixer
      \<Rightarrow> (unit result \<times> 'd AudioMixer) option" where
  "feed op fo instant session packet mx =
     (let mx = drop_restarted session (ep_sequence packet) mx
      in case speaker_for op instant session mx of
           Inl e \<Rightarrow> Some (Inl e, mx)
         | Inr speaker \<Rightarrow>
             let silence_units = detect_certain_gap (sd_expected_next_seq speaker) (ep_sequence packet);
                 buffers = fill_gap session silence_units mx;
                 speaker = note_packet instant (ep_sequence packet) silence_units speaker
             in case OpusDecoder_decode op packet (sd_decoder speaker) of
                  None \<Rightarrow> None
                | Some (Inl e, decoder) \<Rightarrow>
                    Some (Inl e, mx\<lparr>mx_speakers := hm_insert session (speaker\<lparr>sd_decoder := decoder\<rparr>)
                                      (mx_speakers mx),
                                    mx_buffers := buffers\<rparr>)
                | Some (Inr frame, decoder) \<Rightarrow>
                    let consumed_units = frame_seq_units frame (mx_format mx);
                        speaker' = speaker\<lparr>sd_decoder := decoder,
                          sd_expected_next_seq := Some (ep_sequence packet + consumed_units),
                          sd_needs_fade_in := False, sd_prev_last_sample := None\<rparr>
                    in case smooth_frame fo frame speaker of
                         None \<Rightarrow> None
                       | Some frame' \<Rightarrow>
                           (case push_samples session frame' buffers of
                              None \<Rightarrow> None
                            | Some buffers' \<Rightarrow>
                                Some (Inr (), mx\<lparr>mx_speakers := hm_insert session speaker' (mx_speakers mx),
                                                 mx_buffers := buffers'\<rparr>)))"

definition feed_lost ::
    "('d, 'e) opus_lib \<Rightarrow> f32_ops \<Rightarrow> u32 \<Rightarrow> 'd AudioMixer \<Rightarrow> (unit result \<times> 'd AudioMixer) option" where
  "feed_lost op fo session mx =
     (case hm_get (mx_speakers mx) session of
        None \<Rightarrow> Some (Inl (InvalidState ''unknown speaker''), mx)
      | Some speaker \<Rightarrow>
          (case OpusDecoder_decode_lost op (sd_decoder speaker) of
             None \<Rightarrow> None
           | Some (Inl e, decoder) \<Rightarrow>
               Some (Inl e, mx\<lparr>mx_speakers :=
                 hm_insert session (speaker\<lparr>sd_decoder := decoder\<rparr>) (mx_speakers mx)\<rparr>)
           | Some (Inr frame, decoder) \<Rightarrow>
               (case mixer_boundary_crossfade fo frame (sd_prev_last_sample speaker) of
                  None \<Rightarrow> None
                | Some (frame', prev) \<Rightarrow>
                    (case push_samples session frame' (mx_buffers mx) of
                       None \<Rightarrow> None
                     | Some buffers' \<Rightarrow>
                         Some (Inr (), mx\<lparr>mx_speakers := hm_insert session
                             (speaker\<lparr>sd_decoder := decoder, sd_prev_last_sample := prev\<rparr>)
                             (mx_speakers mx), mx_buffers := buffers'\<rparr>)))))"

definition reset_speaker :: "u32 \<Rightarrow> 'd AudioMixer \<Rightarrow> 'd AudioMixer" where
  "reset_speaker session mx = mx\<lparr>mx_speakers := hm_remove session (mx_speakers mx)\<rparr>"

definition stale_speakers :: "nat \<Rightarrow> 'd AudioMixer \<Rightarrow> u32 list" where
  "stale_speakers now mx =
     map fst (filter (\<lambda>(k, s). now - sd_last_activity s > SPEAKER_TIMEOUT_SECS * 1000) (mx_speakers mx))"

definition forget_speaker :: "u32 \<Rightarrow> 'd AudioMixer \<Rightarrow> 'd AudioMixer" where
  "forget_speaker k mx = mx\<lparr>mx_speakers := hm_remove k (mx_speakers mx),
                            mx_buffers := hm_remove k (mx_buffers mx)\<rparr>"

definition remove_inactive_speakers :: "nat \<Rightarrow> 'd AudioMixer \<Rightarrow> 'd AudioMixer" where
  "remove_inactive_speakers now mx = fold forget_speaker (stale_speakers now mx) mx"

definition AudioMixer_reset :: "'d AudioMixer \<Rightarrow> 'd AudioMixer" where
  "AudioMixer_reset mx = mx\<lparr>mx_speakers := [], mx_buffers := []\<rparr>"

section \<open>Lemmas\<close>

text \<open>The newest samples that fit the buffer.\<close>

definition keep_last :: "nat \<Rightarrow> 'a list \<Rightarrow> 'a list" where
  "keep_last n xs = drop (length xs - n) xs"

lemma length_keep_last [simp]: "length (keep_last n xs) = min (length xs) n"
  by (simp add: keep_last_def)

lemma keep_last_id [simp]: "length xs \<le> n \<Longrightarrow> keep_last n xs = xs"
  by (simp add: keep_last_def)

definition buffer_of :: "speaker_buffers \<Rightarrow> u32 \<Rightarrow> f32 list" where
  "buffer_of bufs k = (case hm_get bufs k of Some b \<Rightarrow> b | None \<Rightarrow> [])"

definition silence_samples :: "u64 \<Rightarrow> AudioFormat \<Rightarrow> nat \<Rightarrow> nat" where
  "silence_samples units format len =
     min (unat units * 480 * unat (channels format)) (MAX_SPEAKER_BUFFER_SAMPLES - len)"

lemma buffer_insert_silence:
  "buffer_of (insert_silence session units format bufs) k =
     (if k = session
      then buffer_of bufs k @ replicate (silence_samples units format (length (buffer_of bufs k))) F_ZERO
      else buffer_of bufs k)"
  by (simp add: insert_silence_def buffer_of_def silence_samples_def SAMPLES_PER_SEQ_UNIT_def Let_def
      split: option.splits)

lemma buffer_push_samples:
  assumes "as_f32_samples frame = Some samples"
  obtains bufs' where "push_samples session frame bufs = Some bufs'"
    "\<And>k. buffer_of bufs' k =
       (if k = session then keep_last MAX_SPEAKER_BUFFER_SAMPLES (buffer_of bufs k @ samples) else buffer_of bufs k)"
proof (rule that)
  show "push_samples session frame bufs =
      Some (hm_entry_modify session [] (\<lambda>buf. keep_last MAX_SPEAKER_BUFFER_SAMPLES (buf @ samples)) bufs)"
    using assms
    by (auto simp: push_samples_def keep_last_def Let_def intro!: arg_cong [where f = "\<lambda>f. hm_entry_modify _ _ f _"])
qed (simp add: buffer_of_def split: option.splits)

lemma mixer_crossfade_ok:
  assumes "frame_ok frame"
  obtains ss prev' where "mixer_boundary_crossfade fo frame prev = Some (set_f32_samples ss frame, prev')"
    "length ss = length (cast_samples (fr_data frame))"
proof -
  have "sample_format (fr_format frame) = SF_F32" using assms by (simp add: frame_ok_def)
  then show thesis
    using frame_ok_samples [OF assms]
    by (cases prev) (auto simp: mixer_boundary_crossfade_def Let_def intro!: that)
qed

lemma fade_in_ok:
  assumes "frame_ok frame"
  obtains ss where "apply_cold_start_fade_in fo frame = Some (set_f32_samples ss frame)"
    "length ss = length (cast_samples (fr_data frame))"
proof -
  have "sample_format (fr_format frame) = SF_F32" using assms by (simp add: frame_ok_def)
  then show thesis
    using frame_ok_samples [OF assms] by (auto simp: apply_cold_start_fade_in_def Let_def intro!: that)
qed

text \<open>Smoothing keeps the number of samples, and changes none of a continuous stream.\<close>

lemma smooth_frame_ok:
  assumes "frame_ok frame"
  obtains frame' ss where "smooth_frame fo frame speaker = Some frame'" "as_f32_samples frame' = Some ss"
    "length ss = length (cast_samples (fr_data frame))"
    "\<not> sd_needs_fade_in speaker \<Longrightarrow> sd_prev_last_sample speaker = None \<Longrightarrow> ss = cast_samples (fr_data frame)"
proof -
  have fmt: "sample_format (fr_format frame) = SF_F32" using assms by (simp add: frame_ok_def)
  consider "sd_needs_fade_in speaker" | "\<not> sd_needs_fade_in speaker" "sd_prev_last_sample speaker \<noteq> None"
    | "\<not> sd_needs_fade_in speaker" "sd_prev_last_sample speaker = None" by blast
  then show thesis
  proof cases
    case 1
    with fade_in_ok [OF assms] fmt show thesis
      by (metis smooth_frame_def as_f32_set that)
  next
    case 2
    obtain ss prev' where "mixer_boundary_crossfade fo frame (sd_prev_last_sample speaker) =
        Some (set_f32_samples ss frame, prev')" "length ss = length (cast_samples (fr_data frame))"
      by (rule mixer_crossfade_ok [OF assms])
    with 2 fmt show thesis by (intro that [of "set_f32_samples ss frame" ss]) (auto simp: smooth_frame_def)
  next
    case 3
    with frame_ok_samples [OF assms] show thesis by (intro that) (auto simp: smooth_frame_def)
  qed
qed

section \<open>The invariant\<close>

text \<open>The mixer works on single-precision samples, its decoders have its format, and no buffer exceeds the cap.\<close>

definition mixer_ok :: "'d AudioMixer \<Rightarrow> bool" where
  "mixer_ok mx \<longleftrightarrow>
     sample_format (mx_format mx) = SF_F32 \<and> hm_wf (mx_speakers mx) \<and>
     (\<forall>k s. hm_get (mx_speakers mx) k = Some s \<longrightarrow> od_format (sd_decoder s) = mx_format mx) \<and>
     (\<forall>k. length (buffer_of (mx_buffers mx) k) \<le> MAX_SPEAKER_BUFFER_SAMPLES)"

lemma drop_restarted_ok:
  assumes "mixer_ok mx"
  shows "mixer_ok (drop_restarted session q mx)" "mx_format (drop_restarted session q mx) = mx_format mx"
    "mx_buffers (drop_restarted session q mx) = mx_buffers mx"
    "k \<noteq> session \<Longrightarrow> hm_get (mx_speakers (drop_restarted session q mx)) k = hm_get (mx_speakers mx) k"
  using assms by (auto simp: drop_restarted_def mixer_ok_def split: option.splits)

lemma SpeakerDecoder_new_format:
  "SpeakerDecoder_new op instant format = Inr s \<Longrightarrow> od_format (sd_decoder s) = format"
  by (auto simp: SpeakerDecoder_new_def OpusDecoder_new_def and_then_eq_Inr split: if_splits sum.splits)

lemma length_buffer_silence:
  assumes "\<And>k. length (buffer_of bufs k) \<le> MAX_SPEAKER_BUFFER_SAMPLES"
  shows "length (buffer_of (insert_silence session units format bufs) k) \<le> MAX_SPEAKER_BUFFER_SAMPLES"
  using assms [of k] by (auto simp: buffer_insert_silence silence_samples_def min_def)

lemma speaker_for_format:
  assumes "mixer_ok mx" "speaker_for op instant session mx = Inr sp"
  shows "od_format (sd_decoder sp) = mx_format mx"
  using assms SpeakerDecoder_new_format [of op instant "mx_format mx" sp]
  by (auto simp: speaker_for_def mixer_ok_def split: option.splits)

lemma note_packet_keeps [simp]:
  "sd_decoder (note_packet i q u sp) = sd_decoder sp"
  "sd_expected_next_seq (note_packet i q u sp) = sd_expected_next_seq sp"
  "sd_needs_fade_in (note_packet i q u sp) = sd_needs_fade_in sp"
  "sd_last_seq (note_packet i q u sp) = Some q"
  by (simp_all add: note_packet_def Let_def)

lemma note_packet_prev: "\<not> 0 < u \<Longrightarrow> sd_prev_last_sample (note_packet i q u sp) = sd_prev_last_sample sp"
  by (simp add: note_packet_def Let_def)

lemma buffer_fill_gap:
  "buffer_of (fill_gap session units mx) k =
     (if k = session
      then buffer_of (mx_buffers mx) k @
        replicate (silence_samples units (mx_format mx) (length (buffer_of (mx_buffers mx) k))) F_ZERO
      else buffer_of (mx_buffers mx) k)"
  by (cases "0 < units") (auto simp: fill_gap_def buffer_insert_silence silence_samples_def word_greater_zero_iff)

lemma length_with_silence:
  "n \<le> MAX_SPEAKER_BUFFER_SAMPLES \<Longrightarrow> n + silence_samples units format n \<le> MAX_SPEAKER_BUFFER_SAMPLES"
  unfolding silence_samples_def by linarith

text \<open>The outcomes of a packet: no decoder, a decoding error, or samples in the buffer of its speaker.\<close>

lemma feed_outcome:
  fixes mx :: "'d AudioMixer" and session :: u32 and packet :: EncodedPacket
  assumes ok: "mixer_ok mx" and opus: "opus_dec_ok op (unat (channels (mx_format mx)))"
  defines "mx1 \<equiv> drop_restarted session (ep_sequence packet) mx"
  obtains
    (refused) e where "speaker_for op instant session mx1 = Inl e"
      "feed op fo instant session packet mx = Some (Inl e, mx1)"
  | (failed) sp units e dec where "speaker_for op instant session mx1 = Inr sp"
      "units = detect_certain_gap (sd_expected_next_seq sp) (ep_sequence packet)"
      "OpusDecoder_decode op packet (sd_decoder sp) = Some (Inl e, dec)" "od_format dec = mx_format mx"
      "feed op fo instant session packet mx = Some (Inl e, mx1\<lparr>mx_speakers := hm_insert session
          (note_packet instant (ep_sequence packet) units sp\<lparr>sd_decoder := dec\<rparr>) (mx_speakers mx1),
          mx_buffers := fill_gap session units mx1\<rparr>)"
  | (fed) sp units frame dec ss sp' bufs' where "speaker_for op instant session mx1 = Inr sp"
      "units = detect_certain_gap (sd_expected_next_seq sp) (ep_sequence packet)"
      "OpusDecoder_decode op packet (sd_decoder sp) = Some (Inr frame, dec)"
      "sd_decoder sp' = dec" "od_format dec = mx_format mx"
      "length ss = length (cast_samples (fr_data frame))"
      "units = 0 \<Longrightarrow> \<not> sd_needs_fade_in sp \<Longrightarrow> sd_prev_last_sample sp = None \<Longrightarrow> ss = cast_samples (fr_data frame)"
      "sd_expected_next_seq sp' = Some (ep_sequence packet + frame_seq_units frame (mx_format mx))"
      "\<not> sd_needs_fade_in sp'" "sd_prev_last_sample sp' = None" "sd_last_seq sp' = Some (ep_sequence packet)"
      "\<And>k. buffer_of bufs' k = (if k = session
          then keep_last MAX_SPEAKER_BUFFER_SAMPLES (buffer_of (fill_gap session units mx1) k @ ss)
          else buffer_of (mx_buffers mx) k)"
      "feed op fo instant session packet mx = Some (Inr (),
          mx1\<lparr>mx_speakers := hm_insert session sp' (mx_speakers mx1), mx_buffers := bufs'\<rparr>)"
proof (cases "speaker_for op instant session mx1")
  case (Inl e)
  then show thesis by (intro refused) (simp_all add: feed_def mx1_def [symmetric])
next
  case (Inr sp)
  note mx1 = drop_restarted_ok [OF ok, where session = session and q = "ep_sequence packet", folded mx1_def]
  let ?u = "detect_certain_gap (sd_expected_next_seq sp) (ep_sequence packet)"
  let ?np = "note_packet instant (ep_sequence packet) ?u sp"
  have fmt: "od_format (sd_decoder sp) = mx_format mx"
    using speaker_for_format [OF mx1(1) Inr] mx1(2) by simp
  then have "opus_dec_ok op (unat (channels (od_format (sd_decoder sp))))" using opus by simp
  then obtain r dec where dec: "OpusDecoder_decode op packet (sd_decoder sp) = Some (r, dec)"
      "od_format dec = od_format (sd_decoder sp)"
      "\<And>frame. r = Inr frame \<Longrightarrow>
         fr_format frame = od_format (sd_decoder sp) \<and> length (fr_data frame) mod 4 = 0"
    using OpusDecoder_decode_ok [of op "sd_decoder sp" packet thesis] by blast
  show thesis
  proof (cases r)
    case e: (Inl e)
    show thesis
      by (rule failed [OF Inr refl])
         (use dec e fmt Inr in \<open>simp_all add: feed_def mx1_def [symmetric] Let_def\<close>)
  next
    case f: (Inr frame)
    have frame: "frame_ok frame" using dec(3) [OF f] fmt ok by (simp add: frame_ok_def mixer_ok_def)
    obtain frame' ss where sm: "smooth_frame fo frame ?np = Some frame'" "as_f32_samples frame' = Some ss"
        "length ss = length (cast_samples (fr_data frame))"
        "\<not> sd_needs_fade_in ?np \<Longrightarrow> sd_prev_last_sample ?np = None \<Longrightarrow> ss = cast_samples (fr_data frame)"
      using smooth_frame_ok [OF frame, of fo ?np thesis] by blast
    obtain bufs' where ps: "push_samples session frame' (fill_gap session ?u mx1) = Some bufs'"
        "\<And>k. buffer_of bufs' k = (if k = session
          then keep_last MAX_SPEAKER_BUFFER_SAMPLES (buffer_of (fill_gap session ?u mx1) k @ ss)
          else buffer_of (fill_gap session ?u mx1) k)"
      using buffer_push_samples [OF sm(2), of session "fill_gap session ?u mx1" thesis] by blast
    let ?sp' = "?np\<lparr>sd_decoder := dec,
        sd_expected_next_seq := Some (ep_sequence packet + frame_seq_units frame (mx_format mx)),
        sd_needs_fade_in := False, sd_prev_last_sample := None\<rparr>"
    show thesis
    proof (rule fed [OF Inr refl, where frame = frame and dec = dec and ss = ss and sp' = ?sp' and bufs' = bufs'])
      show "buffer_of bufs' k = (if k = session
          then keep_last MAX_SPEAKER_BUFFER_SAMPLES (buffer_of (fill_gap session ?u mx1) k @ ss)
          else buffer_of (mx_buffers mx) k)" for k
        using ps(2) [of k] by (simp add: buffer_fill_gap mx1(3))
      show "ss = cast_samples (fr_data frame)"
        if "?u = 0" "\<not> sd_needs_fade_in sp" "sd_prev_last_sample sp = None"
        using sm(4) that by (simp add: note_packet_prev)
      show "feed op fo instant session packet mx = Some (Inr (),
          mx1\<lparr>mx_speakers := hm_insert session ?sp' (mx_speakers mx1), mx_buffers := bufs'\<rparr>)"
        using dec(1) f Inr sm(1) ps(1) by (simp add: feed_def mx1_def [symmetric] Let_def mx1(2))
    qed (use dec(1,2) f fmt sm(3) in simp_all)
  qed
qed

text \<open>The concealment frame of a known speaker.\<close>

lemma feed_lost_outcome:
  fixes mx :: "'d AudioMixer" and session :: u32
  assumes ok: "mixer_ok mx" and opus: "opus_dec_ok op (unat (channels (mx_format mx)))"
  obtains
    (unknown) "hm_get (mx_speakers mx) session = None"
      "feed_lost op fo session mx = Some (Inl (InvalidState ''unknown speaker''), mx)"
  | (failed) e sp where "od_format (sd_decoder sp) = mx_format mx"
      "feed_lost op fo session mx = Some (Inl e, mx\<lparr>mx_speakers := hm_insert session sp (mx_speakers mx)\<rparr>)"
  | (concealed) sp ss bufs' where "od_format (sd_decoder sp) = mx_format mx"
      "\<And>k. buffer_of bufs' k = (if k = session
          then keep_last MAX_SPEAKER_BUFFER_SAMPLES (buffer_of (mx_buffers mx) k @ ss) else buffer_of (mx_buffers mx) k)"
      "feed_lost op fo session mx = Some (Inr (),
          mx\<lparr>mx_speakers := hm_insert session sp (mx_speakers mx), mx_buffers := bufs'\<rparr>)"
proof (cases "hm_get (mx_speakers mx) session")
  case None
  then show thesis by (intro unknown) (simp_all add: feed_lost_def)
next
  case (Some sp)
  have fmt: "od_format (sd_decoder sp) = mx_format mx" using ok Some by (auto simp: mixer_ok_def)
  obtain r dec where dec: "OpusDecoder_decode_lost op (sd_decoder sp) = Some (r, dec)" "od_format dec = mx_format mx"
      "\<And>frame. r = Inr frame \<Longrightarrow> fr_format frame = mx_format mx \<and> length (fr_data frame) mod 4 = 0"
    using OpusDecoder_decode_lost_ok [of op "sd_decoder sp" thesis] opus fmt by auto
  show thesis
  proof (cases r)
    case e: (Inl e)
    show thesis
      by (rule failed [where sp = "sp\<lparr>sd_decoder := dec\<rparr>" and e = e])
         (use Some dec e in \<open>simp_all add: feed_lost_def\<close>)
  next
    case f: (Inr frame)
    have frame: "frame_ok frame" using dec(3) [OF f] ok by (simp add: frame_ok_def mixer_ok_def)
    obtain ss prev where cf: "mixer_boundary_crossfade fo frame (sd_prev_last_sample sp) =
        Some (set_f32_samples ss frame, prev)"
      by (rule mixer_crossfade_ok [OF frame])
    have ss: "as_f32_samples (set_f32_samples ss frame) = Some ss" using frame by (simp add: frame_ok_def)
    obtain bufs' where ps: "push_samples session (set_f32_samples ss frame) (mx_buffers mx) = Some bufs'"
        "\<And>k. buffer_of bufs' k = (if k = session
          then keep_last MAX_SPEAKER_BUFFER_SAMPLES (buffer_of (mx_buffers mx) k @ ss) else buffer_of (mx_buffers mx) k)"
      using buffer_push_samples [OF ss, of session "mx_buffers mx" thesis] by blast
    show thesis
      by (rule concealed [where sp = "sp\<lparr>sd_decoder := dec, sd_prev_last_sample := prev\<rparr>" and ss = ss and bufs' = bufs'])
         (use Some dec f cf ps in \<open>simp_all add: feed_lost_def\<close>)
  qed
qed

text \<open>A decodable packet of a known speaker whose stream did not restart: the buffer, the silence of the
  gap, the samples of the packet, and of these the newest that fit.\<close>

lemma feed_warm:
  fixes mx :: "'d AudioMixer" and session :: u32 and packet :: EncodedPacket
  assumes ok: "mixer_ok mx" and opus: "opus_dec_ok op (unat (channels (mx_format mx)))"
    and known: "hm_get (mx_speakers mx) session = Some sp" "sd_last_seq sp = Some q0"
    and fresh: "\<not> (q0 > ep_sequence packet \<and> q0 - ep_sequence packet > 10)"
    and decoded: "OpusDecoder_decode op packet (sd_decoder sp) = Some (Inr frame, dec)"
  defines "units \<equiv> detect_certain_gap (sd_expected_next_seq sp) (ep_sequence packet)"
  shows "\<exists>mx' sp' ss. feed op fo instant session packet mx = Some (Inr (), mx') \<and>
    hm_get (mx_speakers mx') session = Some sp' \<and> sd_decoder sp' = dec \<and>
    sd_expected_next_seq sp' = Some (ep_sequence packet + frame_seq_units frame (mx_format mx)) \<and>
    length ss = length (cast_samples (fr_data frame)) \<and>
    (units = 0 \<longrightarrow> \<not> sd_needs_fade_in sp \<longrightarrow> sd_prev_last_sample sp = None \<longrightarrow> ss = cast_samples (fr_data frame)) \<and>
    buffer_of (mx_buffers mx') session = keep_last MAX_SPEAKER_BUFFER_SAMPLES (buffer_of (mx_buffers mx) session @
      replicate (silence_samples units (mx_format mx) (length (buffer_of (mx_buffers mx) session))) F_ZERO @ ss)"
proof -
  have same: "drop_restarted session (ep_sequence packet) mx = mx"
    using known fresh by (auto simp: drop_restarted_def)
  have sp: "speaker_for op instant session mx = Inr sp" using known by (simp add: speaker_for_def)
  from ok opus show ?thesis
  proof (cases rule: feed_outcome [where fo = fo and instant = instant and session = session and packet = packet])
    case refused
    with same sp show ?thesis by simp
  next
    case (failed sp1 u e dec1)
    with same sp decoded show ?thesis by simp
  next
    case (fed sp1 u frame1 dec1 ss sp' bufs')
    have sp1: "sp1 = sp" using fed(1) same sp by simp
    have "frame1 = frame" "dec1 = dec" "u = units" using fed(2,3) decoded sp1 by (simp_all add: units_def)
    with fed(4,6-8,12,13) same sp1 show ?thesis by (auto simp: buffer_fill_gap)
  qed
qed

section \<open>Runs of the mixer\<close>

text \<open>The mixer is called by the receive path; between two calls the playback callback takes samples
  from the front of a buffer.\<close>

datatype mixer_event =
    MxFeed nat u32 EncodedPacket
  | MxFeedLost u32
  | MxResetSpeaker u32
  | MxRemoveInactive nat
  | MxReset
  | MxDrain u32 nat

inductive mixer_step ::
    "('d, 'e) opus_lib \<Rightarrow> f32_ops \<Rightarrow> 'd AudioMixer \<Rightarrow> mixer_event \<Rightarrow> 'd AudioMixer \<Rightarrow> bool"
  for op fo where
    step_feed: "feed op fo instant session packet mx = Some (r, mx') \<Longrightarrow>
      mixer_step op fo mx (MxFeed instant session packet) mx'"
  | step_feed_lost: "feed_lost op fo session mx = Some (r, mx') \<Longrightarrow>
      mixer_step op fo mx (MxFeedLost session) mx'"
  | step_reset_speaker: "mixer_step op fo mx (MxResetSpeaker session) (reset_speaker session mx)"
  | step_remove_inactive: "mixer_step op fo mx (MxRemoveInactive now) (remove_inactive_speakers now mx)"
  | step_reset: "mixer_step op fo mx MxReset (AudioMixer_reset mx)"
  | step_drain: "mixer_step op fo mx (MxDrain session n)
      (mx\<lparr>mx_buffers := hm_get_mut session (drop n) (mx_buffers mx)\<rparr>)"

inductive_cases mixer_step_cases: "mixer_step op fo mx e mx'"

inductive mixer_reachable :: "('d, 'e) opus_lib \<Rightarrow> f32_ops \<Rightarrow> AudioFormat \<Rightarrow> 'd AudioMixer \<Rightarrow> bool"
  for op fo format where
    reach_new: "mixer_reachable op fo format (AudioMixer_new [] format)"
  | reach_step: "mixer_reachable op fo format mx \<Longrightarrow> mixer_step op fo mx e mx' \<Longrightarrow>
      mixer_reachable op fo format mx'"

text \<open>The session a step is about; \<open>None\<close> for the two steps about all of them.\<close>

fun event_session :: "mixer_event \<Rightarrow> u32 option" where
  "event_session (MxFeed _ s _) = Some s"
| "event_session (MxFeedLost s) = Some s"
| "event_session (MxResetSpeaker s) = Some s"
| "event_session (MxDrain s _) = Some s"
| "event_session _ = None"

text \<open>What a step about one session guarantees: the invariant, and every other session as before.\<close>

definition only_session :: "u32 \<Rightarrow> 'd AudioMixer \<Rightarrow> 'd AudioMixer \<Rightarrow> bool" where
  "only_session session mx mx' \<longleftrightarrow>
     mixer_ok mx' \<and> mx_format mx' = mx_format mx \<and>
     (\<forall>k. k \<noteq> session \<longrightarrow> buffer_of (mx_buffers mx') k = buffer_of (mx_buffers mx) k \<and>
        hm_get (mx_speakers mx') k = hm_get (mx_speakers mx) k)"

lemma only_session_store:
  assumes "mixer_ok mx1" "mx_format mx1 = mx_format mx" "od_format (sd_decoder sp) = mx_format mx"
    "\<And>k. length (buffer_of bufs k) \<le> MAX_SPEAKER_BUFFER_SAMPLES"
    "\<And>k. k \<noteq> session \<Longrightarrow> hm_get (mx_speakers mx1) k = hm_get (mx_speakers mx) k"
    "\<And>k. k \<noteq> session \<Longrightarrow> buffer_of bufs k = buffer_of (mx_buffers mx) k"
  shows "only_session session mx
    (mx1\<lparr>mx_speakers := hm_insert session sp (mx_speakers mx1), mx_buffers := bufs\<rparr>)"
  using assms by (auto simp: only_session_def mixer_ok_def) metis

lemma feed_only_session:
  fixes mx :: "'d AudioMixer"
  assumes ok: "mixer_ok mx" and opus: "opus_dec_ok op (unat (channels (mx_format mx)))"
  obtains r mx' where "feed op fo instant session packet mx = Some (r, mx')" "only_session session mx mx'"
proof -
  note mx1 = drop_restarted_ok [OF ok, where session = session and q = "ep_sequence packet"]
  have len: "\<And>k. length (buffer_of (mx_buffers mx) k) \<le> MAX_SPEAKER_BUFFER_SAMPLES"
    using ok by (simp add: mixer_ok_def)
  from ok opus show thesis
  proof (cases rule: feed_outcome [where fo = fo and instant = instant and session = session and packet = packet])
    case refused
    with mx1 show thesis by (intro that) (auto simp: only_session_def)
  next
    case (failed sp units e dec)
    show thesis
      by (rule that [OF failed(5)], rule only_session_store)
         (use mx1 failed(4) len in \<open>auto simp: buffer_fill_gap length_with_silence\<close>)
  next
    case (fed sp units frame dec ss sp' bufs')
    show thesis
      by (rule that [OF fed(13)], rule only_session_store)
         (use mx1 fed(4,5,12) len in auto)
  qed
qed

lemma feed_lost_only_session:
  fixes mx :: "'d AudioMixer"
  assumes ok: "mixer_ok mx" and opus: "opus_dec_ok op (unat (channels (mx_format mx)))"
  obtains r mx' where "feed_lost op fo session mx = Some (r, mx')" "only_session session mx mx'"
proof -
  have len: "\<And>k. length (buffer_of (mx_buffers mx) k) \<le> MAX_SPEAKER_BUFFER_SAMPLES"
    using ok by (simp add: mixer_ok_def)
  from ok opus show thesis
  proof (cases rule: feed_lost_outcome [where fo = fo and session = session])
    case unknown
    with ok show thesis by (intro that) (auto simp: only_session_def)
  next
    case (failed e sp)
    have "only_session session mx
        (mx\<lparr>mx_speakers := hm_insert session sp (mx_speakers mx), mx_buffers := mx_buffers mx\<rparr>)"
      by (rule only_session_store) (use ok failed(1) len in auto)
    with failed(2) show thesis by (intro that) auto
  next
    case (concealed sp ss bufs')
    show thesis
      by (rule that [OF concealed(3)], rule only_session_store) (use ok concealed(1,2) len in auto)
  qed
qed

lemma drain_only_session:
  "mixer_ok mx \<Longrightarrow> only_session session mx (mx\<lparr>mx_buffers := hm_get_mut session (drop n) (mx_buffers mx)\<rparr>)"
  by (auto simp: only_session_def mixer_ok_def buffer_of_def le_diff_conv trans_le_add1 split: option.splits)

lemma reset_speaker_only_session: "mixer_ok mx \<Longrightarrow> only_session session mx (reset_speaker session mx)"
  by (auto simp: only_session_def mixer_ok_def reset_speaker_def)

section \<open>Removal of inactive speakers\<close>

lemma fold_forget [simp]:
  "hm_get (mx_speakers (fold forget_speaker ks mx)) k = (if k \<in> set ks then None else hm_get (mx_speakers mx) k)"
  "hm_get (mx_buffers (fold forget_speaker ks mx)) k = (if k \<in> set ks then None else hm_get (mx_buffers mx) k)"
  "mx_format (fold forget_speaker ks mx) = mx_format mx"
  by (induction ks arbitrary: mx) (auto simp: forget_speaker_def)

lemma forget_wf: "hm_wf (mx_speakers mx) \<Longrightarrow> hm_wf (mx_speakers (forget_speaker k mx))"
  by (auto simp: forget_speaker_def)

lemma fold_forget_wf: "hm_wf (mx_speakers mx) \<Longrightarrow> hm_wf (mx_speakers (fold forget_speaker ks mx))"
  by (induction ks arbitrary: mx) (simp_all add: forget_wf)

lemma stale_iff:
  "hm_wf (mx_speakers mx) \<Longrightarrow> k \<in> set (stale_speakers now mx) \<longleftrightarrow>
     (\<exists>s. hm_get (mx_speakers mx) k = Some s \<and> now - sd_last_activity s > SPEAKER_TIMEOUT_SECS * 1000)"
  by (force simp: stale_speakers_def hm_wf_def)

lemma remove_inactive_ok: "mixer_ok mx \<Longrightarrow> mixer_ok (remove_inactive_speakers now mx)"
  by (auto simp: mixer_ok_def remove_inactive_speakers_def buffer_of_def fold_forget_wf split: option.splits)

lemma reset_ok: "mixer_ok mx \<Longrightarrow> mixer_ok (AudioMixer_reset mx)"
  by (simp add: mixer_ok_def AudioMixer_reset_def buffer_of_def)

lemma mixer_format_keeps:
  "mx_format (AudioMixer_reset mx) = mx_format mx"
  "mx_format (remove_inactive_speakers now mx) = mx_format mx"
  by (simp_all add: AudioMixer_reset_def remove_inactive_speakers_def)

lemma mixer_new_ok: "sample_format format = SF_F32 \<Longrightarrow> mixer_ok (AudioMixer_new [] format)"
  by (simp add: mixer_ok_def AudioMixer_new_def buffer_of_def)

lemma mixer_step_session:
  assumes step: "mixer_step op fo mx e mx'" and ok: "mixer_ok mx"
    and opus: "opus_dec_ok op (unat (channels (mx_format mx)))" and s: "event_session e = Some session"
  shows "only_session session mx mx'"
  using step
proof cases
  case (step_feed instant s' packet r)
  obtain r' mx'' where "feed op fo instant s' packet mx = Some (r', mx'')" "only_session s' mx mx''"
    by (rule feed_only_session [OF ok opus])
  with step_feed s show ?thesis by simp
next
  case (step_feed_lost s' r)
  obtain r' mx'' where "feed_lost op fo s' mx = Some (r', mx'')" "only_session s' mx mx''"
    by (rule feed_lost_only_session [OF ok opus])
  with step_feed_lost s show ?thesis by simp
qed (use s ok in \<open>auto intro: drain_only_session reset_speaker_only_session\<close>)

lemma mixer_step_ok:
  assumes step: "mixer_step op fo mx e mx'" and ok: "mixer_ok mx"
    and opus: "opus_dec_ok op (unat (channels (mx_format mx)))"
  shows "mixer_ok mx' \<and> mx_format mx' = mx_format mx"
proof (cases "event_session e")
  case (Some session)
  from mixer_step_session [OF step ok opus Some] show ?thesis by (simp add: only_session_def)
next
  case None
  with step ok show ?thesis
    by (cases rule: mixer_step_cases)
       (auto simp: remove_inactive_ok reset_ok mixer_format_keeps)
qed

lemma mixer_reachable_ok:
  assumes "mixer_reachable op fo format mx" "sample_format format = SF_F32"
    "opus_dec_ok op (unat (channels format))"
  shows "mixer_ok mx \<and> mx_format mx = format"
  using assms
proof (induction rule: mixer_reachable.induct)
  case reach_new
  then show ?case using mixer_new_ok [of format] by (simp add: AudioMixer_new_def)
next
  case (reach_step mx e mx')
  then show ?case using mixer_step_ok [OF reach_step.hyps(2)] by auto
qed

section \<open>Properties\<close>

definition demo_format :: AudioFormat where
  "demo_format = \<lparr>sample_rate = 1000, channels = 1, sample_format = SF_F32\<rparr>"

definition demo_packet :: "u64 \<Rightarrow> EncodedPacket" where
  "demo_packet q = \<lparr>ep_data = [1, 2, 3], ep_sequence = q, ep_frame_samples = 480\<rparr>"

definition demo_mixer :: "unit AudioMixer" where
  "demo_mixer =
     \<lparr>mx_speakers = [(7, \<lparr>sd_decoder = \<lparr>od_format = demo_format, od_inner = (),
           od_out_buf = [0, 0, 0, 0], od_frame_size = 10\<rparr>,
         sd_last_seq = Some 100, sd_expected_next_seq = Some 101, sd_prev_last_sample = None,
         sd_needs_fade_in = False, sd_last_activity = 5\<rparr>)],
      mx_buffers = [(7, [1, 2, 3]), (9, [4])], mx_format = demo_format\<rparr>"

lemma demo_mixer_ok: "mixer_ok demo_mixer"
  by (auto simp: mixer_ok_def demo_mixer_def demo_format_def hm_wf_def buffer_of_def MAX_SPEAKER_BUFFER_SAMPLES_def)

text \<open>C22: In every reachable state of the mixer, whatever packets, losses, resets, removals and playback came before,
  each speaker buffer holds at most \<^const>\<open>MAX_SPEAKER_BUFFER_SAMPLES\<close> samples, and neither a packet nor a
  concealment request panics (given that libopus stays within the buffer it is handed).\<close>

theorem mixer_buffers_bounded:
  assumes "mixer_reachable op fo format mx" "sample_format format = SF_F32"
    and "opus_dec_ok op (unat (channels format))"
  shows "length (buffer_of (mx_buffers mx) k) \<le> MAX_SPEAKER_BUFFER_SAMPLES \<and>
    feed op fo instant session packet mx \<noteq> None \<and> feed_lost op fo session mx \<noteq> None"
proof (intro conjI)
  have mx: "mixer_ok mx" "mx_format mx = format" using mixer_reachable_ok [OF assms] by simp_all
  then have opus: "opus_dec_ok op (unat (channels (mx_format mx)))" using assms(3) by simp
  show "length (buffer_of (mx_buffers mx) k) \<le> MAX_SPEAKER_BUFFER_SAMPLES"
    using mx(1) by (simp add: mixer_ok_def)
  show "feed op fo instant session packet mx \<noteq> None"
    by (rule feed_only_session [OF mx(1) opus]) auto
  show "feed_lost op fo session mx \<noteq> None"
    by (rule feed_lost_only_session [OF mx(1) opus]) auto
qed

theorem mixer_buffers_bounded_witness:
  "length (buffer_of (mx_buffers (AudioMixer_new [] demo_format :: unit AudioMixer)) 7) \<le> MAX_SPEAKER_BUFFER_SAMPLES \<and>
   feed demo_opus demo_f32 5 7 (demo_packet 100) (AudioMixer_new [] demo_format) \<noteq> None"
  using mixer_buffers_bounded [OF reach_new, of demo_format demo_opus]
  by (simp add: demo_format_def)

text \<open>Speakers do not influence each other: a step about one session (a packet, a concealment frame, the end of
  its stream, playback) leaves the samples and the decoder of every other session exactly as they were.\<close>

theorem mixer_sessions_isolated:
  assumes "mixer_reachable op fo format mx" "sample_format format = SF_F32"
    and "opus_dec_ok op (unat (channels format))"
    and "mixer_step op fo mx e mx'" "event_session e = Some session" "k \<noteq> session"
  shows "buffer_of (mx_buffers mx') k = buffer_of (mx_buffers mx) k \<and>
    hm_get (mx_speakers mx') k = hm_get (mx_speakers mx) k"
proof -
  have mx: "mixer_ok mx" "mx_format mx = format" using mixer_reachable_ok [OF assms(1-3)] by simp_all
  then have "only_session session mx mx'" using mixer_step_session assms(3-5) by blast
  with assms(6) show ?thesis by (simp add: only_session_def)
qed

theorem mixer_sessions_isolated_witness:
  "buffer_of (mx_buffers (reset_speaker 7 (AudioMixer_new [] demo_format :: unit AudioMixer))) 9 = []"
  using mixer_sessions_isolated [OF reach_new _ _ step_reset_speaker, of demo_format demo_opus 7 7 9]
  by (simp add: demo_format_def AudioMixer_new_def buffer_of_def)

text \<open>A packet that continues a stream (no restart, no certain gap, a warm decoder) adds exactly the decoded samples
  to the end of its speaker's buffer, unmodified; of the result the newest
  \<^const>\<open>MAX_SPEAKER_BUFFER_SAMPLES\<close> are kept, and the next expected sequence number is
  the packet's plus the length of its audio.\<close>

theorem mixer_feed_continuous:
  assumes "mixer_ok mx" "opus_dec_ok op (unat (channels (mx_format mx)))"
    and "hm_get (mx_speakers mx) session = Some sp"
    and "sd_last_seq sp = Some q0" "q0 \<le> ep_sequence packet \<or> q0 - ep_sequence packet \<le> 10"
    and "detect_certain_gap (sd_expected_next_seq sp) (ep_sequence packet) = 0"
    and "\<not> sd_needs_fade_in sp" "sd_prev_last_sample sp = None"
    and "OpusDecoder_decode op packet (sd_decoder sp) = Some (Inr frame, dec)"
  shows "\<exists>mx' sp'. feed op fo instant session packet mx = Some (Inr (), mx') \<and>
    hm_get (mx_speakers mx') session = Some sp' \<and> sd_decoder sp' = dec \<and>
    sd_expected_next_seq sp' = Some (ep_sequence packet + frame_seq_units frame (mx_format mx)) \<and>
    buffer_of (mx_buffers mx') session =
      keep_last MAX_SPEAKER_BUFFER_SAMPLES (buffer_of (mx_buffers mx) session @ cast_samples (fr_data frame))"
proof -
  from assms(5) have "\<not> (q0 > ep_sequence packet \<and> q0 - ep_sequence packet > 10)" by auto
  from feed_warm [OF assms(1-4) this assms(9), of fo instant]
  obtain mx' sp' ss where
      "feed op fo instant session packet mx = Some (Inr (), mx')" "hm_get (mx_speakers mx') session = Some sp'"
      "sd_decoder sp' = dec"
      "sd_expected_next_seq sp' = Some (ep_sequence packet + frame_seq_units frame (mx_format mx))"
      "detect_certain_gap (sd_expected_next_seq sp) (ep_sequence packet) = 0 \<Longrightarrow> \<not> sd_needs_fade_in sp \<Longrightarrow>
         sd_prev_last_sample sp = None \<Longrightarrow> ss = cast_samples (fr_data frame)"
      "buffer_of (mx_buffers mx') session = keep_last MAX_SPEAKER_BUFFER_SAMPLES (buffer_of (mx_buffers mx) session @
         replicate (silence_samples (detect_certain_gap (sd_expected_next_seq sp) (ep_sequence packet))
           (mx_format mx) (length (buffer_of (mx_buffers mx) session))) F_ZERO @ ss)"
    by metis
  with assms(6-8) show ?thesis by (simp add: silence_samples_def)
qed

definition demo_decoded :: "u64 \<Rightarrow> AudioFrame result \<times> unit OpusDecoder" where
  "demo_decoded q =
     (Inr \<lparr>fr_data = samples_bytes [1, 2, 3], fr_format = demo_format, fr_sequence = q, fr_is_silent = False\<rparr>,
      \<lparr>od_format = demo_format, od_inner = (), od_out_buf = [1, 2, 3, 0], od_frame_size = 10\<rparr>)"

lemma demo_speaker:
  defines "sp \<equiv> snd (hd (mx_speakers demo_mixer))"
  shows "hm_get (mx_speakers demo_mixer) 7 = Some sp" "sd_last_seq sp = Some 100"
    "sd_expected_next_seq sp = Some 101" "\<not> sd_needs_fade_in sp" "sd_prev_last_sample sp = None"
    "mx_format demo_mixer = demo_format" "channels demo_format = 1"
    "buffer_of (mx_buffers demo_mixer) 7 = [1, 2, 3]"
    "OpusDecoder_decode demo_opus (demo_packet q) (sd_decoder sp) = Some (demo_decoded q)"
    "ep_sequence (demo_packet q) = q"
  by (simp_all add: sp_def demo_mixer_def demo_format_def buffer_of_def OpusDecoder_decode_def demo_opus_def
      demo_packet_def demo_decoded_def)

theorem mixer_feed_continuous_witness:
  "\<exists>mx'. feed demo_opus demo_f32 9 7 (demo_packet 101) demo_mixer = Some (Inr (), mx') \<and>
     buffer_of (mx_buffers mx') 7 = [1, 2, 3, 1, 2, 3]"
  using mixer_feed_continuous [OF demo_mixer_ok _ demo_speaker(1,2) _ _ demo_speaker(4,5)
      demo_speaker(9) [of 101, unfolded demo_decoded_def], of demo_f32 9]
    demo_speaker(3,6-8,10)
  by (auto simp: detect_certain_gap_def GAP_TOLERANCE_def MAX_SPEAKER_BUFFER_SAMPLES_def)

text \<open>A gap fill does displace unplayed audio: when the missing units fill the room left in the buffer, every
  sample of the packet after the gap evicts one of the oldest decoded samples still waiting to be
  played, although buffer and packet together may have fitted without the inserted silence.\<close>

theorem mixer_gap_displaces_audio:
  assumes "mixer_ok mx" "opus_dec_ok op (unat (channels (mx_format mx)))"
    and "hm_get (mx_speakers mx) session = Some sp" "sd_last_seq sp = Some q0" "q0 \<le> ep_sequence packet"
    and "OpusDecoder_decode op packet (sd_decoder sp) = Some (Inr frame, dec)"
    and "MAX_SPEAKER_BUFFER_SAMPLES \<le> length (buffer_of (mx_buffers mx) session) +
      unat (detect_certain_gap (sd_expected_next_seq sp) (ep_sequence packet)) * 480 * unat (channels (mx_format mx))"
    and "length (cast_samples (fr_data frame)) \<le> length (buffer_of (mx_buffers mx) session)"
  shows "\<exists>mx' ss. feed op fo instant session packet mx = Some (Inr (), mx') \<and>
    length ss = length (cast_samples (fr_data frame)) \<and>
    buffer_of (mx_buffers mx') session =
      drop (length ss) (buffer_of (mx_buffers mx) session) @
      replicate (MAX_SPEAKER_BUFFER_SAMPLES - length (buffer_of (mx_buffers mx) session)) F_ZERO @ ss"
proof -
  let ?b = "buffer_of (mx_buffers mx) session"
  have len: "length ?b \<le> MAX_SPEAKER_BUFFER_SAMPLES" using assms(1) by (simp add: mixer_ok_def)
  from assms(5) have "\<not> (q0 > ep_sequence packet \<and> q0 - ep_sequence packet > 10)" by auto
  from feed_warm [OF assms(1-4) this assms(6), of fo instant]
  obtain mx' ss where mx': "feed op fo instant session packet mx = Some (Inr (), mx')"
      "length ss = length (cast_samples (fr_data frame))"
      "buffer_of (mx_buffers mx') session = keep_last MAX_SPEAKER_BUFFER_SAMPLES (?b @
         replicate (silence_samples (detect_certain_gap (sd_expected_next_seq sp) (ep_sequence packet))
           (mx_format mx) (length ?b)) F_ZERO @ ss)"
    by metis
  have "silence_samples (detect_certain_gap (sd_expected_next_seq sp) (ep_sequence packet)) (mx_format mx) (length ?b) =
      MAX_SPEAKER_BUFFER_SAMPLES - length ?b"
    using assms(7) unfolding silence_samples_def by linarith
  with mx' len assms(8) show ?thesis by (intro exI [of _ mx'] exI [of _ ss]) (simp add: keep_last_def)
qed

theorem mixer_gap_displaces_audio_witness:
  "\<exists>mx' ss. feed demo_opus demo_f32 9 7 (demo_packet 201) demo_mixer = Some (Inr (), mx') \<and>
     buffer_of (mx_buffers mx') 7 = replicate 19197 F_ZERO @ ss"
  using mixer_gap_displaces_audio [OF demo_mixer_ok _ demo_speaker(1,2) _
      demo_speaker(9) [of 201, unfolded demo_decoded_def], of demo_f32 9]
    demo_speaker(3,6-8,10)
  by (auto simp: detect_certain_gap_def GAP_TOLERANCE_def MAX_SPEAKER_BUFFER_SAMPLES_def MAX_SILENCE_FILL_UNITS_def
      SAMPLES_PER_SEQ_UNIT_def)

text \<open>The sweep forgets exactly the speakers whose last packet is more than thirty seconds old, with their buffers. It
  only looks at speakers that have a decoder: the buffer of a session whose stream ended with a terminator
  stays however long the session is silent.\<close>

theorem mixer_sweep_exact:
  assumes "mixer_reachable op fo format mx" "sample_format format = SF_F32" "opus_dec_ok op (unat (channels format))"
  shows "hm_get (mx_speakers (remove_inactive_speakers now mx)) k =
      (case hm_get (mx_speakers mx) k of
         None \<Rightarrow> None
       | Some s \<Rightarrow> if now - sd_last_activity s > 30000 then None else Some s) \<and>
    hm_get (mx_buffers (remove_inactive_speakers now mx)) k =
      (case hm_get (mx_speakers mx) k of
         None \<Rightarrow> hm_get (mx_buffers mx) k
       | Some s \<Rightarrow> if now - sd_last_activity s > 30000 then None else hm_get (mx_buffers mx) k)"
proof -
  have "hm_wf (mx_speakers mx)" using mixer_reachable_ok [OF assms] by (simp add: mixer_ok_def)
  then show ?thesis
    by (auto simp: remove_inactive_speakers_def stale_iff SPEAKER_TIMEOUT_SECS_def split: option.splits)
qed

theorem mixer_sweep_exact_witness:
  "hm_get (mx_buffers (remove_inactive_speakers 99999 (AudioMixer_new [] demo_format :: unit AudioMixer))) 7 = None"
  using mixer_sweep_exact [OF reach_new, of demo_format demo_opus 99999 7]
  by (simp add: demo_format_def AudioMixer_new_def)

end
