(* ===== verification/Audio_Filters.thy ===== *)
theory Audio_Filters
  imports Audio_Stages
begin

text \<open>
  The filters of src/crates/mumble-protocol/src/audio/filter/: noise gate, volume, automatic gain control and
  low-pass. The arithmetic is the parameter \<^typ>\<open>f32_ops\<close>; a filter panics (\<open>None\<close>) on a frame that is not
  made of 32-bit floats. Every filter keeps the shape of a frame (locale \<open>frame_filter\<close>), hence a
  chain of them does. The noise gate is a state machine with hysteresis and a hold time.
\<close>

section \<open>Shared arithmetic\<close>

definition F_TWO :: f32 where "F_TWO = 0x40000000"
definition F_MINUS_TWO :: f32 where "F_MINUS_TWO = 0xC0000000"
definition F_MINUS_ONE :: f32 where "F_MINUS_ONE = 0xBF800000"
definition F_TEN :: f32 where "F_TEN = 0x41200000"
definition F_KNEE :: f32 where "F_KNEE = 0x3F4CCCCD"

definition rms :: "f32_ops \<Rightarrow> f32 list \<Rightarrow> f32" where
  "rms fo samples =
     (if samples = [] then F_ZERO
      else let sum_sq = fold (\<lambda>s acc. f_add fo acc (f_mul fo s s)) samples F_ZERO
           in f_sqrt fo (f_div fo sum_sq (f_of_nat fo (length samples))))"

section \<open>Noise gate\<close>

datatype GateState = GClosed | GOpen

record NoiseGateConfig =
  open_threshold :: f32
  close_threshold :: f32
  hold_frames :: u32
  attack_samples :: nat
  release_samples :: nat

definition default_NoiseGateConfig :: NoiseGateConfig where
  "default_NoiseGateConfig =
     \<lparr>open_threshold = 0x3C23D70A, close_threshold = 0x3C03126F, hold_frames = 10,
      attack_samples = 480, release_samples = 480\<rparr>"

record NoiseGate =
  ng_config :: NoiseGateConfig
  ng_state :: GateState
  ng_hold_counter :: u32
  ng_enabled :: bool
  ng_frame_count :: u64

definition NoiseGate_new :: "NoiseGateConfig \<Rightarrow> NoiseGate" where
  "NoiseGate_new config =
     \<lparr>ng_config = config, ng_state = GClosed, ng_hold_counter = 0, ng_enabled = True, ng_frame_count = 0\<rparr>"

definition apply_hann_fade_in :: "f32_ops \<Rightarrow> f32 list \<Rightarrow> nat \<Rightarrow> f32 list" where
  "apply_hann_fade_in fo samples attack =
     (if attack = 0 then samples
      else let inv = f_div fo F_ONE (f_of_nat fo attack)
           in map_prefix attack (\<lambda>i sample.
                let gain = f_mul fo F_HALF
                      (f_sub fo F_ONE (f_cos fo (f_mul fo (f_mul fo F_PI (f_of_nat fo i)) inv)))
                in f_mul fo sample gain) samples)"

text \<open>\<^verbatim>\<open>samples[k] *= gain\<close>, which panics (\<open>None\<close>) outside the slice, and the loop over \<open>release\<close> such
  assignments from \<open>start\<close>. The subtraction \<^verbatim>\<open>n - release\<close> panics when the release is longer than the frame (with
  wrapping arithmetic the first index is then out of range, which panics too).\<close>

definition scale_at :: "f32_ops \<Rightarrow> nat \<Rightarrow> f32 \<Rightarrow> f32 list \<Rightarrow> f32 list option" where
  "scale_at fo k gain samples =
     (if k < length samples then Some (samples[k := f_mul fo (samples ! k) gain]) else None)"

fun fade_out_loop :: "f32_ops \<Rightarrow> f32 \<Rightarrow> nat \<Rightarrow> nat list \<Rightarrow> f32 list \<Rightarrow> f32 list option" where
  "fade_out_loop fo dx start [] samples = Some samples"
| "fade_out_loop fo dx start (i # ks) samples =
     (let gain = f_mul fo F_HALF (f_add fo F_ONE (f_cos fo (f_mul fo (f_mul fo F_PI (f_of_nat fo i)) dx)))
      in case scale_at fo (start + i) gain samples of
           None \<Rightarrow> None
         | Some samples' \<Rightarrow> fade_out_loop fo dx start ks samples')"

definition apply_hann_fade_out :: "f32_ops \<Rightarrow> f32 list \<Rightarrow> nat \<Rightarrow> f32 list option" where
  "apply_hann_fade_out fo samples release =
     (if release = 0 then Some samples
      else if length samples < release then None
      else fade_out_loop fo (f_div fo F_ONE (f_of_nat fo release)) (length samples - release) [0..<release] samples)"

definition NoiseGate_process ::
    "f32_ops \<Rightarrow> AudioFrame \<Rightarrow> NoiseGate \<Rightarrow> (unit result \<times> AudioFrame \<times> NoiseGate) option" where
  "NoiseGate_process fo frame g =
     (case as_f32_samples frame of
        None \<Rightarrow> None
      | Some samples \<Rightarrow>
          let level = rms fo samples;
              n = length samples;
              g = g\<lparr>ng_frame_count := ng_frame_count g + 1\<rparr>;
              config = ng_config g
          in map_option (Pair (Inr ()))
            (case ng_state g of
               GClosed \<Rightarrow>
                 if f_ge fo level (open_threshold config)
                 then Some ((set_f32_samples (apply_hann_fade_in fo samples (min (attack_samples config) n)) frame)
                         \<lparr>fr_is_silent := False\<rparr>,
                       g\<lparr>ng_state := GOpen, ng_hold_counter := hold_frames config\<rparr>)
                 else Some (frame\<lparr>fr_data := replicate (length (fr_data frame)) 0, fr_is_silent := True\<rparr>, g)
             | GOpen \<Rightarrow>
                 if f_lt fo level (close_threshold config)
                 then if ng_hold_counter g > 0
                      then Some (frame\<lparr>fr_is_silent := False\<rparr>, g\<lparr>ng_hold_counter := ng_hold_counter g - 1\<rparr>)
                      else map_option (\<lambda>faded. ((set_f32_samples faded frame)\<lparr>fr_is_silent := True\<rparr>,
                                                g\<lparr>ng_state := GClosed\<rparr>))
                             (apply_hann_fade_out fo samples (min (release_samples config) n))
                 else Some (frame\<lparr>fr_is_silent := False\<rparr>, g\<lparr>ng_hold_counter := hold_frames config\<rparr>)))"

definition NoiseGate_reset :: "NoiseGate \<Rightarrow> NoiseGate" where
  "NoiseGate_reset g = g\<lparr>ng_state := GClosed, ng_hold_counter := 0, ng_frame_count := 0\<rparr>"

definition noise_gate :: "f32_ops \<Rightarrow> NoiseGate AudioFilter" where
  "noise_gate fo =
     \<lparr>filter_process = NoiseGate_process fo, filter_reset = NoiseGate_reset, filter_is_enabled = ng_enabled,
      filter_set_enabled = (\<lambda>b g. g\<lparr>ng_enabled := b\<rparr>)\<rparr>"

section \<open>Volume\<close>

record VolumeFilter =
  vf_gain :: f32
  vf_enabled :: bool

definition VolumeFilter_new :: "f32 \<Rightarrow> VolumeFilter" where
  "VolumeFilter_new gain = \<lparr>vf_gain = gain, vf_enabled = True\<rparr>"

definition set_gain :: "f32_ops \<Rightarrow> f32 \<Rightarrow> VolumeFilter \<Rightarrow> VolumeFilter option" where
  "set_gain fo gain v = map_option (\<lambda>g. v\<lparr>vf_gain := g\<rparr>) (f_clamp fo gain F_ZERO F_TEN)"

text \<open>A loop that writes every sample, and stops if one of them panics.\<close>

fun try_map :: "('a \<Rightarrow> 'b option) \<Rightarrow> 'a list \<Rightarrow> 'b list option" where
  "try_map f [] = Some []"
| "try_map f (x # xs) =
     (case f x of None \<Rightarrow> None | Some y \<Rightarrow> map_option ((#) y) (try_map f xs))"

definition VolumeFilter_process ::
    "f32_ops \<Rightarrow> AudioFrame \<Rightarrow> VolumeFilter \<Rightarrow> (unit result \<times> AudioFrame \<times> VolumeFilter) option" where
  "VolumeFilter_process fo frame v =
     (case as_f32_samples frame of
        None \<Rightarrow> None
      | Some samples \<Rightarrow>
          map_option (\<lambda>ss. (Inr (), set_f32_samples ss frame, v))
            (try_map (\<lambda>s. f_clamp fo (f_mul fo s (vf_gain v)) F_MINUS_ONE F_ONE) samples))"

definition volume_filter :: "f32_ops \<Rightarrow> VolumeFilter AudioFilter" where
  "volume_filter fo =
     \<lparr>filter_process = VolumeFilter_process fo, filter_reset = (\<lambda>v. v), filter_is_enabled = vf_enabled,
      filter_set_enabled = (\<lambda>b v. v\<lparr>vf_enabled := b\<rparr>)\<rparr>"

section \<open>Automatic gain control\<close>

record AgcConfig =
  target_level :: f32
  max_gain :: f32
  min_gain :: f32
  agc_attack :: f32
  agc_release :: f32
  gate_threshold :: f32

definition default_AgcConfig :: AgcConfig where
  "default_AgcConfig =
     \<lparr>target_level = 0x3E800000, max_gain = 0x40800000, min_gain = 0x3E800000, agc_attack = 0x3E19999A,
      agc_release = 0x3D4CCCCD, gate_threshold = 0x3B449BA6\<rparr>"

record AutomaticGainControl =
  agc_config :: AgcConfig
  current_gain :: f32
  agc_enabled :: bool

definition AutomaticGainControl_new :: "AgcConfig \<Rightarrow> AutomaticGainControl" where
  "AutomaticGainControl_new config = \<lparr>agc_config = config, current_gain = F_ONE, agc_enabled = True\<rparr>"

definition soft_clip :: "f32_ops \<Rightarrow> f32 \<Rightarrow> f32" where
  "soft_clip fo sample =
     (if f_le fo (f_abs fo sample) F_KNEE then sample
      else let sign = f_signum fo sample;
               excess = f_div fo (f_sub fo (f_abs fo sample) F_KNEE) (f_sub fo F_ONE F_KNEE)
           in f_mul fo sign (f_add fo F_KNEE (f_mul fo (f_sub fo F_ONE F_KNEE) (f_tanh fo excess))))"

text \<open>The gain after a frame of the given level.\<close>

definition next_gain :: "f32_ops \<Rightarrow> f32 \<Rightarrow> AutomaticGainControl \<Rightarrow> f32 option" where
  "next_gain fo level agc =
     (let config = agc_config agc
      in if f_gt fo level (gate_threshold config)
         then map_option (\<lambda>desired_gain.
                let coeff = (if f_lt fo desired_gain (current_gain agc) then agc_attack config
                             else agc_release config)
                in f_add fo (current_gain agc) (f_mul fo coeff (f_sub fo desired_gain (current_gain agc))))
              (f_clamp fo (f_div fo (target_level config) level) (min_gain config) (max_gain config))
         else Some (current_gain agc))"

definition AutomaticGainControl_process ::
    "f32_ops \<Rightarrow> AudioFrame \<Rightarrow> AutomaticGainControl \<Rightarrow> (unit result \<times> AudioFrame \<times> AutomaticGainControl) option" where
  "AutomaticGainControl_process fo frame agc =
     (case as_f32_samples frame of
        None \<Rightarrow> None
      | Some samples \<Rightarrow>
          let start_gain = current_gain agc;
              n = f_of_nat fo (length samples)
          in map_option (\<lambda>end_gain.
               (Inr (),
                set_f32_samples (map_prefix (length samples) (\<lambda>i s.
                  let t = f_div fo (f_add fo (f_of_nat fo i) F_ONE) n;
                      gain = f_add fo start_gain (f_mul fo (f_sub fo end_gain start_gain) t)
                  in soft_clip fo (f_mul fo s gain)) samples) frame,
                agc\<lparr>current_gain := end_gain\<rparr>))
             (next_gain fo (rms fo samples) agc))"

definition automatic_gain :: "f32_ops \<Rightarrow> AutomaticGainControl AudioFilter" where
  "automatic_gain fo =
     \<lparr>filter_process = AutomaticGainControl_process fo, filter_reset = (\<lambda>agc. agc\<lparr>current_gain := F_ONE\<rparr>),
      filter_is_enabled = agc_enabled, filter_set_enabled = (\<lambda>b agc. agc\<lparr>agc_enabled := b\<rparr>)\<rparr>"

section \<open>Low-pass filter\<close>

record LowPassConfig =
  cutoff_hz :: f32
  lp_sample_rate :: f32
  lp_q :: f32

definition default_LowPassConfig :: LowPassConfig where
  "default_LowPassConfig = \<lparr>cutoff_hz = 0x45FA0000, lp_sample_rate = 0x473B8000, lp_q = 0x3F3504F3\<rparr>"

record BiquadCoeffs =
  bq_b0 :: f32
  bq_b1 :: f32
  bq_b2 :: f32
  bq_a1 :: f32
  bq_a2 :: f32

record LowPassFilter =
  lp_coeffs :: BiquadCoeffs
  lp_x1 :: f32
  lp_x2 :: f32
  lp_y1 :: f32
  lp_y2 :: f32
  lp_enabled :: bool

definition compute_coefficients :: "f32_ops \<Rightarrow> LowPassConfig \<Rightarrow> BiquadCoeffs" where
  "compute_coefficients fo config =
     (let omega = f_div fo (f_mul fo (f_mul fo F_TWO F_PI) (cutoff_hz config)) (lp_sample_rate config);
          sin_w = f_sin fo omega;
          cos_w = f_cos fo omega;
          alpha = f_div fo sin_w (f_mul fo F_TWO (lp_q config));
          a0 = f_add fo F_ONE alpha;
          inv_a0 = f_div fo F_ONE a0
      in \<lparr>bq_b0 = f_mul fo (f_div fo (f_sub fo F_ONE cos_w) F_TWO) inv_a0,
          bq_b1 = f_mul fo (f_sub fo F_ONE cos_w) inv_a0,
          bq_b2 = f_mul fo (f_div fo (f_sub fo F_ONE cos_w) F_TWO) inv_a0,
          bq_a1 = f_mul fo (f_mul fo F_MINUS_TWO cos_w) inv_a0,
          bq_a2 = f_mul fo (f_sub fo F_ONE alpha) inv_a0\<rparr>)"

definition LowPassFilter_new :: "f32_ops \<Rightarrow> LowPassConfig \<Rightarrow> LowPassFilter" where
  "LowPassFilter_new fo config =
     \<lparr>lp_coeffs = compute_coefficients fo config, lp_x1 = F_ZERO, lp_x2 = F_ZERO, lp_y1 = F_ZERO,
      lp_y2 = F_ZERO, lp_enabled = True\<rparr>"

definition LowPassFilter_tick :: "f32_ops \<Rightarrow> f32 \<Rightarrow> LowPassFilter \<Rightarrow> f32 \<times> LowPassFilter" where
  "LowPassFilter_tick fo x lp =
     (let c = lp_coeffs lp;
          y = f_sub fo (f_sub fo (f_add fo (f_add fo (f_mul fo (bq_b0 c) x) (f_mul fo (bq_b1 c) (lp_x1 lp)))
                (f_mul fo (bq_b2 c) (lp_x2 lp))) (f_mul fo (bq_a1 c) (lp_y1 lp))) (f_mul fo (bq_a2 c) (lp_y2 lp))
      in (y, lp\<lparr>lp_x2 := lp_x1 lp, lp_x1 := x, lp_y2 := lp_y1 lp, lp_y1 := y\<rparr>))"

fun low_pass_samples :: "f32_ops \<Rightarrow> f32 list \<Rightarrow> LowPassFilter \<Rightarrow> f32 list \<times> LowPassFilter" where
  "low_pass_samples fo [] lp = ([], lp)"
| "low_pass_samples fo (x # xs) lp =
     (case LowPassFilter_tick fo x lp of
        (y, lp') \<Rightarrow> (case low_pass_samples fo xs lp' of (ys, lp'') \<Rightarrow> (y # ys, lp'')))"

definition LowPassFilter_process ::
    "f32_ops \<Rightarrow> AudioFrame \<Rightarrow> LowPassFilter \<Rightarrow> (unit result \<times> AudioFrame \<times> LowPassFilter) option" where
  "LowPassFilter_process fo frame lp =
     (case as_f32_samples frame of
        None \<Rightarrow> None
      | Some samples \<Rightarrow>
          (case low_pass_samples fo samples lp of
             (ss, lp') \<Rightarrow> Some (Inr (), set_f32_samples ss frame, lp')))"

definition LowPassFilter_reset :: "LowPassFilter \<Rightarrow> LowPassFilter" where
  "LowPassFilter_reset lp = lp\<lparr>lp_x1 := F_ZERO, lp_x2 := F_ZERO, lp_y1 := F_ZERO, lp_y2 := F_ZERO\<rparr>"

definition low_pass :: "f32_ops \<Rightarrow> LowPassFilter AudioFilter" where
  "low_pass fo =
     \<lparr>filter_process = LowPassFilter_process fo, filter_reset = LowPassFilter_reset, filter_is_enabled = lp_enabled,
      filter_set_enabled = (\<lambda>b lp. lp\<lparr>lp_enabled := b\<rparr>)\<rparr>"

section \<open>The contract of a filter\<close>

text \<open>A filter whose state satisfies \<open>ok\<close> neither panics nor fails on a frame of floats, and leaves its format, its sequence number
  and its length unchanged.\<close>

locale frame_filter =
  fixes ops :: "'f AudioFilter" and ok :: "'f \<Rightarrow> bool"
  assumes process_ok: "frame_ok frame \<Longrightarrow> ok f \<Longrightarrow>
      \<exists>frame' f'. filter_process ops frame f = Some (Inr (), frame', f') \<and> same_shape frame frame' \<and> ok f'"
    and reset_ok: "ok f \<Longrightarrow> ok (filter_reset ops f)"
    and set_enabled_ok: "ok f \<Longrightarrow> ok (filter_set_enabled ops b f)"
begin

lemma process_total:
  assumes "frame_ok frame" "ok f"
  obtains frame' f' where "filter_process ops frame f = Some (Inr (), frame', f')" "same_shape frame frame'" "ok f'"
    "frame_ok frame'"
  using process_ok [OF assms] assms(1) same_shape_ok by blast

lemma chain_process:
  assumes "frame_ok frame" "list_all ok fs"
  shows "\<exists>frame' fs'. FilterChain_process (map (Pair ops) fs) frame = Some (Inr (), frame', map (Pair ops) fs') \<and>
    same_shape frame frame' \<and> list_all ok fs'"
  using assms
proof (induction fs arbitrary: frame)
  case Nil
  show ?case by (intro exI [of _ frame] exI [of _ "[]"]) simp
next
  case (Cons f fs)
  show ?case
  proof (cases "filter_is_enabled ops f")
    case True
    obtain frame' f' where p: "filter_process ops frame f = Some (Inr (), frame', f')" "same_shape frame frame'" "ok f'"
        "frame_ok frame'"
      by (rule process_total [of frame f]) (use Cons.prems in simp_all)
    obtain frame'' fs' where "FilterChain_process (map (Pair ops) fs) frame' = Some (Inr (), frame'', map (Pair ops) fs')"
        "same_shape frame' frame''" "list_all ok fs'"
      using Cons.IH [OF p(4)] Cons.prems by auto
    with True p show ?thesis
      by (intro exI [of _ frame''] exI [of _ "f' # fs'"]) (simp add: same_shape_trans [OF p(2)])
  next
    case False
    obtain frame' fs' where "FilterChain_process (map (Pair ops) fs) frame = Some (Inr (), frame', map (Pair ops) fs')"
        "same_shape frame frame'" "list_all ok fs'"
      using Cons.IH [of frame] Cons.prems by auto
    with False Cons.prems show ?thesis
      by (intro exI [of _ frame'] exI [of _ "f # fs'"]) simp
  qed
qed

end

lemma length_try_map: "try_map f xs = Some ys \<Longrightarrow> length ys = length xs"
  by (induction xs arbitrary: ys) (auto split: option.splits)

lemma try_map_total: "(\<And>x. x \<in> set xs \<Longrightarrow> f x \<noteq> None) \<Longrightarrow> \<exists>ys. try_map f xs = Some ys"
proof (induction xs)
  case (Cons x xs)
  then obtain y ys where "f x = Some y" "try_map f xs = Some ys" by fastforce
  then show ?case by simp
qed simp

lemma length_low_pass: "length (fst (low_pass_samples fo xs lp)) = length xs"
  by (induction xs arbitrary: lp) (auto split: prod.splits, metis fst_conv)

lemma length_fade_in [simp]: "length (apply_hann_fade_in fo ss n) = length ss"
  by (simp add: apply_hann_fade_in_def Let_def)

lemma fade_out_loop_total:
  "\<forall>i \<in> set ks. start + i < length ss \<Longrightarrow>
     \<exists>ss'. fade_out_loop fo dx start ks ss = Some ss' \<and> length ss' = length ss"
proof (induction ks arbitrary: ss)
  case (Cons k ks)
  then show ?case using Cons.IH [of "ss[start + k := x]" for x] by (simp add: scale_at_def Let_def)
qed simp

text \<open>The fade ends without a panic exactly on the frames that are at least as long as the release.\<close>

lemma fade_out_iff:
  "(\<exists>ss'. apply_hann_fade_out fo ss n = Some ss' \<and> length ss' = length ss) \<longleftrightarrow> n \<le> length ss"
proof (cases "n \<le> length ss")
  case True
  then have "\<forall>i \<in> set [0..<n]. length ss - n + i < length ss" by auto
  from fade_out_loop_total [OF this, of fo "f_div fo F_ONE (f_of_nat fo n)"] True show ?thesis
    by (auto simp: apply_hann_fade_out_def)
qed (auto simp: apply_hann_fade_out_def)

lemma fade_out_within:
  obtains ss' where "apply_hann_fade_out fo ss (min n (length ss)) = Some ss'" "length ss' = length ss"
  using fade_out_iff [of fo ss "min n (length ss)"] by auto

text \<open>The noise gate on a frame of floats: one of five cases.\<close>

lemma NoiseGate_process_eq:
  fixes fo :: f32_ops and frame :: AudioFrame and g :: NoiseGate
  assumes "frame_ok frame"
  defines "level \<equiv> rms fo (cast_samples (fr_data frame))"
  obtains frame' g' where "NoiseGate_process fo frame g = Some (Inr (), frame', g')" "same_shape frame frame'"
    "ng_config g' = ng_config g" "ng_enabled g' = ng_enabled g" "fr_is_silent frame' \<longleftrightarrow> ng_state g' = GClosed"
    "ng_state g' = (case ng_state g of
       GClosed \<Rightarrow> if f_ge fo level (open_threshold (ng_config g)) then GOpen else GClosed
     | GOpen \<Rightarrow> if f_lt fo level (close_threshold (ng_config g)) \<and> ng_hold_counter g = 0 then GClosed else GOpen)"
    "ng_hold_counter g' = (case ng_state g of
       GClosed \<Rightarrow> if f_ge fo level (open_threshold (ng_config g)) then hold_frames (ng_config g) else ng_hold_counter g
     | GOpen \<Rightarrow> if f_lt fo level (close_threshold (ng_config g)) then ng_hold_counter g - (if ng_hold_counter g = 0 then 0 else 1)
        else hold_frames (ng_config g))"
    "ng_state g = GClosed \<Longrightarrow> ng_state g' = GClosed \<Longrightarrow> fr_data frame' = replicate (length (fr_data frame)) 0"
    "ng_state g = GOpen \<Longrightarrow> ng_state g' = GOpen \<Longrightarrow> fr_data frame' = fr_data frame"
proof -
  note ok = frame_ok_samples [OF assms(1)] same_shape_set [OF assms(1)]
  obtain faded where faded: "apply_hann_fade_out fo (cast_samples (fr_data frame))
      (min (release_samples (ng_config g)) (length (cast_samples (fr_data frame)))) = Some faded"
      "length faded = length (cast_samples (fr_data frame))"
    by (rule fade_out_within)
  have "\<exists>frame' g'. NoiseGate_process fo frame g = Some (Inr (), frame', g')"
    using ok(1) faded(1) by (cases "ng_state g") (simp_all add: NoiseGate_process_def Let_def)
  then obtain frame' g' where eq: "NoiseGate_process fo frame g = Some (Inr (), frame', g')" by blast
  show thesis
    by (rule that [OF eq])
       (use eq ok faded in \<open>auto simp: NoiseGate_process_def Let_def level_def same_shape_def word_greater_zero_iff
          split: GateState.splits if_splits\<close>)
qed

interpretation gate: frame_filter "noise_gate fo" "\<lambda>_. True"
proof
  fix frame and g :: NoiseGate
  assume "frame_ok frame"
  then show "\<exists>frame' g'. filter_process (noise_gate fo) frame g = Some (Inr (), frame', g') \<and> same_shape frame frame' \<and> True"
    by (rule NoiseGate_process_eq [of frame fo g]) (auto simp: noise_gate_def)
qed simp_all

interpretation volume: frame_filter "volume_filter fo" "\<lambda>_. f_le fo F_MINUS_ONE F_ONE"
proof
  fix frame and v :: VolumeFilter
  assume frame: "frame_ok frame" and le: "f_le fo F_MINUS_ONE F_ONE"
  have "\<exists>ss. try_map (\<lambda>s. f_clamp fo (f_mul fo s (vf_gain v)) F_MINUS_ONE F_ONE) (cast_samples (fr_data frame)) = Some ss"
    using le by (intro try_map_total) (simp add: f_clamp_def Let_def)
  then show "\<exists>frame' v'. filter_process (volume_filter fo) frame v = Some (Inr (), frame', v') \<and> same_shape frame frame' \<and>
      f_le fo F_MINUS_ONE F_ONE"
    using frame_ok_samples [OF frame] same_shape_set [OF frame] le
    by (auto simp: volume_filter_def VolumeFilter_process_def dest: length_try_map)
qed simp_all

interpretation agc: frame_filter "automatic_gain fo"
    "\<lambda>a. f_le fo (min_gain (agc_config a)) (max_gain (agc_config a))"
proof
  fix frame and a :: AutomaticGainControl
  assume frame: "frame_ok frame" and le: "f_le fo (min_gain (agc_config a)) (max_gain (agc_config a))"
  have "next_gain fo (rms fo (cast_samples (fr_data frame))) a \<noteq> None"
    using le by (simp add: next_gain_def f_clamp_def Let_def)
  then obtain g where "next_gain fo (rms fo (cast_samples (fr_data frame))) a = Some g" by blast
  then show "\<exists>frame' a'. filter_process (automatic_gain fo) frame a = Some (Inr (), frame', a') \<and> same_shape frame frame' \<and>
      f_le fo (min_gain (agc_config a')) (max_gain (agc_config a'))"
    using frame_ok_samples [OF frame] same_shape_set [OF frame] le
    by (simp add: automatic_gain_def AutomaticGainControl_process_def Let_def)
qed (simp_all add: automatic_gain_def)

interpretation lowpass: frame_filter "low_pass fo" "\<lambda>_. True"
proof
  fix frame and lp :: LowPassFilter
  assume frame: "frame_ok frame"
  show "\<exists>frame' lp'. filter_process (low_pass fo) frame lp = Some (Inr (), frame', lp') \<and> same_shape frame frame' \<and> True"
    using frame_ok_samples [OF frame] same_shape_set [OF frame] length_low_pass [of fo "cast_samples (fr_data frame)" lp]
    by (auto simp: low_pass_def LowPassFilter_process_def split: prod.splits)
qed simp_all

section \<open>Chains\<close>

text \<open>A chain mixes filters of several types behind one interface: the boxed filters of the program.\<close>

datatype dyn_filter =
    DynGate NoiseGate
  | DynVolume VolumeFilter
  | DynAgc AutomaticGainControl
  | DynLowPass LowPassFilter

definition dyn_process :: "f32_ops \<Rightarrow> AudioFrame \<Rightarrow> dyn_filter \<Rightarrow> (unit result \<times> AudioFrame \<times> dyn_filter) option" where
  "dyn_process fo frame d =
     (case d of
        DynGate g \<Rightarrow> map_option (\<lambda>(r, fr, g). (r, fr, DynGate g)) (filter_process (noise_gate fo) frame g)
      | DynVolume v \<Rightarrow> map_option (\<lambda>(r, fr, v). (r, fr, DynVolume v)) (filter_process (volume_filter fo) frame v)
      | DynAgc a \<Rightarrow> map_option (\<lambda>(r, fr, a). (r, fr, DynAgc a)) (filter_process (automatic_gain fo) frame a)
      | DynLowPass l \<Rightarrow> map_option (\<lambda>(r, fr, l). (r, fr, DynLowPass l)) (filter_process (low_pass fo) frame l))"

definition dyn_filter_ops :: "f32_ops \<Rightarrow> dyn_filter AudioFilter" where
  "dyn_filter_ops fo =
     \<lparr>filter_process = dyn_process fo,
      filter_reset = (\<lambda>d. case d of
          DynGate g \<Rightarrow> DynGate (filter_reset (noise_gate fo) g)
        | DynVolume v \<Rightarrow> DynVolume (filter_reset (volume_filter fo) v)
        | DynAgc a \<Rightarrow> DynAgc (filter_reset (automatic_gain fo) a)
        | DynLowPass l \<Rightarrow> DynLowPass (filter_reset (low_pass fo) l)),
      filter_is_enabled = (\<lambda>d. case d of
          DynGate g \<Rightarrow> filter_is_enabled (noise_gate fo) g
        | DynVolume v \<Rightarrow> filter_is_enabled (volume_filter fo) v
        | DynAgc a \<Rightarrow> filter_is_enabled (automatic_gain fo) a
        | DynLowPass l \<Rightarrow> filter_is_enabled (low_pass fo) l),
      filter_set_enabled = (\<lambda>b d. case d of
          DynGate g \<Rightarrow> DynGate (filter_set_enabled (noise_gate fo) b g)
        | DynVolume v \<Rightarrow> DynVolume (filter_set_enabled (volume_filter fo) b v)
        | DynAgc a \<Rightarrow> DynAgc (filter_set_enabled (automatic_gain fo) b a)
        | DynLowPass l \<Rightarrow> DynLowPass (filter_set_enabled (low_pass fo) b l))\<rparr>"

text \<open>The states in which no filter panics: the two uses of \<^verbatim>\<open>clamp\<close> have ordered bounds.\<close>

definition dyn_ok :: "f32_ops \<Rightarrow> dyn_filter \<Rightarrow> bool" where
  "dyn_ok fo d =
     (case d of
        DynGate g \<Rightarrow> True
      | DynVolume v \<Rightarrow> f_le fo F_MINUS_ONE F_ONE
      | DynAgc a \<Rightarrow> f_le fo (min_gain (agc_config a)) (max_gain (agc_config a))
      | DynLowPass l \<Rightarrow> True)"

interpretation dyn: frame_filter "dyn_filter_ops fo" "dyn_ok fo"
proof
  fix frame d
  assume frame: "frame_ok frame" and ok: "dyn_ok fo d"
  show "\<exists>frame' d'. filter_process (dyn_filter_ops fo) frame d = Some (Inr (), frame', d') \<and> same_shape frame frame' \<and> dyn_ok fo d'"
  proof (cases d)
    case (DynGate g)
    with gate.process_ok [OF frame, of fo g] show ?thesis
      by (auto simp: dyn_filter_ops_def dyn_process_def dyn_ok_def)
  next
    case (DynVolume v)
    with volume.process_ok [OF frame, of fo v] ok show ?thesis
      by (auto simp: dyn_filter_ops_def dyn_process_def dyn_ok_def)
  next
    case (DynAgc a)
    with agc.process_ok [OF frame, of fo a] ok show ?thesis
      by (auto simp: dyn_filter_ops_def dyn_process_def dyn_ok_def)
  next
    case (DynLowPass l)
    with lowpass.process_ok [OF frame, of fo l] show ?thesis
      by (auto simp: dyn_filter_ops_def dyn_process_def dyn_ok_def)
  qed
qed (auto simp: dyn_filter_ops_def dyn_ok_def automatic_gain_def split: dyn_filter.splits)

definition dyn_chain :: "f32_ops \<Rightarrow> dyn_filter list \<Rightarrow> dyn_filter FilterChain" where
  "dyn_chain fo ds = map (Pair (dyn_filter_ops fo)) ds"

section \<open>Runs of the noise gate\<close>

text \<open>A sequence of frames through the gate.\<close>

fun gate_frames :: "f32_ops \<Rightarrow> AudioFrame list \<Rightarrow> NoiseGate \<Rightarrow> (AudioFrame list \<times> NoiseGate) option" where
  "gate_frames fo [] g = Some ([], g)"
| "gate_frames fo (frame # frames) g =
     (case NoiseGate_process fo frame g of
        None \<Rightarrow> None
      | Some (r, frame', g') \<Rightarrow>
          map_option (\<lambda>(outs, g''). (frame' # outs, g'')) (gate_frames fo frames g'))"

definition gate_quiet :: "f32_ops \<Rightarrow> NoiseGate \<Rightarrow> AudioFrame \<Rightarrow> bool" where
  "gate_quiet fo g frame \<longleftrightarrow> f_lt fo (rms fo (cast_samples (fr_data frame))) (close_threshold (ng_config g))"

lemma gate_open_loud:
  assumes "frame_ok frame" "ng_state g = GOpen" "\<not> gate_quiet fo g frame"
  shows "NoiseGate_process fo frame g = Some (Inr (), frame\<lparr>fr_is_silent := False\<rparr>,
    g\<lparr>ng_frame_count := ng_frame_count g + 1, ng_hold_counter := hold_frames (ng_config g)\<rparr>)"
  using assms frame_ok_samples [OF assms(1)] by (simp add: NoiseGate_process_def gate_quiet_def Let_def)

lemma gate_open_hold:
  assumes "frame_ok frame" "ng_state g = GOpen" "gate_quiet fo g frame" "ng_hold_counter g \<noteq> 0"
  shows "NoiseGate_process fo frame g = Some (Inr (), frame\<lparr>fr_is_silent := False\<rparr>,
    g\<lparr>ng_frame_count := ng_frame_count g + 1, ng_hold_counter := ng_hold_counter g - 1\<rparr>)"
  using assms frame_ok_samples [OF assms(1)]
  by (simp add: NoiseGate_process_def gate_quiet_def Let_def word_greater_zero_iff)

lemma gate_open_close:
  assumes "frame_ok frame" "ng_state g = GOpen" "gate_quiet fo g frame" "ng_hold_counter g = 0"
  obtains frame' where "NoiseGate_process fo frame g = Some (Inr (), frame',
    g\<lparr>ng_frame_count := ng_frame_count g + 1, ng_state := GClosed\<rparr>)" "fr_is_silent frame'"
  by (rule fade_out_within [of fo "cast_samples (fr_data frame)" "release_samples (ng_config g)"])
     (use assms frame_ok_samples [OF assms(1)] in \<open>simp add: NoiseGate_process_def gate_quiet_def Let_def\<close>)

text \<open>While frames fit the hold time, an open gate lets all of them through unchanged.\<close>

lemma gate_open_run:
  assumes "list_all frame_ok frames" "ng_state g = GOpen" "length frames \<le> unat (ng_hold_counter g)"
    "length frames \<le> unat (hold_frames (ng_config g))"
  shows "\<exists>g'. gate_frames fo frames g = Some (map (\<lambda>fr. fr\<lparr>fr_is_silent := False\<rparr>) frames, g') \<and> ng_state g' = GOpen"
  using assms
proof (induction frames arbitrary: g)
  case (Cons frame frames)
  have pos: "ng_hold_counter g \<noteq> 0" using Cons.prems(3) by auto
  then have minus: "unat (ng_hold_counter g - 1) = unat (ng_hold_counter g) - 1" by (simp add: unat_minus_one)
  show ?case
  proof (cases "gate_quiet fo g frame")
    case True
    with Cons.prems pos minus show ?thesis
      using Cons.IH [of "g\<lparr>ng_frame_count := ng_frame_count g + 1, ng_hold_counter := ng_hold_counter g - 1\<rparr>"]
      by (auto simp: gate_open_hold)
  next
    case False
    with Cons.prems show ?thesis
      using Cons.IH [of "g\<lparr>ng_frame_count := ng_frame_count g + 1, ng_hold_counter := hold_frames (ng_config g)\<rparr>"]
      by (auto simp: gate_open_loud)
  qed
qed simp

section \<open>Properties\<close>

text \<open>C35: A chain of the program's filters, in any order and in any enabled or disabled combination, never panics or fails on a frame of
  floats and keeps the frame's format, sequence number and length, as the trait demands of each filter; the
  filters stay in states for which this holds again. An attack or a release of the noise gate that is longer than the
  frame is cut to it, so the fades stay inside the frame. The only conditions are those of \<^verbatim>\<open>clamp\<close>: the bounds of the gain control,
  and the constants of the volume filter, are ordered.\<close>

theorem filter_chain_keeps_frames:
  assumes "frame_ok frame" "list_all (dyn_ok fo) ds"
  shows "\<exists>frame' ds'. FilterChain_process (dyn_chain fo ds) frame = Some (Inr (), frame', dyn_chain fo ds') \<and>
    same_shape frame frame' \<and> list_all (dyn_ok fo) ds'"
  unfolding dyn_chain_def by (rule dyn.chain_process [OF assms])

definition demo_frame :: AudioFrame where
  "demo_frame = \<lparr>fr_data = samples_bytes [1, 2], fr_format = MONO_48KHZ_F32, fr_sequence = 3, fr_is_silent = False\<rparr>"

lemma demo_frame_ok: "frame_ok demo_frame"
  by (simp add: frame_ok_def demo_frame_def MONO_48KHZ_F32_def)

definition demo_gate :: NoiseGate where
  "demo_gate = (NoiseGate_new (default_NoiseGateConfig\<lparr>hold_frames := 2\<rparr>))\<lparr>ng_state := GOpen, ng_hold_counter := 2\<rparr>"

theorem filter_chain_keeps_frames_witness:
  "\<exists>frame' ds'. FilterChain_process (dyn_chain demo_f32
      [DynAgc (AutomaticGainControl_new default_AgcConfig), DynGate demo_gate]) demo_frame =
      Some (Inr (), frame', dyn_chain demo_f32 ds') \<and> same_shape demo_frame frame' \<and> list_all (dyn_ok demo_f32) ds'"
  by (rule filter_chain_keeps_frames [OF demo_frame_ok])
     (simp add: dyn_ok_def demo_f32_def AutomaticGainControl_new_def default_AgcConfig_def)

text \<open>The hold time of the noise gate is exact: an open gate lets the next \<open>hold_counter\<close> frames below the closing
  threshold through unchanged, and the frame after them closes it and is the one marked silent.\<close>

theorem gate_hold_time:
  assumes "list_all (\<lambda>fr. frame_ok fr \<and> gate_quiet fo g fr) frames" "ng_state g = GOpen"
    "length frames = unat (ng_hold_counter g)" "frame_ok frame" "gate_quiet fo g frame"
  shows "\<exists>out g'. gate_frames fo (frames @ [frame]) g = Some (map (\<lambda>fr. fr\<lparr>fr_is_silent := False\<rparr>) frames @ [out], g') \<and>
    fr_is_silent out \<and> ng_state g' = GClosed"
  using assms
proof (induction frames arbitrary: g)
  case Nil
  then have "ng_hold_counter g = 0" by (simp add: unat_eq_zero)
  with Nil show ?case
    by (elim gate_open_close) (auto simp: gate_quiet_def)
next
  case (Cons fr frames)
  have pos: "ng_hold_counter g \<noteq> 0" using Cons.prems(3) by auto
  let ?g = "g\<lparr>ng_frame_count := ng_frame_count g + 1, ng_hold_counter := ng_hold_counter g - 1\<rparr>"
  have same: "gate_quiet fo ?g = gate_quiet fo g" by (simp add: gate_quiet_def fun_eq_iff)
  have "unat (ng_hold_counter g - 1) = length frames" using Cons.prems(3) pos by (simp add: unat_minus_one)
  with Cons.prems pos Cons.IH [of ?g, unfolded same] show ?case
    by (auto simp: gate_open_hold)
qed

lemma demo_gate_facts:
  "gate_quiet demo_f32 demo_gate demo_frame" "ng_state demo_gate = GOpen" "ng_hold_counter demo_gate = 2"
  "hold_frames (ng_config demo_gate) = 2"
  by (simp_all add: gate_quiet_def demo_gate_def NoiseGate_new_def default_NoiseGateConfig_def demo_frame_def
      rms_def demo_f32_def F_ZERO_def)

theorem gate_hold_time_witness:
  "\<exists>out g'. gate_frames demo_f32 ([demo_frame, demo_frame] @ [demo_frame]) demo_gate =
      Some (map (\<lambda>fr. fr\<lparr>fr_is_silent := False\<rparr>) [demo_frame, demo_frame] @ [out], g') \<and>
    fr_is_silent out \<and> ng_state g' = GClosed"
  by (rule gate_hold_time) (simp_all add: demo_frame_ok demo_gate_facts)

text \<open>The gate does not chatter: once a frame has opened it, at least the next \<open>hold_frames\<close> frames pass, unchanged and
  not marked silent, whatever their level.\<close>

theorem gate_min_open:
  assumes "frame_ok frame" "ng_state g = GClosed" "ng_config g = config"
    and "f_ge fo (rms fo (cast_samples (fr_data frame))) (open_threshold config)"
    and "list_all frame_ok frames" "length frames \<le> unat (hold_frames config)"
  shows "\<exists>out g'. gate_frames fo (frame # frames) g = Some (out # map (\<lambda>fr. fr\<lparr>fr_is_silent := False\<rparr>) frames, g') \<and>
    \<not> fr_is_silent out \<and> ng_state g' = GOpen"
proof -
  let ?g = "g\<lparr>ng_frame_count := ng_frame_count g + 1, ng_state := GOpen, ng_hold_counter := hold_frames config\<rparr>"
  obtain out where "NoiseGate_process fo frame g = Some (Inr (), out, ?g)" "\<not> fr_is_silent out"
    using assms(2-4) frame_ok_samples [OF assms(1)] by (simp add: NoiseGate_process_def Let_def)
  with gate_open_run [of frames ?g fo] assms(3,5,6) show ?thesis by auto
qed

theorem gate_min_open_witness:
  "\<exists>out g'. gate_frames (demo_f32\<lparr>f_le := (\<lambda>x y. True)\<rparr>) [demo_frame, demo_frame, demo_frame]
      (demo_gate\<lparr>ng_state := GClosed\<rparr>) =
      Some (out # map (\<lambda>fr. fr\<lparr>fr_is_silent := False\<rparr>) [demo_frame, demo_frame], g') \<and>
    \<not> fr_is_silent out \<and> ng_state g' = GOpen"
  by (rule gate_min_open [where config = "ng_config demo_gate"]) (simp_all add: demo_frame_ok demo_gate_facts)

end
