(* ===== verification/Audio_Pipeline.thy ===== *)
theory Audio_Pipeline
  imports Audio_Filters
begin

text \<open>
  The outbound and the inbound pipeline (src/crates/mumble-protocol/src/audio/pipeline.rs). The stages are
  boxed traits: a record of operations together with a state. \<open>None\<close> is a panic of a stage. The
  properties: the ticks of an outbound run form talk spurts, its packets are numbered without gaps, and the
  inbound pipeline conceals exactly the missing packets of a short gap and never more than three.
\<close>

section \<open>Codec traits\<close>

record 'e AudioEncoder =
  encode :: "AudioFrame \<Rightarrow> 'e \<Rightarrow> (EncodedPacket result \<times> 'e) option"
  encoder_reset :: "'e \<Rightarrow> 'e"

definition opus_encoder :: "('d, 'e) opus_lib \<Rightarrow> 'e OpusEncoder AudioEncoder" where
  "opus_encoder op = \<lparr>encode = OpusEncoder_encode op, encoder_reset = OpusEncoder_reset op\<rparr>"

record 'd AudioDecoder =
  decode :: "EncodedPacket \<Rightarrow> 'd \<Rightarrow> (AudioFrame result \<times> 'd) option"
  decode_lost :: "'d \<Rightarrow> (AudioFrame result \<times> 'd) option"
  decoder_reset :: "'d \<Rightarrow> 'd"

definition opus_decoder :: "('d, 'e) opus_lib \<Rightarrow> 'd OpusDecoder AudioDecoder" where
  "opus_decoder op =
     \<lparr>decode = OpusDecoder_decode op, decode_lost = OpusDecoder_decode_lost op,
      decoder_reset = OpusDecoder_reset op\<rparr>"

section \<open>Outbound\<close>

datatype OutboundTick = Audio EncodedPacket | Terminator EncodedPacket | Silence | NoData

record ('c, 'f, 'e) OutboundPipeline =
  ob_capture_ops :: "'c AudioCapture"
  ob_capture :: 'c
  ob_filters :: "'f FilterChain"
  ob_encoder_ops :: "'e AudioEncoder"
  ob_encoder :: 'e
  ob_was_talking :: bool

definition OutboundPipeline_new ::
    "'c AudioCapture \<times> 'c \<Rightarrow> 'f FilterChain \<Rightarrow> 'e AudioEncoder \<times> 'e \<Rightarrow> ('c, 'f, 'e) OutboundPipeline" where
  "OutboundPipeline_new capture filters enc =
     \<lparr>ob_capture_ops = fst capture, ob_capture = snd capture, ob_filters = filters,
      ob_encoder_ops = fst enc, ob_encoder = snd enc, ob_was_talking = False\<rparr>"

text \<open>The encoding of a frame at the end of a tick: the encoder's state is kept, an error is passed on.\<close>

definition encode_tick ::
    "(EncodedPacket \<Rightarrow> OutboundTick) \<Rightarrow> AudioFrame \<Rightarrow> ('c, 'f, 'e) OutboundPipeline
      \<Rightarrow> (OutboundTick result \<times> ('c, 'f, 'e) OutboundPipeline) option" where
  "encode_tick tick frame ob =
     map_option (\<lambda>(r, enc).
         (case r of Inl e \<Rightarrow> Inl e | Inr packet \<Rightarrow> Inr (tick packet), ob\<lparr>ob_encoder := enc\<rparr>))
       (encode (ob_encoder_ops ob) frame (ob_encoder ob))"

definition OutboundPipeline_tick ::
    "('c, 'f, 'e) OutboundPipeline \<Rightarrow> (OutboundTick result \<times> ('c, 'f, 'e) OutboundPipeline) option" where
  "OutboundPipeline_tick ob =
     (case read_frame (ob_capture_ops ob) (ob_capture ob) of
        (Inl e, c) \<Rightarrow>
          Some (if e = NotEnoughSamples then Inr NoData else Inl e, ob\<lparr>ob_capture := c\<rparr>)
      | (Inr frame, c) \<Rightarrow>
          let ob = ob\<lparr>ob_capture := c\<rparr>
          in case FilterChain_process (ob_filters ob) frame of
               None \<Rightarrow> None
             | Some (Inl e, frame', filters) \<Rightarrow> Some (Inl e, ob\<lparr>ob_filters := filters\<rparr>)
             | Some (Inr u, frame', filters) \<Rightarrow>
                 let ob = ob\<lparr>ob_filters := filters\<rparr>
                 in if fr_is_silent frame'
                    then if ob_was_talking ob
                         then encode_tick Terminator frame' (ob\<lparr>ob_was_talking := False\<rparr>)
                         else Some (Inr Silence, ob)
                    else encode_tick Audio frame' (ob\<lparr>ob_was_talking := True\<rparr>))"

definition OutboundPipeline_start ::
    "('c, 'f, 'e) OutboundPipeline \<Rightarrow> unit result \<times> ('c, 'f, 'e) OutboundPipeline" where
  "OutboundPipeline_start ob =
     (case capture_start (ob_capture_ops ob) (ob_capture ob) of (r, c) \<Rightarrow> (r, ob\<lparr>ob_capture := c\<rparr>))"

definition OutboundPipeline_stop ::
    "('c, 'f, 'e) OutboundPipeline \<Rightarrow> unit result \<times> ('c, 'f, 'e) OutboundPipeline" where
  "OutboundPipeline_stop ob =
     (case capture_stop (ob_capture_ops ob) (ob_capture ob) of (r, c) \<Rightarrow> (r, ob\<lparr>ob_capture := c\<rparr>))"

definition OutboundPipeline_reset :: "('c, 'f, 'e) OutboundPipeline \<Rightarrow> ('c, 'f, 'e) OutboundPipeline" where
  "OutboundPipeline_reset ob =
     ob\<lparr>ob_filters := FilterChain_reset (ob_filters ob),
        ob_encoder := encoder_reset (ob_encoder_ops ob) (ob_encoder ob), ob_was_talking := False\<rparr>"

section \<open>Inbound\<close>

record ('d, 'f, 'p) InboundPipeline =
  ib_decoder_ops :: "'d AudioDecoder"
  ib_decoder :: 'd
  ib_filters :: "'f FilterChain"
  ib_playback_ops :: "'p AudioPlayback"
  ib_playback :: 'p
  ib_last_seq :: "u64 option"
  ib_seq_step :: "u64 option"
  ib_prev_last_sample :: "f32 option"

definition InboundPipeline_new ::
    "'d AudioDecoder \<times> 'd \<Rightarrow> 'f FilterChain \<Rightarrow> 'p AudioPlayback \<times> 'p \<Rightarrow> ('d, 'f, 'p) InboundPipeline" where
  "InboundPipeline_new dec filters playback =
     \<lparr>ib_decoder_ops = fst dec, ib_decoder = snd dec, ib_filters = filters, ib_playback_ops = fst playback,
      ib_playback = snd playback, ib_last_seq = None, ib_seq_step = None, ib_prev_last_sample = None\<rparr>"

text \<open>The missing packets before the incoming one, and the learned step.\<close>

definition detect_sequence_gap :: "u64 option \<Rightarrow> u64 option \<Rightarrow> u64 \<Rightarrow> u64 option \<times> u64 option" where
  "detect_sequence_gap last_seq current_step incoming_seq =
     (case last_seq of
        None \<Rightarrow> (None, current_step)
      | Some prev \<Rightarrow>
          (case current_step of
             Some step \<Rightarrow>
               (if step = 0 then None
                else let expected = prev + step
                     in if incoming_seq > expected then Some (min ((incoming_seq - expected) div step) 3) else None,
                current_step)
           | None \<Rightarrow> (None, if incoming_seq > prev then Some (incoming_seq - prev) else None)))"

definition inbound_boundary_crossfade ::
    "f32_ops \<Rightarrow> AudioFrame \<Rightarrow> f32 option \<Rightarrow> (AudioFrame \<times> f32 option) option" where
  "inbound_boundary_crossfade fo frame prev_last_sample =
     (if sample_format (fr_format frame) \<noteq> SF_F32 then Some (frame, prev_last_sample)
      else case as_f32_samples frame of
             None \<Rightarrow> None
           | Some samples \<Rightarrow>
               let samples' =
                 (case prev_last_sample of
                    None \<Rightarrow> samples
                  | Some prev_val \<Rightarrow>
                      let correction =
                        (case samples of
                           first # _ \<Rightarrow> if f_gt fo (f_abs fo (f_sub fo prev_val first)) F_CLICK
                                        then f_sub fo prev_val first else F_ZERO
                         | [] \<Rightarrow> F_ZERO)
                      in if \<not> f_eq fo correction F_ZERO
                         then apply_crossfade_correction fo samples correction (min CROSSFADE_LEN (length samples))
                         else samples)
               in Some (set_f32_samples samples' frame, if samples' = [] then None else Some (last samples')))"

text \<open>The common end of \<^verbatim>\<open>tick\<close> and \<^verbatim>\<open>tick_lost\<close>: filters, crossfade, playback.\<close>

definition play_frame ::
    "f32_ops \<Rightarrow> AudioFrame result \<Rightarrow> ('d, 'f, 'p) InboundPipeline
      \<Rightarrow> (unit result \<times> ('d, 'f, 'p) InboundPipeline) option" where
  "play_frame fo decoded ib =
     (case decoded of
        Inl e \<Rightarrow> Some (Inl e, ib)
      | Inr frame \<Rightarrow>
          (case FilterChain_process (ib_filters ib) frame of
             None \<Rightarrow> None
           | Some (Inl e, frame', filters) \<Rightarrow> Some (Inl e, ib\<lparr>ib_filters := filters\<rparr>)
           | Some (Inr u, frame', filters) \<Rightarrow>
               (case inbound_boundary_crossfade fo frame' (ib_prev_last_sample ib) of
                  None \<Rightarrow> None
                | Some (frame'', prev) \<Rightarrow>
                    (case write_frame (ib_playback_ops ib) frame'' (ib_playback ib) of
                       (r, p) \<Rightarrow> Some (r, ib\<lparr>ib_filters := filters, ib_prev_last_sample := prev,
                                              ib_playback := p\<rparr>)))))"

definition InboundPipeline_tick_lost ::
    "f32_ops \<Rightarrow> ('d, 'f, 'p) InboundPipeline \<Rightarrow> (unit result \<times> ('d, 'f, 'p) InboundPipeline) option" where
  "InboundPipeline_tick_lost fo ib =
     (case decode_lost (ib_decoder_ops ib) (ib_decoder ib) of
        None \<Rightarrow> None
      | Some (r, d) \<Rightarrow> play_frame fo r (ib\<lparr>ib_decoder := d\<rparr>))"

text \<open>The loop over the gap ignores the result of each concealment frame.\<close>

fun conceal :: "f32_ops \<Rightarrow> nat \<Rightarrow> ('d, 'f, 'p) InboundPipeline \<Rightarrow> ('d, 'f, 'p) InboundPipeline option" where
  "conceal fo 0 ib = Some ib"
| "conceal fo (Suc n) ib =
     (case InboundPipeline_tick_lost fo ib of None \<Rightarrow> None | Some (r, ib') \<Rightarrow> conceal fo n ib')"

definition InboundPipeline_tick ::
    "f32_ops \<Rightarrow> EncodedPacket \<Rightarrow> ('d, 'f, 'p) InboundPipeline
      \<Rightarrow> (unit result \<times> ('d, 'f, 'p) InboundPipeline) option" where
  "InboundPipeline_tick fo packet ib =
     (case detect_sequence_gap (ib_last_seq ib) (ib_seq_step ib) (ep_sequence packet) of
        (gap, step) \<Rightarrow>
          (case conceal fo (case gap of None \<Rightarrow> 0 | Some n \<Rightarrow> unat n) (ib\<lparr>ib_seq_step := step\<rparr>) of
             None \<Rightarrow> None
           | Some ib \<Rightarrow>
               let ib = ib\<lparr>ib_last_seq := Some (ep_sequence packet)\<rparr>
               in case decode (ib_decoder_ops ib) packet (ib_decoder ib) of
                    None \<Rightarrow> None
                  | Some (r, d) \<Rightarrow> play_frame fo r (ib\<lparr>ib_decoder := d\<rparr>)))"

definition InboundPipeline_start ::
    "('d, 'f, 'p) InboundPipeline \<Rightarrow> unit result \<times> ('d, 'f, 'p) InboundPipeline" where
  "InboundPipeline_start ib =
     (case playback_start (ib_playback_ops ib) (ib_playback ib) of (r, p) \<Rightarrow> (r, ib\<lparr>ib_playback := p\<rparr>))"

definition InboundPipeline_stop ::
    "('d, 'f, 'p) InboundPipeline \<Rightarrow> unit result \<times> ('d, 'f, 'p) InboundPipeline" where
  "InboundPipeline_stop ib =
     (case playback_stop (ib_playback_ops ib) (ib_playback ib) of (r, p) \<Rightarrow> (r, ib\<lparr>ib_playback := p\<rparr>))"

definition InboundPipeline_reset :: "('d, 'f, 'p) InboundPipeline \<Rightarrow> ('d, 'f, 'p) InboundPipeline" where
  "InboundPipeline_reset ib =
     ib\<lparr>ib_decoder := decoder_reset (ib_decoder_ops ib) (ib_decoder ib),
        ib_filters := FilterChain_reset (ib_filters ib), ib_last_seq := None, ib_seq_step := None,
        ib_prev_last_sample := None\<rparr>"

section \<open>Builders\<close>

record ('c, 'f, 'e) OutboundPipelineBuilder =
  obb_capture :: "('c AudioCapture \<times> 'c) option"
  obb_filters :: "'f FilterChain"
  obb_encoder :: "('e AudioEncoder \<times> 'e) option"

definition OutboundPipelineBuilder_new :: "('c, 'f, 'e) OutboundPipelineBuilder" where
  "OutboundPipelineBuilder_new = \<lparr>obb_capture = None, obb_filters = [], obb_encoder = None\<rparr>"

definition obb_set_capture ::
    "'c AudioCapture \<times> 'c \<Rightarrow> ('c, 'f, 'e) OutboundPipelineBuilder \<Rightarrow> ('c, 'f, 'e) OutboundPipelineBuilder" where
  "obb_set_capture c b = b\<lparr>obb_capture := Some c\<rparr>"

definition obb_filter ::
    "'f AudioFilter \<times> 'f \<Rightarrow> ('c, 'f, 'e) OutboundPipelineBuilder \<Rightarrow> ('c, 'f, 'e) OutboundPipelineBuilder" where
  "obb_filter f b = b\<lparr>obb_filters := FilterChain_push (fst f) (snd f) (obb_filters b)\<rparr>"

definition obb_set_encoder ::
    "'e AudioEncoder \<times> 'e \<Rightarrow> ('c, 'f, 'e) OutboundPipelineBuilder \<Rightarrow> ('c, 'f, 'e) OutboundPipelineBuilder" where
  "obb_set_encoder e b = b\<lparr>obb_encoder := Some e\<rparr>"

definition obb_build :: "('c, 'f, 'e) OutboundPipelineBuilder \<Rightarrow> ('c, 'f, 'e) OutboundPipeline result" where
  "obb_build b =
     (case obb_capture b of
        None \<Rightarrow> Inl (InvalidState ''capture source is required'')
      | Some capture \<Rightarrow>
          (case obb_encoder b of
             None \<Rightarrow> Inl (InvalidState ''encoder is required'')
           | Some enc \<Rightarrow> Inr (OutboundPipeline_new capture (obb_filters b) enc)))"

record ('d, 'f, 'p) InboundPipelineBuilder =
  ibb_decoder :: "('d AudioDecoder \<times> 'd) option"
  ibb_filters :: "'f FilterChain"
  ibb_playback :: "('p AudioPlayback \<times> 'p) option"

definition InboundPipelineBuilder_new :: "('d, 'f, 'p) InboundPipelineBuilder" where
  "InboundPipelineBuilder_new = \<lparr>ibb_decoder = None, ibb_filters = [], ibb_playback = None\<rparr>"

definition ibb_set_decoder ::
    "'d AudioDecoder \<times> 'd \<Rightarrow> ('d, 'f, 'p) InboundPipelineBuilder \<Rightarrow> ('d, 'f, 'p) InboundPipelineBuilder" where
  "ibb_set_decoder d b = b\<lparr>ibb_decoder := Some d\<rparr>"

definition ibb_filter ::
    "'f AudioFilter \<times> 'f \<Rightarrow> ('d, 'f, 'p) InboundPipelineBuilder \<Rightarrow> ('d, 'f, 'p) InboundPipelineBuilder" where
  "ibb_filter f b = b\<lparr>ibb_filters := FilterChain_push (fst f) (snd f) (ibb_filters b)\<rparr>"

definition ibb_set_playback ::
    "'p AudioPlayback \<times> 'p \<Rightarrow> ('d, 'f, 'p) InboundPipelineBuilder \<Rightarrow> ('d, 'f, 'p) InboundPipelineBuilder" where
  "ibb_set_playback p b = b\<lparr>ibb_playback := Some p\<rparr>"

definition ibb_build :: "('d, 'f, 'p) InboundPipelineBuilder \<Rightarrow> ('d, 'f, 'p) InboundPipeline result" where
  "ibb_build b =
     (case ibb_decoder b of
        None \<Rightarrow> Inl (InvalidState ''decoder is required'')
      | Some dec \<Rightarrow>
          (case ibb_playback b of
             None \<Rightarrow> Inl (InvalidState ''playback sink is required'')
           | Some playback \<Rightarrow> Inr (InboundPipeline_new dec (ibb_filters b) playback)))"

section \<open>Outbound runs\<close>

text \<open>The caller ticks the pipeline and logs errors.\<close>

fun outbound_run ::
    "nat \<Rightarrow> ('c, 'f, 'e) OutboundPipeline \<Rightarrow> (OutboundTick result list \<times> ('c, 'f, 'e) OutboundPipeline) option" where
  "outbound_run 0 ob = Some ([], ob)"
| "outbound_run (Suc n) ob =
     (case OutboundPipeline_tick ob of
        None \<Rightarrow> None
      | Some (r, ob') \<Rightarrow> map_option (\<lambda>(rs, ob''). (r # rs, ob'')) (outbound_run n ob'))"

fun tick_packet :: "OutboundTick result \<Rightarrow> EncodedPacket list" where
  "tick_packet (Inr (Audio p)) = [p]"
| "tick_packet (Inr (Terminator p)) = [p]"
| "tick_packet _ = []"

fun packet_of :: "EncodedPacket result \<Rightarrow> EncodedPacket list" where
  "packet_of (Inl e) = []"
| "packet_of (Inr p) = [p]"

text \<open>The language of talk spurts: audio frames, then one terminator, then silence until audio comes again. A tick without
  data may occur anywhere.\<close>

fun spurts :: "bool \<Rightarrow> OutboundTick list \<Rightarrow> bool" where
  "spurts talking [] = True"
| "spurts talking (Audio p # ts) = spurts True ts"
| "spurts talking (Terminator p # ts) = (talking \<and> spurts False ts)"
| "spurts talking (Silence # ts) = (\<not> talking \<and> spurts False ts)"
| "spurts talking (NoData # ts) = spurts talking ts"

fun tick_talking :: "OutboundTick \<Rightarrow> bool \<Rightarrow> bool" where
  "tick_talking (Audio p) talking = True"
| "tick_talking (Terminator p) talking = False"
| "tick_talking Silence talking = False"
| "tick_talking NoData talking = talking"

lemma spurts_Cons:
  "spurts talking (t # ts) \<longleftrightarrow>
     (case t of Terminator p \<Rightarrow> talking | Silence \<Rightarrow> \<not> talking | _ \<Rightarrow> True) \<and> spurts (tick_talking t talking) ts"
  by (cases t) simp_all

lemma encode_tick_cases:
  assumes "encode_tick t frame ob = Some (r, ob')"
  obtains r0 enc where "encode (ob_encoder_ops ob) frame (ob_encoder ob) = Some (r0, enc)"
    "ob' = ob\<lparr>ob_encoder := enc\<rparr>" "r = (case r0 of Inl e \<Rightarrow> Inl e | Inr packet \<Rightarrow> Inr (t packet))"
  using assms by (auto simp: encode_tick_def)

lemma tick_spurt:
  assumes "OutboundPipeline_tick ob = Some (Inr t, ob')"
  shows "(case t of Terminator p \<Rightarrow> ob_was_talking ob | Silence \<Rightarrow> \<not> ob_was_talking ob | _ \<Rightarrow> True) \<and>
    ob_was_talking ob' = tick_talking t (ob_was_talking ob)"
  using assms
  by (auto simp: OutboundPipeline_tick_def Let_def elim!: encode_tick_cases
      split: prod.splits sum.splits option.splits if_splits OutboundTick.splits)

lemma tick_keeps_encoder:
  assumes "OutboundPipeline_tick ob = Some (r, ob')"
  shows "ob_encoder_ops ob' = ob_encoder_ops ob"
    "(\<exists>frame r0. encode (ob_encoder_ops ob) frame (ob_encoder ob) = Some (r0, ob_encoder ob') \<and>
        tick_packet r = packet_of r0) \<or>
     ob_encoder ob' = ob_encoder ob \<and> tick_packet r = []"
proof -
  from assms consider
      "ob_encoder_ops ob' = ob_encoder_ops ob" "ob_encoder ob' = ob_encoder ob" "tick_packet r = []"
    | t frame ob1 where "encode_tick t frame ob1 = Some (r, ob')" "t = Audio \<or> t = Terminator"
        "ob_encoder_ops ob1 = ob_encoder_ops ob" "ob_encoder ob1 = ob_encoder ob"
    by (auto simp: OutboundPipeline_tick_def Let_def split: prod.splits sum.splits option.splits if_splits)
  then show "ob_encoder_ops ob' = ob_encoder_ops ob"
    "(\<exists>frame r0. encode (ob_encoder_ops ob) frame (ob_encoder ob) = Some (r0, ob_encoder ob') \<and>
        tick_packet r = packet_of r0) \<or>
     ob_encoder ob' = ob_encoder ob \<and> tick_packet r = []"
    by (cases; fastforce elim!: encode_tick_cases split: sum.splits)+
qed

text \<open>An encoder that numbers the packets it produces.\<close>

locale numbered_encoder =
  fixes ops :: "'e AudioEncoder" and seq :: "'e \<Rightarrow> u64"
  assumes encode_numbers: "encode ops frame e = Some (Inr p, e') \<Longrightarrow> ep_sequence p = seq e \<and> seq e' = seq e + 1"
    and encode_fails: "encode ops frame e = Some (Inl err, e') \<Longrightarrow> seq e' = seq e"
begin

lemma tick_numbers:
  assumes "OutboundPipeline_tick ob = Some (r, ob')" "ob_encoder_ops ob = ops"
  shows "(tick_packet r = [] \<and> seq (ob_encoder ob') = seq (ob_encoder ob)) \<or>
    (\<exists>p. tick_packet r = [p] \<and> ep_sequence p = seq (ob_encoder ob) \<and> seq (ob_encoder ob') = seq (ob_encoder ob) + 1)"
  using tick_keeps_encoder(2) [OF assms(1)]
proof (elim disjE exE conjE)
  fix frame r0
  assume e: "encode (ob_encoder_ops ob) frame (ob_encoder ob) = Some (r0, ob_encoder ob')" and r: "tick_packet r = packet_of r0"
  from e have "encode ops frame (ob_encoder ob) = Some (r0, ob_encoder ob')" by (simp only: assms(2))
  with r show ?thesis by (cases r0) (auto dest: encode_numbers encode_fails)
qed simp

lemma run_numbers:
  assumes "outbound_run n ob = Some (rs, ob')" "ob_encoder_ops ob = ops"
  shows "map ep_sequence (concat (map tick_packet rs)) =
      map (\<lambda>i. seq (ob_encoder ob) + of_nat i) [0..<length (concat (map tick_packet rs))] \<and>
    seq (ob_encoder ob') = seq (ob_encoder ob) + of_nat (length (concat (map tick_packet rs)))"
  using assms
proof (induction n arbitrary: ob rs)
  case (Suc n)
  then obtain r ob1 rs' where t: "OutboundPipeline_tick ob = Some (r, ob1)"
      "outbound_run n ob1 = Some (rs', ob')" "rs = r # rs'"
    by (auto split: option.splits prod.splits)
  have ops1: "ob_encoder_ops ob1 = ops" using tick_keeps_encoder(1) [OF t(1)] Suc.prems(2) by simp
  have shift: "map (\<lambda>i. x + of_nat i) [0..<Suc k] = x # map (\<lambda>i. x + 1 + of_nat i) [0..<k]" for x :: u64 and k
    by (simp add: map_upt_Suc add.assoc del: upt_Suc)
  note IH = Suc.IH [OF t(2) ops1]
  from tick_numbers [OF t(1) Suc.prems(2)] show ?case
  proof (elim disjE exE conjE)
    fix p
    assume p: "tick_packet r = [p]" "ep_sequence p = seq (ob_encoder ob)"
      "seq (ob_encoder ob1) = seq (ob_encoder ob) + 1"
    with IH shift show ?thesis by (simp add: t(3) add.assoc del: upt_Suc)
  qed (use IH t(3) in simp)
qed simp

end

interpretation opus_enc: numbered_encoder "opus_encoder op" oe_sequence
  by unfold_locales
     (auto simp: opus_encoder_def OpusEncoder_encode_def split: option.splits prod.splits sum.splits if_splits)

section \<open>Inbound runs\<close>

text \<open>A playback that keeps what is written to it.\<close>

definition log_playback :: "AudioFrame list AudioPlayback" where
  "log_playback =
     \<lparr>write_frame = (\<lambda>frame p. (Inr (), p @ [frame])), playback_start = (\<lambda>p. (Inr (), p)),
      playback_stop = (\<lambda>p. (Inr (), p))\<rparr>"

text \<open>The gap arithmetic away from the wrap-around of the counter: after \<open>k\<close> lost packets of the learned step.\<close>

lemma gap_exact:
  assumes "step \<noteq> 0" "unat prev + Suc k * unat step < 2 ^ 64"
  shows "detect_sequence_gap (Some prev) (Some step) (prev + of_nat (Suc k) * step) =
    (if k = 0 then None else Some (of_nat (min k 3)), Some step)"
proof -
  let ?in = "prev + of_nat (Suc k) * step"
  have one: "1 \<le> unat step" using assms(1) by (simp add: unat_gt_0 Suc_le_eq)
  then have Sk: "Suc k \<le> Suc k * unat step" by (metis mult.right_neutral mult_le_mono2)
  with assms(2) have kk: "unat (of_nat k :: u64) = k" by (simp add: unat_of_nat)
  from Sk assms(2) have "unat (of_nat (Suc k) :: u64) = Suc k" by (simp add: unat_of_nat del: of_nat_Suc)
  with assms(2) have "unat (of_nat (Suc k) * step) = Suc k * unat step"
    using unat_mult_lem [of "of_nat (Suc k)" step] by (simp del: of_nat_Suc)
  with assms(2) have i: "unat ?in = unat prev + Suc k * unat step"
    using unat_add_lem [of prev "of_nat (Suc k) * step"] by (simp del: of_nat_Suc)
  have e: "unat (prev + step) = unat prev + unat step"
    using assms(2) unat_add_lem [of prev step] by simp
  have lt: "prev + step < ?in \<longleftrightarrow> 0 < k" using i e one by (simp add: word_less_nat_alt del: of_nat_Suc)
  have "unat ((?in - (prev + step)) div step) = k" if "0 < k"
  proof -
    have "prev + step \<le> ?in" using that lt by (simp only: less_imp_le)
    then have "unat (?in - (prev + step)) = k * unat step" unfolding unat_sub [OF \<open>prev + step \<le> ?in\<close>] i e by simp
    with one show ?thesis by (simp only: unat_div) simp
  qed
  then have "(?in - (prev + step)) div step = of_nat k" if "0 < k"
    using that of_nat_unat [where 'a = u64] by (metis ucast_id unat_of_nat of_nat_unat)
  then show ?thesis
    using assms(1) lt kk
    by (auto simp: detect_sequence_gap_def Let_def min_def word_le_nat_alt simp del: of_nat_Suc)
qed

text \<open>A decoder that always delivers a frame of floats.\<close>

definition decoder_delivers :: "'d AudioDecoder \<Rightarrow> bool" where
  "decoder_delivers ops \<longleftrightarrow>
     (\<forall>p d. \<exists>frame d'. decode ops p d = Some (Inr frame, d') \<and> frame_ok frame) \<and>
     (\<forall>d. \<exists>frame d'. decode_lost ops d = Some (Inr frame, d') \<and> frame_ok frame)"

text \<open>The fields that the stages of a tick leave alone.\<close>

definition inbound_ready :: "f32_ops \<Rightarrow> ('d, dyn_filter, AudioFrame list) InboundPipeline \<Rightarrow> bool" where
  "inbound_ready fo ib \<longleftrightarrow> decoder_delivers (ib_decoder_ops ib) \<and> ib_playback_ops ib = log_playback \<and>
     (\<exists>ds. ib_filters ib = dyn_chain fo ds \<and> list_all (dyn_ok fo) ds)"

lemma inbound_crossfade_ok:
  assumes "frame_ok frame"
  obtains frame' prev' where "inbound_boundary_crossfade fo frame prev = Some (frame', prev')" "same_shape frame frame'"
  using assms frame_ok_samples [OF assms] same_shape_set [OF assms]
  by (auto simp: inbound_boundary_crossfade_def frame_ok_def Let_def split: option.splits intro!: that)

lemma play_frame_ready:
  assumes ready: "inbound_ready fo ib" and frame: "frame_ok frame"
  obtains ib' frame' where "play_frame fo (Inr frame) ib = Some (Inr (), ib')" "inbound_ready fo ib'"
    "ib_playback ib' = ib_playback ib @ [frame']" "same_shape frame frame'"
    "ib_last_seq ib' = ib_last_seq ib" "ib_seq_step ib' = ib_seq_step ib"
proof -
  obtain ds where ds: "ib_filters ib = dyn_chain fo ds" "list_all (dyn_ok fo) ds"
    using ready by (auto simp: inbound_ready_def)
  obtain frame1 ds' where f: "FilterChain_process (dyn_chain fo ds) frame = Some (Inr (), frame1, dyn_chain fo ds')"
      "same_shape frame frame1" "list_all (dyn_ok fo) ds'"
    using dyn.chain_process [OF frame ds(2)] by (auto simp: dyn_chain_def)
  obtain frame2 prev where c: "inbound_boundary_crossfade fo frame1 (ib_prev_last_sample ib) = Some (frame2, prev)"
      "same_shape frame1 frame2"
    by (rule inbound_crossfade_ok [of frame1 fo "ib_prev_last_sample ib"]) (use frame f(2) in \<open>simp add: same_shape_ok\<close>)
  show thesis
    by (rule that [where frame' = frame2 and ib' = "ib\<lparr>ib_filters := dyn_chain fo ds', ib_prev_last_sample := prev,
          ib_playback := ib_playback ib @ [frame2]\<rparr>"])
       (use ready ds f c same_shape_trans [OF f(2) c(2)] in
         \<open>auto simp: play_frame_def inbound_ready_def log_playback_def\<close>)
qed

lemma conceal_ready:
  assumes "inbound_ready fo ib"
  shows "\<exists>ib' frames. conceal fo n ib = Some ib' \<and> inbound_ready fo ib' \<and>
    ib_playback ib' = ib_playback ib @ frames \<and> length frames = n \<and>
    ib_last_seq ib' = ib_last_seq ib \<and> ib_seq_step ib' = ib_seq_step ib"
  using assms
proof (induction n arbitrary: ib)
  case (Suc n)
  then obtain frame d where d: "decode_lost (ib_decoder_ops ib) (ib_decoder ib) = Some (Inr frame, d)" "frame_ok frame"
    unfolding inbound_ready_def decoder_delivers_def by metis
  have "inbound_ready fo (ib\<lparr>ib_decoder := d\<rparr>)" using Suc.prems by (simp add: inbound_ready_def)
  then obtain ib1 frame1 where 1: "play_frame fo (Inr frame) (ib\<lparr>ib_decoder := d\<rparr>) = Some (Inr (), ib1)"
      "inbound_ready fo ib1" "ib_playback ib1 = ib_playback ib @ [frame1]"
      "ib_last_seq ib1 = ib_last_seq ib" "ib_seq_step ib1 = ib_seq_step ib"
    by (rule play_frame_ready [OF _ d(2)]) simp
  from Suc.IH [OF 1(2)] obtain ib2 frames where "conceal fo n ib1 = Some ib2" "inbound_ready fo ib2"
      "ib_playback ib2 = ib_playback ib1 @ frames" "length frames = n"
      "ib_last_seq ib2 = ib_last_seq ib1" "ib_seq_step ib2 = ib_seq_step ib1"
    by blast
  with d 1 show ?case by (intro exI [of _ ib2] exI [of _ "frame1 # frames"]) (simp add: InboundPipeline_tick_lost_def)
qed simp

lemma inbound_tick_ready:
  fixes ib :: "('d, dyn_filter, AudioFrame list) InboundPipeline"
  assumes ready: "inbound_ready fo ib"
    and gap: "detect_sequence_gap (ib_last_seq ib) (ib_seq_step ib) (ep_sequence packet) = (gap, step)"
  shows "\<exists>ib' frames. InboundPipeline_tick fo packet ib = Some (Inr (), ib') \<and> inbound_ready fo ib' \<and>
    ib_playback ib' = ib_playback ib @ frames \<and> length frames = Suc (case gap of None \<Rightarrow> 0 | Some n \<Rightarrow> unat n) \<and>
    ib_last_seq ib' = Some (ep_sequence packet) \<and> ib_seq_step ib' = step"
proof -
  let ?n = "case gap of None \<Rightarrow> 0 | Some n \<Rightarrow> unat n"
  have "inbound_ready fo (ib\<lparr>ib_seq_step := step\<rparr>)" using ready by (simp add: inbound_ready_def)
  from conceal_ready [OF this, of ?n] obtain ib1 frames where 1: "conceal fo ?n (ib\<lparr>ib_seq_step := step\<rparr>) = Some ib1"
      "inbound_ready fo ib1" "ib_playback ib1 = ib_playback ib @ frames" "length frames = ?n"
      "ib_seq_step ib1 = step"
    by auto
  then obtain frame d where d: "decode (ib_decoder_ops ib1) packet (ib_decoder ib1) = Some (Inr frame, d)" "frame_ok frame"
    unfolding inbound_ready_def decoder_delivers_def by metis
  have "inbound_ready fo (ib1\<lparr>ib_last_seq := Some (ep_sequence packet), ib_decoder := d\<rparr>)"
    using 1(2) by (simp add: inbound_ready_def)
  then obtain ib2 frame' where "play_frame fo (Inr frame)
        (ib1\<lparr>ib_last_seq := Some (ep_sequence packet), ib_decoder := d\<rparr>) = Some (Inr (), ib2)"
      "inbound_ready fo ib2" "ib_playback ib2 = ib_playback ib1 @ [frame']"
      "ib_last_seq ib2 = Some (ep_sequence packet)" "ib_seq_step ib2 = ib_seq_step ib1"
    by (rule play_frame_ready [OF _ d(2)]) simp
  with gap 1 d show ?thesis
    by (intro exI [of _ ib2] exI [of _ "frames @ [frame']"]) (simp add: InboundPipeline_tick_def)
qed

section \<open>Properties\<close>

text \<open>C23: A run of the outbound pipeline without errors, whatever the capture, the filters and the encoder do, is a sequence of talk
  spurts: a terminator comes exactly once after the last audio frame of a spurt and never without one, and silence is
  reported only between spurts.\<close>

theorem outbound_talk_spurts:
  assumes "outbound_run n ob = Some (map Inr ts, ob')"
  shows "spurts (ob_was_talking ob) ts \<and> ob_was_talking ob' = fold tick_talking ts (ob_was_talking ob)"
  using assms
proof (induction n arbitrary: ob ts)
  case (Suc n)
  then obtain t ts' ob1 where t: "OutboundPipeline_tick ob = Some (Inr t, ob1)" "ts = t # ts'"
      "outbound_run n ob1 = Some (map Inr ts', ob')"
    by (auto split: option.splits)
  from tick_spurt [OF t(1)] Suc.IH [OF t(3)] show ?case by (simp add: t(2) spurts_Cons)
qed simp

definition demo_outbound :: "(SilentCapture, dyn_filter, unit OpusEncoder) OutboundPipeline" where
  "demo_outbound =
     OutboundPipeline_new (silent_capture, SilentCapture_new MONO_48KHZ_F32 1)
       (dyn_chain demo_f32 [DynGate demo_gate])
       (opus_encoder demo_opus, \<lparr>oe_config = default_OpusEncoderConfig False, oe_format = MONO_48KHZ_F32,
          oe_inner = (), oe_out_buf = [0, 0], oe_sequence = 40\<rparr>)"

definition demo_ticks :: "OutboundTick list" where
  "demo_ticks =
     [Audio \<lparr>ep_data = [0], ep_sequence = 40, ep_frame_samples = 960\<rparr>,
      Audio \<lparr>ep_data = [0], ep_sequence = 41, ep_frame_samples = 960\<rparr>,
      Terminator \<lparr>ep_data = [0], ep_sequence = 42, ep_frame_samples = 960\<rparr>, Silence]"

lemma demo_run: "map_option fst (outbound_run 4 demo_outbound) = Some (map Inr demo_ticks)"
  by code_simp

theorem outbound_talk_spurts_witness:
  "map_option fst (outbound_run 4 demo_outbound) = Some (map Inr demo_ticks) \<and> spurts False demo_ticks"
  using demo_run outbound_talk_spurts [of 4 demo_outbound demo_ticks]
  by (auto simp: demo_outbound_def OutboundPipeline_new_def)

text \<open>The packets that an outbound run with the Opus encoder hands to the network carry consecutive sequence numbers (modulo
  \<open>2 ^ 64\<close>), starting at the encoder's counter, also when some ticks fail, across talk spurts and silence.\<close>

theorem outbound_packets_numbered:
  assumes "outbound_run n ob = Some (rs, ob')" "ob_encoder_ops ob = opus_encoder op"
  shows "map ep_sequence (concat (map tick_packet rs)) =
    map (\<lambda>i. oe_sequence (ob_encoder ob) + of_nat i) [0..<length (concat (map tick_packet rs))]"
  using opus_enc.run_numbers [OF assms] by blast

theorem outbound_packets_numbered_witness:
  "map ep_sequence (concat (map tick_packet (map Inr demo_ticks))) = [40, 41, 42]"
proof -
  obtain ob' where "outbound_run 4 demo_outbound = Some (map Inr demo_ticks, ob')"
    using demo_run by auto
  moreover have "ob_encoder_ops demo_outbound = opus_encoder demo_opus"
      "oe_sequence (ob_encoder demo_outbound) = 40"
    by (simp_all add: demo_outbound_def OutboundPipeline_new_def)
  ultimately show ?thesis
    using outbound_packets_numbered [of 4 demo_outbound "map Inr demo_ticks" ob' demo_opus]
    by (simp add: demo_ticks_def)
qed

text \<open>When \<open>k\<close> packets of the learned step are missing, a packet makes the inbound pipeline play \<open>min k 3\<close> concealment
  frames and then the packet's own frame, provided the sequence numbers stay below the wrap-around; the
  sequence number is remembered and the step kept.\<close>

theorem inbound_conceals_gap:
  assumes "inbound_ready fo ib" "ib_last_seq ib = Some prev" "ib_seq_step ib = Some step" "step \<noteq> 0"
    and "unat prev + Suc k * unat step < 2 ^ 64" "ep_sequence packet = prev + of_nat (Suc k) * step"
  shows "\<exists>ib' frames. InboundPipeline_tick fo packet ib = Some (Inr (), ib') \<and>
    ib_playback ib' = ib_playback ib @ frames \<and> length frames = min k 3 + 1 \<and>
    ib_last_seq ib' = Some (ep_sequence packet) \<and> ib_seq_step ib' = Some step"
proof -
  have "unat (of_nat (min k 3) :: u64) = min k 3" by (simp add: unat_of_nat min_def)
  with inbound_tick_ready [OF assms(1), of packet] gap_exact [OF assms(4,5)] assms(2,3,6) show ?thesis
    by (force simp del: of_nat_Suc split: if_splits)
qed

definition const_decoder :: "unit AudioDecoder" where
  "const_decoder =
     \<lparr>decode = (\<lambda>p d. Some (Inr demo_frame, d)), decode_lost = (\<lambda>d. Some (Inr demo_frame, d)),
      decoder_reset = (\<lambda>d. d)\<rparr>"

definition demo_inbound :: "(unit, dyn_filter, AudioFrame list) InboundPipeline" where
  "demo_inbound =
     (InboundPipeline_new (const_decoder, ()) (dyn_chain demo_f32 [DynLowPass (LowPassFilter_new demo_f32 default_LowPassConfig)])
       (log_playback, []))\<lparr>ib_last_seq := Some 960, ib_seq_step := Some 480\<rparr>"

lemma demo_inbound_ready: "inbound_ready demo_f32 demo_inbound"
  by (auto simp: inbound_ready_def demo_inbound_def InboundPipeline_new_def decoder_delivers_def const_decoder_def
      demo_frame_ok dyn_ok_def intro!: exI [of _ "[DynLowPass (LowPassFilter_new demo_f32 default_LowPassConfig)]"])

theorem inbound_conceals_gap_witness:
  "\<exists>ib' frames. InboundPipeline_tick demo_f32 \<lparr>ep_data = [], ep_sequence = 2400, ep_frame_samples = 480\<rparr> demo_inbound =
      Some (Inr (), ib') \<and> ib_playback ib' = frames \<and> length frames = 3"
  using inbound_conceals_gap [OF demo_inbound_ready, of 960 480 2 "\<lparr>ep_data = [], ep_sequence = 2400, ep_frame_samples = 480\<rparr>"]
  by (auto simp: demo_inbound_def InboundPipeline_new_def)

text \<open>The step between sequence numbers is learned from the first two packets only: once learned it never changes, and when
  the second packet of a stream numbered by ones was lost, the learned step is two and no later loss of a single
  packet is concealed.\<close>

theorem inbound_step_learned_once:
  "snd (detect_sequence_gap last_seq (Some step) q) = Some step \<and>
   detect_sequence_gap (Some 0) None 2 = (None, Some 2) \<and>
   fst (detect_sequence_gap (Some prev) (Some 2) (prev + 2)) = None"
  by (auto simp: detect_sequence_gap_def Let_def split: option.splits)

end
