(* ===== verification/App_Types.thy ===== *)
theory App_Types
  imports Server_State Audio_Codec
begin

text \<open>
  The values of the application backend (src/crates/mumble-tauri/src/state/types.rs): the entries of
  channels and users, chat messages, the configuration reported by a server, and the payloads of the
  events sent to the user interface. The attributes of serde, which only choose the JSON of a field,
  are left out.
\<close>

text \<open>\<^verbatim>\<open>Option::unwrap_or\<close> and \<^verbatim>\<open>unwrap_or_default\<close>.\<close>

definition unwrap_or :: "'a \<Rightarrow> 'a option \<Rightarrow> 'a" where
  "unwrap_or d x = (case x of None \<Rightarrow> d | Some a \<Rightarrow> a)"

lemma unwrap_or_simps [simp]: "unwrap_or d None = d" "unwrap_or d (Some a) = a"
  by (simp_all add: unwrap_or_def)

record ChannelEntry =
  ce_id :: u32
  ce_parent_id :: "u32 option"
  ce_name :: string
  ce_description :: string
  ce_description_hash :: "bytes option"
  ce_user_count :: u32
  ce_permissions :: "u32 option"
  ce_temporary :: bool
  ce_position :: i32
  ce_max_users :: u32
  ce_pchat_protocol :: "PchatProtocol option"
  ce_pchat_max_history :: "u32 option"
  ce_pchat_retention_days :: "u32 option"
  ce_pchat_key_custodians :: "string list"

record UserEntry =
  ue_session :: u32
  ue_name :: string
  ue_channel_id :: u32
  ue_user_id :: "u32 option"
  ue_texture :: "bytes option"
  ue_comment :: "string option"
  ue_mute :: bool
  ue_deaf :: bool
  ue_suppress :: bool
  ue_self_mute :: bool
  ue_self_deaf :: bool
  ue_priority_speaker :: bool
  ue_hash :: "string option"
  ue_client_features :: "i32 list"

definition UserEntry_new :: "u32 \<Rightarrow> UserEntry" where
  "UserEntry_new session =
     \<lparr>ue_session = session, ue_name = '''', ue_channel_id = 0, ue_user_id = None, ue_texture = None,
      ue_comment = None, ue_mute = False, ue_deaf = False, ue_suppress = False, ue_self_mute = False,
      ue_self_deaf = False, ue_priority_speaker = False, ue_hash = None, ue_client_features = []\<rparr>"

text \<open>The value of \<^verbatim>\<open>ClientFeature::FeaturePchatE2ee\<close> is 0.\<close>

definition has_pchat_e2ee :: "UserEntry \<Rightarrow> bool" where
  "has_pchat_e2ee u \<longleftrightarrow> 0 \<in> set (ue_client_features u)"

record ChatMessage =
  cm_sender_session :: "u32 option"
  cm_sender_name :: string
  cm_sender_hash :: "string option"
  cm_body :: string
  cm_channel_id :: u32
  cm_is_own :: bool
  cm_dm_session :: "u32 option"
  cm_message_id :: "string option"
  cm_timestamp :: "u64 option"
  cm_is_legacy :: bool
  cm_edited_at :: "u64 option"
  cm_pinned :: bool
  cm_pinned_by :: "string option"
  cm_pinned_at :: "u64 option"

text \<open>\<^verbatim>\<open>ensure_id\<close>; the random identifier is the argument \<open>uuid\<close>.\<close>

definition ensure_id :: "string \<Rightarrow> ChatMessage \<Rightarrow> ChatMessage" where
  "ensure_id uuid m = (if cm_message_id m = None then m\<lparr>cm_message_id := Some uuid\<rparr> else m)"

lemma ensure_id_fields [simp]:
  "cm_sender_session (ensure_id u m) = cm_sender_session m"
  "cm_sender_name (ensure_id u m) = cm_sender_name m"
  "cm_sender_hash (ensure_id u m) = cm_sender_hash m"
  "cm_body (ensure_id u m) = cm_body m"
  "cm_channel_id (ensure_id u m) = cm_channel_id m"
  "cm_is_own (ensure_id u m) = cm_is_own m"
  "cm_dm_session (ensure_id u m) = cm_dm_session m"
  "cm_timestamp (ensure_id u m) = cm_timestamp m"
  "cm_is_legacy (ensure_id u m) = cm_is_legacy m"
  "cm_message_id (ensure_id u m) = Some (case cm_message_id m of Some i \<Rightarrow> i | None \<Rightarrow> u)"
  by (auto simp: ensure_id_def)

datatype ConnectionStatus = Disconnected | Connecting | Connected

record ServerLogEntry =
  sl_timestamp_ms :: u64
  sl_message :: string

definition ServerLogEntry_now :: "u64 \<Rightarrow> string \<Rightarrow> ServerLogEntry" where
  "ServerLogEntry_now now_ms msg = \<lparr>sl_timestamp_ms = now_ms, sl_message = msg\<rparr>"

text \<open>The application's own \<^verbatim>\<open>ServerConfig\<close>; the protobuf message has the same name.\<close>

record AppServerConfig =
  sc_max_message_length :: u32
  sc_max_image_message_length :: u32
  sc_allow_html :: bool
  sc_webrtc_sfu_available :: bool
  sc_fancy_rest_api_url :: "string option"

definition default_AppServerConfig :: AppServerConfig where
  "default_AppServerConfig =
     \<lparr>sc_max_message_length = 5000, sc_max_image_message_length = 131072, sc_allow_html = True,
      sc_webrtc_sfu_available = False, sc_fancy_rest_api_url = None\<rparr>"

record ServerVersionInfo =
  vi_release :: "string option"
  vi_os :: "string option"
  vi_os_version :: "string option"
  vi_version_v1 :: "u32 option"
  vi_version_v2 :: "u64 option"
  vi_fancy_version :: "u64 option"

definition default_ServerVersionInfo :: ServerVersionInfo where
  "default_ServerVersionInfo =
     \<lparr>vi_release = None, vi_os = None, vi_os_version = None, vi_version_v1 = None,
      vi_version_v2 = None, vi_fancy_version = None\<rparr>"

datatype VoiceState = Inactive | Active | Muted

text \<open>The audio settings of the user. The parameters of a denoiser are an ordered map, kept as the sorted list of
  its entries.\<close>

datatype NoiseSuppressionAlgorithm = NS_None | Rnnoise | SpectralSubtraction | OmlsaImcra | DeepFilterNet

record AudioSettings =
  vs_selected_device :: "string option"
  vs_auto_gain :: bool
  vs_vad_threshold :: f32
  vs_max_gain_db :: f32
  vs_noise_gate_close_ratio :: f32
  vs_hold_frames :: u32
  vs_push_to_talk :: bool
  vs_push_to_talk_key :: "string option"
  vs_bitrate_bps :: i32
  vs_frame_size_ms :: u32
  vs_noise_suppression :: bool
  vs_denoiser_algorithm :: NoiseSuppressionAlgorithm
  vs_denoiser_params :: "(string \<times> f32) list"
  vs_selected_output_device :: "string option"
  vs_input_volume :: f32
  vs_output_volume :: f32
  vs_auto_input_sensitivity :: bool
  vs_force_tcp_audio :: bool

text \<open>The bit patterns are 0.01, 15.0, 0.8 and 1.0.\<close>

definition default_AudioSettings :: AudioSettings where
  "default_AudioSettings =
     \<lparr>vs_selected_device = None, vs_auto_gain = True, vs_vad_threshold = 0x3C23D70A, vs_max_gain_db = 0x41700000,
      vs_noise_gate_close_ratio = 0x3F4CCCCD, vs_hold_frames = 15, vs_push_to_talk = False, vs_push_to_talk_key = None,
      vs_bitrate_bps = 72000, vs_frame_size_ms = 20, vs_noise_suppression = True, vs_denoiser_algorithm = Rnnoise,
      vs_denoiser_params = [], vs_selected_output_device = None, vs_input_volume = 0x3F800000,
      vs_output_volume = 0x3F800000, vs_auto_input_sensitivity = False, vs_force_tcp_audio = False\<rparr>"

definition frame_size_samples :: "AudioSettings \<Rightarrow> nat" where
  "frame_size_samples s =
     (if vs_frame_size_ms s = 10 then 480 else if vs_frame_size_ms s = 40 then 1920
      else if vs_frame_size_ms s = 60 then 2880 else 960)"

record PendingKeyShare =
  ks_channel_id :: u32
  ks_peer_cert_hash :: string
  ks_peer_name :: string
  ks_request_id :: "string option"

record KeyHolderEntry =
  kh_cert_hash :: string
  kh_name :: string
  kh_is_online :: bool

record DeleteAckResult =
  da_success :: bool
  da_reason :: "string option"

section \<open>Payloads\<close>

record NewMessagePayload =
  nm_channel_id :: u32
  nm_sender_session :: "u32 option"

record NewDmPayload =
  nd_session :: u32

record RejectedPayload =
  rp_reason :: string
  rp_reject_type :: "i32 option"

record DisconnectedPayload =
  dp_server_id :: "string option"
  dp_reason :: "string option"

record UnreadPayload =
  up_unreads :: "(u32, u32) hash_map"

record DmUnreadPayload =
  du_unreads :: "(u32, u32) hash_map"

record ListenDeniedPayload =
  ld_channel_id :: u32

record PermissionDeniedPayload =
  pd_deny_type :: "i32 option"
  pd_reason :: "string option"

record PluginDataPayload =
  pl_sender_session :: "u32 option"
  pl_data :: bytes
  pl_data_id :: string

record WebRtcSignalPayload =
  ws_sender_session :: "u32 option"
  ws_target_session :: "u32 option"
  ws_signal_type :: i32
  ws_payload :: string

record CurrentChannelPayload =
  cu_channel_id :: u32

record PchatHistoryLoadingPayload =
  hl_channel_id :: u32
  hl_loading :: bool

record PchatFetchCompletePayload =
  fc_channel_id :: u32
  fc_has_more :: bool
  fc_total_stored :: u32

record ReactionDeliverPayload =
  rd_channel_id :: u32
  rd_message_id :: string
  rd_emoji :: string
  rd_action :: string
  rd_sender_hash :: string
  rd_sender_name :: string
  rd_timestamp :: u64

record StoredReactionPayload =
  sr_message_id :: string
  sr_emoji :: string
  sr_sender_hash :: string
  sr_sender_name :: string
  sr_timestamp :: u64

record ReactionFetchResponsePayload =
  rf_channel_id :: u32
  rf_reactions :: "StoredReactionPayload list"

record PinDeliverPayload =
  pn_channel_id :: u32
  pn_message_id :: string
  pn_pinned :: bool
  pn_pinner_hash :: string
  pn_pinner_name :: string
  pn_timestamp :: u64

record StoredPinPayload =
  sp_message_id :: string
  sp_pinner_hash :: string
  sp_pinner_name :: string
  sp_timestamp :: u64

record PinFetchResponsePayload =
  pf_channel_id :: u32
  pf_pins :: "StoredPinPayload list"

record KeyShareRequestPayload =
  kq_channel_id :: u32
  kq_peer_name :: string
  kq_peer_cert_hash :: string

record KeyShareRequestsChangedPayload =
  kc_channel_id :: u32
  kc_pending :: "PendingKeyShare list"

record KeyHoldersChangedPayload =
  kd_channel_id :: u32
  kd_holders :: "KeyHolderEntry list"

record PchatKeyRevokedPayload =
  pk_channel_id :: u32

record SignalBridgeErrorPayload =
  sb_message :: string

end
