(* ===== verification/Local_Cache.thy ===== *)
theory Local_Cache
  imports App_Types
begin

text \<open>
  The encrypted local message cache of the application backend
  (src/crates/mumble-tauri/src/state/local_cache.rs): messages of a channel ordered by time, an index of
  their identifiers, reactions, and the encrypted files that hold both. The cryptography of ring, the
  JSON of serde and the file system are the parameters \<open>cache_lib\<close> and \<open>file_ops\<close>, with what the code
  relies on as the predicates \<open>cache_lib_ok\<close> and \<open>file_ops_ok\<close>.
\<close>

section \<open>The binary search of the standard library\<close>

text \<open>\<^verbatim>\<open>slice::partition_point\<close>: the loop of \<^verbatim>\<open>binary_search_by\<close> with a comparison that is less on
  elements satisfying \<open>p\<close> and greater on the others.\<close>

function search_base :: "('a \<Rightarrow> bool) \<Rightarrow> 'a list \<Rightarrow> nat \<Rightarrow> nat \<Rightarrow> nat" where
  "search_base p xs base sz =
     (if sz \<le> 1 then base
      else let half = sz div 2;
               mid = base + half
           in search_base p xs (if p (xs ! mid) then mid else base) (sz - half))"
  by pat_completeness auto
termination by (relation "measure (\<lambda>(p, xs, base, sz). sz)") auto

declare search_base.simps [simp del]

definition partition_point :: "('a \<Rightarrow> bool) \<Rightarrow> 'a list \<Rightarrow> nat" where
  "partition_point p xs =
     (if xs = [] then 0
      else let base = search_base p xs 0 (length xs)
           in if p (xs ! base) then base + 1 else base)"

text \<open>On a list whose first \<open>n\<close> elements satisfy \<open>p\<close> and the others do not, the search finds \<open>n\<close>.\<close>

lemma search_base_partitioned:
  assumes "\<forall>i < length xs. p (xs ! i) \<longleftrightarrow> i < n"
    and "base + sz \<le> length xs" "0 < sz" "base = 0 \<or> base < n" "n \<le> base + sz"
  shows "search_base p xs base sz < length xs \<and> search_base p xs base sz \<le> n \<and>
    n \<le> search_base p xs base sz + 1 \<and>
    (p (xs ! search_base p xs base sz) \<longleftrightarrow> search_base p xs base sz + 1 = n)"
  using assms(2-)
proof (induction sz arbitrary: base rule: less_induct)
  case (less sz)
  show ?case
  proof (cases "sz \<le> 1")
    case True
    with less.prems have "sz = 1" by simp
    moreover have "search_base p xs base sz = base" using True by (simp add: search_base.simps)
    ultimately show ?thesis using less.prems assms(1) by auto
  next
    case False
    let ?mid = "base + sz div 2"
    have mid: "?mid < length xs" "sz div 2 < sz" "0 < sz div 2" using False less.prems by auto
    have rec: "search_base p xs base sz =
        search_base p xs (if p (xs ! ?mid) then ?mid else base) (sz - sz div 2)"
      using False by (simp add: search_base.simps [of p xs base sz] Let_def)
    show ?thesis
      unfolding rec
    proof (rule less.IH)
      show "sz - sz div 2 < sz" using mid by simp
      show "(if p (xs ! ?mid) then ?mid else base) + (sz - sz div 2) \<le> length xs"
        using less.prems mid by auto
      show "0 < sz - sz div 2" using mid by simp
      show "(if p (xs ! ?mid) then ?mid else base) = 0 \<or> (if p (xs ! ?mid) then ?mid else base) < n"
        using assms(1) mid less.prems by auto
      show "n \<le> (if p (xs ! ?mid) then ?mid else base) + (sz - sz div 2)"
        using assms(1) mid less.prems by auto
    qed
  qed
qed

lemma partition_point_partitioned:
  assumes "\<forall>i < length xs. p (xs ! i) \<longleftrightarrow> i < n" and "n \<le> length xs"
  shows "partition_point p xs = n"
proof (cases "xs = []")
  case True
  with assms(2) show ?thesis by (simp add: partition_point_def)
next
  case False
  from search_base_partitioned [OF assms(1), of 0 "length xs"] False assms
  show ?thesis
    by (auto simp: partition_point_def Let_def)
qed

lemma partition_point_takeWhile:
  assumes "sorted (map f xs)"
  shows "partition_point (\<lambda>x. f x \<le> t) xs = length (takeWhile (\<lambda>x. f x \<le> t) xs)"
proof (rule partition_point_partitioned)
  let ?n = "length (takeWhile (\<lambda>x. f x \<le> t) xs)"
  show "\<forall>i < length xs. (f (xs ! i) \<le> t) \<longleftrightarrow> i < ?n"
  proof (intro allI impI iffI)
    fix i assume "i < length xs" "f (xs ! i) \<le> t"
    show "i < ?n"
    proof (rule ccontr)
      assume "\<not> i < ?n"
      then have n: "?n \<le> i" by simp
      with \<open>i < length xs\<close> have "?n < length xs" by simp
      then have "\<not> f (xs ! ?n) \<le> t" by (rule nth_length_takeWhile)
      moreover have "f (xs ! ?n) \<le> f (xs ! i)"
        using sorted_nth_mono [OF assms, of ?n i] n \<open>i < length xs\<close> by simp
      ultimately show False using \<open>f (xs ! i) \<le> t\<close> by simp
    qed
  next
    fix i assume "i < length xs" "i < ?n"
    then show "f (xs ! i) \<le> t"
      using takeWhile_nth [of i "\<lambda>x. f x \<le> t" xs] set_takeWhileD [of "xs ! i" "\<lambda>x. f x \<le> t" xs]
      by (metis nth_mem)
  qed
qed (rule length_takeWhile_le)

section \<open>Entries and the cache\<close>

record CachedMessage =
  lm_message_id :: string
  lm_channel_id :: u32
  lm_timestamp :: u64
  lm_sender_hash :: string
  lm_sender_name :: string
  lm_body :: string
  lm_is_own :: bool

record CachedReaction =
  lr_message_id :: string
  lr_emoji :: string
  lr_sender_hash :: string
  lr_sender_name :: string
  lr_timestamp :: u64

type_synonym cached_messages = "(u32, CachedMessage list) hash_map"
type_synonym cached_reactions = "(u32, CachedReaction list) hash_map"

record LocalMessageCache =
  lc_messages :: cached_messages
  lc_message_ids :: "(u32, string set) hash_map"
  lc_reactions :: cached_reactions
  lc_cache_key :: bytes
  lc_cache_path :: string
  lc_reaction_cache_path :: string

text \<open>HKDF (extract, expand, fill), AES-256-GCM and the JSON of both maps; \<open>None\<close> is an error of ring,
  the string the text of an error of serde.\<close>

record cache_lib =
  lib_extract :: "bytes \<Rightarrow> bytes \<Rightarrow> bytes"
  lib_expand :: "bytes \<Rightarrow> bytes \<Rightarrow> nat \<Rightarrow> bytes option"
  lib_fill :: "bytes \<Rightarrow> bytes option"
  lib_gcm_key :: "bytes \<Rightarrow> bytes option"
  lib_seal :: "bytes \<Rightarrow> bytes \<Rightarrow> bytes \<Rightarrow> bytes option"
  lib_open :: "bytes \<Rightarrow> bytes \<Rightarrow> bytes \<Rightarrow> bytes option"
  messages_to_json :: "cached_messages \<Rightarrow> string + bytes"
  messages_from_json :: "bytes \<Rightarrow> string + cached_messages"
  reactions_to_json :: "cached_reactions \<Rightarrow> string + bytes"
  reactions_from_json :: "bytes \<Rightarrow> string + cached_reactions"

record 'fs file_ops =
  fs_exists :: "'fs \<Rightarrow> string \<Rightarrow> bool"
  fs_read :: "'fs \<Rightarrow> string \<Rightarrow> string + bytes"
  fs_write :: "string \<Rightarrow> bytes \<Rightarrow> 'fs \<Rightarrow> (string + unit) \<times> 'fs"
  fs_join :: "string \<Rightarrow> string \<Rightarrow> string"

definition CACHE_FILE :: string where
  "CACHE_FILE = ''signal_message_cache.enc''"

definition REACTION_CACHE_FILE :: string where
  "REACTION_CACHE_FILE = ''signal_reaction_cache.enc''"

definition HKDF_INFO :: bytes where
  "HKDF_INFO = map of_char ''fancy-mumble-local-message-cache-v1''"

definition GCM_NONCE_LEN :: nat where
  "GCM_NONCE_LEN = 12"

section \<open>Operations in memory\<close>

definition LocalMessageCache_derive_key :: "cache_lib \<Rightarrow> bytes \<Rightarrow> string + bytes" where
  "LocalMessageCache_derive_key lib seed =
     (let prk = lib_extract lib [] seed
      in case lib_expand lib prk HKDF_INFO 32 of
           None \<Rightarrow> Inl ''HKDF expand failed''
         | Some okm \<Rightarrow>
             (case lib_fill lib okm of
                None \<Rightarrow> Inl ''HKDF fill failed''
              | Some key_bytes \<Rightarrow>
                  (case lib_gcm_key lib key_bytes of
                     None \<Rightarrow> Inl ''AES-256-GCM key creation failed''
                   | Some k \<Rightarrow> Inr k)))"

definition LocalMessageCache_new ::
    "cache_lib \<Rightarrow> 'fs file_ops \<Rightarrow> string \<Rightarrow> bytes \<Rightarrow> string + LocalMessageCache" where
  "LocalMessageCache_new lib fo identity_dir seed =
     and_then (LocalMessageCache_derive_key lib seed) (\<lambda>cache_key.
       Inr \<lparr>lc_messages = [], lc_message_ids = [], lc_reactions = [], lc_cache_key = cache_key,
            lc_cache_path = fs_join fo identity_dir CACHE_FILE,
            lc_reaction_cache_path = fs_join fo identity_dir REACTION_CACHE_FILE\<rparr>)"

text \<open>\<^verbatim>\<open>insert\<close>: the identifier enters the index, or is known and the message is dropped; a new
  message is placed behind all messages that are not later.\<close>

definition vec_insert :: "nat \<Rightarrow> 'a \<Rightarrow> 'a list \<Rightarrow> 'a list" where
  "vec_insert pos x xs = take pos xs @ x # drop pos xs"

definition cache_insert :: "CachedMessage \<Rightarrow> LocalMessageCache \<Rightarrow> LocalMessageCache" where
  "cache_insert msg c =
     (let channel_id = lm_channel_id msg;
          ids = (case hm_get (lc_message_ids c) channel_id of None \<Rightarrow> {} | Some s \<Rightarrow> s);
          c' = c\<lparr>lc_message_ids := hm_insert channel_id (insert (lm_message_id msg) ids) (lc_message_ids c)\<rparr>
      in if lm_message_id msg \<in> ids then c'
         else c'\<lparr>lc_messages := hm_entry_modify channel_id [] (\<lambda>channel.
                  vec_insert (partition_point (\<lambda>m. lm_timestamp m \<le> lm_timestamp msg) channel) msg channel)
                  (lc_messages c')\<rparr>)"

definition rebuild_message_id_index :: "LocalMessageCache \<Rightarrow> LocalMessageCache" where
  "rebuild_message_id_index c =
     c\<lparr>lc_message_ids := map (\<lambda>(channel_id, msgs). (channel_id, lm_message_id ` set msgs)) (lc_messages c)\<rparr>"

definition chat_message_of_cached :: "CachedMessage \<Rightarrow> ChatMessage" where
  "chat_message_of_cached m =
     \<lparr>cm_sender_session = None, cm_sender_name = lm_sender_name m, cm_sender_hash = Some (lm_sender_hash m),
      cm_body = lm_body m, cm_channel_id = lm_channel_id m, cm_is_own = lm_is_own m, cm_dm_session = None,
      cm_message_id = Some (lm_message_id m), cm_timestamp = Some (lm_timestamp m), cm_is_legacy = False,
      cm_edited_at = None, cm_pinned = False, cm_pinned_by = None, cm_pinned_at = None\<rparr>"

definition all_chat_messages :: "LocalMessageCache \<Rightarrow> (u32, ChatMessage list) hash_map" where
  "all_chat_messages c =
     map (\<lambda>(channel_id, msgs). (channel_id, map chat_message_of_cached msgs)) (lc_messages c)"

definition same_reaction :: "string \<Rightarrow> string \<Rightarrow> string \<Rightarrow> CachedReaction \<Rightarrow> bool" where
  "same_reaction message_id emoji sender_hash r \<longleftrightarrow>
     lr_message_id r = message_id \<and> lr_emoji r = emoji \<and> lr_sender_hash r = sender_hash"

definition insert_reaction :: "u32 \<Rightarrow> CachedReaction \<Rightarrow> LocalMessageCache \<Rightarrow> LocalMessageCache" where
  "insert_reaction channel_id reaction c =
     c\<lparr>lc_reactions := hm_entry_modify channel_id [] (\<lambda>channel.
         if list_ex (same_reaction (lr_message_id reaction) (lr_emoji reaction) (lr_sender_hash reaction)) channel
         then channel else channel @ [reaction]) (lc_reactions c)\<rparr>"

definition remove_reaction ::
    "u32 \<Rightarrow> string \<Rightarrow> string \<Rightarrow> string \<Rightarrow> LocalMessageCache \<Rightarrow> LocalMessageCache" where
  "remove_reaction channel_id message_id emoji sender_hash c =
     (case hm_get (lc_reactions c) channel_id of
        None \<Rightarrow> c
      | Some channel \<Rightarrow>
          let channel = filter (\<lambda>r. \<not> same_reaction message_id emoji sender_hash r) channel
          in c\<lparr>lc_reactions := (if channel = [] then hm_remove channel_id (lc_reactions c)
                                else hm_insert channel_id channel (lc_reactions c))\<rparr>)"

definition all_reactions :: "LocalMessageCache \<Rightarrow> cached_reactions" where
  "all_reactions c = lc_reactions c"

section \<open>Files\<close>

text \<open>\<^verbatim>\<open>encrypt\<close> with the random nonce as an argument, \<open>None\<close> when the generator fails.\<close>

definition cache_encrypt ::
    "cache_lib \<Rightarrow> bytes option \<Rightarrow> LocalMessageCache \<Rightarrow> bytes \<Rightarrow> string + bytes" where
  "cache_encrypt lib draw c plaintext =
     (case draw of
        None \<Rightarrow> Inl ''RNG failed''
      | Some nonce_bytes \<Rightarrow>
          (case lib_seal lib (lc_cache_key c) nonce_bytes plaintext of
             None \<Rightarrow> Inl ''AES-GCM seal failed''
           | Some in_out \<Rightarrow> Inr (nonce_bytes @ in_out)))"

definition cache_decrypt :: "cache_lib \<Rightarrow> LocalMessageCache \<Rightarrow> bytes \<Rightarrow> string + bytes" where
  "cache_decrypt lib c data =
     (if length data < GCM_NONCE_LEN then Inl ''cache file too short''
      else case lib_open lib (lc_cache_key c) (take GCM_NONCE_LEN data) (drop GCM_NONCE_LEN data) of
             None \<Rightarrow> Inl ''AES-GCM open failed (wrong key or corrupted)''
           | Some plaintext \<Rightarrow> Inr plaintext)"

text \<open>\<^verbatim>\<open>map_err(|e| format!("...: {e}"))\<close>.\<close>

definition context_err :: "string \<Rightarrow> string + 'a \<Rightarrow> string + 'a" where
  "context_err what r = (case r of Inl e \<Rightarrow> Inl (what @ '': '' @ e) | Inr a \<Rightarrow> Inr a)"

lemma context_err_simps [simp]:
  "context_err w (Inr a) = Inr a"
  "context_err w r = Inr a \<longleftrightarrow> r = Inr a"
  by (auto simp: context_err_def split: sum.splits)

definition save_file ::
    "cache_lib \<Rightarrow> 'fs file_ops \<Rightarrow> bytes option \<Rightarrow> string \<Rightarrow> string + bytes \<Rightarrow> string \<Rightarrow>
     LocalMessageCache \<Rightarrow> 'fs \<Rightarrow> (string + unit) \<times> 'fs" where
  "save_file lib fo draw path json what c fs =
     (case and_then json (cache_encrypt lib draw c) of
        Inl e \<Rightarrow> (Inl e, fs)
      | Inr encrypted \<Rightarrow>
          (case fs_write fo path encrypted fs of (r, fs') \<Rightarrow> (context_err what r, fs')))"

definition save ::
    "cache_lib \<Rightarrow> 'fs file_ops \<Rightarrow> bytes option \<Rightarrow> LocalMessageCache \<Rightarrow> 'fs \<Rightarrow> (string + unit) \<times> 'fs" where
  "save lib fo draw c =
     save_file lib fo draw (lc_cache_path c)
       (context_err ''serialize cache'' (messages_to_json lib (lc_messages c))) ''write cache'' c"

definition save_reactions ::
    "cache_lib \<Rightarrow> 'fs file_ops \<Rightarrow> bytes option \<Rightarrow> LocalMessageCache \<Rightarrow> 'fs \<Rightarrow> (string + unit) \<times> 'fs" where
  "save_reactions lib fo draw c =
     save_file lib fo draw (lc_reaction_cache_path c)
       (context_err ''serialize reaction cache'' (reactions_to_json lib (lc_reactions c)))
       ''write reaction cache'' c"

definition load :: "cache_lib \<Rightarrow> 'fs file_ops \<Rightarrow> 'fs \<Rightarrow> LocalMessageCache \<Rightarrow> (string + unit) \<times> LocalMessageCache" where
  "load lib fo fs c =
     (if \<not> fs_exists fo fs (lc_cache_path c) then (Inr (), c)
      else case and_then (context_err ''read cache'' (fs_read fo fs (lc_cache_path c)))
                  (\<lambda>encrypted. and_then (cache_decrypt lib c encrypted)
                    (\<lambda>json. context_err ''deserialize cache'' (messages_from_json lib json))) of
             Inl e \<Rightarrow> (Inl e, c)
           | Inr msgs \<Rightarrow> (Inr (), rebuild_message_id_index (c\<lparr>lc_messages := msgs\<rparr>)))"

definition load_reactions ::
    "cache_lib \<Rightarrow> 'fs file_ops \<Rightarrow> 'fs \<Rightarrow> LocalMessageCache \<Rightarrow> (string + unit) \<times> LocalMessageCache" where
  "load_reactions lib fo fs c =
     (if \<not> fs_exists fo fs (lc_reaction_cache_path c) then (Inr (), c)
      else case and_then (context_err ''read reaction cache'' (fs_read fo fs (lc_reaction_cache_path c)))
                  (\<lambda>encrypted. and_then (cache_decrypt lib c encrypted)
                    (\<lambda>json. context_err ''deserialize reaction cache'' (reactions_from_json lib json))) of
             Inl e \<Rightarrow> (Inl e, c)
           | Inr rs \<Rightarrow> (Inr (), c\<lparr>lc_reactions := rs\<rparr>))"

section \<open>The invariant of the cache\<close>

definition channel_messages :: "LocalMessageCache \<Rightarrow> u32 \<Rightarrow> CachedMessage list" where
  "channel_messages c k = (case hm_get (lc_messages c) k of None \<Rightarrow> [] | Some ms \<Rightarrow> ms)"

definition channel_ids :: "LocalMessageCache \<Rightarrow> u32 \<Rightarrow> string set" where
  "channel_ids c k = (case hm_get (lc_message_ids c) k of None \<Rightarrow> {} | Some s \<Rightarrow> s)"

definition channel_reactions :: "LocalMessageCache \<Rightarrow> u32 \<Rightarrow> CachedReaction list" where
  "channel_reactions c k = (case hm_get (lc_reactions c) k of None \<Rightarrow> [] | Some rs \<Rightarrow> rs)"

definition reaction_key :: "CachedReaction \<Rightarrow> string \<times> string \<times> string" where
  "reaction_key r = (lr_message_id r, lr_emoji r, lr_sender_hash r)"

lemma same_reaction_key: "same_reaction m e h r \<longleftrightarrow> reaction_key r = (m, e, h)"
  by (simp add: same_reaction_def reaction_key_def)

text \<open>Every channel is ordered by time and has no identifier twice, the index holds exactly its
  identifiers, and no reaction is stored twice.\<close>

definition cache_inv :: "LocalMessageCache \<Rightarrow> bool" where
  "cache_inv c \<longleftrightarrow>
     hm_wf (lc_messages c) \<and>
     (\<forall>k. sorted (map lm_timestamp (channel_messages c k)) \<and>
          distinct (map lm_message_id (channel_messages c k)) \<and>
          (\<forall>m \<in> set (channel_messages c k). lm_channel_id m = k) \<and>
          channel_ids c k = lm_message_id ` set (channel_messages c k) \<and>
          distinct (map reaction_key (channel_reactions c k)))"

text \<open>The reference for \<open>insert\<close>: behind all elements that are not later.\<close>

fun insert_after :: "('a \<Rightarrow> 'k::linorder) \<Rightarrow> 'a \<Rightarrow> 'a list \<Rightarrow> 'a list" where
  "insert_after f x [] = [x]"
| "insert_after f x (z # zs) = (if f z \<le> f x then z # insert_after f x zs else x # z # zs)"

lemma insert_after_takeWhile:
  "insert_after f x xs = take (length (takeWhile (\<lambda>z. f z \<le> f x) xs)) xs @
     x # drop (length (takeWhile (\<lambda>z. f z \<le> f x) xs)) xs"
  by (induction xs) auto

lemma vec_insert_sorted:
  "sorted (map f xs) \<Longrightarrow> vec_insert (partition_point (\<lambda>z. f z \<le> f x) xs) x xs = insert_after f x xs"
  by (simp add: vec_insert_def partition_point_takeWhile insert_after_takeWhile)

lemma set_insert_after [simp]: "set (insert_after f x xs) = insert x (set xs)"
  by (induction xs) auto

lemma sorted_insert_after: "sorted (map f xs) \<Longrightarrow> sorted (map f (insert_after f x xs))"
  by (induction xs) auto

lemma distinct_insert_after:
  "distinct (map g (insert_after f x xs)) \<longleftrightarrow> g x \<notin> g ` set xs \<and> distinct (map g xs)"
  by (induction xs) auto

lemma insert_after_insort: "insert_after f x (insort_key f y zs) = insort_key f y (insert_after f x zs)"
  by (induction zs) auto

lemma sort_key_snoc: "sort_key f (xs @ [x]) = insert_after f x (sort_key f xs)"
  by (induction xs) (simp_all add: insert_after_insort)

lemma channel_messages_insert:
  assumes "sorted (map lm_timestamp (channel_messages c (lm_channel_id m)))"
  shows "channel_messages (cache_insert m c) k =
    (if k = lm_channel_id m \<and> lm_message_id m \<notin> channel_ids c k
     then insert_after lm_timestamp m (channel_messages c k) else channel_messages c k)"
  using assms vec_insert_sorted [of lm_timestamp "channel_messages c k" m]
  by (auto simp: cache_insert_def Let_def channel_messages_def channel_ids_def split: option.splits)

lemma channel_ids_insert:
  "channel_ids (cache_insert m c) k =
    (if k = lm_channel_id m then insert (lm_message_id m) (channel_ids c k) else channel_ids c k)"
  by (auto simp: cache_insert_def Let_def channel_ids_def split: option.splits)

lemma cache_insert_frame [simp]:
  "lc_reactions (cache_insert m c) = lc_reactions c"
  "lc_cache_key (cache_insert m c) = lc_cache_key c"
  "lc_cache_path (cache_insert m c) = lc_cache_path c"
  "lc_reaction_cache_path (cache_insert m c) = lc_reaction_cache_path c"
  by (simp_all add: cache_insert_def Let_def)

lemma cache_insert_wf: "hm_wf (lc_messages c) \<Longrightarrow> hm_wf (lc_messages (cache_insert m c))"
  by (auto simp: cache_insert_def Let_def)

lemma cache_inv_insert:
  assumes "cache_inv c"
  shows "cache_inv (cache_insert m c)"
proof -
  have sorted: "sorted (map lm_timestamp (channel_messages c (lm_channel_id m)))"
    using assms by (simp add: cache_inv_def)
  show ?thesis
    using assms
    by (auto simp: cache_inv_def channel_messages_insert [OF sorted] channel_ids_insert cache_insert_wf
        sorted_insert_after distinct_insert_after channel_reactions_def)
qed

lemma reactions_frame [simp]:
  "channel_messages (insert_reaction k r c) = channel_messages c"
  "channel_ids (insert_reaction k r c) = channel_ids c"
  "lc_messages (insert_reaction k r c) = lc_messages c"
  "channel_messages (remove_reaction k i e h c) = channel_messages c"
  "channel_ids (remove_reaction k i e h c) = channel_ids c"
  "lc_messages (remove_reaction k i e h c) = lc_messages c"
  "lc_cache_key (insert_reaction k r c) = lc_cache_key c"
  "lc_cache_path (insert_reaction k r c) = lc_cache_path c"
  "lc_reaction_cache_path (insert_reaction k r c) = lc_reaction_cache_path c"
  "lc_cache_key (remove_reaction k i e h c) = lc_cache_key c"
  "lc_cache_path (remove_reaction k i e h c) = lc_cache_path c"
  "lc_reaction_cache_path (remove_reaction k i e h c) = lc_reaction_cache_path c"
  by (auto simp: insert_reaction_def remove_reaction_def Let_def channel_messages_def channel_ids_def
      fun_eq_iff split: option.splits)

lemma channel_reactions_insert:
  "channel_reactions (insert_reaction k r c) j =
    (if j = k \<and> reaction_key r \<notin> reaction_key ` set (channel_reactions c k)
     then channel_reactions c k @ [r] else channel_reactions c j)"
  by (auto simp: insert_reaction_def channel_reactions_def list_ex_iff same_reaction_key
      reaction_key_def [of r, symmetric] image_iff split: option.splits)

lemma channel_reactions_remove:
  "channel_reactions (remove_reaction k i e h c) j =
    (if j = k then filter (\<lambda>r. reaction_key r \<noteq> (i, e, h)) (channel_reactions c k) else channel_reactions c j)"
  by (auto simp: remove_reaction_def channel_reactions_def Let_def same_reaction_key split: option.splits)

lemma cache_inv_reactions:
  "cache_inv c \<Longrightarrow> cache_inv (insert_reaction k r c)"
  "cache_inv c \<Longrightarrow> cache_inv (remove_reaction k i e h c)"
  by (auto simp: cache_inv_def channel_reactions_insert channel_reactions_remove distinct_map_filter)

section \<open>Sequences of insertions\<close>

text \<open>The messages of a list whose identifier did not occur before them.\<close>

fun keep_first :: "('a \<Rightarrow> 'b) \<Rightarrow> 'a list \<Rightarrow> 'a list" where
  "keep_first f [] = []"
| "keep_first f (x # xs) = x # filter (\<lambda>y. f y \<noteq> f x) (keep_first f xs)"

lemma image_keep_first [simp]: "f ` set (keep_first f xs) = f ` set xs"
proof (induction xs)
  case (Cons x xs)
  have "f ` {y \<in> A. f y \<noteq> f x} = f ` A - {f x}" for A by auto
  with Cons show ?case by auto
qed simp

lemma keep_first_snoc:
  "keep_first f (xs @ [x]) = (if f x \<in> f ` set xs then keep_first f xs else keep_first f xs @ [x])"
  by (induction xs) auto

text \<open>What a channel holds after a sequence of insertions.\<close>

definition arrivals :: "u32 \<Rightarrow> CachedMessage list \<Rightarrow> CachedMessage list" where
  "arrivals k ms = keep_first lm_message_id (filter (\<lambda>m. lm_channel_id m = k) ms)"

lemma fold_cache_insert:
  assumes "\<And>k. channel_messages c k = []" and "\<And>k. channel_ids c k = {}"
  shows "channel_messages (fold cache_insert ms c) k = sort_key lm_timestamp (arrivals k ms) \<and>
    channel_ids (fold cache_insert ms c) k = lm_message_id ` set (arrivals k ms)"
proof (induction ms arbitrary: k rule: rev_induct)
  case Nil
  then show ?case using assms by (simp add: arrivals_def)
next
  case (snoc m ms)
  then show ?case
    by (auto simp: channel_messages_insert channel_ids_insert arrivals_def keep_first_snoc sort_key_snoc
        image_iff)
qed

section \<open>Saving and loading\<close>

definition cache_lib_ok :: "cache_lib \<Rightarrow> bool" where
  "cache_lib_ok lib \<longleftrightarrow>
     (\<forall>k n p ct. lib_seal lib k n p = Some ct \<longrightarrow> lib_open lib k n ct = Some p) \<and>
     (\<forall>m j. messages_to_json lib m = Inr j \<longrightarrow>
        (\<exists>m'. messages_from_json lib j = Inr m' \<and> hm_wf m' \<and> hm_get m' = hm_get m)) \<and>
     (\<forall>m j. reactions_to_json lib m = Inr j \<longrightarrow>
        (\<exists>m'. reactions_from_json lib j = Inr m' \<and> hm_wf m' \<and> hm_get m' = hm_get m))"

definition file_ops_ok :: "'fs file_ops \<Rightarrow> bool" where
  "file_ops_ok fo \<longleftrightarrow>
     (\<forall>p b fs fs'. fs_write fo p b fs = (Inr (), fs') \<longrightarrow>
        fs_exists fo fs' p \<and> fs_read fo fs' p = Inr b \<and>
        (\<forall>q. q \<noteq> p \<longrightarrow> fs_exists fo fs' q = fs_exists fo fs q \<and> fs_read fo fs' q = fs_read fo fs q)) \<and>
     (\<forall>d a b. fs_join fo d a = fs_join fo d b \<longrightarrow> a = b)"

lemma decrypt_encrypt:
  assumes "cache_lib_ok lib" and "length nonce = GCM_NONCE_LEN"
    and "cache_encrypt lib (Some nonce) c p = Inr ct" and "lc_cache_key c' = lc_cache_key c"
  shows "cache_decrypt lib c' ct = Inr p"
  using assms by (auto simp: cache_encrypt_def cache_decrypt_def cache_lib_ok_def split: option.splits)

lemma save_file_reads:
  assumes lib: "cache_lib_ok lib" and fo: "file_ops_ok fo" and n: "length nonce = GCM_NONCE_LEN"
    and save: "save_file lib fo (Some nonce) path json what c fs = (Inr (), fs')"
    and key: "lc_cache_key c' = lc_cache_key c"
  obtains j ct where "json = Inr j" "fs_exists fo fs' path" "fs_read fo fs' path = Inr ct"
    "cache_decrypt lib c' ct = Inr j"
    "\<forall>q. q \<noteq> path \<longrightarrow> fs_exists fo fs' q = fs_exists fo fs q \<and> fs_read fo fs' q = fs_read fo fs q"
proof -
  from save obtain ct where ct: "and_then json (cache_encrypt lib (Some nonce) c) = Inr ct"
    and w: "fs_write fo path ct fs = (Inr (), fs')"
    by (auto simp: save_file_def split: sum.splits prod.splits)
  from ct obtain j where j: "json = Inr j" "cache_encrypt lib (Some nonce) c j = Inr ct"
    by (auto simp: and_then_eq_Inr)
  from fo w have "fs_exists fo fs' path" "fs_read fo fs' path = Inr ct"
    "\<forall>q. q \<noteq> path \<longrightarrow> fs_exists fo fs' q = fs_exists fo fs q \<and> fs_read fo fs' q = fs_read fo fs q"
    unfolding file_ops_ok_def by blast+
  with j decrypt_encrypt [OF lib n j(2) key] show thesis using that by blast
qed

text \<open>A map restored from JSON has the channels of the saved one.\<close>

lemma cache_inv_restored:
  fixes c0 :: LocalMessageCache
  assumes inv: "cache_inv c" and wf: "hm_wf msgs" and get: "hm_get msgs = hm_get (lc_messages c)"
  defines "c' \<equiv> rebuild_message_id_index (c0\<lparr>lc_messages := msgs\<rparr>)"
  shows "channel_messages c' = channel_messages c" and "channel_ids c' = channel_ids c"
    and "hm_wf (lc_messages c')" and "channel_reactions c' = channel_reactions c0"
proof -
  show m: "channel_messages c' = channel_messages c"
    using get by (simp add: c'_def rebuild_message_id_index_def channel_messages_def fun_eq_iff)
  have "map_of (map (\<lambda>(k, ms). (k, lm_message_id ` set ms)) xs) k = map_option (\<lambda>ms. lm_message_id ` set ms) (map_of xs k)"
    for xs :: cached_messages and k
    by (induction xs) auto
  then have "channel_ids c' k = lm_message_id ` set (channel_messages c' k)" for k
    by (simp add: c'_def rebuild_message_id_index_def channel_ids_def channel_messages_def split: option.splits)
  with inv m show "channel_ids c' = channel_ids c" by (simp add: cache_inv_def fun_eq_iff)
  show "hm_wf (lc_messages c')" "channel_reactions c' = channel_reactions c0"
    using wf by (simp_all add: c'_def rebuild_message_id_index_def channel_reactions_def fun_eq_iff)
qed

lemma load_saved:
  assumes lib: "cache_lib_ok lib" and fo: "file_ops_ok fo" and n: "length nonce = GCM_NONCE_LEN"
    and inv: "cache_inv c" and save: "save lib fo (Some nonce) c fs = (Inr (), fs')"
    and same: "lc_cache_key c0 = lc_cache_key c" "lc_cache_path c0 = lc_cache_path c"
    and keep: "fs_exists fo fs2 (lc_cache_path c) = fs_exists fo fs' (lc_cache_path c)"
      "fs_read fo fs2 (lc_cache_path c) = fs_read fo fs' (lc_cache_path c)"
  obtains c1 where "load lib fo fs2 c0 = (Inr (), c1)" "channel_messages c1 = channel_messages c"
    "channel_ids c1 = channel_ids c" "hm_wf (lc_messages c1)" "channel_reactions c1 = channel_reactions c0"
    "lc_cache_key c1 = lc_cache_key c" "lc_reaction_cache_path c1 = lc_reaction_cache_path c0"
proof -
  obtain j ct where "context_err ''serialize cache'' (messages_to_json lib (lc_messages c)) = Inr j"
    "fs_exists fo fs' (lc_cache_path c)"
    "fs_read fo fs' (lc_cache_path c) = Inr ct" "cache_decrypt lib c0 ct = Inr j"
    by (rule save_file_reads [OF lib fo n save [unfolded save_def] same(1)])
  then have j: "messages_to_json lib (lc_messages c) = Inr j" "fs_exists fo fs' (lc_cache_path c)"
    "fs_read fo fs' (lc_cache_path c) = Inr ct" "cache_decrypt lib c0 ct = Inr j" by simp_all
  with lib obtain msgs where msgs: "messages_from_json lib j = Inr msgs" "hm_wf msgs"
    "hm_get msgs = hm_get (lc_messages c)"
    unfolding cache_lib_ok_def by blast
  have "load lib fo fs2 c0 = (Inr (), rebuild_message_id_index (c0\<lparr>lc_messages := msgs\<rparr>))"
    using j msgs(1) same keep by (simp add: load_def)
  with cache_inv_restored [OF inv msgs(2,3), of c0] same show thesis
    using that by (simp add: rebuild_message_id_index_def)
qed

lemma load_reactions_saved:
  assumes lib: "cache_lib_ok lib" and fo: "file_ops_ok fo" and n: "length nonce = GCM_NONCE_LEN"
    and save: "save_reactions lib fo (Some nonce) c fs = (Inr (), fs')"
    and same: "lc_cache_key c0 = lc_cache_key c" "lc_reaction_cache_path c0 = lc_reaction_cache_path c"
  obtains c1 where "load_reactions lib fo fs' c0 = (Inr (), c1)"
    "channel_reactions c1 = channel_reactions c" "channel_messages c1 = channel_messages c0"
    "channel_ids c1 = channel_ids c0" "lc_messages c1 = lc_messages c0" "lc_cache_key c1 = lc_cache_key c0"
    "lc_cache_path c1 = lc_cache_path c0" "lc_reaction_cache_path c1 = lc_reaction_cache_path c0"
proof -
  obtain j ct where "context_err ''serialize reaction cache'' (reactions_to_json lib (lc_reactions c)) = Inr j"
    "fs_exists fo fs' (lc_reaction_cache_path c)"
    "fs_read fo fs' (lc_reaction_cache_path c) = Inr ct" "cache_decrypt lib c0 ct = Inr j"
    by (rule save_file_reads [OF lib fo n save [unfolded save_reactions_def] same(1)])
  then have j: "reactions_to_json lib (lc_reactions c) = Inr j" "fs_exists fo fs' (lc_reaction_cache_path c)"
    "fs_read fo fs' (lc_reaction_cache_path c) = Inr ct" "cache_decrypt lib c0 ct = Inr j" by simp_all
  with lib obtain rs where rs: "reactions_from_json lib j = Inr rs" "hm_get rs = hm_get (lc_reactions c)"
    unfolding cache_lib_ok_def by blast
  have "load_reactions lib fo fs' c0 = (Inr (), c0\<lparr>lc_reactions := rs\<rparr>)"
    using j rs(1) same by (simp add: load_reactions_def)
  then show thesis
    using that rs(2) by (simp add: channel_reactions_def channel_messages_def channel_ids_def fun_eq_iff)
qed

lemma new_cache_empty:
  assumes "LocalMessageCache_new lib fo dir seed = Inr c"
  shows "channel_messages c k = []" "channel_ids c k = {}" "channel_reactions c k = []" "lc_messages c = []"
    "lc_cache_path c = fs_join fo dir CACHE_FILE" "lc_reaction_cache_path c = fs_join fo dir REACTION_CACHE_FILE"
    "LocalMessageCache_derive_key lib seed = Inr (lc_cache_key c)"
  using assms
  by (auto simp: LocalMessageCache_new_def and_then_eq_Inr channel_messages_def channel_ids_def channel_reactions_def)

text \<open>The states of the cache of one identity: what its operations make of a new cache, and what
  it loads from files that it saved before.\<close>

inductive cache_reachable ::
    "cache_lib \<Rightarrow> 'fs file_ops \<Rightarrow> string \<Rightarrow> bytes \<Rightarrow> LocalMessageCache \<Rightarrow> bool"
  for lib :: cache_lib and fo :: "'fs file_ops" and dir :: string and seed :: bytes where
  reach_new: "LocalMessageCache_new lib fo dir seed = Inr c \<Longrightarrow> cache_reachable lib fo dir seed c"
| reach_insert: "cache_reachable lib fo dir seed c \<Longrightarrow> cache_reachable lib fo dir seed (cache_insert m c)"
| reach_react: "cache_reachable lib fo dir seed c \<Longrightarrow> cache_reachable lib fo dir seed (insert_reaction k r c)"
| reach_unreact: "cache_reachable lib fo dir seed c \<Longrightarrow> cache_reachable lib fo dir seed (remove_reaction k i e h c)"
| reach_load: "cache_reachable lib fo dir seed c \<Longrightarrow> cache_reachable lib fo dir seed s \<Longrightarrow>
    length nonce = GCM_NONCE_LEN \<Longrightarrow> save lib fo (Some nonce) s fs = (Inr (), fs') \<Longrightarrow>
    load lib fo fs' c = (res, c') \<Longrightarrow> cache_reachable lib fo dir seed c'"
| reach_load_reactions: "cache_reachable lib fo dir seed c \<Longrightarrow> cache_reachable lib fo dir seed s \<Longrightarrow>
    length nonce = GCM_NONCE_LEN \<Longrightarrow> save_reactions lib fo (Some nonce) s fs = (Inr (), fs') \<Longrightarrow>
    load_reactions lib fo fs' c = (res, c') \<Longrightarrow> cache_reachable lib fo dir seed c'"

definition cache_identity :: "cache_lib \<Rightarrow> 'fs file_ops \<Rightarrow> string \<Rightarrow> bytes \<Rightarrow> LocalMessageCache \<Rightarrow> bool" where
  "cache_identity lib fo dir seed c \<longleftrightarrow>
     LocalMessageCache_derive_key lib seed = Inr (lc_cache_key c) \<and>
     lc_cache_path c = fs_join fo dir CACHE_FILE \<and> lc_reaction_cache_path c = fs_join fo dir REACTION_CACHE_FILE"

lemma cache_identity_same:
  assumes "cache_identity lib fo dir seed c" "cache_identity lib fo dir seed s"
  shows "lc_cache_key c = lc_cache_key s" "lc_cache_path c = lc_cache_path s"
    "lc_reaction_cache_path c = lc_reaction_cache_path s"
  using assms by (auto simp: cache_identity_def)

lemma cache_reachable_inv:
  assumes "cache_reachable lib fo dir seed c" and lib: "cache_lib_ok lib" and fo: "file_ops_ok fo"
  shows "cache_inv c \<and> cache_identity lib fo dir seed c"
  using assms(1)
proof induction
  case (reach_new c)
  then show ?case by (simp add: cache_inv_def cache_identity_def new_cache_empty)
next
  case (reach_insert c m)
  then show ?case by (simp add: cache_inv_insert cache_identity_def)
next
  case (reach_react c k r)
  then show ?case by (simp add: cache_inv_reactions cache_identity_def)
next
  case (reach_unreact c k i e h)
  then show ?case by (simp add: cache_inv_reactions cache_identity_def)
next
  case (reach_load c s nonce fs fs' res c')
  then have inv: "cache_inv s" "cache_inv c" and ident: "cache_identity lib fo dir seed c" "cache_identity lib fo dir seed s"
    by auto
  from load_saved [OF lib fo reach_load.hyps(3) inv(1) reach_load.hyps(4) cache_identity_same(1,2) [OF ident] refl refl]
  obtain c1 where "load lib fo fs' c = (Inr (), c1)" "channel_messages c1 = channel_messages s"
    "channel_ids c1 = channel_ids s" "hm_wf (lc_messages c1)" "channel_reactions c1 = channel_reactions c"
    "lc_cache_key c1 = lc_cache_key s" "lc_reaction_cache_path c1 = lc_reaction_cache_path c" by metis
  moreover from this have "lc_cache_path c1 = lc_cache_path c"
    by (auto simp: load_def rebuild_message_id_index_def split: if_splits sum.splits)
  ultimately show ?case
    using reach_load.hyps(5) inv ident cache_identity_same(1) [OF ident]
    by (auto simp: cache_inv_def cache_identity_def)
next
  case (reach_load_reactions c s nonce fs fs' res c')
  then have inv: "cache_inv s" "cache_inv c" and ident: "cache_identity lib fo dir seed c" "cache_identity lib fo dir seed s"
    by auto
  from load_reactions_saved [OF lib fo reach_load_reactions.hyps(3,4) cache_identity_same(1,3) [OF ident]]
  obtain c1 where "load_reactions lib fo fs' c = (Inr (), c1)"
    "channel_reactions c1 = channel_reactions s" "channel_messages c1 = channel_messages c"
    "channel_ids c1 = channel_ids c" "lc_messages c1 = lc_messages c" "lc_cache_key c1 = lc_cache_key c"
    "lc_cache_path c1 = lc_cache_path c" "lc_reaction_cache_path c1 = lc_reaction_cache_path c" by metis
  then show ?case
    using reach_load_reactions.hyps(5) inv ident by (auto simp: cache_inv_def cache_identity_def)
qed

section \<open>Properties\<close>

text \<open>C25: The cache of a channel is the stable sort by time of the messages that arrived for it, each
  identifier once and in its first version: the index and the binary search of \<^verbatim>\<open>insert\<close>
  compute what sorting all arrivals would.\<close>

theorem cache_equals_sorting:
  assumes "LocalMessageCache_new lib fo dir seed = Inr c"
  shows "channel_messages (fold cache_insert ms c) k = sort_key lm_timestamp (arrivals k ms)"
  using fold_cache_insert [of c ms k] new_cache_empty [OF assms] by simp

definition demo_cached :: "string \<Rightarrow> u64 \<Rightarrow> CachedMessage" where
  "demo_cached i t =
     \<lparr>lm_message_id = i, lm_channel_id = 5, lm_timestamp = t, lm_sender_hash = ''h'', lm_sender_name = ''A'',
      lm_body = ''b'', lm_is_own = False\<rparr>"

definition demo_reaction :: CachedReaction where
  "demo_reaction = \<lparr>lr_message_id = ''m1'', lr_emoji = ''x'', lr_sender_hash = ''h'', lr_sender_name = ''A'', lr_timestamp = 3\<rparr>"

text \<open>A cipher that appends the key, and JSON that knows two maps.\<close>

definition demo_cache_lib :: cache_lib where
  "demo_cache_lib =
     \<lparr>lib_extract = (\<lambda>salt seed. seed), lib_expand = (\<lambda>prk info n. Some prk), lib_fill = Some, lib_gcm_key = Some,
      lib_seal = (\<lambda>k n p. Some (k @ p)),
      lib_open = (\<lambda>k n ct. if take (length k) ct = k then Some (drop (length k) ct) else None),
      messages_to_json = (\<lambda>m. if m = [(5, [demo_cached ''m1'' 4, demo_cached ''m2'' 9])] then Inr [1] else Inl ''unknown''),
      messages_from_json = (\<lambda>j. if j = [1] then Inr [(5, [demo_cached ''m1'' 4, demo_cached ''m2'' 9])] else Inl ''bad''),
      reactions_to_json = (\<lambda>m. if m = [(5, [demo_reaction])] then Inr [2] else Inl ''unknown''),
      reactions_from_json = (\<lambda>j. if j = [2] then Inr [(5, [demo_reaction])] else Inl ''bad'')\<rparr>"

definition demo_files :: "(string, bytes) hash_map file_ops" where
  "demo_files =
     \<lparr>fs_exists = (\<lambda>fs p. hm_get fs p \<noteq> None),
      fs_read = (\<lambda>fs p. case hm_get fs p of None \<Rightarrow> Inl ''not found'' | Some b \<Rightarrow> Inr b),
      fs_write = (\<lambda>p b fs. (Inr (), hm_insert p b fs)), fs_join = (\<lambda>d a. d @ ''/'' @ a)\<rparr>"

definition demo_new_cache :: LocalMessageCache where
  "demo_new_cache =
     \<lparr>lc_messages = [], lc_message_ids = [], lc_reactions = [], lc_cache_key = [7],
      lc_cache_path = ''d/signal_message_cache.enc'', lc_reaction_cache_path = ''d/signal_reaction_cache.enc''\<rparr>"

lemma demo_new: "LocalMessageCache_new demo_cache_lib demo_files ''d'' [7] = Inr demo_new_cache"
  by (simp add: LocalMessageCache_new_def LocalMessageCache_derive_key_def demo_cache_lib_def demo_files_def
      demo_new_cache_def CACHE_FILE_def REACTION_CACHE_FILE_def)

theorem cache_equals_sorting_witness:
  "channel_messages (fold cache_insert [demo_cached ''m2'' 9, demo_cached ''m1'' 4, demo_cached ''m2'' 1] demo_new_cache) 5 =
     [demo_cached ''m1'' 4, demo_cached ''m2'' 9]"
  using cache_equals_sorting [OF demo_new, of "[demo_cached ''m2'' 9, demo_cached ''m1'' 4, demo_cached ''m2'' 1]" 5]
  by (simp add: arrivals_def demo_cached_def)

text \<open>C26: What a cache saves, a new cache of the same identity loads: messages in their order, the index
  rebuilt, and the reactions.\<close>

theorem cache_save_load:
  assumes lib: "cache_lib_ok lib" and fo: "file_ops_ok fo"
    and c: "cache_reachable lib fo dir seed c" and new: "LocalMessageCache_new lib fo dir seed = Inr c0"
    and nonces: "length nonce1 = GCM_NONCE_LEN" "length nonce2 = GCM_NONCE_LEN"
    and save: "save lib fo (Some nonce1) c fs = (Inr (), fs1)"
    and save_r: "save_reactions lib fo (Some nonce2) c fs1 = (Inr (), fs2)"
  shows "\<exists>c1 c2. load lib fo fs2 c0 = (Inr (), c1) \<and> load_reactions lib fo fs2 c1 = (Inr (), c2) \<and>
    channel_messages c2 = channel_messages c \<and> channel_ids c2 = channel_ids c \<and>
    channel_reactions c2 = channel_reactions c \<and> cache_inv c2"
proof -
  have inv: "cache_inv c" and id: "cache_identity lib fo dir seed c"
    using cache_reachable_inv [OF c lib fo] by auto
  have id0: "cache_identity lib fo dir seed c0" using new_cache_empty [OF new] by (simp add: cache_identity_def)
  have "CACHE_FILE \<noteq> REACTION_CACHE_FILE" by (simp add: CACHE_FILE_def REACTION_CACHE_FILE_def)
  with fo id have "lc_cache_path c \<noteq> lc_reaction_cache_path c"
    unfolding file_ops_ok_def cache_identity_def by metis
  moreover have "\<forall>q. q \<noteq> lc_reaction_cache_path c \<longrightarrow>
      fs_exists fo fs2 q = fs_exists fo fs1 q \<and> fs_read fo fs2 q = fs_read fo fs1 q"
    by (rule save_file_reads [OF lib fo nonces(2) save_r [unfolded save_reactions_def] refl])
  ultimately have keep: "fs_exists fo fs2 (lc_cache_path c) = fs_exists fo fs1 (lc_cache_path c)"
    "fs_read fo fs2 (lc_cache_path c) = fs_read fo fs1 (lc_cache_path c)" by auto
  obtain c1 where c1: "load lib fo fs2 c0 = (Inr (), c1)" "channel_messages c1 = channel_messages c"
    "channel_ids c1 = channel_ids c" "hm_wf (lc_messages c1)"
    "lc_cache_key c1 = lc_cache_key c" "lc_reaction_cache_path c1 = lc_reaction_cache_path c0"
    using load_saved [OF lib fo nonces(1) inv save cache_identity_same(1,2) [OF id0 id] keep] by metis
  obtain c2 where "load_reactions lib fo fs2 c1 = (Inr (), c2)"
    "channel_reactions c2 = channel_reactions c" "channel_messages c2 = channel_messages c1"
    "channel_ids c2 = channel_ids c1" "lc_messages c2 = lc_messages c1"
    using load_reactions_saved [OF lib fo nonces(2) save_r c1(5)] c1(6) cache_identity_same(3) [OF id0 id] by metis
  with c1 inv show ?thesis by (auto simp: cache_inv_def)
qed

definition demo_cache :: LocalMessageCache where
  "demo_cache = insert_reaction 5 demo_reaction
     (fold cache_insert [demo_cached ''m2'' 9, demo_cached ''m1'' 4] demo_new_cache)"

definition demo_cache_files :: "(string, bytes) hash_map" where
  "demo_cache_files =
     [(''d/signal_message_cache.enc'', replicate 12 0 @ [7, 1]), (''d/signal_reaction_cache.enc'', replicate 12 0 @ [7, 2])]"

lemma demo_cache_parts:
  "lc_messages demo_cache = [(5, [demo_cached ''m1'' 4, demo_cached ''m2'' 9])]"
  "lc_reactions demo_cache = [(5, [demo_reaction])]" "lc_cache_key demo_cache = [7]"
  "lc_cache_path demo_cache = ''d/signal_message_cache.enc''"
  "lc_reaction_cache_path demo_cache = ''d/signal_reaction_cache.enc''"
  by (simp_all add: demo_cache_def demo_new_cache_def cache_insert_def insert_reaction_def demo_cached_def
      hm_entry_modify_def vec_insert_def partition_point_def search_base.simps)

lemma demo_libs_ok: "cache_lib_ok demo_cache_lib" "file_ops_ok demo_files"
  by (auto simp: cache_lib_ok_def file_ops_ok_def demo_cache_lib_def demo_files_def hm_wf_def split: if_splits)

theorem cache_save_load_witness:
  "\<exists>c1 c2. load demo_cache_lib demo_files demo_cache_files demo_new_cache = (Inr (), c1) \<and>
    load_reactions demo_cache_lib demo_files demo_cache_files c1 = (Inr (), c2) \<and>
    channel_messages c2 = channel_messages demo_cache \<and> channel_ids c2 = channel_ids demo_cache \<and>
    channel_reactions c2 = channel_reactions demo_cache \<and> cache_inv c2"
proof (rule cache_save_load [OF demo_libs_ok])
  show "cache_reachable demo_cache_lib demo_files ''d'' [7] demo_cache"
    unfolding demo_cache_def fold.simps comp_apply id_apply
    by (intro reach_react reach_insert reach_new demo_new)
  show "LocalMessageCache_new demo_cache_lib demo_files ''d'' [7] = Inr demo_new_cache" by (rule demo_new)
  show "save demo_cache_lib demo_files (Some (replicate 12 0)) demo_cache [] =
      (Inr (), [(''d/signal_message_cache.enc'', replicate 12 0 @ [7, 1])])"
    by (simp add: save_def save_file_def demo_cache_parts demo_cache_lib_def demo_files_def cache_encrypt_def)
  show "save_reactions demo_cache_lib demo_files (Some (replicate 12 0)) demo_cache
      [(''d/signal_message_cache.enc'', replicate 12 0 @ [7, 1])] = (Inr (), demo_cache_files)"
    by (simp add: save_reactions_def save_file_def demo_cache_parts demo_cache_lib_def demo_files_def
        cache_encrypt_def demo_cache_files_def)
qed (simp_all add: GCM_NONCE_LEN_def)

end
