(* ===== verification/App_Notices.thy ===== *)
theory App_Notices
  imports App_Types Fancy_Utils
begin

text \<open>
  The handlers of the application backend that only translate a message into an event of the user
  interface (src/crates/mumble-tauri/src/state/handler: acl.rs, ban_list.rs, user_list.rs, user_stats.rs,
  watch_sync.rs, draw_stroke.rs, typing_indicator.rs, custom_reactions_config.rs, link_preview.rs, ping.rs,
  plugin_data.rs, webrtc_signal.rs), with the payloads of types.rs they fill. A translation returns the
  event, or \<open>None\<close> when the message is dropped.
\<close>

section \<open>Payloads\<close>

record AclGroupPayload =
  aclg_name :: string
  aclg_inherited :: bool
  aclg_inherit :: bool
  aclg_inheritable :: bool
  aclg_add :: "u32 list"
  aclg_remove :: "u32 list"
  aclg_inherited_members :: "u32 list"
  aclg_color :: "string option"
  aclg_icon :: "bytes option"
  aclg_style_preset :: "string option"
  aclg_metadata :: "(string, string) hash_map"

record AclEntryPayload =
  acle_apply_here :: bool
  acle_apply_subs :: bool
  acle_inherited :: bool
  acle_user_id :: "u32 option"
  acle_group :: "string option"
  acle_grant :: u32
  acle_deny :: u32

record AclPayload =
  aclp_channel_id :: u32
  aclp_inherit_acls :: bool
  aclp_groups :: "AclGroupPayload list"
  aclp_acls :: "AclEntryPayload list"

record BanEntryPayload =
  banp_address :: string
  banp_mask :: u32
  banp_name :: string
  banp_hash :: string
  banp_reason :: string
  banp_start :: string
  banp_duration :: u32

record RegisteredUserPayload =
  regu_user_id :: u32
  regu_name :: string
  regu_last_seen :: "string option"
  regu_last_channel :: "u32 option"
  regu_texture :: "bytes option"
  regu_comment :: "string option"
  regu_comment_hash :: "bytes option"

record UserCommentPayload =
  ucom_user_id :: u32
  ucom_comment :: string

record AppPacketStats =
  pks_good :: u32
  pks_late :: u32
  pks_lost :: u32
  pks_resync :: u32

definition default_AppPacketStats :: AppPacketStats where
  "default_AppPacketStats = \<lparr>pks_good = 0, pks_late = 0, pks_lost = 0, pks_resync = 0\<rparr>"

record RollingStatsPayload =
  roll_time_window :: u32
  roll_from_client :: AppPacketStats
  roll_from_server :: AppPacketStats

record UserStatsPayload =
  ust_session :: u32
  ust_tcp_packets :: u32
  ust_udp_packets :: u32
  ust_tcp_ping_avg :: f32
  ust_tcp_ping_var :: f32
  ust_udp_ping_avg :: f32
  ust_udp_ping_var :: f32
  ust_bandwidth :: "u32 option"
  ust_onlinesecs :: "u32 option"
  ust_idlesecs :: "u32 option"
  ust_strong_certificate :: bool
  ust_opus :: bool
  ust_version :: "string option"
  ust_os :: "string option"
  ust_os_version :: "string option"
  ust_address :: "string option"
  ust_from_client :: "AppPacketStats option"
  ust_from_server :: "AppPacketStats option"
  ust_rolling_stats :: "RollingStatsPayload option"

datatype WatchSyncEvent =
  WSE_Start "u32 option" "string option" "string option" "string option" "u32 option"
| WSE_State "string option" "f64 option" "u64 option" "u32 option"
| WSE_Join "u32 option"
| WSE_Leave "u32 option"
| WSE_StateRequest
| WSE_End
| WSE_HostTransfer "u32 option"

record WatchSyncPayload =
  wsp_session_id :: "string option"
  wsp_actor :: "u32 option"
  wsp_event :: WatchSyncEvent

record DrawStrokePayload =
  dsp_sender_session :: u32
  dsp_channel_id :: u32
  dsp_stroke_id :: string
  dsp_color :: u32
  dsp_width :: f32
  dsp_width_frac :: "f32 option"
  dsp_points :: "f32 list"
  dsp_is_end :: bool
  dsp_is_clear :: bool
  dsp_clear_all :: bool

record TypingIndicatorPayload =
  tip_session :: u32
  tip_channel_id :: u32

record CustomReactionPayload =
  crp_shortcode :: string
  crp_display :: string
  crp_label :: "string option"

record ReadStatePayload =
  rst_cert_hash :: string
  rst_name :: string
  rst_is_online :: bool
  rst_last_read_message_id :: string
  rst_timestamp :: u64

record ReadReceiptDeliverPayload =
  rrd_channel_id :: u32
  rrd_read_states :: "ReadStatePayload list"
  rrd_query_message_id :: "string option"

record EmbedPreview =
  ebp_data_url :: string
  ebp_mime :: string
  ebp_width :: "i32 option"
  ebp_height :: "i32 option"

record EmbedMedia =
  ebm_url :: string
  ebm_width :: "i32 option"
  ebm_height :: "i32 option"
  ebm_original_size :: "u32 option"
  ebm_preview :: "EmbedPreview option"

record EmbedProvider =
  ebv_name :: string
  ebv_url :: "string option"

record EmbedAuthor =
  eba_name :: string
  eba_url :: "string option"

record EmbedField =
  ebf_name :: string
  ebf_value :: string
  ebf_inline :: bool

record LinkEmbed =
  lke_url :: "string option"
  lke_type :: "string option"
  lke_title :: "string option"
  lke_description :: "string option"
  lke_color :: "i32 option"
  lke_site_name :: "string option"
  lke_thumbnail :: "EmbedMedia option"
  lke_image :: "EmbedMedia option"
  lke_video :: "EmbedMedia option"
  lke_favicon :: "EmbedMedia option"
  lke_provider :: "EmbedProvider option"
  lke_author :: "EmbedAuthor option"
  lke_canonical_url :: "string option"
  lke_lang :: "string option"
  lke_published_time :: "string option"
  lke_modified_time :: "string option"
  lke_keywords :: "string list"
  lke_summary :: "string option"
  lke_content_type :: "string option"
  lke_content_length :: "u64 option"
  lke_media_duration :: "string option"
  lke_nsfw :: "bool option"
  lke_reading_time :: "string option"
  lke_fields :: "EmbedField list"
  lke_fetched_at :: "string option"

record LinkPreviewResponsePayload =
  lkr_request_id :: string
  lkr_embeds :: "LinkEmbed list"

datatype notice =
  N_acl AclPayload
| N_ban_list "BanEntryPayload list"
| N_user_comment UserCommentPayload
| N_user_list "RegisteredUserPayload list"
| N_user_stats UserStatsPayload
| N_watch_sync WatchSyncPayload
| N_draw_stroke DrawStrokePayload
| N_typing_indicator TypingIndicatorPayload
| N_custom_reactions_config "CustomReactionPayload list"
| N_read_receipt_deliver ReadReceiptDeliverPayload
| N_link_preview_response LinkPreviewResponsePayload
| N_ping_latency f64
| N_plugin_data PluginDataPayload
| N_webrtc_signal WebRtcSignalPayload

section \<open>Access control and administration\<close>

text \<open>\<^verbatim>\<open>collect\<close> into a map: a later entry with the same key wins.\<close>

definition acl_metadata :: "Acl_ChanGroup_KeyValue list \<Rightarrow> (string, string) hash_map" where
  "acl_metadata kvs =
     fold (\<lambda>kv. hm_insert (Acl_ChanGroup_KeyValue_key kv) (unwrap_or [] (Acl_ChanGroup_KeyValue_value kv))) kvs []"

text \<open>The accessors of the flags have the defaults of the protocol file, all \<open>true\<close>.\<close>

definition acl_group_payload :: "Acl_ChanGroup \<Rightarrow> AclGroupPayload" where
  "acl_group_payload g =
     \<lparr>aclg_name = Acl_ChanGroup_name g, aclg_inherited = unwrap_or True (Acl_ChanGroup_inherited g),
      aclg_inherit = unwrap_or True (Acl_ChanGroup_inherit g),
      aclg_inheritable = unwrap_or True (Acl_ChanGroup_inheritable g), aclg_add = Acl_ChanGroup_add g,
      aclg_remove = Acl_ChanGroup_remove g, aclg_inherited_members = Acl_ChanGroup_inherited_members g,
      aclg_color = Acl_ChanGroup_color g, aclg_icon = Acl_ChanGroup_icon g,
      aclg_style_preset = Acl_ChanGroup_style_preset g, aclg_metadata = acl_metadata (Acl_ChanGroup_metadata g)\<rparr>"

definition acl_entry_payload :: "Acl_ChanAcl \<Rightarrow> AclEntryPayload" where
  "acl_entry_payload a =
     \<lparr>acle_apply_here = unwrap_or True (Acl_ChanAcl_apply_here a),
      acle_apply_subs = unwrap_or True (Acl_ChanAcl_apply_subs a),
      acle_inherited = unwrap_or True (Acl_ChanAcl_inherited a), acle_user_id = Acl_ChanAcl_user_id a,
      acle_group = Acl_ChanAcl_group a, acle_grant = unwrap_or 0 (Acl_ChanAcl_grant a),
      acle_deny = unwrap_or 0 (Acl_ChanAcl_deny a)\<rparr>"

definition Acl_handle :: "Acl \<Rightarrow> notice option" where
  "Acl_handle m =
     Some (N_acl \<lparr>aclp_channel_id = Acl_channel_id m, aclp_inherit_acls = unwrap_or True (Acl_inherit_acls m),
       aclp_groups = map acl_group_payload (Acl_groups m), aclp_acls = map acl_entry_payload (Acl_acls m)\<rparr>)"

definition BanList_handle :: "BanList \<Rightarrow> notice option" where
  "BanList_handle m =
     Some (N_ban_list (map (\<lambda>b.
       \<lparr>banp_address = format_ip_address (BanList_BanEntry_address b), banp_mask = BanList_BanEntry_mask b,
        banp_name = unwrap_or [] (BanList_BanEntry_name b), banp_hash = unwrap_or [] (BanList_BanEntry_hash b),
        banp_reason = unwrap_or [] (BanList_BanEntry_reason b), banp_start = unwrap_or [] (BanList_BanEntry_start b),
        banp_duration = unwrap_or 0 (BanList_BanEntry_duration b)\<rparr>) (BanList_bans m)))"

text \<open>\<^verbatim>\<open>filter(|x| !x.is_empty())\<close> on an optional value.\<close>

definition non_empty :: "'a list option \<Rightarrow> 'a list option" where
  "non_empty x = (case x of Some (a # as) \<Rightarrow> Some (a # as) | _ \<Rightarrow> None)"

definition registered_user :: "UserList_User \<Rightarrow> RegisteredUserPayload" where
  "registered_user u =
     \<lparr>regu_user_id = UserList_User_user_id u, regu_name = unwrap_or [] (UserList_User_name u),
      regu_last_seen = UserList_User_last_seen u, regu_last_channel = UserList_User_last_channel u,
      regu_texture = non_empty (UserList_User_texture u), regu_comment = non_empty (UserList_User_comment u),
      regu_comment_hash = non_empty (UserList_User_comment_hash u)\<rparr>"

definition UserList_handle :: "UserList \<Rightarrow> notice option" where
  "UserList_handle m =
     (case (case UserList_users m of
              [u] \<Rightarrow> map_option (Pair (UserList_User_user_id u)) (non_empty (UserList_User_comment u))
            | _ \<Rightarrow> None) of
        Some (i, c) \<Rightarrow> Some (N_user_comment \<lparr>ucom_user_id = i, ucom_comment = c\<rparr>)
      | None \<Rightarrow> Some (N_user_list (map registered_user (UserList_users m))))"

definition extract_packet_stats :: "UserStats_Stats option \<Rightarrow> AppPacketStats option" where
  "extract_packet_stats = map_option (\<lambda>s.
     \<lparr>pks_good = unwrap_or 0 (UserStats_Stats_good s), pks_late = unwrap_or 0 (UserStats_Stats_late s),
      pks_lost = unwrap_or 0 (UserStats_Stats_lost s), pks_resync = unwrap_or 0 (UserStats_Stats_resync s)\<rparr>)"

definition UserStats_handle :: "UserStats \<Rightarrow> notice option" where
  "UserStats_handle m =
     map_option (\<lambda>session. N_user_stats
       \<lparr>ust_session = session, ust_tcp_packets = unwrap_or 0 (UserStats_tcp_packets m),
        ust_udp_packets = unwrap_or 0 (UserStats_udp_packets m),
        ust_tcp_ping_avg = unwrap_or 0 (UserStats_tcp_ping_avg m),
        ust_tcp_ping_var = unwrap_or 0 (UserStats_tcp_ping_var m),
        ust_udp_ping_avg = unwrap_or 0 (UserStats_udp_ping_avg m),
        ust_udp_ping_var = unwrap_or 0 (UserStats_udp_ping_var m), ust_bandwidth = UserStats_bandwidth m,
        ust_onlinesecs = UserStats_onlinesecs m, ust_idlesecs = UserStats_idlesecs m,
        ust_strong_certificate = unwrap_or False (UserStats_strong_certificate m),
        ust_opus = unwrap_or False (UserStats_opus m),
        ust_version = (case UserStats_version m of None \<Rightarrow> None | Some v \<Rightarrow> Version_release v),
        ust_os = (case UserStats_version m of None \<Rightarrow> None | Some v \<Rightarrow> Version_os v),
        ust_os_version = (case UserStats_version m of None \<Rightarrow> None | Some v \<Rightarrow> Version_os_version v),
        ust_address = map_option format_ip_address (UserStats_address m),
        ust_from_client = extract_packet_stats (UserStats_from_client m),
        ust_from_server = extract_packet_stats (UserStats_from_server m),
        ust_rolling_stats = map_option (\<lambda>rs.
          \<lparr>roll_time_window = unwrap_or 0 (UserStats_RollingStats_time_window rs),
           roll_from_client = unwrap_or default_AppPacketStats (extract_packet_stats (UserStats_RollingStats_from_client rs)),
           roll_from_server = unwrap_or default_AppPacketStats (extract_packet_stats (UserStats_RollingStats_from_server rs))\<rparr>)
          (UserStats_rolling_stats m)\<rparr>) (UserStats_session m)"

section \<open>Shared activities\<close>

definition source_kind_to_str :: "i32 \<Rightarrow> string option" where
  "source_kind_to_str v = (if v = 0 then Some ''directMedia'' else if v = 1 then Some ''youtube'' else None)"

definition playback_state_to_str :: "i32 \<Rightarrow> string option" where
  "playback_state_to_str v =
     (if v = 0 then Some ''paused'' else if v = 1 then Some ''playing'' else if v = 2 then Some ''ended'' else None)"

fun watch_event :: "FancyWatchSync_Event \<Rightarrow> WatchSyncEvent" where
  "watch_event (FancyWatchSync_Event_Start s) =
     WSE_Start (FancyWatchSync_Start_channel_id s) (FancyWatchSync_Start_source_url s)
       (case FancyWatchSync_Start_source_kind s of None \<Rightarrow> None | Some v \<Rightarrow> source_kind_to_str v)
       (FancyWatchSync_Start_title s) (FancyWatchSync_Start_host_session s)"
| "watch_event (FancyWatchSync_Event_State s) =
     WSE_State (case FancyWatchSync_State_state s of None \<Rightarrow> None | Some v \<Rightarrow> playback_state_to_str v)
       (FancyWatchSync_State_current_time s) (FancyWatchSync_State_updated_at_ms s) (FancyWatchSync_State_host_session s)"
| "watch_event (FancyWatchSync_Event_Join m) = WSE_Join (FancyWatchSync_Member_session m)"
| "watch_event (FancyWatchSync_Event_Leave m) = WSE_Leave (FancyWatchSync_Member_session m)"
| "watch_event (FancyWatchSync_Event_StateRequest u) = WSE_StateRequest"
| "watch_event (FancyWatchSync_Event_End u) = WSE_End"
| "watch_event (FancyWatchSync_Event_HostTransfer t) = WSE_HostTransfer (FancyWatchSync_HostTransfer_new_host_session t)"

definition FancyWatchSync_handle :: "FancyWatchSync \<Rightarrow> notice option" where
  "FancyWatchSync_handle m =
     map_option (\<lambda>e. N_watch_sync \<lparr>wsp_session_id = FancyWatchSync_session_id m, wsp_actor = FancyWatchSync_actor m,
       wsp_event = watch_event e\<rparr>) (FancyWatchSync_event m)"

text \<open>\<^verbatim>\<open>4.0\<close> as a single.\<close>

definition FancyDrawStroke_handle :: "FancyDrawStroke \<Rightarrow> notice option" where
  "FancyDrawStroke_handle m =
     Some (N_draw_stroke
       \<lparr>dsp_sender_session = unwrap_or 0 (FancyDrawStroke_sender_session m),
        dsp_channel_id = unwrap_or 0 (FancyDrawStroke_channel_id m),
        dsp_stroke_id = unwrap_or [] (FancyDrawStroke_stroke_id m),
        dsp_color = unwrap_or 0xFFFF0000 (FancyDrawStroke_color m),
        dsp_width = unwrap_or 0x40800000 (FancyDrawStroke_width m), dsp_width_frac = FancyDrawStroke_width_frac m,
        dsp_points = FancyDrawStroke_points m, dsp_is_end = unwrap_or False (FancyDrawStroke_is_end m),
        dsp_is_clear = unwrap_or False (FancyDrawStroke_is_clear m),
        dsp_clear_all = unwrap_or False (FancyDrawStroke_clear_all m)\<rparr>)"

definition FancyTypingIndicator_handle :: "FancyTypingIndicator \<Rightarrow> notice option" where
  "FancyTypingIndicator_handle m =
     (let session = unwrap_or 0 (FancyTypingIndicator_actor m)
      in if session = 0 then None
         else Some (N_typing_indicator \<lparr>tip_session = session,
                tip_channel_id = unwrap_or 0 (FancyTypingIndicator_channel_id m)\<rparr>))"

definition FancyCustomReactionsConfig_handle :: "FancyCustomReactionsConfig \<Rightarrow> notice option" where
  "FancyCustomReactionsConfig_handle m =
     Some (N_custom_reactions_config (map (\<lambda>r.
       \<lparr>crp_shortcode = unwrap_or [] (FancyCustomReactionsConfig_CustomReaction_shortcode r),
        crp_display = unwrap_or [] (FancyCustomReactionsConfig_CustomReaction_display r),
        crp_label = FancyCustomReactionsConfig_CustomReaction_label r\<rparr>) (FancyCustomReactionsConfig_reactions m)))"

text \<open>\<open>to_f64\<close> is the conversion of an unsigned integer to a double.\<close>

definition Ping_handle :: "(u64 \<Rightarrow> f64) \<Rightarrow> u64 \<Rightarrow> Ping \<Rightarrow> notice option" where
  "Ping_handle to_f64 now m =
     map_option (\<lambda>ts. N_ping_latency (to_f64 (if now < ts then 0 else now - ts))) (Ping_timestamp m)"

definition PluginDataTransmission_handle :: "PluginDataTransmission \<Rightarrow> notice option" where
  "PluginDataTransmission_handle m =
     Some (N_plugin_data \<lparr>pl_sender_session = PluginDataTransmission_sender_session m,
       pl_data = unwrap_or [] (PluginDataTransmission_data m),
       pl_data_id = unwrap_or [] (PluginDataTransmission_data_id m)\<rparr>)"

definition WebRtcSignal_handle :: "WebRtcSignal \<Rightarrow> notice option" where
  "WebRtcSignal_handle m =
     Some (N_webrtc_signal \<lparr>ws_sender_session = WebRtcSignal_sender_session m,
       ws_target_session = WebRtcSignal_target_session m, ws_signal_type = unwrap_or 0 (WebRtcSignal_signal_type m),
       ws_payload = unwrap_or [] (WebRtcSignal_payload m)\<rparr>)"

section \<open>Link previews\<close>

definition BASE64_TABLE :: string where
  "BASE64_TABLE = ''ABCDEFGHIJKLMNOPQRSTUVWXYZabcdefghijklmnopqrstuvwxyz0123456789+/''"

definition base64_char :: "u8 \<Rightarrow> char" where
  "base64_char w = BASE64_TABLE ! unat w"

text \<open>The index of the loop advances by three bytes.\<close>

fun base64_encode :: "bytes \<Rightarrow> string" where
  "base64_encode (b0 # b1 # b2 # rest) =
     [base64_char (drop_bit 2 b0), base64_char (push_bit 4 (b0 AND 3) OR drop_bit 4 b1),
      base64_char (push_bit 2 (b1 AND 15) OR drop_bit 6 b2), base64_char (b2 AND 63)] @ base64_encode rest"
| "base64_encode [b0, b1] =
     [base64_char (drop_bit 2 b0), base64_char (push_bit 4 (b0 AND 3) OR drop_bit 4 b1),
      base64_char (push_bit 2 (b1 AND 15)), CHR ''='']"
| "base64_encode [b0] = [base64_char (drop_bit 2 b0), base64_char (push_bit 4 (b0 AND 3)), CHR ''='', CHR ''='']"
| "base64_encode [] = []"

definition convert_media :: "FancyLinkPreviewResponse_Embed_Media \<Rightarrow> EmbedMedia" where
  "convert_media media =
     (let preview =
            (case FancyLinkPreviewResponse_Embed_Media_preview_data media of
               None \<Rightarrow> None
             | Some bytes \<Rightarrow>
                 if bytes = [] then None
                 else
                   let mime = unwrap_or ''image/jpeg'' (non_empty (FancyLinkPreviewResponse_Embed_Media_preview_mime media))
                   in Some \<lparr>ebp_data_url = ''data:'' @ mime @ '';base64,'' @ base64_encode bytes, ebp_mime = mime,
                           ebp_width = FancyLinkPreviewResponse_Embed_Media_preview_width media,
                           ebp_height = FancyLinkPreviewResponse_Embed_Media_preview_height media\<rparr>)
      in \<lparr>ebm_url = unwrap_or [] (FancyLinkPreviewResponse_Embed_Media_url media),
          ebm_width = FancyLinkPreviewResponse_Embed_Media_width media,
          ebm_height = FancyLinkPreviewResponse_Embed_Media_height media,
          ebm_original_size = FancyLinkPreviewResponse_Embed_Media_original_size media, ebm_preview = preview\<rparr>)"

definition convert_embed :: "FancyLinkPreviewResponse_Embed \<Rightarrow> LinkEmbed" where
  "convert_embed e =
     \<lparr>lke_url = FancyLinkPreviewResponse_Embed_url e, lke_type = FancyLinkPreviewResponse_Embed_type e,
      lke_title = FancyLinkPreviewResponse_Embed_title e, lke_description = FancyLinkPreviewResponse_Embed_description e,
      lke_color = FancyLinkPreviewResponse_Embed_color e, lke_site_name = FancyLinkPreviewResponse_Embed_site_name e,
      lke_thumbnail = map_option convert_media (FancyLinkPreviewResponse_Embed_thumbnail e),
      lke_image = map_option convert_media (FancyLinkPreviewResponse_Embed_image e),
      lke_video = map_option convert_media (FancyLinkPreviewResponse_Embed_video e),
      lke_favicon = map_option convert_media (FancyLinkPreviewResponse_Embed_favicon e),
      lke_provider = map_option (\<lambda>p. \<lparr>ebv_name = unwrap_or [] (FancyLinkPreviewResponse_Embed_Provider_name p),
        ebv_url = FancyLinkPreviewResponse_Embed_Provider_url p\<rparr>) (FancyLinkPreviewResponse_Embed_provider e),
      lke_author = map_option (\<lambda>a. \<lparr>eba_name = unwrap_or [] (FancyLinkPreviewResponse_Embed_Author_name a),
        eba_url = FancyLinkPreviewResponse_Embed_Author_url a\<rparr>) (FancyLinkPreviewResponse_Embed_author e),
      lke_canonical_url = FancyLinkPreviewResponse_Embed_canonical_url e, lke_lang = FancyLinkPreviewResponse_Embed_lang e,
      lke_published_time = FancyLinkPreviewResponse_Embed_published_time e,
      lke_modified_time = FancyLinkPreviewResponse_Embed_modified_time e,
      lke_keywords = FancyLinkPreviewResponse_Embed_keywords e, lke_summary = FancyLinkPreviewResponse_Embed_summary e,
      lke_content_type = FancyLinkPreviewResponse_Embed_content_type e,
      lke_content_length = FancyLinkPreviewResponse_Embed_content_length e,
      lke_media_duration = FancyLinkPreviewResponse_Embed_media_duration e,
      lke_nsfw = FancyLinkPreviewResponse_Embed_nsfw e, lke_reading_time = FancyLinkPreviewResponse_Embed_reading_time e,
      lke_fields = map (\<lambda>f. \<lparr>ebf_name = unwrap_or [] (FancyLinkPreviewResponse_Embed_Field_name f),
        ebf_value = unwrap_or [] (FancyLinkPreviewResponse_Embed_Field_value f),
        ebf_inline = unwrap_or False (FancyLinkPreviewResponse_Embed_Field_inline f)\<rparr>)
        (FancyLinkPreviewResponse_Embed_fields e),
      lke_fetched_at = FancyLinkPreviewResponse_Embed_fetched_at e\<rparr>"

definition FancyLinkPreviewResponse_handle :: "FancyLinkPreviewResponse \<Rightarrow> notice option" where
  "FancyLinkPreviewResponse_handle m =
     Some (N_link_preview_response \<lparr>lkr_request_id = unwrap_or [] (FancyLinkPreviewResponse_request_id m),
       lkr_embeds = map convert_embed (FancyLinkPreviewResponse_embeds m)\<rparr>)"

section \<open>The encoder is RFC 4648\<close>

text \<open>The decoder of the standard: the value of a character is its position in the alphabet, and a quantum
  of four characters carries three bytes, or two or one when it ends in one or two \<^verbatim>\<open>=\<close>.\<close>

definition base64_value :: "char \<Rightarrow> u8 option" where
  "base64_value c = map_option of_nat (position (\<lambda>x. x = c) BASE64_TABLE)"

fun base64_decode :: "string \<Rightarrow> bytes option" where
  "base64_decode [] = Some []"
| "base64_decode (c0 # c1 # c2 # c3 # rest) =
     (case (base64_value c0, base64_value c1) of
        (Some v0, Some v1) \<Rightarrow>
          let b0 = push_bit 2 v0 OR drop_bit 4 v1
          in if c2 = CHR ''='' then (if c3 = CHR ''='' \<and> rest = [] then Some [b0] else None)
             else (case base64_value c2 of
                     None \<Rightarrow> None
                   | Some v2 \<Rightarrow>
                       let b1 = push_bit 4 v1 OR drop_bit 2 v2
                       in if c3 = CHR ''='' then (if rest = [] then Some [b0, b1] else None)
                          else (case base64_value c3 of
                                  None \<Rightarrow> None
                                | Some v3 \<Rightarrow> map_option (\<lambda>bs. b0 # b1 # (push_bit 6 v2 OR v3) # bs) (base64_decode rest)))
      | _ \<Rightarrow> None)"
| "base64_decode _ = None"

lemma base64_table: "length BASE64_TABLE = 64" "distinct BASE64_TABLE" "CHR ''='' \<notin> set BASE64_TABLE"
  by (simp_all add: BASE64_TABLE_def)

lemma position_nth: "distinct xs \<Longrightarrow> i < length xs \<Longrightarrow> position (\<lambda>x. x = xs ! i) xs = Some i"
proof (induction xs arbitrary: i)
  case (Cons x xs)
  then show ?case by (cases i) auto
qed simp

lemma base64_value_char:
  assumes "unat w < 64"
  shows "base64_value (base64_char w) = Some w" "base64_char w \<noteq> CHR ''=''"
proof -
  have n: "unat w < length BASE64_TABLE" using assms by (simp add: base64_table)
  then have "position (\<lambda>x. x = base64_char w) BASE64_TABLE = Some (unat w)"
    using position_nth [OF base64_table(2) n] by (simp add: base64_char_def)
  then show "base64_value (base64_char w) = Some w" by (simp add: base64_value_def)
  show "base64_char w \<noteq> CHR ''=''" using n base64_table(3) by (metis base64_char_def nth_mem)
qed

text \<open>The four values of a quantum are below 64, and join to its bytes again.\<close>

lemma sextets_small:
  "unat (drop_bit 2 b) < 64" "unat (push_bit 4 (b AND 3) OR drop_bit 4 c) < 64"
  "unat (push_bit 2 (b AND 15) OR drop_bit 6 c) < 64" "unat (b AND 63) < 64"
  "unat (push_bit 4 (b AND 3)) < 64" "unat (push_bit 2 (b AND 15)) < 64" for b c :: u8
proof -
  have small: "unat w < 64" if "w = w AND mask 6" for w :: u8
  proof -
    have "w AND mask 6 < 2 ^ 6" by (rule and_mask_less') simp
    then have "w < 2 ^ 6" using that by simp
    then show ?thesis by (simp add: word_less_nat_alt)
  qed
  have [dest]: "n < 8" if "bit x n" for x :: u8 and n using bit_imp_le_length [OF that] by simp
  have masks: "(3 :: u8) = mask 2" "(15 :: u8) = mask 4" "(63 :: u8) = mask 6" by (simp_all add: mask_eq_exp_minus_1)
  show "unat (drop_bit 2 b) < 64" "unat (push_bit 4 (b AND 3) OR drop_bit 4 c) < 64"
    "unat (push_bit 2 (b AND 15) OR drop_bit 6 c) < 64" "unat (b AND 63) < 64"
    "unat (push_bit 4 (b AND 3)) < 64" "unat (push_bit 2 (b AND 15)) < 64"
    unfolding masks by (rule small, rule bit_word_eqI, force simp: bit_simps)+
qed

lemma sextets_join:
  "push_bit 2 (drop_bit 2 b0) OR drop_bit 4 (push_bit 4 (b0 AND 3) OR drop_bit 4 b1) = b0"
  "push_bit 4 (push_bit 4 (b0 AND 3) OR drop_bit 4 b1) OR drop_bit 2 (push_bit 2 (b1 AND 15) OR drop_bit 6 b2) = b1"
  "push_bit 6 (push_bit 2 (b1 AND 15) OR drop_bit 6 b2) OR (b2 AND 63) = b2"
  "push_bit 2 (drop_bit 2 b0) OR drop_bit 4 (push_bit 4 (b0 AND 3)) = b0"
  "push_bit 4 (drop_bit 4 b1) OR drop_bit 2 (push_bit 2 (b1 AND 15)) = b1"
  "push_bit 6 (drop_bit 6 b2) OR (b2 AND 63) = b2"
  for b0 b1 b2 :: u8
proof -
  have eq: "x = y" if "\<And>n. n < 8 \<Longrightarrow> bit x n = bit y n" for x y :: u8
    using that by (intro bit_word_eqI) simp
  have masks: "(3 :: u8) = mask 2" "(15 :: u8) = mask 4" "(63 :: u8) = mask 6" by (simp_all add: mask_eq_exp_minus_1)
  show "push_bit 2 (drop_bit 2 b0) OR drop_bit 4 (push_bit 4 (b0 AND 3) OR drop_bit 4 b1) = b0"
    unfolding masks by (rule eq, erule less_8_cases) (simp_all add: bit_simps)
  show "push_bit 4 (push_bit 4 (b0 AND 3) OR drop_bit 4 b1) OR drop_bit 2 (push_bit 2 (b1 AND 15) OR drop_bit 6 b2) = b1"
    unfolding masks by (rule eq, erule less_8_cases) (simp_all add: bit_simps)
  show "push_bit 6 (push_bit 2 (b1 AND 15) OR drop_bit 6 b2) OR (b2 AND 63) = b2"
    unfolding masks by (rule eq, erule less_8_cases) (simp_all add: bit_simps)
  show "push_bit 2 (drop_bit 2 b0) OR drop_bit 4 (push_bit 4 (b0 AND 3)) = b0"
    unfolding masks by (rule eq, erule less_8_cases) (simp_all add: bit_simps)
  show "push_bit 4 (drop_bit 4 b1) OR drop_bit 2 (push_bit 2 (b1 AND 15)) = b1"
    unfolding masks by (rule eq, erule less_8_cases) (simp_all add: bit_simps)
  show "push_bit 6 (drop_bit 6 b2) OR (b2 AND 63) = b2"
    unfolding masks by (rule eq, erule less_8_cases) (simp_all add: bit_simps)
qed

theorem base64_roundtrip: "base64_decode (base64_encode bs) = Some bs"
  by (induction bs rule: base64_encode.induct)
    (simp_all add: base64_value_char sextets_small sextets_join Let_def del: push_bit_and)

end
