(* ===== verification/App_State.thy ===== *)
theory App_State
  imports Local_Cache Key_Manager Commands App_Notices
begin

text \<open>
  The state of one server connection in the application backend
  (src/crates/mumble-tauri/src/state/mod.rs, pchat/mod.rs, pchat/conversion.rs): the record \<open>SharedState\<close>
  and its parts, the effects a handler has besides changing it, and the operations that several modules
  share.

  A section under the mutex of \<open>SharedState\<close> is one step; the mutex is never poisoned. A handle of a
  task or of a device is kept as the fact that it is there, a shared volume as its value; the handle of a
  recording and the store of messages offloaded to disk, which no operation here looks at, are left out. A command sent through the client's
  handle, an event for the user interface and a spawned task are recorded as \<open>app_effect\<close>, in the order
  they happen.
\<close>

section \<open>Persistent chat\<close>

record Attachment =
  at_name :: string
  at_mime :: string
  at_data :: bytes

record MessageEnvelope =
  me_body :: string
  me_sender_name :: string
  me_sender_session :: u32
  me_attachments :: "Attachment list"

record PendingSignalEnvelope =
  pe_message_id :: string
  pe_channel_id :: u32
  pe_timestamp :: u64
  pe_sender_hash :: string
  pe_envelope_bytes :: bytes

text \<open>The bridge itself is held by the key manager; \<open>ps_signal_bridge\<close> says that it is loaded.\<close>

record 'br PchatState =
  ps_key_manager :: "'br KeyManager"
  ps_own_cert_hash :: string
  ps_seed :: bytes
  ps_fetched_channels :: "u32 set"
  ps_identity_dir :: "string option"
  ps_signal_bridge :: bool
  ps_signal_bridge_load_failed :: bool
  ps_local_cache :: "LocalMessageCache option"
  ps_pending_signal_envelopes :: "PendingSignalEnvelope list"

section \<open>The parts of the state\<close>

type_synonym client_handle = nat

record ConnectionFields =
  cf_status :: ConnectionStatus
  cf_epoch :: u64
  cf_client_handle :: "client_handle option"
  cf_connect_task_handle :: bool
  cf_event_loop_handle :: bool
  cf_synced :: bool
  cf_own_session :: "u32 option"
  cf_own_name :: string
  cf_user_initiated_disconnect :: bool
  cf_tauri_app_handle :: bool

record ServerMetadata =
  md_fancy_version :: "u64 option"
  md_version_info :: ServerVersionInfo
  md_host :: string
  md_port :: u16
  md_max_users :: "u32 option"
  md_max_bandwidth :: "u32 option"
  md_opus :: bool
  md_config :: AppServerConfig
  md_welcome_text :: "string option"
  md_root_permissions :: "u32 option"

record AppPreferences =
  pr_notifications_enabled :: bool
  pr_disable_dual_path :: bool
  pr_app_focused :: bool

record 'br PchatContext =
  pc_pchat :: "'br PchatState option"
  pc_seed :: "bytes option"
  pc_identity_dir :: "string option"
  pc_pending_key_shares :: "PendingKeyShare list"
  pc_key_holders :: "(u32, KeyHolderEntry list) hash_map"
  pc_hash_name_resolver :: bool
  pc_pending_delete_acks :: "nat list"

record MessageStore =
  by_channel :: "(u32, ChatMessage list) hash_map"
  by_dm :: "(u32, ChatMessage list) hash_map"
  channel_unread :: "(u32, u32) hash_map"
  dm_unread :: "(u32, u32) hash_map"
  selected_dm_user :: "u32 option"

record AudioPipelineState =
  au_settings :: AudioSettings
  au_voice_state :: VoiceState
  au_mixer :: bool
  au_mixing_playback :: bool
  au_outbound_task_handle :: bool
  au_input_volume_handle :: "f32 option"
  au_output_volume_handle :: "f32 option"
  au_speaker_volumes :: "(u32, f32) hash_map"
  au_mic_test_handle :: bool
  au_latency_test_handle :: bool
  au_talking_sessions :: "u32 set"

record 'br SharedState =
  ss_conn :: ConnectionFields
  ss_server :: ServerMetadata
  ss_users :: "(u32, UserEntry) hash_map"
  ss_channels :: "(u32, ChannelEntry) hash_map"
  ss_selected_channel :: "u32 option"
  ss_current_channel :: "u32 option"
  ss_permanently_listened :: "u32 set"
  ss_push_subscribed_channels :: "u32 set"
  ss_msgs :: MessageStore
  ss_audio :: AudioPipelineState
  ss_pchat_ctx :: "'br PchatContext"
  ss_prefs :: AppPreferences
  ss_server_id :: "string option"
  ss_cert_label :: "string option"

definition default_SharedState :: "'br SharedState" where
  "default_SharedState =
     \<lparr>ss_conn = \<lparr>cf_status = Disconnected, cf_epoch = 0, cf_client_handle = None, cf_connect_task_handle = False,
        cf_event_loop_handle = False,
        cf_synced = False, cf_own_session = None, cf_own_name = '''', cf_user_initiated_disconnect = False,
        cf_tauri_app_handle = False\<rparr>,
      ss_server = \<lparr>md_fancy_version = None, md_version_info = default_ServerVersionInfo, md_host = '''', md_port = 0,
        md_max_users = None, md_max_bandwidth = None, md_opus = False, md_config = default_AppServerConfig,
        md_welcome_text = None, md_root_permissions = None\<rparr>,
      ss_users = [], ss_channels = [], ss_selected_channel = None, ss_current_channel = None,
      ss_permanently_listened = {}, ss_push_subscribed_channels = {},
      ss_msgs = \<lparr>by_channel = [], by_dm = [], channel_unread = [], dm_unread = [], selected_dm_user = None\<rparr>,
      ss_audio = \<lparr>au_settings = default_AudioSettings, au_voice_state = Inactive, au_mixer = False,
        au_mixing_playback = False, au_outbound_task_handle = False, au_input_volume_handle = None,
        au_output_volume_handle = None, au_speaker_volumes = [], au_mic_test_handle = False,
        au_latency_test_handle = False, au_talking_sessions = {}\<rparr>,
      ss_pchat_ctx = \<lparr>pc_pchat = None, pc_seed = None, pc_identity_dir = None, pc_pending_key_shares = [],
        pc_key_holders = [], pc_hash_name_resolver = False, pc_pending_delete_acks = []\<rparr>,
      ss_prefs = \<lparr>pr_notifications_enabled = False, pr_disable_dual_path = False, pr_app_focused = False\<rparr>,
      ss_server_id = None, ss_cert_label = None\<rparr>"

section \<open>Effects\<close>

datatype ui_event =
  Ev_state_changed
| Ev_server_connected
| Ev_server_config
| Ev_new_message NewMessagePayload
| Ev_new_dm NewDmPayload
| Ev_dm_edited NewDmPayload
| Ev_unread_changed UnreadPayload
| Ev_dm_unread_changed DmUnreadPayload
| Ev_connection_rejected RejectedPayload
| Ev_server_disconnected DisconnectedPayload
| Ev_listen_denied ListenDeniedPayload
| Ev_permission_denied PermissionDeniedPayload
| Ev_notice notice
| Ev_current_channel_changed CurrentChannelPayload
| Ev_server_log ServerLogEntry
| Ev_custodian_pin_changed u32 CustodianPinState
| Ev_pchat_history_loading PchatHistoryLoadingPayload
| Ev_pchat_fetch_complete PchatFetchCompletePayload
| Ev_pchat_reaction_deliver ReactionDeliverPayload
| Ev_pchat_reaction_fetch_response ReactionFetchResponsePayload
| Ev_pchat_pin_deliver PinDeliverPayload
| Ev_pchat_pin_fetch_response PinFetchResponsePayload
| Ev_pchat_key_share_request KeyShareRequestPayload
| Ev_pchat_key_share_requests_changed KeyShareRequestsChangedPayload
| Ev_pchat_key_holders_changed KeyHoldersChangedPayload
| Ev_pchat_key_revoked PchatKeyRevokedPayload
| Ev_pchat_key_restored PchatKeyRevokedPayload
| Ev_pchat_signal_bridge_error SignalBridgeErrorPayload
| Ev_status_changed string
| Ev_user_talking u32 bool
| Ev_voice_state_changed VoiceState
| Ev_vad_threshold_updated f32
| Ev_mic_amplitude f32 f32

text \<open>Tasks: \<open>SendLater\<close> looks the client's handle up when it runs and sends its commands in order;
  the others are named after the function they run.\<close>

datatype app_task =
  SendLater "BoxedCommand list"
| PchatInitTask u32
| PchatKeyGenAndFetch u32
| KeyAnnounceAndChannelInit
| OutboundAudioLoop client_handle AudioSettings "u32 option"
| MicTestLoop AudioSettings
| LatencyPingLoop client_handle

datatype app_effect =
  Emit ui_event
| Attention
| Notification string string "bytes option" "u32 option"
| Spawn app_task
| Send client_handle BoxedCommand
| RecordName string string
| PersistArchiveKey string u32 bytes "string option"
| DeletePersistedArchiveKey string u32
| ResolveDelete nat DeleteAckResult
| SaveReactionCache LocalMessageCache
| SaveLocalCache LocalMessageCache
| SaveSignalState string
| AbortTask string

text \<open>What a step takes from its surroundings: the clocks, random identifiers, the name resolver, and the
  libraries of the persistent chat. \<open>env_load_bridge\<close> is the search for the bridge library together
  with the restoring of its saved state; the last two fields are operations of the bridge.\<close>

record 'br app_env =
  env_now_ms :: u64
  env_uuid :: "nat \<Rightarrow> string"
  env_resolve :: "string \<Rightarrow> string"
  env_crypto :: crypto_lib
  env_signal :: "'br signal_ops"
  env_rng :: rng_draw
  env_encode :: "MessageEnvelope \<Rightarrow> string + bytes"
  env_decode :: "bytes \<Rightarrow> string + MessageEnvelope"
  env_error_text :: "Error \<Rightarrow> string"
  env_instant :: nat
  env_load_bridge :: "string \<Rightarrow> string option \<Rightarrow> 'br option"
  env_create_distribution :: "u32 \<Rightarrow> 'br \<Rightarrow> bytes result \<times> 'br"
  env_process_distribution :: "string \<Rightarrow> u32 \<Rightarrow> bytes \<Rightarrow> 'br \<Rightarrow> unit result \<times> 'br"

section \<open>Threads of messages\<close>

definition MAX_MESSAGES_PER_THREAD :: nat where
  "MAX_MESSAGES_PER_THREAD = 500"

definition push_capped :: "ChatMessage \<Rightarrow> ChatMessage list \<Rightarrow> ChatMessage list" where
  "push_capped msg messages =
     (let messages = messages @ [msg]
      in if length messages > MAX_MESSAGES_PER_THREAD
         then drop (length messages - MAX_MESSAGES_PER_THREAD) messages else messages)"

lemma push_capped_bound: "length (push_capped m ms) \<le> MAX_MESSAGES_PER_THREAD"
  by (simp add: push_capped_def Let_def MAX_MESSAGES_PER_THREAD_def)

lemma set_push_capped: "set (push_capped m ms) \<subseteq> insert m (set ms)" "m \<in> set (push_capped m ms)"
proof -
  show "set (push_capped m ms) \<subseteq> insert m (set ms)"
    by (auto simp: push_capped_def Let_def dest: in_set_dropD)
  have "m \<in> set (drop n (ms @ [m]))" if "n \<le> length ms" for n using that by simp
  then show "m \<in> set (push_capped m ms)"
    by (auto simp: push_capped_def Let_def MAX_MESSAGES_PER_THREAD_def)
qed

definition thread :: "(u32, ChatMessage list) hash_map \<Rightarrow> u32 \<Rightarrow> ChatMessage list" where
  "thread store k = (case hm_get store k of None \<Rightarrow> [] | Some ms \<Rightarrow> ms)"

section \<open>Counts of users\<close>

definition refresh_user_counts :: "'br SharedState \<Rightarrow> 'br SharedState" where
  "refresh_user_counts state =
     (let channels = hm_values_mut (\<lambda>ch. ch\<lparr>ce_user_count := 0\<rparr>) (ss_channels state)
      in state\<lparr>ss_channels := fold (\<lambda>user. hm_get_mut (ue_channel_id user) (\<lambda>ch. ch\<lparr>ce_user_count := ce_user_count ch + 1\<rparr>))
                 (hm_values (ss_users state)) channels\<rparr>)"

definition parse_pchat_protocol_str :: "string \<Rightarrow> PchatProtocol" where
  "parse_pchat_protocol_str s =
     (if s = ''fancy_v1_full_archive'' then PP_FancyV1FullArchive
      else if s = ''signal_v1'' then PP_SignalV1 else PP_None)"

section \<open>Decryption of an envelope\<close>

record InboundEnvelope =
  ie_protocol :: PchatProtocol
  ie_sender_hash :: string
  ie_channel_id :: u32
  ie_message_id :: string
  ie_timestamp :: u64
  ie_envelope_bytes :: bytes
  ie_epoch :: "u32 option"
  ie_chain_index :: "u32 option"
  ie_epoch_fingerprint :: bytes

definition InboundEnvelope_decrypt ::
    "'br app_env \<Rightarrow> InboundEnvelope \<Rightarrow> 'br PchatState \<Rightarrow> (string + MessageEnvelope) \<times> 'br PchatState" where
  "InboundEnvelope_decrypt env ie pchat =
     (let (r, km) =
            (if ie_protocol ie = PP_SignalV1
             then decrypt_signal (env_signal env) (ie_sender_hash ie) (ie_channel_id ie) (ie_envelope_bytes ie)
                    (ps_key_manager pchat)
             else (KeyManager_decrypt (env_crypto env) (ps_key_manager pchat) (ie_protocol ie) (ie_channel_id ie)
                     (ie_message_id ie) (ie_timestamp ie)
                     \<lparr>ep_ciphertext = ie_envelope_bytes ie, ep_epoch = ie_epoch ie,
                      ep_chain_index = ie_chain_index ie, ep_epoch_fingerprint = ie_epoch_fingerprint ie\<rparr>,
                   ps_key_manager pchat));
          pchat = pchat\<lparr>ps_key_manager := km\<rparr>
      in case r of
           Inl e \<Rightarrow> (Inl (env_error_text env e), pchat)
         | Inr plaintext \<Rightarrow> (context_err ''decode envelope'' (env_decode env plaintext), pchat))"

definition PchatState_new ::
    "crypto_lib \<Rightarrow> cache_lib \<Rightarrow> 'fs file_ops \<Rightarrow> (Error \<Rightarrow> string) \<Rightarrow> bytes \<Rightarrow> string \<Rightarrow> string option \<Rightarrow> string + 'br PchatState" where
  "PchatState_new crypto lib fo err seed own_cert_hash identity_dir =
     (case SeedIdentity_from_seed crypto seed of
        Inl e \<Rightarrow> Inl (''Failed to derive pchat identity: '' @ err e)
      | Inr ident \<Rightarrow>
          Inr \<lparr>ps_key_manager = KeyManager_new crypto (seed_identity crypto ident), ps_own_cert_hash = own_cert_hash,
               ps_seed = seed, ps_fetched_channels = {}, ps_identity_dir = identity_dir, ps_signal_bridge = False,
               ps_signal_bridge_load_failed = False,
               ps_local_cache =
                 (case identity_dir of
                    None \<Rightarrow> None
                  | Some dir \<Rightarrow> (case LocalMessageCache_new lib fo dir seed of Inl e \<Rightarrow> None | Inr c \<Rightarrow> Some c)),
               ps_pending_signal_envelopes = []\<rparr>)"

definition cache_signal_message :: "CachedMessage \<Rightarrow> 'br PchatState \<Rightarrow> 'br PchatState" where
  "cache_signal_message msg pchat = pchat\<lparr>ps_local_cache := map_option (cache_insert msg) (ps_local_cache pchat)\<rparr>"

definition MAX_STASHED_ENVELOPES :: nat where
  "MAX_STASHED_ENVELOPES = 50"

definition PLACEHOLDER_BODY :: string where
  "PLACEHOLDER_BODY = ''[Encrypted message - awaiting key]''"

definition stash_signal_envelope :: "PendingSignalEnvelope \<Rightarrow> 'br PchatState \<Rightarrow> 'br PchatState" where
  "stash_signal_envelope envelope pchat =
     (let stash = ps_pending_signal_envelopes pchat;
          stash = (if length stash \<ge> MAX_STASHED_ENVELOPES then drop 1 stash else stash)
      in pchat\<lparr>ps_pending_signal_envelopes := stash @ [envelope]\<rparr>)"

end
