(* ===== verification/App_Text.thy ===== *)
theory App_Text
  imports App_State
begin

text \<open>
  The handler of text messages (src/crates/mumble-tauri/src/state/handler/text_message.rs): direct messages,
  channel messages, edits, unread counters and the deferred events that are sent once the state is
  unlocked.
\<close>

section \<open>Classification and deferred events\<close>

datatype MessageKind = DirectMessage | ChannelKind

definition classify :: "TextMessage \<Rightarrow> MessageKind" where
  "classify tm =
     (if TextMessage_session tm \<noteq> [] \<and> TextMessage_channel_id tm = [] then DirectMessage else ChannelKind)"

datatype DeferredEvent =
  DE_DirectMessage u32 string string
| DE_DmUnreads
| DE_NewMessage u32 "u32 option"
| DE_RequestUserAttention
| DE_ChannelMessage u32 string string "u32 option"
| DE_ChannelUnreads

definition send_notification_with_icon ::
    "'br SharedState \<Rightarrow> string \<Rightarrow> string \<Rightarrow> bytes option \<Rightarrow> u32 option \<Rightarrow> app_effect list" where
  "send_notification_with_icon st title body icon channel_id =
     (if pr_notifications_enabled (ss_prefs st) then [Notification title body icon channel_id] else [])"

definition lookup_texture :: "'br SharedState \<Rightarrow> u32 option \<Rightarrow> bytes option" where
  "lookup_texture st session =
     (case session of
        None \<Rightarrow> None
      | Some sid \<Rightarrow> (case hm_get (ss_users st) sid of None \<Rightarrow> None | Some u \<Rightarrow> ue_texture u))"

definition emit_direct_message :: "'br SharedState \<Rightarrow> u32 \<Rightarrow> string \<Rightarrow> string \<Rightarrow> app_effect list" where
  "emit_direct_message st sender_session sender_name body =
     [Emit (Ev_new_dm \<lparr>nd_session = sender_session\<rparr>), Attention] @
     send_notification_with_icon st sender_name (strip_html_tags body) (lookup_texture st (Some sender_session)) None"

definition emit_channel_notification ::
    "'br SharedState \<Rightarrow> u32 \<Rightarrow> string \<Rightarrow> string \<Rightarrow> u32 option \<Rightarrow> app_effect list" where
  "emit_channel_notification st channel_id sender_name body sender_session =
     (let title = (case hm_get (ss_channels st) channel_id of
                     Some c \<Rightarrow> sender_name @ '' in #'' @ ce_name c
                   | None \<Rightarrow> sender_name)
      in send_notification_with_icon st title (strip_html_tags body) (lookup_texture st sender_session) (Some channel_id))"

fun flush_event :: "'br SharedState \<Rightarrow> DeferredEvent \<Rightarrow> app_effect list" where
  "flush_event st (DE_DirectMessage sender_session sender_name body) = emit_direct_message st sender_session sender_name body"
| "flush_event st DE_DmUnreads = [Emit (Ev_dm_unread_changed \<lparr>du_unreads = dm_unread (ss_msgs st)\<rparr>)]"
| "flush_event st (DE_NewMessage channel_id sender_session) =
     [Emit (Ev_new_message \<lparr>nm_channel_id = channel_id, nm_sender_session = sender_session\<rparr>)]"
| "flush_event st DE_RequestUserAttention = [Attention]"
| "flush_event st (DE_ChannelMessage channel_id sender_name body sender_session) =
     emit_channel_notification st channel_id sender_name body sender_session"
| "flush_event st DE_ChannelUnreads = [Emit (Ev_unread_changed \<lparr>up_unreads = channel_unread (ss_msgs st)\<rparr>)]"

definition flush :: "'br SharedState \<Rightarrow> DeferredEvent list \<Rightarrow> app_effect list" where
  "flush st events = concat (map (flush_event st) events)"

section \<open>Edits\<close>

text \<open>\<^verbatim>\<open>iter_mut().find(p)\<close> followed by a mutation.\<close>

fun update_first :: "('a \<Rightarrow> bool) \<Rightarrow> ('a \<Rightarrow> 'a) \<Rightarrow> 'a list \<Rightarrow> 'a list" where
  "update_first p f [] = []"
| "update_first p f (x # xs) = (if p x then f x # xs else x # update_first p f xs)"

definition has_id :: "string \<Rightarrow> ChatMessage \<Rightarrow> bool" where
  "has_id i m \<longleftrightarrow> cm_message_id m = Some i"

definition apply_edit :: "string \<Rightarrow> string \<Rightarrow> u64 \<Rightarrow> ChatMessage list \<Rightarrow> bool \<times> ChatMessage list" where
  "apply_edit edit_id new_body edited_at messages =
     (list_ex (has_id edit_id) messages,
      update_first (has_id edit_id) (\<lambda>m. m\<lparr>cm_body := new_body, cm_edited_at := Some edited_at\<rparr>) messages)"

definition edit_thread ::
    "string \<Rightarrow> string \<Rightarrow> u64 \<Rightarrow> u32 \<Rightarrow> (u32, ChatMessage list) hash_map \<Rightarrow> bool \<times> (u32, ChatMessage list) hash_map" where
  "edit_thread edit_id new_body edited_at k store =
     (case hm_get store k of
        None \<Rightarrow> (False, store)
      | Some msgs \<Rightarrow>
          (case apply_edit edit_id new_body edited_at msgs of (found, msgs') \<Rightarrow> (found, hm_insert k msgs' store)))"

text \<open>\<^verbatim>\<open>channel_ids.iter().any(...)\<close>: the first channel that has the message.\<close>

fun edit_any ::
    "string \<Rightarrow> string \<Rightarrow> u64 \<Rightarrow> u32 list \<Rightarrow> (u32, ChatMessage list) hash_map \<Rightarrow> bool \<times> (u32, ChatMessage list) hash_map" where
  "edit_any edit_id new_body edited_at [] store = (False, store)"
| "edit_any edit_id new_body edited_at (k # ks) store =
     (case edit_thread edit_id new_body edited_at k store of
        (True, store') \<Rightarrow> (True, store')
      | (False, store') \<Rightarrow> edit_any edit_id new_body edited_at ks store')"

definition target_channels :: "TextMessage \<Rightarrow> u32 list" where
  "target_channels tm = (if TextMessage_channel_id tm = [] then [0] else TextMessage_channel_id tm)"

definition try_apply_edit ::
    "'br app_env \<Rightarrow> TextMessage \<Rightarrow> MessageKind \<Rightarrow> string \<Rightarrow> 'br SharedState \<Rightarrow> bool \<times> 'br SharedState" where
  "try_apply_edit env tm kind edit_id st =
     (let edited_at = (case TextMessage_timestamp tm of Some t \<Rightarrow> t | None \<Rightarrow> env_now_ms env);
          ms = ss_msgs st
      in case kind of
           DirectMessage \<Rightarrow>
             (case TextMessage_actor tm of
                None \<Rightarrow> (False, st)
              | Some sid \<Rightarrow>
                  (case edit_thread edit_id (TextMessage_message tm) edited_at sid (by_dm ms) of
                     (found, store) \<Rightarrow> (found, st\<lparr>ss_msgs := ms\<lparr>by_dm := store\<rparr>\<rparr>)))
         | ChannelKind \<Rightarrow>
             (case edit_any edit_id (TextMessage_message tm) edited_at (target_channels tm) (by_channel ms) of
                (found, store) \<Rightarrow> (found, st\<lparr>ss_msgs := ms\<lparr>by_channel := store\<rparr>\<rparr>)))"

text \<open>The event for a direct message is sent at once, those for channels are deferred.\<close>

definition emit_edit_events :: "MessageKind \<Rightarrow> TextMessage \<Rightarrow> app_effect list \<times> DeferredEvent list" where
  "emit_edit_events kind tm =
     (case kind of
        DirectMessage \<Rightarrow>
          ((case TextMessage_actor tm of
              Some sid \<Rightarrow> [Emit (Ev_dm_edited \<lparr>nd_session = sid\<rparr>)]
            | None \<Rightarrow> []), [])
      | ChannelKind \<Rightarrow> ([], map (\<lambda>ch_id. DE_NewMessage ch_id (TextMessage_actor tm)) (target_channels tm)))"

section \<open>New messages\<close>

definition actor_user :: "'br SharedState \<Rightarrow> u32 option \<Rightarrow> UserEntry option" where
  "actor_user st actor = (case actor of None \<Rightarrow> None | Some sid \<Rightarrow> hm_get (ss_users st) sid)"

definition resolve_sender_name :: "'br SharedState \<Rightarrow> u32 option \<Rightarrow> string" where
  "resolve_sender_name st actor = (case actor_user st actor of Some u \<Rightarrow> ue_name u | None \<Rightarrow> ''Server'')"

definition resolve_sender_hash :: "'br SharedState \<Rightarrow> u32 option \<Rightarrow> string option" where
  "resolve_sender_hash st actor = (case actor_user st actor of Some u \<Rightarrow> ue_hash u | None \<Rightarrow> None)"

text \<open>The message of a \<open>TextMessage\<close> in a channel, or in the direct conversation \<open>dm\<close>.\<close>

definition received_message ::
    "'br SharedState \<Rightarrow> TextMessage \<Rightarrow> u32 \<Rightarrow> u32 option \<Rightarrow> bool \<Rightarrow> ChatMessage" where
  "received_message st tm ch_id dm is_legacy =
     \<lparr>cm_sender_session = TextMessage_actor tm, cm_sender_name = resolve_sender_name st (TextMessage_actor tm),
      cm_sender_hash = resolve_sender_hash st (TextMessage_actor tm), cm_body = TextMessage_message tm,
      cm_channel_id = ch_id, cm_is_own = False, cm_dm_session = dm, cm_message_id = TextMessage_message_id tm,
      cm_timestamp = TextMessage_timestamp tm, cm_is_legacy = is_legacy, cm_edited_at = None, cm_pinned = False,
      cm_pinned_by = None, cm_pinned_at = None\<rparr>"

definition handle_direct_message ::
    "'br app_env \<Rightarrow> TextMessage \<Rightarrow> 'br SharedState \<Rightarrow> 'br SharedState \<times> DeferredEvent list" where
  "handle_direct_message env tm st =
     (case TextMessage_actor tm of
        None \<Rightarrow> (st, [])
      | Some sender_session \<Rightarrow>
          let msg = ensure_id (env_uuid env 0) (received_message st tm 0 (Some sender_session) False);
              ms = ss_msgs st;
              ms = ms\<lparr>by_dm := hm_entry_modify sender_session [] (\<lambda>msgs. msgs @ [msg]) (by_dm ms)\<rparr>;
              unseen = selected_dm_user ms \<noteq> Some sender_session;
              ms = (if unseen then ms\<lparr>dm_unread := hm_entry_modify sender_session 0 (\<lambda>n. n + 1) (dm_unread ms)\<rparr> else ms);
              st' = st\<lparr>ss_msgs := ms\<rparr>
          in (st', (if unseen then [DE_DmUnreads] else []) @
                [DE_DirectMessage sender_session (resolve_sender_name st' (TextMessage_actor tm)) (TextMessage_message tm)]))"

definition has_pchat :: "'br SharedState \<Rightarrow> u32 \<Rightarrow> bool" where
  "has_pchat st ch_id =
     (case hm_get (ss_channels st) ch_id of
        None \<Rightarrow> False
      | Some c \<Rightarrow> (case ce_pchat_protocol c of None \<Rightarrow> False | Some p \<Rightarrow> p \<noteq> PP_None))"

definition sender_has_e2ee :: "'br SharedState \<Rightarrow> u32 option \<Rightarrow> bool" where
  "sender_has_e2ee st actor = (case actor_user st actor of None \<Rightarrow> False | Some u \<Rightarrow> has_pchat_e2ee u)"

text \<open>One iteration of the loop over the target channels; \<open>i\<close> counts the iterations.\<close>

definition channel_message_step ::
    "'br app_env \<Rightarrow> TextMessage \<Rightarrow> nat \<times> u32 \<Rightarrow> 'br SharedState \<times> DeferredEvent list \<times> bool
      \<Rightarrow> 'br SharedState \<times> DeferredEvent list \<times> bool" where
  "channel_message_step env tm = (\<lambda>(i, ch_id) (st, deferred, unreads_changed).
     let pchat = has_pchat st ch_id;
         e2ee = sender_has_e2ee st (TextMessage_actor tm)
     in if pchat \<and> e2ee then (st, deferred, unreads_changed)
        else
          let msg = ensure_id (env_uuid env i) (received_message st tm ch_id None (pchat \<and> \<not> e2ee));
              ms = ss_msgs st;
              ms = ms\<lparr>by_channel := hm_entry_modify ch_id [] (push_capped msg) (by_channel ms)\<rparr>;
              viewed = (ss_selected_channel st = Some ch_id);
              ms = (if viewed then ms else ms\<lparr>channel_unread := hm_entry_modify ch_id 0 (\<lambda>n. n + 1) (channel_unread ms)\<rparr>)
          in (st\<lparr>ss_msgs := ms\<rparr>,
              deferred @ [DE_NewMessage ch_id (TextMessage_actor tm)] @
              (if ch_id \<in> ss_permanently_listened st \<and> \<not> viewed then [DE_RequestUserAttention] else []) @
              (if \<not> viewed \<or> \<not> pr_app_focused (ss_prefs st)
               then [DE_ChannelMessage ch_id (resolve_sender_name st (TextMessage_actor tm)) (TextMessage_message tm) (TextMessage_actor tm)]
               else []),
              unreads_changed \<or> \<not> viewed))"

definition handle_channel_message ::
    "'br app_env \<Rightarrow> TextMessage \<Rightarrow> 'br SharedState \<Rightarrow> 'br SharedState \<times> DeferredEvent list" where
  "handle_channel_message env tm st =
     (case fold (channel_message_step env tm) (List.enumerate 0 (target_channels tm)) (st, [], False) of
        (st', deferred, unreads_changed) \<Rightarrow>
          (st', deferred @ (if unreads_changed then [DE_ChannelUnreads] else [])))"

definition TextMessage_handle ::
    "'br app_env \<Rightarrow> TextMessage \<Rightarrow> 'br SharedState \<Rightarrow> 'br SharedState \<times> app_effect list" where
  "TextMessage_handle env tm st =
     (let kind = classify tm
      in if TextMessage_actor tm = cf_own_session (ss_conn st) \<and> TextMessage_actor tm \<noteq> None \<and>
            TextMessage_edit_id tm = None
         then (st, [])
         else case TextMessage_edit_id tm of
                Some edit_id \<Rightarrow>
                  (case try_apply_edit env tm kind edit_id st of
                     (True, st') \<Rightarrow>
                       (case emit_edit_events kind tm of (now, deferred) \<Rightarrow> (st', now @ flush st' deferred))
                   | (False, st') \<Rightarrow> (st', []))
              | None \<Rightarrow>
                  (case (case kind of
                           DirectMessage \<Rightarrow> handle_direct_message env tm st
                         | ChannelKind \<Rightarrow> handle_channel_message env tm st) of
                     (st', deferred) \<Rightarrow> (st', flush st' deferred)))"

section \<open>What a message does to the threads\<close>

text \<open>A text message is taken for a channel unless the encrypted copy of a capable sender will follow.\<close>

definition accepts :: "'br SharedState \<Rightarrow> TextMessage \<Rightarrow> u32 \<Rightarrow> bool" where
  "accepts st tm k \<longleftrightarrow> \<not> (has_pchat st k \<and> sender_has_e2ee st (TextMessage_actor tm))"

definition posted :: "string \<Rightarrow> 'br SharedState \<Rightarrow> TextMessage \<Rightarrow> u32 \<Rightarrow> ChatMessage" where
  "posted uuid st tm k = ensure_id uuid (received_message st tm k None (has_pchat st k))"

definition unread_count :: "(u32, u32) hash_map \<Rightarrow> u32 \<Rightarrow> u32" where
  "unread_count m k = (case hm_get m k of None \<Rightarrow> 0 | Some n \<Rightarrow> n)"

lemma thread_entry_modify [simp]:
  "thread (hm_entry_modify k [] f m) j = (if j = k then f (thread m k) else thread m j)"
  by (simp add: thread_def split: option.splits)

lemma unread_entry_modify [simp]:
  "unread_count (hm_entry_modify k 0 f m) j = (if j = k then f (unread_count m k) else unread_count m j)"
  by (simp add: unread_count_def split: option.splits)

lemma actor_user_ignores_msgs [simp]: "actor_user (st\<lparr>ss_msgs := ms\<rparr>) a = actor_user st a"
  by (cases a) (simp_all add: actor_user_def)

lemma lookups_ignore_msgs [simp]:
  "has_pchat (st\<lparr>ss_msgs := ms\<rparr>) k = has_pchat st k"
  "sender_has_e2ee (st\<lparr>ss_msgs := ms\<rparr>) a = sender_has_e2ee st a"
  "accepts (st\<lparr>ss_msgs := ms\<rparr>) tm k = accepts st tm k"
  "received_message (st\<lparr>ss_msgs := ms\<rparr>) tm k d l = received_message st tm k d l"
  "posted u (st\<lparr>ss_msgs := ms\<rparr>) tm k = posted u st tm k"
  by (simp_all add: has_pchat_def sender_has_e2ee_def accepts_def received_message_def
      resolve_sender_name_def resolve_sender_hash_def posted_def)

text \<open>The effect of a message with the channels \<open>ks\<close> on the store: what happens to the thread of an
  accepting channel, and to every other.\<close>

definition thread_kept :: "u32 \<Rightarrow> MessageStore \<Rightarrow> MessageStore \<Rightarrow> bool" where
  "thread_kept k ms ms' \<longleftrightarrow>
     thread (by_channel ms') k = thread (by_channel ms) k \<and>
     unread_count (channel_unread ms') k = unread_count (channel_unread ms) k"

definition thread_delivered :: "'br SharedState \<Rightarrow> TextMessage \<Rightarrow> u32 \<Rightarrow> MessageStore \<Rightarrow> MessageStore \<Rightarrow> bool" where
  "thread_delivered st tm k ms ms' \<longleftrightarrow>
     (\<exists>u. thread (by_channel ms') k = push_capped (posted u st tm k) (thread (by_channel ms) k)) \<and>
     unread_count (channel_unread ms') k =
       unread_count (channel_unread ms) k + (if ss_selected_channel st = Some k then 0 else 1)"

definition channels_delivered ::
    "'br SharedState \<Rightarrow> TextMessage \<Rightarrow> u32 list \<Rightarrow> MessageStore \<Rightarrow> MessageStore \<Rightarrow> bool" where
  "channels_delivered st tm ks ms ms' \<longleftrightarrow>
     by_dm ms' = by_dm ms \<and> dm_unread ms' = dm_unread ms \<and> selected_dm_user ms' = selected_dm_user ms \<and>
     (\<forall>k. if k \<in> set ks \<and> accepts st tm k then thread_delivered st tm k ms ms' else thread_kept k ms ms')"

lemma thread_kept_trans:
  "thread_kept k ms ms1 \<Longrightarrow> thread_kept k ms1 ms2 \<Longrightarrow> thread_kept k ms ms2"
  "thread_kept k ms ms1 \<Longrightarrow> thread_delivered st tm k ms1 ms2 \<Longrightarrow> thread_delivered st tm k ms ms2"
  "thread_delivered st tm k ms ms1 \<Longrightarrow> thread_kept k ms1 ms2 \<Longrightarrow> thread_delivered st tm k ms ms2"
  "thread_kept k ms ms"
  by (simp_all add: thread_kept_def thread_delivered_def)

lemma thread_delivered_ignores_msgs [simp]:
  "thread_delivered (st\<lparr>ss_msgs := x\<rparr>) tm k ms ms' = thread_delivered st tm k ms ms'"
  by (simp add: thread_delivered_def)

lemma channels_delivered_trans:
  assumes one: "channels_delivered st tm [c] ms ms1"
    and rest: "channels_delivered (st\<lparr>ss_msgs := ms1\<rparr>) tm ks ms1 ms2" and c: "c \<notin> set ks"
  shows "channels_delivered st tm (c # ks) ms ms2"
proof -
  have "if k \<in> set (c # ks) \<and> accepts st tm k then thread_delivered st tm k ms ms2 else thread_kept k ms ms2" for k
  proof (cases "k = c")
    case True
    with rest c have "thread_kept k ms1 ms2" unfolding channels_delivered_def by simp
    moreover from one True have "if accepts st tm k then thread_delivered st tm k ms ms1 else thread_kept k ms ms1"
      unfolding channels_delivered_def by (metis list.set_intros(1))
    ultimately show ?thesis using True thread_kept_trans(1,3) by (auto split: if_splits)
  next
    case False
    with one have "thread_kept k ms ms1" unfolding channels_delivered_def by (metis set_ConsD list.set(1) empty_iff)
    moreover from rest have "if k \<in> set ks \<and> accepts st tm k then thread_delivered st tm k ms1 ms2 else thread_kept k ms1 ms2"
      unfolding channels_delivered_def by (metis lookups_ignore_msgs(3) thread_delivered_ignores_msgs)
    ultimately show ?thesis using False thread_kept_trans(1,2) by (auto split: if_splits)
  qed
  with one rest show ?thesis unfolding channels_delivered_def by simp
qed

lemma channel_message_step_delivers:
  assumes "channel_message_step env tm (i, c) (st, d, u) = (st', d', u')"
  shows "\<exists>ms. st' = st\<lparr>ss_msgs := ms\<rparr> \<and> channels_delivered st tm [c] (ss_msgs st) ms"
proof (cases "accepts st tm c")
  case False
  then have "st' = st\<lparr>ss_msgs := ss_msgs st\<rparr>" using assms by (auto simp: channel_message_step_def accepts_def)
  with False show ?thesis by (intro exI [of _ "ss_msgs st"]) (simp add: channels_delivered_def thread_kept_trans(4))
next
  case True
  let ?ms = "(ss_msgs st)\<lparr>by_channel := hm_entry_modify c [] (push_capped (posted (env_uuid env i) st tm c)) (by_channel (ss_msgs st))\<rparr>"
  let ?ms' = "if ss_selected_channel st = Some c then ?ms
    else ?ms\<lparr>channel_unread := hm_entry_modify c 0 (\<lambda>n. n + 1) (channel_unread (ss_msgs st))\<rparr>"
  have legacy: "(has_pchat st c \<and> \<not> sender_has_e2ee st (TextMessage_actor tm)) = has_pchat st c"
    "\<not> (has_pchat st c \<and> sender_has_e2ee st (TextMessage_actor tm))"
    using True by (auto simp: accepts_def)
  have "st' = fst (channel_message_step env tm (i, c) (st, d, u))" using assms by simp
  then have "st' = st\<lparr>ss_msgs := ?ms'\<rparr>"
    by (simp add: channel_message_step_def legacy Let_def posted_def cong: if_cong)
  moreover have "channels_delivered st tm [c] (ss_msgs st) ?ms'"
    using True by (auto simp: channels_delivered_def thread_delivered_def thread_kept_def)
  ultimately show ?thesis by blast
qed

lemma fold_channel_message_delivers:
  assumes "fold (channel_message_step env tm) xs (st, d, u) = (st', d', u')" and "distinct (map snd xs)"
  shows "\<exists>ms. st' = st\<lparr>ss_msgs := ms\<rparr> \<and> channels_delivered st tm (map snd xs) (ss_msgs st) ms"
  using assms
proof (induction xs arbitrary: st d u)
  case Nil
  then show ?case by (intro exI [of _ "ss_msgs st"]) (simp add: channels_delivered_def thread_kept_trans(4))
next
  case (Cons x xs)
  obtain i c where x: "x = (i, c)" by (cases x)
  obtain st1 d1 u1 where one: "channel_message_step env tm (i, c) (st, d, u) = (st1, d1, u1)"
    by (metis prod_cases3)
  then obtain ms1 where st1: "st1 = st\<lparr>ss_msgs := ms1\<rparr>" "channels_delivered st tm [c] (ss_msgs st) ms1"
    using channel_message_step_delivers by blast
  from Cons.prems x one have "fold (channel_message_step env tm) xs (st1, d1, u1) = (st', d', u')"
    "distinct (map snd xs)" "c \<notin> set (map snd xs)" by auto
  with Cons.IH st1 obtain ms2 where "st' = st\<lparr>ss_msgs := ms2\<rparr>"
    "channels_delivered (st\<lparr>ss_msgs := ms1\<rparr>) tm (map snd xs) ms1 ms2" by fastforce
  with channels_delivered_trans [OF st1(2) this(2)] \<open>c \<notin> set (map snd xs)\<close> x show ?case by auto
qed

text \<open>An edit changes the first message with the identifier, in the first channel that has one.\<close>

lemma edit_thread_eq:
  "fst (edit_thread i b t k store) = list_ex (has_id i) (thread store k)"
  "thread (snd (edit_thread i b t k store)) j =
     (if j = k then update_first (has_id i) (\<lambda>m. m\<lparr>cm_body := b, cm_edited_at := Some t\<rparr>) (thread store k)
      else thread store j)"
  by (auto simp: edit_thread_def apply_edit_def thread_def split: option.splits)

lemma update_first_none: "\<not> list_ex p xs \<Longrightarrow> update_first p f xs = xs"
  by (induction xs) auto

lemma edit_any_first:
  "case find (\<lambda>k. list_ex (has_id i) (thread store k)) ks of
     None \<Rightarrow> fst (edit_any i b t ks store) = False \<and> thread (snd (edit_any i b t ks store)) = thread store
   | Some c \<Rightarrow> fst (edit_any i b t ks store) \<and>
       thread (snd (edit_any i b t ks store)) = (thread store)
         (c := update_first (has_id i) (\<lambda>m. m\<lparr>cm_body := b, cm_edited_at := Some t\<rparr>) (thread store c))"
proof (induction ks arbitrary: store)
  case Nil
  then show ?case by simp
next
  case (Cons k ks)
  obtain f s where e: "edit_thread i b t k store = (f, s)" by (cases "edit_thread i b t k store")
  have f: "f = list_ex (has_id i) (thread store k)" using edit_thread_eq(1) [of i b t k store] e by simp
  have s: "thread s = (thread store)
      (k := update_first (has_id i) (\<lambda>m. m\<lparr>cm_body := b, cm_edited_at := Some t\<rparr>) (thread store k))"
    using edit_thread_eq(2) [of i b t k store] e by (auto simp: fun_eq_iff)
  show ?case
  proof (cases f)
    case True
    with e f s show ?thesis by simp
  next
    case False
    with f s have "thread s = thread store" by (auto simp: update_first_none fun_eq_iff)
    with Cons.IH [of s] False e f show ?thesis by (simp split: option.splits)
  qed
qed

section \<open>Events\<close>

lemma channel_message_step_events:
  "fst (snd (channel_message_step env tm (i, c) (st, d, u))) =
     d @ (if accepts st tm c
          then [DE_NewMessage c (TextMessage_actor tm)] @
               (if c \<in> ss_permanently_listened st \<and> ss_selected_channel st \<noteq> Some c then [DE_RequestUserAttention] else []) @
               (if ss_selected_channel st \<noteq> Some c \<or> \<not> pr_app_focused (ss_prefs st)
                then [DE_ChannelMessage c (resolve_sender_name st (TextMessage_actor tm)) (TextMessage_message tm) (TextMessage_actor tm)]
                else [])
          else [])"
  "snd (snd (channel_message_step env tm (i, c) (st, d, u))) = (u \<or> accepts st tm c \<and> ss_selected_channel st \<noteq> Some c)"
  by (auto simp: channel_message_step_def accepts_def Let_def)

lemma fold_channel_message_events:
  assumes "fold (channel_message_step env tm) xs (st, d, u) = (st', d', u')"
  shows "(DE_NewMessage k a \<in> set d' \<longleftrightarrow>
      DE_NewMessage k a \<in> set d \<or> a = TextMessage_actor tm \<and> k \<in> snd ` set xs \<and> accepts st tm k) \<and>
    (DE_ChannelUnreads \<in> set d' \<longleftrightarrow> DE_ChannelUnreads \<in> set d) \<and>
    (u' \<longleftrightarrow> u \<or> (\<exists>x \<in> set xs. accepts st tm (snd x) \<and> ss_selected_channel st \<noteq> Some (snd x)))"
  using assms
proof (induction xs arbitrary: st d u)
  case Nil
  then show ?case by simp
next
  case (Cons x xs)
  obtain i c where x: "x = (i, c)" by (cases x)
  obtain st1 d1 u1 where one: "channel_message_step env tm (i, c) (st, d, u) = (st1, d1, u1)"
    by (metis prod_cases3)
  then obtain ms1 where st1: "st1 = st\<lparr>ss_msgs := ms1\<rparr>"
    using channel_message_step_delivers by blast
  have rest: "fold (channel_message_step env tm) xs (st1, d1, u1) = (st', d', u')" using Cons.prems x one by simp
  have d1: "DE_NewMessage k a \<in> set d1 \<longleftrightarrow> DE_NewMessage k a \<in> set d \<or> k = c \<and> a = TextMessage_actor tm \<and> accepts st tm c"
    "DE_ChannelUnreads \<in> set d1 \<longleftrightarrow> DE_ChannelUnreads \<in> set d" 
    using channel_message_step_events(1) [of env tm i c st d u] one by auto
  have u1: "u1 \<longleftrightarrow> u \<or> accepts st tm c \<and> ss_selected_channel st \<noteq> Some c"
    using channel_message_step_events(2) [of env tm i c st d u] one by simp
  show ?case
    using Cons.IH [OF rest] unfolding d1 u1 st1 by (auto simp: x)
qed

lemma emitted_events:
  "Emit (Ev_unread_changed p) \<in> set (flush_event st e) \<longleftrightarrow> e = DE_ChannelUnreads \<and> p = \<lparr>up_unreads = channel_unread (ss_msgs st)\<rparr>"
  "Emit (Ev_new_message q) \<in> set (flush_event st e) \<longleftrightarrow>
     (\<exists>k a. e = DE_NewMessage k a \<and> q = \<lparr>nm_channel_id = k, nm_sender_session = a\<rparr>)"
  by (cases e; auto simp: emit_direct_message_def emit_channel_notification_def send_notification_with_icon_def Let_def)+

lemma handle_channel:
  assumes "classify tm = ChannelKind" and "TextMessage_edit_id tm = None"
    and "TextMessage_actor tm \<noteq> cf_own_session (ss_conn st) \<or> TextMessage_actor tm = None"
  shows "TextMessage_handle env tm st =
    (case handle_channel_message env tm st of (st', deferred) \<Rightarrow> (st', flush st' deferred))"
  using assms by (auto simp: TextMessage_handle_def Let_def)

section \<open>Properties\<close>

text \<open>C19: A text message for channels is appended, once and with the sender resolved from the user list, to
  the thread of every target channel, except the encrypted channels of a sender whose encrypted copy will
  follow; unread counters grow for the channels that are not viewed, all other threads and the direct
  messages stay, and the user interface is told of exactly the changed channels and counters.\<close>

theorem text_channel_delivery:
  assumes kind: "classify tm = ChannelKind" "TextMessage_edit_id tm = None"
    and other: "TextMessage_actor tm \<noteq> cf_own_session (ss_conn st) \<or> TextMessage_actor tm = None"
    and dist: "distinct (target_channels tm)" and h: "TextMessage_handle env tm st = (st', effs)"
  shows "\<exists>ms. st' = st\<lparr>ss_msgs := ms\<rparr> \<and> channels_delivered st tm (target_channels tm) (ss_msgs st) ms \<and>
    {q. Emit (Ev_new_message q) \<in> set effs} =
      {\<lparr>nm_channel_id = k, nm_sender_session = TextMessage_actor tm\<rparr> | k. k \<in> set (target_channels tm) \<and> accepts st tm k} \<and>
    {p. Emit (Ev_unread_changed p) \<in> set effs} =
      {\<lparr>up_unreads = channel_unread ms\<rparr> | k. k \<in> set (target_channels tm) \<and> accepts st tm k \<and> ss_selected_channel st \<noteq> Some k}"
proof -
  obtain d u where f: "fold (channel_message_step env tm) (List.enumerate 0 (target_channels tm)) (st, [], False) = (st', d, u)"
    and effs: "effs = flush st' (d @ (if u then [DE_ChannelUnreads] else []))"
    using h unfolding handle_channel [OF kind other] handle_channel_message_def
    by (cases "fold (channel_message_step env tm) (List.enumerate 0 (target_channels tm)) (st, [], False)") auto
  from fold_channel_message_delivers [OF f] dist obtain ms where ms: "st' = st\<lparr>ss_msgs := ms\<rparr>"
    "channels_delivered st tm (target_channels tm) (ss_msgs st) ms" by (auto simp: map_snd_enumerate)
  have snds: "snd ` set (List.enumerate 0 (target_channels tm)) = set (target_channels tm)"
    by (metis map_snd_enumerate list.set_map)
  note ev = fold_channel_message_events [OF f]
  have "DE_ChannelUnreads \<notin> set d" using ev by simp
  moreover have u: "u \<longleftrightarrow> (\<exists>k \<in> set (target_channels tm). accepts st tm k \<and> ss_selected_channel st \<noteq> Some k)"
    using ev snds by (metis (no_types, lifting) image_iff)
  ultimately have "{p. Emit (Ev_unread_changed p) \<in> set effs} =
      {\<lparr>up_unreads = channel_unread ms\<rparr> | k. k \<in> set (target_channels tm) \<and> accepts st tm k \<and> ss_selected_channel st \<noteq> Some k}"
    unfolding effs flush_def ms(1) by (auto simp: emitted_events)
  moreover have "DE_NewMessage k a \<in> set d \<longleftrightarrow> a = TextMessage_actor tm \<and> k \<in> set (target_channels tm) \<and> accepts st tm k" for k a
    using ev [of k a] snds by simp
  then have "{q. Emit (Ev_new_message q) \<in> set effs} =
      {\<lparr>nm_channel_id = k, nm_sender_session = TextMessage_actor tm\<rparr> | k. k \<in> set (target_channels tm) \<and> accepts st tm k}"
    unfolding effs flush_def ms(1) by (auto simp: emitted_events)
  ultimately show ?thesis using ms by blast
qed

text \<open>A state with a channel that is viewed, one that is not and an encrypted one, and two users.\<close>

definition demo_channel :: "u32 \<Rightarrow> PchatProtocol option \<Rightarrow> ChannelEntry" where
  "demo_channel k p =
     \<lparr>ce_id = k, ce_parent_id = None, ce_name = ''c'', ce_description = [], ce_description_hash = None,
      ce_user_count = 0, ce_permissions = None, ce_temporary = False, ce_position = 0, ce_max_users = 0,
      ce_pchat_protocol = p, ce_pchat_max_history = None, ce_pchat_retention_days = None, ce_pchat_key_custodians = []\<rparr>"

definition demo_user :: "u32 \<Rightarrow> i32 list \<Rightarrow> UserEntry" where
  "demo_user k features = (UserEntry_new k)\<lparr>ue_name := ''u'', ue_hash := Some ''h'', ue_client_features := features\<rparr>"

definition demo_state :: "unit SharedState" where
  "demo_state = default_SharedState\<lparr>
     ss_users := [(1, demo_user 1 []), (2, demo_user 2 [0])],
     ss_channels := [(0, demo_channel 0 None), (5, demo_channel 5 (Some PP_None)), (6, demo_channel 6 (Some PP_SignalV1))],
     ss_selected_channel := Some 0,
     ss_conn := (ss_conn (default_SharedState :: unit SharedState))\<lparr>cf_own_session := Some 9, cf_client_handle := Some 0\<rparr>\<rparr>"

definition demo_env :: "unit app_env" where
  "demo_env =
     \<lparr>env_now_ms = 77, env_uuid = (\<lambda>i. show_nat i), env_resolve = (\<lambda>h. h), env_crypto = demo_crypto,
      env_signal = \<lparr>group_encrypt = (\<lambda>c p b. (Inr p, b)), group_decrypt = (\<lambda>h c p b. (Inr p, b)),
        bridge_remove_channel = (\<lambda>c b. (Inr (), b))\<rparr>,
      env_rng = demo_draw, env_encode = (\<lambda>e. Inr [1]),
      env_decode = (\<lambda>p. Inr \<lparr>me_body = ''body'', me_sender_name = ''u'', me_sender_session = 1, me_attachments = []\<rparr>),
      env_error_text = (\<lambda>e. ''error''), env_instant = 0, env_load_bridge = (\<lambda>h d. Some ()),
      env_create_distribution = (\<lambda>c b. (Inr [3], b)), env_process_distribution = (\<lambda>h c d b. (Inr (), b))\<rparr>"

definition demo_text :: "u32 \<Rightarrow> u32 list \<Rightarrow> TextMessage" where
  "demo_text actor ks = default_TextMessage\<lparr>TextMessage_actor := Some actor, TextMessage_channel_id := ks,
     TextMessage_message := ''hi''\<rparr>"

theorem text_channel_delivery_witness:
  "\<exists>ms. fst (TextMessage_handle demo_env (demo_text 2 [5, 6]) demo_state) = demo_state\<lparr>ss_msgs := ms\<rparr> \<and>
     length (thread (by_channel ms) 5) = 1 \<and> thread (by_channel ms) 6 = [] \<and>
     unread_count (channel_unread ms) 5 = 1 \<and> unread_count (channel_unread ms) 6 = 0"
proof -
  obtain st' effs where h: "TextMessage_handle demo_env (demo_text 2 [5, 6]) demo_state = (st', effs)" by fastforce
  have accepts: "accepts demo_state (demo_text 2 [5, 6]) 5" "\<not> accepts demo_state (demo_text 2 [5, 6]) 6"
    by (simp_all add: accepts_def has_pchat_def sender_has_e2ee_def actor_user_def demo_state_def demo_text_def
        demo_channel_def demo_user_def has_pchat_e2ee_def UserEntry_new_def default_TextMessage_def)
  have targets: "target_channels (demo_text 2 [5, 6]) = [5, 6]" by (simp add: target_channels_def demo_text_def)
  from text_channel_delivery [of "demo_text 2 [5, 6]" demo_state demo_env, OF _ _ _ _ h] targets obtain ms where
    ms: "st' = demo_state\<lparr>ss_msgs := ms\<rparr>" "channels_delivered demo_state (demo_text 2 [5, 6]) [5, 6] (ss_msgs demo_state) ms"
    by (auto simp: classify_def demo_text_def demo_state_def default_TextMessage_def default_SharedState_def)
  from ms(2) accepts have "thread_delivered demo_state (demo_text 2 [5, 6]) 5 (ss_msgs demo_state) ms"
    "thread_kept 6 (ss_msgs demo_state) ms"
    unfolding channels_delivered_def by (metis list.set_intros(1), metis)
  moreover have "thread (by_channel (ss_msgs demo_state)) k = []" "unread_count (channel_unread (ss_msgs demo_state)) k = 0"
    "ss_selected_channel demo_state = Some 0" for k
    by (simp_all add: demo_state_def default_SharedState_def thread_def unread_count_def)
  ultimately have "length (thread (by_channel ms) 5) = 1" "thread (by_channel ms) 6 = []"
    "unread_count (channel_unread ms) 5 = 1" "unread_count (channel_unread ms) 6 = 0"
    by (auto simp: thread_delivered_def thread_kept_def push_capped_def MAX_MESSAGES_PER_THREAD_def)
  with h ms(1) show ?thesis by auto
qed

text \<open>An edit is applied to the first message with the identifier in the first target channel that has
  one, whoever wrote that message and whoever sends the edit; a later channel of the same message keeps
  the old text.\<close>

theorem text_edit_any_author:
  assumes "classify tm = ChannelKind" and "TextMessage_edit_id tm = Some i"
    and "find (\<lambda>k. list_ex (has_id i) (thread (by_channel (ss_msgs st)) k)) (target_channels tm) = Some c"
    and "TextMessage_timestamp tm = Some t"
  shows "thread (by_channel (ss_msgs (fst (TextMessage_handle env tm st)))) =
    (thread (by_channel (ss_msgs st)))(c :=
      update_first (has_id i) (\<lambda>m. m\<lparr>cm_body := TextMessage_message tm, cm_edited_at := Some t\<rparr>)
        (thread (by_channel (ss_msgs st)) c))"
proof -
  let ?e = "edit_any i (TextMessage_message tm) t (target_channels tm) (by_channel (ss_msgs st))"
  from edit_any_first [where i = i and store = "by_channel (ss_msgs st)" and ks = "target_channels tm" and b = "TextMessage_message tm" and t = t] assms(3)
  have e: "fst ?e" "thread (snd ?e) = (thread (by_channel (ss_msgs st)))(c :=
      update_first (has_id i) (\<lambda>m. m\<lparr>cm_body := TextMessage_message tm, cm_edited_at := Some t\<rparr>)
        (thread (by_channel (ss_msgs st)) c))" by simp_all
  then have "try_apply_edit env tm ChannelKind i st = (True, st\<lparr>ss_msgs := (ss_msgs st)\<lparr>by_channel := snd ?e\<rparr>\<rparr>)"
    using assms(4) by (cases ?e) (simp add: try_apply_edit_def Let_def)
  with assms(1,2) e(2) show ?thesis by (simp add: TextMessage_handle_def Let_def split: prod.splits)
qed

definition demo_posted :: ChatMessage where
  "demo_posted = posted ''m1'' demo_state (demo_text 2 [5]) 5"

theorem text_edit_any_author_witness:
  "thread (by_channel (ss_msgs (fst (TextMessage_handle demo_env
      ((demo_text 1 [5])\<lparr>TextMessage_edit_id := Some ''m1'', TextMessage_timestamp := Some 8\<rparr>)
      (demo_state\<lparr>ss_msgs := (ss_msgs demo_state)\<lparr>by_channel := [(5, [demo_posted])]\<rparr>\<rparr>))))) 5 =
    [demo_posted\<lparr>cm_body := ''hi'', cm_edited_at := Some 8\<rparr>] \<and> cm_sender_session demo_posted = Some 2"
proof -
  have m: "has_id ''m1'' demo_posted" "cm_sender_session demo_posted = Some 2"
    by (simp_all add: demo_posted_def has_id_def posted_def received_message_def demo_text_def default_TextMessage_def)
  show ?thesis
    using m by (subst text_edit_any_author [where i = "''m1''" and c = 5 and t = 8])
      (simp_all add: classify_def demo_text_def default_TextMessage_def target_channels_def thread_def)
qed

text \<open>Direct messages accumulate: the thread of a conversation grows by one with every message received,
  without the limit that channel threads have.\<close>

lemma handle_direct_thread:
  assumes "classify tm = DirectMessage" "TextMessage_edit_id tm = None" "TextMessage_actor tm = Some s"
    and "cf_own_session (ss_conn st) \<noteq> Some s"
  shows "length (thread (by_dm (ss_msgs (fst (TextMessage_handle env tm st)))) s) = length (thread (by_dm (ss_msgs st)) s) + 1"
    and "ss_conn (fst (TextMessage_handle env tm st)) = ss_conn st"
  using assms by (auto simp: TextMessage_handle_def handle_direct_message_def Let_def)

theorem direct_messages_unbounded:
  assumes "\<forall>tm \<in> set tms. classify tm = DirectMessage \<and> TextMessage_edit_id tm = None \<and> TextMessage_actor tm = Some s"
    and "cf_own_session (ss_conn st) \<noteq> Some s"
  shows "length (thread (by_dm (ss_msgs (fold (\<lambda>tm st. fst (TextMessage_handle env tm st)) tms st))) s) =
    length (thread (by_dm (ss_msgs st)) s) + length tms"
  using assms
proof (induction tms arbitrary: st)
  case (Cons tm tms)
  then show ?case using handle_direct_thread [of tm s st env] by simp
qed simp

theorem direct_messages_unbounded_witness:
  "length (thread (by_dm (ss_msgs (fold (\<lambda>tm st. fst (TextMessage_handle demo_env tm st))
     (replicate 501 ((demo_text 1 [])\<lparr>TextMessage_session := [9]\<rparr>)) demo_state))) 1) = 501"
proof -
  let ?tm = "(demo_text 1 [])\<lparr>TextMessage_session := [9]\<rparr>"
  have "length (thread (by_dm (ss_msgs (fold (\<lambda>tm st. fst (TextMessage_handle demo_env tm st)) (replicate 501 ?tm) demo_state))) 1) =
      length (thread (by_dm (ss_msgs demo_state)) 1) + length (replicate 501 ?tm)"
    by (rule direct_messages_unbounded)
      (simp_all add: classify_def demo_text_def default_TextMessage_def demo_state_def default_SharedState_def)
  moreover have "length (thread (by_dm (ss_msgs demo_state)) 1) = 0"
    by (simp add: demo_state_def default_SharedState_def thread_def)
  ultimately show ?thesis by (simp only: length_replicate add_0)
qed

end
