(* ===== verification/App_Keys.thy ===== *)
theory App_Keys
  imports App_Text Key_Protocol
begin

text \<open>
  Key exchange in the application backend: the conversions between protobuf and wire messages
  (src/crates/mumble-tauri/src/state/pchat/conversion.rs), the handlers of announcements, requests and
  exchanges (key_exchange.rs), challenges, holder reports and queries (key_sharing.rs), and the loading of
  the Signal bridge with the retry of stashed messages (signal_bridge.rs).

  A function that takes the lock returns the changed state; what it spawns or emits is listed with it.
  An event that goes through the application handle is only sent when there is one.
\<close>

section \<open>Conversions\<close>

fun protocol_to_proto :: "PchatProtocol \<Rightarrow> i32" where
  "protocol_to_proto PP_FancyV1FullArchive = 2"
| "protocol_to_proto PP_SignalV1 = 4"
| "protocol_to_proto PP_None = 0"

definition proto_to_protocol :: "i32 option \<Rightarrow> PchatProtocol" where
  "proto_to_protocol proto =
     (case proto of
        None \<Rightarrow> PP_None
      | Some v \<Rightarrow> if v = 2 then PP_FancyV1FullArchive else if v = 4 then PP_SignalV1 else PP_None)"

definition wire_key_announce_to_proto :: "wire_PchatKeyAnnounce \<Rightarrow> PchatKeyAnnounce" where
  "wire_key_announce_to_proto w =
     \<lparr>PchatKeyAnnounce_algorithm_version = Some (ucast (ka_algorithm_version w)),
      PchatKeyAnnounce_identity_public = Some (ka_identity_public w),
      PchatKeyAnnounce_signing_public = Some (ka_signing_public w),
      PchatKeyAnnounce_cert_hash = Some (ka_cert_hash w), PchatKeyAnnounce_timestamp = Some (ka_timestamp w),
      PchatKeyAnnounce_signature = Some (ka_signature w), PchatKeyAnnounce_tls_signature = Some (ka_tls_signature w)\<rparr>"

definition proto_to_wire_key_announce :: "PchatKeyAnnounce \<Rightarrow> wire_PchatKeyAnnounce" where
  "proto_to_wire_key_announce p =
     \<lparr>ka_algorithm_version = ucast (unwrap_or 1 (PchatKeyAnnounce_algorithm_version p)),
      ka_identity_public = unwrap_or [] (PchatKeyAnnounce_identity_public p),
      ka_signing_public = unwrap_or [] (PchatKeyAnnounce_signing_public p),
      ka_cert_hash = unwrap_or [] (PchatKeyAnnounce_cert_hash p),
      ka_timestamp = unwrap_or 0 (PchatKeyAnnounce_timestamp p),
      ka_signature = unwrap_or [] (PchatKeyAnnounce_signature p),
      ka_tls_signature = unwrap_or [] (PchatKeyAnnounce_tls_signature p)\<rparr>"

definition proto_to_wire_key_request :: "PchatKeyRequest \<Rightarrow> wire_PchatKeyRequest" where
  "proto_to_wire_key_request p =
     \<lparr>kr_channel_id = unwrap_or 0 (PchatKeyRequest_channel_id p),
      kr_protocol = as_wire_str (proto_to_protocol (PchatKeyRequest_protocol p)),
      kr_requester_hash = unwrap_or [] (PchatKeyRequest_requester_hash p),
      kr_requester_public = unwrap_or [] (PchatKeyRequest_requester_public p),
      kr_request_id = unwrap_or [] (PchatKeyRequest_request_id p),
      kr_timestamp = unwrap_or 0 (PchatKeyRequest_timestamp p),
      kr_relay_cap = unwrap_or 3 (PchatKeyRequest_relay_cap p)\<rparr>"

definition wire_key_exchange_to_proto :: "wire_PchatKeyExchange \<Rightarrow> PchatKeyExchange" where
  "wire_key_exchange_to_proto w =
     \<lparr>PchatKeyExchange_channel_id = Some (kx_channel_id w),
      PchatKeyExchange_protocol = Some (protocol_to_proto (from_wire_str (kx_protocol w))),
      PchatKeyExchange_epoch = Some (kx_epoch w), PchatKeyExchange_encrypted_key = Some (kx_encrypted_key w),
      PchatKeyExchange_sender_hash = Some (kx_sender_hash w),
      PchatKeyExchange_recipient_hash = Some (kx_recipient_hash w),
      PchatKeyExchange_request_id = kx_request_id w, PchatKeyExchange_timestamp = Some (kx_timestamp w),
      PchatKeyExchange_algorithm_version = Some (ucast (kx_algorithm_version w)),
      PchatKeyExchange_signature = Some (kx_signature w),
      PchatKeyExchange_parent_fingerprint = kx_parent_fingerprint w,
      PchatKeyExchange_epoch_fingerprint =
        (if kx_epoch_fingerprint w = [] then None else Some (kx_epoch_fingerprint w)),
      PchatKeyExchange_countersignature = kx_countersignature w,
      PchatKeyExchange_countersigner_hash = kx_countersigner_hash w\<rparr>"

definition proto_to_wire_key_exchange :: "PchatKeyExchange \<Rightarrow> wire_PchatKeyExchange" where
  "proto_to_wire_key_exchange p =
     \<lparr>kx_channel_id = unwrap_or 0 (PchatKeyExchange_channel_id p),
      kx_protocol = as_wire_str (proto_to_protocol (PchatKeyExchange_protocol p)),
      kx_epoch = unwrap_or 0 (PchatKeyExchange_epoch p),
      kx_encrypted_key = unwrap_or [] (PchatKeyExchange_encrypted_key p),
      kx_sender_hash = unwrap_or [] (PchatKeyExchange_sender_hash p),
      kx_recipient_hash = unwrap_or [] (PchatKeyExchange_recipient_hash p),
      kx_request_id = PchatKeyExchange_request_id p, kx_timestamp = unwrap_or 0 (PchatKeyExchange_timestamp p),
      kx_algorithm_version = ucast (unwrap_or 1 (PchatKeyExchange_algorithm_version p)),
      kx_signature = unwrap_or [] (PchatKeyExchange_signature p),
      kx_parent_fingerprint = PchatKeyExchange_parent_fingerprint p,
      kx_epoch_fingerprint = unwrap_or [] (PchatKeyExchange_epoch_fingerprint p),
      kx_countersignature = PchatKeyExchange_countersignature p,
      kx_countersigner_hash = PchatKeyExchange_countersigner_hash p\<rparr>"

section \<open>Parts of the state\<close>

definition get_pchat :: "'br SharedState \<Rightarrow> 'br PchatState option" where
  "get_pchat st = pc_pchat (ss_pchat_ctx st)"

definition set_pchat :: "'br PchatState \<Rightarrow> 'br SharedState \<Rightarrow> 'br SharedState" where
  "set_pchat p st = st\<lparr>ss_pchat_ctx := (ss_pchat_ctx st)\<lparr>pc_pchat := Some p\<rparr>\<rparr>"

text \<open>\<^verbatim>\<open>if let Some(ref mut pchat) = state.pchat_ctx.pchat\<close> followed by a change of the key manager.\<close>

definition map_km :: "('br KeyManager \<Rightarrow> 'br KeyManager) \<Rightarrow> 'br SharedState \<Rightarrow> 'br SharedState" where
  "map_km f st =
     (case get_pchat st of
        None \<Rightarrow> st
      | Some p \<Rightarrow> set_pchat (p\<lparr>ps_key_manager := f (ps_key_manager p)\<rparr>) st)"

definition channel_protocol :: "'br SharedState \<Rightarrow> u32 \<Rightarrow> PchatProtocol option" where
  "channel_protocol st k = (case hm_get (ss_channels st) k of None \<Rightarrow> None | Some c \<Rightarrow> ce_pchat_protocol c)"

definition pending_shares :: "'br SharedState \<Rightarrow> PendingKeyShare list" where
  "pending_shares st = pc_pending_key_shares (ss_pchat_ctx st)"

definition set_pending_shares :: "PendingKeyShare list \<Rightarrow> 'br SharedState \<Rightarrow> 'br SharedState" where
  "set_pending_shares xs st = st\<lparr>ss_pchat_ctx := (ss_pchat_ctx st)\<lparr>pc_pending_key_shares := xs\<rparr>\<rparr>"

text \<open>An event through \<^verbatim>\<open>tauri_app_handle\<close>.\<close>

definition app_emit :: "'br SharedState \<Rightarrow> ui_event \<Rightarrow> app_effect list" where
  "app_emit st ev = (if cf_tauri_app_handle (ss_conn st) then [Emit ev] else [])"

text \<open>A task that sends one command through the handle taken at the time of the call.\<close>

definition send_now :: "'br SharedState \<Rightarrow> BoxedCommand \<Rightarrow> app_effect list" where
  "send_now st cmd = (case cf_client_handle (ss_conn st) of None \<Rightarrow> [] | Some h \<Rightarrow> [Send h cmd])"

definition online_with_hash :: "'br SharedState \<Rightarrow> string \<Rightarrow> UserEntry option" where
  "online_with_hash st h = find (\<lambda>u. ue_hash u = Some h) (hm_values (ss_users st))"

section \<open>Consent to share a key\<close>

definition resolve_peer_name :: "'br SharedState \<Rightarrow> string \<Rightarrow> string" where
  "resolve_peer_name st peer_cert_hash =
     (case online_with_hash st peer_cert_hash of Some u \<Rightarrow> ue_name u | None \<Rightarrow> take 8 peer_cert_hash)"

definition queue_key_share_consent ::
    "u32 \<Rightarrow> string \<Rightarrow> string \<Rightarrow> string option \<Rightarrow> 'br SharedState \<Rightarrow> 'br SharedState \<times> app_effect list" where
  "queue_key_share_consent channel_id peer_cert_hash peer_name request_id st =
     (if list_ex (\<lambda>p. ks_channel_id p = channel_id \<and> ks_peer_cert_hash p = peer_cert_hash) (pending_shares st)
      then (st, [])
      else
        (set_pending_shares (pending_shares st @
           [\<lparr>ks_channel_id = channel_id, ks_peer_cert_hash = peer_cert_hash, ks_peer_name = peer_name,
             ks_request_id = request_id\<rparr>]) st,
         app_emit st (Ev_pchat_key_share_request
           \<lparr>kq_channel_id = channel_id, kq_peer_name = peer_name, kq_peer_cert_hash = peer_cert_hash\<rparr>)))"

text \<open>\<^verbatim>\<open>for ... { queue_key_share_consent(...) }\<close>.\<close>

definition queue_consents ::
    "(u32 \<times> string \<times> string) list \<Rightarrow> 'br SharedState \<Rightarrow> 'br SharedState \<times> app_effect list" where
  "queue_consents xs st = fold (\<lambda>(k, hash, name) (st, effs).
     case queue_key_share_consent k hash name None st of (st', e) \<Rightarrow> (st', effs @ e)) xs (st, [])"

definition emit_key_share_requests_changed :: "'br SharedState \<Rightarrow> u32 \<Rightarrow> app_effect list" where
  "emit_key_share_requests_changed st channel_id =
     app_emit st (Ev_pchat_key_share_requests_changed
       \<lparr>kc_channel_id = channel_id, kc_pending = filter (\<lambda>p. ks_channel_id p = channel_id) (pending_shares st)\<rparr>)"

definition query_key_holders :: "'br SharedState \<Rightarrow> u32 \<Rightarrow> app_effect list" where
  "query_key_holders st channel_id =
     send_now st (Cmd_SendPchatKeyHoldersQuery \<lparr>PchatKeyHoldersQuery_channel_id = Some channel_id\<rparr>)"

section \<open>Announcements\<close>

definition find_shareable_channels :: "'br SharedState \<Rightarrow> string \<Rightarrow> u32 list" where
  "find_shareable_channels st peer_cert_hash =
     (case get_pchat st of
        None \<Rightarrow> []
      | Some pchat \<Rightarrow>
          filter (\<lambda>ch_id.
              channel_protocol st ch_id = Some PP_FancyV1FullArchive \<and>
              has_key (ps_key_manager pchat) ch_id PP_FancyV1FullArchive \<and>
              peer_cert_hash \<notin> key_holders (ps_key_manager pchat) ch_id)
            (map ue_channel_id (filter (\<lambda>u. ue_hash u = Some peer_cert_hash) (hm_values (ss_users st)))))"

definition handle_proto_key_announce ::
    "'br app_env \<Rightarrow> PchatKeyAnnounce \<Rightarrow> 'br SharedState \<Rightarrow> 'br SharedState \<times> app_effect list" where
  "handle_proto_key_announce env msg st =
     (let wire = proto_to_wire_key_announce msg;
          (should_push_keys, st) =
            (case get_pchat st of
               None \<Rightarrow> (False, st)
             | Some p \<Rightarrow>
                 (case record_peer_key (env_crypto env) wire (ps_key_manager p) of
                    (r, km) \<Rightarrow> (r = Inr True, set_pchat (p\<lparr>ps_key_manager := km\<rparr>) st)));
          channels = (if should_push_keys then find_shareable_channels st (ka_cert_hash wire) else []);
          (st', effs) = queue_consents
            (map (\<lambda>k. (k, ka_cert_hash wire, resolve_peer_name st (ka_cert_hash wire))) channels) st
      in (st', effs @ concat (map (query_key_holders st') channels)))"

definition check_key_share_for_channel :: "u32 \<Rightarrow> 'br SharedState \<Rightarrow> 'br SharedState \<times> app_effect list" where
  "check_key_share_for_channel channel_id st =
     (if channel_protocol st channel_id \<noteq> Some PP_FancyV1FullArchive then (st, [])
      else case get_pchat st of
             None \<Rightarrow> (st, [])
           | Some pchat \<Rightarrow>
               if \<not> has_key (ps_key_manager pchat) channel_id PP_FancyV1FullArchive then (st, [])
               else
                 let peers = List.map_filter (\<lambda>u.
                       case ue_hash u of
                         None \<Rightarrow> None
                       | Some hash \<Rightarrow>
                           if hash = ps_own_cert_hash pchat then None
                           else if hash \<in> key_holders (ps_key_manager pchat) channel_id then None
                           else if get_peer (ps_key_manager pchat) hash = None then None
                           else Some (channel_id, hash, ue_name u))
                       (filter (\<lambda>u. ue_channel_id u = channel_id) (hm_values (ss_users st)))
                 in queue_consents peers st)"

section \<open>Requests\<close>

definition handle_proto_key_request :: "PchatKeyRequest \<Rightarrow> 'br SharedState \<Rightarrow> 'br SharedState \<times> app_effect list" where
  "handle_proto_key_request msg st =
     (let request = proto_to_wire_key_request msg
      in case get_pchat st of
           None \<Rightarrow> (st, [])
         | Some pchat \<Rightarrow>
             if \<not> has_key (ps_key_manager pchat) (kr_channel_id request) PP_FancyV1FullArchive then (st, [])
             else if online_with_hash st (kr_requester_hash request) = None then (st, [])
             else if kr_requester_hash request \<in> key_holders (ps_key_manager pchat) (kr_channel_id request) then (st, [])
             else queue_key_share_consent (kr_channel_id request) (kr_requester_hash request)
                    (resolve_peer_name st (kr_requester_hash request)) (Some (kr_request_id request)) st)"

section \<open>Reports and challenges\<close>

text \<open>\<^verbatim>\<open>prepare_key_holder_report\<close> and its sending, which the two variants share.\<close>

definition send_key_holder_report :: "u32 \<Rightarrow> 'br SharedState \<Rightarrow> 'br SharedState \<times> app_effect list" where
  "send_key_holder_report channel_id st =
     (case get_pchat st of
        None \<Rightarrow> (st, [])
      | Some pchat \<Rightarrow>
          if (case channel_protocol st channel_id of
                Some mode \<Rightarrow> \<not> has_key (ps_key_manager pchat) channel_id mode
              | None \<Rightarrow> False)
          then (st, [])
          else
            (map_km (record_key_holder channel_id (ps_own_cert_hash pchat)) st,
             send_now st (Cmd_SendPchatKeyHolderReport
               \<lparr>PchatKeyHolderReport_channel_id = Some channel_id,
                PchatKeyHolderReport_cert_hash = Some (ps_own_cert_hash pchat),
                PchatKeyHolderReport_takeover_mode = None\<rparr>)))"

definition send_key_takeover :: "u32 \<Rightarrow> i32 \<Rightarrow> 'br SharedState \<Rightarrow> app_effect list" where
  "send_key_takeover channel_id mode st =
     (case get_pchat st of
        None \<Rightarrow> []
      | Some pchat \<Rightarrow>
          send_now st (Cmd_SendPchatKeyHolderReport
            \<lparr>PchatKeyHolderReport_channel_id = Some channel_id,
             PchatKeyHolderReport_cert_hash = Some (ps_own_cert_hash pchat),
             PchatKeyHolderReport_takeover_mode = Some mode\<rparr>))"

definition handle_proto_key_challenge :: "'br app_env \<Rightarrow> PchatKeyChallenge \<Rightarrow> 'br SharedState \<Rightarrow> app_effect list" where
  "handle_proto_key_challenge env msg st =
     (let channel_id = unwrap_or 0 (PchatKeyChallenge_channel_id msg);
          challenge = unwrap_or [] (PchatKeyChallenge_challenge msg)
      in if challenge = [] then []
         else case get_pchat st of
                None \<Rightarrow> []
              | Some pchat \<Rightarrow>
                  (case compute_challenge_proof (env_crypto env) (ps_key_manager pchat) channel_id challenge of
                     None \<Rightarrow> []
                   | Some proof \<Rightarrow>
                       send_now st (Cmd_SendPchatKeyChallengeResponse
                         \<lparr>PchatKeyChallengeResponse_channel_id = Some channel_id,
                          PchatKeyChallengeResponse_proof = Some proof\<rparr>)))"

definition handle_proto_key_challenge_result ::
    "'br app_env \<Rightarrow> PchatKeyChallengeResult \<Rightarrow> 'br SharedState \<Rightarrow> 'br SharedState \<times> app_effect list" where
  "handle_proto_key_challenge_result env msg st =
     (let channel_id = unwrap_or 0 (PchatKeyChallengeResult_channel_id msg)
      in if unwrap_or False (PchatKeyChallengeResult_passed msg) then (st, [])
         else
           let dir = (case get_pchat st of None \<Rightarrow> None | Some p \<Rightarrow> ps_identity_dir p);
               st' = map_km (KeyManager_remove_channel (env_signal env) channel_id) st;
               rest = filter (\<lambda>p. ks_channel_id p \<noteq> channel_id) (pending_shares st');
               changed = (length rest \<noteq> length (pending_shares st'));
               st'' = set_pending_shares rest st'
           in (st'',
               (if changed
                then app_emit st'' (Ev_pchat_key_share_requests_changed \<lparr>kc_channel_id = channel_id, kc_pending = []\<rparr>)
                else []) @
               (case dir of Some d \<Rightarrow> [DeletePersistedArchiveKey d channel_id] | None \<Rightarrow> []) @
               app_emit st'' (Ev_pchat_key_revoked \<lparr>pk_channel_id = channel_id\<rparr>)))"

section \<open>Exchanges\<close>

text \<open>\<^verbatim>\<open>try_accept_key_exchange\<close>; \<open>None\<close> is the panic of the key copy inside \<^verbatim>\<open>evaluate_consensus\<close>.\<close>

definition try_accept_key_exchange ::
    "'br app_env \<Rightarrow> wire_PchatKeyExchange \<Rightarrow> PchatProtocol \<Rightarrow> string option \<Rightarrow> 'br SharedState \<Rightarrow> (bool \<times> 'br SharedState) option" where
  "try_accept_key_exchange env x protocol request_id st =
     (case get_pchat st of
        None \<Rightarrow> Some (False, st)
      | Some pchat \<Rightarrow>
          let channel_id = kx_channel_id x;
              store = (\<lambda>km. set_pchat (pchat\<lparr>ps_key_manager := km\<rparr>) st)
          in case receive_key_exchange (env_crypto env) (env_instant env) (env_now_ms env) x None (ps_key_manager pchat) of
               (Inl e, km) \<Rightarrow> Some (False, store km)
             | (Inr u, km) \<Rightarrow>
                 let km = record_key_holder channel_id (kx_sender_hash x) km
                 in (case (protocol, request_id) of
                       (PP_FancyV1FullArchive, Some rid) \<Rightarrow>
                         (case evaluate_consensus rid channel_id [] km of
                            None \<Rightarrow> None
                          | Some (Inr (trust, Some key), km') \<Rightarrow> Some (True, store km')
                          | Some (Inr (trust, None), km') \<Rightarrow> Some (False, store km')
                          | Some (Inl e, km') \<Rightarrow> Some (False, store km'))
                     | _ \<Rightarrow> Some (has_key km channel_id protocol, store km)))"

definition retry_decrypt_pending_messages ::
    "u32 \<Rightarrow> 'br SharedState \<Rightarrow> 'br SharedState \<times> app_effect list" where
  "retry_decrypt_pending_messages channel_id st =
     (let ms = ss_msgs st
      in if \<not> list_ex (\<lambda>m. cm_body m = PLACEHOLDER_BODY) (thread (by_channel ms) channel_id) then (st, [])
         else
           let st = st\<lparr>ss_msgs := ms\<lparr>by_channel :=
                  hm_get_mut channel_id (filter (\<lambda>m. cm_body m \<noteq> PLACEHOLDER_BODY)) (by_channel ms)\<rparr>\<rparr>;
               st = (case get_pchat st of
                       None \<Rightarrow> st
                     | Some p \<Rightarrow> set_pchat (p\<lparr>ps_fetched_channels := ps_fetched_channels p - {channel_id}\<rparr>) st)
           in (st, send_now st (Cmd_SendPchatFetch
                 \<lparr>PchatFetch_channel_id = Some channel_id, PchatFetch_before_id = None, PchatFetch_limit = Some 50,
                  PchatFetch_after_id = None\<rparr>)))"

definition finalize_key_acceptance ::
    "u32 \<Rightarrow> PchatProtocol \<Rightarrow> string \<Rightarrow> 'br SharedState \<Rightarrow> 'br SharedState \<times> app_effect list" where
  "finalize_key_acceptance channel_id protocol sender_hash st =
     (let st1 = (case get_pchat st of
                   None \<Rightarrow> st
                 | Some p \<Rightarrow> map_km (record_key_holder channel_id (ps_own_cert_hash p)) st);
          rest = filter (\<lambda>p. \<not> (ks_channel_id p = channel_id \<and> ks_peer_cert_hash p = sender_hash)) (pending_shares st1);
          st2 = set_pending_shares rest st1;
          changed = (if length rest \<noteq> length (pending_shares st1) then emit_key_share_requests_changed st2 channel_id else []);
          persist =
            (if protocol = PP_FancyV1FullArchive
             then case get_pchat st2 of
                    None \<Rightarrow> []
                  | Some p \<Rightarrow>
                      (case (get_archive_key (ps_key_manager p) channel_id, ps_identity_dir p) of
                         (Some (key, trust), Some dir) \<Rightarrow>
                           [PersistArchiveKey dir channel_id key (get_channel_originator (ps_key_manager p) channel_id)]
                       | _ \<Rightarrow> [])
             else []);
          restored = app_emit st2 (Ev_pchat_key_restored \<lparr>pk_channel_id = channel_id\<rparr>);
          (st3, refetch) = retry_decrypt_pending_messages channel_id st2;
          (st4, report) = send_key_holder_report channel_id st3
      in (st4, changed @ restored @ refetch @ report @ persist))"

definition handle_proto_key_exchange ::
    "'br app_env \<Rightarrow> PchatKeyExchange \<Rightarrow> 'br SharedState \<Rightarrow> ('br SharedState \<times> app_effect list) option" where
  "handle_proto_key_exchange env msg st =
     (let x = proto_to_wire_key_exchange msg;
          protocol = from_wire_str (kx_protocol x)
      in case try_accept_key_exchange env x protocol (kx_request_id x) st of
           None \<Rightarrow> None
         | Some (False, st') \<Rightarrow> Some (st', [])
         | Some (True, st') \<Rightarrow> Some (finalize_key_acceptance (kx_channel_id x) protocol (kx_sender_hash x) st'))"

end
