(* ===== verification/App_Signal.thy ===== *)
theory App_Signal
  imports App_Keys
begin

text \<open>
  The use of the Signal bridge by the application backend
  (src/crates/mumble-tauri/src/state/pchat/signal_bridge.rs): loading the library once, sending our sender
  key, and decrypting the messages that arrived before the key of their sender. The library and its
  search path are parameters of the environment.
\<close>

section \<open>Loading\<close>

definition ensure_signal_bridge :: "'br app_env \<Rightarrow> 'br PchatState \<Rightarrow> bool \<times> 'br PchatState" where
  "ensure_signal_bridge env p =
     (if ps_signal_bridge p then (True, p)
      else if ps_signal_bridge_load_failed p then (False, p)
      else case env_load_bridge env (ps_own_cert_hash p) (ps_identity_dir p) of
             Some b \<Rightarrow> (True, p\<lparr>ps_key_manager := set_signal_bridge b (ps_key_manager p), ps_signal_bridge := True\<rparr>)
           | None \<Rightarrow> (False, p\<lparr>ps_signal_bridge_load_failed := True\<rparr>))"

text \<open>The variant that searches without the lock: the state it reads first may have lost its \<open>PchatState\<close>
  when it comes back to store the bridge.\<close>

definition ensure_unlocked_begin :: "'br SharedState \<Rightarrow> (bool, string \<times> string option) sum" where
  "ensure_unlocked_begin st =
     (case get_pchat st of
        None \<Rightarrow> Inl False
      | Some p \<Rightarrow>
          if ps_signal_bridge p then Inl True
          else if ps_signal_bridge_load_failed p then Inl False
          else Inr (ps_own_cert_hash p, ps_identity_dir p))"

definition ensure_unlocked_store :: "'br option \<Rightarrow> 'br SharedState \<Rightarrow> bool \<times> 'br SharedState" where
  "ensure_unlocked_store bridge st =
     (bridge \<noteq> None,
      case get_pchat st of
        None \<Rightarrow> st
      | Some p \<Rightarrow>
          set_pchat (case bridge of
             Some b \<Rightarrow> p\<lparr>ps_key_manager := set_signal_bridge b (ps_key_manager p), ps_signal_bridge := True\<rparr>
           | None \<Rightarrow> p\<lparr>ps_signal_bridge_load_failed := True, ps_signal_bridge := False\<rparr>) st)"

definition ensure_signal_bridge_unlocked :: "'br app_env \<Rightarrow> 'br SharedState \<Rightarrow> bool \<times> 'br SharedState" where
  "ensure_signal_bridge_unlocked env st =
     (case ensure_unlocked_begin st of
        Inl r \<Rightarrow> (r, st)
      | Inr (cert_hash, identity_dir) \<Rightarrow> ensure_unlocked_store (env_load_bridge env cert_hash identity_dir) st)"

text \<open>A call of an operation of the loaded bridge, which the key manager holds.\<close>

definition call_bridge ::
    "('br \<Rightarrow> 'a result \<times> 'br) \<Rightarrow> 'br PchatState \<Rightarrow> 'a result option \<times> 'br PchatState" where
  "call_bridge f p =
     (if \<not> ps_signal_bridge p then (None, p)
      else case signal_bridge (ps_key_manager p) of
             None \<Rightarrow> (None, p)
           | Some b \<Rightarrow>
               (case f b of (r, b') \<Rightarrow> (Some r, p\<lparr>ps_key_manager := set_signal_bridge b' (ps_key_manager p)\<rparr>)))"

section \<open>Sender keys\<close>

definition bridge_unavailable :: "'br SharedState \<Rightarrow> bool" where
  "bridge_unavailable st = (case get_pchat st of None \<Rightarrow> False | Some p \<Rightarrow> ps_signal_bridge_load_failed p)"

definition send_signal_distribution ::
    "'br app_env \<Rightarrow> u32 \<Rightarrow> 'br SharedState \<Rightarrow> 'br SharedState \<times> app_effect list" where
  "send_signal_distribution env channel_id st =
     (if bridge_unavailable st then (st, [])
      else case get_pchat st of
             None \<Rightarrow> (st, [])
           | Some p \<Rightarrow>
               (case ensure_signal_bridge env p of
                  (False, p') \<Rightarrow> (set_pchat p' st, [])
                | (True, p') \<Rightarrow>
                    (case call_bridge (env_create_distribution env channel_id) p' of
                       (Some (Inr distribution), p'') \<Rightarrow>
                         (set_pchat p'' st, send_now st (Cmd_SendPchatSenderKeyDistribution channel_id distribution))
                     | (_, p'') \<Rightarrow> (set_pchat p'' st, []))))"

section \<open>Stashed envelopes\<close>

definition cached_of_envelope :: "string \<Rightarrow> u32 \<Rightarrow> u64 \<Rightarrow> string \<Rightarrow> MessageEnvelope \<Rightarrow> bool \<Rightarrow> CachedMessage" where
  "cached_of_envelope message_id channel_id timestamp sender_hash e is_own =
     \<lparr>lm_message_id = message_id, lm_channel_id = channel_id, lm_timestamp = timestamp,
      lm_sender_hash = sender_hash, lm_sender_name = me_sender_name e, lm_body = me_body e, lm_is_own = is_own\<rparr>"

text \<open>One matching envelope: decrypted messages enter the cache and the results, failures of
  decryption stay stashed, and what decrypts but does not decode is dropped.\<close>

definition retry_one ::
    "'br app_env \<Rightarrow> PendingSignalEnvelope \<Rightarrow>
     'br PchatState \<times> (string \<times> u32 \<times> string \<times> string) list \<times> PendingSignalEnvelope list \<Rightarrow>
     'br PchatState \<times> (string \<times> u32 \<times> string \<times> string) list \<times> PendingSignalEnvelope list" where
  "retry_one env e = (\<lambda>(p, results, still_pending).
     case decrypt_signal (env_signal env) (pe_sender_hash e) (pe_channel_id e) (pe_envelope_bytes e) (ps_key_manager p) of
       (r, km) \<Rightarrow>
         let p = p\<lparr>ps_key_manager := km\<rparr>
         in case r of
              Inl err \<Rightarrow> (p, results, still_pending @ [e])
            | Inr plaintext \<Rightarrow>
                (case env_decode env plaintext of
                   Inl err \<Rightarrow> (p, results, still_pending)
                 | Inr m \<Rightarrow>
                     (cache_signal_message
                        (cached_of_envelope (pe_message_id e) (pe_channel_id e) (pe_timestamp e) (pe_sender_hash e) m False) p,
                      results @ [(pe_message_id e, pe_channel_id e, me_sender_name m, me_body m)], still_pending)))"

definition retry_matching ::
    "'br app_env \<Rightarrow> string \<Rightarrow> u32 \<Rightarrow> 'br PchatState \<Rightarrow> (string \<times> u32 \<times> string \<times> string) list \<times> 'br PchatState" where
  "retry_matching env sender_hash sender_channel p =
     (let is_match = (\<lambda>e. pe_sender_hash e = sender_hash \<and> pe_channel_id e = sender_channel);
          matched = filter is_match (ps_pending_signal_envelopes p);
          p = p\<lparr>ps_pending_signal_envelopes := filter (\<lambda>e. \<not> is_match e) (ps_pending_signal_envelopes p)\<rparr>
      in case fold (retry_one env) matched (p, [], []) of
           (p', results, still_pending) \<Rightarrow>
             (results, p'\<lparr>ps_pending_signal_envelopes := ps_pending_signal_envelopes p' @ still_pending\<rparr>))"

definition replace_placeholder ::
    "string \<times> u32 \<times> string \<times> string \<Rightarrow> 'br SharedState \<times> nat \<Rightarrow> 'br SharedState \<times> nat" where
  "replace_placeholder = (\<lambda>(message_id, channel_id, sender_name, body) (st, n).
     let ms = ss_msgs st
     in if list_ex (has_id message_id) (thread (by_channel ms) channel_id)
        then (st\<lparr>ss_msgs := ms\<lparr>by_channel := hm_get_mut channel_id
                  (update_first (has_id message_id) (\<lambda>m. m\<lparr>cm_body := body, cm_sender_name := sender_name\<rparr>))
                  (by_channel ms)\<rparr>\<rparr>, n + 1)
        else (st, n))"

definition retry_stashed_signal_envelopes ::
    "'br app_env \<Rightarrow> string \<Rightarrow> u32 \<Rightarrow> 'br SharedState \<Rightarrow> 'br SharedState \<times> nat" where
  "retry_stashed_signal_envelopes env sender_hash sender_channel st =
     (case get_pchat st of
        None \<Rightarrow> (st, 0)
      | Some p \<Rightarrow>
          (case retry_matching env sender_hash sender_channel p of
             (decoded, p') \<Rightarrow> fold replace_placeholder decoded (set_pchat p' st, 0)))"

definition handle_signal_sender_key_by_hash ::
    "'br app_env \<Rightarrow> string \<Rightarrow> u32 \<Rightarrow> bytes \<Rightarrow> 'br SharedState \<Rightarrow> bool \<times> 'br SharedState" where
  "handle_signal_sender_key_by_hash env sender_hash sender_channel data st =
     (if bridge_unavailable st then (False, st)
      else case get_pchat st of
             None \<Rightarrow> (False, st)
           | Some p \<Rightarrow>
               (case ensure_signal_bridge env p of
                  (False, p') \<Rightarrow> (False, set_pchat p' st)
                | (True, p') \<Rightarrow>
                    (case call_bridge (env_process_distribution env sender_hash sender_channel data) p' of
                       (Some (Inr u), p'') \<Rightarrow>
                         (case retry_stashed_signal_envelopes env sender_hash sender_channel (set_pchat p'' st) of
                            (st', n) \<Rightarrow> (n > 0, st'))
                     | (_, p'') \<Rightarrow> (False, set_pchat p'' st))))"

end
