(* ===== verification/App_Pchat.thy ===== *)
theory App_Pchat
  imports App_Signal
begin

text \<open>
  Persistent chat messages in the application backend: delivery, fetched history, deletion and the offline
  queue (src/crates/mumble-tauri/src/state/pchat/inbound.rs), reactions, pins, holders and
  acknowledgements (handler/pchat.rs), and the building of outgoing messages (pchat/outbound.rs).
\<close>

section \<open>Delivery\<close>

definition sender_session_of :: "'br SharedState \<Rightarrow> string \<Rightarrow> u32 option" where
  "sender_session_of st h = map_option ue_session (online_with_hash st h)"

definition pchat_message ::
    "u32 option \<Rightarrow> string \<Rightarrow> string \<Rightarrow> string \<Rightarrow> u32 \<Rightarrow> bool \<Rightarrow> string \<Rightarrow> u64 \<Rightarrow> ChatMessage" where
  "pchat_message sender_session sender_name sender_hash body channel_id is_own message_id timestamp =
     \<lparr>cm_sender_session = sender_session, cm_sender_name = sender_name, cm_sender_hash = Some sender_hash,
      cm_body = body, cm_channel_id = channel_id, cm_is_own = is_own, cm_dm_session = None,
      cm_message_id = Some message_id, cm_timestamp = Some timestamp, cm_is_legacy = False, cm_edited_at = None,
      cm_pinned = False, cm_pinned_by = None, cm_pinned_at = None\<rparr>"

text \<open>Decryption with its fallback: the placeholder under the hash of the sender, and the envelope
  stashed when it is one of the Signal protocol. The flag says whether decryption succeeded.\<close>

definition decrypt_or_stash ::
    "'br app_env \<Rightarrow> PchatProtocol \<Rightarrow> string \<Rightarrow> u32 \<Rightarrow> string \<Rightarrow> u64 \<Rightarrow> bytes \<Rightarrow> 'br PchatState
      \<Rightarrow> (string \<times> string \<times> bool) \<times> 'br PchatState" where
  "decrypt_or_stash env protocol sender_hash channel_id message_id timestamp envelope_bytes p =
     (case InboundEnvelope_decrypt env
             \<lparr>ie_protocol = protocol, ie_sender_hash = sender_hash, ie_channel_id = channel_id,
              ie_message_id = message_id, ie_timestamp = timestamp, ie_envelope_bytes = envelope_bytes,
              ie_epoch = None, ie_chain_index = None, ie_epoch_fingerprint = replicate 8 0\<rparr> p of
        (Inr e, p') \<Rightarrow> ((me_body e, me_sender_name e, True), p')
      | (Inl err, p') \<Rightarrow>
          ((PLACEHOLDER_BODY, sender_hash, False),
           if protocol = PP_SignalV1
           then stash_signal_envelope \<lparr>pe_message_id = message_id, pe_channel_id = channel_id, pe_timestamp = timestamp,
                  pe_sender_hash = sender_hash, pe_envelope_bytes = envelope_bytes\<rparr> p'
           else p'))"

definition cache_if_signal ::
    "PchatProtocol \<Rightarrow> bool \<Rightarrow> CachedMessage \<Rightarrow> 'br PchatState \<Rightarrow> 'br PchatState" where
  "cache_if_signal protocol decrypted m p =
     (if protocol = PP_SignalV1 \<and> decrypted then cache_signal_message m p else p)"

definition insert_or_replace_message ::
    "u32 \<Rightarrow> string \<Rightarrow> string option \<Rightarrow> ChatMessage \<Rightarrow> 'br SharedState \<Rightarrow> 'br SharedState" where
  "insert_or_replace_message channel_id message_id replaces_id chat_msg st =
     (let ms = ss_msgs st;
          msgs = thread (by_channel ms) channel_id
      in case (case replaces_id of None \<Rightarrow> None | Some r \<Rightarrow> position (has_id r) msgs) of
           Some pos \<Rightarrow> st\<lparr>ss_msgs := ms\<lparr>by_channel := hm_insert channel_id (msgs[pos := chat_msg]) (by_channel ms)\<rparr>\<rparr>
         | None \<Rightarrow>
             if list_ex (has_id message_id) msgs then st
             else st\<lparr>ss_msgs := ms\<lparr>by_channel := hm_entry_modify channel_id [] (push_capped chat_msg) (by_channel ms)\<rparr>\<rparr>)"

definition handle_proto_msg_deliver ::
    "'br app_env \<Rightarrow> PchatMessageDeliver \<Rightarrow> 'br SharedState \<Rightarrow> 'br SharedState" where
  "handle_proto_msg_deliver env msg st =
     (let message_id = unwrap_or [] (PchatMessageDeliver_message_id msg);
          channel_id = unwrap_or 0 (PchatMessageDeliver_channel_id msg);
          timestamp = unwrap_or 0 (PchatMessageDeliver_timestamp msg);
          sender_hash = unwrap_or [] (PchatMessageDeliver_sender_hash msg);
          protocol = proto_to_protocol (PchatMessageDeliver_protocol msg);
          envelope_bytes = unwrap_or [] (PchatMessageDeliver_envelope msg)
      in case get_pchat st of
           None \<Rightarrow> st
         | Some p \<Rightarrow>
             let ((body, sender_name, decrypted), p) =
                   decrypt_or_stash env protocol sender_hash channel_id message_id timestamp envelope_bytes p;
                 p = cache_if_signal protocol decrypted
                   \<lparr>lm_message_id = message_id, lm_channel_id = channel_id, lm_timestamp = timestamp,
                    lm_sender_hash = sender_hash, lm_sender_name = sender_name, lm_body = body, lm_is_own = False\<rparr> p
             in insert_or_replace_message channel_id message_id (PchatMessageDeliver_replaces_id msg)
                  (pchat_message (sender_session_of st sender_hash) sender_name sender_hash body channel_id False
                     message_id timestamp) (set_pchat p st))"

definition PchatMessageDeliver_handle ::
    "'br app_env \<Rightarrow> PchatMessageDeliver \<Rightarrow> 'br SharedState \<Rightarrow> 'br SharedState \<times> app_effect list" where
  "PchatMessageDeliver_handle env msg st =
     (let channel_id = unwrap_or 0 (PchatMessageDeliver_channel_id msg);
          st = handle_proto_msg_deliver env msg st;
          unread = (ss_selected_channel st \<noteq> Some channel_id);
          ms = ss_msgs st;
          ms = (if unread then ms\<lparr>channel_unread := hm_entry_modify channel_id 0 (\<lambda>n. n + 1) (channel_unread ms)\<rparr> else ms);
          st = st\<lparr>ss_msgs := ms\<rparr>;
          sender_session = sender_session_of st (unwrap_or [] (PchatMessageDeliver_sender_hash msg));
          sender_name = (case actor_user st sender_session of Some u \<Rightarrow> ue_name u | None \<Rightarrow> ''Unknown'');
          msgs = thread (by_channel ms) channel_id;
          body = (if msgs = [] then [] else cm_body (last msgs))
      in (st,
          [Emit (Ev_new_message \<lparr>nm_channel_id = channel_id, nm_sender_session = sender_session\<rparr>)] @
          (if unread then [Emit (Ev_unread_changed \<lparr>up_unreads = channel_unread ms\<rparr>)] else []) @
          (if unread \<or> \<not> pr_app_focused (ss_prefs st)
           then emit_channel_notification st channel_id sender_name body sender_session else []) @
          (if unread \<and> channel_id \<in> ss_permanently_listened st then [Attention] else []) @
          [Emit Ev_state_changed]))"

section \<open>Fetched history\<close>

definition try_into_8 :: "bytes option \<Rightarrow> bytes" where
  "try_into_8 b = (case b of None \<Rightarrow> replicate 8 0 | Some x \<Rightarrow> if length x = 8 then x else replicate 8 0)"

definition decrypt_fetched ::
    "'br app_env \<Rightarrow> string \<Rightarrow> (string, u32) hash_map \<Rightarrow> PchatMessage \<Rightarrow> 'br PchatState \<times> ChatMessage list
      \<Rightarrow> 'br PchatState \<times> ChatMessage list" where
  "decrypt_fetched env own_cert_hash user_hashes m = (\<lambda>(p, acc).
     let msg_id = unwrap_or [] (PchatMessage_message_id m);
         msg_channel_id = unwrap_or 0 (PchatMessage_channel_id m);
         msg_timestamp = unwrap_or 0 (PchatMessage_timestamp m);
         msg_sender_hash = unwrap_or [] (PchatMessage_sender_hash m);
         protocol = proto_to_protocol (PchatMessage_protocol m);
         (r, p) = InboundEnvelope_decrypt env
             \<lparr>ie_protocol = protocol, ie_sender_hash = msg_sender_hash, ie_channel_id = msg_channel_id,
              ie_message_id = msg_id, ie_timestamp = msg_timestamp,
              ie_envelope_bytes = unwrap_or [] (PchatMessage_envelope m), ie_epoch = PchatMessage_epoch m,
              ie_chain_index = PchatMessage_chain_index m,
              ie_epoch_fingerprint = try_into_8 (PchatMessage_epoch_fingerprint m)\<rparr> p;
         (body, sender_name, decrypted) =
           (case r of Inr e \<Rightarrow> (me_body e, me_sender_name e, True) | Inl err \<Rightarrow> (PLACEHOLDER_BODY, msg_sender_hash, False));
         is_own = (msg_sender_hash \<noteq> [] \<and> own_cert_hash \<noteq> [] \<and> msg_sender_hash = own_cert_hash);
         p = cache_if_signal protocol decrypted
           \<lparr>lm_message_id = msg_id, lm_channel_id = msg_channel_id, lm_timestamp = msg_timestamp,
            lm_sender_hash = msg_sender_hash, lm_sender_name = sender_name, lm_body = body, lm_is_own = is_own\<rparr> p
     in (p, acc @ [pchat_message (hm_get user_hashes msg_sender_hash) sender_name msg_sender_hash body msg_channel_id
                     is_own msg_id msg_timestamp]))"

text \<open>The map from hashes to sessions: a later user with the same hash wins.\<close>

definition user_hash_map :: "'br SharedState \<Rightarrow> (string, u32) hash_map" where
  "user_hash_map st =
     fold (\<lambda>u m. case ue_hash u of None \<Rightarrow> m | Some h \<Rightarrow> hm_insert h (ue_session u) m) (hm_values (ss_users st)) []"

definition merge_decrypted_messages :: "u32 \<Rightarrow> ChatMessage list \<Rightarrow> 'br SharedState \<Rightarrow> 'br SharedState" where
  "merge_decrypted_messages channel_id decrypted_msgs st =
     (if decrypted_msgs = [] then st
      else
        let ms = ss_msgs st
        in st\<lparr>ss_msgs := ms\<lparr>by_channel := hm_entry_modify channel_id [] (\<lambda>existing.
             let existing_ids = set (List.map_filter cm_message_id existing);
                 new_msgs = filter (\<lambda>m. case cm_message_id m of Some i \<Rightarrow> i \<notin> existing_ids | None \<Rightarrow> True) decrypted_msgs
             in sort_key (\<lambda>m. unwrap_or 0 (cm_timestamp m)) (new_msgs @ existing)) (by_channel ms)\<rparr>\<rparr>)"

text \<open>The three phases: \<open>PchatState\<close> is taken out of the state, the messages are decrypted without the
  lock, and it is put back. Between the phases other tasks see a state without it.\<close>

definition fetch_take :: "'br SharedState \<Rightarrow> ('br PchatState \<times> (string, u32) hash_map) option \<times> 'br SharedState" where
  "fetch_take st =
     (case get_pchat st of
        None \<Rightarrow> (None, st)
      | Some p \<Rightarrow> (Some (p, user_hash_map st), st\<lparr>ss_pchat_ctx := (ss_pchat_ctx st)\<lparr>pc_pchat := None\<rparr>\<rparr>))"

definition fetch_store :: "u32 \<Rightarrow> 'br PchatState \<Rightarrow> ChatMessage list \<Rightarrow> 'br SharedState \<Rightarrow> 'br SharedState" where
  "fetch_store channel_id p msgs st = merge_decrypted_messages channel_id msgs (set_pchat p st)"

definition handle_proto_fetch_resp ::
    "'br app_env \<Rightarrow> PchatFetchResponse \<Rightarrow> 'br SharedState \<Rightarrow> 'br SharedState" where
  "handle_proto_fetch_resp env msg st =
     (case fetch_take st of
        (None, st') \<Rightarrow> st'
      | (Some (p, user_hashes), st') \<Rightarrow>
          (case fold (decrypt_fetched env (ps_own_cert_hash p) user_hashes) (PchatFetchResponse_messages msg) (p, []) of
             (p', msgs) \<Rightarrow> fetch_store (unwrap_or 0 (PchatFetchResponse_channel_id msg)) p' msgs st'))"

definition PchatFetchResponse_handle ::
    "'br app_env \<Rightarrow> PchatFetchResponse \<Rightarrow> 'br SharedState \<Rightarrow> 'br SharedState \<times> app_effect list" where
  "PchatFetchResponse_handle env msg st =
     (let channel_id = unwrap_or 0 (PchatFetchResponse_channel_id msg)
      in (handle_proto_fetch_resp env msg st,
          [Emit (Ev_pchat_history_loading \<lparr>hl_channel_id = channel_id, hl_loading = False\<rparr>),
           Emit (Ev_pchat_fetch_complete \<lparr>fc_channel_id = channel_id,
             fc_has_more = unwrap_or False (PchatFetchResponse_has_more msg),
             fc_total_stored = unwrap_or 0 (PchatFetchResponse_total_stored msg)\<rparr>),
           Emit (Ev_new_message \<lparr>nm_channel_id = channel_id, nm_sender_session = None\<rparr>),
           Emit Ev_state_changed]))"

section \<open>Acknowledgements and deletion\<close>

text \<open>The statuses of an acknowledgement: 0 stored, 1 rejected, 2 quota exceeded, 3 deleted. A final status
  answers every deletion that waits, and the list of the waiting ones is emptied.\<close>

definition PchatAck_handle :: "PchatAck \<Rightarrow> 'br SharedState \<Rightarrow> 'br SharedState \<times> app_effect list" where
  "PchatAck_handle msg st =
     (let status = unwrap_or 0 (PchatAck_status msg);
          is_deleted = (status = 3);
          is_rejected = (status = 1 \<or> status = 2)
      in if is_deleted \<or> is_rejected
         then (st\<lparr>ss_pchat_ctx := (ss_pchat_ctx st)\<lparr>pc_pending_delete_acks := []\<rparr>\<rparr>,
               map (\<lambda>tx. ResolveDelete tx \<lparr>da_success = is_deleted, da_reason = PchatAck_reason msg\<rparr>)
                 (pc_pending_delete_acks (ss_pchat_ctx st)))
         else (st, []))"

definition in_time_range :: "PchatDeleteMessages_TimeRange \<Rightarrow> u64 \<Rightarrow> bool" where
  "in_time_range r ts \<longleftrightarrow>
     (case PchatDeleteMessages_TimeRange_from r of None \<Rightarrow> True | Some f \<Rightarrow> f \<le> ts) \<and>
     (case PchatDeleteMessages_TimeRange_to r of None \<Rightarrow> True | Some t \<Rightarrow> ts \<le> t)"

text \<open>What \<^verbatim>\<open>retain\<close> drops. The hash of the sender is compared with the name of the sender.\<close>

definition deletes :: "PchatDeleteMessages \<Rightarrow> ChatMessage \<Rightarrow> bool" where
  "deletes msg m \<longleftrightarrow>
     (case cm_message_id m of None \<Rightarrow> False | Some i \<Rightarrow> i \<in> set (PchatDeleteMessages_message_ids msg)) \<or>
     (case (PchatDeleteMessages_time_range msg, cm_timestamp m) of
        (Some r, Some ts) \<Rightarrow> in_time_range r ts | _ \<Rightarrow> False) \<or>
     PchatDeleteMessages_sender_hash msg = Some (cm_sender_name m)"

definition handle_proto_delete_messages :: "PchatDeleteMessages \<Rightarrow> 'br SharedState \<Rightarrow> 'br SharedState" where
  "handle_proto_delete_messages msg st =
     (let ms = ss_msgs st
      in st\<lparr>ss_msgs := ms\<lparr>by_channel := hm_get_mut (unwrap_or 0 (PchatDeleteMessages_channel_id msg))
           (filter (\<lambda>m. \<not> deletes msg m)) (by_channel ms)\<rparr>\<rparr>)"

definition PchatDeleteMessages_handle ::
    "PchatDeleteMessages \<Rightarrow> 'br SharedState \<Rightarrow> 'br SharedState \<times> app_effect list" where
  "PchatDeleteMessages_handle msg st =
     (handle_proto_delete_messages msg st,
      [Emit (Ev_new_message \<lparr>nm_channel_id = unwrap_or 0 (PchatDeleteMessages_channel_id msg), nm_sender_session = None\<rparr>)])"

section \<open>The offline queue\<close>

record DecryptedOfflineMsg =
  dof_message_id :: string
  dof_timestamp :: u64
  dof_sender_hash :: string
  dof_body :: string
  dof_sender_name :: string

definition decrypt_offline_one ::
    "'br app_env \<Rightarrow> u32 \<Rightarrow> PchatMessageDeliver \<Rightarrow> 'br PchatState \<times> DecryptedOfflineMsg list
      \<Rightarrow> 'br PchatState \<times> DecryptedOfflineMsg list" where
  "decrypt_offline_one env channel_id deliver = (\<lambda>(p, results).
     let message_id = unwrap_or [] (PchatMessageDeliver_message_id deliver);
         timestamp = unwrap_or 0 (PchatMessageDeliver_timestamp deliver);
         sender_hash = unwrap_or [] (PchatMessageDeliver_sender_hash deliver);
         protocol = proto_to_protocol (PchatMessageDeliver_protocol deliver);
         ((body, sender_name, decrypted), p) =
           decrypt_or_stash env protocol sender_hash channel_id message_id timestamp
             (unwrap_or [] (PchatMessageDeliver_envelope deliver)) p;
         p = cache_if_signal protocol decrypted
           \<lparr>lm_message_id = message_id, lm_channel_id = channel_id, lm_timestamp = timestamp,
            lm_sender_hash = sender_hash, lm_sender_name = sender_name, lm_body = body, lm_is_own = False\<rparr> p
     in (p, results @ [\<lparr>dof_message_id = message_id, dof_timestamp = timestamp, dof_sender_hash = sender_hash,
                        dof_body = body, dof_sender_name = sender_name\<rparr>]))"

definition decrypt_offline_batch ::
    "'br app_env \<Rightarrow> u32 \<Rightarrow> PchatMessageDeliver list \<Rightarrow> 'br PchatState \<Rightarrow> 'br PchatState \<times> DecryptedOfflineMsg list" where
  "decrypt_offline_batch env channel_id messages p = fold (decrypt_offline_one env channel_id) messages (p, [])"

definition insert_offline_one ::
    "u32 \<Rightarrow> DecryptedOfflineMsg \<Rightarrow> 'br SharedState \<times> string list \<Rightarrow> 'br SharedState \<times> string list" where
  "insert_offline_one channel_id d = (\<lambda>(st, acked).
     let ms = ss_msgs st
     in (if list_ex (has_id (dof_message_id d)) (thread (by_channel ms) channel_id) then st
         else st\<lparr>ss_msgs := ms\<lparr>by_channel := hm_entry_modify channel_id []
                  (push_capped (pchat_message (sender_session_of st (dof_sender_hash d)) (dof_sender_name d)
                     (dof_sender_hash d) (dof_body d) channel_id False (dof_message_id d) (dof_timestamp d)))
                  (by_channel ms)\<rparr>\<rparr>,
         acked @ [dof_message_id d]))"

definition insert_offline_messages ::
    "u32 \<Rightarrow> DecryptedOfflineMsg list \<Rightarrow> 'br SharedState \<Rightarrow> 'br SharedState \<times> string list" where
  "insert_offline_messages channel_id decrypted st = fold (insert_offline_one channel_id) decrypted (st, [])"

definition send_offline_queue_ack :: "'br SharedState \<Rightarrow> u32 \<Rightarrow> string list \<Rightarrow> app_effect list" where
  "send_offline_queue_ack st channel_id acked_ids =
     send_now st (Cmd_SendPchatAck
       \<lparr>PchatAck_message_ids = acked_ids, PchatAck_status = Some 0, PchatAck_reason = None,
        PchatAck_channel_id = Some channel_id\<rparr>)"

definition process_distributions ::
    "'br app_env \<Rightarrow> u32 \<Rightarrow> PchatSenderKeyDistribution list \<Rightarrow> 'br SharedState \<Rightarrow> 'br SharedState" where
  "process_distributions env channel_id = fold (\<lambda>dist st.
     let data = unwrap_or [] (PchatSenderKeyDistribution_distribution dist)
     in if data = [] then st
        else snd (handle_signal_sender_key_by_hash env
                (unwrap_or [] (PchatSenderKeyDistribution_sender_hash dist))
                (unwrap_or channel_id (PchatSenderKeyDistribution_channel_id dist)) data st))"

definition sort_thread :: "u32 \<Rightarrow> 'br SharedState \<Rightarrow> 'br SharedState" where
  "sort_thread channel_id st =
     st\<lparr>ss_msgs := (ss_msgs st)\<lparr>by_channel :=
       hm_get_mut channel_id (sort_key (\<lambda>m. unwrap_or 0 (cm_timestamp m))) (by_channel (ss_msgs st))\<rparr>\<rparr>"

definition handle_proto_offline_queue_drain ::
    "'br app_env \<Rightarrow> PchatOfflineQueueDrain \<Rightarrow> 'br SharedState \<Rightarrow> 'br SharedState \<times> app_effect list" where
  "handle_proto_offline_queue_drain env msg st =
     (let channel_id = unwrap_or 0 (PchatOfflineQueueDrain_channel_id msg);
          st = process_distributions env channel_id (PchatOfflineQueueDrain_distributions msg) st
      in if PchatOfflineQueueDrain_messages msg = [] then (st, [])
         else case get_pchat st of
                None \<Rightarrow> (st, [])
              | Some p \<Rightarrow>
                  let (p, decrypted) = decrypt_offline_batch env channel_id (PchatOfflineQueueDrain_messages msg) p;
                      (st, acked) = insert_offline_messages channel_id decrypted (set_pchat p st);
                      st = sort_thread channel_id st
                  in (st, if acked = [] then [] else send_offline_queue_ack st channel_id acked))"

definition PchatOfflineQueueDrain_handle ::
    "'br app_env \<Rightarrow> PchatOfflineQueueDrain \<Rightarrow> 'br SharedState \<Rightarrow> 'br SharedState \<times> app_effect list" where
  "PchatOfflineQueueDrain_handle env msg st =
     (case handle_proto_offline_queue_drain env msg st of
        (st', effs) \<Rightarrow>
          (st', effs @
             [Emit (Ev_new_message \<lparr>nm_channel_id = unwrap_or 0 (PchatOfflineQueueDrain_channel_id msg), nm_sender_session = None\<rparr>),
              Emit Ev_state_changed]))"

definition PchatSenderKeyDistribution_handle ::
    "'br app_env \<Rightarrow> PchatSenderKeyDistribution \<Rightarrow> 'br SharedState \<Rightarrow> 'br SharedState \<times> app_effect list" where
  "PchatSenderKeyDistribution_handle env msg st =
     (case handle_signal_sender_key_by_hash env (unwrap_or [] (PchatSenderKeyDistribution_sender_hash msg))
             (unwrap_or 0 (PchatSenderKeyDistribution_channel_id msg))
             (unwrap_or [] (PchatSenderKeyDistribution_distribution msg)) st of
        (changed, st') \<Rightarrow> (st', if changed then [Emit Ev_state_changed] else []))"

section \<open>Keys and their holders\<close>

definition PchatKeyAnnounce_handle ::
    "'br app_env \<Rightarrow> PchatKeyAnnounce \<Rightarrow> 'br SharedState \<Rightarrow> 'br SharedState \<times> app_effect list" where
  "PchatKeyAnnounce_handle env msg st =
     (case handle_proto_key_announce env msg st of (st', effs) \<Rightarrow> (st', effs @ [Emit Ev_state_changed]))"

definition PchatKeyExchange_handle ::
    "'br app_env \<Rightarrow> PchatKeyExchange \<Rightarrow> 'br SharedState \<Rightarrow> ('br SharedState \<times> app_effect list) option" where
  "PchatKeyExchange_handle env msg st =
     map_option (\<lambda>(st', effs). (st', effs @ [Emit Ev_state_changed])) (handle_proto_key_exchange env msg st)"

definition PchatKeyRequest_handle :: "PchatKeyRequest \<Rightarrow> 'br SharedState \<Rightarrow> 'br SharedState \<times> app_effect list" where
  "PchatKeyRequest_handle msg st =
     (case handle_proto_key_request msg st of (st', effs) \<Rightarrow> (st', effs @ [Emit Ev_state_changed]))"

definition PchatKeyChallengeResult_handle ::
    "'br app_env \<Rightarrow> PchatKeyChallengeResult \<Rightarrow> 'br SharedState \<Rightarrow> 'br SharedState \<times> app_effect list" where
  "PchatKeyChallengeResult_handle env msg st =
     (case handle_proto_key_challenge_result env msg st of (st', effs) \<Rightarrow> (st', effs @ [Emit Ev_state_changed]))"

definition resolve_entry_name :: "'br app_env \<Rightarrow> bool \<Rightarrow> string \<Rightarrow> string \<Rightarrow> string" where
  "resolve_entry_name env resolver cert_hash server_name =
     (if server_name \<noteq> [] \<and> server_name \<noteq> cert_hash then server_name
      else if resolver then env_resolve env cert_hash else cert_hash)"

text \<open>The names of the users by hash: a later user with the same hash wins.\<close>

definition name_by_hash :: "'br SharedState \<Rightarrow> (string, string) hash_map" where
  "name_by_hash st =
     fold (\<lambda>u m. case ue_hash u of None \<Rightarrow> m | Some h \<Rightarrow> hm_insert h (ue_name u) m) (hm_values (ss_users st)) []"

definition key_holder_entry :: "'br app_env \<Rightarrow> 'br SharedState \<Rightarrow> PchatKeyHoldersList_Entry \<Rightarrow> KeyHolderEntry" where
  "key_holder_entry env st entry =
     (let cert_hash = unwrap_or [] (PchatKeyHoldersList_Entry_cert_hash entry);
          online_name = hm_get (name_by_hash st) cert_hash
      in \<lparr>kh_cert_hash = cert_hash,
          kh_name = (case online_name of Some n \<Rightarrow> n
                     | None \<Rightarrow> resolve_entry_name env (pc_hash_name_resolver (ss_pchat_ctx st)) cert_hash
                                 (unwrap_or [] (PchatKeyHoldersList_Entry_name entry))),
          kh_is_online = (online_name \<noteq> None)\<rparr>)"

definition PchatKeyHoldersList_handle ::
    "'br app_env \<Rightarrow> PchatKeyHoldersList \<Rightarrow> 'br SharedState \<Rightarrow> 'br SharedState \<times> app_effect list" where
  "PchatKeyHoldersList_handle env msg st =
     (let channel_id = unwrap_or 0 (PchatKeyHoldersList_channel_id msg);
          holders = map (key_holder_entry env st) (PchatKeyHoldersList_holders msg);
          holder_hashes = set (filter (\<lambda>h. h \<noteq> []) (map kh_cert_hash holders));
          st = st\<lparr>ss_pchat_ctx := (ss_pchat_ctx st)\<lparr>pc_key_holders := hm_insert channel_id holders (pc_key_holders (ss_pchat_ctx st))\<rparr>\<rparr>;
          st = map_km (replace_key_holders channel_id holder_hashes) st;
          rest = filter (\<lambda>p. \<not> (ks_channel_id p = channel_id \<and> ks_peer_cert_hash p \<in> holder_hashes)) (pending_shares st);
          changed = (length rest \<noteq> length (pending_shares st));
          st = set_pending_shares rest st
      in (st,
          (if changed then emit_key_share_requests_changed st channel_id else []) @
          [Emit (Ev_pchat_key_holders_changed \<lparr>kd_channel_id = channel_id, kd_holders = holders\<rparr>)]))"

section \<open>Reactions\<close>

text \<open>\<^verbatim>\<open>String::from_utf8_lossy\<close>: a valid sequence is kept, and each maximal part of an invalid one becomes
  the replacement character. \<open>utf8_chunk b bs\<close> says whether \<open>b\<close> starts a valid sequence in front of
  \<open>bs\<close>, and how many bytes of \<open>bs\<close> belong to it or to the invalid part.\<close>

definition byte_in :: "u8 \<Rightarrow> u8 \<Rightarrow> bytes \<Rightarrow> nat \<Rightarrow> bool" where
  "byte_in lo hi bs i \<longleftrightarrow> i < length bs \<and> lo \<le> bs ! i \<and> bs ! i \<le> hi"

definition utf8_chunk :: "u8 \<Rightarrow> bytes \<Rightarrow> bool \<times> nat" where
  "utf8_chunk b bs =
     (if b < 0x80 then (True, 0)
      else if 0xC2 \<le> b \<and> b \<le> 0xDF then (if byte_in 0x80 0xBF bs 0 then (True, 1) else (False, 0))
      else if 0xE0 \<le> b \<and> b \<le> 0xEF then
        (if \<not> byte_in (if b = 0xE0 then 0xA0 else 0x80) (if b = 0xED then 0x9F else 0xBF) bs 0 then (False, 0)
         else if \<not> byte_in 0x80 0xBF bs 1 then (False, 1) else (True, 2))
      else if 0xF0 \<le> b \<and> b \<le> 0xF4 then
        (if \<not> byte_in (if b = 0xF0 then 0x90 else 0x80) (if b = 0xF4 then 0x8F else 0xBF) bs 0 then (False, 0)
         else if \<not> byte_in 0x80 0xBF bs 1 then (False, 1)
         else if \<not> byte_in 0x80 0xBF bs 2 then (False, 2) else (True, 3))
      else (False, 0))"

definition char_of_byte :: "u8 \<Rightarrow> char" where
  "char_of_byte b = char_of (unat b)"

fun from_utf8_lossy :: "bytes \<Rightarrow> string" where
  "from_utf8_lossy [] = []"
| "from_utf8_lossy (b # bs) =
     (if fst (utf8_chunk b bs) then map char_of_byte (b # take (snd (utf8_chunk b bs)) bs)
      else map char_of_byte [0xEF, 0xBF, 0xBD]) @ from_utf8_lossy (drop (snd (utf8_chunk b bs)) bs)"

definition server_emoji_text :: "ServerEmoji \<Rightarrow> string" where
  "server_emoji_text s = '':'' @ from_utf8_lossy (unwrap_or [] (ServerEmoji_shortcode s)) @ '':''"

definition deliver_emoji :: "PchatReactionDeliver_Emoji option \<Rightarrow> string" where
  "deliver_emoji e =
     (case e of
        Some (PchatReactionDeliver_Emoji_UnicodeEmoji u) \<Rightarrow> unwrap_or [] (UnicodeEmoji_grapheme u)
      | Some (PchatReactionDeliver_Emoji_ServerEmoji s) \<Rightarrow> server_emoji_text s
      | None \<Rightarrow> [])"

definition stored_emoji :: "PchatReactionFetchResponse_StoredReaction_Emoji option \<Rightarrow> string" where
  "stored_emoji e =
     (case e of
        Some (PchatReactionFetchResponse_StoredReaction_Emoji_UnicodeEmoji u) \<Rightarrow> unwrap_or [] (UnicodeEmoji_grapheme u)
      | Some (PchatReactionFetchResponse_StoredReaction_Emoji_ServerEmoji s) \<Rightarrow> server_emoji_text s
      | None \<Rightarrow> [])"

text \<open>A change of the local cache, which is then written to its file.\<close>

definition change_reactions ::
    "(LocalMessageCache \<Rightarrow> LocalMessageCache) \<Rightarrow> 'br SharedState \<Rightarrow> 'br SharedState \<times> app_effect list" where
  "change_reactions f st =
     (case get_pchat st of
        None \<Rightarrow> (st, [])
      | Some p \<Rightarrow>
          (case ps_local_cache p of
             None \<Rightarrow> (st, [])
           | Some c \<Rightarrow> (set_pchat (p\<lparr>ps_local_cache := Some (f c)\<rparr>) st, [SaveReactionCache (f c)])))"

definition upsert_cached_reaction :: "u32 \<Rightarrow> string \<Rightarrow> CachedReaction \<Rightarrow> LocalMessageCache \<Rightarrow> LocalMessageCache" where
  "upsert_cached_reaction channel_id action_str reaction cache =
     (if action_str = ''add'' then insert_reaction channel_id reaction cache
      else remove_reaction channel_id (lr_message_id reaction) (lr_emoji reaction) (lr_sender_hash reaction) cache)"

definition resolve_name_by_hash :: "'br SharedState \<Rightarrow> string \<Rightarrow> string \<Rightarrow> string" where
  "resolve_name_by_hash st h fallback =
     (case online_with_hash st h of Some u \<Rightarrow> ue_name u | None \<Rightarrow> fallback)"

definition PchatReactionDeliver_handle ::
    "PchatReactionDeliver \<Rightarrow> 'br SharedState \<Rightarrow> 'br SharedState \<times> app_effect list" where
  "PchatReactionDeliver_handle msg st =
     (let channel_id = unwrap_or 0 (PchatReactionDeliver_channel_id msg);
          message_id = unwrap_or [] (PchatReactionDeliver_message_id msg);
          action = unwrap_or 0 (PchatReactionDeliver_action msg);
          sender_hash = unwrap_or [] (PchatReactionDeliver_sender_hash msg);
          sender_name = unwrap_or [] (PchatReactionDeliver_sender_name msg);
          timestamp = unwrap_or 0 (PchatReactionDeliver_timestamp msg);
          emoji = deliver_emoji (PchatReactionDeliver_emoji msg);
          action_str = (if action = 1 then ''remove'' else ''add'');
          (st', effs) = change_reactions (upsert_cached_reaction channel_id action_str
            \<lparr>lr_message_id = message_id, lr_emoji = emoji, lr_sender_hash = sender_hash,
             lr_sender_name = resolve_name_by_hash st sender_hash sender_name, lr_timestamp = timestamp\<rparr>) st
      in (st', effs @ [Emit (Ev_pchat_reaction_deliver
            \<lparr>rd_channel_id = channel_id, rd_message_id = message_id, rd_emoji = emoji, rd_action = action_str,
             rd_sender_hash = sender_hash, rd_sender_name = sender_name, rd_timestamp = timestamp\<rparr>)]))"

definition stored_reaction :: "PchatReactionFetchResponse_StoredReaction \<Rightarrow> StoredReactionPayload" where
  "stored_reaction r =
     \<lparr>sr_message_id = unwrap_or [] (PchatReactionFetchResponse_StoredReaction_message_id r),
      sr_emoji = stored_emoji (PchatReactionFetchResponse_StoredReaction_emoji r),
      sr_sender_hash = unwrap_or [] (PchatReactionFetchResponse_StoredReaction_sender_hash r),
      sr_sender_name = unwrap_or [] (PchatReactionFetchResponse_StoredReaction_sender_name r),
      sr_timestamp = unwrap_or 0 (PchatReactionFetchResponse_StoredReaction_timestamp r)\<rparr>"

definition bulk_insert_cached_reactions ::
    "u32 \<Rightarrow> StoredReactionPayload list \<Rightarrow> (string, string) hash_map \<Rightarrow> LocalMessageCache \<Rightarrow> LocalMessageCache" where
  "bulk_insert_cached_reactions channel_id reactions names = fold (\<lambda>r. insert_reaction channel_id
     \<lparr>lr_message_id = sr_message_id r, lr_emoji = sr_emoji r, lr_sender_hash = sr_sender_hash r,
      lr_sender_name = unwrap_or (sr_sender_name r) (hm_get names (sr_sender_hash r)),
      lr_timestamp = sr_timestamp r\<rparr>) reactions"

definition PchatReactionFetchResponse_handle ::
    "PchatReactionFetchResponse \<Rightarrow> 'br SharedState \<Rightarrow> 'br SharedState \<times> app_effect list" where
  "PchatReactionFetchResponse_handle msg st =
     (let channel_id = unwrap_or 0 (PchatReactionFetchResponse_channel_id msg);
          reactions = map stored_reaction (PchatReactionFetchResponse_reactions msg);
          (st', effs) = change_reactions (bulk_insert_cached_reactions channel_id reactions (name_by_hash st)) st
      in (st', effs @ [Emit (Ev_pchat_reaction_fetch_response \<lparr>rf_channel_id = channel_id, rf_reactions = reactions\<rparr>)]))"

section \<open>Pins\<close>

definition apply_pin_to_message ::
    "u32 \<Rightarrow> string \<Rightarrow> bool \<Rightarrow> string \<Rightarrow> u64 \<Rightarrow> 'br SharedState \<Rightarrow> 'br SharedState" where
  "apply_pin_to_message channel_id message_id pin_it pinner_name timestamp st =
     st\<lparr>ss_msgs := (ss_msgs st)\<lparr>by_channel := hm_get_mut channel_id
          (update_first (has_id message_id) (\<lambda>m. m\<lparr>cm_pinned := pin_it,
             cm_pinned_by := if pin_it then Some pinner_name else None,
             cm_pinned_at := if pin_it then Some timestamp else None\<rparr>)) (by_channel (ss_msgs st))\<rparr>\<rparr>"

definition PchatPinDeliver_handle :: "PchatPinDeliver \<Rightarrow> 'br SharedState \<Rightarrow> 'br SharedState \<times> app_effect list" where
  "PchatPinDeliver_handle msg st =
     (let channel_id = unwrap_or 0 (PchatPinDeliver_channel_id msg);
          message_id = unwrap_or [] (PchatPinDeliver_message_id msg);
          pin_it = (\<not> unwrap_or False (PchatPinDeliver_unpin msg));
          pinner_hash = unwrap_or [] (PchatPinDeliver_pinner_hash msg);
          pinner_name = unwrap_or [] (PchatPinDeliver_pinner_name msg);
          timestamp = unwrap_or 0 (PchatPinDeliver_timestamp msg)
      in (apply_pin_to_message channel_id message_id pin_it (resolve_name_by_hash st pinner_hash pinner_name) timestamp st,
          [Emit (Ev_pchat_pin_deliver \<lparr>pn_channel_id = channel_id, pn_message_id = message_id, pn_pinned = pin_it,
             pn_pinner_hash = pinner_hash, pn_pinner_name = pinner_name, pn_timestamp = timestamp\<rparr>)]))"

definition stored_pin :: "PchatPinFetchResponse_PinnedMessage \<Rightarrow> StoredPinPayload" where
  "stored_pin p =
     \<lparr>sp_message_id = unwrap_or [] (PchatPinFetchResponse_PinnedMessage_message_id p),
      sp_pinner_hash = unwrap_or [] (PchatPinFetchResponse_PinnedMessage_pinner_hash p),
      sp_pinner_name = unwrap_or [] (PchatPinFetchResponse_PinnedMessage_pinner_name p),
      sp_timestamp = unwrap_or 0 (PchatPinFetchResponse_PinnedMessage_timestamp p)\<rparr>"

definition PchatPinFetchResponse_handle ::
    "PchatPinFetchResponse \<Rightarrow> 'br SharedState \<Rightarrow> 'br SharedState \<times> app_effect list" where
  "PchatPinFetchResponse_handle msg st =
     (let channel_id = unwrap_or 0 (PchatPinFetchResponse_channel_id msg);
          pins = map stored_pin (PchatPinFetchResponse_pins msg)
      in (fold (\<lambda>p. apply_pin_to_message channel_id (sp_message_id p) True (sp_pinner_name p) (sp_timestamp p)) pins st,
          [Emit (Ev_pchat_pin_fetch_response \<lparr>pf_channel_id = channel_id, pf_pins = pins\<rparr>)]))"

section \<open>Read receipts\<close>

definition read_state_payload ::
    "'br app_env \<Rightarrow> 'br SharedState \<Rightarrow> FancyReadReceiptDeliver_ReadState \<Rightarrow> ReadStatePayload option" where
  "read_state_payload env st rs =
     (let cert_hash = unwrap_or [] (FancyReadReceiptDeliver_ReadState_cert_hash rs)
      in if cert_hash = [] then None
         else
           let online = online_with_hash st cert_hash
           in Some \<lparr>rst_cert_hash = cert_hash,
                   rst_name = (case online of Some u \<Rightarrow> ue_name u
                               | None \<Rightarrow> resolve_entry_name env (pc_hash_name_resolver (ss_pchat_ctx st)) cert_hash
                                           (unwrap_or [] (FancyReadReceiptDeliver_ReadState_name rs))),
                   rst_is_online = (\<exists>u \<in> set (hm_values (ss_users st)). ue_hash u = Some cert_hash),
                   rst_last_read_message_id = unwrap_or [] (FancyReadReceiptDeliver_ReadState_last_read_message_id rs),
                   rst_timestamp = unwrap_or 0 (FancyReadReceiptDeliver_ReadState_timestamp rs)\<rparr>)"

definition FancyReadReceiptDeliver_handle ::
    "'br app_env \<Rightarrow> 'br SharedState \<Rightarrow> FancyReadReceiptDeliver \<Rightarrow> notice option" where
  "FancyReadReceiptDeliver_handle env st msg =
     Some (N_read_receipt_deliver
       \<lparr>rrd_channel_id = unwrap_or 0 (FancyReadReceiptDeliver_channel_id msg),
        rrd_read_states = List.map_filter (read_state_payload env st) (FancyReadReceiptDeliver_read_states msg),
        rrd_query_message_id = FancyReadReceiptDeliver_query_message_id msg\<rparr>)"

section \<open>Outgoing messages\<close>

record OutboundMessage =
  om_channel_id :: u32
  om_protocol :: PchatProtocol
  om_message_id :: string
  om_body :: string
  om_sender_name :: string
  om_sender_session :: u32
  om_timestamp :: u64

definition build_encrypted_message ::
    "'br app_env \<Rightarrow> OutboundMessage \<Rightarrow> 'br PchatState \<Rightarrow> (string + PchatMessage) \<times> 'br PchatState" where
  "build_encrypted_message env msg p =
     (case env_encode env \<lparr>me_body = om_body msg, me_sender_name = om_sender_name msg,
             me_sender_session = om_sender_session msg, me_attachments = []\<rparr> of
        Inl e \<Rightarrow> (Inl (''encode envelope: '' @ e), p)
      | Inr envelope_bytes \<Rightarrow>
          (case KeyManager_encrypt (env_crypto env) (env_signal env) (env_rng env) (om_protocol msg) (om_channel_id msg)
                  (om_message_id msg) (om_timestamp msg) envelope_bytes (ps_key_manager p) of
             (r, km) \<Rightarrow>
               (case r of
                  Inl e \<Rightarrow> Inl (''encrypt message: '' @ env_error_text env e)
                | Inr payload \<Rightarrow> Inr
                    \<lparr>PchatMessage_message_id = Some (om_message_id msg), PchatMessage_channel_id = Some (om_channel_id msg),
                     PchatMessage_timestamp = Some (om_timestamp msg),
                     PchatMessage_sender_hash = Some (ps_own_cert_hash p),
                     PchatMessage_protocol = Some (protocol_to_proto (om_protocol msg)),
                     PchatMessage_envelope = Some (ep_ciphertext payload), PchatMessage_epoch = ep_epoch payload,
                     PchatMessage_chain_index = ep_chain_index payload,
                     PchatMessage_epoch_fingerprint = Some (ep_epoch_fingerprint payload),
                     PchatMessage_replaces_id = None\<rparr>,
                p\<lparr>ps_key_manager := km\<rparr>)))"

end
