(* ===== verification/App_Roster.thy ===== *)
theory App_Roster
  imports App_Pchat
begin

text \<open>
  Users, channels and the server in the application backend
  (src/crates/mumble-tauri/src/state/handler: user_state.rs, user_remove.rs, channel_state.rs,
  channel_remove.rs, permission_query.rs, permission_denied.rs, server_config.rs, version.rs, reject.rs,
  codec_version.rs).
\<close>

section \<open>Users\<close>

record MuteDeafSnapshot =
  sn_mute :: bool
  sn_deaf :: bool
  sn_self_mute :: bool
  sn_self_deaf :: bool

definition snapshot_of :: "UserEntry \<Rightarrow> MuteDeafSnapshot" where
  "snapshot_of u = \<lparr>sn_mute = ue_mute u, sn_deaf = ue_deaf u, sn_self_mute = ue_self_mute u, sn_self_deaf = ue_self_deaf u\<rparr>"

definition snapshot_user :: "UserEntry \<Rightarrow> string \<times> MuteDeafSnapshot" where
  "snapshot_user u = (ue_name u, snapshot_of u)"

text \<open>A present field overwrites; an empty texture or comment clears it; a list of features replaces the
  old one unless it is empty.\<close>

definition apply_user_state_fields :: "UserState \<Rightarrow> UserEntry \<Rightarrow> UserEntry" where
  "apply_user_state_fields p u =
     u\<lparr>ue_name := unwrap_or (ue_name u) (UserState_name p),
       ue_texture := (case UserState_texture p of None \<Rightarrow> ue_texture u | Some t \<Rightarrow> if t = [] then None else Some t),
       ue_comment := (case UserState_comment p of None \<Rightarrow> ue_comment u | Some c \<Rightarrow> if c = [] then None else Some c),
       ue_mute := unwrap_or (ue_mute u) (UserState_mute p),
       ue_deaf := unwrap_or (ue_deaf u) (UserState_deaf p),
       ue_suppress := unwrap_or (ue_suppress u) (UserState_suppress p),
       ue_self_mute := unwrap_or (ue_self_mute u) (UserState_self_mute p),
       ue_self_deaf := unwrap_or (ue_self_deaf u) (UserState_self_deaf p),
       ue_priority_speaker := unwrap_or (ue_priority_speaker u) (UserState_priority_speaker p),
       ue_hash := (case UserState_hash p of None \<Rightarrow> ue_hash u | Some h \<Rightarrow> Some h),
       ue_client_features := (if UserState_client_features p = [] then ue_client_features u else UserState_client_features p),
       ue_user_id := (case UserState_user_id p of None \<Rightarrow> ue_user_id u | Some i \<Rightarrow> Some i)\<rparr>"

definition maybe_record_name :: "bool \<Rightarrow> string \<Rightarrow> string \<Rightarrow> app_effect list" where
  "maybe_record_name resolver h name = (if h = [] \<or> name = [] \<or> \<not> resolver then [] else [RecordName h name])"

text \<open>The first component says that it is our own move, the second is the channel of a remote one.\<close>

definition set_channel_outcome ::
    "u32 option \<Rightarrow> u32 \<Rightarrow> u32 \<Rightarrow> u32 \<Rightarrow> bool \<Rightarrow> u32 option \<Rightarrow> (bool \<times> u32 option) \<times> u32 option" where
  "set_channel_outcome own session ch prev_channel is_new_user current_channel =
     (if own = Some session then ((True, None), Some ch)
      else if is_new_user \<or> ch \<noteq> prev_channel then ((False, Some ch), current_channel)
      else ((False, None), current_channel))"

definition build_mute_deaf_log :: "u64 \<Rightarrow> string \<Rightarrow> MuteDeafSnapshot option \<Rightarrow> MuteDeafSnapshot \<Rightarrow> ServerLogEntry list" where
  "build_mute_deaf_log now name old new =
     (case old of
        None \<Rightarrow> []
      | Some old \<Rightarrow>
          if name = [] then []
          else
            (if sn_mute old \<noteq> sn_mute new
             then [ServerLogEntry_now now (name @ '' was '' @ (if sn_mute new then ''muted'' else ''unmuted'') @ '' by the server'')] else []) @
            (if sn_deaf old \<noteq> sn_deaf new
             then [ServerLogEntry_now now (name @ '' was '' @ (if sn_deaf new then ''deafened'' else ''undeafened'') @ '' by the server'')] else []) @
            (if sn_self_mute old \<noteq> sn_self_mute new
             then [ServerLogEntry_now now (name @ '' self-'' @ (if sn_self_mute new then ''muted'' else ''unmuted''))] else []) @
            (if sn_self_deaf old \<noteq> sn_self_deaf new
             then [ServerLogEntry_now now (name @ '' self-'' @ (if sn_self_deaf new then ''deafened'' else ''undeafened''))] else []))"

definition emit_activity_logs ::
    "u64 \<Rightarrow> bool \<Rightarrow> string \<Rightarrow> bool \<Rightarrow> string option \<Rightarrow> MuteDeafSnapshot option \<Rightarrow> MuteDeafSnapshot \<Rightarrow> app_effect list" where
  "emit_activity_logs now is_synced user_name is_new_user move_channel_name old new =
     (if \<not> is_synced \<or> user_name = [] then []
      else map (\<lambda>e. Emit (Ev_server_log e))
        ((if is_new_user then [ServerLogEntry_now now (user_name @ '' connected'')] else []) @
         (case move_channel_name of Some ch_name \<Rightarrow> [ServerLogEntry_now now (user_name @ '' moved to '' @ ch_name)] | None \<Rightarrow> []) @
         build_mute_deaf_log now user_name old new))"

definition handle_remote_channel_move ::
    "'br app_env \<Rightarrow> u32 \<Rightarrow> 'br SharedState \<Rightarrow> 'br SharedState \<times> app_effect list" where
  "handle_remote_channel_move env ch st =
     (case check_key_share_for_channel ch st of
        (st1, e1) \<Rightarrow>
          (case (if channel_protocol st1 ch = Some PP_SignalV1 then send_signal_distribution env ch st1 else (st1, [])) of
             (st2, e2) \<Rightarrow> (st2, e1 @ query_key_holders st1 ch @ e2)))"

definition is_encrypted_channel :: "'br SharedState \<Rightarrow> u32 \<Rightarrow> bool" where
  "is_encrypted_channel st ch = (case channel_protocol st ch of None \<Rightarrow> False | Some m \<Rightarrow> is_encrypted m)"

definition should_fetch_pchat_history :: "'br SharedState \<Rightarrow> u32 \<Rightarrow> bool" where
  "should_fetch_pchat_history st ch =
     (case get_pchat st of None \<Rightarrow> False | Some p \<Rightarrow> is_encrypted_channel st ch \<and> ch \<notin> ps_fetched_channels p)"

definition mark_channel_fetched :: "u32 \<Rightarrow> 'br SharedState \<Rightarrow> 'br SharedState" where
  "mark_channel_fetched ch st =
     (case get_pchat st of
        None \<Rightarrow> st
      | Some p \<Rightarrow> set_pchat (p\<lparr>ps_fetched_channels := insert ch (ps_fetched_channels p)\<rparr>) st)"

definition handle_own_channel_change :: "u32 \<Rightarrow> 'br SharedState \<Rightarrow> 'br SharedState \<times> app_effect list" where
  "handle_own_channel_change ch st =
     (let ev = Emit (Ev_current_channel_changed \<lparr>cu_channel_id = ch\<rparr>)
      in if should_fetch_pchat_history st ch then (mark_channel_fetched ch st, [ev, Spawn (PchatInitTask ch)])
         else (st, [ev]))"

definition request_blob :: "u32 list \<Rightarrow> u32 list \<Rightarrow> u32 list \<Rightarrow> app_effect" where
  "request_blob textures comments descriptions = Spawn (SendLater [Cmd_RequestBlob textures comments descriptions []])"

definition request_missing_blobs :: "UserState \<Rightarrow> u32 \<Rightarrow> app_effect list" where
  "request_missing_blobs p session =
     (let need_texture = (UserState_texture_hash p \<noteq> None \<and> UserState_texture p = None);
          need_comment = (UserState_comment_hash p \<noteq> None \<and> UserState_comment p = None)
      in if need_texture \<or> need_comment
         then [request_blob (if need_texture then [session] else []) (if need_comment then [session] else []) []]
         else [])"

text \<open>The section under the lock: the entry of the user and the channel we are in.\<close>

definition user_state_update :: "UserState \<Rightarrow> u32 \<Rightarrow> 'br SharedState \<Rightarrow> 'br SharedState" where
  "user_state_update p session st =
     (let prev = unwrap_or (UserEntry_new session) (hm_get (ss_users st) session);
          user = apply_user_state_fields p prev;
          user' = (case UserState_channel_id p of None \<Rightarrow> user | Some ch \<Rightarrow> user\<lparr>ue_channel_id := ch\<rparr>)
      in st\<lparr>ss_users := hm_insert session user' (ss_users st),
            ss_current_channel :=
              (case UserState_channel_id p of
                 None \<Rightarrow> ss_current_channel st
               | Some ch \<Rightarrow> snd (set_channel_outcome (cf_own_session (ss_conn st)) session ch (ue_channel_id prev)
                             (hm_get (ss_users st) session = None) (ss_current_channel st)))\<rparr>)"

definition UserState_handle :: "'br app_env \<Rightarrow> UserState \<Rightarrow> 'br SharedState \<Rightarrow> 'br SharedState \<times> app_effect list" where
  "UserState_handle env p st =
     (case UserState_session p of
        None \<Rightarrow> (st, [])
      | Some session \<Rightarrow>
          let is_new_user = (hm_get (ss_users st) session = None);
              prev = unwrap_or (UserEntry_new session) (hm_get (ss_users st) session);
              user = apply_user_state_fields p prev;
              record = (case ue_hash user of
                          Some h \<Rightarrow> maybe_record_name (pc_hash_name_resolver (ss_pchat_ctx st)) h (ue_name user)
                        | None \<Rightarrow> []);
              (own_ch, remote_ch) =
                (case UserState_channel_id p of
                   None \<Rightarrow> (False, None)
                 | Some ch \<Rightarrow> fst (set_channel_outcome (cf_own_session (ss_conn st)) session ch (ue_channel_id prev)
                               is_new_user (ss_current_channel st)));
              move_name =
                (if is_new_user then None
                 else case UserState_channel_id p of
                        None \<Rightarrow> None
                      | Some ch \<Rightarrow> map_option ce_name (hm_get (ss_channels st) ch));
              st1 = user_state_update p session st;
              is_synced = cf_synced (ss_conn st);
              logs = emit_activity_logs (env_now_ms env) is_synced (ue_name user) is_new_user move_name
                       (map_option snapshot_of (hm_get (ss_users st) session)) (snapshot_of user);
              (st2, moved) = (case remote_ch of
                                Some ch \<Rightarrow> if is_synced then handle_remote_channel_move env ch st1 else (st1, [])
                              | None \<Rightarrow> (st1, []));
              (st3, own) = (case UserState_channel_id p of
                              Some ch \<Rightarrow> if own_ch then handle_own_channel_change ch st2 else (st2, [])
                            | None \<Rightarrow> (st2, []));
              blobs = (if is_synced then request_missing_blobs p session @ [Emit Ev_state_changed] else [])
          in (st3, record @ logs @ moved @ own @ blobs))"

section \<open>Departures\<close>

text \<open>\<^verbatim>\<open>stop_audio_pipelines\<close>.\<close>

definition stop_audio_pipelines :: "AudioPipelineState \<Rightarrow> AudioPipelineState" where
  "stop_audio_pipelines a = a\<lparr>au_outbound_task_handle := False, au_mixing_playback := False, au_mixer := False\<rparr>"

definition kicked_state :: "'br SharedState \<Rightarrow> 'br SharedState" where
  "kicked_state st =
     st\<lparr>ss_conn := (ss_conn st)\<lparr>cf_status := Disconnected, cf_client_handle := None, cf_event_loop_handle := False,
           cf_user_initiated_disconnect := True, cf_own_session := None, cf_synced := False\<rparr>,
        ss_users := [], ss_channels := [],
        ss_msgs := (ss_msgs st)\<lparr>by_channel := [], channel_unread := []\<rparr>,
        ss_permanently_listened := {}, ss_selected_channel := None, ss_current_channel := None,
        ss_server := (ss_server st)\<lparr>md_config := default_AppServerConfig, md_fancy_version := None,
           md_version_info := default_ServerVersionInfo, md_max_users := None, md_max_bandwidth := None, md_opus := False\<rparr>,
        ss_audio := stop_audio_pipelines ((ss_audio st)\<lparr>au_voice_state := Inactive\<rparr>)\<rparr>"

text \<open>The channels whose list of pending requests changed; the order of the events is that of a hash set.\<close>

definition collect_affected_channels ::
    "'br SharedState \<Rightarrow> nat \<Rightarrow> u32 list \<Rightarrow> (u32 \<times> PendingKeyShare list) list" where
  "collect_affected_channels st before_len removed =
     (if length (pending_shares st) = before_len then []
      else map (\<lambda>ch_id. (ch_id, filter (\<lambda>p. ks_channel_id p = ch_id) (pending_shares st))) (remdups removed))"

definition depart :: "u32 \<Rightarrow> 'br SharedState \<Rightarrow> 'br SharedState" where
  "depart session st =
     (let cert_hash = (case hm_get (ss_users st) session of None \<Rightarrow> None | Some u \<Rightarrow> ue_hash u);
          st1 = st\<lparr>ss_users := hm_remove session (ss_users st)\<rparr>
      in case cert_hash of
           None \<Rightarrow> st1
         | Some h \<Rightarrow> set_pending_shares (filter (\<lambda>p. ks_peer_cert_hash p \<noteq> h) (pending_shares st1)) st1)"

definition UserRemove_handle :: "'br app_env \<Rightarrow> UserRemove \<Rightarrow> 'br SharedState \<Rightarrow> 'br SharedState \<times> app_effect list" where
  "UserRemove_handle env m st =
     (if cf_own_session (ss_conn st) = Some (UserRemove_session m)
      then
        let reason = unwrap_or ''Disconnected by server'' (UserRemove_reason m)
        in (kicked_state st,
            (if au_outbound_task_handle (ss_audio st) then [AbortTask ''outbound audio''] else []) @
            [Emit (Ev_connection_rejected \<lparr>rp_reason = reason, rp_reject_type = None\<rparr>),
             Emit (Ev_server_disconnected \<lparr>dp_server_id = None, dp_reason = Some reason\<rparr>)])
      else
        let user = hm_get (ss_users st) (UserRemove_session m);
            st' = depart (UserRemove_session m) st;
            affected =
              (case (case user of None \<Rightarrow> None | Some u \<Rightarrow> ue_hash u) of
                 None \<Rightarrow> []
               | Some h \<Rightarrow> collect_affected_channels st' (length (pending_shares st))
                            (map ks_channel_id (filter (\<lambda>p. ks_peer_cert_hash p = h) (pending_shares st))))
        in (st',
            map (\<lambda>(ch_id, remaining). Emit (Ev_pchat_key_share_requests_changed
                   \<lparr>kc_channel_id = ch_id, kc_pending = remaining\<rparr>)) affected @
            [Emit Ev_state_changed] @
            (case user of
               None \<Rightarrow> []
             | Some u \<Rightarrow> if ue_name u = [] then []
                         else [Emit (Ev_server_log (ServerLogEntry_now (env_now_ms env) (ue_name u @ '' disconnected'')))])))"

section \<open>Channels\<close>

definition ChannelEntry_new :: "u32 \<Rightarrow> ChannelEntry" where
  "ChannelEntry_new i =
     \<lparr>ce_id = i, ce_parent_id = None, ce_name = [], ce_description = [], ce_description_hash = None, ce_user_count = 0,
      ce_permissions = None, ce_temporary = False, ce_position = 0, ce_max_users = 0, ce_pchat_protocol = None,
      ce_pchat_max_history = None, ce_pchat_retention_days = None, ce_pchat_key_custodians = []\<rparr>"

text \<open>The custodians are replaced whenever they differ, also by the empty list of a message about something
  else. The flag says whether the protocol of the channel changed.\<close>

definition apply_channel_state_fields :: "ChannelState \<Rightarrow> ChannelEntry \<Rightarrow> bool \<times> ChannelEntry" where
  "apply_channel_state_fields p ch =
     (case ChannelState_pchat_protocol p of
        None \<Rightarrow> False
      | Some mode \<Rightarrow> ce_pchat_protocol ch \<noteq> Some (PchatProtocol_from_proto mode),
      ch\<lparr>ce_parent_id := (case ChannelState_parent p of None \<Rightarrow> ce_parent_id ch | Some x \<Rightarrow> Some x),
         ce_name := unwrap_or (ce_name ch) (ChannelState_name p),
         ce_description := unwrap_or (ce_description ch) (ChannelState_description p),
         ce_description_hash := (case ChannelState_description_hash p of None \<Rightarrow> ce_description_hash ch | Some h \<Rightarrow> Some h),
         ce_temporary := unwrap_or (ce_temporary ch) (ChannelState_temporary p),
         ce_position := unwrap_or (ce_position ch) (ChannelState_position p),
         ce_max_users := unwrap_or (ce_max_users ch) (ChannelState_max_users p),
         ce_pchat_protocol :=
           (case ChannelState_pchat_protocol p of None \<Rightarrow> ce_pchat_protocol ch | Some mode \<Rightarrow> Some (PchatProtocol_from_proto mode)),
         ce_pchat_max_history := (case ChannelState_pchat_max_history p of None \<Rightarrow> ce_pchat_max_history ch | Some x \<Rightarrow> Some x),
         ce_pchat_retention_days :=
           (case ChannelState_pchat_retention_days p of None \<Rightarrow> ce_pchat_retention_days ch | Some x \<Rightarrow> Some x),
         ce_pchat_key_custodians :=
           (if ChannelState_pchat_key_custodians p \<noteq> [] \<or> ce_pchat_key_custodians ch \<noteq> ChannelState_pchat_key_custodians p
            then ChannelState_pchat_key_custodians p else ce_pchat_key_custodians ch)\<rparr>)"

text \<open>The pin of the custodians: the changed flag, and the pin the user interface is told about.\<close>

definition update_pin :: "u32 \<Rightarrow> string list \<Rightarrow> 'br SharedState \<Rightarrow> CustodianPinState option \<times> 'br SharedState" where
  "update_pin i custodians st =
     (case get_pchat st of
        None \<Rightarrow> (None, st)
      | Some p \<Rightarrow>
          (case update_custodian_pin i custodians (ps_key_manager p) of
             (changed, km) \<Rightarrow>
               (if changed then get_custodian_pin km i else None, set_pchat (p\<lparr>ps_key_manager := km\<rparr>) st)))"

definition ChannelState_handle :: "ChannelState \<Rightarrow> 'br SharedState \<Rightarrow> 'br SharedState \<times> app_effect list" where
  "ChannelState_handle p st =
     (case ChannelState_channel_id p of
        None \<Rightarrow> (st, [])
      | Some i \<Rightarrow>
          let (mode_changed, ch) = apply_channel_state_fields p (unwrap_or (ChannelEntry_new i) (hm_get (ss_channels st) i));
              st1 = st\<lparr>ss_channels := hm_insert i ch (ss_channels st)\<rparr>;
              is_synced = cf_synced (ss_conn st);
              needs_desc = (ce_description ch = [] \<and> ce_description_hash ch \<noteq> None \<and> is_synced);
              (pin, st2) = update_pin i (ce_pchat_key_custodians ch) st1
          in (st2,
              (case pin of Some c \<Rightarrow> app_emit st2 (Ev_custodian_pin_changed i c) | None \<Rightarrow> []) @
              (if mode_changed \<and> ss_current_channel st = Some i then [Spawn (PchatKeyGenAndFetch i)] else []) @
              (if needs_desc then [request_blob [] [] [i]] else []) @
              (if is_synced then [Spawn (SendLater [Cmd_PermissionQuery i]), Emit Ev_state_changed] else [])))"

definition ChannelRemove_handle :: "'br app_env \<Rightarrow> ChannelRemove \<Rightarrow> 'br SharedState \<Rightarrow> 'br SharedState \<times> app_effect list" where
  "ChannelRemove_handle env m st =
     (let i = ChannelRemove_channel_id m;
          st1 = st\<lparr>ss_channels := hm_remove i (ss_channels st),
                   ss_msgs := (ss_msgs st)\<lparr>by_channel := hm_remove i (by_channel (ss_msgs st))\<rparr>\<rparr>;
          (st2, del) =
            (case get_pchat st1 of
               None \<Rightarrow> (st1, [])
             | Some p \<Rightarrow>
                 (set_pchat (p\<lparr>ps_key_manager := KeyManager_remove_channel (env_signal env) i (ps_key_manager p),
                               ps_fetched_channels := ps_fetched_channels p - {i}\<rparr>) st1,
                  case ps_identity_dir p of Some dir \<Rightarrow> [DeletePersistedArchiveKey dir i] | None \<Rightarrow> []));
          ctx = ss_pchat_ctx st2;
          st3 = st2\<lparr>ss_pchat_ctx := ctx\<lparr>pc_key_holders := hm_remove i (pc_key_holders ctx),
                     pc_pending_key_shares := filter (\<lambda>p. ks_channel_id p \<noteq> i) (pc_pending_key_shares ctx)\<rparr>\<rparr>
      in (st3, del @ [Emit Ev_state_changed]))"

section \<open>Permissions\<close>

definition PERM_SUBSCRIBE_PUSH :: u32 where
  "PERM_SUBSCRIBE_PUSH = 0x2000"

definition PermissionQuery_handle :: "PermissionQuery \<Rightarrow> 'br SharedState \<Rightarrow> 'br SharedState \<times> app_effect list" where
  "PermissionQuery_handle m st =
     (let st1 = (if unwrap_or False (PermissionQuery_flush m)
                 then st\<lparr>ss_channels := hm_values_mut (\<lambda>ch. ch\<lparr>ce_permissions := None\<rparr>) (ss_channels st),
                         ss_push_subscribed_channels := {}\<rparr>
                 else st)
      in case (PermissionQuery_channel_id m, PermissionQuery_permissions m) of
           (Some i, Some perms) \<Rightarrow>
             (st1\<lparr>ss_channels := hm_get_mut i (\<lambda>ch. ch\<lparr>ce_permissions := Some perms\<rparr>) (ss_channels st1),
                  ss_push_subscribed_channels :=
                    (if perms AND PERM_SUBSCRIBE_PUSH \<noteq> 0 then insert i (ss_push_subscribed_channels st1)
                     else ss_push_subscribed_channels st1 - {i})\<rparr>, [Emit Ev_state_changed])
         | _ \<Rightarrow> (st1, []))"

definition PermissionDenied_handle :: "PermissionDenied \<Rightarrow> 'br SharedState \<Rightarrow> 'br SharedState \<times> app_effect list" where
  "PermissionDenied_handle m st =
     (let (st', denied) =
            (case PermissionDenied_channel_id m of
               None \<Rightarrow> (st, [])
             | Some i \<Rightarrow> (st\<lparr>ss_permanently_listened := ss_permanently_listened st - {i}\<rparr>,
                          [Emit (Ev_listen_denied \<lparr>ld_channel_id = i\<rparr>)]))
      in (st', denied @ [Emit (Ev_permission_denied
            \<lparr>pd_deny_type = PermissionDenied_type m, pd_reason = PermissionDenied_reason m\<rparr>)]))"

section \<open>The server\<close>

text \<open>\<^verbatim>\<open>str::trim\<close> removes the Unicode white space at both ends; the list has their UTF-8 encodings.\<close>

definition WHITE_SPACE :: "string list" where
  "WHITE_SPACE =
     [[CHR 0x09], [CHR 0x0A], [CHR 0x0B], [CHR 0x0C], [CHR 0x0D], [CHR 0x20], [CHR 0xC2, CHR 0x85], [CHR 0xC2, CHR 0xA0],
      [CHR 0xE1, CHR 0x9A, CHR 0x80]] @
     map (\<lambda>n. [CHR 0xE2, CHR 0x80, char_of (n :: nat)]) ([128..<139] @ [168, 169, 175]) @
     [[CHR 0xE2, CHR 0x81, CHR 0x9F], [CHR 0xE3, CHR 0x80, CHR 0x80]]"

fun trim_front :: "string list \<Rightarrow> string \<Rightarrow> string" where
  "trim_front ws [] = []"
| "trim_front ws (c # cs) =
     (case find (\<lambda>w. w \<noteq> [] \<and> take (length w) (c # cs) = w) ws of
        None \<Rightarrow> c # cs
      | Some w \<Rightarrow> trim_front ws (drop (length w - 1) cs))"

definition str_trim :: "string \<Rightarrow> string" where
  "str_trim s = rev (trim_front (map rev WHITE_SPACE) (rev (trim_front WHITE_SPACE s)))"

definition ServerConfig_handle :: "ServerConfig \<Rightarrow> 'br SharedState \<Rightarrow> 'br SharedState \<times> app_effect list" where
  "ServerConfig_handle m st =
     (let s = ss_server st; c = md_config s;
          c = c\<lparr>sc_max_message_length := unwrap_or (sc_max_message_length c) (ServerConfig_message_length m),
                sc_max_image_message_length :=
                  (case ServerConfig_image_message_length m of
                     None \<Rightarrow> sc_max_image_message_length c
                   | Some len \<Rightarrow> if len > 0 then len else sc_max_image_message_length c),
                sc_allow_html := unwrap_or (sc_allow_html c) (ServerConfig_allow_html m),
                sc_webrtc_sfu_available := unwrap_or (sc_webrtc_sfu_available c) (ServerConfig_webrtc_sfu_available m),
                sc_fancy_rest_api_url := non_empty (map_option str_trim (ServerConfig_fancy_rest_api_url m))\<rparr>
      in (st\<lparr>ss_server := s\<lparr>md_config := c,
             md_max_users := (case ServerConfig_max_users m of None \<Rightarrow> md_max_users s | Some n \<Rightarrow> Some n)\<rparr>\<rparr>,
          [Emit Ev_server_config]))"

definition Version_handle :: "Version \<Rightarrow> 'br SharedState \<Rightarrow> 'br SharedState" where
  "Version_handle m st =
     st\<lparr>ss_server := (ss_server st)\<lparr>md_fancy_version := Version_fancy_version m,
        md_version_info := \<lparr>vi_release = Version_release m, vi_os = Version_os m, vi_os_version = Version_os_version m,
          vi_version_v1 = Version_version_v1 m, vi_version_v2 = Version_version_v2 m,
          vi_fancy_version = Version_fancy_version m\<rparr>\<rparr>\<rparr>"

definition Reject_handle :: "Reject \<Rightarrow> 'br SharedState \<Rightarrow> 'br SharedState \<times> app_effect list" where
  "Reject_handle m st =
     (st\<lparr>ss_conn := (ss_conn st)\<lparr>cf_status := Disconnected, cf_client_handle := None, cf_event_loop_handle := False\<rparr>\<rparr>,
      [Emit (Ev_connection_rejected \<lparr>rp_reason = unwrap_or ''Connection rejected by server'' (Reject_reason m),
         rp_reject_type = Reject_type m\<rparr>)])"

definition CodecVersion_handle :: "CodecVersion \<Rightarrow> 'br SharedState \<Rightarrow> 'br SharedState" where
  "CodecVersion_handle m st =
     st\<lparr>ss_server := (ss_server st)\<lparr>md_opus := unwrap_or False (CodecVersion_opus m)\<rparr>\<rparr>"

end
