(* ===== verification/App_Persist.thy ===== *)
theory App_Persist
  imports App_State
begin

text \<open>
  The archive keys kept on disk (src/crates/mumble-tauri/src/state/pchat/persistence.rs): a JSON file of the
  identity maps the number of a channel to its key in hexadecimal and to the hash of its originator.
  JSON and the file system are parameters. Loading slices the key at byte positions, so that a file with a
  multi-byte character in a key panics; \<open>None\<close> is that panic.
\<close>

section \<open>The file\<close>

record PersistedArchiveKey =
  pa_key_hex :: string
  pa_originator :: "string option"

type_synonym key_file = "(string, PersistedArchiveKey) hash_map"

record key_json =
  keys_to_json :: "key_file \<Rightarrow> string + bytes"
  keys_from_json :: "bytes \<Rightarrow> string + key_file"

definition ARCHIVE_KEYS_FILE :: string where
  "ARCHIVE_KEYS_FILE = ''archive_keys.json''"

definition channel_key_name :: "u32 \<Rightarrow> string" where
  "channel_key_name ch = show_nat (unat ch)"

definition read_key_file :: "key_json \<Rightarrow> 'fs file_ops \<Rightarrow> string \<Rightarrow> 'fs \<Rightarrow> key_file" where
  "read_key_file js fo dir fs =
     (case fs_read fo fs (fs_join fo dir ARCHIVE_KEYS_FILE) of
        Inl e \<Rightarrow> []
      | Inr b \<Rightarrow> (case keys_from_json js b of Inl e \<Rightarrow> [] | Inr keys \<Rightarrow> keys))"

definition write_key_file :: "key_json \<Rightarrow> 'fs file_ops \<Rightarrow> string \<Rightarrow> key_file \<Rightarrow> 'fs \<Rightarrow> 'fs" where
  "write_key_file js fo dir keys fs =
     (case keys_to_json js keys of
        Inl e \<Rightarrow> fs
      | Inr json \<Rightarrow> snd (fs_write fo (fs_join fo dir ARCHIVE_KEYS_FILE) json fs))"

definition persist_archive_key ::
    "key_json \<Rightarrow> 'fs file_ops \<Rightarrow> string \<Rightarrow> u32 \<Rightarrow> bytes \<Rightarrow> string option \<Rightarrow> 'fs \<Rightarrow> 'fs" where
  "persist_archive_key js fo dir channel_id key originator fs =
     write_key_file js fo dir
       (hm_insert (channel_key_name channel_id) \<lparr>pa_key_hex = bytes_to_hex key, pa_originator = originator\<rparr>
          (read_key_file js fo dir fs)) fs"

definition delete_persisted_archive_key :: "key_json \<Rightarrow> 'fs file_ops \<Rightarrow> string \<Rightarrow> u32 \<Rightarrow> 'fs \<Rightarrow> 'fs" where
  "delete_persisted_archive_key js fo dir channel_id fs =
     (let keys = read_key_file js fo dir fs
      in if hm_get keys (channel_key_name channel_id) = None then fs
         else write_key_file js fo dir (hm_remove (channel_key_name channel_id) keys) fs)"

text \<open>One entry: the outer \<open>None\<close> is the panic, the inner one an entry that is skipped.\<close>

definition load_key_entry :: "string \<times> PersistedArchiveKey \<Rightarrow> (u32 \<times> bytes \<times> string option) option option" where
  "load_key_entry = (\<lambda>(ch_str, entry).
     case from_str_radix 10 (2 ^ 32) ch_str of
       None \<Rightarrow> Some None
     | Some ch \<Rightarrow>
         (case hex_decode (pa_key_hex entry) of
            None \<Rightarrow> None
          | Some None \<Rightarrow> Some None
          | Some (Some key) \<Rightarrow>
              Some (if length key \<noteq> 32 then None else Some (of_nat ch, key, pa_originator entry))))"

definition load_persisted_archive_keys ::
    "key_json \<Rightarrow> 'fs file_ops \<Rightarrow> string \<Rightarrow> 'fs \<Rightarrow> (u32 \<times> bytes \<times> string option) list option" where
  "load_persisted_archive_keys js fo dir fs =
     (let entries = map load_key_entry (read_key_file js fo dir fs)
      in if None \<in> set entries then None else Some (List.map_filter (\<lambda>e. e) (List.map_filter (\<lambda>e. e) entries)))"

section \<open>What is loaded is what was persisted last\<close>

datatype key_op = Persist u32 bytes "string option" | Forget u32

fun key_op_run :: "key_json \<Rightarrow> 'fs file_ops \<Rightarrow> string \<Rightarrow> key_op \<Rightarrow> 'fs \<Rightarrow> 'fs" where
  "key_op_run js fo dir (Persist ch key orig) fs = persist_archive_key js fo dir ch key orig fs"
| "key_op_run js fo dir (Forget ch) fs = delete_persisted_archive_key js fo dir ch fs"

fun key_op_spec :: "key_op \<Rightarrow> (u32 \<rightharpoonup> bytes \<times> string option) \<Rightarrow> (u32 \<rightharpoonup> bytes \<times> string option)" where
  "key_op_spec (Persist ch key orig) m = m(ch \<mapsto> (key, orig))"
| "key_op_spec (Forget ch) m = m(ch := None)"

definition key_json_ok :: "key_json \<Rightarrow> bool" where
  "key_json_ok js \<longleftrightarrow>
     (\<forall>m. hm_wf m \<longrightarrow> (\<exists>j m'. keys_to_json js m = Inr j \<and> keys_from_json js j = Inr m' \<and> hm_wf m' \<and> hm_get m' = hm_get m))"

definition stored_key :: "bytes \<times> string option \<Rightarrow> PersistedArchiveKey" where
  "stored_key = (\<lambda>(key, orig). \<lparr>pa_key_hex = bytes_to_hex key, pa_originator = orig\<rparr>)"

definition key_file_holds :: "(u32 \<rightharpoonup> bytes \<times> string option) \<Rightarrow> key_file \<Rightarrow> bool" where
  "key_file_holds m keys \<longleftrightarrow>
     hm_wf keys \<and> (\<forall>v \<in> ran m. length (fst v) = 32) \<and>
     (\<forall>ch. hm_get keys (channel_key_name ch) = map_option stored_key (m ch)) \<and>
     (\<forall>s. s \<notin> range channel_key_name \<longrightarrow> hm_get keys s = None)"

lemma from_str_channel_key_name: "from_str_radix 10 (2 ^ 32) (channel_key_name ch) = Some (unat ch)"
proof -
  have "unat ch < 2 ^ 32" using unsigned_less [of ch, where 'a = nat] by simp
  then show ?thesis unfolding channel_key_name_def by (rule from_str_radix_show_nat)
qed

lemma channel_key_name_eq [simp]: "channel_key_name a = channel_key_name b \<longleftrightarrow> a = b"
  using from_str_channel_key_name [of a] from_str_channel_key_name [of b] by (metis option.inject word_unat_eq_iff)

lemma key_file_holds_update:
  assumes "key_file_holds m keys"
  shows "length key = 32 \<Longrightarrow>
      key_file_holds (m(ch \<mapsto> (key, orig))) (hm_insert (channel_key_name ch) (stored_key (key, orig)) keys)"
    and "key_file_holds (m(ch := None)) (hm_remove (channel_key_name ch) keys)"
  using assms by (auto simp: key_file_holds_def ran_def)

lemma key_file_holds_cong: "key_file_holds m keys \<Longrightarrow> hm_wf keys' \<Longrightarrow> hm_get keys' = hm_get keys \<Longrightarrow> key_file_holds m keys'"
  by (simp add: key_file_holds_def)

lemma read_written:
  assumes "key_json_ok js" "file_ops_ok fo" "\<forall>p b fs. fst (fs_write fo p b fs) = Inr ()" "hm_wf keys"
  shows "hm_wf (read_key_file js fo dir (write_key_file js fo dir keys fs)) \<and>
    hm_get (read_key_file js fo dir (write_key_file js fo dir keys fs)) = hm_get keys"
proof -
  from assms(1,4) obtain j m' where j: "keys_to_json js keys = Inr j" "keys_from_json js j = Inr m'" "hm_wf m'"
    "hm_get m' = hm_get keys"
    unfolding key_json_ok_def by blast
  obtain fs' where "fs_write fo (fs_join fo dir ARCHIVE_KEYS_FILE) j fs = (Inr (), fs')"
    using assms(3) by (metis prod.collapse)
  with assms(2) have "fs_read fo fs' (fs_join fo dir ARCHIVE_KEYS_FILE) = Inr j"
    and "write_key_file js fo dir keys fs = fs'"
    using j(1) by (auto simp: file_ops_ok_def write_key_file_def)
  with j show ?thesis by (simp add: read_key_file_def)
qed

lemma key_op_run_holds:
  assumes "key_json_ok js" "file_ops_ok fo" "\<forall>p b fs. fst (fs_write fo p b fs) = Inr ()"
    and holds: "key_file_holds m (read_key_file js fo dir fs)"
    and "\<forall>ch key orig. op = Persist ch key orig \<longrightarrow> length key = 32"
  shows "key_file_holds (key_op_spec op m) (read_key_file js fo dir (key_op_run js fo dir op fs))"
proof (cases op)
  case (Persist ch key orig)
  let ?keys = "hm_insert (channel_key_name ch) (stored_key (key, orig)) (read_key_file js fo dir fs)"
  from Persist assms(5) holds have new: "key_file_holds (m(ch \<mapsto> (key, orig))) ?keys"
    by (auto intro: key_file_holds_update(1))
  then have "hm_wf ?keys" by (simp add: key_file_holds_def)
  from key_file_holds_cong [OF new] read_written [OF assms(1-3) this] Persist show ?thesis
    by (simp add: persist_archive_key_def stored_key_def)
next
  case (Forget ch)
  let ?keys = "hm_remove (channel_key_name ch) (read_key_file js fo dir fs)"
  show ?thesis
  proof (cases "hm_get (read_key_file js fo dir fs) (channel_key_name ch)")
    case None
    with holds have "m(ch := None) = m" by (auto simp: key_file_holds_def)
    with None Forget holds show ?thesis by (simp add: delete_persisted_archive_key_def)
  next
    case (Some e)
    have new: "key_file_holds (m(ch := None)) ?keys" by (rule key_file_holds_update(2) [OF holds])
    then have "hm_wf ?keys" by (simp add: key_file_holds_def)
    from key_file_holds_cong [OF new] read_written [OF assms(1-3) this] Some Forget show ?thesis
      by (simp add: delete_persisted_archive_key_def Let_def)
  qed
qed

lemma hex_decode_hex: "hex_decode (bytes_to_hex bs) = Some (Some bs)"
  by (simp add: hex_decode_def hex_decode_pairs_hex length_bytes_to_hex)

lemma load_holds:
  assumes "key_file_holds m (read_key_file js fo dir fs)"
  obtains ks where "load_persisted_archive_keys js fo dir fs = Some ks" "distinct (map fst ks)" "map_of ks = m"
proof -
  let ?keys = "read_key_file js fo dir fs"
  have wf: "distinct (map fst ?keys)" using assms by (simp add: key_file_holds_def hm_wf_def)
  have entry: "\<exists>ch v. s = channel_key_name ch \<and> m ch = Some v \<and> e = stored_key v \<and> load_key_entry (s, e) = Some (Some (ch, v))"
    if "(s, e) \<in> set ?keys" for s e
  proof -
    from that wf have get: "hm_get ?keys s = Some e" by simp
    with assms obtain ch where ch: "s = channel_key_name ch" by (fastforce simp: key_file_holds_def)
    with get assms obtain v where v: "m ch = Some v" "e = stored_key v" by (auto simp: key_file_holds_def)
    obtain key orig where kv: "v = (key, orig)" by (cases v)
    have "length key = 32" using assms v(1) kv by (auto simp: key_file_holds_def ran_def)
    then have "load_key_entry (s, e) = Some (Some (ch, v))"
      using ch v(2) kv from_str_channel_key_name [of ch]
      by (simp add: load_key_entry_def stored_key_def hex_decode_hex)
    with ch v show ?thesis by blast
  qed
  define val where "val = (\<lambda>x. the (the (load_key_entry x)))"
  have vals: "map load_key_entry ?keys = map (\<lambda>x. Some (Some (val x))) ?keys"
  proof (rule map_cong [OF refl])
    fix x assume "x \<in> set ?keys"
    with entry [of "fst x" "snd x"] show "load_key_entry x = Some (Some (val x))" by (auto simp: val_def)
  qed
  have strip: "List.map_filter (\<lambda>e. e) (map (\<lambda>x. Some (f x)) xs) = map f xs" for f :: "'x \<Rightarrow> 'y" and xs
    by (induction xs) (simp_all add: List.map_filter_simps)
  have load: "load_persisted_archive_keys js fo dir fs = Some (map val ?keys)"
    by (auto simp: load_persisted_archive_keys_def vals strip)
  have names: "fst x = channel_key_name (fst (val x)) \<and> m (fst (val x)) = Some (snd (val x))" if "x \<in> set ?keys" for x
    using entry [of "fst x" "snd x"] that by (auto simp: val_def)
  then have "map fst ?keys = map channel_key_name (map fst (map val ?keys))" by simp
  with wf have dist: "distinct (map fst (map val ?keys))" by (metis distinct_map)
  have "map_of (map val ?keys) ch = m ch" for ch
  proof (cases "m ch")
    case None
    then have "fst (val x) \<noteq> ch" if "x \<in> set ?keys" for x using names [OF that] by force
    then have "ch \<notin> (\<lambda>x. fst (val x)) ` set ?keys" by auto
    then have "ch \<notin> fst ` set (map val ?keys)" unfolding set_map image_image .
    with None show ?thesis by (simp add: map_of_eq_None_iff)
  next
    case (Some v)
    with assms have "hm_get ?keys (channel_key_name ch) = Some (stored_key v)" by (simp add: key_file_holds_def)
    then have "(channel_key_name ch, stored_key v) \<in> set ?keys" by (rule map_of_SomeD)
    then have "val (channel_key_name ch, stored_key v) \<in> set (map val ?keys)"
      and "fst (val (channel_key_name ch, stored_key v)) = ch"
      using names by (auto, metis channel_key_name_eq fst_conv)
    moreover have "snd (val (channel_key_name ch, stored_key v)) = v"
      using names [OF \<open>(channel_key_name ch, stored_key v) \<in> set ?keys\<close>] calculation(2) Some by simp
    ultimately show ?thesis using dist Some by (metis map_of_eq_Some_iff prod.collapse)
  qed
  with load dist that show thesis by blast
qed

lemma key_ops_hold:
  assumes "key_json_ok js" "file_ops_ok fo" "\<forall>p b fs. fst (fs_write fo p b fs) = Inr ()"
    and "key_file_holds m (read_key_file js fo dir fs)"
    and "\<forall>ch key orig. Persist ch key orig \<in> set ops \<longrightarrow> length key = 32"
  shows "key_file_holds (fold key_op_spec ops m) (read_key_file js fo dir (fold (key_op_run js fo dir) ops fs))"
  using assms(4,5)
proof (induction ops arbitrary: m fs)
  case (Cons op ops)
  have "key_file_holds (key_op_spec op m) (read_key_file js fo dir (key_op_run js fo dir op fs))"
    by (rule key_op_run_holds [OF assms(1-3) Cons.prems(1)]) (use Cons.prems(2) in auto)
  moreover have "\<forall>ch key orig. Persist ch key orig \<in> set ops \<longrightarrow> length key = 32" using Cons.prems(2) by auto
  ultimately show ?case using Cons.IH by simp
qed simp

text \<open>C24: The loaded list is the map of what was persisted and not deleted since, whatever the order of the
  operations.\<close>

theorem archive_keys_last_write:
  assumes "key_json_ok js" and "file_ops_ok fo" and "\<forall>p b fs. fst (fs_write fo p b fs) = Inr ()"
    and "\<forall>ch key orig. Persist ch key orig \<in> set ops \<longrightarrow> length key = 32"
    and "\<forall>b. fs_read fo fs (fs_join fo dir ARCHIVE_KEYS_FILE) \<noteq> Inr b"
  shows "\<exists>ks. load_persisted_archive_keys js fo dir (fold (key_op_run js fo dir) ops fs) = Some ks \<and>
    distinct (map fst ks) \<and> map_of ks = fold key_op_spec ops Map.empty"
proof -
  have "read_key_file js fo dir fs = []"
    using assms(5) by (auto simp: read_key_file_def split: sum.splits)
  then have "key_file_holds Map.empty (read_key_file js fo dir fs)" by (simp add: key_file_holds_def)
  from load_holds [OF key_ops_hold [OF assms(1-3) this assms(4)]] show ?thesis by metis
qed

section \<open>An instance\<close>

text \<open>A disk that never fails, and a text form of the files: each string is its characters, marked, and an
  end mark.\<close>

definition demo_disk :: "(string \<rightharpoonup> bytes) file_ops" where
  "demo_disk = \<lparr>fs_exists = (\<lambda>d p. d p \<noteq> None), fs_read = (\<lambda>d p. case d p of None \<Rightarrow> Inl ''not found'' | Some b \<Rightarrow> Inr b),
     fs_write = (\<lambda>p b d. (Inr (), d(p \<mapsto> b))), fs_join = (\<lambda>d a. d @ ''/'' @ a)\<rparr>"

fun enc_str :: "string \<Rightarrow> bytes" where
  "enc_str [] = [0]"
| "enc_str (c # cs) = 1 # of_char c # enc_str cs"

fun dec_str :: "bytes \<Rightarrow> string \<times> bytes" where
  "dec_str (b # c # bs) = (if b = 0 then ([], c # bs) else map_prod ((#) (char_of (unat c))) id (dec_str bs))"
| "dec_str [b] = ([], [])"
| "dec_str [] = ([], [])"

fun enc_keys :: "key_file \<Rightarrow> bytes" where
  "enc_keys [] = [0]"
| "enc_keys ((s, e) # m) = 1 # enc_str s @ enc_str (pa_key_hex e) @
     (case pa_originator e of None \<Rightarrow> [0] | Some h \<Rightarrow> 1 # enc_str h) @ enc_keys m"

fun dec_keys :: "nat \<Rightarrow> bytes \<Rightarrow> key_file" where
  "dec_keys (Suc n) (b # bs) =
     (if b = 0 then []
      else let (s, bs) = dec_str bs; (k, bs) = dec_str bs;
               (h, bs) = (if hd bs = 0 then (None, tl bs) else map_prod Some id (dec_str (tl bs)))
           in (s, \<lparr>pa_key_hex = k, pa_originator = h\<rparr>) # dec_keys n bs)"
| "dec_keys _ _ = []"

definition demo_key_json :: key_json where
  "demo_key_json = \<lparr>keys_to_json = (\<lambda>m. Inr (enc_keys m)), keys_from_json = (\<lambda>b. Inr (dec_keys (length b) b))\<rparr>"

lemma char_of_of_char: "char_of (unat (of_char c :: u8)) = c"
proof -
  have "(of_char c :: u8) = of_nat (of_char c)" by (rule of_nat_of_char [symmetric])
  then have "unat (of_char c :: u8) = of_char c" by (simp only: unat_of_nat) simp
  then show ?thesis by simp
qed

lemma dec_enc_str: "bs \<noteq> [] \<Longrightarrow> dec_str (enc_str s @ bs) = (s, bs)"
proof (induction s)
  case Nil
  then show ?case by (cases bs) simp_all
qed (simp_all add: char_of_of_char)

lemma enc_keys_not_empty: "enc_keys m \<noteq> []"
  by (induction m rule: enc_keys.induct) simp_all

lemma dec_enc_keys: "length m < n \<Longrightarrow> dec_keys n (enc_keys m) = m"
proof (induction m arbitrary: n rule: enc_keys.induct)
  case (1 n)
  then show ?case by (cases n) simp_all
next
  case (2 s e m n)
  then obtain k where "n = Suc k" "length m < k" by (cases n) auto
  with 2 show ?case
    by (cases e; cases "pa_originator e") (simp_all add: dec_enc_str enc_keys_not_empty)
qed

lemma length_enc_keys: "length m < length (enc_keys m)"
  by (induction m rule: enc_keys.induct) simp_all

lemma demo_persist_ok: "key_json_ok demo_key_json" "file_ops_ok demo_disk"
  by (simp_all add: key_json_ok_def file_ops_ok_def demo_key_json_def demo_disk_def dec_enc_keys length_enc_keys)

theorem archive_keys_last_write_witness:
  "\<exists>ks. load_persisted_archive_keys demo_key_json demo_disk ''d''
      (fold (key_op_run demo_key_json demo_disk ''d'')
        [Persist 5 (replicate 32 1) None, Persist 7 (replicate 32 2) (Some ''h''), Persist 5 (replicate 32 3) (Some ''g''),
         Forget 7] Map.empty) = Some ks \<and>
    distinct (map fst ks) \<and> map_of ks = [5 \<mapsto> (replicate 32 3, Some ''g'')]"
  using archive_keys_last_write [OF demo_persist_ok, of "[Persist 5 (replicate 32 1) None,
      Persist 7 (replicate 32 2) (Some ''h''), Persist 5 (replicate 32 3) (Some ''g''), Forget 7]" Map.empty "''d''"]
  by (auto simp: demo_disk_def fun_upd_twist)

text \<open>A key whose text has a character of two bytes at the end of its first pair stops the load of all
  keys.\<close>

theorem corrupt_key_panics:
  "load_key_entry (''1'', \<lparr>pa_key_hex = [CHR ''a'', CHR 0xC3, CHR 0xA9, CHR ''b''], pa_originator = None\<rparr>) = None"
  by (simp add: load_key_entry_def from_str_radix_def hex_decode_def to_digit_def)

end
