(* ===== verification/App_Init.thy ===== *)
theory App_Init
  imports App_Roster App_Persist
begin

text \<open>
  The start of a session after ServerSync (src/crates/mumble-tauri/src/state/handler/server_sync.rs) and the
  tasks that prepare an encrypted channel (server_sync.rs, user_state.rs \<^verbatim>\<open>pchat_init_task\<close>,
  channel_state.rs \<^verbatim>\<open>pchat_key_gen_and_fetch\<close>).

  A task is a sequence of sections under the lock. Its part before the wait of two seconds for a key of a
  peer and its part after it are two definitions, so that other handlers can run in between; inside a part
  the sections run without interleaving. \<open>None\<close> is a panic of the key derivation, or the deadlock of a
  section that takes the lock again.
\<close>

section \<open>Applying the sync\<close>

definition apply_sync_state :: "ServerSync \<Rightarrow> 'br SharedState \<Rightarrow> (u32 list \<times> u32 option) \<times> 'br SharedState" where
  "apply_sync_state msg st =
     (let st1 = st\<lparr>ss_conn := (ss_conn st)\<lparr>cf_status := Connected, cf_own_session := ServerSync_session msg, cf_synced := True\<rparr>,
                   ss_server := (ss_server st)\<lparr>md_max_bandwidth := ServerSync_max_bandwidth msg,
                                  md_welcome_text := ServerSync_welcome_text msg\<rparr>\<rparr>;
          st2 = (case ServerSync_permissions msg of
                   None \<Rightarrow> st1
                 | Some perms \<Rightarrow>
                     st1\<lparr>ss_server := (ss_server st1)\<lparr>md_root_permissions := Some (ucast perms)\<rparr>,
                         ss_channels := hm_get_mut 0 (\<lambda>ch. ch\<lparr>ce_permissions := Some (ucast perms)\<rparr>) (ss_channels st1)\<rparr>);
          initial = (case ServerSync_session msg of
                       None \<Rightarrow> None
                     | Some s \<Rightarrow> map_option ue_channel_id (hm_get (ss_users st2) s));
          st3 = (case initial of None \<Rightarrow> st2 | Some ch \<Rightarrow> st2\<lparr>ss_current_channel := Some ch\<rparr>)
      in ((map fst (ss_users st3), initial), st3))"

definition request_user_blobs :: "u32 list \<Rightarrow> app_effect list" where
  "request_user_blobs sessions = (if sessions = [] then [] else [request_blob sessions sessions []])"

definition request_channel_descriptions :: "'br SharedState \<Rightarrow> app_effect list" where
  "request_channel_descriptions st =
     (let channel_ids = map ce_id (filter (\<lambda>ch. ce_description ch = [] \<and> ce_description_hash ch \<noteq> None)
                          (hm_values (ss_channels st)))
      in if channel_ids = [] then [] else [request_blob [] [] channel_ids])"

definition request_channel_permissions :: "'br SharedState \<Rightarrow> app_effect list" where
  "request_channel_permissions st = [Spawn (SendLater (map Cmd_PermissionQuery (map fst (ss_channels st))))]"

definition register_push_subscribe :: "'br SharedState \<Rightarrow> app_effect list" where
  "register_push_subscribe st =
     (if md_fancy_version (ss_server st) = None then [] else send_now st (Cmd_SendFancySubscribePush []))"

section \<open>The persistent chat\<close>

definition restore_archive_keys ::
    "key_json \<Rightarrow> 'fs file_ops \<Rightarrow> 'fs \<Rightarrow> 'br PchatState \<Rightarrow> 'br PchatState option" where
  "restore_archive_keys js fo fs p =
     (case ps_identity_dir p of
        None \<Rightarrow> Some p
      | Some dir \<Rightarrow>
          (case load_persisted_archive_keys js fo dir fs of
             None \<Rightarrow> None
           | Some persisted \<Rightarrow>
               Some (p\<lparr>ps_key_manager := fold (\<lambda>(ch, key, originator) km.
                   let km = store_archive_key ch key Verified km
                   in case originator of None \<Rightarrow> km | Some orig \<Rightarrow> set_channel_originator ch orig km)
                   persisted (ps_key_manager p)\<rparr>)))"

definition load_local_cache ::
    "cache_lib \<Rightarrow> 'fs file_ops \<Rightarrow> 'fs \<Rightarrow> 'br PchatState
      \<Rightarrow> ((u32, ChatMessage list) hash_map \<times> cached_reactions) \<times> 'br PchatState" where
  "load_local_cache lib fo fs p =
     (case ps_local_cache p of
        None \<Rightarrow> (([], []), p)
      | Some cache \<Rightarrow>
          let (r, cache) = load lib fo fs cache;
              msgs = (case r of Inl e \<Rightarrow> [] | Inr u \<Rightarrow> all_chat_messages cache);
              (r, cache) = load_reactions lib fo fs cache
          in ((msgs, all_reactions cache), p\<lparr>ps_local_cache := Some cache\<rparr>))"

text \<open>The restored messages are put behind what the thread has already.\<close>

definition restore_messages :: "(u32, ChatMessage list) hash_map \<Rightarrow> 'br SharedState \<Rightarrow> 'br SharedState" where
  "restore_messages cached st =
     fold (\<lambda>(ch_id, msgs) st.
       if msgs = [] then st
       else st\<lparr>ss_msgs := (ss_msgs st)\<lparr>by_channel := hm_entry_modify ch_id [] (\<lambda>ms. ms @ msgs) (by_channel (ss_msgs st))\<rparr>\<rparr>)
       cached st"

definition emit_cached_reactions :: "cached_reactions \<Rightarrow> app_effect list" where
  "emit_cached_reactions rs =
     map (\<lambda>(ch_id, reactions). Emit (Ev_pchat_reaction_fetch_response
            \<lparr>rf_channel_id = ch_id, rf_reactions = map (\<lambda>r. \<lparr>sr_message_id = lr_message_id r, sr_emoji = lr_emoji r,
               sr_sender_hash = lr_sender_hash r, sr_sender_name = lr_sender_name r, sr_timestamp = lr_timestamp r\<rparr>) reactions\<rparr>))
       (filter (\<lambda>(ch_id, reactions). reactions \<noteq> []) rs)"

definition own_hash :: "'br SharedState \<Rightarrow> string option" where
  "own_hash st =
     (case cf_own_session (ss_conn st) of
        None \<Rightarrow> None
      | Some s \<Rightarrow> (case hm_get (ss_users st) s of None \<Rightarrow> None | Some u \<Rightarrow> ue_hash u))"

definition init_pchat ::
    "'br app_env \<Rightarrow> cache_lib \<Rightarrow> key_json \<Rightarrow> 'fs file_ops \<Rightarrow> 'fs \<Rightarrow> 'br SharedState
      \<Rightarrow> ('br SharedState \<times> app_effect list) option" where
  "init_pchat env lib js fo fs st =
     (case (pc_seed (ss_pchat_ctx st), own_hash st, cf_client_handle (ss_conn st), md_fancy_version (ss_server st)) of
        (Some seed, Some cert_hash, Some h, Some v) \<Rightarrow>
          (case PchatState_new (env_crypto env) lib fo (env_error_text env) seed cert_hash (pc_identity_dir (ss_pchat_ctx st)) of
             Inl e \<Rightarrow> Some (st, [])
           | Inr p \<Rightarrow>
               (case restore_archive_keys js fo fs p of
                  None \<Rightarrow> None
                | Some p \<Rightarrow>
                    let ((messages, reactions), p) = load_local_cache lib fo fs p
                    in Some (restore_messages messages (set_pchat p st),
                             emit_cached_reactions reactions @ [Spawn KeyAnnounceAndChannelInit])))
      | _ \<Rightarrow> Some (st, []))"

definition ServerSync_handle ::
    "'br app_env \<Rightarrow> cache_lib \<Rightarrow> key_json \<Rightarrow> 'fs file_ops \<Rightarrow> 'fs \<Rightarrow> ServerSync \<Rightarrow> 'br SharedState
      \<Rightarrow> ('br SharedState \<times> app_effect list) option" where
  "ServerSync_handle env lib js fo fs msg st =
     (case apply_sync_state msg st of
        ((sessions, initial), st1) \<Rightarrow>
          map_option (\<lambda>(st2, effs).
            (st2,
             [Emit Ev_server_connected] @
             (case initial of Some ch \<Rightarrow> [Emit (Ev_current_channel_changed \<lparr>cu_channel_id = ch\<rparr>)] | None \<Rightarrow> []) @
             request_user_blobs sessions @ request_channel_descriptions st1 @ request_channel_permissions st1 @
             register_push_subscribe st1 @ effs))
            (init_pchat env lib js fo fs st1))"

section \<open>Steps of the tasks\<close>

definition emit_history_loading :: "'br SharedState \<Rightarrow> u32 \<Rightarrow> bool \<Rightarrow> app_effect list" where
  "emit_history_loading st ch loading =
     app_emit st (Ev_pchat_history_loading \<lparr>hl_channel_id = ch, hl_loading = loading\<rparr>)"

definition BRIDGE_ERROR :: string where
  "BRIDGE_ERROR = ''Signal bridge library could not be loaded. End-to-end encryption is unavailable.''"

definition emit_signal_bridge_error :: "'br SharedState \<Rightarrow> app_effect list" where
  "emit_signal_bridge_error st = app_emit st (Ev_pchat_signal_bridge_error \<lparr>sb_message = BRIDGE_ERROR\<rparr>)"

text \<open>The key of the channel from our own seed, with ourselves as its originator.\<close>

definition derive_own_key :: "'br app_env \<Rightarrow> u32 \<Rightarrow> 'br PchatState \<Rightarrow> (bytes \<times> 'br PchatState) option" where
  "derive_own_key env ch p =
     (case derive_archive_key (env_crypto env) (ps_seed p) ch of
        None \<Rightarrow> None
      | Some key \<Rightarrow>
          Some (key, p\<lparr>ps_key_manager := set_channel_originator ch (ps_own_cert_hash p)
                  (store_archive_key ch key Verified (ps_key_manager p))\<rparr>))"

definition persist_effect :: "'br PchatState \<Rightarrow> u32 \<Rightarrow> bytes \<Rightarrow> app_effect list" where
  "persist_effect p ch key =
     (case ps_identity_dir p of
        Some dir \<Rightarrow> [PersistArchiveKey dir ch key (Some (ps_own_cert_hash p))]
      | None \<Rightarrow> [])"

definition maybe_derive_archive_key_for_join ::
    "'br app_env \<Rightarrow> u32 \<Rightarrow> 'br SharedState \<Rightarrow> ('br SharedState \<times> app_effect list) option" where
  "maybe_derive_archive_key_for_join env ch st =
     (case get_pchat st of
        None \<Rightarrow> Some (st, [])
      | Some p \<Rightarrow>
          if has_key (ps_key_manager p) ch PP_FancyV1FullArchive then Some (st, [])
          else map_option (\<lambda>(key, p'). (set_pchat p' st, persist_effect p ch key)) (derive_own_key env ch p))"

text \<open>In this function the event about the bridge is emitted inside the section, which takes the lock a
  second time.\<close>

definition derive_channel_key_as_originator ::
    "'br app_env \<Rightarrow> u32 \<Rightarrow> 'br SharedState \<Rightarrow> ('br SharedState \<times> app_effect list) option" where
  "derive_channel_key_as_originator env ch st =
     (case get_pchat st of
        None \<Rightarrow> Some (st, [])
      | Some p \<Rightarrow>
          (case channel_protocol st ch of
             Some PP_FancyV1FullArchive \<Rightarrow>
               map_option (\<lambda>(key, p'). (set_pchat p' st, persist_effect p ch key)) (derive_own_key env ch p)
           | Some PP_SignalV1 \<Rightarrow>
               (case ensure_signal_bridge env p of
                  (True, p') \<Rightarrow> Some (set_pchat p' st, [])
                | (False, p') \<Rightarrow> None)
           | _ \<Rightarrow> Some (st, [])))"

text \<open>The request for the history, and the timer of fifteen seconds that ends the loading indicator.\<close>

definition send_fetch_or_stop :: "u32 \<Rightarrow> 'br SharedState \<Rightarrow> app_effect list" where
  "send_fetch_or_stop ch st =
     (case cf_client_handle (ss_conn st) of
        Some h \<Rightarrow> [Send h (Cmd_SendPchatFetch \<lparr>PchatFetch_channel_id = Some ch, PchatFetch_before_id = None,
                     PchatFetch_limit = Some 50, PchatFetch_after_id = None\<rparr>)]
      | None \<Rightarrow> emit_history_loading st ch False)"

text \<open>Running one step after another, collecting the effects.\<close>

definition after ::
    "('br SharedState \<times> app_effect list) option \<Rightarrow> ('br SharedState \<Rightarrow> ('br SharedState \<times> app_effect list) option)
      \<Rightarrow> ('br SharedState \<times> app_effect list) option" where
  "after r f = (case r of None \<Rightarrow> None
     | Some (st, e) \<Rightarrow> (case f st of None \<Rightarrow> None | Some (st', e') \<Rightarrow> Some (st', e @ e')))"

definition signal_ready ::
    "'br app_env \<Rightarrow> u32 \<Rightarrow> 'br SharedState \<Rightarrow> bool \<times> 'br SharedState \<times> app_effect list" where
  "signal_ready env ch st =
     (case ensure_signal_bridge_unlocked env st of
        (True, st1) \<Rightarrow>
          (case send_signal_distribution env ch st1 of
             (st2, e2) \<Rightarrow> (case send_key_holder_report ch st2 of (st3, e3) \<Rightarrow> (True, st3, e2 @ e3)))
      | (False, st1) \<Rightarrow> (False, st1, emit_signal_bridge_error st1 @ emit_history_loading st1 ch False))"

section \<open>Joining a channel\<close>

text \<open>\<^verbatim>\<open>pchat_init_task\<close> up to the wait; the flag says whether it goes on.\<close>

definition pchat_init_task_begin ::
    "'br app_env \<Rightarrow> u32 \<Rightarrow> 'br SharedState \<Rightarrow> (bool \<times> 'br SharedState \<times> app_effect list) option" where
  "pchat_init_task_begin env ch st =
     (let mode = channel_protocol st ch;
          r = (if mode = Some PP_FancyV1FullArchive
               then after (maybe_derive_archive_key_for_join env ch st) (\<lambda>st. Some (send_key_holder_report ch st))
               else Some (st, []))
      in case r of
           None \<Rightarrow> None
         | Some (st1, e1) \<Rightarrow>
             (case (if mode = Some PP_SignalV1 then signal_ready env ch st1 else (True, st1, [])) of
                (go, st2, e2) \<Rightarrow> Some (go, st2, emit_history_loading st ch True @ e1 @ e2)))"

definition needs_channel_key :: "'br SharedState \<Rightarrow> u32 \<Rightarrow> bool" where
  "needs_channel_key st ch =
     (case (get_pchat st, channel_protocol st ch) of
        (Some p, Some m) \<Rightarrow> \<not> has_key (ps_key_manager p) ch m
      | _ \<Rightarrow> False)"

text \<open>The part after the wait.\<close>

definition pchat_init_task_finish ::
    "'br app_env \<Rightarrow> u32 \<Rightarrow> 'br SharedState \<Rightarrow> ('br SharedState \<times> app_effect list) option" where
  "pchat_init_task_finish env ch st =
     after (if needs_channel_key st ch
            then after (derive_channel_key_as_originator env ch st) (\<lambda>st. Some (send_key_holder_report ch st))
            else Some (st, []))
       (\<lambda>st. Some (st, send_fetch_or_stop ch st))"

section \<open>The first channel of a session\<close>

definition send_key_announce :: "'br app_env \<Rightarrow> 'br SharedState \<Rightarrow> app_effect list" where
  "send_key_announce env st =
     (case get_pchat st of
        None \<Rightarrow> []
      | Some p \<Rightarrow>
          send_now st (Cmd_SendPchatKeyAnnounce (wire_key_announce_to_proto
            (build_key_announce (ps_key_manager p) (ps_own_cert_hash p) (env_now_ms env)))))"

definition resolve_initial_channel :: "'br SharedState \<Rightarrow> u32 option \<times> PchatProtocol option" where
  "resolve_initial_channel st =
     (ss_current_channel st,
      case ss_current_channel st of None \<Rightarrow> None | Some ch \<Rightarrow> channel_protocol st ch)"

definition ensure_protocol_key ::
    "'br app_env \<Rightarrow> u32 \<Rightarrow> PchatProtocol \<Rightarrow> 'br SharedState \<Rightarrow> (bool \<times> 'br SharedState \<times> app_effect list) option" where
  "ensure_protocol_key env ch mode st =
     (let r = (if mode = PP_FancyV1FullArchive
               then after
                 (case get_pchat st of
                    None \<Rightarrow> Some (st, [])
                  | Some p \<Rightarrow>
                      if has_key (ps_key_manager p) ch mode then Some (st, [])
                      else map_option (\<lambda>(key, p'). (set_pchat p' st, [])) (derive_own_key env ch p))
                 (\<lambda>st. Some (send_key_holder_report ch st))
               else Some (st, []))
      in case r of
           None \<Rightarrow> None
         | Some (st1, e1) \<Rightarrow>
             (case (if mode = PP_SignalV1 then signal_ready env ch st1 else (True, st1, [])) of
                (go, st2, e2) \<Rightarrow> Some (go, st2, e1 @ e2)))"

definition lacks_key :: "'br SharedState \<Rightarrow> u32 \<Rightarrow> PchatProtocol \<Rightarrow> bool" where
  "lacks_key st ch mode = (case get_pchat st of None \<Rightarrow> False | Some p \<Rightarrow> \<not> has_key (ps_key_manager p) ch mode)"

definition self_generate_key ::
    "'br app_env \<Rightarrow> u32 \<Rightarrow> 'br SharedState \<Rightarrow> ('br SharedState \<times> app_effect list) option" where
  "self_generate_key env ch st =
     (case get_pchat st of
        None \<Rightarrow> Some (st, [])
      | Some p \<Rightarrow>
          (case channel_protocol st ch of
             Some PP_FancyV1FullArchive \<Rightarrow> map_option (\<lambda>(key, p'). (set_pchat p' st, [])) (derive_own_key env ch p)
           | Some PP_SignalV1 \<Rightarrow>
               (case ensure_signal_bridge env p of
                  (ok, p') \<Rightarrow> Some (set_pchat p' st, if ok then [] else emit_signal_bridge_error st))
           | _ \<Rightarrow> Some (st, [])))"

definition fetch_channel_history :: "u32 \<Rightarrow> 'br SharedState \<Rightarrow> 'br SharedState \<times> app_effect list" where
  "fetch_channel_history ch st = (let st' = mark_channel_fetched ch st in (st', send_fetch_or_stop ch st'))"

text \<open>The task of \<^verbatim>\<open>spawn_key_announce_and_channel_init\<close> up to the wait: the channel and mode it goes on
  with, if any.\<close>

definition channel_init_begin ::
    "'br app_env \<Rightarrow> 'br SharedState \<Rightarrow> ((u32 \<times> PchatProtocol) option \<times> 'br SharedState \<times> app_effect list) option" where
  "channel_init_begin env st =
     (let announce = send_key_announce env st
      in case resolve_initial_channel st of
           (Some ch, Some mode) \<Rightarrow>
             if is_encrypted mode
             then (case ensure_protocol_key env ch mode st of
                     None \<Rightarrow> None
                   | Some (go, st1, e1) \<Rightarrow>
                       Some (if go then Some (ch, mode) else None, st1,
                             announce @ emit_history_loading st ch True @ e1))
             else Some (None, st, announce)
         | _ \<Rightarrow> Some (None, st, announce))"

definition channel_init_finish ::
    "'br app_env \<Rightarrow> u32 \<Rightarrow> PchatProtocol \<Rightarrow> 'br SharedState \<Rightarrow> ('br SharedState \<times> app_effect list) option" where
  "channel_init_finish env ch mode st =
     after (if lacks_key st ch mode
            then after (self_generate_key env ch st) (\<lambda>st. Some (send_key_holder_report ch st))
            else Some (st, []))
       (\<lambda>st. Some (fetch_channel_history ch st))"

section \<open>A channel that changes its protocol\<close>

definition derive_and_store_archive_key :: "'br app_env \<Rightarrow> u32 \<Rightarrow> 'br SharedState \<Rightarrow> 'br SharedState option" where
  "derive_and_store_archive_key env ch st =
     (case get_pchat st of
        None \<Rightarrow> Some st
      | Some p \<Rightarrow>
          if channel_protocol st ch = Some PP_FancyV1FullArchive
          then map_option (\<lambda>(key, p'). set_pchat p' st) (derive_own_key env ch p)
          else Some st)"

definition pchat_key_gen_and_fetch ::
    "'br app_env \<Rightarrow> u32 \<Rightarrow> 'br SharedState \<Rightarrow> ('br SharedState \<times> app_effect list) option" where
  "pchat_key_gen_and_fetch env ch st =
     (case channel_protocol st ch of
        None \<Rightarrow> Some (st, [])
      | Some mode \<Rightarrow>
          if \<not> is_encrypted mode then Some (st, [])
          else case (if lacks_key st ch mode then derive_and_store_archive_key env ch st else Some st) of
                 None \<Rightarrow> None
               | Some st1 \<Rightarrow>
                   (case get_pchat st1 of
                      None \<Rightarrow> Some (st1, [])
                    | Some p \<Rightarrow>
                        if ch \<in> ps_fetched_channels p then Some (st1, [])
                        else
                          let st2 = mark_channel_fetched ch st1
                          in Some (st2, send_now st2 (Cmd_SendPchatFetch
                               \<lparr>PchatFetch_channel_id = Some ch, PchatFetch_before_id = None, PchatFetch_limit = Some 50,
                                PchatFetch_after_id = None\<rparr>))))"

end
