(* ===== verification/App_Sessions.thy ===== *)
theory App_Sessions
  imports App_Init
begin

text \<open>
  The connections of the application (src/crates/mumble-tauri/src/state: registry.rs, sessions.rs,
  shared_handle.rs, mod.rs \<^verbatim>\<open>AppState\<close>, connection.rs, and \<^verbatim>\<open>on_disconnected\<close> of event_handler.rs).

  Each connection has its own \<open>SharedState\<close> behind an \<^verbatim>\<open>Arc\<close>: a cell of \<open>as_heap\<close>. The registry maps
  the identifier of a server to a cell and names the active one; \<open>as_inner\<close> is the cell that commands
  without an identifier work on. A disconnection waits between its beginning and its end, which are two steps of
  \<open>app_step\<close>; those in flight are part of the state of that relation.
\<close>

section \<open>The registry\<close>

type_synonym cell = nat

record Registry =
  rg_active :: "string option"
  rg_sessions :: "(string, cell) hash_map"

record 'br AppState =
  as_heap :: "cell \<Rightarrow> 'br SharedState"
  as_next :: cell
  as_inner :: cell
  as_default :: cell
  as_registry :: Registry
  as_app_handle :: bool

definition registry_session :: "'br AppState \<Rightarrow> string \<Rightarrow> cell option" where
  "registry_session a i = hm_get (rg_sessions (as_registry a)) i"

definition active_id :: "'br AppState \<Rightarrow> string option" where
  "active_id a = rg_active (as_registry a)"

definition register_active :: "string \<Rightarrow> cell \<Rightarrow> 'br AppState \<Rightarrow> 'br AppState" where
  "register_active i c a =
     a\<lparr>as_registry := \<lparr>rg_active = Some i, rg_sessions = hm_insert i c (rg_sessions (as_registry a))\<rparr>\<rparr>"

definition set_active :: "string \<Rightarrow> 'br AppState \<Rightarrow> (string + unit) \<times> 'br AppState" where
  "set_active i a =
     (if registry_session a i = None then (Inl (''unknown server id: '' @ i), a)
      else (Inr (), a\<lparr>as_registry := (as_registry a)\<lparr>rg_active := Some i\<rparr>\<rparr>))"

text \<open>The next active session is the first key in the order of the map.\<close>

definition registry_remove :: "string \<Rightarrow> 'br AppState \<Rightarrow> 'br AppState" where
  "registry_remove i a =
     (let rest = hm_remove i (rg_sessions (as_registry a))
      in a\<lparr>as_registry := \<lparr>rg_active =
             (if active_id a = Some i then (case rest of [] \<Rightarrow> None | (j, c) # _ \<Rightarrow> Some j) else active_id a),
           rg_sessions = rest\<rparr>\<rparr>)"

definition stale_session :: "string \<Rightarrow> u16 \<Rightarrow> string \<Rightarrow> 'br SharedState \<Rightarrow> bool" where
  "stale_session host port username s \<longleftrightarrow>
     md_host (ss_server s) = host \<and> md_port (ss_server s) = port \<and> cf_own_name (ss_conn s) = username \<and>
     cf_status (ss_conn s) = Disconnected"

definition prune_session :: "string \<Rightarrow> 'br AppState \<Rightarrow> 'br AppState" where
  "prune_session i a =
     a\<lparr>as_registry := \<lparr>rg_active = (if active_id a = Some i then None else active_id a),
                       rg_sessions = hm_remove i (rg_sessions (as_registry a))\<rparr>\<rparr>"

definition prune_disconnected_for :: "string \<Rightarrow> u16 \<Rightarrow> string \<Rightarrow> 'br AppState \<Rightarrow> string list \<times> 'br AppState" where
  "prune_disconnected_for host port username a =
     (let stale = map fst (filter (\<lambda>(i, c). stale_session host port username (as_heap a c)) (rg_sessions (as_registry a)))
      in (stale, fold prune_session stale a))"

definition format_label :: "string \<Rightarrow> string \<Rightarrow> u16 \<Rightarrow> string" where
  "format_label username host port =
     (if username = [] then host @ '':'' @ show_nat (unat port)
      else username @ ''@'' @ host @ '':'' @ show_nat (unat port))"

record SessionMeta =
  mt_id :: string
  mt_label :: string
  mt_host :: string
  mt_port :: u16
  mt_username :: string
  mt_cert_label :: "string option"
  mt_status :: ConnectionStatus

definition list_meta :: "'br AppState \<Rightarrow> SessionMeta list" where
  "list_meta a =
     map (\<lambda>(i, c). let s = as_heap a c in
        \<lparr>mt_id = i, mt_label = format_label (cf_own_name (ss_conn s)) (md_host (ss_server s)) (md_port (ss_server s)),
         mt_host = md_host (ss_server s), mt_port = md_port (ss_server s), mt_username = cf_own_name (ss_conn s),
         mt_cert_label = ss_cert_label s, mt_status = cf_status (ss_conn s)\<rparr>) (rg_sessions (as_registry a))"

section \<open>The active session\<close>

definition update_cell :: "cell \<Rightarrow> ('br SharedState \<Rightarrow> 'br SharedState) \<Rightarrow> 'br AppState \<Rightarrow> 'br AppState" where
  "update_cell c f a = a\<lparr>as_heap := (as_heap a)(c := f (as_heap a c))\<rparr>"

definition AppState_new :: "'br AppState" where
  "AppState_new =
     \<lparr>as_heap = (\<lambda>c. default_SharedState\<lparr>ss_prefs := \<lparr>pr_notifications_enabled = True, pr_disable_dual_path = False,
        pr_app_focused = True\<rparr>\<rparr>),
      as_next = 1, as_inner = 0, as_default = 0, as_registry = \<lparr>rg_active = None, rg_sessions = []\<rparr>, as_app_handle = False\<rparr>"

definition fresh_session_state :: "'br AppState \<Rightarrow> cell \<times> 'br AppState" where
  "fresh_session_state a =
     (let c = as_next a
      in (c, a\<lparr>as_heap := (as_heap a)(c := default_SharedState\<lparr>ss_prefs := ss_prefs (as_heap a (as_default a)),
                ss_audio := (ss_audio (default_SharedState :: 'br SharedState))\<lparr>au_settings := au_settings (ss_audio (as_heap a (as_default a)))\<rparr>\<rparr>),
              as_next := c + 1\<rparr>))"

definition switch_active_to :: "string \<Rightarrow> 'br AppState \<Rightarrow> (string + unit) \<times> 'br AppState" where
  "switch_active_to target a =
     (case registry_session a target of
        None \<Rightarrow> (Inl (''unknown server id: '' @ target), a)
      | Some c \<Rightarrow>
          (case set_active target a of
             (Inl e, a') \<Rightarrow> (Inl e, a')
           | (Inr u, a') \<Rightarrow> (Inr (), a'\<lparr>as_inner := c\<rparr>)))"

definition stop_audio_on :: "'br SharedState \<Rightarrow> 'br SharedState \<times> app_effect list" where
  "stop_audio_on st =
     (st\<lparr>ss_audio := (stop_audio_pipelines (ss_audio st))\<lparr>au_mic_test_handle := False, au_latency_test_handle := False,
            au_input_volume_handle := None, au_output_volume_handle := None, au_talking_sessions := {}\<rparr>\<rparr>,
      (if au_outbound_task_handle (ss_audio st) then [AbortTask ''outbound audio''] else []) @
      (if au_mic_test_handle (ss_audio st) then [AbortTask ''mic test''] else []) @
      (if au_latency_test_handle (ss_audio st) then [AbortTask ''latency test''] else []) @
      (if cf_tauri_app_handle (ss_conn st)
       then map (\<lambda>s. Emit (Ev_user_talking s False)) (sorted_list_of_set (au_talking_sessions (ss_audio st))) else []))"

text \<open>\<^verbatim>\<open>switch_active_with_voice\<close>: the voice of the previous session stops there, and is started on the new
  one; starting opens devices and is the parameter \<open>start\<close>, for the state the voice was in.\<close>

definition switch_active_with_voice ::
    "(VoiceState \<Rightarrow> 'br AppState \<Rightarrow> 'br AppState) \<Rightarrow> string \<Rightarrow> 'br AppState \<Rightarrow> (string + unit) \<times> 'br AppState" where
  "switch_active_with_voice start target a =
     (case registry_session a target of
        None \<Rightarrow> (Inl (''unknown server id: '' @ target), a)
      | Some c \<Rightarrow>
          if c = as_inner a then (Inr (), a)
          else
            let prev = as_inner a;
                prev_voice = au_voice_state (ss_audio (as_heap a prev));
                a1 = (if prev_voice = Inactive then a
                      else update_cell prev (\<lambda>s. (fst (stop_audio_on s))\<lparr>ss_audio :=
                             (ss_audio (fst (stop_audio_on s)))\<lparr>au_voice_state := Inactive\<rparr>\<rparr>) a)
            in case switch_active_to target a1 of
                 (Inl e, a2) \<Rightarrow> (Inl e, a2)
               | (Inr u, a2) \<Rightarrow> (Inr (), if prev_voice = Inactive then a2 else start prev_voice a2))"

definition reset_to_default :: "'br AppState \<Rightarrow> 'br AppState" where
  "reset_to_default a = a\<lparr>as_inner := as_default a\<rparr>"

definition rebind_active :: "'br AppState \<Rightarrow> 'br AppState" where
  "rebind_active a =
     (case active_id a of
        None \<Rightarrow> a
      | Some i \<Rightarrow> (case registry_session a i of None \<Rightarrow> a | Some c \<Rightarrow> a\<lparr>as_inner := c\<rparr>))"

section \<open>Connecting\<close>

text \<open>What is saved before the persistent chat of a session is dropped.\<close>

definition save_pchat :: "'br SharedState \<Rightarrow> app_effect list" where
  "save_pchat st =
     (case get_pchat st of
        None \<Rightarrow> []
      | Some p \<Rightarrow>
          (case ps_identity_dir p of Some dir \<Rightarrow> if ps_signal_bridge p then [SaveSignalState dir] else [] | None \<Rightarrow> []) @
          (case ps_local_cache p of Some c \<Rightarrow> [SaveLocalCache c] | None \<Rightarrow> []))"

definition drop_pchat :: "'br SharedState \<Rightarrow> 'br SharedState" where
  "drop_pchat st =
     st\<lparr>ss_pchat_ctx := (ss_pchat_ctx st)\<lparr>pc_pchat := None, pc_seed := None, pc_identity_dir := None,
          pc_pending_key_shares := []\<rparr>\<rparr>"

text \<open>The fields that a new attempt and the end of a session clear alike.\<close>

definition clear_session :: "'br SharedState \<Rightarrow> 'br SharedState" where
  "clear_session st =
     drop_pchat (st\<lparr>ss_conn := (ss_conn st)\<lparr>cf_client_handle := None, cf_connect_task_handle := False,
                        cf_event_loop_handle := False, cf_own_session := None, cf_synced := False\<rparr>,
        ss_users := [], ss_channels := [], ss_msgs := (ss_msgs st)\<lparr>by_channel := [], channel_unread := []\<rparr>,
        ss_permanently_listened := {}, ss_selected_channel := None, ss_current_channel := None,
        ss_server := (ss_server st)\<lparr>md_config := default_AppServerConfig, md_root_permissions := None\<rparr>,
        ss_audio := (ss_audio st)\<lparr>au_voice_state := Inactive\<rparr>\<rparr>)"

definition reset_state_for_connect ::
    "string \<Rightarrow> string \<Rightarrow> u16 \<Rightarrow> string option \<Rightarrow> string \<Rightarrow> 'br SharedState \<Rightarrow> 'br SharedState \<times> app_effect list" where
  "reset_state_for_connect username host port cert_label server_id st =
     (let st1 = clear_session st
      in (st1\<lparr>ss_conn := (ss_conn st1)\<lparr>cf_epoch := cf_epoch (ss_conn st) + 1, cf_status := Connecting,
               cf_own_name := username, cf_tauri_app_handle := True\<rparr>,
             ss_server := (ss_server st1)\<lparr>md_host := host, md_port := port\<rparr>,
             ss_server_id := Some server_id, ss_cert_label := cert_label\<rparr>,
          (if cf_event_loop_handle (ss_conn st) then [AbortTask ''event loop''] else []) @
          (if cf_connect_task_handle (ss_conn st) then [AbortTask ''connect''] else []) @ save_pchat st))"

text \<open>\<^verbatim>\<open>init_identity\<close> stores the resolver of names, and the seed with its directory when the identity could
  be read or created.\<close>

definition init_identity :: "(bytes \<times> string) option \<Rightarrow> 'br SharedState \<Rightarrow> 'br SharedState" where
  "init_identity ident st =
     (let ctx = (ss_pchat_ctx st)\<lparr>pc_hash_name_resolver := True\<rparr>
      in st\<lparr>ss_pchat_ctx := (case ident of
              None \<Rightarrow> ctx
            | Some (seed, dir) \<Rightarrow> ctx\<lparr>pc_seed := Some seed, pc_identity_dir := Some dir\<rparr>)\<rparr>)"

text \<open>\<^verbatim>\<open>connect\<close> up to the point where it spawns the attempt; \<open>server_id\<close> is the new identifier.\<close>

definition connect_begin ::
    "string \<Rightarrow> u16 \<Rightarrow> string \<Rightarrow> string option \<Rightarrow> string \<Rightarrow> (bytes \<times> string) option \<Rightarrow> 'br AppState
      \<Rightarrow> (string + app_effect list) \<times> 'br AppState" where
  "connect_begin host port username cert_label server_id ident a =
     (if \<not> as_app_handle a then (Inl ''App not initialized'', a)
      else
        let a1 = snd (prune_disconnected_for host port username a);
            (c, a2) = fresh_session_state a1;
            a3 = (register_active server_id c a2)\<lparr>as_inner := c\<rparr>;
            (s, effs) = reset_state_for_connect username host port cert_label server_id (as_heap a3 c);
            a4 = update_cell c (\<lambda>_. init_identity ident s) a3;
            a5 = update_cell (as_inner a4) (\<lambda>s. s\<lparr>ss_conn := (ss_conn s)\<lparr>cf_connect_task_handle := True\<rparr>\<rparr>) a4
        in (Inr (effs @ [Emit (Ev_status_changed ''connecting'')]), a5))"

definition mark_disconnected :: "'br SharedState \<Rightarrow> 'br SharedState" where
  "mark_disconnected st =
     st\<lparr>ss_conn := (ss_conn st)\<lparr>cf_status := Disconnected, cf_client_handle := None, cf_event_loop_handle := False,
          cf_connect_task_handle := False\<rparr>, ss_server_id := None, ss_cert_label := None\<rparr>"

definition emit_session_rejected :: "string \<Rightarrow> string \<Rightarrow> app_effect list" where
  "emit_session_rejected server_id reason =
     [Emit (Ev_connection_rejected \<lparr>rp_reason = reason, rp_reject_type = None\<rparr>),
      Emit (Ev_server_disconnected \<lparr>dp_server_id = Some server_id, dp_reason = Some reason\<rparr>)]"

text \<open>The outcome of the attempt for the session in the cell \<open>c\<close>: \<open>Inr h\<close> is a handle, with \<open>auth\<close> the
  result of sending Authenticate.\<close>

definition handle_connect_result ::
    "string + client_handle \<Rightarrow> string option \<Rightarrow> string \<Rightarrow> string option \<Rightarrow> string \<Rightarrow> cell \<Rightarrow> 'br AppState
      \<Rightarrow> 'br AppState \<times> app_effect list" where
  "handle_connect_result result auth username password server_id c a =
     (let failed = (\<lambda>reason a. (rebind_active (registry_remove server_id (update_cell c mark_disconnected a)),
                                emit_session_rejected server_id reason))
      in case result of
           Inl e \<Rightarrow> failed (''Connection failed: '' @ e) a
         | Inr h \<Rightarrow>
             let a1 = update_cell c (\<lambda>s. s\<lparr>ss_conn := (ss_conn s)\<lparr>cf_client_handle := Some h, cf_event_loop_handle := True,
                        cf_connect_task_handle := False\<rparr>\<rparr>) a
             in case auth of
                  Some e \<Rightarrow> failed (''Failed to authenticate: '' @ e) a1
                | None \<Rightarrow> (a1, [Send h (Cmd_Authenticate username password []), Send h (Cmd_SetSelfDeaf True)]))"

section \<open>Disconnecting\<close>

text \<open>\<^verbatim>\<open>disconnect_session\<close> up to its wait for the event loop, which may take three seconds: the cell and
  whether the session was the active one.\<close>

definition disconnect_begin ::
    "string \<Rightarrow> 'br AppState \<Rightarrow> (string + cell \<times> bool \<times> app_effect list) \<times> 'br AppState" where
  "disconnect_begin i a =
     (case registry_session a i of
        None \<Rightarrow> (Inl (''unknown server id: '' @ i), a)
      | Some c \<Rightarrow>
          let is_active = (active_id a = Some i);
              (s1, e1) = (if is_active then stop_audio_on (as_heap a c) else (as_heap a c, []));
              s2 = s1\<lparr>ss_conn := (ss_conn s1)\<lparr>cf_user_initiated_disconnect := True, cf_client_handle := None,
                        cf_event_loop_handle := False, cf_connect_task_handle := False\<rparr>\<rparr>
          in (Inr (c, is_active,
                 e1 @ (if cf_connect_task_handle (ss_conn s1) then [AbortTask ''connect''] else []) @
                 (case cf_client_handle (ss_conn s1) of Some h \<Rightarrow> [Send h Cmd_Disconnect] | None \<Rightarrow> [])),
              update_cell c (\<lambda>s. s2) a))"

definition disconnect_finish :: "string \<Rightarrow> cell \<Rightarrow> bool \<Rightarrow> 'br AppState \<Rightarrow> 'br AppState \<times> app_effect list" where
  "disconnect_finish i c is_active a =
     (let effs = save_pchat (as_heap a c);
          a1 = update_cell c (\<lambda>s. (clear_session s)\<lparr>ss_conn := (ss_conn (clear_session s))\<lparr>cf_status := Disconnected\<rparr>,
                 ss_server_id := None, ss_cert_label := None\<rparr>) a;
          a2 = registry_remove i a1
      in (if \<not> is_active then a2
          else case active_id a2 of
                 None \<Rightarrow> reset_to_default a2
               | Some j \<Rightarrow> (case registry_session a2 j of Some d \<Rightarrow> a2\<lparr>as_inner := d\<rparr> | None \<Rightarrow> reset_to_default a2),
          effs))"

text \<open>The callback of the event loop that was started in the given epoch.\<close>

definition on_disconnected :: "u64 \<Rightarrow> string \<Rightarrow> 'br SharedState \<Rightarrow> 'br SharedState \<times> app_effect list" where
  "on_disconnected epoch server_id st =
     (if cf_epoch (ss_conn st) \<noteq> epoch then (st, [])
      else
        let reason = (if cf_user_initiated_disconnect (ss_conn st) then None else Some ''Connection to server was lost.'')
        in (drop_pchat (st\<lparr>ss_conn := (ss_conn st)\<lparr>cf_status := Disconnected, cf_client_handle := None,
                 cf_event_loop_handle := False, cf_user_initiated_disconnect := False\<rparr>,
               ss_server_id := None, ss_cert_label := None,
               ss_audio := (stop_audio_pipelines (ss_audio st))\<lparr>au_voice_state := Inactive, au_talking_sessions := {}\<rparr>,
               ss_server := (ss_server st)\<lparr>md_fancy_version := None, md_version_info := default_ServerVersionInfo,
                 md_max_users := None, md_max_bandwidth := None, md_opus := False, md_root_permissions := None\<rparr>\<rparr>),
            (if au_outbound_task_handle (ss_audio st) then [AbortTask ''outbound audio''] else []) @
            save_pchat st @
            [Emit (Ev_server_disconnected \<lparr>dp_server_id = Some server_id, dp_reason = reason\<rparr>)]))"

section \<open>The active session is the one commands work on\<close>

definition sessions_ok :: "'br AppState \<Rightarrow> bool" where
  "sessions_ok a \<longleftrightarrow>
     hm_wf (rg_sessions (as_registry a)) \<and>
     (case active_id a of
        None \<Rightarrow> rg_sessions (as_registry a) = []
      | Some i \<Rightarrow> registry_session a i = Some (as_inner a))"

text \<open>The operations of the user and of the connections, interleaved; a step of a session changes the heap only. A
  disconnection is in flight while it waits for the event loop: with its session, its cell, and whether the session was
  the active one when it began. The last component tells whether a disconnection has ended late: of a session that became the active
  one only while its disconnection was in flight.\<close>

type_synonym in_flight = "(string \<times> cell \<times> bool) list"

inductive app_step ::
    "(VoiceState \<Rightarrow> 'br AppState \<Rightarrow> 'br AppState) \<Rightarrow> 'br AppState \<times> in_flight \<times> bool \<Rightarrow> 'br AppState \<times> in_flight \<times> bool \<Rightarrow> bool"
  for start where
  step_connect: "connect_begin host port username cert_label i ident a = (r, a') \<Longrightarrow> app_step start (a, ds, missed) (a', ds, missed)"
| step_result: "handle_connect_result result auth username password i c a = (a', effs) \<Longrightarrow>
    app_step start (a, ds, missed) (a', ds, missed)"
| step_disconnect: "disconnect_begin i a = (Inr (c, is_active, effs), a') \<Longrightarrow>
    app_step start (a, ds, missed) (a', (i, c, is_active) # ds, missed)"
| step_finish: "(i, c, is_active) \<in> set ds \<Longrightarrow> disconnect_finish i c is_active a = (a', effs) \<Longrightarrow>
    app_step start (a, ds, missed) (a', remove1 (i, c, is_active) ds, missed \<or> (\<not> is_active \<and> active_id a = Some i))"
| step_switch: "switch_active_with_voice start i a = (r, a') \<Longrightarrow> app_step start (a, ds, missed) (a', ds, missed)"
| step_session: "app_step start (a, ds, missed) (update_cell c f a, ds, missed)"
| step_handle: "app_step start (a, ds, missed) (a\<lparr>as_app_handle := True\<rparr>, ds, missed)"

definition app_start :: "'br AppState \<times> in_flight \<times> bool" where
  "app_start = (AppState_new, [], False)"

definition frames_registry :: "(VoiceState \<Rightarrow> 'br AppState \<Rightarrow> 'br AppState) \<Rightarrow> bool" where
  "frames_registry start \<longleftrightarrow>
     (\<forall>v a. as_registry (start v a) = as_registry a \<and> as_inner (start v a) = as_inner a \<and>
            as_next (start v a) = as_next a)"

lemma sessions_ok_cong:
  assumes "as_registry a' = as_registry a" and "as_inner a' = as_inner a"
  shows "sessions_ok a' = sessions_ok a"
proof -
  have "active_id a' = active_id a" "registry_session a' = registry_session a"
    using assms by (auto simp: active_id_def registry_session_def)
  with assms show ?thesis by (simp only: sessions_ok_def)
qed

lemma update_cell_frame [simp]:
  "as_registry (update_cell c f a) = as_registry a" "as_inner (update_cell c f a) = as_inner a"
  "as_default (update_cell c f a) = as_default a" "active_id (update_cell c f a) = active_id a"
  "registry_session (update_cell c f a) i = registry_session a i" "as_next (update_cell c f a) = as_next a"
  by (simp_all add: update_cell_def active_id_def registry_session_def)

lemma update_cell_sessions_ok [simp]: "sessions_ok (update_cell c f a) = sessions_ok a"
  by (rule sessions_ok_cong) simp_all

lemma registry_remove_frame [simp]:
  "as_inner (registry_remove i a) = as_inner a" "as_default (registry_remove i a) = as_default a"
  "as_next (registry_remove i a) = as_next a" "as_heap (registry_remove i a) = as_heap a"
  "rg_sessions (as_registry (registry_remove i a)) = hm_remove i (rg_sessions (as_registry a))"
  "registry_session (registry_remove i a) j = (if j = i then None else registry_session a j)"
  by (simp_all add: registry_remove_def registry_session_def Let_def)

lemma active_after_remove:
  assumes "sessions_ok a"
  shows "case active_id (registry_remove i a) of
      None \<Rightarrow> rg_sessions (as_registry (registry_remove i a)) = []
    | Some j \<Rightarrow> \<exists>c. registry_session (registry_remove i a) j = Some c \<and> (active_id a \<noteq> Some i \<longrightarrow> c = as_inner a)"
proof (cases "active_id a = Some i")
  case True
  show ?thesis
  proof (cases "hm_remove i (rg_sessions (as_registry a))")
    case Nil
    with True show ?thesis by (simp add: registry_remove_def active_id_def)
  next
    case (Cons e rest)
    then have "hm_get (hm_remove i (rg_sessions (as_registry a))) (fst e) = Some (snd e)"
      by (cases e) simp
    with True Cons show ?thesis
      by (cases e) (simp add: registry_remove_def active_id_def registry_session_def)
  qed
next
  case False
  then have "active_id (registry_remove i a) = active_id a" by (simp add: registry_remove_def active_id_def Let_def)
  with False assms show ?thesis by (cases "active_id a") (auto simp: sessions_ok_def)
qed

lemma registry_remove_wf: "sessions_ok a \<Longrightarrow> hm_wf (rg_sessions (as_registry (registry_remove i a)))"
  by (auto simp: sessions_ok_def)

lemma sessions_ok_rebind:
  assumes "sessions_ok a"
  shows "sessions_ok (rebind_active (registry_remove i a))"
  using active_after_remove [OF assms, of i] registry_remove_wf [OF assms, of i]
  by (auto simp: rebind_active_def sessions_ok_def active_id_def registry_session_def split: option.splits)

lemma sessions_ok_finish:
  assumes "sessions_ok a" and "is_active \<or> active_id a \<noteq> Some i"
  shows "sessions_ok (fst (disconnect_finish i c is_active a))"
proof -
  let ?a1 = "update_cell c (\<lambda>s. (clear_session s)\<lparr>ss_conn := (ss_conn (clear_session s))\<lparr>cf_status := Disconnected\<rparr>,
    ss_server_id := None, ss_cert_label := None\<rparr>) a"
  have ok: "sessions_ok ?a1" using assms(1) by simp
  show ?thesis
    using active_after_remove [OF ok, of i] registry_remove_wf [OF ok, of i] assms(2)
    by (auto simp: disconnect_finish_def Let_def sessions_ok_def active_id_def registry_session_def reset_to_default_def
        split: option.splits)
qed

lemma prune_wf:
  fixes a :: "'br AppState"
  assumes "hm_wf (rg_sessions (as_registry a))"
  shows "hm_wf (rg_sessions (as_registry (snd (prune_disconnected_for h p u a))))"
proof -
  have one: "hm_wf (rg_sessions (as_registry (prune_session i b)))" if "hm_wf (rg_sessions (as_registry b))" for i and b :: "'br AppState"
    using that by (auto simp: prune_session_def)
  have "hm_wf (rg_sessions (as_registry (fold prune_session ks b)))" if "hm_wf (rg_sessions (as_registry b))" for ks and b :: "'br AppState"
    using that by (induction ks arbitrary: b) (simp_all add: one)
  with assms show ?thesis by (simp add: prune_disconnected_for_def Let_def)
qed

lemma sessions_ok_connect:
  assumes "connect_begin host port username cert_label i ident a = (r, a')"
  shows "hm_wf (rg_sessions (as_registry a)) \<Longrightarrow> hm_wf (rg_sessions (as_registry a'))"
    and "sessions_ok a \<Longrightarrow> sessions_ok a'"
proof -
  let ?a1 = "snd (prune_disconnected_for host port username a)"
  have "hm_wf (rg_sessions (as_registry ?a1))" if "hm_wf (rg_sessions (as_registry a))" by (rule prune_wf [OF that])
  then show "hm_wf (rg_sessions (as_registry a)) \<Longrightarrow> hm_wf (rg_sessions (as_registry a'))"
    and "sessions_ok a \<Longrightarrow> sessions_ok a'"
    using assms
    by (auto simp: connect_begin_def Let_def fresh_session_state_def register_active_def sessions_ok_def active_id_def
        registry_session_def update_cell_def split: prod.splits if_splits)
qed

lemma sessions_ok_switch:
  assumes "sessions_ok a" and "switch_active_to i a = (r, a')"
  shows "sessions_ok a'"
  using assms
  by (auto simp: switch_active_to_def set_active_def sessions_ok_def active_id_def registry_session_def split: option.splits)

lemma disconnect_begin_frame:
  assumes "disconnect_begin i a = (Inr (c, is_active, effs), a')"
  shows "as_registry a' = as_registry a" "as_inner a' = as_inner a" "as_next a' = as_next a"
    "registry_session a i = Some c" "is_active = (active_id a = Some i)"
  using assms by (auto simp: disconnect_begin_def Let_def split: option.splits prod.splits)

text \<open>Every step keeps the registry well-formed, and the active session the one of the commands unless a
  disconnection ends late.\<close>

definition registry_ok :: "'br AppState \<times> in_flight \<times> bool \<Rightarrow> bool" where
  "registry_ok s \<longleftrightarrow> (case s of (a, ds, missed) \<Rightarrow> hm_wf (rg_sessions (as_registry a)) \<and> (\<not> missed \<longrightarrow> sessions_ok a))"

lemma rebind_sessions [simp]: "as_registry (rebind_active a) = as_registry a"
  by (simp add: rebind_active_def split: option.splits)

lemma result_registry:
  assumes "handle_connect_result result auth username password i c a = (a', effs)"
  shows "hm_wf (rg_sessions (as_registry a)) \<Longrightarrow> hm_wf (rg_sessions (as_registry a'))"
    and "sessions_ok a \<Longrightarrow> sessions_ok a'"
  using assms by (auto simp: handle_connect_result_def Let_def intro: sessions_ok_rebind split: sum.splits option.splits)

lemma finish_sessions:
  "rg_sessions (as_registry (fst (disconnect_finish i c is_active a))) = hm_remove i (rg_sessions (as_registry a))"
  by (auto simp: disconnect_finish_def Let_def reset_to_default_def split: option.splits)

lemma switch_sessions:
  assumes "switch_active_with_voice start i a = (r, a')" and "frames_registry start"
  shows "rg_sessions (as_registry a') = rg_sessions (as_registry a)" and "sessions_ok a \<Longrightarrow> sessions_ok a'"
proof -
  have reg: "as_registry (start v b) = as_registry b" "as_inner (start v b) = as_inner b" for v b
    using assms(2) by (simp_all add: frames_registry_def)
  note frame = reg(1) sessions_ok_cong [OF reg]
  have "rg_sessions (as_registry (snd (switch_active_to i b))) = rg_sessions (as_registry b)" for b :: "'a AppState"
    by (auto simp: switch_active_to_def set_active_def split: option.splits)
  then have wf: "rg_sessions (as_registry b') = rg_sessions (as_registry b)" if "switch_active_to i b = (r, b')"
    for r b and b' :: "'a AppState"
    using that by (metis snd_conv)
  show "rg_sessions (as_registry a') = rg_sessions (as_registry a)"
    using assms(1)
    by (auto simp: switch_active_with_voice_def Let_def frame split: option.splits if_splits prod.splits sum.splits dest!: wf)
  show "sessions_ok a'" if "sessions_ok a"
    using assms(1) that
    by (auto simp: switch_active_with_voice_def Let_def frame split: option.splits if_splits prod.splits sum.splits
        dest: sessions_ok_switch [rotated])
qed

lemma registry_ok_step:
  assumes "app_step start s s'" and "frames_registry start" and "registry_ok s"
  shows "registry_ok s'"
  using assms
proof (induction rule: app_step.induct)
  case (step_result result auth username password i c a a' effs ds missed)
  with result_registry [OF step_result(1)] show ?case by (simp add: registry_ok_def)
next
  case (step_disconnect i a c is_active effs a' ds missed)
  note frame = disconnect_begin_frame [OF step_disconnect(1)]
  with step_disconnect(3) show ?case
    using sessions_ok_cong [OF frame(1,2)] by (simp add: registry_ok_def)
next
  case (step_finish i c is_active ds a a' effs missed)
  then have "rg_sessions (as_registry a') = hm_remove i (rg_sessions (as_registry a))"
    using finish_sessions [of i c is_active a] by simp
  moreover have "sessions_ok a'" if "sessions_ok a" "is_active \<or> active_id a \<noteq> Some i"
    using sessions_ok_finish [OF that, of c] step_finish(2) by simp
  ultimately show ?case using step_finish(4) by (auto simp: registry_ok_def)
next
  case (step_switch i a r a' ds missed)
  with switch_sessions [OF step_switch(1,2)] show ?case by (simp add: registry_ok_def)
next
  case (step_connect host port username cert_label i ident a r a' ds missed)
  with sessions_ok_connect [OF step_connect(1)] show ?case by (simp add: registry_ok_def)
next
  case (step_handle a ds missed)
  have "sessions_ok (a\<lparr>as_app_handle := True\<rparr>) = sessions_ok a" by (rule sessions_ok_cong) simp_all
  with step_handle show ?case by (simp add: registry_ok_def)
qed (simp add: registry_ok_def)

text \<open>Two sessions never share a cell, and a cell that is handed out was not in use.\<close>

definition cells_ok :: "'br AppState \<Rightarrow> bool" where
  "cells_ok a \<longleftrightarrow>
     (\<forall>i c. registry_session a i = Some c \<longrightarrow> c < as_next a) \<and>
     (\<forall>i j c. registry_session a i = Some c \<and> registry_session a j = Some c \<longrightarrow> i = j)"

lemma cells_ok_sub:
  assumes "cells_ok a" and "as_next a' = as_next a"
    and "\<And>i c. registry_session a' i = Some c \<Longrightarrow> registry_session a i = Some c"
  shows "cells_ok a'"
  using assms unfolding cells_ok_def by metis

lemma prune_session_frame [simp]:
  "as_next (prune_session i a) = as_next a" "as_heap (prune_session i a) = as_heap a"
  "as_default (prune_session i a) = as_default a"
  "registry_session (prune_session i a) j = (if j = i then None else registry_session a j)"
  by (simp_all add: prune_session_def registry_session_def)

lemma prune_sessions_frame [simp]:
  fixes a :: "'br AppState"
  shows "as_next (fold prune_session ks a) = as_next a" "as_heap (fold prune_session ks a) = as_heap a"
    "as_default (fold prune_session ks a) = as_default a"
    "registry_session (fold prune_session ks a) j = (if j \<in> set ks then None else registry_session a j)"
  by (induction ks arbitrary: a) simp_all

lemma connect_effect:
  assumes "connect_begin host port username cert_label i ident a = (Inr effs, a')"
  shows "as_next a' = as_next a + 1" and "as_inner a' = as_next a"
    and "registry_session a' i = Some (as_next a)"
    and "j \<noteq> i \<Longrightarrow> registry_session a' j = registry_session (snd (prune_disconnected_for host port username a)) j"
    and "d < as_next a \<Longrightarrow> as_heap a' d = as_heap a d"
  using assms
  by (auto simp: connect_begin_def Let_def fresh_session_state_def register_active_def registry_session_def
      update_cell_def prune_disconnected_for_def split: if_splits prod.splits)

lemma prune_keeps:
  assumes "hm_wf (rg_sessions (as_registry a))"
  shows "registry_session (snd (prune_disconnected_for host port username a)) j =
    (case registry_session a j of
       None \<Rightarrow> None
     | Some d \<Rightarrow> if stale_session host port username (as_heap a d) then None else Some d)"
proof (cases "registry_session a j")
  case None
  then show ?thesis by (simp add: prune_disconnected_for_def Let_def)
next
  case (Some d)
  then have "(j, e) \<in> set (rg_sessions (as_registry a)) \<longleftrightarrow> e = d" for e
    using hm.entries_get [OF assms] by (auto simp: registry_session_def)
  with Some show ?thesis by (auto simp: prune_disconnected_for_def Let_def image_iff)
qed

lemma cells_ok_connect:
  assumes "cells_ok a" and "connect_begin host port username cert_label i ident a = (r, a')"
  shows "cells_ok a'"
proof (cases r)
  case (Inl e)
  with assms show ?thesis by (auto simp: connect_begin_def Let_def split: if_splits prod.splits)
next
  case (Inr effs)
  note eff = connect_effect [OF assms(2) [unfolded Inr]]
  have old: "registry_session a j = Some c" if "registry_session a' j = Some c" "j \<noteq> i" for j c
    using that eff(4) by (auto simp: prune_disconnected_for_def Let_def split: if_splits)
  have less: "c < as_next a" if "registry_session a' j = Some c" "j \<noteq> i" for j c
    using old [OF that] assms(1) by (simp add: cells_ok_def)
  have same: "j = k" if "registry_session a j = Some c" "registry_session a k = Some c" for j k c
    using that assms(1) by (auto simp: cells_ok_def)
  show ?thesis
    unfolding cells_ok_def
  proof (intro conjI allI impI)
    fix j c assume j: "registry_session a' j = Some c"
    show "c < as_next a'"
    proof (cases "j = i")
      case True
      with j eff(1,3) show ?thesis by simp
    next
      case False
      with less [OF j] eff(1) show ?thesis by simp
    qed
  next
    fix j k c assume *: "registry_session a' j = Some c \<and> registry_session a' k = Some c"
    have new: "l = i" if "registry_session a' l = Some (as_next a)" for l
      using less [OF that] by auto
    show "j = k"
    proof (cases "c = as_next a")
      case True
      with * new show ?thesis by metis
    next
      case False
      with * eff(3) have "j \<noteq> i" "k \<noteq> i" by auto
      with * old same show ?thesis by metis
    qed
  qed
qed

lemma switch_active_to_sub:
  assumes "switch_active_to i a = (r, a')"
  shows "as_next a' = as_next a" and "registry_session a' j = registry_session a j"
  using assms by (auto simp: switch_active_to_def set_active_def registry_session_def split: option.splits if_splits)

lemma cells_ok_step:
  assumes "app_step start s s'" and "frames_registry start" and "cells_ok (fst s)"
  shows "cells_ok (fst s')"
  using assms
proof (induction rule: app_step.induct)
  case (step_connect host port username cert_label i ident a r a' ds missed)
  then show ?case by (auto intro: cells_ok_connect)
next
  case (step_result result auth username password i c a a' effs ds missed)
  from step_result(3) have ok: "cells_ok a" by simp
  from step_result(1) show ?case
    by (auto simp: handle_connect_result_def rebind_active_def Let_def registry_session_def [abs_def]
        split: sum.splits option.splits if_splits intro!: cells_ok_sub [OF ok])
next
  case (step_disconnect i a c is_active effs a' ds missed)
  note frame = disconnect_begin_frame [OF step_disconnect(1)]
  then have "registry_session a' = registry_session a" by (simp add: registry_session_def fun_eq_iff)
  with frame(3) step_disconnect(3) show ?case by (auto intro: cells_ok_sub)
next
  case (step_finish i c is_active ds a a' effs missed)
  have "as_next a' = as_next a" "registry_session a' j = Some d \<Longrightarrow> registry_session a j = Some d" for j d
    using step_finish(2)
    by (auto simp: disconnect_finish_def Let_def reset_to_default_def registry_session_def split: if_splits option.splits)
  with step_finish(4) show ?case by (auto intro: cells_ok_sub)
next
  case (step_switch i a r a' ds missed)
  from step_switch(3) have ok: "cells_ok a" by simp
  have frame: "cells_ok (start v b) = cells_ok b" for v b
    using step_switch(2) by (simp add: frames_registry_def cells_ok_def registry_session_def)
  have switched: "cells_ok b'" if "switch_active_to i b = (r, b')" "cells_ok b" for r b b'
    using switch_active_to_sub [OF that(1)] that(2) by (auto intro: cells_ok_sub)
  have "cells_ok (update_cell c f a)" for c f using ok by (auto intro: cells_ok_sub)
  with step_switch(1) ok show ?case
    by (auto simp: switch_active_with_voice_def Let_def frame split: option.splits if_splits prod.splits sum.splits
        dest!: switched)
qed (auto simp: cells_ok_def registry_session_def)

lemma app_reachable:
  assumes "(app_step start)\<^sup>*\<^sup>* app_start s" and "frames_registry start"
  shows "registry_ok s \<and> cells_ok (fst s)"
  using assms(1)
proof (induction rule: rtranclp_induct)
  case base
  show ?case
    by (simp add: registry_ok_def sessions_ok_def cells_ok_def app_start_def AppState_new_def active_id_def registry_session_def)
next
  case (step s s')
  with assms(2) registry_ok_step cells_ok_step show ?case by blast
qed

lemma cells_distinct:
  assumes wf: "hm_wf (rg_sessions (as_registry a))" and "cells_ok a"
  shows "distinct (map snd (rg_sessions (as_registry a)))"
proof -
  let ?m = "rg_sessions (as_registry a)"
  have "inj_on snd (set ?m)"
    using assms(2) hm.entries_get [OF wf] by (force simp: inj_on_def cells_ok_def registry_session_def)
  moreover have "distinct ?m" using wf by (simp add: hm_wf_def distinct_map)
  ultimately show ?thesis by (simp add: distinct_map)
qed

text \<open>C12: In every reachable state of the application, with connections, switches and disconnections interleaved at their waits,
  no two servers share a session; and as long as no disconnection has ended late, the commands
  without an identifier work on the session the registry calls active, and none is active only when there is none. A
  disconnection ends late when its session was not the active one at its beginning and is at its end; two theorems further below
  show how the commands are then left on a closed session, after a switch and without one.\<close>

theorem active_session_is_inner:
  assumes "(app_step start)\<^sup>*\<^sup>* app_start (a, ds, missed)" and "frames_registry start"
  shows "distinct (map snd (rg_sessions (as_registry a))) \<and>
    (\<not> missed \<longrightarrow> (case active_id a of
        None \<Rightarrow> list_meta a = []
      | Some i \<Rightarrow> registry_session a i = Some (as_inner a)))"
proof -
  from app_reachable [OF assms] have ok: "hm_wf (rg_sessions (as_registry a))" "\<not> missed \<longrightarrow> sessions_ok a" "cells_ok a"
    by (simp_all add: registry_ok_def)
  from cells_distinct [OF ok(1,3)] ok(2) show ?thesis
    by (auto simp: sessions_ok_def list_meta_def split: option.splits)
qed

text \<open>C40: Connecting to one more server changes nothing in the sessions of the others, in whatever state they are and whatever is in
  flight; the only ones that are removed are those to the same host, port and user name that have ended.\<close>

theorem connect_keeps_other_sessions:
  assumes "(app_step start)\<^sup>*\<^sup>* app_start (a, ds, missed)" and "frames_registry start"
    and "connect_begin host port username cert_label i ident a = (Inr effs, a')"
    and "registry_session a j = Some d" and "j \<noteq> i"
  shows "registry_session a' j = (if stale_session host port username (as_heap a d) then None else Some d) \<and>
    as_heap a' d = as_heap a d \<and> as_inner a' \<noteq> d \<and> active_id a' = Some i"
proof -
  from app_reachable [OF assms(1,2)] have wf: "hm_wf (rg_sessions (as_registry a))" and cells: "cells_ok a"
    by (simp_all add: registry_ok_def)
  note eff = connect_effect [OF assms(3)]
  have reg: "registry_session a' j = (if stale_session host port username (as_heap a d) then None else Some d)"
    using eff(4) [OF assms(5)] prune_keeps [OF wf, of host port username j] assms(4) by simp
  have old: "d < as_next a" using cells assms(4) by (simp add: cells_ok_def)
  moreover have "active_id a' = Some i"
    using assms(3) by (auto simp: connect_begin_def Let_def fresh_session_state_def register_active_def active_id_def
        update_cell_def split: if_splits prod.splits)
  ultimately show ?thesis using reg eff(2) eff(5) [OF old] by simp
qed

lemma late_finish:
  assumes "cells_ok a" and "registry_session a i = Some c" and "as_inner a = c"
    and "disconnect_finish i c False a = (a', effs)"
  shows "as_inner a' = c \<and> (\<forall>j. registry_session a' j \<noteq> Some c) \<and> active_id a' \<noteq> Some i"
proof -
  have "as_inner a' = c" "registry_session a' j = (if j = i then None else registry_session a j)" for j
    using assms(3,4) by (auto simp: disconnect_finish_def Let_def)
  moreover have "active_id (registry_remove i b) \<noteq> Some i" for b :: "'a AppState"
  proof -
    have "j \<noteq> i" if "AList.delete i (rg_sessions (as_registry b)) = (j, x) # rest" for j x rest
      using hm_get_remove [of i "rg_sessions (as_registry b)" j] that by auto
    then show ?thesis by (auto simp: registry_remove_def active_id_def Let_def split: list.splits)
  qed
  moreover have "\<exists>b. a' = registry_remove i b" using assms(4) by (auto simp: disconnect_finish_def Let_def)
  ultimately have "active_id a' \<noteq> Some i" by blast
  moreover have "registry_session a j \<noteq> Some c" if "j \<noteq> i" for j using assms(1,2) that by (auto simp: cells_ok_def)
  ultimately show ?thesis using \<open>as_inner a' = c\<close> \<open>\<And>j. registry_session a' j = _\<close> by auto
qed

text \<open>\<^verbatim>\<open>disconnect_session\<close> decides before its wait whether the session is the active one. When the user
  switches to it during the wait, the commands stay on the closed session, which the registry no longer has.\<close>

theorem switch_during_disconnect:
  fixes a :: "'br AppState"
  assumes "disconnect_begin i a = (Inr (c, False, effs), a1)"
    and "switch_active_to i a1 = (Inr (), a2)"
    and "cells_ok a"
    and "disconnect_finish i c False a2 = (a3, effs')"
  shows "as_inner a3 = c \<and> (\<forall>j. registry_session a3 j \<noteq> Some c) \<and> active_id a3 \<noteq> Some i"
proof -
  have c: "registry_session a i = Some c" and a1: "registry_session a1 = registry_session a" "as_next a1 = as_next a"
    using disconnect_begin_frame [OF assms(1)] by (simp_all add: registry_session_def fun_eq_iff)
  have a2: "as_inner a2 = c" "registry_session a2 = registry_session a" "as_next a2 = as_next a"
    using assms(2) c a1 by (auto simp: switch_active_to_def set_active_def registry_session_def fun_eq_iff split: if_splits)
  have "cells_ok a2" using assms(3) a2(2,3) by (auto intro: cells_ok_sub)
  with late_finish [OF _ _ a2(1) assms(4)] a2(2) c show ?thesis by simp
qed

text \<open>No switch is needed: two disconnections in flight suffice. When the active session \<open>j\<close> is closed first, the
  registry makes the other one active, although it is about to be closed too, and the commands stay on it.\<close>

theorem overlapping_disconnects:
  fixes a :: "'br AppState"
  assumes "disconnect_begin i a = (Inr (c, False, effs1), a1)" and "disconnect_begin j a1 = (Inr (d, True, effs2), a2)"
    and "disconnect_finish j d True a2 = (a3, effs3)" and "active_id a3 = Some i"
    and "disconnect_finish i c False a3 = (a4, effs4)" and "cells_ok a"
  shows "as_inner a4 = c \<and> (\<forall>k. registry_session a4 k \<noteq> Some c) \<and> active_id a4 \<noteq> Some i"
proof -
  note f1 = disconnect_begin_frame [OF assms(1)] and f2 = disconnect_begin_frame [OF assms(2)]
  have a2: "registry_session a2 = registry_session a" "as_next a2 = as_next a" "active_id a2 = active_id a"
    using f1 f2 by (simp_all add: registry_session_def active_id_def fun_eq_iff)
  have "active_id a = Some j" "active_id a \<noteq> Some i" using f1(1,5) f2(5) by (simp_all add: active_id_def)
  then have "i \<noteq> j" by auto
  have a3: "as_next a3 = as_next a2" "registry_session a3 k = (if k = j then None else registry_session a2 k)" for k
    using assms(3) by (auto simp: disconnect_finish_def Let_def reset_to_default_def registry_session_def
        split: option.splits)
  have reg: "registry_session a3 i = Some c" using a3(2) [of i] a2(1) f1(4) \<open>i \<noteq> j\<close> by simp
  have "as_inner a3 = c"
    using assms(3,4) reg by (auto simp: disconnect_finish_def Let_def reset_to_default_def active_id_def registry_session_def
        split: option.splits)
  moreover have "cells_ok a3" using assms(6) a2 a3 by (intro cells_ok_sub [of a a3]) (auto split: if_splits)
  ultimately show ?thesis using late_finish [OF _ reg _ assms(5)] by simp
qed

text \<open>Two connections, a second user on another server and a switch back: an execution that reaches all the
  conclusions.\<close>

definition demo_first :: "unit AppState" where
  "demo_first = snd (connect_begin ''a.example'' 64738 ''me'' None ''one'' None (AppState_new\<lparr>as_app_handle := True\<rparr>))"

definition demo_second :: "unit AppState" where
  "demo_second = snd (connect_begin ''b.example'' 64738 ''me'' None ''two'' None demo_first)"

lemmas demo_sessions = demo_first_def demo_second_def connect_begin_def AppState_new_def prune_disconnected_for_def
  fresh_session_state_def register_active_def update_cell_def registry_session_def active_id_def Let_def split_beta
  stale_session_def reset_state_for_connect_def init_identity_def clear_session_def drop_pchat_def

lemma demo_reach:
  "(app_step (\<lambda>v a. a))\<^sup>*\<^sup>* app_start (demo_first, [], False)" "(app_step (\<lambda>v a. a))\<^sup>*\<^sup>* app_start (demo_second, [], False)"
proof -
  have "app_step (\<lambda>v a. a) app_start ((AppState_new :: unit AppState)\<lparr>as_app_handle := True\<rparr>, [], False)"
    unfolding app_start_def by (rule step_handle)
  moreover have "app_step (\<lambda>v a. a) (AppState_new\<lparr>as_app_handle := True\<rparr>, [], False) (demo_first, [], False)"
    unfolding demo_first_def by (rule step_connect) (rule surjective_pairing)
  ultimately show "(app_step (\<lambda>v a. a))\<^sup>*\<^sup>* app_start (demo_first, [], False)"
    by (meson converse_rtranclp_into_rtranclp rtranclp.rtrancl_refl)
  moreover have "app_step (\<lambda>v a. a) (demo_first, [], False) (demo_second, [], False)"
    unfolding demo_second_def by (rule step_connect) (rule surjective_pairing)
  ultimately show "(app_step (\<lambda>v a. a))\<^sup>*\<^sup>* app_start (demo_second, [], False)" by (rule rtranclp.rtrancl_into_rtrancl)
qed

lemma demo_frames: "frames_registry (\<lambda>v a. a)"
  by (simp add: frames_registry_def)

text \<open>The first of the two sessions is being closed: the second one stays the active one.\<close>

theorem active_session_is_inner_witness:
  "\<exists>(a :: unit AppState) effs. disconnect_begin ''one'' demo_second = (Inr (1, False, effs), a) \<and>
     registry_session a ''two'' = Some (as_inner a) \<and> distinct (map snd (rg_sessions (as_registry a)))"
proof -
  have reg: "registry_session demo_second ''one'' = Some 1" "active_id demo_second = Some ''two''"
    by (simp_all add: demo_sessions)
  then obtain effs a where 1: "disconnect_begin ''one'' demo_second = (Inr (1, False, effs), a)"
    by (simp add: disconnect_begin_def Let_def)
  have "(app_step (\<lambda>v a. a))\<^sup>*\<^sup>* app_start (a, [(''one'', 1, False)], False)"
    using demo_reach(2) step_disconnect [OF 1] by (rule rtranclp.rtrancl_into_rtrancl)
  from active_session_is_inner [OF this demo_frames] have
    "distinct (map snd (rg_sessions (as_registry a)))"
    "case active_id a of None \<Rightarrow> list_meta a = [] | Some i \<Rightarrow> registry_session a i = Some (as_inner a)" by simp_all
  moreover have "active_id a = Some ''two''" using disconnect_begin_frame [OF 1] reg(2) by (simp add: active_id_def)
  ultimately show ?thesis using 1 by auto
qed

theorem connect_keeps_other_sessions_witness:
  "registry_session demo_second ''one'' = Some 1 \<and> as_heap demo_second 1 = as_heap demo_first 1 \<and>
   as_inner demo_second \<noteq> 1 \<and> active_id demo_second = Some ''two''"
proof -
  have "as_app_handle demo_first" "registry_session demo_first ''one'' = Some 1"
    "\<not> stale_session ''b.example'' 64738 ''me'' (as_heap demo_first 1)"
    by (simp_all add: demo_sessions)
  moreover have "\<exists>effs. connect_begin ''b.example'' 64738 ''me'' None ''two'' None demo_first = (Inr effs, demo_second)"
    using calculation(1) by (simp add: demo_second_def connect_begin_def split_beta Let_def)
  ultimately show ?thesis
    using connect_keeps_other_sessions [OF demo_reach(1) demo_frames, of "''b.example''" 64738 "''me''" None "''two''"
        None _ demo_second "''one''" 1] by auto
qed

theorem switch_during_disconnect_witness:
  "\<exists>effs a1 a2 a3 effs'.
     disconnect_begin ''one'' demo_second = (Inr (1, False, effs), a1) \<and>
     switch_active_to ''one'' a1 = (Inr (), a2) \<and> disconnect_finish ''one'' 1 False a2 = (a3, effs') \<and>
     as_inner a3 = 1 \<and> (\<forall>j. registry_session a3 j \<noteq> Some 1)"
proof -
  have reg: "registry_session demo_second ''one'' = Some 1" "active_id demo_second = Some ''two''"
    by (simp_all add: demo_sessions)
  then obtain effs a1 where 1: "disconnect_begin ''one'' demo_second = (Inr (1, False, effs), a1)"
    and r1: "registry_session a1 ''one'' = Some 1" by (simp add: disconnect_begin_def Let_def)
  then obtain a2 where 2: "switch_active_to ''one'' a1 = (Inr (), a2)"
    by (simp add: switch_active_to_def set_active_def)
  obtain a3 effs' where 3: "disconnect_finish ''one'' 1 False a2 = (a3, effs')" by fastforce
  have "cells_ok demo_second" using app_reachable [OF demo_reach(2) demo_frames] by simp
  from switch_during_disconnect [OF 1 2 this 3] 1 2 3 show ?thesis by blast
qed

theorem overlapping_disconnects_witness:
  "\<exists>effs1 a1 effs2 a2 a3 effs3 a4 effs4.
     disconnect_begin ''one'' demo_second = (Inr (1, False, effs1), a1) \<and>
     disconnect_begin ''two'' a1 = (Inr (2, True, effs2), a2) \<and> disconnect_finish ''two'' 2 True a2 = (a3, effs3) \<and>
     disconnect_finish ''one'' 1 False a3 = (a4, effs4) \<and> as_inner a4 = 1 \<and> (\<forall>k. registry_session a4 k \<noteq> Some 1)"
proof -
  have reg: "registry_session demo_second ''one'' = Some 1" "registry_session demo_second ''two'' = Some 2"
    "active_id demo_second = Some ''two''" "rg_sessions (as_registry demo_second) = [(''one'', 1), (''two'', 2)]"
    by (simp_all add: demo_sessions)
  then obtain effs1 a1 where 1: "disconnect_begin ''one'' demo_second = (Inr (1, False, effs1), a1)"
    by (simp add: disconnect_begin_def Let_def)
  note f1 = disconnect_begin_frame [OF 1]
  have "registry_session a1 ''two'' = Some 2" "active_id a1 = Some ''two''"
    using f1(1) reg by (simp_all add: registry_session_def active_id_def)
  then obtain effs2 a2 where 2: "disconnect_begin ''two'' a1 = (Inr (2, True, effs2), a2)"
    by (cases "stop_audio_on (as_heap a1 2)") (simp add: disconnect_begin_def Let_def)
  note f2 = disconnect_begin_frame [OF 2]
  obtain a3 effs3 where 3: "disconnect_finish ''two'' 2 True a2 = (a3, effs3)" by fastforce
  have "as_registry a2 = \<lparr>rg_active = Some ''two'', rg_sessions = [(''one'', 1), (''two'', 2)]\<rparr>"
    using f1(1) f2(1) reg(3,4) by (cases "as_registry a2") (simp add: active_id_def)
  with 3 have act: "active_id a3 = Some ''one''"
    by (auto simp: disconnect_finish_def Let_def reset_to_default_def active_id_def registry_remove_def update_cell_def
        registry_session_def split: option.splits)
  obtain a4 effs4 where 4: "disconnect_finish ''one'' 1 False a3 = (a4, effs4)" by fastforce
  have "cells_ok demo_second" using app_reachable [OF demo_reach(2) demo_frames] by simp
  from overlapping_disconnects [OF 1 2 3 act 4 this] 1 2 3 4 show ?thesis by blast
qed

end
