(* ===== verification/App_Dispatch.thy ===== *)
theory App_Dispatch
  imports App_Sessions Client Audio_Mixer
begin

text \<open>
  The dispatch of control messages to the handlers (src/crates/mumble-tauri/src/state/handler/mod.rs), the
  callbacks of the event loop (event_handler.rs), and what the application's users and channels have to do
  with those of the protocol library: both see the same messages.
\<close>

section \<open>Dispatch\<close>

record ('br, 'fs) dispatch_env =
  de_env :: "'br app_env"
  de_cache :: cache_lib
  de_json :: key_json
  de_files :: "'fs file_ops"
  de_fs :: 'fs
  de_f64 :: "u64 \<Rightarrow> f64"

definition notify :: "notice option \<Rightarrow> 'br SharedState \<Rightarrow> 'br SharedState \<times> app_effect list" where
  "notify n st = (st, case n of None \<Rightarrow> [] | Some x \<Rightarrow> [Emit (Ev_notice x)])"

text \<open>\<open>None\<close>: a handler panics, on a stored key that is not text of its own or on a key of the wrong length.\<close>

definition dispatch ::
    "('br, 'fs) dispatch_env \<Rightarrow> ControlMessage \<Rightarrow> 'br SharedState \<Rightarrow> ('br SharedState \<times> app_effect list) option" where
  "dispatch D msg st =
     (let env = de_env D
      in case msg of
           CM_Ping m \<Rightarrow> Some (notify (Ping_handle (de_f64 D) (env_now_ms env) m) st)
         | CM_Version m \<Rightarrow> Some (Version_handle m st, [])
         | CM_ServerSync m \<Rightarrow> ServerSync_handle env (de_cache D) (de_json D) (de_files D) (de_fs D) m st
         | CM_UserState m \<Rightarrow> Some (UserState_handle env m st)
         | CM_UserRemove m \<Rightarrow> Some (UserRemove_handle env m st)
         | CM_ChannelState m \<Rightarrow> Some (ChannelState_handle m st)
         | CM_ChannelRemove m \<Rightarrow> Some (ChannelRemove_handle env m st)
         | CM_TextMessage m \<Rightarrow> Some (TextMessage_handle env m st)
         | CM_Reject m \<Rightarrow> Some (Reject_handle m st)
         | CM_ServerConfig m \<Rightarrow> Some (ServerConfig_handle m st)
         | CM_PermissionDenied m \<Rightarrow> Some (PermissionDenied_handle m st)
         | CM_PluginDataTransmission m \<Rightarrow> Some (notify (PluginDataTransmission_handle m) st)
         | CM_PermissionQuery m \<Rightarrow> Some (PermissionQuery_handle m st)
         | CM_CodecVersion m \<Rightarrow> Some (CodecVersion_handle m st, [])
         | CM_UserStats m \<Rightarrow> Some (notify (UserStats_handle m) st)
         | CM_PchatMessageDeliver m \<Rightarrow> Some (PchatMessageDeliver_handle env m st)
         | CM_PchatFetchResponse m \<Rightarrow> Some (PchatFetchResponse_handle env m st)
         | CM_PchatKeyAnnounce m \<Rightarrow> Some (PchatKeyAnnounce_handle env m st)
         | CM_PchatKeyExchange m \<Rightarrow> PchatKeyExchange_handle env m st
         | CM_PchatKeyRequest m \<Rightarrow> Some (PchatKeyRequest_handle m st)
         | CM_PchatAck m \<Rightarrow> Some (PchatAck_handle m st)
         | CM_PchatKeyHoldersList m \<Rightarrow> Some (PchatKeyHoldersList_handle env m st)
         | CM_PchatKeyChallenge m \<Rightarrow> Some (st, handle_proto_key_challenge env m st)
         | CM_PchatKeyChallengeResult m \<Rightarrow> Some (PchatKeyChallengeResult_handle env m st)
         | CM_PchatDeleteMessages m \<Rightarrow> Some (PchatDeleteMessages_handle m st)
         | CM_PchatOfflineQueueDrain m \<Rightarrow> Some (PchatOfflineQueueDrain_handle env m st)
         | CM_PchatSenderKeyDistribution m \<Rightarrow> Some (PchatSenderKeyDistribution_handle env m st)
         | CM_PchatReactionDeliver m \<Rightarrow> Some (PchatReactionDeliver_handle m st)
         | CM_PchatReactionFetchResponse m \<Rightarrow> Some (PchatReactionFetchResponse_handle m st)
         | CM_PchatPinDeliver m \<Rightarrow> Some (PchatPinDeliver_handle m st)
         | CM_PchatPinFetchResponse m \<Rightarrow> Some (PchatPinFetchResponse_handle m st)
         | CM_WebRtcSignal m \<Rightarrow> Some (notify (WebRtcSignal_handle m) st)
         | CM_FancyCustomReactionsConfig m \<Rightarrow> Some (notify (FancyCustomReactionsConfig_handle m) st)
         | CM_FancyReadReceiptDeliver m \<Rightarrow> Some (notify (FancyReadReceiptDeliver_handle env st m) st)
         | CM_FancyTypingIndicator m \<Rightarrow> Some (notify (FancyTypingIndicator_handle m) st)
         | CM_FancyLinkPreviewResponse m \<Rightarrow> Some (notify (FancyLinkPreviewResponse_handle m) st)
         | CM_FancyWatchSync m \<Rightarrow> Some (notify (FancyWatchSync_handle m) st)
         | CM_FancyDrawStroke m \<Rightarrow> Some (notify (FancyDrawStroke_handle m) st)
         | CM_BanList m \<Rightarrow> Some (notify (BanList_handle m) st)
         | CM_UserList m \<Rightarrow> Some (notify (UserList_handle m) st)
         | CM_Acl m \<Rightarrow> Some (notify (Acl_handle m) st)
         | _ \<Rightarrow> Some (st, []))"

section \<open>Voice\<close>

text \<open>\<^verbatim>\<open>on_udp_message\<close> on the mixer, when there is one, and the set of the sessions that talk. \<open>None\<close>
  stands for a panic of the mixer; a failure to decode is only logged.\<close>

definition on_udp_message ::
    "('d, 'e) opus_lib \<Rightarrow> f32_ops \<Rightarrow> nat \<Rightarrow> UdpMessage \<Rightarrow> 'd AudioMixer option \<times> u32 set
      \<Rightarrow> (('d AudioMixer option \<times> u32 set) \<times> app_effect list) option" where
  "on_udp_message op fo now msg = (\<lambda>(mixer, talking).
     case (msg, mixer) of
       (UM_Audio audio, Some mx) \<Rightarrow>
         if Audio_opus_data audio = [] then Some ((mixer, talking), [])
         else
           let session = Audio_sender_session audio
           in (case feed op fo now session \<lparr>ep_data = Audio_opus_data audio, ep_sequence = Audio_frame_number audio,
                      ep_frame_samples = 960\<rparr> mx of
                 None \<Rightarrow> None
               | Some (r, mx') \<Rightarrow>
                   Some (if Audio_is_terminator audio
                         then ((Some (reset_speaker session mx'), talking - {session}),
                               if session \<in> talking then [Emit (Ev_user_talking session False)] else [])
                         else ((Some mx', insert session talking),
                               if session \<in> talking then [] else [Emit (Ev_user_talking session True)])))
     | _ \<Rightarrow> Some ((mixer, talking), []))"

section \<open>The tag of a server on an event\<close>

text \<open>A value of serde_json, as far as the tag looks at it.\<close>

datatype json = JNull | JString string | JObject "(string, json) hash_map" | JOther

definition stamp_server_id :: "string \<Rightarrow> json \<Rightarrow> json" where
  "stamp_server_id i payload =
     (case payload of
        JObject obj \<Rightarrow>
          (case hm_get obj ''serverId'' of
             None \<Rightarrow> JObject (hm_insert ''serverId'' (JString i) obj)
           | Some JNull \<Rightarrow> JObject (hm_insert ''serverId'' (JString i) obj)
           | Some v \<Rightarrow> payload)
      | v \<Rightarrow> v)"

definition emit_json :: "'br SharedState \<Rightarrow> json \<Rightarrow> json" where
  "emit_json st payload = (case ss_server_id st of None \<Rightarrow> payload | Some i \<Rightarrow> stamp_server_id i payload)"

section \<open>What leaves users and channels alone\<close>

definition roster :: "'br SharedState \<Rightarrow> (u32, UserEntry) hash_map \<times> (u32, ChannelEntry) hash_map" where
  "roster st = (ss_users st, ss_channels st)"

named_theorems roster_simps

lemma roster_update [simp, roster_simps]:
  "roster (st\<lparr>ss_conn := c\<rparr>) = roster st" "roster (st\<lparr>ss_server := m\<rparr>) = roster st"
  "roster (st\<lparr>ss_msgs := ms\<rparr>) = roster st" "roster (st\<lparr>ss_pchat_ctx := x\<rparr>) = roster st"
  "roster (st\<lparr>ss_current_channel := k\<rparr>) = roster st" "roster (st\<lparr>ss_permanently_listened := l\<rparr>) = roster st"
  by (simp_all add: roster_def)

lemma roster_pchat [simp, roster_simps]:
  "roster (set_pchat p st) = roster st" "roster (set_pending_shares xs st) = roster st" "roster (map_km f st) = roster st"
  by (simp_all add: set_pchat_def set_pending_shares_def map_km_def split: option.splits)

lemma fold_frame: "(\<And>x s. g (f x s) = g s) \<Longrightarrow> g (fold f xs s) = g s"
  by (induction xs arbitrary: s) simp_all

lemma roster_queue_one [simp]: "roster (fst (queue_key_share_consent k h n r st)) = roster st"
  by (simp add: queue_key_share_consent_def)

lemma roster_queue_consents [simp, roster_simps]: "roster (fst (queue_consents xs st)) = roster st"
  unfolding queue_consents_def
  by (subst fold_frame [where g = "\<lambda>s. roster (fst s)"]) (auto split: prod.splits simp: fst_def [symmetric] dest: arg_cong [where f = fst])

lemma roster_key_announce [roster_simps]: "roster (fst (handle_proto_key_announce env m st)) = roster st"
  by (simp add: handle_proto_key_announce_def Let_def split_beta split: option.splits)

lemma roster_check_share [roster_simps]: "roster (fst (check_key_share_for_channel k st)) = roster st"
  by (simp add: check_key_share_for_channel_def Let_def split: option.splits)

lemma roster_key_request [roster_simps]: "roster (fst (handle_proto_key_request m st)) = roster st"
  by (simp add: handle_proto_key_request_def Let_def split: option.splits)

lemma roster_challenge_result [roster_simps]: "roster (fst (handle_proto_key_challenge_result env m st)) = roster st"
  by (simp add: handle_proto_key_challenge_result_def Let_def)

lemma roster_report [roster_simps]: "roster (fst (send_key_holder_report k st)) = roster st"
  by (simp add: send_key_holder_report_def split: option.splits)

lemma roster_retry_pending [roster_simps]: "roster (fst (retry_decrypt_pending_messages k st)) = roster st"
  by (simp add: retry_decrypt_pending_messages_def Let_def split: option.splits)

lemma roster_finalize [roster_simps]: "roster (fst (finalize_key_acceptance k p h st)) = roster st"
  by (simp add: finalize_key_acceptance_def Let_def split_beta roster_simps split: option.splits)

lemma roster_try_accept: "try_accept_key_exchange env x p r st = Some (b, st') \<Longrightarrow> roster st' = roster st"
  by (auto simp: try_accept_key_exchange_def Let_def split: option.splits prod.splits sum.splits PchatProtocol.splits)

lemma roster_key_exchange: "handle_proto_key_exchange env m st = Some r \<Longrightarrow> roster (fst r) = roster st"
  by (auto simp: handle_proto_key_exchange_def Let_def roster_finalize dest: roster_try_accept split: option.splits prod.splits bool.splits)

lemma roster_send_distribution [roster_simps]: "roster (fst (send_signal_distribution env k st)) = roster st"
  by (auto simp: send_signal_distribution_def split: option.splits prod.splits bool.splits sum.splits)

lemma roster_replace_placeholder: "roster (fst (replace_placeholder x s)) = roster (fst s)"
  by (simp add: replace_placeholder_def Let_def split: prod.splits)

lemma roster_retry_stashed [roster_simps]: "roster (fst (retry_stashed_signal_envelopes env h k st)) = roster st"
proof -
  have "roster (fst (fold replace_placeholder xs s)) = roster (fst s)" for xs and s :: "'a SharedState \<times> nat"
    using roster_replace_placeholder by (rule fold_frame [where g = "\<lambda>s. roster (fst s)"])
  then show ?thesis by (auto simp: retry_stashed_signal_envelopes_def split: option.splits prod.splits)
qed

lemma roster_retry_stashedD: "retry_stashed_signal_envelopes env h k st = (st', n) \<Longrightarrow> roster st' = roster st"
  by (metis fst_conv roster_retry_stashed)

lemma roster_sender_key [roster_simps]: "roster (snd (handle_signal_sender_key_by_hash env h k d st)) = roster st"
  by (auto simp: handle_signal_sender_key_by_hash_def dest: roster_retry_stashedD
      split: option.splits prod.splits bool.splits sum.splits)

lemma roster_insert_message [roster_simps]: "roster (insert_or_replace_message k i r m st) = roster st"
  by (simp add: insert_or_replace_message_def Let_def split: option.splits)

lemma roster_deliver [roster_simps]: "roster (fst (PchatMessageDeliver_handle env m st)) = roster st"
proof -
  have "roster (handle_proto_msg_deliver env m st) = roster st"
    by (simp add: handle_proto_msg_deliver_def Let_def roster_simps split: option.splits prod.splits)
  then show ?thesis by (simp add: PchatMessageDeliver_handle_def Let_def)
qed

lemma roster_fetch [roster_simps]: "roster (fst (PchatFetchResponse_handle env m st)) = roster st"
proof -
  have "roster (merge_decrypted_messages k ms s) = roster s" for k ms and s :: "'a SharedState"
    by (simp add: merge_decrypted_messages_def Let_def)
  then have "roster (handle_proto_fetch_resp env m st) = roster st"
    by (auto simp: handle_proto_fetch_resp_def fetch_take_def fetch_store_def split: option.splits prod.splits)
  then show ?thesis by (simp add: PchatFetchResponse_handle_def Let_def)
qed

lemma roster_offline [roster_simps]: "roster (fst (PchatOfflineQueueDrain_handle env m st)) = roster st"
proof -
  have "roster (fst (insert_offline_one k d s)) = roster (fst s)" for k d and s :: "'a SharedState \<times> string list"
    by (simp add: insert_offline_one_def Let_def split: prod.splits)
  then have insert: "roster (fst (insert_offline_messages k ds s)) = roster s" for k ds and s :: "'a SharedState"
    unfolding insert_offline_messages_def by (subst fold_frame [where g = "\<lambda>s. roster (fst s)"]) simp_all
  have sort: "roster (sort_thread k s) = roster s" for k and s :: "'a SharedState"
    by (simp add: sort_thread_def)
  have dist: "roster (process_distributions env k ds s) = roster s" for k ds and s :: "'a SharedState"
    unfolding process_distributions_def by (rule fold_frame) (simp add: Let_def roster_simps)
  have "roster (fst (handle_proto_offline_queue_drain env m st)) = roster st"
    by (simp add: handle_proto_offline_queue_drain_def Let_def split_beta insert sort dist split: option.splits)
  then show ?thesis by (simp add: PchatOfflineQueueDrain_handle_def split_beta)
qed

lemma roster_reactions [roster_simps]:
  "roster (fst (PchatReactionDeliver_handle m1 st)) = roster st"
  "roster (fst (PchatReactionFetchResponse_handle m2 st)) = roster st"
proof -
  have "roster (fst (change_reactions f st)) = roster st" for f
    by (simp add: change_reactions_def split: option.splits)
  then show "roster (fst (PchatReactionDeliver_handle m1 st)) = roster st"
    "roster (fst (PchatReactionFetchResponse_handle m2 st)) = roster st"
    by (simp_all add: PchatReactionDeliver_handle_def PchatReactionFetchResponse_handle_def Let_def split_beta)
qed

lemma roster_pins [roster_simps]:
  "roster (fst (PchatPinDeliver_handle m1 st)) = roster st"
  "roster (fst (PchatPinFetchResponse_handle m2 st)) = roster st"
proof -
  have pin: "roster (apply_pin_to_message k i b n t s) = roster s" for k i b n t and s :: "'a SharedState"
    by (simp add: apply_pin_to_message_def)
  then have "roster (fold (\<lambda>p. apply_pin_to_message k (sp_message_id p) True (sp_pinner_name p) (sp_timestamp p)) ps st) = roster st" for k ps
    by (intro fold_frame)
  with pin show "roster (fst (PchatPinDeliver_handle m1 st)) = roster st"
    "roster (fst (PchatPinFetchResponse_handle m2 st)) = roster st"
    by (simp_all add: PchatPinDeliver_handle_def PchatPinFetchResponse_handle_def Let_def)
qed

lemma roster_text [roster_simps]: "roster (fst (TextMessage_handle env m st)) = roster st"
proof -
  have edit: "roster (snd (try_apply_edit env m k i st)) = roster st" for k i
    by (simp add: try_apply_edit_def Let_def split: MessageKind.splits option.splits prod.splits)
  have direct: "roster (fst (handle_direct_message env m st)) = roster st"
    by (simp add: handle_direct_message_def Let_def split: option.splits)
  have "roster (fst (channel_message_step env m x s)) = roster (fst s)" for x and s :: "'a SharedState \<times> DeferredEvent list \<times> bool"
    by (simp add: channel_message_step_def Let_def split: prod.splits)
  then have "roster (fst (fold (channel_message_step env m) xs s)) = roster (fst s)" for xs and s :: "'a SharedState \<times> DeferredEvent list \<times> bool"
    by (rule fold_frame [where g = "\<lambda>s. roster (fst s)"])
  then have channel: "roster (fst (handle_channel_message env m st)) = roster st"
    by (simp add: handle_channel_message_def split_beta)
  show ?thesis
    using edit direct channel
    by (auto simp: TextMessage_handle_def Let_def split_beta split: option.splits prod.splits bool.splits MessageKind.splits)
qed

lemma roster_handlers [roster_simps]:
  "roster (fst (notify n st)) = roster st" "roster (Version_handle m1 st) = roster st"
  "roster (fst (Reject_handle m2 st)) = roster st" "roster (fst (ServerConfig_handle m3 st)) = roster st"
  "roster (fst (PermissionDenied_handle m4 st)) = roster st" "roster (CodecVersion_handle m5 st) = roster st"
  "roster (fst (PchatAck_handle m6 st)) = roster st" "roster (fst (PchatDeleteMessages_handle m7 st)) = roster st"
  "roster (fst (PchatKeyHoldersList_handle env m8 st)) = roster st"
  "roster (fst (PchatSenderKeyDistribution_handle env m9 st)) = roster st"
  "roster (fst (PchatKeyAnnounce_handle env m10 st)) = roster st"
  "roster (fst (PchatKeyRequest_handle m11 st)) = roster st"
  "roster (fst (PchatKeyChallengeResult_handle env m12 st)) = roster st"
  by (simp_all add: notify_def Version_handle_def Reject_handle_def ServerConfig_handle_def PermissionDenied_handle_def
      CodecVersion_handle_def PchatAck_handle_def PchatDeleteMessages_handle_def handle_proto_delete_messages_def
      PchatKeyHoldersList_handle_def PchatSenderKeyDistribution_handle_def PchatKeyAnnounce_handle_def
      PchatKeyRequest_handle_def PchatKeyChallengeResult_handle_def Let_def split_beta roster_simps split: option.splits)

section \<open>The roster of the application mirrors the protocol library's\<close>

text \<open>A user and a channel of the application, as the library keeps them. The library keeps two flags about
  entering a channel that the application does not.\<close>

definition user_of :: "UserEntry \<Rightarrow> User" where
  "user_of u =
     \<lparr>User_session = ue_session u, User_name = ue_name u, User_channel_id = ue_channel_id u, User_user_id = ue_user_id u,
      User_mute = ue_mute u, User_deaf = ue_deaf u, User_self_mute = ue_self_mute u, User_self_deaf = ue_self_deaf u,
      User_comment = unwrap_or [] (ue_comment u), User_texture = unwrap_or [] (ue_texture u),
      User_hash = unwrap_or [] (ue_hash u)\<rparr>"

definition channel_of :: "ChannelEntry \<Rightarrow> Channel" where
  "channel_of c =
     \<lparr>Channel_channel_id = ce_id c, Channel_parent_id = ce_parent_id c, Channel_name = ce_name c,
      Channel_description = ce_description c, Channel_description_hash = ce_description_hash c,
      Channel_position = ce_position c, Channel_temporary = ce_temporary c, Channel_max_users = ce_max_users c,
      Channel_permissions = ce_permissions c, Channel_is_enter_restricted = False, Channel_can_enter = True,
      Channel_pchat_protocol = ce_pchat_protocol c, Channel_pchat_max_history = ce_pchat_max_history c,
      Channel_pchat_retention_days = ce_pchat_retention_days c\<rparr>"

definition without_enter :: "Channel \<Rightarrow> Channel" where
  "without_enter c = c\<lparr>Channel_is_enter_restricted := False, Channel_can_enter := True\<rparr>"

definition mirrors :: "(u32, UserEntry) hash_map \<times> (u32, ChannelEntry) hash_map \<Rightarrow> ServerState \<Rightarrow> bool" where
  "mirrors r s \<longleftrightarrow>
     (\<forall>k. map_option user_of (hm_get (fst r) k) = hm_get (users s) k) \<and>
     (\<forall>k. map_option channel_of (hm_get (snd r) k) = map_option without_enter (hm_get (ServerState.channels s) k))"

lemma present_field:
  "unwrap_or [] (case x of None \<Rightarrow> y | Some c \<Rightarrow> if c = [] then None else Some c) =
     (case x of None \<Rightarrow> unwrap_or [] y | Some c \<Rightarrow> c)"
  "unwrap_or [] (case x of None \<Rightarrow> y | Some c \<Rightarrow> Some c) = (case x of None \<Rightarrow> unwrap_or [] y | Some c \<Rightarrow> c)"
  by (simp_all split: option.split)

lemma user_of_merge:
  "user_of (case UserState_channel_id p of None \<Rightarrow> apply_user_state_fields p u
      | Some ch \<Rightarrow> apply_user_state_fields p u\<lparr>ue_channel_id := ch\<rparr>) = merge_user p (user_of u)"
  by (cases "UserState_channel_id p")
    (simp_all add: user_of_def apply_user_state_fields_def merge_user_def inspect_User present_field unwrap_or_def [of _ "_ p"]
      cong: option.case_cong)

lemma user_of_new: "user_of (UserEntry_new k) = new_User k"
  by (simp add: user_of_def UserEntry_new_def new_User_def)

lemma channel_of_merge:
  assumes "channel_of c = without_enter d"
  shows "channel_of (snd (apply_channel_state_fields p c)) = without_enter (merge_channel p d)"
proof -
  have "channel_of (snd (apply_channel_state_fields p c)) = without_enter (merge_channel p (channel_of c))"
    by (simp add: channel_of_def without_enter_def apply_channel_state_fields_def merge_channel_def inspect_Channel
        unwrap_or_def cong: option.case_cong)
  moreover have "without_enter (merge_channel p (without_enter d)) = without_enter (merge_channel p d)"
    by (simp add: without_enter_def merge_channel_def inspect_Channel cong: option.case_cong)
  ultimately show ?thesis using assms by simp
qed

lemma channel_of_new: "channel_of (ChannelEntry_new k) = without_enter (new_Channel k)"
  by (simp add: channel_of_def ChannelEntry_new_def new_Channel_def without_enter_def)
lemma mirrors_insert_user:
  assumes "mirrors (us, cs) s" and "user_of u = v"
  shows "mirrors (hm_insert k u us, cs) (s\<lparr>users := hm_insert k v (users s)\<rparr>)"
  using assms by (simp add: mirrors_def)

lemma mirrors_user_state:
  assumes "mirrors (roster st) s" and "UserState_session p = Some k"
  shows "mirrors (roster (user_state_update p k st)) (apply_user_state p s)"
proof -
  let ?prev = "unwrap_or (UserEntry_new k) (hm_get (ss_users st) k)"
  have "hm_get (users s) k = map_option user_of (hm_get (ss_users st) k)"
    using assms(1) by (simp add: mirrors_def roster_def)
  then have "user_of ?prev = (case hm_get (users s) k of None \<Rightarrow> new_User k | Some v \<Rightarrow> v)"
    by (cases "hm_get (ss_users st) k") (simp_all add: user_of_new)
  moreover have "mirrors (ss_users st, ss_channels st) s" using assms(1) by (simp add: roster_def)
  note mirrors_insert_user [OF this user_of_merge [of p ?prev], of k]
  ultimately show ?thesis
    using assms(2) by (simp add: roster_def user_state_update_def apply_user_state_def hm_entry_modify_def Let_def)
qed

lemma mirrors_channel_state:
  assumes "mirrors (us, cs) s" and "ChannelState_channel_id p = Some k"
  shows "mirrors (us, hm_insert k (snd (apply_channel_state_fields p (unwrap_or (ChannelEntry_new k) (hm_get cs k)))) cs)
    (apply_channel_state p s)"
proof -
  let ?prev = "unwrap_or (ChannelEntry_new k) (hm_get cs k)"
  let ?old = "case hm_get (ServerState.channels s) k of None \<Rightarrow> new_Channel k | Some v \<Rightarrow> v"
  have "map_option channel_of (hm_get cs k) = map_option without_enter (hm_get (ServerState.channels s) k)"
    using assms(1) by (simp add: mirrors_def)
  then have "channel_of ?prev = without_enter ?old"
    by (auto simp: channel_of_new split: option.splits)
  then have "channel_of (snd (apply_channel_state_fields p ?prev)) = without_enter (merge_channel p ?old)"
    by (rule channel_of_merge)
  with assms show ?thesis by (simp add: mirrors_def apply_channel_state_def)
qed

lemma channel_of_permissions:
  "channel_of (c\<lparr>ce_permissions := x\<rparr>) = (channel_of c)\<lparr>Channel_permissions := x\<rparr>"
  "without_enter (d\<lparr>Channel_permissions := x\<rparr>) = (without_enter d)\<lparr>Channel_permissions := x\<rparr>"
  by (simp_all add: channel_of_def without_enter_def)

lemma mirrors_permissions:
  assumes "mirrors (us, cs) s"
  shows "mirrors (us, hm_get_mut k (\<lambda>c. c\<lparr>ce_permissions := x\<rparr>) cs)
      (s\<lparr>ServerState.channels := hm_get_mut k (\<lambda>c. c\<lparr>Channel_permissions := x\<rparr>) (ServerState.channels s)\<rparr>)"
    and "mirrors (us, hm_values_mut (\<lambda>c. c\<lparr>ce_permissions := x\<rparr>) cs)
      (s\<lparr>ServerState.channels := hm_values_mut (\<lambda>c. c\<lparr>Channel_permissions := x\<rparr>) (ServerState.channels s)\<rparr>)"
proof -
  have *: "map_option channel_of (map_option (\<lambda>c. c\<lparr>ce_permissions := x\<rparr>) (hm_get cs j)) =
      map_option without_enter (map_option (\<lambda>c. c\<lparr>Channel_permissions := x\<rparr>) (hm_get (ServerState.channels s) j))" for j
  proof -
    have "map_option channel_of (hm_get cs j) = map_option without_enter (hm_get (ServerState.channels s) j)"
      using assms by (simp add: mirrors_def)
    then show ?thesis
      by (cases "hm_get cs j"; cases "hm_get (ServerState.channels s) j") (simp_all add: channel_of_permissions)
  qed
  from assms * show "mirrors (us, hm_get_mut k (\<lambda>c. c\<lparr>ce_permissions := x\<rparr>) cs)
      (s\<lparr>ServerState.channels := hm_get_mut k (\<lambda>c. c\<lparr>Channel_permissions := x\<rparr>) (ServerState.channels s)\<rparr>)"
    by (simp add: mirrors_def)
  from assms * show "mirrors (us, hm_values_mut (\<lambda>c. c\<lparr>ce_permissions := x\<rparr>) cs)
      (s\<lparr>ServerState.channels := hm_values_mut (\<lambda>c. c\<lparr>Channel_permissions := x\<rparr>) (ServerState.channels s)\<rparr>)"
    by (simp add: mirrors_def)
qed

lemma mirrors_remove:
  assumes "mirrors (us, cs) s"
  shows "mirrors (hm_remove k us, cs) (remove_user k s)" and "mirrors (us, hm_remove k cs) (remove_channel k s)"
  using assms by (simp_all add: mirrors_def remove_user_def remove_channel_def)

lemma mirrors_cong:
  "users s' = users s \<Longrightarrow> ServerState.channels s' = ServerState.channels s \<Longrightarrow> mirrors r s' = mirrors r s"
  by (simp add: mirrors_def)

lemma mirrors_permission_query:
  assumes "mirrors (roster st) s"
  shows "mirrors (roster (fst (PermissionQuery_handle q st))) (apply_permission_query q s)"
proof -
  have flush: "unwrap_or False (PermissionQuery_flush q) \<longleftrightarrow> PermissionQuery_flush q = Some True"
    by (cases "PermissionQuery_flush q") simp_all
  from assms have m: "mirrors (ss_users st, ss_channels st) s" by (simp add: roster_def)
  show ?thesis
    using m mirrors_permissions(1) [OF m] mirrors_permissions(2) [OF m, of None]
      mirrors_permissions(1) [OF mirrors_permissions(2) [OF m, of None]]
    by (cases "PermissionQuery_flush q = Some True")
      (simp_all add: PermissionQuery_handle_def apply_permission_query_def Let_def roster_def flush split: option.split)
qed

lemma roster_user_state:
  assumes "UserState_session p = Some k"
  shows "roster (fst (UserState_handle env p st)) = roster (user_state_update p k st)"
proof -
  have own: "roster (fst (handle_own_channel_change ch s)) = roster s" for ch and s :: "'a SharedState"
    by (simp add: handle_own_channel_change_def mark_channel_fetched_def Let_def split: option.split)
  have remote: "roster (fst (handle_remote_channel_move env ch s)) = roster s" for ch and s :: "'a SharedState"
    using roster_check_share [of ch s]
    by (simp add: handle_remote_channel_move_def split_beta roster_send_distribution)
  show ?thesis
    using assms by (simp add: UserState_handle_def Let_def split_beta own remote split: option.split)
qed

lemma roster_sync: "ServerSync_handle env lib js fo fs m st = Some r \<Longrightarrow> roster (fst r) = roster (snd (apply_sync_state m st))"
proof -
  have restore: "roster (restore_messages ms s) = roster s" for ms and s :: "'a SharedState"
    unfolding restore_messages_def by (rule fold_frame) auto
  have "roster (fst x) = roster s" if "init_pchat env lib js fo fs s = Some x" for x and s :: "'a SharedState"
    using that by (auto simp: init_pchat_def restore split: option.splits sum.splits prod.splits)
  then show "ServerSync_handle env lib js fo fs m st = Some r \<Longrightarrow> ?thesis"
    by (auto simp: ServerSync_handle_def split: prod.splits)
qed

lemma mirrors_sync:
  assumes "mirrors (roster st) s"
  shows "mirrors (roster (snd (apply_sync_state m st))) (apply_server_sync m s)"
proof -
  let ?s = "s\<lparr>connection := (connection s)\<lparr>session_id := ServerSync_session m, max_bandwidth := ServerSync_max_bandwidth m,
    welcome_text := ServerSync_welcome_text m\<rparr>\<rparr>"
  have m: "mirrors (ss_users st, ss_channels st) ?s" using assms by (simp add: mirrors_def roster_def)
  show ?thesis
  proof (cases "ServerSync_permissions m")
    case None
    with m show ?thesis by (simp add: apply_sync_state_def apply_server_sync_def Let_def roster_def split: option.split)
  next
    case (Some perms)
    with mirrors_permissions(1) [OF m, of 0 "Some (ucast perms)"] show ?thesis
      by (simp add: apply_sync_state_def apply_server_sync_def Let_def roster_def split: option.split)
  qed
qed

text \<open>One control message seen by both sides; what happens after the server has removed us is not followed.\<close>

definition removes_us :: "ControlMessage \<Rightarrow> 'br SharedState \<Rightarrow> bool" where
  "removes_us msg st \<longleftrightarrow>
     (case msg of CM_UserRemove m \<Rightarrow> cf_own_session (ss_conn st) = Some (UserRemove_session m) | _ \<Rightarrow> False)"

lemma mirrors_frames:
  "mirrors r (apply_version v s) = mirrors r s" "mirrors r (record_tcp_ping fo t s) = mirrors r s"
  "mirrors r (s\<lparr>server_packet_stats := p\<rparr>) = mirrors r s"
  by (simp_all add: mirrors_def apply_version_def record_tcp_ping_def)

lemma roster_user_remove:
  "\<not> removes_us (CM_UserRemove m) st \<Longrightarrow>
   roster (fst (UserRemove_handle env m st)) = (hm_remove (UserRemove_session m) (ss_users st), ss_channels st)"
  by (simp add: removes_us_def UserRemove_handle_def depart_def set_pending_shares_def roster_def Let_def split: option.split)

lemma roster_channel_remove:
  "roster (fst (ChannelRemove_handle env m st)) = (ss_users st, hm_remove (ChannelRemove_channel_id m) (ss_channels st))"
  by (simp add: ChannelRemove_handle_def Let_def roster_def set_pchat_def split: option.split)

lemma roster_channel_state:
  "ChannelState_channel_id p = Some k \<Longrightarrow>
   roster (fst (ChannelState_handle p st)) =
     (ss_users st, hm_insert k (snd (apply_channel_state_fields p (unwrap_or (ChannelEntry_new k) (hm_get (ss_channels st) k))))
        (ss_channels st))"
proof -
  have pin: "roster (snd (update_pin k c s)) = roster s" for c and s :: "'a SharedState"
    by (simp add: update_pin_def split_beta split: option.split)
  assume "ChannelState_channel_id p = Some k"
  then show ?thesis by (simp add: ChannelState_handle_def Let_def split_beta pin) (simp add: roster_def)
qed

lemma mirrors_dispatch:
  assumes "dispatch D msg st = Some r" and "\<not> removes_us msg st" and "mirrors (roster st) (el_state s)"
  shows "mirrors (roster (fst r)) (el_state (handle_control_message L ev msg s))"
proof (cases msg)
  case (CM_ServerSync m)
  with assms roster_sync mirrors_sync show ?thesis
    by (fastforce simp: dispatch_def Let_def handle_control_message_def emit_def)
next
  case (CM_UserState m)
  show ?thesis
  proof (cases "UserState_session m")
    case None
    with assms CM_UserState show ?thesis
      by (auto simp: dispatch_def Let_def handle_control_message_def emit_def UserState_handle_def apply_user_state_def)
  next
    case (Some k)
    with assms CM_UserState mirrors_user_state [OF assms(3) Some] show ?thesis
      by (auto simp: dispatch_def Let_def handle_control_message_def emit_def roster_user_state)
  qed
next
  case (CM_ChannelState m)
  have m: "mirrors (ss_users st, ss_channels st) (el_state s)" using assms(3) by (simp add: roster_def)
  show ?thesis
  proof (cases "ChannelState_channel_id m")
    case None
    with assms CM_ChannelState show ?thesis
      by (auto simp: dispatch_def Let_def handle_control_message_def emit_def ChannelState_handle_def apply_channel_state_def)
  next
    case (Some k)
    with assms CM_ChannelState mirrors_channel_state [OF m Some] show ?thesis
      by (auto simp: dispatch_def Let_def handle_control_message_def emit_def roster_channel_state)
  qed
next
  case (CM_UserRemove m)
  then show ?thesis
    using assms(1,2) mirrors_remove(1) [of "ss_users st" "ss_channels st" "el_state s"] assms(3)
    by (auto simp: dispatch_def Let_def handle_control_message_def emit_def roster_user_remove roster_def [of st])
next
  case (CM_ChannelRemove m)
  then show ?thesis
    using assms(1) mirrors_remove(2) [of "ss_users st" "ss_channels st" "el_state s"] assms(3)
    by (auto simp: dispatch_def Let_def handle_control_message_def emit_def roster_channel_remove roster_def [of st])
next
  case (CM_PermissionQuery m)
  then show ?thesis
    using assms(1) mirrors_permission_query [OF assms(3)]
    by (auto simp: dispatch_def Let_def handle_control_message_def emit_def)
next
  case (CM_PchatKeyExchange m)
  with assms roster_key_exchange show ?thesis
    by (fastforce simp: dispatch_def Let_def handle_control_message_def emit_def PchatKeyExchange_handle_def)
qed (use assms(1,3) in \<open>auto simp: dispatch_def Let_def handle_control_message_def emit_def mirrors_frames roster_simps
    split: option.splits\<close>)

text \<open>A run of both sides over the messages of a connection, each with the surroundings it is handled in. It ends
  when a handler panics or the server removes us.\<close>

fun follow ::
    "libs \<Rightarrow> (('br, 'fs) dispatch_env \<times> env \<times> ControlMessage) list \<Rightarrow> 'br SharedState \<times> event_loop
      \<Rightarrow> ('br SharedState \<times> event_loop) option" where
  "follow L [] (st, s) = Some (st, s)"
| "follow L ((D, ev, msg) # msgs) (st, s) =
     (if removes_us msg st then None
      else case dispatch D msg st of
             None \<Rightarrow> None
           | Some (st', effs) \<Rightarrow> follow L msgs (st', handle_control_message L ev msg s))"

lemma mirrors_follow:
  "follow L msgs (st, s) = Some (st', s') \<Longrightarrow> mirrors (roster st) (el_state s) \<Longrightarrow> mirrors (roster st') (el_state s')"
proof (induction L msgs "(st, s)" arbitrary: st s rule: follow.induct)
  case (2 L D ev msg msgs st s)
  then obtain st1 effs where 1: "dispatch D msg st = Some (st1, effs)" "\<not> removes_us msg st"
    by (auto split: if_splits option.splits)
  from mirrors_dispatch [OF this 2(3), of L ev] 2(1) [OF 1(2,1) refl] 2(2) 1 show ?case by simp
qed simp

text \<open>C4: Whatever control messages a server sends, the users and channels that the application shows are those the
  protocol library tracks, field by field, until the server removes us.\<close>

theorem roster_mirrors_protocol:
  assumes "follow L msgs (st, s) = Some (st', s')"
    and "ss_users st = []" and "ss_channels st = []" and "el_state s = ServerState_new"
  shows "map_option user_of (hm_get (ss_users st') i) = hm_get (users (el_state s')) i \<and>
    map_option channel_of (hm_get (ss_channels st') k) = map_option without_enter (hm_get (ServerState.channels (el_state s')) k)"
proof -
  have "mirrors (roster st) (el_state s)" using assms(2-4) by (simp add: mirrors_def roster_def ServerState_new_def)
  from mirrors_follow [OF assms(1) this] show ?thesis by (simp add: mirrors_def roster_def)
qed

definition demo_surroundings :: "(unit, string \<rightharpoonup> bytes) dispatch_env" where
  "demo_surroundings =
     \<lparr>de_env = App_Text.demo_env, de_cache = demo_cache_lib, de_json = demo_key_json, de_files = demo_disk,
      de_fs = (\<lambda>n. None), de_f64 = (\<lambda>n. 0)\<rparr>"

definition demo_control :: "ControlMessage list" where
  "demo_control =
     [CM_UserState (default_UserState\<lparr>UserState_session := Some 5, UserState_name := Some ''bob'', UserState_channel_id := Some 2,
        UserState_comment := Some []\<rparr>),
      CM_ChannelState (default_ChannelState\<lparr>ChannelState_channel_id := Some 2, ChannelState_name := Some ''room'',
        ChannelState_can_enter := Some False\<rparr>)]"

lemmas demo_follow = demo_control_def demo_surroundings_def dispatch_def UserState_handle_def ChannelState_handle_def
  user_state_update_def apply_user_state_fields_def apply_channel_state_fields_def set_channel_outcome_def update_pin_def
  get_pchat_def emit_activity_logs_def handle_control_message_def emit_def apply_user_state_def apply_channel_state_def
  default_UserState_def default_ChannelState_def default_SharedState_def UserEntry_new_def ChannelEntry_new_def
  removes_us_def snapshot_of_def Let_def

theorem roster_mirrors_protocol_witness:
  "\<exists>st s. follow demo_libs (map (\<lambda>m. (demo_surroundings, Client_Udp.demo_env, m)) demo_control)
       (default_SharedState, demo_loop) = Some (st, s) \<and>
     map_option ue_name (hm_get (ss_users st) 5) = Some ''bob'' \<and>
     map_option user_of (hm_get (ss_users st) 5) = hm_get (users (el_state s)) 5 \<and>
     map_option channel_of (hm_get (ss_channels st) 2) = map_option without_enter (hm_get (ServerState.channels (el_state s)) 2)"
proof -
  let ?run = "follow demo_libs (map (\<lambda>m. (demo_surroundings, Client_Udp.demo_env, m)) demo_control)
       (default_SharedState, demo_loop)"
  have "\<exists>st s. ?run = Some (st, s) \<and> map_option ue_name (hm_get (ss_users st) 5) = Some ''bob''"
    by (simp add: demo_follow)
  then obtain st s where run: "?run = Some (st, s)" and bob: "map_option ue_name (hm_get (ss_users st) 5) = Some ''bob''"
    by blast
  have "el_state demo_loop = ServerState_new" by (simp add: demo_loop_def event_loop_init_def)
  with roster_mirrors_protocol [OF run, of 5 2] run bob show ?thesis by (simp add: default_SharedState_def)
qed

end
