(* ===== verification/App_Commands.thy ===== *)
theory App_Commands
  imports App_Dispatch
begin

text \<open>
  The commands of the user interface on the active session (src/crates/mumble-tauri/src/state: channels.rs,
  messaging/mod.rs, messaging/dm.rs, messaging/unreads.rs, profile.rs, admin.rs, protocol_commands.rs,
  query.rs).

  A command takes the handle of the client out of the state and sends through it. Sending fails once the
  event loop has ended: \<open>sender h n\<close> is the text of the error of the \<open>n\<close>-th send through \<open>h\<close>, if it fails.
\<close>

section \<open>Sending\<close>

type_synonym sender = "client_handle \<Rightarrow> nat \<Rightarrow> string option"

definition active :: "'br AppState \<Rightarrow> 'br SharedState" where
  "active a = as_heap a (as_inner a)"

definition on_active :: "('br SharedState \<Rightarrow> 'br SharedState) \<Rightarrow> 'br AppState \<Rightarrow> 'br AppState" where
  "on_active f a = update_cell (as_inner a) f a"

definition active_handle :: "'br AppState \<Rightarrow> client_handle option" where
  "active_handle a = cf_client_handle (ss_conn (active a))"

definition emit_through :: "'br AppState \<Rightarrow> ui_event \<Rightarrow> app_effect list" where
  "emit_through a ev = (if as_app_handle a then [Emit ev] else [])"

text \<open>Commands in order, each with the prefix of its error; the first failure ends the sequence.\<close>

fun send_seq :: "sender \<Rightarrow> client_handle \<Rightarrow> nat \<Rightarrow> (string \<times> BoxedCommand) list \<Rightarrow> (string + unit) \<times> app_effect list" where
  "send_seq sndr h n [] = (Inr (), [])"
| "send_seq sndr h n ((prefix, cmd) # cmds) =
     (case sndr h n of
        Some e \<Rightarrow> (Inl (prefix @ e), [])
      | None \<Rightarrow> (case send_seq sndr h (n + 1) cmds of (r, effs) \<Rightarrow> (r, Send h cmd # effs)))"

definition send_commands ::
    "sender \<Rightarrow> (string \<times> BoxedCommand) list \<Rightarrow> 'br AppState \<Rightarrow> (string + unit) \<times> app_effect list" where
  "send_commands sndr cmds a =
     (case active_handle a of
        None \<Rightarrow> (Inl ''Not connected'', [])
      | Some h \<Rightarrow> send_seq sndr h 0 cmds)"

text \<open>\<^verbatim>\<open>let _ = handle.send(..).await\<close>: failures are ignored.\<close>

definition send_quietly :: "sender \<Rightarrow> BoxedCommand list \<Rightarrow> 'br AppState \<Rightarrow> app_effect list" where
  "send_quietly sndr cmds a =
     (case active_handle a of
        None \<Rightarrow> []
      | Some h \<Rightarrow> map (\<lambda>(n, cmd). Send h cmd) (filter (\<lambda>(n, cmd). sndr h n = None) (List.enumerate 0 cmds)))"

section \<open>Channels\<close>

definition emit_unreads :: "'br AppState \<Rightarrow> app_effect list" where
  "emit_unreads a = emit_through a (Ev_unread_changed \<lparr>up_unreads = channel_unread (ss_msgs (active a))\<rparr>)"

definition emit_dm_unreads :: "'br AppState \<Rightarrow> app_effect list" where
  "emit_dm_unreads a = emit_through a (Ev_dm_unread_changed \<lparr>du_unreads = dm_unread (ss_msgs (active a))\<rparr>)"

definition select_channel :: "sender \<Rightarrow> u32 \<Rightarrow> 'br AppState \<Rightarrow> 'br AppState \<times> app_effect list" where
  "select_channel sndr channel_id a =
     (let a1 = on_active (\<lambda>s. s\<lparr>ss_selected_channel := Some channel_id,
             ss_msgs := (ss_msgs s)\<lparr>selected_dm_user := None,
               channel_unread := hm_remove channel_id (channel_unread (ss_msgs s))\<rparr>\<rparr>) a
      in (a1, emit_unreads a1 @ send_quietly sndr [Cmd_PermissionQuery channel_id] a1))"

definition join_channel :: "sender \<Rightarrow> u32 \<Rightarrow> 'br AppState \<Rightarrow> 'br AppState \<times> app_effect list" where
  "join_channel sndr channel_id a =
     (let a1 = on_active (\<lambda>s. s\<lparr>ss_current_channel := Some channel_id\<rparr>) a
      in (a1, send_quietly sndr [Cmd_JoinChannel channel_id, Cmd_PermissionQuery channel_id] a1 @
              emit_through a1 (Ev_current_channel_changed \<lparr>cu_channel_id = channel_id\<rparr>)))"

text \<open>The permission to listen is the bit 0x800.\<close>

definition no_listen_perm :: "'br SharedState \<Rightarrow> u32 \<Rightarrow> bool" where
  "no_listen_perm st channel_id =
     (case hm_get (ss_channels st) channel_id of
        None \<Rightarrow> False
      | Some ch \<Rightarrow> (case ce_permissions ch of None \<Rightarrow> False | Some p \<Rightarrow> p AND 0x800 = 0))"

text \<open>A change for the selected channel is not sent.\<close>

definition toggle_listen ::
    "sender \<Rightarrow> u32 \<Rightarrow> 'br AppState \<Rightarrow> (string + bool) \<times> 'br AppState \<times> app_effect list" where
  "toggle_listen sndr channel_id a =
     (let st = active a;
          listened = (channel_id \<in> ss_permanently_listened st);
          is_selected = (ss_selected_channel st = Some channel_id)
      in if \<not> listened \<and> no_listen_perm st channel_id
         then (Inl ''You do not have permission to listen to this channel'', a, [])
         else if listened
         then (Inr False, on_active (\<lambda>s. s\<lparr>ss_permanently_listened := ss_permanently_listened s - {channel_id}\<rparr>) a,
               if is_selected then [] else send_quietly sndr [Cmd_ChannelListen [] [channel_id]] a)
         else (Inr True, on_active (\<lambda>s. s\<lparr>ss_permanently_listened := insert channel_id (ss_permanently_listened s)\<rparr>) a,
               if is_selected then [] else send_quietly sndr [Cmd_ChannelListen [channel_id] []] a))"

definition update_channel ::
    "sender \<Rightarrow> u32 \<Rightarrow> string option \<Rightarrow> string option \<Rightarrow> i32 option \<Rightarrow> bool option \<Rightarrow> u32 option \<Rightarrow> string option \<Rightarrow> u32 option
      \<Rightarrow> u32 option \<Rightarrow> 'br AppState \<Rightarrow> (string + unit) \<times> app_effect list" where
  "update_channel sndr channel_id name description pos temporary max_users protocol max_history retention =
     send_commands sndr [([], Cmd_SetChannelState (Some channel_id) None name description pos temporary max_users
       (map_option parse_pchat_protocol_str protocol) max_history retention)]"

definition delete_channel :: "sender \<Rightarrow> u32 \<Rightarrow> 'br AppState \<Rightarrow> (string + unit) \<times> app_effect list" where
  "delete_channel sndr channel_id = send_commands sndr [([], Cmd_DeleteChannel channel_id)]"

definition create_channel ::
    "sender \<Rightarrow> u32 \<Rightarrow> string \<Rightarrow> string option \<Rightarrow> i32 option \<Rightarrow> bool option \<Rightarrow> u32 option \<Rightarrow> string option \<Rightarrow> u32 option
      \<Rightarrow> u32 option \<Rightarrow> 'br AppState \<Rightarrow> (string + unit) \<times> app_effect list" where
  "create_channel sndr parent_id name description pos temporary max_users protocol max_history retention =
     send_commands sndr [([], Cmd_SetChannelState None (Some parent_id) (Some name) description pos temporary max_users
       (map_option parse_pchat_protocol_str protocol) max_history retention)]"

section \<open>Unread counts\<close>

definition mark_read :: "u32 \<Rightarrow> 'br AppState \<Rightarrow> 'br AppState \<times> app_effect list" where
  "mark_read channel_id a =
     (let a1 = on_active (\<lambda>s. s\<lparr>ss_msgs := (ss_msgs s)\<lparr>channel_unread := hm_remove channel_id (channel_unread (ss_msgs s))\<rparr>\<rparr>) a
      in (a1, emit_unreads a1))"

definition mark_dm_read :: "u32 \<Rightarrow> 'br AppState \<Rightarrow> 'br AppState \<times> app_effect list" where
  "mark_dm_read session a =
     (let a1 = on_active (\<lambda>s. s\<lparr>ss_msgs := (ss_msgs s)\<lparr>dm_unread := hm_remove session (dm_unread (ss_msgs s))\<rparr>\<rparr>) a
      in (a1, emit_dm_unreads a1))"

definition select_dm_user :: "u32 \<Rightarrow> 'br AppState \<Rightarrow> 'br AppState \<times> app_effect list" where
  "select_dm_user session a =
     (let a1 = on_active (\<lambda>s. s\<lparr>ss_selected_channel := None,
             ss_msgs := (ss_msgs s)\<lparr>selected_dm_user := Some session,
               dm_unread := hm_remove session (dm_unread (ss_msgs s))\<rparr>\<rparr>) a
      in (a1, emit_dm_unreads a1))"

section \<open>Messages\<close>

record OwnMessageData =
  od_channel_id :: u32
  od_own_session :: "u32 option"
  od_own_name :: string
  od_own_hash :: "string option"
  od_body :: string
  od_message_id :: "string option"
  od_timestamp :: "u64 option"
  od_pchat_protocol :: "PchatProtocol option"

text \<open>Our own message, in a channel or in the conversation \<open>dm\<close>.\<close>

definition own_message :: "string \<Rightarrow> u32 option \<Rightarrow> OwnMessageData \<Rightarrow> ChatMessage" where
  "own_message uuid dm d =
     ensure_id uuid \<lparr>cm_sender_session = od_own_session d, cm_sender_name = od_own_name d, cm_sender_hash = od_own_hash d,
       cm_body = od_body d, cm_channel_id = od_channel_id d, cm_is_own = True, cm_dm_session = dm,
       cm_message_id = od_message_id d, cm_timestamp = od_timestamp d, cm_is_legacy = False, cm_edited_at = None,
       cm_pinned = False, cm_pinned_by = None, cm_pinned_at = None\<rparr>"

definition cache_own_signal_message :: "ChatMessage \<Rightarrow> u32 \<Rightarrow> 'br SharedState \<Rightarrow> 'br SharedState" where
  "cache_own_signal_message msg channel_id st =
     (case get_pchat st of
        None \<Rightarrow> st
      | Some p \<Rightarrow>
          set_pchat (cache_signal_message
            \<lparr>lm_message_id = unwrap_or [] (cm_message_id msg), lm_channel_id = channel_id,
             lm_timestamp = unwrap_or 0 (cm_timestamp msg), lm_sender_hash = ps_own_cert_hash p,
             lm_sender_name = cm_sender_name msg, lm_body = cm_body msg, lm_is_own = True\<rparr> p) st)"

definition store_own_message :: "string \<Rightarrow> OwnMessageData \<Rightarrow> 'br SharedState \<Rightarrow> 'br SharedState" where
  "store_own_message uuid d st =
     (let msg = own_message uuid None d;
          st = (if od_pchat_protocol d = Some PP_SignalV1 then cache_own_signal_message msg (od_channel_id d) st else st);
          ms = ss_msgs st
      in st\<lparr>ss_msgs := ms\<lparr>by_channel := hm_entry_modify (od_channel_id d) [] (push_capped msg) (by_channel ms)\<rparr>\<rparr>)"

text \<open>\<open>Inr None\<close>: there is nothing to encrypt with.\<close>

definition build_pchat_encrypted ::
    "'br app_env \<Rightarrow> OutboundMessage \<Rightarrow> 'br SharedState
      \<Rightarrow> (string + (PchatMessage \<times> client_handle) option) \<times> 'br SharedState" where
  "build_pchat_encrypted env om st =
     (case (get_pchat st, cf_client_handle (ss_conn st)) of
        (Some p, Some client) \<Rightarrow>
          let p = (if om_protocol om = PP_SignalV1 \<and> \<not> ps_signal_bridge p \<and> \<not> ps_signal_bridge_load_failed p
                   then snd (ensure_signal_bridge env p) else p)
          in (case build_encrypted_message env om p of
                (Inr m, p') \<Rightarrow> (Inr (Some (m, client)), set_pchat p' st)
              | (Inl e, p') \<Rightarrow> (Inl (''Encryption failed: '' @ e), set_pchat p' st))
      | _ \<Rightarrow> (Inr None, st))"

definition prebuilt_pchat_message ::
    "'br app_env \<Rightarrow> PchatProtocol option \<Rightarrow> string option \<Rightarrow> u32 \<Rightarrow> string \<Rightarrow> string \<Rightarrow> u64 \<Rightarrow> 'br SharedState
      \<Rightarrow> (string + (PchatMessage \<times> client_handle) option) \<times> 'br SharedState" where
  "prebuilt_pchat_message env protocol message_id channel_id body own_name now st =
     (case (protocol, message_id) of
        (Some p, Some i) \<Rightarrow>
          if is_encrypted p
          then build_pchat_encrypted env
                 \<lparr>om_channel_id = channel_id, om_protocol = p, om_message_id = i, om_body = body, om_sender_name = own_name,
                  om_sender_session = unwrap_or 0 (cf_own_session (ss_conn st)), om_timestamp = now\<rparr> st
          else (Inr None, st)
      | _ \<Rightarrow> (Inr None, st))"

definition own_data :: "'br app_env \<Rightarrow> u32 \<Rightarrow> string \<Rightarrow> 'br SharedState \<Rightarrow> OwnMessageData" where
  "own_data env channel_id body st =
     (let is_fancy = (md_fancy_version (ss_server st) \<noteq> None)
      in \<lparr>od_channel_id = channel_id, od_own_session = cf_own_session (ss_conn st), od_own_name = cf_own_name (ss_conn st),
          od_own_hash = own_hash st, od_body = body,
          od_message_id = (if is_fancy then Some (env_uuid env 0) else None),
          od_timestamp = (if is_fancy then Some (env_now_ms env) else None),
          od_pchat_protocol = channel_protocol st channel_id\<rparr>)"

definition text_body :: "OwnMessageData \<Rightarrow> 'br SharedState \<Rightarrow> string" where
  "text_body d st =
     (if (case od_pchat_protocol d of None \<Rightarrow> False | Some p \<Rightarrow> is_encrypted p) \<and> pr_disable_dual_path (ss_prefs st)
      then ''[Encrypted message]'' else od_body d)"

text \<open>\<^verbatim>\<open>send_message\<close> up to its last \<^verbatim>\<open>await\<close>: what is left is to store the message in the session that is
  active then.\<close>

definition send_message ::
    "'br app_env \<Rightarrow> sender \<Rightarrow> u32 \<Rightarrow> string \<Rightarrow> 'br AppState \<Rightarrow> (string + OwnMessageData) \<times> 'br AppState \<times> app_effect list" where
  "send_message env sndr channel_id body a =
     (let st = active a; d = own_data env channel_id body st
      in case cf_client_handle (ss_conn st) of
           None \<Rightarrow> (Inl ''Not connected'', a, [])
         | Some h \<Rightarrow>
             (case prebuilt_pchat_message env (od_pchat_protocol d) (od_message_id d) channel_id body (od_own_name d)
                     (env_now_ms env) st of
                (Inl e, st') \<Rightarrow> (Inl e, on_active (\<lambda>_. st') a, [])
              | (Inr pre, st') \<Rightarrow>
                  let a' = on_active (\<lambda>_. st') a
                  in (case sndr h 0 of
                        Some e \<Rightarrow> (Inl (''Failed to send message: '' @ e), a', [])
                      | None \<Rightarrow>
                          (Inr d, a',
                           Send h (Cmd_SendTextMessage [channel_id] [] [] (text_body d st) (od_message_id d) (od_timestamp d) None) #
                           (case pre of
                              Some (m, client) \<Rightarrow> if sndr client 1 = None then [Send client (Cmd_SendPchatMessage m)] else []
                            | None \<Rightarrow> [])))))"

definition send_message_finish :: "'br app_env \<Rightarrow> OwnMessageData \<Rightarrow> 'br AppState \<Rightarrow> 'br AppState" where
  "send_message_finish env d = on_active (store_own_message (env_uuid env 1) d)"

definition edit_message ::
    "'br app_env \<Rightarrow> sender \<Rightarrow> u32 \<Rightarrow> string \<Rightarrow> string \<Rightarrow> 'br AppState \<Rightarrow> (string + unit) \<times> 'br AppState \<times> app_effect list" where
  "edit_message env sndr channel_id message_id new_body a =
     (case active_handle a of
        None \<Rightarrow> (Inl ''Not connected'', a, [])
      | Some h \<Rightarrow>
          if md_fancy_version (ss_server (active a)) = None
          then (Inl ''Message editing requires a Fancy Mumble server'', a, [])
          else case send_seq sndr h 0 [(''Failed to send edit: '', Cmd_SendTextMessage [channel_id] [] [] new_body
                        (Some (env_uuid env 0)) (Some (env_now_ms env)) (Some message_id))] of
                 (Inl e, effs) \<Rightarrow> (Inl e, a, effs)
               | (Inr u, effs) \<Rightarrow>
                   (Inr (), on_active (\<lambda>s. s\<lparr>ss_msgs := (ss_msgs s)\<lparr>by_channel := hm_get_mut channel_id
                       (update_first (has_id message_id) (\<lambda>m. m\<lparr>cm_body := new_body, cm_edited_at := Some (env_now_ms env)\<rparr>))
                       (by_channel (ss_msgs s))\<rparr>\<rparr>) a, effs))"

definition send_dm ::
    "'br app_env \<Rightarrow> sender \<Rightarrow> u32 \<Rightarrow> string \<Rightarrow> 'br AppState \<Rightarrow> (string + unit) \<times> 'br AppState \<times> app_effect list" where
  "send_dm env sndr target_session body a =
     (let d = (own_data env 0 body (active a))\<lparr>od_pchat_protocol := None\<rparr>
      in case active_handle a of
           None \<Rightarrow> (Inl ''Not connected'', a, [])
         | Some h \<Rightarrow>
             (case send_seq sndr h 0 [(''Failed to send DM: '',
                     Cmd_SendTextMessage [] [target_session] [] body (od_message_id d) (od_timestamp d) None)] of
                (Inl e, effs) \<Rightarrow> (Inl e, a, effs)
              | (Inr u, effs) \<Rightarrow>
                  (Inr (), on_active (\<lambda>s. s\<lparr>ss_msgs := (ss_msgs s)\<lparr>by_dm := hm_entry_modify target_session []
                      (push_capped (own_message (env_uuid env 1) (Some target_session) d)) (by_dm (ss_msgs s))\<rparr>\<rparr>) a, effs)))"

definition fetch_older_messages ::
    "sender \<Rightarrow> u32 \<Rightarrow> string option \<Rightarrow> u32 \<Rightarrow> 'br AppState \<Rightarrow> (string + unit) \<times> app_effect list" where
  "fetch_older_messages sndr channel_id before_id limit =
     send_commands sndr [(''send pchat-fetch: '', Cmd_SendPchatFetch
       \<lparr>PchatFetch_channel_id = Some channel_id, PchatFetch_before_id = before_id, PchatFetch_limit = Some limit,
        PchatFetch_after_id = None\<rparr>)]"

section \<open>The profile\<close>

definition set_own_user ::
    "sender \<Rightarrow> BoxedCommand \<Rightarrow> (UserEntry \<Rightarrow> UserEntry) \<Rightarrow> 'br AppState \<Rightarrow> (string + unit) \<times> 'br AppState \<times> app_effect list" where
  "set_own_user sndr cmd f a =
     (case send_commands sndr [([], cmd)] a of
        (Inl e, effs) \<Rightarrow> (Inl e, a, effs)
      | (Inr u, effs) \<Rightarrow>
          (case cf_own_session (ss_conn (active a)) of
             None \<Rightarrow> (Inr (), a, effs)
           | Some session \<Rightarrow>
               (Inr (), on_active (\<lambda>s. s\<lparr>ss_users := hm_get_mut session f (ss_users s)\<rparr>) a,
                effs @ emit_through a Ev_state_changed)))"

definition set_user_comment ::
    "sender \<Rightarrow> string \<Rightarrow> 'br AppState \<Rightarrow> (string + unit) \<times> 'br AppState \<times> app_effect list" where
  "set_user_comment sndr comment =
     set_own_user sndr (Cmd_SetComment comment) (\<lambda>u. u\<lparr>ue_comment := if comment = [] then None else Some comment\<rparr>)"

definition set_user_texture ::
    "sender \<Rightarrow> bytes \<Rightarrow> 'br AppState \<Rightarrow> (string + unit) \<times> 'br AppState \<times> app_effect list" where
  "set_user_texture sndr texture =
     set_own_user sndr (Cmd_SetTexture texture) (\<lambda>u. u\<lparr>ue_texture := if texture = [] then None else Some texture\<rparr>)"

section \<open>Administration\<close>

type_synonym 'br command_result = "'br AppState \<Rightarrow> (string + unit) \<times> app_effect list"

definition kick_user :: "sender \<Rightarrow> u32 \<Rightarrow> string option \<Rightarrow> 'br command_result" where
  "kick_user sndr session reason = send_commands sndr [([], Cmd_KickUser session reason)]"

definition ban_user :: "sender \<Rightarrow> u32 \<Rightarrow> string option \<Rightarrow> 'br command_result" where
  "ban_user sndr session reason = send_commands sndr [([], Cmd_BanUser session reason)]"

definition register_user :: "sender \<Rightarrow> u32 \<Rightarrow> 'br command_result" where
  "register_user sndr session = send_commands sndr [([], Cmd_RegisterUser session)]"

definition mute_user :: "sender \<Rightarrow> u32 \<Rightarrow> bool \<Rightarrow> 'br command_result" where
  "mute_user sndr session muted = send_commands sndr [([], Cmd_SetUserMute session muted)]"

definition deafen_user :: "sender \<Rightarrow> u32 \<Rightarrow> bool \<Rightarrow> 'br command_result" where
  "deafen_user sndr session deafened = send_commands sndr [([], Cmd_SetUserDeaf session deafened)]"

definition set_priority_speaker :: "sender \<Rightarrow> u32 \<Rightarrow> bool \<Rightarrow> 'br command_result" where
  "set_priority_speaker sndr session priority = send_commands sndr [([], Cmd_SetPrioritySpeaker session priority)]"

definition reset_user_comment :: "sender \<Rightarrow> u32 \<Rightarrow> 'br command_result" where
  "reset_user_comment sndr session = send_commands sndr [([], Cmd_ResetUserComment session)]"

definition remove_user_avatar :: "sender \<Rightarrow> u32 \<Rightarrow> 'br command_result" where
  "remove_user_avatar sndr session = send_commands sndr [([], Cmd_RemoveUserAvatar session)]"

definition move_user :: "sender \<Rightarrow> u32 \<Rightarrow> u32 \<Rightarrow> 'br command_result" where
  "move_user sndr session channel_id = send_commands sndr [([], Cmd_MoveUser session channel_id)]"

definition request_user_stats :: "sender \<Rightarrow> u32 \<Rightarrow> 'br command_result" where
  "request_user_stats sndr session = send_commands sndr [([], Cmd_RequestUserStats session)]"

definition request_user_list :: "sender \<Rightarrow> 'br command_result" where
  "request_user_list sndr = send_commands sndr [([], Cmd_RequestUserList)]"

definition request_user_comment :: "sender \<Rightarrow> u32 \<Rightarrow> 'br command_result" where
  "request_user_comment sndr user_id = send_commands sndr [([], Cmd_RequestBlob [] [] [] [user_id])]"

record RegisteredUserUpdate =
  ru_user_id :: u32
  ru_name :: "string option"

definition update_user_list :: "sender \<Rightarrow> RegisteredUserUpdate list \<Rightarrow> 'br command_result" where
  "update_user_list sndr us =
     send_commands sndr [([], Cmd_UpdateUserList
       (map (\<lambda>u. \<lparr>UserListEntry_user_id = ru_user_id u, UserListEntry_name = ru_name u\<rparr>) us))]"

definition request_ban_list :: "sender \<Rightarrow> 'br command_result" where
  "request_ban_list sndr = send_commands sndr [([], Cmd_RequestBanList)]"

definition request_acl :: "sender \<Rightarrow> u32 \<Rightarrow> 'br command_result" where
  "request_acl sndr channel_id = send_commands sndr [([], Cmd_RequestAcl channel_id)]"

record AclGroupInput =
  gi_name :: string
  gi_inherited :: bool
  gi_inherit :: bool
  gi_inheritable :: bool
  gi_add :: "u32 list"
  gi_remove :: "u32 list"
  gi_inherited_members :: "u32 list"
  gi_color :: "string option"
  gi_icon :: "bytes option"
  gi_style_preset :: "string option"
  gi_metadata :: "(string, string) hash_map"

record AclEntryInput =
  ei_apply_here :: bool
  ei_apply_subs :: bool
  ei_inherited :: bool
  ei_user_id :: "u32 option"
  ei_group :: "string option"
  ei_grant :: u32
  ei_deny :: u32

record AclInput =
  ai_channel_id :: u32
  ai_inherit_acls :: bool
  ai_groups :: "AclGroupInput list"
  ai_acls :: "AclEntryInput list"

definition acl_group_proto :: "AclGroupInput \<Rightarrow> Acl_ChanGroup" where
  "acl_group_proto g =
     \<lparr>Acl_ChanGroup_name = gi_name g, Acl_ChanGroup_inherited = Some (gi_inherited g),
      Acl_ChanGroup_inherit = Some (gi_inherit g), Acl_ChanGroup_inheritable = Some (gi_inheritable g),
      Acl_ChanGroup_add = gi_add g, Acl_ChanGroup_remove = gi_remove g,
      Acl_ChanGroup_inherited_members = gi_inherited_members g, Acl_ChanGroup_color = gi_color g,
      Acl_ChanGroup_icon = gi_icon g, Acl_ChanGroup_style_preset = gi_style_preset g,
      Acl_ChanGroup_metadata =
        map (\<lambda>(k, v). \<lparr>Acl_ChanGroup_KeyValue_key = k, Acl_ChanGroup_KeyValue_value = Some v\<rparr>) (gi_metadata g)\<rparr>"

definition acl_entry_proto :: "AclEntryInput \<Rightarrow> Acl_ChanAcl" where
  "acl_entry_proto e =
     \<lparr>Acl_ChanAcl_apply_here = Some (ei_apply_here e), Acl_ChanAcl_apply_subs = Some (ei_apply_subs e),
      Acl_ChanAcl_inherited = Some (ei_inherited e), Acl_ChanAcl_user_id = ei_user_id e, Acl_ChanAcl_group = ei_group e,
      Acl_ChanAcl_grant = Some (ei_grant e), Acl_ChanAcl_deny = Some (ei_deny e)\<rparr>"

definition update_acl :: "sender \<Rightarrow> AclInput \<Rightarrow> 'br command_result" where
  "update_acl sndr acl =
     send_commands sndr [([], Cmd_SendAcl (ai_channel_id acl) (ai_inherit_acls acl) (map acl_group_proto (ai_groups acl))
       (map acl_entry_proto (ai_acls acl)))]"

section \<open>Protocol commands\<close>

definition parse_source_kind :: "string \<Rightarrow> i32 option" where
  "parse_source_kind s = (if s = ''directMedia'' then Some 0 else if s = ''youtube'' then Some 1 else None)"

definition parse_playback_state :: "string \<Rightarrow> i32 option" where
  "parse_playback_state s =
     (if s = ''paused'' then Some 0 else if s = ''playing'' then Some 1 else if s = ''ended'' then Some 2 else None)"

text \<open>\<^verbatim>\<open>WatchSyncEventArg\<close> has the variants of the event that is reported to the user interface.\<close>

fun into_proto :: "WatchSyncEvent \<Rightarrow> FancyWatchSync_Event" where
  "into_proto (WSE_Start channel_id source_url source_kind title host_session) =
     FancyWatchSync_Event_Start
       \<lparr>FancyWatchSync_Start_channel_id = channel_id, FancyWatchSync_Start_source_url = source_url,
        FancyWatchSync_Start_source_kind = Option.bind source_kind parse_source_kind,
        FancyWatchSync_Start_title = title, FancyWatchSync_Start_host_session = host_session\<rparr>"
| "into_proto (WSE_State state current_time updated_at_ms host_session) =
     FancyWatchSync_Event_State
       \<lparr>FancyWatchSync_State_state = Option.bind state parse_playback_state,
        FancyWatchSync_State_current_time = current_time, FancyWatchSync_State_updated_at_ms = updated_at_ms,
        FancyWatchSync_State_host_session = host_session\<rparr>"
| "into_proto (WSE_Join session) = FancyWatchSync_Event_Join \<lparr>FancyWatchSync_Member_session = session\<rparr>"
| "into_proto (WSE_Leave session) = FancyWatchSync_Event_Leave \<lparr>FancyWatchSync_Member_session = session\<rparr>"
| "into_proto WSE_StateRequest = FancyWatchSync_Event_StateRequest FancyWatchSync_StateRequest"
| "into_proto WSE_End = FancyWatchSync_Event_End FancyWatchSync_End"
| "into_proto (WSE_HostTransfer s) =
     FancyWatchSync_Event_HostTransfer \<lparr>FancyWatchSync_HostTransfer_new_host_session = s\<rparr>"

definition send_plugin_data :: "sender \<Rightarrow> u32 list \<Rightarrow> bytes \<Rightarrow> string \<Rightarrow> 'br command_result" where
  "send_plugin_data sndr receivers data data_id =
     send_commands sndr [(''Failed to send plugin data: '', Cmd_SendPluginData receivers data data_id)]"

definition send_push_update :: "sender \<Rightarrow> u32 list \<Rightarrow> 'br command_result" where
  "send_push_update sndr muted =
     send_commands sndr [(''Failed to send push update: '', Cmd_SendFancyPushUpdate muted),
       (''Failed to send subscribe push update: '', Cmd_SendFancySubscribePush muted)]"

definition send_subscribe_push :: "sender \<Rightarrow> u32 list \<Rightarrow> 'br command_result" where
  "send_subscribe_push sndr muted =
     send_commands sndr [(''Failed to send subscribe push: '', Cmd_SendFancySubscribePush muted)]"

definition send_typing_indicator :: "sender \<Rightarrow> u32 \<Rightarrow> 'br command_result" where
  "send_typing_indicator sndr channel_id =
     send_commands sndr [(''Failed to send typing indicator: '', Cmd_SendTypingIndicator channel_id)]"

definition send_watch_sync :: "sender \<Rightarrow> string \<Rightarrow> WatchSyncEvent \<Rightarrow> 'br command_result" where
  "send_watch_sync sndr watch_id event =
     send_commands sndr [(''Failed to send watch-sync: '', Cmd_SendWatchSync
       \<lparr>FancyWatchSync_session_id = Some watch_id, FancyWatchSync_actor = None,
        FancyWatchSync_event = Some (into_proto event)\<rparr>)]"

definition send_draw_stroke ::
    "sender \<Rightarrow> u32 \<Rightarrow> string \<Rightarrow> u32 \<Rightarrow> f32 \<Rightarrow> f32 option \<Rightarrow> f32 list \<Rightarrow> bool \<Rightarrow> bool \<Rightarrow> bool \<Rightarrow> 'br command_result" where
  "send_draw_stroke sndr channel_id stroke_id color width width_frac points is_end is_clear clear_everything =
     send_commands sndr [(''Failed to send draw stroke: '',
       Cmd_SendDrawStroke channel_id stroke_id color width width_frac points is_end is_clear clear_everything)]"

definition request_link_preview :: "sender \<Rightarrow> string list \<Rightarrow> string \<Rightarrow> 'br command_result" where
  "request_link_preview sndr urls request_id =
     send_commands sndr [(''Failed to request link preview: '', Cmd_RequestLinkPreview urls request_id)]"

definition send_read_receipt :: "sender \<Rightarrow> u32 \<Rightarrow> string \<Rightarrow> 'br command_result" where
  "send_read_receipt sndr channel_id last_read =
     send_commands sndr [(''Failed to send read receipt: '', Cmd_SendReadReceipt channel_id (Some last_read) False None)]"

definition query_read_receipts :: "sender \<Rightarrow> u32 \<Rightarrow> 'br command_result" where
  "query_read_receipts sndr channel_id =
     send_commands sndr [(''Failed to query read receipts: '', Cmd_SendReadReceipt channel_id None True None)]"

text \<open>Parsing the identifier of a server, which is one of the library uuid, is the argument \<open>parse_id\<close>.\<close>

definition send_webrtc_signal ::
    "(string \<Rightarrow> string + string) \<Rightarrow> sender \<Rightarrow> u32 \<Rightarrow> i32 \<Rightarrow> string \<Rightarrow> string option \<Rightarrow> 'br command_result" where
  "send_webrtc_signal parse_id sndr target signal_type payload server_id a =
     (let cmds = [(''Failed to send WebRTC signal: '', Cmd_SendWebRtcSignal target signal_type payload)]
      in case server_id of
           None \<Rightarrow> send_commands sndr cmds a
         | Some s \<Rightarrow>
             (case parse_id s of
                Inl e \<Rightarrow> (Inl (''invalid server_id: '' @ e), [])
              | Inr i \<Rightarrow>
                  (case registry_session a i of
                     None \<Rightarrow> (Inl (''unknown server_id: '' @ s), [])
                   | Some c \<Rightarrow> send_commands sndr cmds (a\<lparr>as_inner := c\<rparr>))))"

definition bytes_of_string :: "string \<Rightarrow> bytes" where
  "bytes_of_string s = map (\<lambda>c. of_nat (of_char c)) s"

definition reaction_emoji :: "string \<Rightarrow> PchatReaction_Emoji" where
  "reaction_emoji emoji =
     (if take 1 emoji = '':'' \<and> drop (length emoji - 1) emoji = '':'' \<and> length emoji > 2
      then PchatReaction_Emoji_ServerEmoji
             \<lparr>ServerEmoji_shortcode = Some (bytes_of_string (take (length emoji - 2) (drop 1 emoji)))\<rparr>
      else PchatReaction_Emoji_UnicodeEmoji \<lparr>UnicodeEmoji_grapheme = Some emoji\<rparr>)"

definition send_reaction :: "sender \<Rightarrow> u32 \<Rightarrow> string \<Rightarrow> string \<Rightarrow> string \<Rightarrow> 'br command_result" where
  "send_reaction sndr channel_id message_id emoji action =
     send_commands sndr [(''Failed to send reaction: '', Cmd_SendPchatReaction
       \<lparr>PchatReaction_channel_id = Some channel_id, PchatReaction_message_id = Some message_id,
        PchatReaction_action = Some (if action = ''remove'' then 1 else 0), PchatReaction_sender_hash = None,
        PchatReaction_timestamp = None, PchatReaction_emoji = Some (reaction_emoji emoji)\<rparr>)]"

definition pin_message :: "sender \<Rightarrow> u32 \<Rightarrow> string \<Rightarrow> bool \<Rightarrow> 'br command_result" where
  "pin_message sndr channel_id message_id unpin =
     send_commands sndr [(''Failed to send pin: '', Cmd_SendPchatPin
       \<lparr>PchatPin_channel_id = Some channel_id, PchatPin_message_id = Some message_id, PchatPin_sender_hash = None,
        PchatPin_unpin = Some unpin, PchatPin_timestamp = None\<rparr>)]"

text \<open>\<^verbatim>\<open>delete_pchat_messages\<close> up to its wait: \<open>tx\<close> is the new channel for the answer, which stays registered when
  the sending fails. The second definition is what the answer becomes; \<open>None\<close> is the timeout, and
  \<open>Some None\<close> a channel that was dropped without an answer.\<close>

definition delete_pchat_messages ::
    "sender \<Rightarrow> nat \<Rightarrow> u32 \<Rightarrow> string list \<Rightarrow> u64 option \<Rightarrow> u64 option \<Rightarrow> string option \<Rightarrow> 'br AppState
      \<Rightarrow> (string + nat) \<times> 'br AppState \<times> app_effect list" where
  "delete_pchat_messages sndr tx channel_id message_ids time_from time_to sender_hash a =
     (case active_handle a of
        None \<Rightarrow> (Inl ''Not connected'', a, [])
      | Some h \<Rightarrow>
          let a1 = on_active (\<lambda>s. s\<lparr>ss_pchat_ctx := (ss_pchat_ctx s)\<lparr>pc_pending_delete_acks :=
                     pc_pending_delete_acks (ss_pchat_ctx s) @ [tx]\<rparr>\<rparr>) a;
              range = (if time_from \<noteq> None \<or> time_to \<noteq> None
                       then Some \<lparr>PchatDeleteMessages_TimeRange_from = time_from, PchatDeleteMessages_TimeRange_to = time_to\<rparr>
                       else None)
          in (case send_seq sndr h 0 [(''Failed to send pchat delete: '', Cmd_SendPchatDeleteMessages
                     \<lparr>PchatDeleteMessages_channel_id = Some channel_id, PchatDeleteMessages_message_ids = message_ids,
                      PchatDeleteMessages_time_range = range, PchatDeleteMessages_sender_hash = sender_hash\<rparr>)] of
                (Inl e, effs) \<Rightarrow> (Inl e, a1, effs)
              | (Inr u, effs) \<Rightarrow> (Inr tx, a1, effs)))"

definition delete_outcome :: "DeleteAckResult option option \<Rightarrow> string + unit" where
  "delete_outcome r =
     (case r of
        None \<Rightarrow> Inl ''Delete request timed out''
      | Some None \<Rightarrow> Inl ''Delete acknowledgement channel closed''
      | Some (Some ack) \<Rightarrow>
          if da_success ack then Inr ()
          else Inl (''Server rejected deletion: '' @ unwrap_or ''permission denied'' (da_reason ack)))"

section \<open>Queries\<close>

text \<open>The list of channels; the counts are refreshed in the state too.\<close>

definition channels_query :: "'br AppState \<Rightarrow> ChannelEntry list \<times> 'br AppState" where
  "channels_query a =
     (let a1 = on_active refresh_user_counts a;
          st = active a1;
          fill = (\<lambda>ch. case md_root_permissions (ss_server st) of
                    None \<Rightarrow> ch
                  | Some perms \<Rightarrow>
                      ch\<lparr>ce_permissions := (case ce_permissions ch of None \<Rightarrow> Some perms | Some p \<Rightarrow> Some p)\<rparr>)
      in (sort_key ce_id (map fill (hm_values (ss_channels st))), a1))"

definition version_text :: "ServerVersionInfo \<Rightarrow> string option" where
  "version_text vi =
     (let dots = (\<lambda>x y z. show_nat x @ ''.'' @ show_nat y @ ''.'' @ show_nat z)
      in case vi_version_v2 vi of
           Some v \<Rightarrow> Some (dots (unat (drop_bit 48 v AND 0xFFFF)) (unat (drop_bit 32 v AND 0xFFFF)) (unat (drop_bit 16 v AND 0xFFFF)))
         | None \<Rightarrow>
             map_option (\<lambda>v. dots (unat (drop_bit 16 v AND 0xFF)) (unat (drop_bit 8 v AND 0xFF)) (unat (v AND 0xFF)))
               (vi_version_v1 vi))"

definition os_text :: "ServerVersionInfo \<Rightarrow> string option" where
  "os_text vi =
     (case (vi_os vi, vi_os_version vi) of
        (Some name, Some ver) \<Rightarrow> if ver \<noteq> [] then Some (name @ '' ('' @ ver @ '')'') else Some name
      | (Some name, None) \<Rightarrow> Some name
      | _ \<Rightarrow> None)"

record ServerInfo =
  si_host :: string
  si_port :: u16
  si_user_count :: u32
  si_max_users :: "u32 option"
  si_protocol_version :: "string option"
  si_fancy_version :: "u64 option"
  si_release :: "string option"
  si_os :: "string option"
  si_max_bandwidth :: "u32 option"
  si_opus :: bool

definition server_info :: "'br AppState \<Rightarrow> ServerInfo" where
  "server_info a =
     (let s = active a; md = ss_server s; vi = md_version_info md
      in \<lparr>si_host = md_host md, si_port = md_port md, si_user_count = of_nat (length (ss_users s)),
          si_max_users = md_max_users md, si_protocol_version = version_text vi, si_fancy_version = md_fancy_version md,
          si_release = vi_release vi, si_os = os_text vi, si_max_bandwidth = md_max_bandwidth md, si_opus = md_opus md\<rparr>)"

definition messages_query :: "u32 \<Rightarrow> 'br AppState \<Rightarrow> ChatMessage list" where
  "messages_query channel_id a = thread (by_channel (ss_msgs (active a))) channel_id"

definition dm_messages_query :: "u32 \<Rightarrow> 'br AppState \<Rightarrow> ChatMessage list" where
  "dm_messages_query session a = thread (by_dm (ss_msgs (active a))) session"

definition channel_description :: "u32 \<Rightarrow> 'br AppState \<Rightarrow> string option" where
  "channel_description channel_id a =
     (case hm_get (ss_channels (active a)) channel_id of
        None \<Rightarrow> None
      | Some c \<Rightarrow> if ce_description c = [] then None else Some (ce_description c))"

section \<open>A message on its way to another member\<close>

definition holds_archive_key :: "crypto_lib \<Rightarrow> 'br SharedState \<Rightarrow> u32 \<Rightarrow> bytes \<Rightarrow> bool" where
  "holds_archive_key lib st channel_id key \<longleftrightarrow>
     (\<exists>p trust. get_pchat st = Some p \<and> suite (ps_key_manager p) = XChaCha20Suite lib \<and>
        hm_get (archive_keys (ps_key_manager p)) channel_id = Some (\<lparr>ck_key = key\<rparr>, trust))"

text \<open>What the server forwards of a stored message to the other members.\<close>

definition relayed :: "PchatMessage \<Rightarrow> PchatMessageDeliver \<Rightarrow> bool" where
  "relayed m dm \<longleftrightarrow>
     PchatMessageDeliver_message_id dm = PchatMessage_message_id m \<and>
     PchatMessageDeliver_channel_id dm = PchatMessage_channel_id m \<and>
     PchatMessageDeliver_timestamp dm = PchatMessage_timestamp m \<and>
     PchatMessageDeliver_sender_hash dm = PchatMessage_sender_hash m \<and>
     PchatMessageDeliver_protocol dm = PchatMessage_protocol m \<and>
     PchatMessageDeliver_envelope dm = PchatMessage_envelope m \<and> PchatMessageDeliver_replaces_id dm = None"

definition own_envelope :: "string \<Rightarrow> 'br SharedState \<Rightarrow> MessageEnvelope" where
  "own_envelope body st =
     \<lparr>me_body = body, me_sender_name = cf_own_name (ss_conn st), me_sender_session = unwrap_or 0 (cf_own_session (ss_conn st)),
      me_attachments = []\<rparr>"

lemma archive_encrypt:
  assumes "suite (ps_key_manager p) = XChaCha20Suite (env_crypto env)"
    and "hm_get (archive_keys (ps_key_manager p)) (om_channel_id om) = Some (\<lparr>ck_key = key\<rparr>, trust)"
    and "xchacha_admissible (env_crypto env) (env_rng env) key bs"
    and "uuid_to_bytes (env_crypto env) (om_message_id om) = Inr u" and "om_protocol om = PP_FancyV1FullArchive"
    and "env_encode env \<lparr>me_body = om_body om, me_sender_name = om_sender_name om, me_sender_session = om_sender_session om,
           me_attachments = []\<rparr> = Inr bs"
  obtains m ct where "build_encrypted_message env om p = (Inr m, p)"
    "PchatMessage_message_id m = Some (om_message_id om)" "PchatMessage_channel_id m = Some (om_channel_id om)"
    "PchatMessage_timestamp m = Some (om_timestamp om)" "PchatMessage_protocol m = Some 2" "PchatMessage_envelope m = Some ct"
    "XChaCha_decrypt (env_crypto env) key ct (build_aad (om_channel_id om) u (om_timestamp om)) = Inr bs"
proof -
  from XChaCha_encrypt_ok [OF assms(3)] obtain ct where
    ct: "XChaCha_encrypt (env_crypto env) (env_rng env) key bs (build_aad (om_channel_id om) u (om_timestamp om)) = Inr ct"
      "XChaCha_decrypt (env_crypto env) key ct (build_aad (om_channel_id om) u (om_timestamp om)) = Inr bs" by metis
  let ?m = "\<lparr>PchatMessage_message_id = Some (om_message_id om), PchatMessage_channel_id = Some (om_channel_id om),
    PchatMessage_timestamp = Some (om_timestamp om), PchatMessage_sender_hash = Some (ps_own_cert_hash p),
    PchatMessage_protocol = Some 2, PchatMessage_envelope = Some ct, PchatMessage_epoch = None,
    PchatMessage_chain_index = None,
    PchatMessage_epoch_fingerprint = Some (ChannelKey_fingerprint (env_crypto env) \<lparr>ck_key = key\<rparr>),
    PchatMessage_replaces_id = None\<rparr>"
  have "build_encrypted_message env om p = (Inr ?m, p)"
    using assms ct by (simp add: build_encrypted_message_def KeyManager_encrypt_def XChaCha20Suite_def Let_def)
  from that [OF this] ct show thesis by simp
qed

lemma archive_decrypt:
  assumes "suite (ps_key_manager p) = XChaCha20Suite (env_crypto env)"
    and "hm_get (archive_keys (ps_key_manager p)) (ie_channel_id ie) = Some (\<lparr>ck_key = key\<rparr>, trust)"
    and "uuid_to_bytes (env_crypto env) (ie_message_id ie) = Inr u" and "ie_protocol ie = PP_FancyV1FullArchive"
    and "XChaCha_decrypt (env_crypto env) key (ie_envelope_bytes ie) (build_aad (ie_channel_id ie) u (ie_timestamp ie)) = Inr bs"
    and "env_decode env bs = Inr e"
  shows "InboundEnvelope_decrypt env ie p = (Inr e, p)"
  using assms by (simp add: InboundEnvelope_decrypt_def KeyManager_decrypt_def XChaCha20Suite_def context_err_def Let_def)

text \<open>A plain copy from a sender that encrypts is not shown in an encrypted channel.\<close>

lemma plain_copy_ignored:
  assumes "TextMessage_actor tm = Some s" and "TextMessage_channel_id tm = [ch]" and "TextMessage_edit_id tm = None"
    and "has_pchat st ch" and "sender_has_e2ee st (Some s)"
  shows "fst (TextMessage_handle env tm st) = st"
  using assms
  by (simp add: TextMessage_handle_def classify_def handle_channel_message_def target_channels_def channel_message_step_def
      Let_def split_beta)

lemma archive_deliver:
  assumes "get_pchat st = Some p" and "PchatMessageDeliver_channel_id dm = Some ch" and "PchatMessageDeliver_protocol dm = Some 2"
    and "PchatMessageDeliver_message_id dm = Some i" and "PchatMessageDeliver_replaces_id dm = None"
    and "InboundEnvelope_decrypt env
        \<lparr>ie_protocol = PP_FancyV1FullArchive, ie_sender_hash = unwrap_or [] (PchatMessageDeliver_sender_hash dm), ie_channel_id = ch,
         ie_message_id = i, ie_timestamp = unwrap_or 0 (PchatMessageDeliver_timestamp dm),
         ie_envelope_bytes = unwrap_or [] (PchatMessageDeliver_envelope dm), ie_epoch = None, ie_chain_index = None,
         ie_epoch_fingerprint = replicate 8 0\<rparr> p = (Inr e, p)"
    and "\<not> list_ex (has_id i) (thread (by_channel (ss_msgs st)) ch)"
  shows "\<exists>msg. thread (by_channel (ss_msgs (fst (PchatMessageDeliver_handle env dm st)))) ch =
      push_capped msg (thread (by_channel (ss_msgs st)) ch) \<and>
    cm_body msg = me_body e \<and> cm_sender_name msg = me_sender_name e \<and> cm_message_id msg = Some i \<and> \<not> cm_is_own msg"
proof -
  have "set_pchat p st = st" using assms(1) by (simp add: set_pchat_def get_pchat_def)
  let ?msg = "pchat_message (sender_session_of st (unwrap_or [] (PchatMessageDeliver_sender_hash dm))) (me_sender_name e)
    (unwrap_or [] (PchatMessageDeliver_sender_hash dm)) (me_body e) ch False i (unwrap_or 0 (PchatMessageDeliver_timestamp dm))"
  have "thread (by_channel (ss_msgs (fst (PchatMessageDeliver_handle env dm st)))) ch =
      push_capped ?msg (thread (by_channel (ss_msgs st)) ch)"
    using assms \<open>set_pchat p st = st\<close>
    by (simp add: PchatMessageDeliver_handle_def handle_proto_msg_deliver_def decrypt_or_stash_def cache_if_signal_def
        proto_to_protocol_def insert_or_replace_message_def thread_def Let_def split: option.split)
  then show ?thesis by (intro exI [of _ ?msg]) (simp add: pchat_message_def)
qed

text \<open>C7: A message that a member writes in a channel with a full archive is shown by every other member who holds the
  key of the channel: one copy, with the text, the name and the identifier of the sender. The plain copy that
  goes out with it is ignored there.\<close>

theorem message_reaches_member:
  assumes "crypto_laws lib" and "length key = 32" and "length (rd_nonce (env_rng env)) = 24"
    and sender: "holds_archive_key lib (active a) ch key" "env_crypto env = lib"
      "channel_protocol (active a) ch = Some PP_FancyV1FullArchive" "md_fancy_version (ss_server (active a)) \<noteq> None"
      "cf_client_handle (ss_conn (active a)) = Some h" "sndr h 0 = None" "sndr h 1 = None"
      "uuid_to_bytes lib (env_uuid env 0) = Inr u"
      "env_encode env (own_envelope body (active a)) = Inr bs" "length bs < 2 ^ 31"
    and member: "holds_archive_key lib st ch key" "env_crypto env' = lib"
      "env_decode env' bs = Inr (own_envelope body (active a))" "has_pchat st ch" "sender_has_e2ee st (Some s)"
      "\<not> list_ex (has_id (env_uuid env 0)) (thread (by_channel (ss_msgs st)) ch)"
    and plain: "TextMessage_actor tm = Some s" "TextMessage_channel_id tm = [ch]" "TextMessage_edit_id tm = None"
  shows "\<exists>m a' text. send_message env sndr ch body a =
      (Inr (own_data env ch body (active a)), a', [Send h text, Send h (Cmd_SendPchatMessage m)]) \<and>
    (\<forall>dm. relayed m dm \<longrightarrow>
      (\<exists>msg. thread (by_channel (ss_msgs (fst (PchatMessageDeliver_handle env' dm (fst (TextMessage_handle env' tm st)))))) ch =
           push_capped msg (thread (by_channel (ss_msgs st)) ch) \<and>
         cm_body msg = body \<and> cm_sender_name msg = cf_own_name (ss_conn (active a)) \<and>
         cm_message_id msg = Some (env_uuid env 0) \<and> \<not> cm_is_own msg))"
proof -
  from sender(1) obtain p trust where p: "get_pchat (active a) = Some p"
      "suite (ps_key_manager p) = XChaCha20Suite (env_crypto env)"
      "hm_get (archive_keys (ps_key_manager p)) ch = Some (\<lparr>ck_key = key\<rparr>, trust)"
    using sender(2) by (auto simp: holds_archive_key_def)
  from member(1,2) obtain q trust' where q: "get_pchat st = Some q"
      "suite (ps_key_manager q) = XChaCha20Suite (env_crypto env')"
      "hm_get (archive_keys (ps_key_manager q)) ch = Some (\<lparr>ck_key = key\<rparr>, trust')"
    by (auto simp: holds_archive_key_def)
  let ?om = "\<lparr>om_channel_id = ch, om_protocol = PP_FancyV1FullArchive, om_message_id = env_uuid env 0, om_body = body,
    om_sender_name = cf_own_name (ss_conn (active a)), om_sender_session = unwrap_or 0 (cf_own_session (ss_conn (active a))),
    om_timestamp = env_now_ms env\<rparr>"
  have adm: "xchacha_admissible (env_crypto env) (env_rng env) key bs"
    using assms(1-3) sender(2,10) by (simp add: xchacha_admissible_def)
  obtain m ct where m: "build_encrypted_message env ?om p = (Inr m, p)"
      "PchatMessage_message_id m = Some (env_uuid env 0)" "PchatMessage_channel_id m = Some ch"
      "PchatMessage_timestamp m = Some (env_now_ms env)" "PchatMessage_protocol m = Some 2" "PchatMessage_envelope m = Some ct"
    and ct: "XChaCha_decrypt (env_crypto env) key ct (build_aad ch u (env_now_ms env)) = Inr bs"
    using archive_encrypt [OF p(2) _ adm, of ?om trust u] p(3) sender(2,8,9) by (auto simp: own_envelope_def)
  have sent: "\<exists>a' text. send_message env sndr ch body a =
      (Inr (own_data env ch body (active a)), a', [Send h text, Send h (Cmd_SendPchatMessage m)])"
    using sender p m(1)
    by (simp add: send_message_def own_data_def prebuilt_pchat_message_def build_pchat_encrypted_def Let_def)
  have "\<exists>msg. thread (by_channel (ss_msgs (fst (PchatMessageDeliver_handle env' dm st)))) ch =
        push_capped msg (thread (by_channel (ss_msgs st)) ch) \<and>
      cm_body msg = me_body (own_envelope body (active a)) \<and> cm_sender_name msg = me_sender_name (own_envelope body (active a)) \<and>
      cm_message_id msg = Some (env_uuid env 0) \<and> \<not> cm_is_own msg" if "relayed m dm" for dm
    using that m q ct member sender(2,8)
    by (intro archive_deliver [OF q(1)] archive_decrypt [OF q(2)]) (simp_all add: relayed_def)
  with sent plain_copy_ignored [OF plain member(4,5)] show ?thesis by (auto simp: own_envelope_def)
qed

text \<open>The channel of both, the two states and the surroundings of the witness.\<close>

definition demo_member :: "unit SharedState" where
  "demo_member = demo_state\<lparr>
     ss_channels := [(5, demo_channel 5 (Some PP_FancyV1FullArchive))],
     ss_server := (ss_server (default_SharedState :: unit SharedState))\<lparr>md_fancy_version := Some 1\<rparr>,
     ss_conn := (ss_conn (default_SharedState :: unit SharedState))\<lparr>cf_own_session := Some 1, cf_own_name := ''u'', cf_client_handle := Some 0\<rparr>,
     ss_pchat_ctx := (ss_pchat_ctx (default_SharedState :: unit SharedState))\<lparr>pc_pchat := Some
       \<lparr>ps_key_manager = (with_suite undefined (XChaCha20Suite demo_crypto))\<lparr>archive_keys := [(5, (\<lparr>ck_key = replicate 32 9\<rparr>, Verified))]\<rparr>,
        ps_own_cert_hash = ''me'', ps_seed = [], ps_fetched_channels = {}, ps_identity_dir = None, ps_signal_bridge = False,
        ps_signal_bridge_load_failed = False, ps_local_cache = None, ps_pending_signal_envelopes = []\<rparr>\<rparr>\<rparr>"

definition demo_sender_app :: "unit AppState" where
  "demo_sender_app = AppState_new\<lparr>as_heap := \<lambda>c. demo_member\<rparr>"

definition demo_uuid_env :: "unit app_env" where
  "demo_uuid_env = App_Text.demo_env\<lparr>env_uuid := \<lambda>n. replicate 36 CHR ''a''\<rparr>"

theorem message_reaches_member_witness:
  "\<exists>m a' text. send_message demo_uuid_env (\<lambda>h n. None) 5 ''body'' demo_sender_app =
      (Inr (own_data demo_uuid_env 5 ''body'' demo_member), a', [Send 0 text, Send 0 (Cmd_SendPchatMessage m)]) \<and>
    (\<exists>msg. cm_body msg = ''body'' \<and> cm_sender_name msg = ''u'' \<and>
       thread (by_channel (ss_msgs (fst (PchatMessageDeliver_handle demo_uuid_env
         (default_PchatMessageDeliver\<lparr>PchatMessageDeliver_message_id := PchatMessage_message_id m,
            PchatMessageDeliver_channel_id := PchatMessage_channel_id m,
            PchatMessageDeliver_timestamp := PchatMessage_timestamp m,
            PchatMessageDeliver_sender_hash := PchatMessage_sender_hash m,
            PchatMessageDeliver_protocol := PchatMessage_protocol m,
            PchatMessageDeliver_envelope := PchatMessage_envelope m\<rparr>)
         (fst (TextMessage_handle demo_uuid_env (demo_text 2 [5]) demo_member)))))) 5 = push_capped msg [])"
proof -
  have active: "active demo_sender_app = demo_member" by (simp add: active_def demo_sender_app_def)
  note defs = demo_member_def demo_state_def demo_channel_def demo_user_def default_SharedState_def
  have facts: "holds_archive_key demo_crypto demo_member 5 (replicate 32 9)"
      "channel_protocol demo_member 5 = Some PP_FancyV1FullArchive" "md_fancy_version (ss_server demo_member) \<noteq> None"
      "cf_client_handle (ss_conn demo_member) = Some 0" "cf_own_name (ss_conn demo_member) = ''u''"
      "cf_own_session (ss_conn demo_member) = Some 1"
      "has_pchat demo_member 5" "sender_has_e2ee demo_member (Some 2)" "by_channel (ss_msgs demo_member) = []"
    by (simp_all add: defs holds_archive_key_def get_pchat_def channel_protocol_def has_pchat_def sender_has_e2ee_def
        actor_user_def has_pchat_e2ee_def with_suite_def)
  have env: "env_crypto demo_uuid_env = demo_crypto" "env_rng demo_uuid_env = demo_draw"
      "uuid_to_bytes demo_crypto (env_uuid demo_uuid_env 0) = Inr (replicate 16 0)"
      "env_encode demo_uuid_env e = Inr [1]"
      "env_decode demo_uuid_env bs = Inr (own_envelope ''body'' demo_member)" for e bs
    using facts(5,6)
    by (simp_all add: demo_uuid_env_def App_Text.demo_env_def uuid_to_bytes_def demo_crypto_def own_envelope_def)
  have tm: "TextMessage_actor (demo_text 2 [5]) = Some 2" "TextMessage_channel_id (demo_text 2 [5]) = [5]"
      "TextMessage_edit_id (demo_text 2 [5]) = None"
    by (simp_all add: demo_text_def default_TextMessage_def)
  have empty: "thread [] 5 = ([] :: ChatMessage list)" by (simp add: thread_def)
  from message_reaches_member [of demo_crypto "replicate 32 9" demo_uuid_env demo_sender_app 5 0 "\<lambda>h n. None" "replicate 16 0"
        "''body''" "[1]" demo_member demo_uuid_env 2 "demo_text 2 [5]", unfolded active, OF crypto_laws_demo]
  obtain m a' t where sent: "send_message demo_uuid_env (\<lambda>h n. None) 5 ''body'' demo_sender_app =
      (Inr (own_data demo_uuid_env 5 ''body'' demo_member), a', [Send 0 t, Send 0 (Cmd_SendPchatMessage m)])"
    and got: "\<And>dm. relayed m dm \<Longrightarrow>
      \<exists>msg. thread (by_channel (ss_msgs (fst (PchatMessageDeliver_handle demo_uuid_env dm
           (fst (TextMessage_handle demo_uuid_env (demo_text 2 [5]) demo_member)))))) 5 = push_capped msg [] \<and>
         cm_body msg = ''body'' \<and> cm_sender_name msg = ''u''"
    using facts env tm by (simp add: demo_draw_def empty) blast
  let ?dm = "default_PchatMessageDeliver\<lparr>PchatMessageDeliver_message_id := PchatMessage_message_id m,
      PchatMessageDeliver_channel_id := PchatMessage_channel_id m, PchatMessageDeliver_timestamp := PchatMessage_timestamp m,
      PchatMessageDeliver_sender_hash := PchatMessage_sender_hash m,
      PchatMessageDeliver_protocol := PchatMessage_protocol m, PchatMessageDeliver_envelope := PchatMessage_envelope m\<rparr>"
  have "relayed m ?dm" by (simp add: relayed_def default_PchatMessageDeliver_def)
  from got [OF this] sent show ?thesis by blast
qed

end
