(* ===== verification/App_Consent.thy ===== *)
theory App_Consent
  imports App_Commands
begin

text \<open>
  The commands about custodians and about sharing the key of a channel
  (src/crates/mumble-tauri/src/commands/keyshare.rs), and what they make of the whole application: a key leaves
  only with the consent of the user, and what is sent gives the peer the key.
\<close>

section \<open>Custodians\<close>

definition confirm_custodians :: "u32 \<Rightarrow> 'br AppState \<Rightarrow> 'br AppState" where
  "confirm_custodians channel_id = on_active (map_km (confirm_custodian_list channel_id))"

definition accept_custodian_changes :: "u32 \<Rightarrow> 'br AppState \<Rightarrow> 'br AppState" where
  "accept_custodian_changes channel_id = on_active (map_km (accept_custodian_update channel_id))"

section \<open>Consent\<close>

definition is_share :: "u32 \<Rightarrow> string \<Rightarrow> PendingKeyShare \<Rightarrow> bool" where
  "is_share channel_id peer_cert_hash p \<longleftrightarrow> ks_channel_id p = channel_id \<and> ks_peer_cert_hash p = peer_cert_hash"

text \<open>The exchange for the peer, or why there is none; the handle it is to be sent with comes along.\<close>

definition build_share ::
    "'br app_env \<Rightarrow> u32 \<Rightarrow> string \<Rightarrow> string option \<Rightarrow> 'br SharedState \<Rightarrow> string + (client_handle \<times> PchatKeyExchange)" where
  "build_share env channel_id peer_cert_hash request_id st =
     (case get_pchat st of
        None \<Rightarrow> Inl ''pchat not initialised''
      | Some p \<Rightarrow>
          (case get_peer (ps_key_manager p) peer_cert_hash of
             None \<Rightarrow> Inl ''peer public key not known''
           | Some rec \<Rightarrow>
               (case distribute_key (env_crypto env) (env_rng env) (ps_key_manager p) channel_id PP_FancyV1FullArchive 0
                       peer_cert_hash (pk_dh_public rec) request_id (env_now_ms env) of
                  Inl e \<Rightarrow> Inl (''failed to build key exchange: '' @ env_error_text env e)
                | Inr x \<Rightarrow>
                    (case cf_client_handle (ss_conn st) of
                       None \<Rightarrow> Inl ''not connected''
                     | Some h \<Rightarrow> Inr (h, wire_key_exchange_to_proto (x\<lparr>kx_sender_hash := ps_own_cert_hash p\<rparr>))))))"

text \<open>\<^verbatim>\<open>approve_key_share\<close> up to its first \<^verbatim>\<open>await\<close>. The request is taken out of the list before anything is
  checked, and the event about the list is only sent when the exchange could be built.\<close>

definition approve_key_share ::
    "'br app_env \<Rightarrow> sender \<Rightarrow> u32 \<Rightarrow> string \<Rightarrow> 'br AppState
      \<Rightarrow> (string + client_handle) \<times> 'br AppState \<times> app_effect list" where
  "approve_key_share env sndr channel_id peer_cert_hash a =
     (let st = active a
      in case position (is_share channel_id peer_cert_hash) (pending_shares st) of
           None \<Rightarrow> (Inl ''no pending key share for this channel/peer'', a, [])
         | Some idx \<Rightarrow>
             let request_id = ks_request_id (pending_shares st ! idx);
                 st1 = set_pending_shares (take idx (pending_shares st) @ drop (idx + 1) (pending_shares st)) st;
                 a1 = on_active (\<lambda>_. st1) a
             in (case build_share env channel_id peer_cert_hash request_id st1 of
                   Inl e \<Rightarrow> (Inl e, a1, [])
                 | Inr (h, x) \<Rightarrow>
                     let changed = emit_key_share_requests_changed st1 channel_id
                     in (case sndr h 0 of
                           Some e \<Rightarrow> (Inl (''send failed: '' @ e), a1, changed)
                         | None \<Rightarrow> (Inr h, a1, changed @ [Send h (Cmd_SendPchatKeyExchange x)]))))"

text \<open>The rest of it: the peer is noted as a holder in the session that is active then, and reported.\<close>

definition approve_key_share_finish ::
    "sender \<Rightarrow> client_handle \<Rightarrow> u32 \<Rightarrow> string \<Rightarrow> 'br AppState \<Rightarrow> 'br AppState \<times> app_effect list" where
  "approve_key_share_finish sndr h channel_id peer_cert_hash a =
     (on_active (map_km (record_key_holder channel_id peer_cert_hash)) a,
      if sndr h 1 = None
      then [Send h (Cmd_SendPchatKeyHolderReport
              \<lparr>PchatKeyHolderReport_channel_id = Some channel_id, PchatKeyHolderReport_cert_hash = Some peer_cert_hash,
               PchatKeyHolderReport_takeover_mode = None\<rparr>)]
      else [])"

definition dismiss_key_share :: "u32 \<Rightarrow> string \<Rightarrow> 'br AppState \<Rightarrow> 'br AppState \<times> app_effect list" where
  "dismiss_key_share channel_id peer_cert_hash a =
     (let a1 = on_active (\<lambda>s. set_pending_shares (filter (\<lambda>p. \<not> is_share channel_id peer_cert_hash p) (pending_shares s)) s) a
      in (a1, emit_key_share_requests_changed (active a1) channel_id))"

section \<open>Holders\<close>

definition query_key_holders_command :: "sender \<Rightarrow> u32 \<Rightarrow> 'br AppState \<Rightarrow> (string + unit) \<times> app_effect list" where
  "query_key_holders_command sndr channel_id a =
     (case active_handle a of
        None \<Rightarrow> (Inl ''not connected'', [])
      | Some h \<Rightarrow> send_seq sndr h 0
          [(''send failed: '', Cmd_SendPchatKeyHoldersQuery \<lparr>PchatKeyHoldersQuery_channel_id = Some channel_id\<rparr>)])"

definition get_key_holders :: "u32 \<Rightarrow> 'br AppState \<Rightarrow> KeyHolderEntry list" where
  "get_key_holders channel_id a = unwrap_or [] (hm_get (pc_key_holders (ss_pchat_ctx (active a))) channel_id)"

text \<open>The modes of a takeover: 1 wipes the messages too, 2 is the key only.\<close>

definition key_takeover :: "u32 \<Rightarrow> string \<Rightarrow> 'br AppState \<Rightarrow> string + app_effect list" where
  "key_takeover channel_id mode a =
     (if mode = ''full_wipe'' then Inr (send_key_takeover channel_id 1 (active a))
      else if mode = ''key_only'' then Inr (send_key_takeover channel_id 2 (active a))
      else Inl (''invalid takeover mode: '' @ mode))"

section \<open>Keys in the effects of a step\<close>

definition cmd_keys :: "BoxedCommand \<Rightarrow> PchatKeyExchange list" where
  "cmd_keys c = (case c of Cmd_SendPchatKeyExchange x \<Rightarrow> [x] | _ \<Rightarrow> [])"

fun effect_keys :: "app_effect \<Rightarrow> PchatKeyExchange list" where
  "effect_keys (Send h c) = cmd_keys c"
| "effect_keys (Spawn (SendLater cs)) = concat (map cmd_keys cs)"
| "effect_keys _ = []"

definition key_exchanges :: "app_effect list \<Rightarrow> PchatKeyExchange list" where
  "key_exchanges effs = concat (map effect_keys effs)"

named_theorems keyless

lemma key_exchanges_simps [simp]:
  "key_exchanges [] = []" "key_exchanges (e # es) = effect_keys e @ key_exchanges es"
  "key_exchanges (es @ fs) = key_exchanges es @ key_exchanges fs"
  by (simp_all add: key_exchanges_def)

lemma key_exchanges_map: "(\<And>x. x \<in> set xs \<Longrightarrow> effect_keys (f x) = []) \<Longrightarrow> key_exchanges (map f xs) = []"
  by (simp add: key_exchanges_def)

lemma key_exchanges_concat: "(\<And>x. x \<in> set xs \<Longrightarrow> key_exchanges (f x) = []) \<Longrightarrow> key_exchanges (concat (map f xs)) = []"
  by (induction xs) simp_all

lemma keyless_emit [simp]: "key_exchanges (app_emit st ev) = []"
  by (simp add: app_emit_def)

lemma keyless_send_now [simp]: "key_exchanges (send_now st c) = (if cf_client_handle (ss_conn st) = None then [] else cmd_keys c)"
  by (simp add: send_now_def split: option.splits)

lemma keyless_parts [keyless]:
  "key_exchanges (query_key_holders st k) = []" "key_exchanges (emit_key_share_requests_changed st k) = []"
  "key_exchanges (snd (queue_key_share_consent k h n r st)) = []"
  "key_exchanges (snd (send_key_holder_report k st)) = []" "key_exchanges (send_key_takeover k m st) = []"
  "key_exchanges (snd (retry_decrypt_pending_messages k st)) = []"
  "key_exchanges (snd (send_signal_distribution env k st)) = []"
  by (simp_all add: query_key_holders_def emit_key_share_requests_changed_def queue_key_share_consent_def
      send_key_holder_report_def send_key_takeover_def retry_decrypt_pending_messages_def send_signal_distribution_def
      cmd_keys_def Let_def split: option.splits prod.splits bool.splits sum.splits)

lemma keyless_queue_consents [keyless]: "key_exchanges (snd (queue_consents xs st)) = []"
proof -
  have "key_exchanges (snd (fold (\<lambda>(k, hash, name) (st, effs).
      case queue_key_share_consent k hash name None st of (st', e) \<Rightarrow> (st', effs @ e)) xs s)) = key_exchanges (snd s)"
    for s :: "'a SharedState \<times> app_effect list"
  proof (induction xs arbitrary: s)
    case (Cons x xs)
    have "key_exchanges e = []" if "queue_key_share_consent k h n r st = (st', e)" for k h n r and st st' :: "'a SharedState" and e
      using keyless_parts(3) [of k h n r st] that by simp
    then show ?case by (auto simp: Cons.IH split: prod.splits)
  qed simp
  then show ?thesis by (simp add: queue_consents_def)
qed

lemma keyless_keys [keyless]:
  "key_exchanges (snd (handle_proto_key_announce env m1 st)) = []" "key_exchanges (snd (check_key_share_for_channel k st)) = []"
  "key_exchanges (snd (handle_proto_key_request m2 st)) = []" "key_exchanges (handle_proto_key_challenge env m3 st) = []"
  "key_exchanges (snd (handle_proto_key_challenge_result env m4 st)) = []"
  "key_exchanges (snd (finalize_key_acceptance k p h st)) = []"
  by (auto simp: handle_proto_key_announce_def check_key_share_for_channel_def handle_proto_key_request_def
      handle_proto_key_challenge_def handle_proto_key_challenge_result_def finalize_key_acceptance_def Let_def
      split_beta keyless cmd_keys_def key_exchanges_concat split: option.splits)

lemma keyless_key_exchange:
  assumes "handle_proto_key_exchange env m st = Some (st', effs)"
  shows "key_exchanges effs = []"
proof -
  let ?x = "proto_to_wire_key_exchange m"
  obtain ok s where a: "try_accept_key_exchange env ?x (from_wire_str (kx_protocol ?x)) (kx_request_id ?x) st = Some (ok, s)"
    using assms by (fastforce simp: handle_proto_key_exchange_def Let_def split: option.splits)
  show ?thesis
  proof (cases ok)
    case True
    then have "effs = snd (finalize_key_acceptance (kx_channel_id ?x) (from_wire_str (kx_protocol ?x)) (kx_sender_hash ?x) s)"
      using assms a by (simp add: handle_proto_key_exchange_def Let_def)
    then show ?thesis by (simp only: keyless_keys(6))
  next
    case False
    then show ?thesis using assms a by (simp add: handle_proto_key_exchange_def Let_def)
  qed
qed

lemma keyless_text [keyless]: "key_exchanges (snd (TextMessage_handle env m st)) = []"
proof -
  have "key_exchanges (flush_event st e) = []" for st :: "'a SharedState" and e
    by (cases e) (simp_all add: emit_direct_message_def emit_channel_notification_def send_notification_with_icon_def Let_def)
  then have flush: "key_exchanges (flush st es) = []" for st :: "'a SharedState" and es
    unfolding flush_def by (intro key_exchanges_concat)
  have "key_exchanges (fst (emit_edit_events k m)) = []" for k
    by (simp add: emit_edit_events_def split: MessageKind.splits option.splits)
  then show ?thesis
    by (simp add: TextMessage_handle_def Let_def split_beta flush split: option.splits bool.splits)
qed

lemma keyless_pchat [keyless]:
  "key_exchanges (snd (PchatMessageDeliver_handle env m1 st)) = []"
  "key_exchanges (snd (PchatFetchResponse_handle env m2 st)) = []" "key_exchanges (snd (PchatAck_handle m3 st)) = []"
  "key_exchanges (snd (PchatKeyHoldersList_handle env m4 st)) = []"
  "key_exchanges (snd (PchatDeleteMessages_handle m5 st)) = []"
  "key_exchanges (snd (PchatOfflineQueueDrain_handle env m6 st)) = []"
  "key_exchanges (snd (PchatSenderKeyDistribution_handle env m7 st)) = []"
  "key_exchanges (snd (PchatReactionDeliver_handle m8 st)) = []"
  "key_exchanges (snd (PchatReactionFetchResponse_handle m9 st)) = []"
  "key_exchanges (snd (PchatPinDeliver_handle m10 st)) = []" "key_exchanges (snd (PchatPinFetchResponse_handle m11 st)) = []"
  "key_exchanges (snd (PchatKeyAnnounce_handle env m12 st)) = []" "key_exchanges (snd (PchatKeyRequest_handle m13 st)) = []"
  "key_exchanges (snd (PchatKeyChallengeResult_handle env m14 st)) = []"
  by (auto simp: PchatMessageDeliver_handle_def emit_channel_notification_def send_notification_with_icon_def
      PchatFetchResponse_handle_def PchatAck_handle_def PchatKeyHoldersList_handle_def PchatDeleteMessages_handle_def
      PchatOfflineQueueDrain_handle_def handle_proto_offline_queue_drain_def send_offline_queue_ack_def
      PchatSenderKeyDistribution_handle_def PchatReactionDeliver_handle_def PchatReactionFetchResponse_handle_def
      change_reactions_def PchatPinDeliver_handle_def PchatPinFetchResponse_handle_def PchatKeyAnnounce_handle_def
      PchatKeyRequest_handle_def PchatKeyChallengeResult_handle_def Let_def split_beta keyless cmd_keys_def
      intro!: key_exchanges_map split: option.splits)

lemma keyless_roster [keyless]:
  "key_exchanges (snd (UserState_handle env m1 st)) = []" "key_exchanges (snd (UserRemove_handle env m2 st)) = []"
  "key_exchanges (snd (ChannelState_handle m3 st)) = []" "key_exchanges (snd (ChannelRemove_handle env m4 st)) = []"
  "key_exchanges (snd (PermissionQuery_handle m5 st)) = []" "key_exchanges (snd (PermissionDenied_handle m6 st)) = []"
  "key_exchanges (snd (ServerConfig_handle m7 st)) = []" "key_exchanges (snd (Reject_handle m8 st)) = []"
  "key_exchanges (snd (notify n st)) = []"
proof -
  have logs: "key_exchanges (emit_activity_logs t b n w c o' s) = []" for t b n w c o' s
    by (auto simp: emit_activity_logs_def intro!: key_exchanges_map)
  have moved: "key_exchanges (snd (handle_remote_channel_move env k s)) = []" for k and s :: "'a SharedState"
    by (simp add: handle_remote_channel_move_def split_beta keyless)
  have own: "key_exchanges (snd (handle_own_channel_change k s)) = []" for k and s :: "'a SharedState"
    by (simp add: handle_own_channel_change_def Let_def)
  have blobs: "key_exchanges (request_missing_blobs p i) = []" "effect_keys (request_blob ts cs ds) = []" for p i ts cs ds
    by (simp_all add: request_missing_blobs_def request_blob_def Let_def cmd_keys_def)
  show "key_exchanges (snd (UserState_handle env m1 st)) = []"
    by (simp add: UserState_handle_def Let_def split_beta logs moved own blobs maybe_record_name_def split: option.splits)
  show "key_exchanges (snd (UserRemove_handle env m2 st)) = []"
    by (auto simp: UserRemove_handle_def Let_def intro!: key_exchanges_map split: option.splits)
  show "key_exchanges (snd (ChannelState_handle m3 st)) = []"
    by (simp add: ChannelState_handle_def Let_def split_beta blobs cmd_keys_def split: option.splits)
qed (simp_all add: ChannelRemove_handle_def PermissionQuery_handle_def PermissionDenied_handle_def ServerConfig_handle_def
    Reject_handle_def notify_def Let_def split_beta split: option.splits)

lemma keyless_sync: "ServerSync_handle env lib js fo fs m st = Some (st', effs) \<Longrightarrow> key_exchanges effs = []"
proof -
  have reactions: "key_exchanges (emit_cached_reactions rs) = []" for rs
    by (auto simp: emit_cached_reactions_def intro!: key_exchanges_map)
  have init: "key_exchanges e = []" if "init_pchat env lib js fo fs s = Some (s', e)" for s s' e
    using that reactions by (auto simp: init_pchat_def Let_def split_beta split: option.splits sum.splits)
  assume "ServerSync_handle env lib js fo fs m st = Some (st', effs)"
  then show ?thesis
    by (auto simp: ServerSync_handle_def request_user_blobs_def request_channel_descriptions_def request_blob_def Let_def
        request_channel_permissions_def register_push_subscribe_def cmd_keys_def comp_def dest: init split: prod.splits option.splits)
qed

lemma keyless_notify: "key_exchanges (snd (notify n st)) = []"
  by (simp add: notify_def split: option.splits)

lemma keyless_dispatch:
  assumes "dispatch D msg st = Some (st', effs)"
  shows "key_exchanges effs = []"
proof -
  have plain: "key_exchanges effs = []" if "r = (st', effs)" "key_exchanges (snd r) = []" for r :: "'a SharedState \<times> app_effect list"
    using that by simp
  have exchange: "key_exchanges effs = []" if "PchatKeyExchange_handle env m st = Some (st', effs)" for env m
    using that by (auto simp: PchatKeyExchange_handle_def dest: keyless_key_exchange)
  show ?thesis
    using assms by (cases msg) (auto simp: dispatch_def Let_def keyless intro: exchange keyless_sync dest!: plain)
qed

section \<open>Keys in the effects of the tasks and of the commands\<close>

lemma keyless_after:
  assumes "after r f = Some (st, effs)" and "\<And>s e. r = Some (s, e) \<Longrightarrow> key_exchanges e = []"
    and "\<And>s s' e. f s = Some (s', e) \<Longrightarrow> key_exchanges e = []"
  shows "key_exchanges effs = []"
  using assms by (auto simp: after_def split: option.splits)

lemma keyless_persist [keyless]:
  "key_exchanges (persist_effect p ch key) = []" "key_exchanges (emit_history_loading st ch b) = []"
  "key_exchanges (emit_signal_bridge_error st) = []" "key_exchanges (send_fetch_or_stop ch st) = []"
  "key_exchanges (send_key_announce env st) = []" "key_exchanges (snd (fetch_channel_history ch st)) = []"
  by (simp_all add: persist_effect_def emit_history_loading_def emit_signal_bridge_error_def send_fetch_or_stop_def
      send_key_announce_def fetch_channel_history_def Let_def cmd_keys_def split: option.splits)

lemma keyless_signal_ready [keyless]: "key_exchanges (snd (snd (signal_ready env ch st))) = []"
proof -
  have "key_exchanges e = []" if "send_signal_distribution env ch s = (s', e) \<or> send_key_holder_report ch s = (s', e)"
    for s s' :: "'a SharedState" and e
    using that keyless_parts(4,7) by (metis snd_conv)
  then show ?thesis by (auto simp: signal_ready_def keyless split: prod.splits bool.splits)
qed

lemma keyless_report:
  "send_key_holder_report ch st = (s, e) \<Longrightarrow> key_exchanges e = []" "fetch_channel_history ch st = (s, e) \<Longrightarrow> key_exchanges e = []"
  using keyless_parts(4) [of ch st] keyless_persist(6) [of ch st] by simp_all

lemma keyless_tasks:
  "maybe_derive_archive_key_for_join env ch st = Some (st1, e1) \<Longrightarrow> key_exchanges e1 = []"
  "derive_channel_key_as_originator env ch st = Some (st2, e2) \<Longrightarrow> key_exchanges e2 = []"
  "self_generate_key env ch st = Some (st3, e3) \<Longrightarrow> key_exchanges e3 = []"
  "pchat_key_gen_and_fetch env ch st = Some (st4, e4) \<Longrightarrow> key_exchanges e4 = []"
  by (auto simp: maybe_derive_archive_key_for_join_def derive_channel_key_as_originator_def self_generate_key_def
      pchat_key_gen_and_fetch_def Let_def keyless cmd_keys_def split: option.splits if_splits PchatProtocol.splits prod.splits bool.splits)

lemma keyless_protocol_key:
  assumes "ensure_protocol_key env ch mode st = Some (go, st', effs)"
  shows "key_exchanges effs = []"
proof -
  have derive: "key_exchanges e = []"
    if "after r (\<lambda>st. Some (send_key_holder_report ch st)) = Some (s, e)" "\<And>s e. r = Some (s, e) \<Longrightarrow> e = []" for r s e
    using that(1) by (rule keyless_after) (auto dest: that(2) keyless_report)
  have ready: "key_exchanges e = []" if "signal_ready env ch s = (go', s', e)" for s s' :: "'a SharedState" and go' e
    using keyless_signal_ready [of env ch s] that by simp
  show ?thesis
    using assms by (auto simp: ensure_protocol_key_def Let_def split: option.splits if_splits prod.splits elim!: derive dest: ready)
qed

lemma keyless_task_parts:
  "pchat_init_task_begin env ch st = Some (go, st1, e1) \<Longrightarrow> key_exchanges e1 = []"
  "pchat_init_task_finish env ch st = Some (st2, e2) \<Longrightarrow> key_exchanges e2 = []"
  "channel_init_begin env st = Some (next, st3, e3) \<Longrightarrow> key_exchanges e3 = []"
  "channel_init_finish env ch mode st = Some (st4, e4) \<Longrightarrow> key_exchanges e4 = []"
proof -
  have ready: "key_exchanges e = []" if "signal_ready env ch s = (go', s', e)" for s s' :: "'a SharedState" and go' e
    using keyless_signal_ready [of env ch s] that by simp
  show "key_exchanges e1 = []" if "pchat_init_task_begin env ch st = Some (go, st1, e1)"
    using that by (auto simp: pchat_init_task_begin_def Let_def keyless split: option.splits if_splits prod.splits
        dest: ready elim!: keyless_after intro: keyless_tasks keyless_report)
  show "key_exchanges e2 = []" if "pchat_init_task_finish env ch st = Some (st2, e2)"
    using that unfolding pchat_init_task_finish_def
    by (rule keyless_after) (auto simp: keyless split: if_splits elim!: keyless_after intro: keyless_tasks keyless_report)
  show "key_exchanges e3 = []" if "channel_init_begin env st = Some (next, st3, e3)"
    using that by (auto simp: channel_init_begin_def Let_def keyless split: option.splits if_splits prod.splits
        dest: keyless_protocol_key)
  show "key_exchanges e4 = []" if "channel_init_finish env ch mode st = Some (st4, e4)"
    using that unfolding channel_init_finish_def
    by (rule keyless_after) (auto split: if_splits elim!: keyless_after intro: keyless_tasks keyless_report)
qed

lemma keyless_sessions:
  "connect_begin host port username cert_label i ident a = (Inr e1, a1) \<Longrightarrow> key_exchanges e1 = []"
  "key_exchanges (snd (handle_connect_result result auth username password i c a)) = []"
  "disconnect_begin i a = (Inr (c', is_active, e2), a2) \<Longrightarrow> key_exchanges e2 = []"
  "key_exchanges (snd (disconnect_finish i c is_active a)) = []"
  "key_exchanges (snd (on_disconnected epoch i st)) = []"
proof -
  have save: "key_exchanges (save_pchat s) = []" for s :: "'a SharedState"
    by (simp add: save_pchat_def Let_def split: option.splits)
  have stop: "key_exchanges e = []" if "stop_audio_on s = (s', e)" for s s' :: "'a SharedState" and e
    using that by (auto simp: stop_audio_on_def intro!: key_exchanges_map)
  show "key_exchanges e1 = []" if "connect_begin host port username cert_label i ident a = (Inr e1, a1)"
    using that by (auto simp: connect_begin_def reset_state_for_connect_def Let_def save split: if_splits prod.splits)
  show "key_exchanges e2 = []" if "disconnect_begin i a = (Inr (c', is_active, e2), a2)"
    using that stop by (auto simp: disconnect_begin_def Let_def cmd_keys_def split: option.splits if_splits prod.splits)
  show "key_exchanges (snd (handle_connect_result result auth username password i c a)) = []"
    by (simp add: handle_connect_result_def emit_session_rejected_def Let_def cmd_keys_def split: option.splits sum.splits)
qed (simp_all add: disconnect_finish_def on_disconnected_def save_pchat_def Let_def split: option.splits)

lemma keyless_send_seq:
  "\<forall>(p, c) \<in> set cmds. cmd_keys c = [] \<Longrightarrow> key_exchanges (snd (send_seq sndr h n cmds)) = []"
  by (induction sndr h n cmds rule: send_seq.induct) (auto split: option.splits prod.splits)

lemma keyless_send_commands:
  "\<forall>(p, c) \<in> set cmds. cmd_keys c = [] \<Longrightarrow> key_exchanges (snd (send_commands sndr cmds a)) = []"
  by (simp add: send_commands_def keyless_send_seq split: option.splits)

lemma keyless_send_quietly: "\<forall>c \<in> set cmds. cmd_keys c = [] \<Longrightarrow> key_exchanges (send_quietly sndr cmds a) = []"
  by (auto simp: send_quietly_def in_set_enumerate_eq intro!: key_exchanges_map split: option.splits)

lemma keyless_emit_through [simp]: "key_exchanges (emit_through a ev) = []"
  by (simp add: emit_through_def)

section \<open>Every step of the application\<close>

text \<open>What a user does besides sharing keys: the command, the state it leaves and its effects.\<close>

inductive user_command ::
    "'br app_env \<Rightarrow> sender \<Rightarrow> 'br AppState \<Rightarrow> 'br AppState \<Rightarrow> app_effect list \<Rightarrow> bool" for env sndr where
  uc_select: "select_channel sndr k a = (a', effs) \<Longrightarrow> user_command env sndr a a' effs"
| uc_join: "join_channel sndr k a = (a', effs) \<Longrightarrow> user_command env sndr a a' effs"
| uc_listen: "toggle_listen sndr k a = (r, a', effs) \<Longrightarrow> user_command env sndr a a' effs"
| uc_update: "update_channel sndr k name d pos temp mx protocol hist ret a = (r', effs) \<Longrightarrow> user_command env sndr a a effs"
| uc_create: "create_channel sndr k nm d pos temp mx protocol hist ret a = (r', effs) \<Longrightarrow> user_command env sndr a a effs"
| uc_delete: "delete_channel sndr k a = (r', effs) \<Longrightarrow> user_command env sndr a a effs"
| uc_read: "mark_read k a = (a', effs) \<Longrightarrow> user_command env sndr a a' effs"
| uc_dm_read: "mark_dm_read k a = (a', effs) \<Longrightarrow> user_command env sndr a a' effs"
| uc_select_dm: "select_dm_user k a = (a', effs) \<Longrightarrow> user_command env sndr a a' effs"
| uc_send: "send_message env sndr k body a = (d', a', effs) \<Longrightarrow> user_command env sndr a a' effs"
| uc_sent: "send_message_finish env data a = a' \<Longrightarrow> user_command env sndr a a' []"
| uc_edit: "edit_message env sndr k i body a = (r', a', effs) \<Longrightarrow> user_command env sndr a a' effs"
| uc_dm: "send_dm env sndr k body a = (r', a', effs) \<Longrightarrow> user_command env sndr a a' effs"
| uc_older: "fetch_older_messages sndr k before limit a = (r', effs) \<Longrightarrow> user_command env sndr a a effs"
| uc_comment: "set_user_comment sndr comment a = (r', a', effs) \<Longrightarrow> user_command env sndr a a' effs"
| uc_texture: "set_user_texture sndr texture a = (r', a', effs) \<Longrightarrow> user_command env sndr a a' effs"
| uc_reaction: "send_reaction sndr k i emoji action a = (r', effs) \<Longrightarrow> user_command env sndr a a effs"
| uc_pin: "pin_message sndr k i unpin a = (r', effs) \<Longrightarrow> user_command env sndr a a effs"
| uc_delete_messages: "delete_pchat_messages sndr tx k ids from to h a = (n, a', effs) \<Longrightarrow> user_command env sndr a a' effs"
| uc_kick: "kick_user sndr u why a = (r', effs) \<Longrightarrow> user_command env sndr a a effs"
| uc_ban: "ban_user sndr u why a = (r', effs) \<Longrightarrow> user_command env sndr a a effs"
| uc_move: "move_user sndr u k a = (r', effs) \<Longrightarrow> user_command env sndr a a effs"
| uc_plugin: "send_plugin_data sndr us payload i a = (r', effs) \<Longrightarrow> user_command env sndr a a effs"
| uc_custodians: "confirm_custodians k a = a' \<Longrightarrow> user_command env sndr a a' []"
| uc_custodian_changes: "accept_custodian_changes k a = a' \<Longrightarrow> user_command env sndr a a' []"
| uc_dismiss: "dismiss_key_share k peer a = (a', effs) \<Longrightarrow> user_command env sndr a a' effs"
| uc_query_holders: "query_key_holders_command sndr k a = (r', effs) \<Longrightarrow> user_command env sndr a a effs"
| uc_takeover: "key_takeover k mode a = Inr effs \<Longrightarrow> user_command env sndr a a effs"

inductive_cases user_commandE: "user_command env sndr a a' effs"

text \<open>A part of a session that runs on its own: a message, one part of a task, or the end of a connection.\<close>

inductive session_part :: "('br, 'fs) dispatch_env \<Rightarrow> 'br SharedState \<Rightarrow> 'br SharedState \<Rightarrow> app_effect list \<Rightarrow> bool" for D where
  sp_message: "dispatch D msg st = Some (st', effs) \<Longrightarrow> session_part D st st' effs"
| sp_join_begin: "pchat_init_task_begin (de_env D) k st = Some (go, st', effs) \<Longrightarrow> session_part D st st' effs"
| sp_join_finish: "pchat_init_task_finish (de_env D) k st = Some (st', effs) \<Longrightarrow> session_part D st st' effs"
| sp_init_begin: "channel_init_begin (de_env D) st = Some (next, st', effs) \<Longrightarrow> session_part D st st' effs"
| sp_init_finish: "channel_init_finish (de_env D) k mode st = Some (st', effs) \<Longrightarrow> session_part D st st' effs"
| sp_protocol: "pchat_key_gen_and_fetch (de_env D) k st = Some (st', effs) \<Longrightarrow> session_part D st st' effs"
| sp_disconnected: "on_disconnected epoch i st = (st', effs) \<Longrightarrow> session_part D st st' effs"

lemma keyless_session_part: "session_part D st st' effs \<Longrightarrow> key_exchanges effs = []"
proof (induction rule: session_part.induct)
  case (sp_disconnected epoch i st st' effs)
  then show ?case using keyless_sessions(5) [of epoch i st] by simp
qed (blast intro: keyless_dispatch keyless_task_parts keyless_tasks)+

lemmas keyless_command_defs =
  update_channel_def create_channel_def delete_channel_def fetch_older_messages_def send_reaction_def pin_message_def
  kick_user_def ban_user_def move_user_def send_plugin_data_def

lemma keyless_simple_commands [keyless]:
  "key_exchanges (snd (update_channel sndr k name d pos temp mx protocol hist ret a)) = []"
  "key_exchanges (snd (create_channel sndr k nm d pos temp mx protocol hist ret a)) = []"
  "key_exchanges (snd (delete_channel sndr k a)) = []" "key_exchanges (snd (fetch_older_messages sndr k before limit a)) = []"
  "key_exchanges (snd (send_reaction sndr k i emoji action a)) = []" "key_exchanges (snd (pin_message sndr k i unpin a)) = []"
  "key_exchanges (snd (kick_user sndr u why a)) = []" "key_exchanges (snd (ban_user sndr u why a)) = []"
  "key_exchanges (snd (move_user sndr u k a)) = []" "key_exchanges (snd (send_plugin_data sndr us payload i a)) = []"
  "key_exchanges (snd (query_key_holders_command sndr k a)) = []"
  unfolding keyless_command_defs query_key_holders_command_def
  by (simp_all add: keyless_send_commands keyless_send_seq cmd_keys_def split: option.splits)

lemma keyless_own_user [keyless]:
  "cmd_keys cmd = [] \<Longrightarrow> key_exchanges (snd (snd (set_own_user sndr cmd f a))) = []"
  using keyless_send_commands [of "[([], cmd)]" sndr a]
  by (auto simp: set_own_user_def split: sum.splits prod.splits option.splits)

lemma keyless_channel_commands [keyless]:
  "key_exchanges (snd (select_channel sndr k a)) = []" "key_exchanges (snd (join_channel sndr k a)) = []"
  "key_exchanges (snd (snd (toggle_listen sndr k a))) = []" "key_exchanges (snd (mark_read k a)) = []"
  "key_exchanges (snd (mark_dm_read k a)) = []" "key_exchanges (snd (select_dm_user k a)) = []"
  by (simp_all add: select_channel_def join_channel_def toggle_listen_def mark_read_def mark_dm_read_def select_dm_user_def
      emit_unreads_def emit_dm_unreads_def Let_def keyless_send_quietly cmd_keys_def)

lemma keyless_message_commands [keyless]:
  "key_exchanges (snd (snd (send_message env sndr k body a))) = []"
  "key_exchanges (snd (snd (edit_message env sndr k i body a))) = []"
  "key_exchanges (snd (snd (send_dm env sndr k body a))) = []"
  "key_exchanges (snd (snd (set_user_comment sndr comment a))) = []"
  "key_exchanges (snd (snd (set_user_texture sndr texture a))) = []"
  "key_exchanges (snd (snd (delete_pchat_messages sndr tx k ids from to h a))) = []"
  "key_exchanges (snd (dismiss_key_share k peer a)) = []"
  by (auto simp: send_message_def edit_message_def send_dm_def set_user_comment_def set_user_texture_def
      delete_pchat_messages_def dismiss_key_share_def Let_def keyless cmd_keys_def
      split: option.splits sum.splits prod.splits)

lemma keyless_results:
  "r = (x, effs) \<Longrightarrow> key_exchanges (snd r) = [] \<Longrightarrow> key_exchanges effs = []"
  "r' = (x', a, effs) \<Longrightarrow> key_exchanges (snd (snd r')) = [] \<Longrightarrow> key_exchanges effs = []"
  by simp_all

lemma keyless_user_command: "user_command env sndr a a' effs \<Longrightarrow> key_exchanges effs = []"
proof (induction rule: user_command.induct)
  case (uc_takeover k mode a effs)
  then show ?case by (auto simp: key_takeover_def keyless split: if_splits)
qed ((erule keyless_results, rule keyless) | simp)+

section \<open>Runs and monitors\<close>

text \<open>A run of steps, each with what it adds to the trace.\<close>

inductive effect_run :: "('s \<Rightarrow> 'e list \<Rightarrow> 's \<Rightarrow> bool) \<Rightarrow> 's \<Rightarrow> 'e list \<Rightarrow> 's \<Rightarrow> bool" for step where
  er_start: "effect_run step a [] a"
| er_step: "effect_run step a es b \<Longrightarrow> step b fs c \<Longrightarrow> effect_run step a (es @ fs) c"

text \<open>A monitor watches the trace; every step keeps its agreement with the state.\<close>

locale monitored_run =
  fixes step :: "'s \<Rightarrow> 'e list \<Rightarrow> 's \<Rightarrow> bool"
    and watch :: "'e list \<Rightarrow> 'm \<Rightarrow> 'm"
    and agrees :: "'s \<Rightarrow> 'm \<Rightarrow> bool"
  assumes watch_Nil: "watch [] m = m"
    and watch_append: "watch (es @ fs) m = watch fs (watch es m)"
    and step_agrees: "step a es b \<Longrightarrow> agrees a m \<Longrightarrow> agrees b (watch es m)"
begin

lemma run_agrees: "effect_run step a es b \<Longrightarrow> agrees a m \<Longrightarrow> agrees b (watch es m)"
  by (induction rule: effect_run.induct) (simp_all add: watch_Nil watch_append step_agrees)

end

section \<open>A key leaves by consent only\<close>

datatype consent_entry = Approved u32 string | KeySent PchatKeyExchange

text \<open>A step of the application and what it adds to the log; \<open>files\<close> are the operations of the file system. Approving counts when the request was pending in
  the active session.\<close>

inductive consent_step ::
    "(VoiceState \<Rightarrow> 'br AppState \<Rightarrow> 'br AppState) \<Rightarrow> 'fs file_ops \<Rightarrow> 'br AppState \<Rightarrow> consent_entry list \<Rightarrow> 'br AppState
      \<Rightarrow> bool" for start files where
  cs_part: "de_files D = files \<Longrightarrow> session_part D (as_heap a c) st' effs \<Longrightarrow>
    consent_step start files a (map KeySent (key_exchanges effs)) (update_cell c (\<lambda>_. st') a)"
| cs_command: "user_command env sndr a a' effs \<Longrightarrow> consent_step start files a (map KeySent (key_exchanges effs)) a'"
| cs_connect: "connect_begin host port username cert_label i ident a = (Inr effs, a') \<Longrightarrow>
    consent_step start files a (map KeySent (key_exchanges effs)) a'"
| cs_connected: "handle_connect_result result auth username password i c a = (a', effs) \<Longrightarrow>
    consent_step start files a (map KeySent (key_exchanges effs)) a'"
| cs_disconnect: "disconnect_begin i a = (Inr (c, is_active, effs), a') \<Longrightarrow>
    consent_step start files a (map KeySent (key_exchanges effs)) a'"
| cs_disconnected: "disconnect_finish i c is_active a = (a', effs) \<Longrightarrow>
    consent_step start files a (map KeySent (key_exchanges effs)) a'"
| cs_switch: "switch_active_with_voice start i a = (r, a') \<Longrightarrow> consent_step start files a [] a'"
| cs_approve: "approve_key_share env sndr k peer a = (r, a', effs) \<Longrightarrow>
    consent_step start files a
      ((if list_ex (is_share k peer) (pending_shares (active a)) then [Approved k peer] else []) @ map KeySent (key_exchanges effs)) a'"
| cs_approved: "approve_key_share_finish sndr h k peer a = (a', effs) \<Longrightarrow>
    consent_step start files a (map KeySent (key_exchanges effs)) a'"

definition sent_to :: "u32 \<Rightarrow> string \<Rightarrow> PchatKeyExchange \<Rightarrow> bool" where
  "sent_to k peer x \<longleftrightarrow> PchatKeyExchange_channel_id x = Some k \<and> PchatKeyExchange_recipient_hash x = Some peer"

fun keys_sent :: "u32 \<Rightarrow> string \<Rightarrow> consent_entry list \<Rightarrow> nat" where
  "keys_sent k peer [] = 0"
| "keys_sent k peer (KeySent x # es) = (if sent_to k peer x then 1 else 0) + keys_sent k peer es"
| "keys_sent k peer (Approved j p # es) = keys_sent k peer es"

lemma keys_sent_append [simp]: "keys_sent k peer (xs @ ys) = keys_sent k peer xs + keys_sent k peer ys"
  by (induction k peer xs rule: keys_sent.induct) simp_all

lemma position_list_ex: "position P xs = Some i \<Longrightarrow> list_ex P xs"
  by (auto simp: list_ex_iff dest!: position_Some)

text \<open>What an approval sends: at most one exchange, for the channel and the peer that were approved.\<close>

lemma approve_sends:
  assumes "approve_key_share env sndr k peer a = (r, a', effs)"
  shows "key_exchanges effs = [] \<or>
    list_ex (is_share k peer) (pending_shares (active a)) \<and> (\<exists>x. key_exchanges effs = [x] \<and> sent_to k peer x)"
proof -
  have made: "kx_channel_id w = k \<and> kx_recipient_hash w = peer"
    if "distribute_key lib rd km k mode e peer pub rid ts = Inr w" for lib rd mode e pub rid ts w and km :: "'a KeyManager"
    using that by (auto simp: distribute_key_def and_then_eq_Inr Let_def)
  have sent: "sent_to k peer x" if "build_share env k peer rid st = Inr (h, x)" for rid st h x
    using that by (auto simp: build_share_def sent_to_def wire_key_exchange_to_proto_def dest!: made
        split: option.splits sum.splits)
  show ?thesis
    using assms by (auto simp: approve_key_share_def Let_def keyless cmd_keys_def dest: sent position_list_ex
        split: option.splits sum.splits prod.splits)
qed

lemma consent_step_keys:
  assumes "consent_step start files a es b"
  shows "keys_sent k peer es \<le> count_list es (Approved k peer)"
  using assms
proof (cases rule: consent_step.cases)
  case (cs_approve env sndr j p r effs)
  then show ?thesis using approve_sends [OF cs_approve(2)] by (auto simp: sent_to_def)
next
  case (cs_connected result auth username password i c effs)
  then show ?thesis using keyless_sessions(2) [of result auth username password i c a] by simp
next
  case (cs_disconnected i c is_active effs)
  then show ?thesis using keyless_sessions(4) [of i c is_active a] by simp
next
  case (cs_approved sndr h j p effs)
  then show ?thesis by (auto simp: approve_key_share_finish_def cmd_keys_def split: if_splits)
qed (simp_all add: keyless_session_part keyless_user_command keyless_sessions)

text \<open>The monitor counts the exchanges sent to a peer for a channel, and the approvals.\<close>

fun count_consent :: "u32 \<Rightarrow> string \<Rightarrow> consent_entry list \<Rightarrow> nat \<times> nat \<Rightarrow> nat \<times> nat" where
  "count_consent k peer es (n, approved) = (n + keys_sent k peer es, approved + count_list es (Approved k peer))"

interpretation consent: monitored_run "consent_step start files" "count_consent k peer" "\<lambda>a (n, approved). n \<le> approved"
proof (unfold_locales, goal_cases)
  case (3 a es b m)
  then show ?case using consent_step_keys [of start files a es b k peer] by (cases m) auto
qed auto

text \<open>C9: A key leaves with the consent of the user only: in every run of the application, whatever the
  servers send, however the tasks of joining a channel, the connections and the commands of the user
  interleave, the exchanges sent to a peer for a channel are no more than the pending requests for that peer
  and channel that the user approved.\<close>

theorem keys_leave_by_consent:
  assumes "effect_run (consent_step start files) a es b"
  shows "keys_sent k peer es \<le> count_list es (Approved k peer)"
  using consent.run_agrees [OF assms, of "(0, 0)" k peer] by simp

section \<open>What an approval gives the peer\<close>

lemma key_exchange_from_proto:
  assumes "kx_protocol w = as_wire_str p"
  shows "proto_to_wire_key_exchange (wire_key_exchange_to_proto w) = w"
proof -
  have mode: "proto_to_protocol (Some (protocol_to_proto p)) = p"
    by (cases p) (simp_all add: proto_to_protocol_def)
  have version: "(ucast (ucast v :: u32) :: u8) = v" for v :: u8
    by (rule bit_word_eqI) (auto simp: bit_simps)
  show ?thesis
    using assms by (simp add: proto_to_wire_key_exchange_def wire_key_exchange_to_proto_def mode version)
qed

lemma get_set_pchat [simp]: "get_pchat (set_pchat p st) = Some p"
  by (simp add: get_pchat_def set_pchat_def)

lemma holds_archive_key_map_km:
  assumes "\<And>km. suite (f km) = suite km" "\<And>km. archive_keys (f km) = archive_keys km" and "holds_archive_key lib st ch key"
  shows "holds_archive_key lib (map_km f st) ch key"
  using assms by (auto simp: holds_archive_key_def map_km_def)

lemma holds_after_finalize:
  assumes "holds_archive_key lib st ch key"
  shows "holds_archive_key lib (fst (finalize_key_acceptance ch protocol h st)) ch key"
proof -
  have holder: "holds_archive_key lib (map_km (record_key_holder c x) s) ch key" if "holds_archive_key lib s ch key"
    for c x s using that by (intro holds_archive_key_map_km) (simp_all add: record_key_holder_def)
  have shares: "holds_archive_key lib (set_pending_shares xs s) ch key" if "holds_archive_key lib s ch key" for xs s
    using that by (simp add: holds_archive_key_def set_pending_shares_def get_pchat_def)
  have retry: "holds_archive_key lib (fst (retry_decrypt_pending_messages c s)) ch key" if "holds_archive_key lib s ch key" for c s
    using that by (auto simp: holds_archive_key_def retry_decrypt_pending_messages_def get_pchat_def set_pchat_def Let_def)
  have report: "holds_archive_key lib (fst (send_key_holder_report c s)) ch key" if "holds_archive_key lib s ch key" for c s
    using that holder by (auto simp: send_key_holder_report_def split: option.splits)
  show ?thesis
    using assms by (auto simp: finalize_key_acceptance_def Let_def split_beta intro!: report retry shares holder split: option.splits)
qed

text \<open>An exchange the key manager accepts, without a request of ours or as the first answer to it.\<close>

lemma accept_exchange:
  assumes p: "get_pchat st = Some p" "suite (ps_key_manager p) = XChaCha20Suite lib" "env_crypto env = lib"
    and x: "verify_key_exchange_signature lib (ps_key_manager p) x = Inr ()"
      "decrypt_exchanged_key (ps_key_manager p) x = Inr key" "length key = 32"
      "length (epoch_fingerprint lib key) = 8" "kx_epoch_fingerprint x = epoch_fingerprint lib key"
      "kx_protocol x = as_wire_str PP_FancyV1FullArchive" "kx_channel_id x = ch"
    and first: "case kx_request_id x of None \<Rightarrow> True | Some rid \<Rightarrow> hm_get (pending_consensus (ps_key_manager p)) rid = None"
  shows "\<exists>st'. try_accept_key_exchange env x PP_FancyV1FullArchive (kx_request_id x) st = Some (True, st') \<and>
    holds_archive_key lib st' ch key"
proof -
  let ?km = "ps_key_manager p"
  obtain km' where s: "store_exchanged_key (env_instant env) PP_FancyV1FullArchive x key None ?km = (Inr (), km')"
    by (cases "kx_request_id x") (auto simp: store_exchanged_key_def)
  have r: "receive_key_exchange lib (env_instant env) (env_now_ms env) x None ?km = (Inr (), km')"
    using x s by (intro receive_key_exchange_intro [where key = key]) (simp_all add: validate_timestamp_freshness_def)
  let ?km1 = "record_key_holder ch (kx_sender_hash x) km'"
  show ?thesis
  proof (cases "kx_request_id x")
    case None
    with s x(7) have "hm_get (archive_keys km') ch = Some (\<lparr>ck_key = key\<rparr>, Unverified)" "suite km' = suite ?km"
      by (auto simp: store_exchanged_key_def)
    with None p r x(7) show ?thesis
      by (simp add: try_accept_key_exchange_def Let_def has_key_def holds_archive_key_def record_key_holder_def)
  next
    case (Some rid)
    let ?c = "add_response (kx_sender_hash x) key (new_collector (env_instant env) None)"
    have km': "km' = ?km\<lparr>pending_consensus := hm_insert rid ?c (pending_consensus ?km)\<rparr>"
      using s Some first by (simp add: store_exchanged_key_def hm_entry_modify_def)
    have c: "hm_get (pending_consensus ?km1) rid = Some ?c" by (simp add: km' record_key_holder_def)
    obtain t k where ev: "evaluate_consensus rid ch [] ?km1 = Some (Inr (t, Some k),
          ?km1\<lparr>pending_consensus := hm_remove rid (pending_consensus ?km1),
            archive_keys := hm_insert ch (\<lparr>ck_key = k\<rparr>, t) (archive_keys ?km1)\<rparr>)"
        and spec: "consensus_spec (\<lambda>s. is_trusted_authority ?km1 s ch [])
          (compute_consensus_threshold (cl_observed_members ?c)) (cl_responses ?c) t k"
      using x(3) by (rule_tac evaluate_consensus_outcome [OF c, of ch "[]"]) (auto simp: add_response_def new_collector_def)
    have "k = key"
      using spec by (auto simp: consensus_spec_def add_response_def new_collector_def split: if_splits)
    with ev r p x(7) Some show ?thesis
      by (simp add: try_accept_key_exchange_def Let_def holds_archive_key_def km' record_key_holder_def)
  qed
qed

text \<open>C8: An approved share gives the peer the key. When the user approves a pending request and the sends
  succeed, the exchange that goes out, relayed by the server as it is, is accepted by the peer that has our
  announcement: afterwards the peer holds the key of the channel that we hold.\<close>

theorem approved_key_reaches_peer:
  fixes a :: "'br AppState" and st :: "'br SharedState"
  assumes "crypto_laws lib" and "env_crypto env = lib" and "env_crypto env' = lib"
    and "position (is_share ch peer) (pending_shares (active a)) = Some i"
    and "get_pchat (active a) = Some pa" and "seeded lib sa (ps_key_manager pa)"
    and "hm_get (archive_keys (ps_key_manager pa)) ch = Some (\<lparr>ck_key = key\<rparr>, trust)" and "length key = 32"
    and "get_peer (ps_key_manager pa) peer = Some rec" and "pk_dh_public rec = dh_public_bytes (ps_key_manager pb)"
    and "active_handle a = Some h" and "sndr h 0 = None" and "length (rd_nonce (env_rng env)) = 24"
    and "get_pchat st = Some pb" and "seeded lib sb (ps_key_manager pb)"
    and "hm_get (peer_keys (ps_key_manager pb)) (ps_own_cert_hash pa) =
      Some (announced_record (build_key_announce (ps_key_manager pa) (ps_own_cert_hash pa) ts))"
    and "case ks_request_id (pending_shares (active a) ! i) of None \<Rightarrow> True
      | Some rid \<Rightarrow> hm_get (pending_consensus (ps_key_manager pb)) rid = None"
  shows "\<exists>x a' effs st' out.
    approve_key_share env sndr ch peer a = (Inr h, a', effs) \<and> key_exchanges effs = [x] \<and>
    PchatKeyExchange_handle env' x st = Some (st', out) \<and> holds_archive_key lib st' ch key"
proof -
  let ?rid = "ks_request_id (pending_shares (active a) ! i)"
  have handle: "cf_client_handle (ss_conn (active a)) = Some h" using assms(11) by (simp add: active_handle_def)
  obtain w where w: "distribute_key lib (env_rng env) (ps_key_manager pa) ch PP_FancyV1FullArchive 0 peer
        (dh_public_bytes (ps_key_manager pb)) ?rid (env_now_ms env) = Inr w"
      "kx_channel_id w = ch" "kx_request_id w = ?rid" "kx_protocol w = as_wire_str PP_FancyV1FullArchive"
      "kx_epoch_fingerprint w = epoch_fingerprint lib key"
      "verify_key_exchange_signature lib (ps_key_manager pb) (w\<lparr>kx_sender_hash := ps_own_cert_hash pa\<rparr>) = Inr ()"
      "decrypt_exchanged_key (ps_key_manager pb) (w\<lparr>kx_sender_hash := ps_own_cert_hash pa\<rparr>) = Inr key"
    by (rule distributed_key_received [OF assms(1,6,15,7,8,13,16)])
  let ?w = "w\<lparr>kx_sender_hash := ps_own_cert_hash pa\<rparr>"
  have wire: "proto_to_wire_key_exchange (wire_key_exchange_to_proto ?w) = ?w"
    using w(4) by (intro key_exchange_from_proto [of _ PP_FancyV1FullArchive]) simp
  obtain s where s: "try_accept_key_exchange env' ?w PP_FancyV1FullArchive ?rid st = Some (True, s)" "holds_archive_key lib s ch key"
    using accept_exchange [OF assms(14) _ assms(3) w(6,7) assms(8), of ch] assms(15,17) w crypto_lawsD(1) [OF assms(1)]
    by (auto simp: seeded_def epoch_fingerprint_def)
  have out: "build_share env ch peer ?rid s1 = Inr (h, wire_key_exchange_to_proto ?w)"
    if "get_pchat s1 = Some pa" "ss_conn s1 = ss_conn (active a)" for s1
    using that assms(2,9,10) w(1) handle by (simp add: build_share_def)
  have built: "build_share env ch peer ?rid (set_pending_shares ps (active a)) = Inr (h, wire_key_exchange_to_proto ?w)" for ps
    using assms(5) by (intro out) (simp_all add: set_pending_shares_def get_pchat_def)
  have approved: "\<exists>a' effs. approve_key_share env sndr ch peer a = (Inr h, a', effs) \<and>
      key_exchanges effs = [wire_key_exchange_to_proto ?w]"
    using assms(4,12) by (simp add: approve_key_share_def Let_def built keyless cmd_keys_def)
  have "\<exists>st' out. PchatKeyExchange_handle env' (wire_key_exchange_to_proto ?w) st = Some (st', out) \<and> holds_archive_key lib st' ch key"
    using s w(2,3,4) holds_after_finalize [OF s(2), of PP_FancyV1FullArchive "ps_own_cert_hash pa"]
    by (simp add: PchatKeyExchange_handle_def handle_proto_key_exchange_def wire Let_def split_beta)
  with approved show ?thesis by blast
qed

definition demo_pchat :: "string \<Rightarrow> unit KeyManager \<Rightarrow> unit PchatState" where
  "demo_pchat own km = \<lparr>ps_key_manager = km, ps_own_cert_hash = own, ps_seed = [], ps_fetched_channels = {}, ps_identity_dir = None,
     ps_signal_bridge = False, ps_signal_bridge_load_failed = False, ps_local_cache = None, ps_pending_signal_envelopes = []\<rparr>"

definition demo_keeper_keys :: "unit KeyManager" where
  "demo_keeper_keys = (store_archive_key 5 (replicate 32 9) Verified (demo_manager 1))
     \<lparr>peer_keys := [(''bob'', announced_record (build_key_announce (demo_manager 2) ''bob'' 5))]\<rparr>"

definition demo_taker_keys :: "unit KeyManager" where
  "demo_taker_keys = (demo_manager 2)
     \<lparr>peer_keys := [(''alice'', announced_record (build_key_announce demo_keeper_keys ''alice'' 5))]\<rparr>"

definition demo_share :: PendingKeyShare where
  "demo_share = \<lparr>ks_channel_id = 5, ks_peer_cert_hash = ''bob'', ks_peer_name = ''Bob'', ks_request_id = Some ''r''\<rparr>"

definition demo_keeper :: "unit AppState" where
  "demo_keeper = AppState_new\<lparr>as_heap := \<lambda>c. set_pending_shares [demo_share] (set_pchat (demo_pchat ''alice'' demo_keeper_keys) demo_member)\<rparr>"

definition demo_taker :: "unit SharedState" where
  "demo_taker = set_pchat (demo_pchat ''bob'' demo_taker_keys) demo_member"

lemma demo_share_facts:
  "active demo_keeper = set_pending_shares [demo_share] (set_pchat (demo_pchat ''alice'' demo_keeper_keys) demo_member)"
  "position (is_share 5 ''bob'') (pending_shares (active demo_keeper)) = Some 0"
  "get_pchat (active demo_keeper) = Some (demo_pchat ''alice'' demo_keeper_keys)" "active_handle demo_keeper = Some 0"
  by (simp_all add: active_def demo_keeper_def pending_shares_def set_pending_shares_def is_share_def demo_share_def
      get_pchat_def set_pchat_def active_handle_def demo_member_def demo_state_def)

theorem approved_key_reaches_peer_witness:
  "\<exists>x a' effs st' out.
    approve_key_share demo_uuid_env (\<lambda>h n. None) 5 ''bob'' demo_keeper = (Inr 0, a', effs) \<and> key_exchanges effs = [x] \<and>
    PchatKeyExchange_handle demo_uuid_env x demo_taker = Some (st', out) \<and> holds_archive_key demo_crypto st' 5 (replicate 32 9)"
proof (rule approved_key_reaches_peer)
  show "crypto_laws demo_crypto" by (rule crypto_laws_demo)
  show "env_crypto demo_uuid_env = demo_crypto" "env_crypto demo_uuid_env = demo_crypto" "length (rd_nonce (env_rng demo_uuid_env)) = 24"
    by (simp_all add: demo_uuid_env_def App_Text.demo_env_def demo_draw_def)
  show "seeded demo_crypto (demo_seed 1) (ps_key_manager (demo_pchat ''alice'' demo_keeper_keys))"
      "seeded demo_crypto (demo_seed 2) (ps_key_manager (demo_pchat ''bob'' demo_taker_keys))"
    using seeded_demo [of 1] seeded_demo [of 2]
    by (simp_all add: seeded_def demo_pchat_def demo_keeper_keys_def demo_taker_keys_def store_archive_key_def)
  show "hm_get (archive_keys (ps_key_manager (demo_pchat ''alice'' demo_keeper_keys))) 5 = Some (\<lparr>ck_key = replicate 32 9\<rparr>, Verified)"
    by (simp add: demo_pchat_def demo_keeper_keys_def store_archive_key_def)
  show "get_peer (ps_key_manager (demo_pchat ''alice'' demo_keeper_keys)) ''bob'' =
      Some (announced_record (build_key_announce (demo_manager 2) ''bob'' 5))"
    by (simp add: demo_pchat_def demo_keeper_keys_def get_peer_def)
  show "pk_dh_public (announced_record (build_key_announce (demo_manager 2) ''bob'' 5)) =
      dh_public_bytes (ps_key_manager (demo_pchat ''bob'' demo_taker_keys))"
    by (simp add: demo_pchat_def demo_taker_keys_def announced_record_def build_key_announce_def dh_public_bytes_def Let_def)
  show "hm_get (peer_keys (ps_key_manager (demo_pchat ''bob'' demo_taker_keys))) (ps_own_cert_hash (demo_pchat ''alice'' demo_keeper_keys)) =
      Some (announced_record (build_key_announce (ps_key_manager (demo_pchat ''alice'' demo_keeper_keys))
        (ps_own_cert_hash (demo_pchat ''alice'' demo_keeper_keys)) 5))"
    by (simp add: demo_pchat_def demo_taker_keys_def)
  show "get_pchat demo_taker = Some (demo_pchat ''bob'' demo_taker_keys)" by (simp add: demo_taker_def)
  show "case ks_request_id (pending_shares (active demo_keeper) ! 0) of None \<Rightarrow> True
      | Some rid \<Rightarrow> hm_get (pending_consensus (ps_key_manager (demo_pchat ''bob'' demo_taker_keys))) rid = None"
    by (simp add: demo_share_facts(1) pending_shares_def set_pending_shares_def demo_share_def demo_pchat_def
        demo_taker_keys_def demo_manager_def KeyManager_new_def with_suite_def)
qed (simp_all add: demo_share_facts(2-4))

text \<open>The approval of the request above as a run: one key is sent, and one request was approved.\<close>

theorem keys_leave_by_consent_witness:
  "\<exists>es b. effect_run (consent_step (\<lambda>v a. a) demo_disk) demo_keeper es b \<and> es \<noteq> [] \<and>
     keys_sent 5 ''bob'' es \<le> count_list es (Approved 5 ''bob'')"
proof -
  obtain r a' effs where "approve_key_share demo_uuid_env (\<lambda>h n. None) 5 ''bob'' demo_keeper = (r, a', effs)"
    by (metis prod_cases3)
  from er_step [where step = "consent_step (\<lambda>v a. a) demo_disk", OF er_start cs_approve [OF this]]
  have run: "effect_run (consent_step (\<lambda>v a. a) demo_disk) demo_keeper
      (Approved 5 ''bob'' # map KeySent (key_exchanges effs)) a'"
    using position_list_ex [OF demo_share_facts(2)] by simp
  then show ?thesis using keys_leave_by_consent [OF run, of 5 "''bob''"] by blast
qed

end
