(* ===== verification/Spec2Isabelle.thy ===== *)
theory Spec2Isabelle
  imports Client Audio_Codec Key_Protocol Audio_Mixer Audio_Pipeline App_Voice
begin

text \<open>
  A verification of Fancy Mumble: the protocol library (src/crates/mumble-protocol, src/crates/fancy-utils) and
  the state of the application built on it (src/crates/mumble-tauri/src/state).

  \<^bold>\<open>The program.\<close> A Mumble client: a TCP connection carries framed protobuf control messages, a UDP
  socket carries voice packets encrypted with OCB2-AES128. The event loop (client.rs) takes work items
  from a priority queue (work_queue.rs) fed by the TCP reader, the UDP reader and the user, keeps the
  server's users and channels (state.rs), executes commands (command/), and translates the extension
  messages of Fancy Mumble for servers that do not know them (fancy_codec.rs). The persistent chat
  (persistent/) keeps histories of channels, exchanges channel keys between members and encrypts messages.
  The application (mumble-tauri) keeps one state per connected server, updates it in one handler per control
  message, sends the commands of the user to the server that is active, and tells the user interface what changed.

  \<^bold>\<open>The theories\<close>, in the order of their imports:

  \<^item> Prelude: machine types, errors, byte order, decimal text, hash maps (locale \<open>hash_map_laws\<close>).
  \<^item> Proto_Control, Proto_Pchat, Proto_Fancy: one record per protobuf message (proto/*.rs); Message: the
    enums of message.rs and the wire identifiers.
  \<^item> Crypt_State: the trait \<^verbatim>\<open>CryptState\<close> and its contract, the locale \<open>crypt_channel\<close>; Ocb2: the cipher
    mode and the packet state machine of transport/ocb2.rs, with its interpretation of the contract.
  \<^item> Tcp_Codec: framing and the reader and writer of transport/codec.rs and tcp.rs (locale \<open>frame_codec\<close>);
    Audio_Codec: voice packets and varints of transport/audio_codec.rs (locale \<open>audio_packet_codec\<close>);
    Udp: datagrams and the transport of transport/udp.rs (locale \<open>sized_crypt_channel\<close>).
  \<^item> Server_State: state.rs; Commands: the commands of command/; Fancy_Utils: the crate fancy-utils;
    Fancy_Codec: fancy_codec.rs and fancy_message_support.rs (locale \<open>fancy_codec\<close>).
  \<^item> Work_Queue: bounded channels (locale \<open>bounded_fifo\<close>) and work_queue.rs; Client_Udp and Client:
    client.rs and event.rs, with the whole client as the step relation \<open>client_step\<close>.
  \<^item> Pchat_Provider: the message stores of persistent/ (mod.rs, config.rs, provider.rs; locales
    \<open>message_store\<close>, \<open>replacing_store\<close>, \<open>lawful_backend\<close>); Pchat_Crypto: the cryptographic protocol of
    persistent/protocol/fancy_v1 (locale \<open>aead_box\<close>); Key_Manager: the key management of persistent/keys;
    Key_Protocol: its properties over the step relation \<open>key_step\<close>.
  \<^item> Audio_Stages: frames, codecs, capture and playback of audio/ (sample.rs, encoder.rs, decoder.rs, capture.rs,
    playback.rs) and the traits as records of operations; Audio_Filters: audio/filter/ (locale
    \<open>frame_filter\<close>, interpreted on every filter); Audio_Mixer: audio/mixer.rs with the step relation
    \<open>mixer_step\<close>; Audio_Pipeline: audio/pipeline.rs (locale \<open>numbered_encoder\<close>).
  \<^item> The application, paths below mumble-tauri/src/state: App_Types: types.rs; Local_Cache: local_cache.rs;
    App_State: the state of one session (mod.rs, pchat/mod.rs), the events and effects of a step;
    App_Notices: the handlers that only report (handler/acl.rs, ban_list.rs, user_list.rs, user_stats.rs,
    watch_sync.rs, draw_stroke.rs, link_preview.rs and others); App_Text: handler/text_message.rs; App_Keys:
    pchat/key_exchange.rs, key_sharing.rs, conversion.rs; App_Signal: pchat/signal_bridge.rs; App_Pchat:
    pchat/inbound.rs, outbound.rs, handler/pchat.rs, read_receipt.rs; App_Roster: the handlers of users,
    channels and server data; App_Persist: pchat/persistence.rs; App_Init: handler/server_sync.rs and the
    tasks that prepare an encrypted channel; App_Sessions: registry.rs, shared_handle.rs, connection.rs with
    the step relation \<open>app_step\<close>, in which a disconnection is two steps with others in between; App_Dispatch: handler/mod.rs and the callbacks of event_handler.rs;
    App_Commands: channels.rs, messaging/, profile.rs, admin.rs, protocol_commands.rs, query.rs; App_Consent:
    commands/keyshare.rs, and monitors of runs (locale \<open>monitored_run\<close>) with the step relation
    \<open>consent_step\<close> of the whole application; App_Voice: audio.rs, audio_tasks.rs with the step relations
    \<open>voice_step\<close> of the commands and \<open>speak_run\<close> of the microphone loop and its sending task.

  \<^bold>\<open>How the model corresponds to the code.\<close> A struct is a record and an enum a datatype with the source's
  variants; a method is a definition that takes and returns the state; \<^verbatim>\<open>Result\<close> is a sum with the error
  on the left. Integers are words of their width. An awaited operation that cannot complete yet has the
  value \<open>None\<close>; every task of the client is the function of one iteration of its loop, and \<open>client_step\<close>
  lets the tasks, the event loop and the user's handle take turns in any order. Callbacks of the event
  handler are recorded in the state. A step of the application returns the new state and the list of its
  effects (events for the user interface, messages sent, tasks started, files written); the shared states
  behind \<^verbatim>\<open>Arc<Mutex<..>>\<close> are cells of an explicit heap, and a task that waits is split at its wait. The
  iteration order of a hash map is that of the association list. Logging is left out.

  \<^bold>\<open>Parameters.\<close> Third-party code is a parameter: the AES block functions (hypothesis \<open>aes_laws\<close>: decryption
  inverts encryption on 16-byte blocks), the protobuf codecs of prost (hypotheses \<open>prost_ok\<close>, \<open>udp_ok\<close>:
  decoding an encoded message gives it back), IEEE arithmetic, clocks, the outcomes of connecting,
  the data and errors that sockets and streams give, and the primitives of the persistent chat (hypothesis \<open>crypto_laws\<close>: authenticated
  decryption inverts encryption, key agreement is symmetric, own signatures verify), libopus (hypothesis
  \<open>opus_dec_ok\<close>: a decoded packet is not longer than the buffer it is decoded into) and the arithmetic on \<^verbatim>\<open>f32\<close>. For the application they are the file system (\<open>file_ops_ok\<close>: a file reads back
  as written), the JSON and cache encodings (\<open>key_json_ok\<close>, \<open>cache_lib_ok\<close>), new identifiers, the outcomes of
  sending, the outcomes of opening audio devices, and the Signal bridge. Each theorem with such a hypothesis has a witness with concrete functions.

  \<^bold>\<open>What the lemmas show.\<close> Round trips of the codecs; the refinement of a byte stream or a datagram link to
  the list of messages sent; the invariants of the crypt state, the registries and the client over
  all their steps; what each operation does on every branch, errors included; that the loop drains its
  queue and ends; bounds on the channels and on resync requests; that paging
  returns a history, and that a channel key and the messages under it reach a member; that the mixer keeps its
  buffers bounded and its speakers apart, that filters keep the shape of a frame, and which ticks and
  packets the pipelines produce. For the application: that its users and channels are those of the protocol
  library whatever the server sends, that the active session is the one commands work on, that connecting leaves
  other sessions alone, which threads and counters a text message changes, that a message in an encrypted channel is
  shown once by every member with the key, that the cache and the archive keys survive a restart, that a channel key
  leaves with the consent of the user only and then reaches the peer, that the flags at the server are those of
  the voice state, that what the microphone hears is sent in the active state only and measured only while a test runs, and that
  peers show the talking of the speaker if they get the first and the last packet of each talk spurt. Some theorems record behaviour that a
  comment or a reader would not expect; they are listed as findings of the manifest.

  \<^bold>\<open>Bounds and termination.\<close> No fuel is used: the loops over bytes and blocks recurse on the input, the
  retry loop has a measure, a loop that runs forever is modelled by its iteration, and the loop that discards captured
  audio, which may not end, is a partial function. Channel capacities
  (256, 64, 32, 128 for the work queue, 64 outbound, 4 for nonces) are those of the code.

  \<^bold>\<open>Not modelled.\<close> TLS, name resolution and sockets; audio devices and the denoisers (foreign
  networks); of the application the user interface, windows, notifications and updates, the Android services,
  offloading, search and recording, the HTTP clients (file_server.rs, emotes.rs), and update_ban_list; the Signal bridge, a
  foreign library, which enters as the operations \<open>signal_ops\<close>; the MessagePack encoding of wire.rs,
  generated by serde; the trait E2EEProtocol, which nothing implements; the fuzzy search and the image filter.
\<close>

section \<open>From a command to the other end of the connection\<close>

text \<open>C6: A user command reaches the other end of the TCP connection. From any state with an open
  outbound channel and a connection that takes what is written, handling a command that sends no UDP message and letting the writer task run
  extends the byte stream by exactly the command's messages as the codec let them through; cut into
  chunks in any way, the peer's reader delivers these messages in order.\<close>

theorem command_reaches_peer:
  assumes "out_open s" and "udp_messages (execute cmd (el_state s)) = []"
    and "ms = encoded_messages L s (tcp_messages (execute cmd (el_state s)))"
    and "\<forall>m \<in> set ms. prost_ok (l_enc L) dec m \<and> length (payload_of (l_enc L) m) \<le> 8388608"
    and "[] \<notin> set chunks"
    and "tcp_stream L s @ concat chunks =
      (let s' = snd (handle_user_command L cmd s)
       in writer (tcp_writer ((tcp_writer_loop_step L ^^ length (queue (outbound s'))) s')))"
  shows "TcpReader_recvs dec (length ms) \<lparr>reader = chunks, read_buf = [], read_error = f\<rparr> =
    (map Inr ms, \<lparr>reader = [], read_buf = [], read_error = f\<rparr>)"
proof -
  let ?s' = "snd (handle_user_command L cmd s)"
  let ?t = "send_tcp_output L (tcp_messages (execute cmd (el_state s))) s"
  have s': "tcp_stream L ?s' = tcp_stream L ?t" "out_open ?s' = out_open ?t"
    using assms(2) by (simp_all add: handle_user_command_def Let_def emit_def tcp_stream_def out_open_def)
  have t: "tcp_stream L ?t = tcp_stream L s @ concat (map (tcp_frame (l_enc L)) ms)" "out_open ?t"
    using send_tcp_output_stream [OF assms(1), of L] assms(3) by simp_all
  from assms(6) writer_drains [of ?s' L] s' t
  have stream: "concat chunks = concat (map (tcp_frame (l_enc L)) ms)" by (simp add: Let_def)
  have valid: "\<forall>m \<in> set ms. tcp_valid (l_enc L) dec m"
    using assms(4) by (simp add: tcp_valid_def MAX_PAYLOAD_SIZE_def)
  from tcp.recv_many_stream [OF valid assms(5), of "[]" "[]" "read_end f"] stream obtain b c where
    "recv_many (read_end f) (Tcp_Codec.decode dec) (length ms) [] chunks = (map Inr ms, b, c)" "b @ concat c = []" "[] \<notin> set c"
    by auto
  then show ?thesis using concat_Nil_no_empty [of c] by (simp add: TcpReader_recvs_many)
qed

definition demo_ban_query :: ControlMessage where
  "demo_ban_query = CM_BanList (default_BanList\<lparr>BanList_query := Some True\<rparr>)"

definition demo_ban_dec :: prost_dec where
  "demo_ban_dec t p = (if t = MT_BanList \<and> p = [10, 20, 30] then Inr demo_ban_query else Inl ''bad'')"

theorem command_reaches_peer_witness:
  "TcpReader_recvs demo_ban_dec 1 \<lparr>reader = [[0, 10, 0], [0, 0, 3, 10, 20, 30]], read_buf = [], read_error = None\<rparr> =
    ([Inr demo_ban_query], \<lparr>reader = [], read_buf = [], read_error = None\<rparr>)"
proof -
  have out: "out_open demo_loop" by (simp add: out_open_def demo_loop_def event_loop_init_def chan_new_def chan_ok_def)
  have exec: "RequestBanList_execute st = default_CommandOutput\<lparr>tcp_messages := [demo_ban_query]\<rparr>" for st
    by (simp add: command_defs demo_ban_query_def)
  have enc: "codec_encode (l_enc demo_libs) (el_codec demo_loop) demo_ban_query (el_state demo_loop) = Some demo_ban_query"
    by (simp add: demo_loop_def event_loop_init_def LegacyCodec_encode_def demo_ban_query_def
        is_fancy_extension_def FANCY_EXTENSION_TYPE_THRESHOLD_def type_id_def)
  have ms: "[demo_ban_query] = encoded_messages demo_libs demo_loop (tcp_messages (execute Cmd_RequestBanList (el_state demo_loop)))"
    using enc by (simp add: exec encoded_messages_def default_CommandOutput_def List.map_filter_simps)
  have frame: "tcp_frame (l_enc demo_libs) demo_ban_query = [0, 10, 0, 0, 0, 3, 10, 20, 30]"
    by (simp add: tcp_frame_def payload_of_def demo_ban_query_def type_id_def demo_libs_def demo_enc_def be16_def be32_def)
  have ok: "prost_ok (l_enc demo_libs) demo_ban_dec demo_ban_query" "length (payload_of (l_enc demo_libs) demo_ban_query) \<le> 8388608"
    by (simp_all add: prost_ok_def payload_of_def demo_ban_query_def demo_ban_dec_def demo_libs_def demo_enc_def)
  have stream: "tcp_stream demo_libs demo_loop @ concat [[0, 10, 0], [0, 0, 3, 10, 20, 30]] =
      (let s' = snd (handle_user_command demo_libs Cmd_RequestBanList demo_loop)
       in writer (tcp_writer ((tcp_writer_loop_step demo_libs ^^ length (queue (outbound s'))) s')))"
    using send_tcp_output_stream [OF out, of demo_libs "[demo_ban_query]"] enc frame
      writer_drains [of "send_tcp_output demo_libs [demo_ban_query] demo_loop" demo_libs]
    by (simp add: handle_user_command_def exec default_CommandOutput_def Let_def encoded_messages_def default_CommandOutput_def List.map_filter_simps)
  show ?thesis
    using command_reaches_peer [OF out _ ms, of demo_ban_dec "[[0, 10, 0], [0, 0, 3, 10, 20, 30]]"] ok stream
    by (simp add: exec default_CommandOutput_def)
qed

end
